(* ===== verification/Prelude.thy ===== *)
theory Prelude
  imports Main "HOL-Library.AList"
begin

text \<open>
  What the component theories share: the effect type of an asynchronous TypeScript function,
  its combinators with their rewrite rules, JavaScript truthiness, the decimal rendering of
  template literals, and the list lemmas about ``first document that matches'' that the
  repositories need.
\<close>

section \<open>Fact collections\<close>

named_theorems io_simps \<open>unfolding rules of the effect combinators\<close>
named_theorems repo_simps \<open>what a repository operation does to the store\<close>
named_theorems frame_simps \<open>what an operation leaves unchanged\<close>

section \<open>Asynchronous functions: state passing with exceptions\<close>

text \<open>
  An \<open>async\<close> function takes the state of the world and either throws (\<open>Inl\<close>) or returns
  (\<open>Inr\<close>). A throw keeps the effects performed so far, as in JavaScript: nothing is undone
  unless the code runs inside a transaction.
\<close>

type_synonym ('s, 'e, 'a) io = "'s \<Rightarrow> ('e + 'a) \<times> 's"

definition return_io :: "'a \<Rightarrow> ('s, 'e, 'a) io" where
  "return_io x = (\<lambda>s. (Inr x, s))"

definition throw_io :: "'e \<Rightarrow> ('s, 'e, 'a) io" where
  "throw_io e = (\<lambda>s. (Inl e, s))"

definition bind_io :: "('s, 'e, 'a) io \<Rightarrow> ('a \<Rightarrow> ('s, 'e, 'b) io) \<Rightarrow> ('s, 'e, 'b) io" where
  "bind_io m f = (\<lambda>s. case m s of (Inl e, s') \<Rightarrow> (Inl e, s') | (Inr x, s') \<Rightarrow> f x s')"

text \<open>\<open>await m; k\<close> where the value of \<open>m\<close> is not used.\<close>

definition seq_io :: "('s, 'e, 'a) io \<Rightarrow> ('s, 'e, 'b) io \<Rightarrow> ('s, 'e, 'b) io" where
  "seq_io m k = bind_io m (\<lambda>_. k)"

text \<open>\<open>try { m } catch (e) { h(e) }\<close>.\<close>

definition catch_io :: "('s, 'e, 'a) io \<Rightarrow> ('e \<Rightarrow> ('s, 'f, 'a) io) \<Rightarrow> ('s, 'f, 'a) io" where
  "catch_io m h = (\<lambda>s. case m s of (Inl e, s') \<Rightarrow> h e s' | (Inr x, s') \<Rightarrow> (Inr x, s'))"

definition gets_io :: "('s \<Rightarrow> 'a) \<Rightarrow> ('s, 'e, 'a) io" where
  "gets_io f = (\<lambda>s. (Inr (f s), s))"

definition modify_io :: "('s \<Rightarrow> 's) \<Rightarrow> ('s, 'e, unit) io" where
  "modify_io f = (\<lambda>s. (Inr (), f s))"

definition lift_io :: "'e + 'a \<Rightarrow> ('s, 'e, 'a) io" where
  "lift_io r = (\<lambda>s. (r, s))"

text \<open>A \<open>for ... of\<close> loop that awaits its body on every element, and \<open>Promise.all\<close> of a
  mapped array (run in array order, failing with the first failure).\<close>

fun for_io :: "'a list \<Rightarrow> ('a \<Rightarrow> ('s, 'e, unit) io) \<Rightarrow> ('s, 'e, unit) io" where
  "for_io [] f = return_io ()"
| "for_io (x # xs) f = bind_io (f x) (\<lambda>_. for_io xs f)"

fun map_io :: "('a \<Rightarrow> ('s, 'e, 'b) io) \<Rightarrow> 'a list \<Rightarrow> ('s, 'e, 'b list) io" where
  "map_io f [] = return_io []"
| "map_io f (x # xs) = bind_io (f x) (\<lambda>y. bind_io (map_io f xs) (\<lambda>ys. return_io (y # ys)))"

lemma return_io_run [simp, io_simps]: "return_io x s = (Inr x, s)"
  by (simp add: return_io_def)

lemma throw_io_run [simp, io_simps]: "throw_io e s = (Inl e, s)"
  by (simp add: throw_io_def)

lemma gets_io_run [simp, io_simps]: "gets_io f s = (Inr (f s), s)"
  by (simp add: gets_io_def)

lemma modify_io_run [simp, io_simps]: "modify_io f s = (Inr (), f s)"
  by (simp add: modify_io_def)

lemma lift_io_run [simp, io_simps]: "lift_io r s = (r, s)"
  by (simp add: lift_io_def)

lemma bind_io_run [io_simps]:
  "bind_io m f s = (case m s of (Inl e, s') \<Rightarrow> (Inl e, s') | (Inr x, s') \<Rightarrow> f x s')"
  by (simp add: bind_io_def)

lemma catch_io_run [io_simps]:
  "catch_io m h s = (case m s of (Inl e, s') \<Rightarrow> h e s' | (Inr x, s') \<Rightarrow> (Inr x, s'))"
  by (simp add: catch_io_def)

lemma seq_io_run [io_simps]:
  "seq_io m k s = (case m s of (Inl e, s') \<Rightarrow> (Inl e, s') | (Inr x, s') \<Rightarrow> k s')"
  by (simp add: seq_io_def bind_io_def)

lemma bind_return_io [simp]: "bind_io (return_io x) f = f x"
  by (rule ext) (simp add: bind_io_run)

lemma bind_throw_io [simp]: "bind_io (throw_io e) f = throw_io e"
  by (rule ext) (simp add: bind_io_run)

lemma bind_gets_io_run [simp]: "bind_io (gets_io g) f s = f (g s) s"
  by (simp add: bind_io_run)

lemma bind_modify_io_run [simp]: "bind_io (modify_io g) f s = f () (g s)"
  by (simp add: bind_io_run)

lemma catch_return_io [simp]: "catch_io (return_io x) h = return_io x"
  by (rule ext) (simp add: catch_io_run)

lemma catch_throw_io [simp]: "catch_io (throw_io e) h = h e"
  by (rule ext) (simp add: catch_io_run)

lemma bind_io_assoc: "bind_io (bind_io m f) g = bind_io m (\<lambda>x. bind_io (f x) g)"
  by (rule ext) (simp add: bind_io_run split: prod.splits sum.splits)

lemma bind_io_Inr:
  "bind_io m f s = (Inr y, t) \<Longrightarrow> \<exists>x s'. m s = (Inr x, s') \<and> f x s' = (Inr y, t)"
  by (auto simp: bind_io_run split: prod.splits sum.splits)

text \<open>An invariant of the body is an invariant of the loop, thrown or not.\<close>

lemma for_io_invariant:
  assumes "\<And>x s. x \<in> set xs \<Longrightarrow> P s \<Longrightarrow> P (snd (f x s))" and "P s"
  shows "P (snd (for_io xs f s))"
  using assms
proof (induction xs arbitrary: s)
  case Nil
  then show ?case by simp
next
  case (Cons x xs)
  obtain r s' where m: "f x s = (r, s')" by (cases "f x s")
  have "P s'" using Cons.prems(1)[of x s] Cons.prems(2) m by simp
  then have "P (snd (for_io xs f s'))"
    using Cons.prems(1) by (intro Cons.IH) auto
  then show ?case using m \<open>P s'\<close> by (cases r) (simp_all add: bind_io_run)
qed

section \<open>Observations kept by a computation\<close>

text \<open>\<open>keeps f m\<close>: running \<open>m\<close> leaves the observation \<open>f\<close> of the state as it was, thrown or not.\<close>

named_theorems keeps_intros \<open>closure of \<open>keeps\<close>\<close>

definition keeps :: "('s \<Rightarrow> 'o) \<Rightarrow> ('s, 'e, 'a) io \<Rightarrow> bool" where
  "keeps f m \<longleftrightarrow> (\<forall>s. f (snd (m s)) = f s)"

lemma keepsD: "keeps f m \<Longrightarrow> m s = (r, s') \<Longrightarrow> f s' = f s"
  unfolding keeps_def by (metis snd_conv)

lemma keeps_weaken:
  assumes "keeps f m" and "\<And>s s'. f s = f s' \<Longrightarrow> g s = g s'"
  shows "keeps g m"
  using assms unfolding keeps_def by blast

lemma keeps_basic [keeps_intros]:
  "keeps f (return_io x)" "keeps f (throw_io e)" "keeps f (gets_io g)"
  by (simp_all add: keeps_def)

lemma keeps_bind [keeps_intros]:
  "keeps f m \<Longrightarrow> (\<And>x. keeps f (g x)) \<Longrightarrow> keeps f (bind_io m g)"
  unfolding keeps_def bind_io_run
  by (auto split: prod.splits sum.splits) (metis snd_conv)+

lemma keeps_catch [keeps_intros]:
  "keeps f m \<Longrightarrow> (\<And>e. keeps f (h e)) \<Longrightarrow> keeps f (catch_io m h)"
  unfolding keeps_def catch_io_run
  by (auto split: prod.splits sum.splits) (metis snd_conv)+

lemma keeps_option [keeps_intros]:
  "keeps f a \<Longrightarrow> (\<And>x. keeps f (b x)) \<Longrightarrow> keeps f (case v of None \<Rightarrow> a | Some x \<Rightarrow> b x)"
  by (cases v) simp_all

lemma keeps_if [keeps_intros]: "keeps f a \<Longrightarrow> keeps f b \<Longrightarrow> keeps f (if c then a else b)"
  by simp

lemma keeps_for [keeps_intros]: "(\<And>x. keeps f (g x)) \<Longrightarrow> keeps f (for_io xs g)"
proof (induction xs)
  case (Cons x xs)
  then show ?case by (simp only: for_io.simps) (intro keeps_bind, auto)
qed (simp only: for_io.simps keeps_basic)

text \<open>\<open>maintains Q m\<close>: whatever \<open>m\<close> does, it does not break \<open>Q\<close>.\<close>

definition maintains :: "('s \<Rightarrow> bool) \<Rightarrow> ('s, 'e, 'a) io \<Rightarrow> bool" where
  "maintains Q m \<longleftrightarrow> (\<forall>s. Q s \<longrightarrow> Q (snd (m s)))"

named_theorems maintains_intros \<open>closure of \<open>maintains\<close>\<close>

lemma maintainsD: "maintains Q m \<Longrightarrow> Q s \<Longrightarrow> m s = (r, s') \<Longrightarrow> Q s'"
  unfolding maintains_def by (metis snd_conv)

lemma maintains_basic [maintains_intros]:
  "maintains Q (return_io x)" "maintains Q (throw_io e)" "maintains Q (gets_io g)"
  "maintains Q (lift_io r)"
  by (simp_all add: maintains_def split: sum.split)

lemma maintains_bind [maintains_intros]:
  "maintains Q m \<Longrightarrow> (\<And>x. maintains Q (g x)) \<Longrightarrow> maintains Q (bind_io m g)"
  unfolding maintains_def bind_io_run
  by (force split: prod.splits sum.splits)

lemma maintains_catch [maintains_intros]:
  "maintains Q m \<Longrightarrow> (\<And>e. maintains Q (h e)) \<Longrightarrow> maintains Q (catch_io m h)"
  unfolding maintains_def catch_io_run
  by (force split: prod.splits sum.splits)

lemma maintains_cases [maintains_intros]:
  "maintains Q a \<Longrightarrow> maintains Q b \<Longrightarrow> maintains Q (if c then a else b)"
  "maintains Q a \<Longrightarrow> (\<And>x. maintains Q (h x)) \<Longrightarrow> maintains Q (case v of None \<Rightarrow> a | Some x \<Rightarrow> h x)"
  "maintains Q a \<Longrightarrow> (\<And>x xs. maintains Q (k x xs)) \<Longrightarrow> maintains Q (case l of [] \<Rightarrow> a | x # xs \<Rightarrow> k x xs)"
  "(\<And>x y. maintains Q (p x y)) \<Longrightarrow> maintains Q (case z of (x, y) \<Rightarrow> p x y)"
  "(\<And>x. maintains Q (u x)) \<Longrightarrow> (\<And>y. maintains Q (v' y)) \<Longrightarrow>
     maintains Q (case e of Inl x \<Rightarrow> u x | Inr y \<Rightarrow> v' y)"
  by (auto split: option.split list.split prod.split sum.split)

lemma maintains_Let [maintains_intros]: "(\<And>x. maintains Q (f x)) \<Longrightarrow> maintains Q (Let t f)"
  by simp

lemma maintains_for [maintains_intros]:
  "(\<And>x. maintains Q (g x)) \<Longrightarrow> maintains Q (for_io xs g)"
  by (induction xs) (simp_all only: for_io.simps maintains_basic maintains_bind)

lemma maintains_map [maintains_intros]:
  "(\<And>x. maintains Q (g x)) \<Longrightarrow> maintains Q (map_io g xs)"
  by (induction xs) (simp_all only: map_io.simps maintains_basic maintains_bind)

lemma maintains_weaken:
  "maintains Q m \<Longrightarrow> maintains R m \<Longrightarrow> maintains (\<lambda>s. Q s \<and> R s) m"
  by (simp add: maintains_def)

section \<open>JavaScript values\<close>

text \<open>
  \<open>undefined\<close> and \<open>null\<close> are \<open>None\<close>. A string is truthy when it is present and not empty, a
  number when it is present and not zero; \<open>a || b\<close> takes \<open>b\<close> where \<open>a\<close> is not truthy.
\<close>

definition truthy_str :: "string option \<Rightarrow> bool" where
  "truthy_str v = (case v of None \<Rightarrow> False | Some t \<Rightarrow> t \<noteq> [])"

definition truthy_num :: "int option \<Rightarrow> bool" where
  "truthy_num v = (case v of None \<Rightarrow> False | Some n \<Rightarrow> n \<noteq> 0)"

lemma truthy_str_simps [simp]:
  "truthy_str None = False" "truthy_str (Some t) = (t \<noteq> [])"
  by (simp_all add: truthy_str_def)

lemma truthy_num_simps [simp]:
  "truthy_num None = False" "truthy_num (Some n) = (n \<noteq> 0)"
  by (simp_all add: truthy_num_def)

text \<open>\<open>`${n}`\<close>: the decimal rendering of an integer.\<close>

definition digit_char :: "nat \<Rightarrow> char" where
  "digit_char d = char_of (48 + d)"

fun show_nat :: "nat \<Rightarrow> string" where
  "show_nat n = (if n < 10 then [digit_char n] else show_nat (n div 10) @ [digit_char (n mod 10)])"

declare show_nat.simps [simp del]

definition show_int :: "int \<Rightarrow> string" where
  "show_int i = (if i < 0 then CHR ''-'' # show_nat (nat (- i)) else show_nat (nat i))"

text \<open>The rendering of a natural number consists of digits and can be read back.\<close>

definition char_digit :: "char \<Rightarrow> nat" where
  "char_digit c = of_char c - 48"

definition read_nat :: "string \<Rightarrow> nat" where
  "read_nat s = foldl (\<lambda>n c. 10 * n + char_digit c) 0 s"

lemma char_digit_char: "d < 10 \<Longrightarrow> char_digit (digit_char d) = d"
  by (simp add: char_digit_def digit_char_def)

lemma digit_char_not_dash: "d < 10 \<Longrightarrow> digit_char d \<noteq> CHR ''-''"
proof
  assume "d < 10" and "digit_char d = CHR ''-''"
  then have "of_char (digit_char d) = (45 :: nat)" by simp
  with \<open>d < 10\<close> show False by (simp add: digit_char_def)
qed

lemma read_show_nat: "read_nat (show_nat n) = n"
proof (induction n rule: show_nat.induct)
  case (1 n)
  show ?case
  proof (cases "n < 10")
    case True
    then show ?thesis by (simp add: show_nat.simps[of n] read_nat_def char_digit_char)
  next
    case False
    then have "read_nat (show_nat (n div 10)) = n div 10" using 1 by simp
    then show ?thesis using False
      by (simp add: show_nat.simps[of n] read_nat_def char_digit_char)
  qed
qed

lemma show_nat_no_dash: "CHR ''-'' \<notin> set (show_nat n)"
proof (induction n rule: show_nat.induct)
  case (1 n)
  show ?case
  proof (cases "n < 10")
    case True
    then have "show_nat n = [digit_char n]" by (subst show_nat.simps) simp
    then show ?thesis using digit_char_not_dash[OF True] by simp
  next
    case False
    then have "show_nat n = show_nat (n div 10) @ [digit_char (n mod 10)]"
      by (subst show_nat.simps) simp
    moreover have "CHR ''-'' \<notin> set (show_nat (n div 10))" using 1 False by simp
    ultimately show ?thesis using digit_char_not_dash[of "n mod 10"] by simp
  qed
qed

lemma show_nat_inj: "show_nat m = show_nat n \<Longrightarrow> m = n"
  by (metis read_show_nat)

lemma show_int_nonneg: "0 \<le> i \<Longrightarrow> show_int i = show_nat (nat i)"
  by (simp add: show_int_def)

text \<open>\<open>`${v}`\<close> of an optional string: \<open>undefined\<close> is spelled out.\<close>

definition show_opt :: "string option \<Rightarrow> string" where
  "show_opt v = (case v of None \<Rightarrow> ''undefined'' | Some t \<Rightarrow> t)"

lemma show_opt_simps [simp]: "show_opt None = ''undefined''" "show_opt (Some t) = t"
  by (simp_all add: show_opt_def)

text \<open>\<open>xs.join(sep)\<close>.\<close>

fun joinWith :: "string \<Rightarrow> string list \<Rightarrow> string" where
  "joinWith sep [] = []"
| "joinWith sep [x] = x"
| "joinWith sep (x # y # ys) = x @ sep @ joinWith sep (y # ys)"

section \<open>First match in a list of documents\<close>

fun update_first :: "('d \<Rightarrow> bool) \<Rightarrow> ('d \<Rightarrow> 'd) \<Rightarrow> 'd list \<Rightarrow> 'd list" where
  "update_first p f [] = []"
| "update_first p f (d # ds) = (if p d then f d # ds else d # update_first p f ds)"

definition update_all :: "('d \<Rightarrow> bool) \<Rightarrow> ('d \<Rightarrow> 'd) \<Rightarrow> 'd list \<Rightarrow> 'd list" where
  "update_all p f ds = map (\<lambda>d. if p d then f d else d) ds"

fun delete_first :: "('d \<Rightarrow> bool) \<Rightarrow> 'd list \<Rightarrow> 'd list" where
  "delete_first p [] = []"
| "delete_first p (d # ds) = (if p d then ds else d # delete_first p ds)"

lemma find_SomeD: "find p ds = Some d \<Longrightarrow> d \<in> set ds \<and> p d"
  by (auto simp: find_Some_iff)

lemma find_NoneD: "find p ds = None \<Longrightarrow> d \<in> set ds \<Longrightarrow> \<not> p d"
  by (auto simp: find_None_iff)

lemma find_cong_list: "(\<And>d. d \<in> set ds \<Longrightarrow> p d = q d) \<Longrightarrow> find p ds = find q ds"
  by (induction ds) auto

lemma update_first_none: "\<forall>d \<in> set ds. \<not> p d \<Longrightarrow> update_first p f ds = ds"
  by (induction ds) auto

lemma update_first_map_key:
  assumes "\<And>d. p d \<Longrightarrow> k (f d) = k d"
  shows "map k (update_first p f ds) = map k ds"
  using assms by (induction ds) auto

lemma length_update_first [simp]: "length (update_first p f ds) = length ds"
  by (induction ds) auto

text \<open>With unique keys, updating the first document with key \<open>i\<close> changes exactly that document.\<close>

lemma update_first_unique:
  assumes "distinct (map k ds)"
  shows "update_first (\<lambda>d. k d = i) f ds = map (\<lambda>d. if k d = i then f d else d) ds"
  using assms
proof (induction ds)
  case Nil
  then show ?case by simp
next
  case (Cons d ds)
  show ?case
  proof (cases "k d = i")
    case True
    with Cons.prems have "\<forall>e \<in> set ds. k e \<noteq> i" by (auto simp: image_iff)
    then have "map (\<lambda>d. if k d = i then f d else d) ds = ds" by (induction ds) auto
    with True show ?thesis by simp
  next
    case False
    with Cons show ?thesis by simp
  qed
qed

lemma find_update_all_other:
  assumes "\<And>d. d \<in> set ds \<Longrightarrow> p d \<Longrightarrow> q (f d) = q d \<and> \<not> q d"
  shows "find q (update_all p f ds) = find q ds"
  using assms by (induction ds) (auto simp: update_all_def)

lemma find_map_if:
  assumes "\<And>d. d \<in> set ds \<Longrightarrow> c d \<Longrightarrow> q (f d) = q d"
  shows "find q (map (\<lambda>d. if c d then f d else d) ds)
    = map_option (\<lambda>d. if c d then f d else d) (find q ds)"
  using assms by (induction ds) auto

lemma find_key_unique:
  assumes "distinct (map k ds)" and "d \<in> set ds" and "k d = i"
  shows "find (\<lambda>e. k e = i) ds = Some d"
  using assms by (induction ds) (auto simp: image_iff)

text \<open>Reading back what \<open>update_first\<close> wrote, and reading something else.\<close>

lemma find_update_first_same:
  assumes "\<And>d. p d \<Longrightarrow> p (f d)"
  shows "find p (update_first p f ds) = map_option f (find p ds)"
  using assms by (induction ds) auto

lemma find_update_first_other:
  assumes "\<And>d. p d \<Longrightarrow> \<not> q d \<and> \<not> q (f d)"
  shows "find q (update_first p f ds) = find q ds"
  using assms by (induction ds) auto

lemma find_update_first_preserve:
  assumes "\<And>d. p d \<Longrightarrow> q (f d) = q d"
  shows "map_option k (find q (update_first p f ds)) = map_option k (find q ds)
    \<or> (\<exists>d. find q ds = Some d \<and> p d \<and> find q (update_first p f ds) = Some (f d))"
  using assms by (induction ds) auto

text \<open>Updating a document found by \<open>p\<close> through its unique key is updating the first match of \<open>p\<close>.\<close>

lemma update_first_by_key:
  assumes "find p ds = Some t" and "distinct (map k ds)"
  shows "update_first (\<lambda>d. k d = k t) f ds = update_first p f ds"
  using assms
proof (induction ds)
  case Nil
  then show ?case by simp
next
  case (Cons e ds)
  show ?case
  proof (cases "p e")
    case True
    with Cons.prems show ?thesis by simp
  next
    case False
    with Cons.prems have "find p ds = Some t" by simp
    then have "t \<in> set ds" by (auto dest: find_SomeD)
    with Cons.prems(2) have "k e \<noteq> k t" by (auto simp: image_iff)
    with False Cons show ?thesis by simp
  qed
qed

lemma update_first_unique_by_key:
  assumes "find (\<lambda>d. q d = i) ds = Some t" and "distinct (map k ds)" and "distinct (map q ds)"
  shows "update_first (\<lambda>d. k d = k t) f ds = map (\<lambda>d. if q d = i then f d else d) ds"
  using update_first_by_key[OF assms(1,2)] update_first_unique[OF assms(3)] by simp

lemma set_update_first_subset: "set (update_first p f ds) \<subseteq> set ds \<union> f ` set ds"
  by (induction ds) auto

lemma in_set_update_first: "e \<in> set (update_first p f ds) \<Longrightarrow> e \<in> set ds \<or> (\<exists>d\<in>set ds. p d \<and> e = f d)"
  by (induction ds) (auto split: if_splits)

end
