(* ===== verification/CoreEntities.thy ===== *)
theory CoreEntities
  imports Prelude
begin

text \<open>
  The shared data model of \<open>libs/core/src\<close>: the entity classes and their enums, the event names
  and payloads, the error codes, and the syncflow and trigger registries with the definitions
  that the provider modules register when \<open>entities/syncflow/index.ts\<close> is loaded.

  Reading of the TypeScript types: an optional property is an \<open>option\<close>; an index-signature
  object (\<open>[key: string]: any\<close>) is an association list of \<open>json\<close> values in insertion order; a
  \<open>Date\<close> is the number of milliseconds that \<open>getTime()\<close> returns; a version is an unbounded
  integer (the code only adds 1 to it). The \<open>createdAt\<close>/\<open>updatedAt\<close> timestamps, which mongoose
  maintains and no modelled code reads, are left out of the records.
\<close>

section \<open>Identifiers, dates and JSON values\<close>

type_synonym oid = string
type_synonym date = int

datatype json = JNull | JBool bool | JNum int | JStr string | JArr "json list"
  | JObj "(string \<times> json) list"

type_synonym Metadata = "(string \<times> string) list"

section \<open>Workflow status and provider types\<close>

datatype WorkflowStatus = IDLING | SCHEDULED | RUNNING

datatype WorkflowType = SYNCFLOW | OtherWorkflow string

datatype ProviderType = GOOGLE_SHEETS | MICROSOFT_EXCEL | AIR_TABLE

fun showProviderType :: "ProviderType \<Rightarrow> string" where
  "showProviderType GOOGLE_SHEETS = ''google-sheets''"
| "showProviderType MICROSOFT_EXCEL = ''microsoft-excel''"
| "showProviderType AIR_TABLE = ''air-table''"

lemma showProviderType_inj: "showProviderType p = showProviderType q \<Longrightarrow> p = q"
  by (cases p; cases q) simp_all

section \<open>Data providers and data sources\<close>

text \<open>
  One record for the configuration objects of \<open>GoogleSheetsDataSourceConfig\<close>,
  \<open>ExcelDataSourceConfig\<close> and the provider configurations they extend: every property that
  some provider type declares, absent where the other type does not have it.
\<close>

record DataSourceConfig =
  cfg_spreadsheetId :: "string option"
  cfg_sheetId :: "string option"
  cfg_userId :: "string option"
  cfg_driveId :: "string option"
  cfg_workbookId :: "string option"
  cfg_worksheetId :: "string option"
  cfg_worksheetName :: "string option"
  cfg_timezone :: "string option"
  cfg_auth :: "string option"       \<comment> \<open>auth.refreshToken\<close>
  cfg_destTableName :: "string option"  \<comment> \<open>dest?.tableName\<close>

record ProviderState =
  ps_downloadedAt :: "date option"

record DataProvider =
  dp_id :: oid
  dp_externalId :: "string option"
  dp_type :: ProviderType
  dp_config :: DataSourceConfig
  dp_state :: "ProviderState option"
  dp_metadata :: "Metadata option"
  dp_isDeleted :: bool

record DataSourceStatistics =
  st_rowsNumber :: int
  st_storageUsage :: int

record LimitationValue =
  lim_soft :: int
  lim_hard :: int

record DataSourceLimitation =
  dl_rowsNumber :: LimitationValue
  dl_storageUsage :: LimitationValue

record DataSource =
  ds_id :: oid
  ds_externalId :: string
  ds_externalLocalId :: string
  ds_name :: "string option"
  ds_provider_id :: oid
  ds_provider_type :: ProviderType
  ds_config :: DataSourceConfig
  ds_statistics :: DataSourceStatistics
  ds_limits :: DataSourceLimitation
  ds_metadata :: "Metadata option"
  ds_isDeleted :: bool

definition defaultDataSourceStatistics :: DataSourceStatistics where
  "defaultDataSourceStatistics = \<lparr>st_rowsNumber = 0, st_storageUsage = 0\<rparr>"

definition defaultDataSourceLimitation :: DataSourceLimitation where
  "defaultDataSourceLimitation =
    \<lparr>dl_rowsNumber = \<lparr>lim_soft = 5000, lim_hard = 10000\<rparr>,
     dl_storageUsage = \<lparr>lim_soft = 2147483648, lim_hard = 4294967296\<rparr>\<rparr>"

section \<open>Triggers\<close>

type_synonym TriggerConfig = "(string \<times> json) list"

datatype TriggerType = MANUAL | SCHEDULE | CRON | EVENT_WEBHOOK

record Trigger =
  tr_id :: oid
  tr_name :: string
  tr_type :: TriggerType
  tr_workflow_id :: oid
  tr_workflow_name :: string
  tr_workflow_type :: WorkflowType
  tr_sourceId :: oid
  tr_config :: "TriggerConfig option"
  tr_isDeleted :: bool

definition DEFAULT_CRON_TRIGGER_FREQUENCY :: int where
  "DEFAULT_CRON_TRIGGER_FREQUENCY = 4"

definition TN_MANUAL :: string where "TN_MANUAL = ''manual''"
definition TN_MIRCROSOFT_EXCEL_CRON :: string where
  "TN_MIRCROSOFT_EXCEL_CRON = ''microsoft-execel-cron''"
definition TN_GOOGLE_SHEETS_CRON :: string where "TN_GOOGLE_SHEETS_CRON = ''google-sheets-cron''"
definition TN_GOOGLE_SHEETS_WEBHOOK :: string where
  "TN_GOOGLE_SHEETS_WEBHOOK = ''google-sheets-webhook''"
definition TN_AIR_TABLE_WEBHOOK :: string where "TN_AIR_TABLE_WEBHOOK = ''air-table-webhook''"

section \<open>Syncflows\<close>

datatype SyncflowDirection = FORWARD | BACKWARD
datatype SyncflowMode = REFRESH | INCREMENTAL
datatype SyncflowSyncMethod = SM_FULL | SM_PARTIAL | SM_MICRO
datatype SyncflowSyncTarget = TG_DATA | TG_SCHEMA | TG_FULL
datatype SyncflowSyncType = TY_FULL | TY_SCHEMA | TY_FULL_PARTIAL | TY_DATA_FULL
  | TY_DATA_PARTIAL | TY_DATA_MICRO

text \<open>The attribute object under construction; \<open>build\<close> returns it as it stands.\<close>

record SyncflowAttributes =
  at_direction :: "SyncflowDirection option"
  at_syncMode :: "SyncflowMode option"
  at_providerType :: "ProviderType option"
  at_syncMethod :: "SyncflowSyncMethod option"
  at_syncTarget :: "SyncflowSyncTarget option"
  at_syncType :: "SyncflowSyncType option"

definition builder_reset :: SyncflowAttributes where
  "builder_reset = \<lparr>at_direction = None, at_syncMode = None, at_providerType = None,
     at_syncMethod = None, at_syncTarget = None, at_syncType = None\<rparr>"

definition setDirection :: "SyncflowDirection \<Rightarrow> SyncflowAttributes \<Rightarrow> SyncflowAttributes" where
  "setDirection v a = a\<lparr>at_direction := Some v\<rparr>"
definition setSyncMode :: "SyncflowMode \<Rightarrow> SyncflowAttributes \<Rightarrow> SyncflowAttributes" where
  "setSyncMode v a = a\<lparr>at_syncMode := Some v\<rparr>"
definition setProviderType :: "ProviderType \<Rightarrow> SyncflowAttributes \<Rightarrow> SyncflowAttributes" where
  "setProviderType v a = a\<lparr>at_providerType := Some v\<rparr>"
definition setSyncMethod :: "SyncflowSyncMethod \<Rightarrow> SyncflowAttributes \<Rightarrow> SyncflowAttributes" where
  "setSyncMethod v a = a\<lparr>at_syncMethod := Some v\<rparr>"
definition setSyncTarget :: "SyncflowSyncTarget \<Rightarrow> SyncflowAttributes \<Rightarrow> SyncflowAttributes" where
  "setSyncTarget v a = a\<lparr>at_syncTarget := Some v\<rparr>"
definition setSyncType :: "SyncflowSyncType \<Rightarrow> SyncflowAttributes \<Rightarrow> SyncflowAttributes" where
  "setSyncType v a = a\<lparr>at_syncType := Some v\<rparr>"

record SyncflowState =
  ss_status :: WorkflowStatus
  ss_version :: int
  ss_prevVersion :: int
  ss_ctag :: "string option"           \<comment> \<open>cursor?.ctag\<close>
  ss_downloadedAt :: "date option"
  ss_ingestedAt :: "date option"

definition defaultSyncflowState :: SyncflowState where
  "defaultSyncflowState = \<lparr>ss_status = IDLING, ss_version = 1, ss_prevVersion = 0,
     ss_ctag = None, ss_downloadedAt = None, ss_ingestedAt = None\<rparr>"

text \<open>\<open>Partial<SyncflowState>\<close>: the keys present in an update object.\<close>

record SyncflowStateUpdate =
  up_status :: "WorkflowStatus option"
  up_version :: "int option"
  up_prevVersion :: "int option"
  up_ctag :: "string option option"
  up_downloadedAt :: "date option"
  up_ingestedAt :: "date option"

definition no_update :: SyncflowStateUpdate where
  "no_update = \<lparr>up_status = None, up_version = None, up_prevVersion = None, up_ctag = None,
     up_downloadedAt = None, up_ingestedAt = None\<rparr>"

record Syncflow =
  sf_id :: oid
  sf_name :: string
  sf_attributes :: SyncflowAttributes
  sf_sourceId :: oid
  sf_state :: SyncflowState
  sf_config :: "json option"
  sf_trigger_id :: "oid option"
  sf_trigger_name :: string
  sf_trigger_type :: TriggerType
  sf_isDeleted :: bool

section \<open>Sync connections and webhooks\<close>

datatype SyncConnectionStatus = SC_ACTIVE | SC_INACTIVE
datatype SyncConnectionHealthStatus = HEALTHY | UNHEALTHY

text \<open>The partial syncflows embedded in a sync connection document.\<close>

record EmbeddedSyncflow =
  es_id :: oid
  es_name :: string
  es_trigger_id :: "oid option"
  es_trigger_name :: string
  es_trigger_type :: TriggerType
  es_config :: "json option"

record SyncConnectionState =
  cs_status :: SyncConnectionStatus
  cs_healthStatus :: SyncConnectionHealthStatus
  cs_runningSyncflows :: "EmbeddedSyncflow list"

record SyncConnectionConfig =
  cc_auth :: "json option"
  cc_trigger :: "TriggerConfig option"

record SyncConnection =
  sc_id :: oid
  sc_state :: SyncConnectionState
  sc_sourceId :: oid
  sc_config :: "SyncConnectionConfig option"
  sc_syncflows :: "EmbeddedSyncflow list"
  sc_isDeleted :: bool

definition defaultSyncConnectionState :: SyncConnectionState where
  "defaultSyncConnectionState =
    \<lparr>cs_status = SC_ACTIVE, cs_healthStatus = HEALTHY, cs_runningSyncflows = []\<rparr>"

datatype WebhookStatus = WH_ACTIVE | WH_INACTIVE
datatype WebhookScope = SCOPE_GLOBAL | SCOPE_DATA_SOURCE
datatype WebhookType = WT_DATA_SOURCE_DELETED | WT_DATA_SOURCE_ERROR
  | WT_SYNC_CONNECTION_CREATED | WT_SYNCFLOW_SCHEDULED | WT_SYNCFLOW_SUCCEED
  | WT_SYNCFLOW_COMPLETED | WT_SYNCFLOW_FAILED

record Webhook =
  wh_id :: oid
  wh_status :: WebhookStatus
  wh_scope :: WebhookScope
  wh_url :: string
  wh_type :: WebhookType
  wh_assure :: bool
  wh_dataSourceId :: "oid option"
  wh_metadata :: "(string \<times> json) list option"
  wh_isDeleted :: bool

record Operation =
  op_id :: oid
  op_name :: string

section \<open>Error codes and error types\<close>

datatype ErrorType = ET_INTERNAL | ET_EXTERNAL

definition VALIDATION_FAILED :: int where "VALIDATION_FAILED = 400"
definition TOKEN_MISSING_PERMISSIONS :: int where "TOKEN_MISSING_PERMISSIONS = 1001"
definition TOKEN_INVALID :: int where "TOKEN_INVALID = 1002"
definition TOKEN_EXPIRED :: int where "TOKEN_EXPIRED = 1003"
definition DATA_SOURCE_NOT_FOUND :: int where "DATA_SOURCE_NOT_FOUND = 1101"
definition ID_COLUMN_DUPLICATED :: int where "ID_COLUMN_DUPLICATED = 1201"
definition SPREADSHEET_NOT_FOUND :: int where "SPREADSHEET_NOT_FOUND = 2001"
definition SPREADSHEET_MISSING_PERMISSIONS :: int where "SPREADSHEET_MISSING_PERMISSIONS = 2002"
definition SHEET_NOT_FOUND :: int where "SHEET_NOT_FOUND = 2003"
definition SHEET_EMPTY :: int where "SHEET_EMPTY = 2004"
definition GOOGLE_DRIVE_FILE_NOT_FOUND :: int where "GOOGLE_DRIVE_FILE_NOT_FOUND = 3001"
definition GOOGLE_DRIVE_FILE_MISSING_PERMISSIONS :: int where
  "GOOGLE_DRIVE_FILE_MISSING_PERMISSIONS = 3002"
definition WORKBOOK_NOT_FOUND :: int where "WORKBOOK_NOT_FOUND = 4001"
definition WORKBOOK_MISSING_PERMISSIONS :: int where "WORKBOOK_MISSING_PERMISSIONS = 4002"
definition WORKSHEET_NOT_FOUND :: int where "WORKSHEET_NOT_FOUND = 5001"
definition WORKSHEET_EMPTY :: int where "WORKSHEET_EMPTY = 5002"
definition WORKSHEET_RANGE_NOT_FOUND :: int where "WORKSHEET_RANGE_NOT_FOUND = 5003"
definition ONE_DRIVE_FILE_NOT_FOUND :: int where "ONE_DRIVE_FILE_NOT_FOUND = 6001"
definition ONE_DRIVE_FILE_MISSING_PERMISSIONS :: int where
  "ONE_DRIVE_FILE_MISSING_PERMISSIONS = 6002"

lemmas error_code_defs = VALIDATION_FAILED_def TOKEN_MISSING_PERMISSIONS_def TOKEN_INVALID_def
  TOKEN_EXPIRED_def DATA_SOURCE_NOT_FOUND_def ID_COLUMN_DUPLICATED_def SPREADSHEET_NOT_FOUND_def
  SPREADSHEET_MISSING_PERMISSIONS_def SHEET_NOT_FOUND_def SHEET_EMPTY_def
  GOOGLE_DRIVE_FILE_NOT_FOUND_def GOOGLE_DRIVE_FILE_MISSING_PERMISSIONS_def WORKBOOK_NOT_FOUND_def
  WORKBOOK_MISSING_PERMISSIONS_def WORKSHEET_NOT_FOUND_def WORKSHEET_EMPTY_def
  WORKSHEET_RANGE_NOT_FOUND_def ONE_DRIVE_FILE_NOT_FOUND_def ONE_DRIVE_FILE_MISSING_PERMISSIONS_def

end
