(* ===== verification/Events.thy ===== *)
theory Events
  imports CoreEntities
begin

text \<open>
  The messages on the broker (\<open>libs/core/src/events\<close> and the worker's internal
  \<open>WorkflowEvents\<close>), with the topic each is published under, and the two registries that the
  provider modules of \<open>libs/core/src/entities/syncflow\<close> fill at load time.
\<close>

section \<open>Event payloads\<close>

record SyncStatistics =
  sx_addedRowsCount :: int
  sx_deletedRowsCount :: int
  sx_isSchemaChanged :: bool

record SyncflowSucceedPayload =
  sp_dataSourceId :: oid
  sp_syncflowId :: oid
  sp_syncVersion :: int
  sp_prevSyncVersion :: int
  sp_statistics :: SyncStatistics

record SyncflowCompletedPayload =
  cp_dataSourceId :: oid
  cp_syncflowId :: oid
  cp_syncVersion :: int
  cp_rowsNumber :: int

record SyncflowFailedPayload =
  fp_dataSourceId :: oid
  fp_syncflowId :: oid
  fp_syncVersion :: int
  fp_error_type :: ErrorType
  fp_error_code :: int
  fp_error_message :: string

text \<open>\<open>SyncflowScheduledPayload\<close>; the two Google Sheets workflow events carry the same two
  fields.\<close>

record ScheduledPayload =
  sd_syncflow :: Syncflow
  sd_version :: int

datatype event =
    DataProviderDeleted oid ProviderType
  | DataSourceDeleted oid "oid option"
  | DataSourceError oid int string
  | ConnectionCreated SyncConnection
  | ConnectionDeleted "SyncConnection option"
  | WorkflowTriggered Trigger
  | SyncflowScheduled ScheduledPayload
  | SyncflowSucceed SyncflowSucceedPayload
  | SyncflowCompleted SyncflowCompletedPayload
  | SyncflowFailed SyncflowFailedPayload
  | GoogleSheetsDownload oid ScheduledPayload   \<comment> \<open>the message key and the payload\<close>
  | GoogleSheetsProceedSync ScheduledPayload

fun event_name :: "event \<Rightarrow> string" where
  "event_name (DataProviderDeleted _ _) = ''dataProvider.deleted''"
| "event_name (DataSourceDeleted _ _) = ''dataSource.deleted''"
| "event_name (DataSourceError _ _ _) = ''dataSource.error''"
| "event_name (ConnectionCreated _) = ''connection.created''"
| "event_name (ConnectionDeleted _) = ''connection.deleted''"
| "event_name (WorkflowTriggered _) = ''workflow.triggered''"
| "event_name (SyncflowScheduled _) = ''syncflow.scheduled''"
| "event_name (SyncflowSucceed _) = ''syncflow.succeed''"
| "event_name (SyncflowCompleted _) = ''syncflow.completed''"
| "event_name (SyncflowFailed _) = ''syncflow.failed''"
| "event_name (GoogleSheetsDownload _ _) = ''workflow.googleSheetsFullSync.download''"
| "event_name (GoogleSheetsProceedSync _) = ''workflow.googleSheetsFullSync.proceed''"

section \<open>Registries\<close>

record TriggerRegistryRecord =
  trr_name :: string
  trr_type :: TriggerType

record SyncflowRegistryRecord =
  srr_name :: string
  srr_attributes :: SyncflowAttributes
  srr_triggerName :: string

record registries =
  reg_TRIGGERS :: "(string \<times> TriggerRegistryRecord) list"
  reg_SYNCFLOWS :: "(string \<times> SyncflowRegistryRecord) list"
  reg_PROVIDER_SYNCFLOWS :: "(ProviderType \<times> string list) list"

definition empty_registries :: registries where
  "empty_registries = \<lparr>reg_TRIGGERS = [], reg_SYNCFLOWS = [], reg_PROVIDER_SYNCFLOWS = []\<rparr>"

definition TriggerRegistry_set ::
  "string \<Rightarrow> TriggerRegistryRecord \<Rightarrow> registries \<Rightarrow> registries" where
  "TriggerRegistry_set k v r = r\<lparr>reg_TRIGGERS := AList.update k v (reg_TRIGGERS r)\<rparr>"

definition TriggerRegistry_get :: "registries \<Rightarrow> string \<Rightarrow> TriggerRegistryRecord option" where
  "TriggerRegistry_get r k = map_of (reg_TRIGGERS r) k"

definition SyncflowRegistry_set ::
  "string \<Rightarrow> SyncflowRegistryRecord \<Rightarrow> registries \<Rightarrow> registries" where
  "SyncflowRegistry_set k v r = r\<lparr>reg_SYNCFLOWS := AList.update k v (reg_SYNCFLOWS r)\<rparr>"

definition SyncflowRegistry_get :: "registries \<Rightarrow> string \<Rightarrow> SyncflowRegistryRecord option" where
  "SyncflowRegistry_get r k = map_of (reg_SYNCFLOWS r) k"

definition ProviderSyncflowsRegistry_set ::
  "ProviderType \<Rightarrow> string list \<Rightarrow> registries \<Rightarrow> registries" where
  "ProviderSyncflowsRegistry_set k v r =
    r\<lparr>reg_PROVIDER_SYNCFLOWS := AList.update k v (reg_PROVIDER_SYNCFLOWS r)\<rparr>"

definition ProviderSyncflowsRegistry_get :: "registries \<Rightarrow> ProviderType \<Rightarrow> string list option" where
  "ProviderSyncflowsRegistry_get r k = map_of (reg_PROVIDER_SYNCFLOWS r) k"

section \<open>Syncflow definitions of the provider modules\<close>

definition SN_EXCEL_FULL :: string where "SN_EXCEL_FULL = ''excelFullSync''"
definition SN_GOOGLE_SHEETS_FULL :: string where "SN_GOOGLE_SHEETS_FULL = ''googleSheetsFullSync''"
definition SN_AIR_TABLE_INITIAL :: string where "SN_AIR_TABLE_INITIAL = ''airTableInitialSync''"
definition SN_AIR_TABLE_INCREMENTAL :: string where
  "SN_AIR_TABLE_INCREMENTAL = ''airTableIncrementalSync''"

record SyncflowDefinition =
  sdf_name :: string
  sdf_attributes :: SyncflowAttributes
  sdf_trigger_name :: string
  sdf_trigger_type :: TriggerType

definition GoogleSheetsSyncflowDefinitions :: "SyncflowDefinition list" where
  "GoogleSheetsSyncflowDefinitions =
    [\<lparr>sdf_name = SN_GOOGLE_SHEETS_FULL,
      sdf_attributes = setSyncType TY_FULL (setSyncTarget TG_FULL (setSyncMethod SM_FULL
        (setProviderType GOOGLE_SHEETS (setSyncMode REFRESH (setDirection FORWARD
          builder_reset))))),
      sdf_trigger_name = TN_GOOGLE_SHEETS_WEBHOOK,
      sdf_trigger_type = EVENT_WEBHOOK\<rparr>]"

definition MicrosoftExcelSyncflowDefinitions :: "SyncflowDefinition list" where
  "MicrosoftExcelSyncflowDefinitions =
    [\<lparr>sdf_name = SN_EXCEL_FULL,
      sdf_attributes = setSyncType TY_FULL (setSyncTarget TG_FULL (setSyncMethod SM_FULL
        (setProviderType MICROSOFT_EXCEL (setSyncMode REFRESH (setDirection FORWARD
          builder_reset))))),
      sdf_trigger_name = TN_MIRCROSOFT_EXCEL_CRON,
      sdf_trigger_type = CRON\<rparr>]"

text \<open>The \<open>forEach\<close> of a provider module, then its \<open>ProviderSyncflowsRegistry.set\<close>.\<close>

fun register_definitions :: "SyncflowDefinition list \<Rightarrow> registries \<Rightarrow> registries" where
  "register_definitions [] r = r"
| "register_definitions (d # ds) r =
    register_definitions ds
      (SyncflowRegistry_set (sdf_name d)
         \<lparr>srr_name = sdf_name d, srr_attributes = sdf_attributes d,
          srr_triggerName = sdf_trigger_name d\<rparr>
      (TriggerRegistry_set (sdf_trigger_name d)
         \<lparr>trr_name = sdf_trigger_name d, trr_type = sdf_trigger_type d\<rparr> r))"

definition register_provider ::
  "ProviderType \<Rightarrow> SyncflowDefinition list \<Rightarrow> registries \<Rightarrow> registries" where
  "register_provider p ds r =
    ProviderSyncflowsRegistry_set p (map sdf_name ds) (register_definitions ds r)"

text \<open>\<open>syncflow/index.ts\<close> loads the Excel module and then the Google Sheets one; it does not
  export the AirTable module, which therefore registers nothing.\<close>

definition loaded_registries :: registries where
  "loaded_registries =
    register_provider GOOGLE_SHEETS GoogleSheetsSyncflowDefinitions
      (register_provider MICROSOFT_EXCEL MicrosoftExcelSyncflowDefinitions empty_registries)"

lemmas registry_defs = TriggerRegistry_set_def TriggerRegistry_get_def SyncflowRegistry_set_def
  SyncflowRegistry_get_def ProviderSyncflowsRegistry_set_def ProviderSyncflowsRegistry_get_def
  register_provider_def loaded_registries_def empty_registries_def
  GoogleSheetsSyncflowDefinitions_def MicrosoftExcelSyncflowDefinitions_def

lemmas registry_names = SN_EXCEL_FULL_def SN_GOOGLE_SHEETS_FULL_def TN_MIRCROSOFT_EXCEL_CRON_def
  TN_GOOGLE_SHEETS_WEBHOOK_def

lemma get_provider_syncflows [simp]:
  "ProviderSyncflowsRegistry_get loaded_registries GOOGLE_SHEETS = Some [SN_GOOGLE_SHEETS_FULL]"
  "ProviderSyncflowsRegistry_get loaded_registries MICROSOFT_EXCEL = Some [SN_EXCEL_FULL]"
  "ProviderSyncflowsRegistry_get loaded_registries AIR_TABLE = None"
  by (simp_all add: registry_defs)

text \<open>What a syncflow of the registry looks like, by name.\<close>

lemma get_google_syncflow [simp]:
  "SyncflowRegistry_get loaded_registries SN_GOOGLE_SHEETS_FULL =
    Some \<lparr>srr_name = SN_GOOGLE_SHEETS_FULL,
      srr_attributes = sdf_attributes (hd GoogleSheetsSyncflowDefinitions),
      srr_triggerName = TN_GOOGLE_SHEETS_WEBHOOK\<rparr>"
  by (simp add: registry_defs registry_names)

lemma get_excel_syncflow [simp]:
  "SyncflowRegistry_get loaded_registries SN_EXCEL_FULL =
    Some \<lparr>srr_name = SN_EXCEL_FULL,
      srr_attributes = sdf_attributes (hd MicrosoftExcelSyncflowDefinitions),
      srr_triggerName = TN_MIRCROSOFT_EXCEL_CRON\<rparr>"
  by (simp add: registry_defs registry_names)

lemma get_triggers [simp]:
  "TriggerRegistry_get loaded_registries TN_GOOGLE_SHEETS_WEBHOOK =
    Some \<lparr>trr_name = TN_GOOGLE_SHEETS_WEBHOOK, trr_type = EVENT_WEBHOOK\<rparr>"
  "TriggerRegistry_get loaded_registries TN_MIRCROSOFT_EXCEL_CRON =
    Some \<lparr>trr_name = TN_MIRCROSOFT_EXCEL_CRON, trr_type = CRON\<rparr>"
  by (simp_all add: registry_defs registry_names)

text \<open>Every syncflow that a provider lists is registered under its own name, and so is the
  trigger it names.\<close>

definition registry_closed :: "registries \<Rightarrow> bool" where
  "registry_closed r = (\<forall>(p, names) \<in> set (reg_PROVIDER_SYNCFLOWS r). \<forall>n \<in> set names.
     case SyncflowRegistry_get r n of
       None \<Rightarrow> False
     | Some s \<Rightarrow> srr_name s = n \<and>
         (case TriggerRegistry_get r (srr_triggerName s) of
            None \<Rightarrow> False | Some t \<Rightarrow> trr_name t = srr_triggerName s))"

lemma loaded_registry_closed: "registry_closed loaded_registries"
proof -
  have "reg_PROVIDER_SYNCFLOWS loaded_registries
    = [(MICROSOFT_EXCEL, [SN_EXCEL_FULL]), (GOOGLE_SHEETS, [SN_GOOGLE_SHEETS_FULL])]"
    by (simp add: registry_defs)
  then show ?thesis by (simp add: registry_closed_def)
qed

end
