(* ===== verification/Errors.thy ===== *)
theory Errors
  imports Events
begin

text \<open>
  What the applications throw and how it is translated on its way out: the error classes of
  \<open>libs/core/src/error\<close> and \<open>common/exception\<close>, the wrappers of \<open>apps/worker/src/activities\<close>,
  \<open>apps/controller/src/modules/activities\<close> and \<open>apps/worker/src/workflows\<close>.

  The wrappers take a computation over any state. \<open>Inl\<close> is a throw; the classes that the code
  tests with \<open>instanceof\<close> are constructors, and \<open>InternalProcessorError\<close>, which extends
  \<open>InternalError\<close>, is accepted wherever the code tests for the latter.
\<close>

section \<open>Errors\<close>

text \<open>\<open>ProcessorErrorData\<close>: what \<open>toJSON\<close> gives plus the type.\<close>

record ErrorData =
  ed_type :: "ErrorType option"
  ed_code :: int
  ed_message :: string
  ed_data :: "json option"

record UnacceptableData =
  ud_shouldActivityRetry :: "bool option"
  ud_shouldWorkflowFail :: "bool option"
  ud_errorData :: "ErrorData option"

datatype AcceptableData = AcceptEmpty | AcceptSyncflow Syncflow

text \<open>The first element of \<open>details\<close> of an \<open>ApplicationFailure\<close>.\<close>

record FailureDetail =
  fd_shouldWorkflowFail :: "bool option"
  fd_errorData :: "ErrorData option"

text \<open>Errors of HTTP clients and SDKs: the properties that the code inspects.\<close>

datatype google_error = GoogleErrorString string | GoogleErrorObject "int option"

record ResponseBody =
  rb_type :: "ErrorType option"
  rb_code :: int
  rb_msg :: string
  rb_data :: "json option"
  rb_error :: "google_error option"

record ErrorResponse =
  er_status :: int
  er_data :: "ResponseBody option"

record ServiceError =
  sv_message :: string
  sv_response :: "ErrorResponse option"
  sv_errorCode :: "string option"
  sv_statusCode :: "int option"

datatype js_error =
    TypeError
  | PlainError string
  | ExternalError int string "json option"
  | InternalError int string "json option"
  | InternalProcessorError int string "json option"
  | AcceptableActivityError string AcceptableData
  | UnacceptableActivityError string UnacceptableData
  | ApiError json string
  | ServiceFailure ServiceError
  | ApplicationFailure bool string "FailureDetail option"  \<comment> \<open>nonRetryable, message, details[0]\<close>
  | ActivityFailure js_error                               \<comment> \<open>cause\<close>
  | WorkflowExecutionAlreadyStartedError

fun error_message :: "js_error \<Rightarrow> string" where
  "error_message TypeError = ''Cannot read properties of undefined''"
| "error_message (PlainError m) = m"
| "error_message (ExternalError _ m _) = m"
| "error_message (InternalError _ m _) = m"
| "error_message (InternalProcessorError _ m _) = m"
| "error_message (AcceptableActivityError m _) = m"
| "error_message (UnacceptableActivityError m _) = m"
| "error_message (ApiError _ m) = m"
| "error_message (ServiceFailure e) = sv_message e"
| "error_message (ApplicationFailure _ m _) = m"
| "error_message (ActivityFailure _) = ''Activity task failed''"
| "error_message WorkflowExecutionAlreadyStartedError = ''Workflow execution already started''"

definition isActivityError :: "js_error \<Rightarrow> bool" where
  "isActivityError e = (case e of AcceptableActivityError _ _ \<Rightarrow> True
     | UnacceptableActivityError _ _ \<Rightarrow> True | _ \<Rightarrow> False)"

lemma isActivityError_simps [simp]:
  "isActivityError (AcceptableActivityError m d)" "isActivityError (UnacceptableActivityError m u)"
  "\<not> isActivityError TypeError" "\<not> isActivityError (PlainError m)"
  "\<not> isActivityError (ServiceFailure s)" "\<not> isActivityError (ExternalError c m j)"
  by (simp_all add: isActivityError_def)

text \<open>\<open>new UnacceptableActivityError(message, { shouldWorkflowFail })\<close>.\<close>

definition workflowFail :: "bool \<Rightarrow> UnacceptableData" where
  "workflowFail b = \<lparr>ud_shouldActivityRetry = None, ud_shouldWorkflowFail = Some b,
     ud_errorData = None\<rparr>"

definition failureDetail :: "UnacceptableData \<Rightarrow> FailureDetail" where
  "failureDetail u = \<lparr>fd_shouldWorkflowFail = ud_shouldWorkflowFail u,
     fd_errorData = ud_errorData u\<rparr>"

section \<open>Activity wrappers\<close>

text \<open>
  \<open>activityWrapper\<close>: an acceptable error becomes the returned value (\<open>Inr\<close> below), an
  unacceptable one an \<open>ApplicationFailure\<close> that is retryable only on request; anything else is
  rethrown.
\<close>

definition activityWrapper ::
  "('s, js_error, 'a) io \<Rightarrow> ('s, js_error, 'a + AcceptableData) io" where
  "activityWrapper fn =
    catch_io (bind_io fn (\<lambda>x. return_io (Inl x)))
      (\<lambda>e. case e of
         AcceptableActivityError _ d \<Rightarrow> return_io (Inr d)
       | UnacceptableActivityError m u \<Rightarrow>
           if ud_shouldActivityRetry u = Some True
           then throw_io (ApplicationFailure False m (Some (failureDetail u)))
           else throw_io (ApplicationFailure True m (Some (failureDetail u)))
       | _ \<Rightarrow> throw_io e)"

definition processorWrapper ::
  "string \<Rightarrow> ('s, js_error, 'a) io \<Rightarrow> ('s, js_error, 'a) io" where
  "processorWrapper processorName fn =
    catch_io fn (\<lambda>err. case err of
        ExternalError c m d \<Rightarrow>
          throw_io (UnacceptableActivityError
            (''Error (external) when executing '' @ processorName @ '': '' @ m)
            \<lparr>ud_shouldActivityRetry = Some False, ud_shouldWorkflowFail = Some True,
             ud_errorData = Some \<lparr>ed_type = Some ET_EXTERNAL, ed_code = c, ed_message = m,
               ed_data = d\<rparr>\<rparr>)
      | InternalError c m d \<Rightarrow>
          throw_io (UnacceptableActivityError
            (''Error (internal) when executing '' @ processorName @ '': '' @ m)
            \<lparr>ud_shouldActivityRetry = Some False, ud_shouldWorkflowFail = Some True,
             ud_errorData = Some \<lparr>ed_type = Some ET_INTERNAL, ed_code = c, ed_message = m,
               ed_data = d\<rparr>\<rparr>)
      | InternalProcessorError c m d \<Rightarrow>
          throw_io (UnacceptableActivityError
            (''Error (internal) when executing '' @ processorName @ '': '' @ m)
            \<lparr>ud_shouldActivityRetry = Some False, ud_shouldWorkflowFail = Some True,
             ud_errorData = Some \<lparr>ed_type = Some ET_INTERNAL, ed_code = c, ed_message = m,
               ed_data = d\<rparr>\<rparr>)
      | _ \<Rightarrow>
          throw_io (UnacceptableActivityError
            (''Error when executing '' @ processorName @ '': '' @ error_message err)
            \<lparr>ud_shouldActivityRetry = Some True, ud_shouldWorkflowFail = None,
             ud_errorData = None\<rparr>))"

text \<open>\<open>err.response?.data\<close>, present only on errors of an HTTP client.\<close>

definition responseData :: "js_error \<Rightarrow> ResponseBody option" where
  "responseData err = (case err of
     ServiceFailure s \<Rightarrow> (case sv_response s of None \<Rightarrow> None | Some r \<Rightarrow> er_data r)
   | _ \<Rightarrow> None)"

definition processorApiWrapper :: "('s, js_error, 'a) io \<Rightarrow> ('s, js_error, 'a) io" where
  "processorApiWrapper fn =
    catch_io fn (\<lambda>err. case responseData err of
        None \<Rightarrow> throw_io err
      | Some d \<Rightarrow>
          if rb_type d = Some ET_EXTERNAL
          then throw_io (ExternalError (rb_code d) (rb_msg d) (rb_data d))
          else if rb_type d = Some ET_INTERNAL
          then throw_io (InternalProcessorError (rb_code d) (rb_msg d) (rb_data d))
          else throw_io err)"

definition externalActivityWrapper ::
  "('s, js_error, 'a) io \<Rightarrow> string option \<Rightarrow> ('s, js_error, 'a) io" where
  "externalActivityWrapper fn activityName =
    catch_io fn (\<lambda>err.
      let activityName = (if truthy_str activityName then the activityName
                          else ''external operation'')
      in case err of
        ExternalError c m d \<Rightarrow>
          throw_io (UnacceptableActivityError
            (''Error when executing '' @ activityName @ '': '' @ m)
            \<lparr>ud_shouldActivityRetry = Some False, ud_shouldWorkflowFail = None,
             ud_errorData = Some \<lparr>ed_type = Some ET_EXTERNAL, ed_code = c, ed_message = m,
               ed_data = d\<rparr>\<rparr>)
      | _ \<Rightarrow>
          throw_io (UnacceptableActivityError
            (''Error when executing '' @ activityName @ '': '' @ error_message err)
            \<lparr>ud_shouldActivityRetry = Some True, ud_shouldWorkflowFail = None,
             ud_errorData = None\<rparr>))"

section \<open>Workflow wrapper\<close>

text \<open>\<open>error.cause?.details?.[0]\<close>.\<close>

definition getActivityErrorDetail :: "js_error \<Rightarrow> FailureDetail option" where
  "getActivityErrorDetail error = (case error of
     ActivityFailure (ApplicationFailure _ _ d) \<Rightarrow> d
   | _ \<Rightarrow> None)"

text \<open>\<open>Inr ()\<close> is the value \<open>{ errorThatShouldNotFailWf: true }\<close>.\<close>

definition workflowWrapper ::
  "('s, js_error, 'a) io \<Rightarrow> ('s, js_error, 'a + unit) io" where
  "workflowWrapper fn =
    catch_io (bind_io fn (\<lambda>x. return_io (Inl x)))
      (\<lambda>error. case getActivityErrorDetail error of
          None \<Rightarrow> throw_io error
        | Some d \<Rightarrow> if fd_shouldWorkflowFail d = Some False then return_io (Inr ())
                    else throw_io error)"

section \<open>Laws of the wrappers\<close>

lemma activityWrapper_ok:
  "fn s = (Inr x, s') \<Longrightarrow> activityWrapper fn s = (Inr (Inl x), s')"
  by (simp add: activityWrapper_def io_simps)

lemma activityWrapper_throw:
  "fn s = (Inl e, s') \<Longrightarrow> activityWrapper fn s =
    (case e of AcceptableActivityError _ d \<Rightarrow> (Inr (Inr d), s')
     | UnacceptableActivityError m u \<Rightarrow>
         (Inl (ApplicationFailure (ud_shouldActivityRetry u \<noteq> Some True) m
            (Some (failureDetail u))), s')
     | _ \<Rightarrow> (Inl e, s'))"
  by (auto simp: activityWrapper_def io_simps split: js_error.splits)

lemma processorWrapper_ok:
  "fn s = (Inr x, s') \<Longrightarrow> processorWrapper p fn s = (Inr x, s')"
  by (simp add: processorWrapper_def io_simps)

lemma processorApiWrapper_ok:
  "fn s = (Inr x, s') \<Longrightarrow> processorApiWrapper fn s = (Inr x, s')"
  by (simp add: processorApiWrapper_def io_simps)

text \<open>Whatever a processor throws leaves \<open>processorWrapper\<close> as an unacceptable error.\<close>

lemma processorWrapper_throws_unacceptable:
  assumes "processorWrapper p fn s = (Inl e, s')"
  shows "\<exists>m u. e = UnacceptableActivityError m u"
  using assms
  by (auto simp: processorWrapper_def io_simps split: prod.splits sum.splits js_error.splits)

lemma wrapper_state [frame_simps]:
  "snd (activityWrapper fn s) = snd (fn s)"
  "snd (processorWrapper p fn s) = snd (fn s)"
  "snd (processorApiWrapper fn s) = snd (fn s)"
  "snd (workflowWrapper fn s) = snd (fn s)"
  by (auto simp: activityWrapper_def processorWrapper_def processorApiWrapper_def
      workflowWrapper_def io_simps split: prod.splits sum.splits js_error.splits option.splits)

lemma workflowWrapper_ok:
  "fn s = (Inr x, s') \<Longrightarrow> workflowWrapper fn s = (Inr (Inl x), s')"
  by (simp add: workflowWrapper_def io_simps)

text \<open>
  C28: what a workflow sees of a processor failure. When a processor activity
  (\<open>activityWrapper\<close> around \<open>processorWrapper\<close> around \<open>processorApiWrapper\<close>) fails on an HTTP
  error whose body has type \<open>external\<close> or \<open>internal\<close>, the activity fails with a non-retryable
  failure whose detail carries that type with the code, message and data of the response body,
  and asks for the workflow to fail; every other service error is retryable, carries no error
  data and does not decide whether the workflow fails.
\<close>

theorem processor_failure_classification:
  assumes "fn s = (Inl (ServiceFailure e), s')"
  shows "\<exists>m. activityWrapper (processorWrapper p (processorApiWrapper fn)) s =
    (case Option.bind (responseData (ServiceFailure e)) (\<lambda>b. map_option (\<lambda>t. (b, t)) (rb_type b)) of
       Some (b, t) \<Rightarrow>
         (Inl (ApplicationFailure True m (Some \<lparr>fd_shouldWorkflowFail = Some True,
            fd_errorData = Some \<lparr>ed_type = Some t, ed_code = rb_code b, ed_message = rb_msg b,
              ed_data = rb_data b\<rparr>\<rparr>)), s')
     | None \<Rightarrow>
         (Inl (ApplicationFailure False m (Some \<lparr>fd_shouldWorkflowFail = None,
            fd_errorData = None\<rparr>)), s'))"
proof (cases "responseData (ServiceFailure e)")
  case None
  then show ?thesis
    by (simp add: assms activityWrapper_def processorWrapper_def processorApiWrapper_def
        io_simps failureDetail_def)
next
  case (Some b)
  note b = this
  show ?thesis
  proof (cases "rb_type b")
    case None
    then show ?thesis using b
      by (simp add: assms activityWrapper_def processorWrapper_def processorApiWrapper_def
          io_simps failureDetail_def)
  next
    case (Some ty)
    then show ?thesis using b
      by (cases ty) (simp_all add: assms activityWrapper_def processorWrapper_def
          processorApiWrapper_def io_simps failureDetail_def)
  qed
qed

text \<open>An example of the classification: a loader answering 500 with an external error.\<close>

definition example_service_error :: ServiceError where
  "example_service_error = \<lparr>sv_message = ''Request failed with status code 500'',
     sv_response = Some \<lparr>er_status = 500, er_data = Some \<lparr>rb_type = Some ET_EXTERNAL, rb_code = 1201,
       rb_msg = ''dup'', rb_data = None, rb_error = None\<rparr>\<rparr>,
     sv_errorCode = None, sv_statusCode = None\<rparr>"

theorem processor_failure_classification_witness:
  "\<exists>m. activityWrapper (processorWrapper ''loader'' (processorApiWrapper
      (throw_io (ServiceFailure example_service_error) :: (unit, js_error, unit) io))) ()
    = (Inl (ApplicationFailure True m (Some \<lparr>fd_shouldWorkflowFail = Some True,
         fd_errorData = Some \<lparr>ed_type = Some ET_EXTERNAL, ed_code = 1201, ed_message = ''dup'',
           ed_data = None\<rparr>\<rparr>)), ())"
  using processor_failure_classification [of "throw_io (ServiceFailure example_service_error)"
      "()" example_service_error "()" "''loader''"]
  by (simp add: example_service_error_def responseData_def)

end
