(* ===== verification/Store.thy ===== *)
theory Store
  imports Errors
begin

text \<open>
  The document store and the world that every application acts on.

  MongoDB and mongoose are not part of the repository: the operations of a \<open>Model<T>\<close> and the
  commit and abort of a session are fields of a parameter \<open>M :: mongo\<close>, and \<open>mongo_ok\<close> states
  the documented behaviour the code relies on (a query scans the collection in natural order;
  \<open>findOne\<close>/\<open>updateOne\<close> act on the first match; a committed session applies its writes, an
  aborted one none). The locale \<open>mongo_driver\<close> carries these laws; \<open>listMongo\<close>, collections
  as plain lists, is the instance the witnesses evaluate.

  A transaction reads a snapshot taken when it starts plus its own writes. An operation that is
  not given the session reads and writes the committed store even while a transaction is open,
  so a missing \<open>session\<close> option is visible in the model. Write conflicts between concurrent
  transactions and the driver's retries are not modelled.
\<close>

section \<open>The driver\<close>

record 'd model =
  m_find :: "('d \<Rightarrow> bool) \<Rightarrow> 'd list \<Rightarrow> 'd list"
  m_findOne :: "('d \<Rightarrow> bool) \<Rightarrow> 'd list \<Rightarrow> 'd option"
  m_save :: "'d \<Rightarrow> 'd list \<Rightarrow> 'd list"
  m_updateOne :: "('d \<Rightarrow> bool) \<Rightarrow> ('d \<Rightarrow> 'd) \<Rightarrow> 'd list \<Rightarrow> 'd list"
  m_updateMany :: "('d \<Rightarrow> bool) \<Rightarrow> ('d \<Rightarrow> 'd) \<Rightarrow> 'd list \<Rightarrow> 'd list"
  m_deleteOne :: "('d \<Rightarrow> bool) \<Rightarrow> 'd list \<Rightarrow> 'd list"

record db =
  db_providers :: "DataProvider list"
  db_sources :: "DataSource list"
  db_connections :: "SyncConnection list"
  db_syncflows :: "Syncflow list"
  db_triggers :: "Trigger list"
  db_webhooks :: "Webhook list"
  db_operations :: "Operation list"

record mongo =
  mg_providers :: "DataProvider model"
  mg_sources :: "DataSource model"
  mg_connections :: "SyncConnection model"
  mg_syncflows :: "Syncflow model"
  mg_triggers :: "Trigger model"
  mg_webhooks :: "Webhook model"
  mg_operations :: "Operation model"
  mg_strict :: bool   \<comment> \<open>drop paths that the schema does not declare from a \<open>$set\<close>\<close>
  mg_oid :: "nat \<Rightarrow> oid"   \<comment> \<open>the n-th generated object id\<close>
  mg_commit :: "(db \<Rightarrow> db) \<Rightarrow> db \<Rightarrow> db"
  mg_abort :: "(db \<Rightarrow> db) \<Rightarrow> db \<Rightarrow> db"

definition model_ok :: "'d model \<Rightarrow> bool" where
  "model_ok m \<longleftrightarrow>
     m_find m = filter \<and> m_findOne m = List.find \<and> m_save m = (\<lambda>d ds. ds @ [d]) \<and>
     m_updateOne m = update_first \<and> m_updateMany m = update_all \<and> m_deleteOne m = delete_first"

definition mongo_ok :: "mongo \<Rightarrow> bool" where
  "mongo_ok M \<longleftrightarrow>
     model_ok (mg_providers M) \<and> model_ok (mg_sources M) \<and> model_ok (mg_connections M) \<and>
     model_ok (mg_syncflows M) \<and> model_ok (mg_triggers M) \<and> model_ok (mg_webhooks M) \<and>
     model_ok (mg_operations M) \<and> inj (mg_oid M) \<and>
     mg_commit M = (\<lambda>g d. g d) \<and> mg_abort M = (\<lambda>g d. d)"

definition listModel :: "'d model" where
  "listModel = \<lparr>m_find = filter, m_findOne = List.find, m_save = (\<lambda>d ds. ds @ [d]),
     m_updateOne = update_first, m_updateMany = update_all, m_deleteOne = delete_first\<rparr>"

definition listMongo :: mongo where
  "listMongo = \<lparr>mg_providers = listModel, mg_sources = listModel, mg_connections = listModel,
     mg_syncflows = listModel, mg_triggers = listModel, mg_webhooks = listModel,
     mg_operations = listModel, mg_strict = True,
     mg_oid = (\<lambda>n. replicate n (CHR ''f'') @ ''oid''),
     mg_commit = (\<lambda>g d. g d), mg_abort = (\<lambda>g d. d)\<rparr>"

lemma listModel_ok [simp]: "model_ok listModel"
  by (simp add: model_ok_def listModel_def)

lemma listMongo_ok [simp]: "mongo_ok listMongo"
proof -
  have "inj (\<lambda>n. replicate n (CHR ''f'') @ ''oid'')"
    by (rule injI) (metis add_right_cancel length_append length_replicate)
  then show ?thesis by (simp add: mongo_ok_def listMongo_def)
qed

lemma listMongo_sel [simp]:
  "mg_providers listMongo = listModel" "mg_sources listMongo = listModel"
  "mg_connections listMongo = listModel" "mg_syncflows listMongo = listModel"
  "mg_triggers listMongo = listModel" "mg_webhooks listMongo = listModel"
  "mg_operations listMongo = listModel" "mg_strict listMongo"
  "mg_commit listMongo = (\<lambda>g d. g d)" "mg_abort listMongo = (\<lambda>g d. d)"
  by (simp_all add: listMongo_def)

lemma listModel_sel [simp]:
  "m_find listModel = filter" "m_findOne listModel = List.find"
  "m_save listModel = (\<lambda>d ds. ds @ [d])" "m_updateOne listModel = update_first"
  "m_updateMany listModel = update_all" "m_deleteOne listModel = delete_first"
  by (simp_all add: listModel_def)

section \<open>The world\<close>

text \<open>
  External calls (HTTP, storage, queue and orchestrator requests) are logged with their
  arguments; their answers are parameters of the definitions that make them. The options of a
  workflow start are those the code passes: no reuse policy means the server's default.
\<close>

record CreateSyncConnectionDto =
  cn_sourceId :: oid
  cn_config :: "SyncConnectionConfig option"

datatype workflow_arg = ArgPayload ScheduledPayload | ArgId oid
  | ArgConnection CreateSyncConnectionDto

datatype WorkflowIdReusePolicy = ALLOW_DUPLICATE_FAILED_ONLY

record WorkflowOptions =
  wo_workflowId :: string
  wo_args :: "workflow_arg list"
  wo_workflowIdReusePolicy :: "WorkflowIdReusePolicy option"
  wo_searchDataSourceId :: "oid option"
  wo_waitResult :: bool
  wo_errorOnDuplicate :: bool

text \<open>Jobs of the Bull queues: the repeat options are the properties of the object the code passes;
  \<open>job_data\<close> is the payload of each of the three queues.\<close>

record RepeatOptions =
  ro_cron :: "json option"
  ro_every :: "json option"

record JobOptions =
  jo_jobId :: string
  jo_repeat :: "RepeatOptions option"
  jo_timeout :: "int option"
  jo_attempts :: "int option"
  jo_exponentialDelay :: "int option"   \<comment> \<open>\<open>backoff: { type: 'exponential', delay }\<close>\<close>
  jo_removeOnComplete :: bool
  jo_removeOnFail :: bool

text \<open>The body of a webhook call, by event (\<open>webhook.payload.ts\<close>), and what is added to it when it is
  sent.\<close>

datatype webhook_body =
    SyncConnectionCreatedWebhookPayload ProviderType oid DataSourceConfig
  | SyncflowScheduledWebhookPayload oid oid int bool  \<comment> \<open>syncflow, data source, version, initial\<close>
  | SyncflowSucceedWebhookPayload oid oid int bool SyncStatistics
  | SyncflowCompletedWebhookPayload oid oid int bool int
  | SyncflowFailedWebhookPayload oid oid int bool ErrorType int string
  | DataSourceDeletedWebhookPayload oid "oid option"
  | DataSourceErrorWebhookPayload oid int string

record WebhookPayload =
  wp_body :: webhook_body
  wp_timestamp :: "date option"
  wp_metadata :: "(string \<times> json) list option"

datatype job_data = JobTrigger Trigger | JobRefreshment oid | JobWebhook oid WebhookPayload

datatype ext_call =
    HttpPost string json
  | HttpDelete string json
  | StorageDelete "string list"
  | StartWorkflow string WorkflowOptions   \<comment> \<open>workflow name\<close>
  | TerminateWorkflow string string    \<comment> \<open>workflow id, run id\<close>
  | ListWorkflows string
  | GoogleToken string                 \<comment> \<open>refresh token\<close>
  | MicrosoftToken string
  | GraphGet string                    \<comment> \<open>path\<close>
  | GoogleGet string string            \<comment> \<open>spreadsheet, range or fields\<close>
  | DriveWatch string string string    \<comment> \<open>file id, channel id, address\<close>
  | DriveStop string string            \<comment> \<open>channel id, resource id\<close>
  | QueueAdd string job_data JobOptions              \<comment> \<open>queue, data, options\<close>
  | QueueAddBulk string "(job_data \<times> JobOptions) list"
  | QueueRemove string "json option" RepeatOptions   \<comment> \<open>queue, job id, repeat options\<close>
  | SqlQuery string
  | SignedPost string WebhookPayload string                    \<comment> \<open>url, body, \<open>X-Signature\<close>\<close>

record world =
  w_db :: db
  w_tx :: "(db \<times> (db \<Rightarrow> db)) option"   \<comment> \<open>snapshot with own writes, writes so far\<close>
  w_oids :: nat
  w_now :: date
  w_events :: "event list"
  w_calls :: "ext_call list"

type_synonym 'a act = "(world, js_error, 'a) io"

definition empty_db :: db where
  "empty_db = \<lparr>db_providers = [], db_sources = [], db_connections = [], db_syncflows = [],
     db_triggers = [], db_webhooks = [], db_operations = []\<rparr>"

definition empty_world :: world where
  "empty_world = \<lparr>w_db = empty_db, w_tx = None, w_oids = 0, w_now = 0, w_events = [],
     w_calls = []\<rparr>"

record QueryOptions =
  qo_session :: bool
  qo_includeDeleted :: bool
  qo_new :: bool
  qo_old :: bool

definition no_options :: QueryOptions where
  "no_options = \<lparr>qo_session = False, qo_includeDeleted = False, qo_new = False, qo_old = False\<rparr>"

lemma no_options_sel [simp]:
  "\<not> qo_session no_options" "\<not> qo_includeDeleted no_options" "\<not> qo_new no_options"
  "\<not> qo_old no_options"
  by (simp_all add: no_options_def)

section \<open>Sessions\<close>

definition readDb :: "bool \<Rightarrow> world \<Rightarrow> db" where
  "readDb sess w = (case w_tx w of
     None \<Rightarrow> w_db w
   | Some (d, _) \<Rightarrow> if sess then d else w_db w)"

definition writeDb :: "bool \<Rightarrow> (db \<Rightarrow> db) \<Rightarrow> unit act" where
  "writeDb sess f = modify_io (\<lambda>w. case w_tx w of
     None \<Rightarrow> w\<lparr>w_db := f (w_db w)\<rparr>
   | Some (d, g) \<Rightarrow> if sess then w\<lparr>w_tx := Some (f d, f \<circ> g)\<rparr> else w\<lparr>w_db := f (w_db w)\<rparr>)"

text \<open>\<open>TransactionManager.runWithTransaction\<close> and \<open>session.withTransaction\<close>: the function runs
  in a new session; the caller's own transaction, if any, is untouched.\<close>

definition runWithTransaction :: "mongo \<Rightarrow> 'a act \<Rightarrow> 'a act" where
  "runWithTransaction M fn = (\<lambda>w.
     case fn (w\<lparr>w_tx := Some (w_db w, id)\<rparr>) of
       (Inl e, w') \<Rightarrow>
         (Inl e, w'\<lparr>w_tx := w_tx w,
            w_db := (case w_tx w' of None \<Rightarrow> w_db w' | Some (_, g) \<Rightarrow> mg_abort M g (w_db w'))\<rparr>)
     | (Inr x, w') \<Rightarrow>
         (Inr x, w'\<lparr>w_tx := w_tx w,
            w_db := (case w_tx w' of None \<Rightarrow> w_db w' | Some (_, g) \<Rightarrow> mg_commit M g (w_db w'))\<rparr>))"

text \<open>The \<open>processFunc\<close> pattern of the repositories: run in the caller's session if there is one,
  otherwise in a transaction of its own. The function is told which session option its queries
  carry: always the session.\<close>

definition inSession :: "mongo \<Rightarrow> QueryOptions \<Rightarrow> 'a act \<Rightarrow> 'a act" where
  "inSession M opts fn = (if qo_session opts then fn else runWithTransaction M fn)"

definition newObjectId :: "mongo \<Rightarrow> oid act" where
  "newObjectId M = (\<lambda>w. (Inr (mg_oid M (w_oids w)), w\<lparr>w_oids := Suc (w_oids w)\<rparr>))"

definition emitEvent :: "event \<Rightarrow> unit act" where
  "emitEvent e = modify_io (\<lambda>w. w\<lparr>w_events := w_events w @ [e]\<rparr>)"

text \<open>An external call: it is logged, and the answer may depend on everything logged so far.\<close>

definition callService :: "(ext_call list \<Rightarrow> js_error + 'a) \<Rightarrow> ext_call \<Rightarrow> 'a act" where
  "callService answer c = (\<lambda>w. (answer (w_calls w @ [c]), w\<lparr>w_calls := w_calls w @ [c]\<rparr>))"

text \<open>An answer to a request already made, such as the result of a workflow handle.\<close>

definition awaitAnswer :: "(ext_call list \<Rightarrow> js_error + 'a) \<Rightarrow> 'a act" where
  "awaitAnswer answer = (\<lambda>w. (answer (w_calls w), w))"

lemma awaitAnswer_run [simp, io_simps]: "awaitAnswer answer w = (answer (w_calls w), w)"
  by (simp add: awaitAnswer_def)

lemma emitEvent_run [simp, io_simps]:
  "emitEvent e w = (Inr (), w\<lparr>w_events := w_events w @ [e]\<rparr>)"
  by (simp add: emitEvent_def)

lemma callService_run [simp, io_simps]:
  "callService answer c w =
    (answer (w_calls w @ [c]), w\<lparr>w_calls := w_calls w @ [c]\<rparr>)"
  by (simp add: callService_def)

lemma newObjectId_run [simp, io_simps]:
  "newObjectId M w = (Inr (mg_oid M (w_oids w)), w\<lparr>w_oids := Suc (w_oids w)\<rparr>)"
  by (simp add: newObjectId_def)

lemma readDb_no_tx [simp]: "w_tx w = None \<Longrightarrow> readDb sess w = w_db w"
  by (simp add: readDb_def)

lemma readDb_False [simp]: "readDb False w = w_db w"
  by (simp add: readDb_def split: option.splits)

lemma readDb_tx [simp]: "w_tx w = Some (d, g) \<Longrightarrow> readDb True w = d"
  by (simp add: readDb_def)

lemma readDb_calls [simp]: "readDb sess (w\<lparr>w_calls := c\<rparr>) = readDb sess w"
  "readDb sess (w\<lparr>w_events := ev\<rparr>) = readDb sess w" "readDb sess (w\<lparr>w_oids := n\<rparr>) = readDb sess w"
  by (simp_all add: readDb_def split: option.splits)

lemma writeDb_no_tx [simp]:
  "w_tx w = None \<Longrightarrow> writeDb sess f w = (Inr (), w\<lparr>w_db := f (w_db w)\<rparr>)"
  by (simp add: writeDb_def)

lemma writeDb_tx [simp]:
  "w_tx w = Some (d, g) \<Longrightarrow> writeDb True f w = (Inr (), w\<lparr>w_tx := Some (f d, f \<circ> g)\<rparr>)"
  by (simp add: writeDb_def)

lemma writeDb_False [simp]:
  "writeDb False f w = (Inr (), w\<lparr>w_db := f (w_db w)\<rparr>)"
  by (simp add: writeDb_def split: option.splits prod.splits)

lemma writeDb_run: "fst (writeDb sess f w) = Inr ()"
  by (simp add: writeDb_def)

section \<open>The driver's laws\<close>

locale mongo_driver =
  fixes M :: mongo
  assumes driver_ok: "mongo_ok M"
begin

lemma model_ops [simp]:
  "m_find (mg_providers M) = filter" "m_findOne (mg_providers M) = List.find"
  "m_save (mg_providers M) = (\<lambda>d ds. ds @ [d])" "m_updateOne (mg_providers M) = update_first"
  "m_find (mg_sources M) = filter" "m_findOne (mg_sources M) = List.find"
  "m_save (mg_sources M) = (\<lambda>d ds. ds @ [d])" "m_updateOne (mg_sources M) = update_first"
  "m_updateMany (mg_sources M) = update_all"
  "m_findOne (mg_connections M) = List.find"
  "m_save (mg_connections M) = (\<lambda>d ds. ds @ [d])" "m_updateOne (mg_connections M) = update_first"
  "m_findOne (mg_syncflows M) = List.find"
  "m_save (mg_syncflows M) = (\<lambda>d ds. ds @ [d])" "m_updateOne (mg_syncflows M) = update_first"
  "m_find (mg_triggers M) = filter" "m_findOne (mg_triggers M) = List.find"
  "m_save (mg_triggers M) = (\<lambda>d ds. ds @ [d])" "m_updateOne (mg_triggers M) = update_first"
  "m_find (mg_webhooks M) = filter" "m_findOne (mg_webhooks M) = List.find"
  "m_save (mg_webhooks M) = (\<lambda>d ds. ds @ [d])" "m_updateOne (mg_webhooks M) = update_first"
  "m_findOne (mg_operations M) = List.find" "m_save (mg_operations M) = (\<lambda>d ds. ds @ [d])"
  "m_deleteOne (mg_operations M) = delete_first"
  using driver_ok by (simp_all add: mongo_ok_def model_ok_def)

lemma oid_inj: "inj (mg_oid M)"
  using driver_ok by (simp add: mongo_ok_def)

lemma tx_ops [simp]: "mg_commit M = (\<lambda>g d. g d)" "mg_abort M = (\<lambda>g d. d)"
  using driver_ok by (simp_all add: mongo_ok_def)

text \<open>A function that writes only through its session, whose writes turn the store into
  \<open>f (w_db w)\<close> when it returns: run as a transaction it either commits exactly that or changes
  nothing of the committed store.\<close>

lemma transaction_commits:
  assumes "fn (w\<lparr>w_tx := Some (w_db w, id)\<rparr>) = (Inr x, w'\<lparr>w_tx := Some (d, g)\<rparr>)"
    and "w_db w' = w_db w"
  shows "runWithTransaction M fn w = (Inr x, w'\<lparr>w_tx := w_tx w, w_db := g (w_db w)\<rparr>)"
  using assms by (simp add: runWithTransaction_def)

lemma transaction_aborts:
  assumes "fn (w\<lparr>w_tx := Some (w_db w, id)\<rparr>) = (Inl e, w')" and "w_db w' = w_db w"
  shows "runWithTransaction M fn w = (Inl e, w'\<lparr>w_tx := w_tx w, w_db := w_db w\<rparr>)"
  using assms by (simp add: runWithTransaction_def split: option.splits prod.splits)

end

interpretation lm: mongo_driver listMongo
  by unfold_locales simp

end
