(* ===== verification/ProviderRepository.thy ===== *)
theory ProviderRepository
  imports Store
begin

text \<open>
  \<open>libs/modules/src/repository/mongodb/repositories/dataProvider.repository.ts\<close>: data providers
  are deleted softly, and deleting one also marks its data sources.
\<close>

text \<open>\<open>$set\<close> of \<open>metadata.k\<close> paths, one per key of the given metadata (\<open>mapKeys\<close>).\<close>

fun set_metadata :: "Metadata \<Rightarrow> Metadata option \<Rightarrow> Metadata option" where
  "set_metadata [] old = old"
| "set_metadata ((k, v) # kvs) old =
    set_metadata kvs (Some (AList.update k v (case old of None \<Rightarrow> [] | Some m \<Rightarrow> m)))"

text \<open>\<open>data.metadata && Object.assign(updates, mapKeys(...))\<close>.\<close>

definition opt_set_metadata :: "Metadata option \<Rightarrow> Metadata option \<Rightarrow> Metadata option" where
  "opt_set_metadata upd old = (case upd of None \<Rightarrow> old | Some kvs \<Rightarrow> set_metadata kvs old)"

record CreateDataProviderData =
  cdp_type :: ProviderType
  cdp_externalId :: "string option"
  cdp_config :: DataSourceConfig
  cdp_metadata :: "Metadata option"

record UpdateDataProviderData =
  udp_id :: oid
  udp_auth :: "string option option"   \<comment> \<open>the auth object, and its refreshToken\<close>
  udp_metadata :: "Metadata option"

definition DataProviderRepository_getById ::
  "mongo \<Rightarrow> oid \<Rightarrow> QueryOptions \<Rightarrow> DataProvider option act" where
  "DataProviderRepository_getById M i opts = gets_io (\<lambda>w.
     m_findOne (mg_providers M)
       (\<lambda>d. dp_id d = i \<and> (qo_includeDeleted opts \<or> \<not> dp_isDeleted d))
       (db_providers (readDb (qo_session opts) w)))"

definition DataProviderRepository_getByExternalId ::
  "mongo \<Rightarrow> string option \<Rightarrow> QueryOptions \<Rightarrow> DataProvider option act" where
  "DataProviderRepository_getByExternalId M externalId opts = gets_io (\<lambda>w.
     m_findOne (mg_providers M)
       (\<lambda>d. dp_externalId d = externalId \<and> (qo_includeDeleted opts \<or> \<not> dp_isDeleted d))
       (db_providers (readDb (qo_session opts) w)))"

text \<open>The code does not await the save; the model takes it as done when \<open>create\<close> returns.\<close>

definition DataProviderRepository_create ::
  "mongo \<Rightarrow> CreateDataProviderData \<Rightarrow> QueryOptions \<Rightarrow> DataProvider act" where
  "DataProviderRepository_create M arg opts =
    bind_io (newObjectId M) (\<lambda>i.
      let dataProvider = \<lparr>dp_id = i, dp_externalId = cdp_externalId arg, dp_type = cdp_type arg,
            dp_config = cdp_config arg, dp_state = None, dp_metadata = cdp_metadata arg,
            dp_isDeleted = False\<rparr>
      in bind_io
          (writeDb (qo_session opts)
            (\<lambda>d. d\<lparr>db_providers := m_save (mg_providers M) dataProvider (db_providers d)\<rparr>))
          (\<lambda>_. return_io dataProvider))"

text \<open>\<open>findOne({ _id, isDeleted: false })\<close> in the session, throwing when there is none.\<close>

definition findLiveProvider :: "mongo \<Rightarrow> oid \<Rightarrow> string \<Rightarrow> DataProvider act" where
  "findLiveProvider M i msg =
    bind_io (gets_io (\<lambda>w. m_findOne (mg_providers M) (\<lambda>d. dp_id d = i \<and> \<not> dp_isDeleted d)
        (db_providers (readDb True w))))
      (\<lambda>r. case r of None \<Rightarrow> throw_io (PlainError msg) | Some d \<Rightarrow> return_io d)"

text \<open>\<open>document.updateOne({ $set })\<close> in the document's session.\<close>

definition updateProviderDoc ::
  "mongo \<Rightarrow> oid \<Rightarrow> (DataProvider \<Rightarrow> DataProvider) \<Rightarrow> unit act" where
  "updateProviderDoc M i f = writeDb True (\<lambda>d. d\<lparr>db_providers :=
     m_updateOne (mg_providers M) (\<lambda>p. dp_id p = i) f (db_providers d)\<rparr>)"

text \<open>The \<open>new\<close> option: \<open>(await findOne({ _id })).toObject()\<close>.\<close>

definition reloadProvider :: "mongo \<Rightarrow> QueryOptions \<Rightarrow> oid \<Rightarrow> DataProvider option act" where
  "reloadProvider M opts i =
    (if qo_new opts then
       bind_io (gets_io (\<lambda>w. m_findOne (mg_providers M) (\<lambda>d. dp_id d = i)
           (db_providers (readDb True w))))
         (\<lambda>r. case r of None \<Rightarrow> throw_io TypeError | Some d \<Rightarrow> return_io (Some d))
     else return_io None)"

definition DataProviderRepository_update ::
  "mongo \<Rightarrow> UpdateDataProviderData \<Rightarrow> QueryOptions \<Rightarrow> DataProvider option act" where
  "DataProviderRepository_update M data opts = inSession M opts
    (bind_io (findLiveProvider M (udp_id data) ''DataProvider not found'') (\<lambda>dataProvider.
     bind_io (updateProviderDoc M (dp_id dataProvider) (\<lambda>p.
       p\<lparr>dp_config := (case udp_auth data of None \<Rightarrow> dp_config p
                        | Some a \<Rightarrow> (dp_config p)\<lparr>cfg_auth := a\<rparr>),
         dp_metadata := opt_set_metadata (udp_metadata data) (dp_metadata p)\<rparr>)) (\<lambda>_.
     reloadProvider M opts (udp_id data))))"

definition DataProviderRepository_updateState ::
  "mongo \<Rightarrow> oid \<Rightarrow> ProviderState \<Rightarrow> QueryOptions \<Rightarrow> DataProvider option act" where
  "DataProviderRepository_updateState M i state opts = inSession M opts
    (bind_io (findLiveProvider M i ''DataProvider not found'') (\<lambda>dataProvider.
     bind_io (updateProviderDoc M (dp_id dataProvider) (\<lambda>p.
       p\<lparr>dp_state := (case ps_downloadedAt state of None \<Rightarrow> dp_state p
                       | Some t \<Rightarrow> Some \<lparr>ps_downloadedAt = Some t\<rparr>)\<rparr>)) (\<lambda>_.
     reloadProvider M opts i)))"

definition DataProviderRepository_delete :: "mongo \<Rightarrow> oid \<Rightarrow> QueryOptions \<Rightarrow> unit act" where
  "DataProviderRepository_delete M i opts = inSession M opts
    (bind_io (findLiveProvider M i ''Data Provider not found'') (\<lambda>dataProvider.
     bind_io (updateProviderDoc M (dp_id dataProvider) (\<lambda>p. p\<lparr>dp_isDeleted := True\<rparr>)) (\<lambda>_.
     writeDb True (\<lambda>d. d\<lparr>db_sources := m_updateMany (mg_sources M)
       (\<lambda>s. ds_provider_id s = i) (\<lambda>s. s\<lparr>ds_isDeleted := True\<rparr>) (db_sources d)\<rparr>))))"

section \<open>Facts\<close>

lemma set_metadata_lookup:
  "distinct (map fst kvs) \<Longrightarrow>
   (case set_metadata kvs old of None \<Rightarrow> None | Some m \<Rightarrow> map_of m k)
   = (case map_of kvs k of Some v \<Rightarrow> Some v
      | None \<Rightarrow> (case old of None \<Rightarrow> None | Some m \<Rightarrow> map_of m k))"
proof (induction kvs arbitrary: old)
  case Nil
  then show ?case by simp
next
  case (Cons kv kvs)
  obtain k' v where kv: "kv = (k', v)" by (cases kv)
  have "map_of kvs k' = None" using Cons.prems kv by (simp add: map_of_eq_None_iff)
  then show ?case using Cons kv
    by (auto simp: update_conv split: option.splits)
qed

context mongo_driver begin

lemma provider_getById:
  "DataProviderRepository_getById M i opts w =
    (Inr (List.find (\<lambda>d. dp_id d = i \<and> (qo_includeDeleted opts \<or> \<not> dp_isDeleted d))
       (db_providers (readDb (qo_session opts) w))), w)"
  by (simp add: DataProviderRepository_getById_def)

lemma provider_getByExternalId [repo_simps]:
  "DataProviderRepository_getByExternalId M e opts w =
    (Inr (List.find (\<lambda>d. dp_externalId d = e \<and> (qo_includeDeleted opts \<or> \<not> dp_isDeleted d))
       (db_providers (readDb (qo_session opts) w))), w)"
  by (simp add: DataProviderRepository_getByExternalId_def)

lemma provider_getById_deleted:
  assumes "DataProviderRepository_getById M i no_options w = (Inr (Some d), w')"
  shows "d \<in> set (db_providers (w_db w)) \<and> dp_id d = i \<and> \<not> dp_isDeleted d \<and> w' = w"
  using assms by (auto simp: provider_getById dest: find_SomeD)

end

end
