(* ===== verification/SyncflowRepository.thy ===== *)
theory SyncflowRepository
  imports Store
begin

text \<open>
  \<open>libs/modules/src/repository/mongodb/repositories/syncflow.repository.ts\<close> and the interface
  \<open>ISyncflowRepository\<close> its clients see, as a locale. \<open>updateStatus\<close>, \<open>increaseVersion\<close> and
  \<open>updateState\<close> ignore the \<open>session\<close> option: they always write the committed store.
\<close>

section \<open>Operations\<close>

definition SyncflowRepository_getById ::
  "mongo \<Rightarrow> oid \<Rightarrow> QueryOptions \<Rightarrow> Syncflow option act" where
  "SyncflowRepository_getById M i opts = gets_io (\<lambda>w.
     m_findOne (mg_syncflows M)
       (\<lambda>d. sf_id d = i \<and> (qo_includeDeleted opts \<or> \<not> sf_isDeleted d))
       (db_syncflows (readDb (qo_session opts) w)))"

definition SyncflowRepository_getByTriggerId ::
  "mongo \<Rightarrow> oid \<Rightarrow> QueryOptions \<Rightarrow> Syncflow option act" where
  "SyncflowRepository_getByTriggerId M i opts = gets_io (\<lambda>w.
     m_findOne (mg_syncflows M)
       (\<lambda>d. sf_trigger_id d = Some i \<and> (qo_includeDeleted opts \<or> \<not> sf_isDeleted d))
       (db_syncflows (readDb (qo_session opts) w)))"

text \<open>\<open>create\<close> and \<open>update\<close> run an empty transaction and return \<open>undefined\<close>.\<close>

definition SyncflowRepository_create :: "mongo \<Rightarrow> json \<Rightarrow> Syncflow option act" where
  "SyncflowRepository_create M data =
    bind_io (runWithTransaction M (return_io ())) (\<lambda>_. return_io None)"

definition SyncflowRepository_update ::
  "mongo \<Rightarrow> json \<Rightarrow> QueryOptions \<Rightarrow> Syncflow option act" where
  "SyncflowRepository_update M data opts =
    bind_io (runWithTransaction M (return_io ())) (\<lambda>_. return_io None)"

text \<open>\<open>updateOne({ _id, isDeleted: false }, ...)\<close>, without a session.\<close>

definition updateLiveSyncflow ::
  "mongo \<Rightarrow> oid \<Rightarrow> (SyncflowState \<Rightarrow> SyncflowState) \<Rightarrow> unit act" where
  "updateLiveSyncflow M i f = writeDb False (\<lambda>d. d\<lparr>db_syncflows :=
     m_updateOne (mg_syncflows M) (\<lambda>s. sf_id s = i \<and> \<not> sf_isDeleted s)
       (\<lambda>s. s\<lparr>sf_state := f (sf_state s)\<rparr>) (db_syncflows d)\<rparr>)"

text \<open>\<open>if (options?.new) return this.getById(id)\<close>.\<close>

definition returnNewSyncflow :: "mongo \<Rightarrow> QueryOptions \<Rightarrow> oid \<Rightarrow> Syncflow option act" where
  "returnNewSyncflow M opts i =
    (if qo_new opts then SyncflowRepository_getById M i no_options else return_io None)"

definition SyncflowRepository_updateStatus ::
  "mongo \<Rightarrow> oid \<Rightarrow> WorkflowStatus \<Rightarrow> QueryOptions \<Rightarrow> Syncflow option act" where
  "SyncflowRepository_updateStatus M i status opts =
    bind_io (updateLiveSyncflow M i (\<lambda>s. s\<lparr>ss_status := status\<rparr>))
      (\<lambda>_. returnNewSyncflow M opts i)"

definition SyncflowRepository_delete :: "mongo \<Rightarrow> oid \<Rightarrow> QueryOptions \<Rightarrow> unit act" where
  "SyncflowRepository_delete M i opts = inSession M opts
    (bind_io (gets_io (\<lambda>w. m_findOne (mg_syncflows M) (\<lambda>d. sf_id d = i \<and> \<not> sf_isDeleted d)
        (db_syncflows (readDb True w))))
      (\<lambda>r. case r of
         None \<Rightarrow> throw_io (PlainError ''Trigger not found'')
       | Some trigger \<Rightarrow> writeDb True (\<lambda>d. d\<lparr>db_syncflows :=
           m_updateOne (mg_syncflows M) (\<lambda>s. sf_id s = sf_id trigger)
             (\<lambda>s. s\<lparr>sf_isDeleted := True\<rparr>) (db_syncflows d)\<rparr>)))"

definition SyncflowRepository_increaseVersion ::
  "mongo \<Rightarrow> oid \<Rightarrow> QueryOptions \<Rightarrow> Syncflow option act" where
  "SyncflowRepository_increaseVersion M i opts =
    bind_io (updateLiveSyncflow M i (\<lambda>s. s\<lparr>ss_version := ss_version s + 1\<rparr>))
      (\<lambda>_. returnNewSyncflow M opts i)"

text \<open>
  \<open>$set: mapKeys(state, (_, key) => `state.${key}`)\<close>: every key of the update is set, the others
  keep their value. \<open>SyncflowStateModel\<close> declares \<open>downloadedAt\<close>, \<open>ingestedAt\<close>, \<open>status\<close>,
  \<open>version\<close> and \<open>prevVersion\<close> but no \<open>cursor\<close>, so a strict mongoose drops \<open>state.cursor\<close>.
\<close>

definition setState :: "mongo \<Rightarrow> SyncflowStateUpdate \<Rightarrow> SyncflowState \<Rightarrow> SyncflowState" where
  "setState M u s = \<lparr>
     ss_status = (case up_status u of None \<Rightarrow> ss_status s | Some v \<Rightarrow> v),
     ss_version = (case up_version u of None \<Rightarrow> ss_version s | Some v \<Rightarrow> v),
     ss_prevVersion = (case up_prevVersion u of None \<Rightarrow> ss_prevVersion s | Some v \<Rightarrow> v),
     ss_ctag = (case up_ctag u of None \<Rightarrow> ss_ctag s
                | Some v \<Rightarrow> if mg_strict M then ss_ctag s else v),
     ss_downloadedAt = (case up_downloadedAt u of None \<Rightarrow> ss_downloadedAt s | Some v \<Rightarrow> Some v),
     ss_ingestedAt = (case up_ingestedAt u of None \<Rightarrow> ss_ingestedAt s | Some v \<Rightarrow> Some v)\<rparr>"

definition SyncflowRepository_updateState ::
  "mongo \<Rightarrow> oid \<Rightarrow> SyncflowStateUpdate \<Rightarrow> QueryOptions \<Rightarrow> Syncflow option act" where
  "SyncflowRepository_updateState M i state opts =
    bind_io (updateLiveSyncflow M i (setState M state)) (\<lambda>_. returnNewSyncflow M opts i)"

lemma setState_sel [simp]:
  "ss_status (setState M u s) = (case up_status u of None \<Rightarrow> ss_status s | Some v \<Rightarrow> v)"
  "ss_version (setState M u s) = (case up_version u of None \<Rightarrow> ss_version s | Some v \<Rightarrow> v)"
  "ss_prevVersion (setState M u s)
    = (case up_prevVersion u of None \<Rightarrow> ss_prevVersion s | Some v \<Rightarrow> v)"
  "ss_ctag (setState M u s) = (case up_ctag u of None \<Rightarrow> ss_ctag s
      | Some v \<Rightarrow> if mg_strict M then ss_ctag s else v)"
  by (simp_all add: setState_def)

section \<open>The interface\<close>

text \<open>
  What a client of \<open>ISyncflowRepository\<close> relies on: reads do not write; a state update returns
  normally, changes exactly the live syncflow it names, in exactly the keys it gives, and touches
  nothing but the store.
\<close>

locale ISyncflowRepository =
  fixes getById :: "oid \<Rightarrow> Syncflow option act"
    and updateState :: "oid \<Rightarrow> SyncflowStateUpdate \<Rightarrow> Syncflow option act"
    and updateStatus :: "oid \<Rightarrow> WorkflowStatus \<Rightarrow> Syncflow option act"
    and apply_update :: "SyncflowStateUpdate \<Rightarrow> SyncflowState \<Rightarrow> SyncflowState"
  assumes getById_pure: "snd (getById i w) = w"
    and getById_total: "\<exists>r. fst (getById i w) = Inr r"
    and getById_frame: "w_db w = w_db w' \<Longrightarrow> fst (getById i w) = fst (getById i w')"
    and updateState_total: "\<exists>r. fst (updateState i u w) = Inr r"
    and updateState_same: "fst (getById i (snd (updateState i u w))) =
      map_sum id (map_option (\<lambda>s. s\<lparr>sf_state := apply_update u (sf_state s)\<rparr>))
        (fst (getById i w))"
    and updateState_other: "j \<noteq> i \<Longrightarrow>
      fst (getById j (snd (updateState i u w))) = fst (getById j w)"
    and updateState_frame: "w_events (snd (updateState i u w)) = w_events w"
      "w_calls (snd (updateState i u w)) = w_calls w" "w_now (snd (updateState i u w)) = w_now w"
    and updateStatus_as_state:
      "updateStatus i st w = updateState i (no_update\<lparr>up_status := Some st\<rparr>) w"
    and apply_status: "ss_status (apply_update u s)
      = (case up_status u of None \<Rightarrow> ss_status s | Some v \<Rightarrow> v)"
    and apply_version: "ss_version (apply_update u s)
      = (case up_version u of None \<Rightarrow> ss_version s | Some v \<Rightarrow> v)"
    and apply_prevVersion: "ss_prevVersion (apply_update u s)
      = (case up_prevVersion u of None \<Rightarrow> ss_prevVersion s | Some v \<Rightarrow> v)"
begin

definition stored :: "oid \<Rightarrow> world \<Rightarrow> Syncflow option" where
  "stored i w = (case fst (getById i w) of Inr r \<Rightarrow> r | Inl _ \<Rightarrow> None)"

lemma getById_stored: "getById i w = (Inr (stored i w), w)"
  using getById_total[of i w] getById_pure[of i w]
  by (cases "getById i w") (auto simp: stored_def)

lemma stored_frame: "w_db w = w_db w' \<Longrightarrow> stored i w = stored i w'"
  using getById_frame[of w w' i] by (simp add: stored_def)

lemma stored_updateState:
  "stored j (snd (updateState i u w)) =
    (if j = i then map_option (\<lambda>s. s\<lparr>sf_state := apply_update u (sf_state s)\<rparr>) (stored i w)
     else stored j w)"
proof (cases "j = i")
  case True
  have "fst (getById i (snd (updateState i u w))) = Inr (map_option
      (\<lambda>s. s\<lparr>sf_state := apply_update u (sf_state s)\<rparr>) (stored i w))"
    by (subst updateState_same) (simp add: getById_stored)
  with True show ?thesis by (simp add: stored_def)
next
  case False
  then show ?thesis using updateState_other[of j i u w] by (simp add: stored_def)
qed

text \<open>The state left by a completed syncflow run: idle, one version further.\<close>

lemma finish_version:
  assumes "stored i w = Some s"
  shows "\<exists>s'. stored i (snd (updateState i (no_update\<lparr>up_version := Some (v + 1),
      up_prevVersion := Some v, up_status := Some IDLING\<rparr>) w)) = Some s' \<and>
    ss_version (sf_state s') = v + 1 \<and> ss_prevVersion (sf_state s') = v \<and>
    ss_status (sf_state s') = IDLING"
  using assms by (simp add: stored_updateState apply_status apply_version apply_prevVersion)

end

section \<open>The repository implements the interface\<close>

lemma getById_tx_free: "w_db w = w_db w' \<Longrightarrow>
   fst (SyncflowRepository_getById M i no_options w) =
   fst (SyncflowRepository_getById M i no_options w')"
  by (simp add: SyncflowRepository_getById_def)

context mongo_driver begin

lemma syncflow_getById:
  "SyncflowRepository_getById M i opts w =
    (Inr (List.find (\<lambda>d. sf_id d = i \<and> (qo_includeDeleted opts \<or> \<not> sf_isDeleted d))
       (db_syncflows (readDb (qo_session opts) w))), w)"
  by (simp add: SyncflowRepository_getById_def)

lemma syncflow_updateState:
  "SyncflowRepository_updateState M i u opts w =
    (let w' = w\<lparr>w_db := (w_db w)\<lparr>db_syncflows :=
          update_first (\<lambda>s. sf_id s = i \<and> \<not> sf_isDeleted s)
            (\<lambda>s. s\<lparr>sf_state := setState M u (sf_state s)\<rparr>) (db_syncflows (w_db w))\<rparr>\<rparr>
     in (Inr (if qo_new opts
              then List.find (\<lambda>d. sf_id d = i \<and> \<not> sf_isDeleted d) (db_syncflows (w_db w'))
              else None), w'))"
  by (simp add: SyncflowRepository_updateState_def updateLiveSyncflow_def returnNewSyncflow_def
      syncflow_getById bind_io_run Let_def)

lemma syncflow_updateStatus [repo_simps]:
  "SyncflowRepository_updateStatus M i st opts w =
    SyncflowRepository_updateState M i (no_update\<lparr>up_status := Some st\<rparr>) opts w"
proof -
  have "(\<lambda>s. s\<lparr>ss_status := st\<rparr>) = setState M (no_update\<lparr>up_status := Some st\<rparr>)"
    by (rule ext) (simp add: setState_def no_update_def)
  then show ?thesis
    by (simp add: SyncflowRepository_updateStatus_def SyncflowRepository_updateState_def)
qed

lemma syncflow_repository_interface:
  "ISyncflowRepository (\<lambda>i. SyncflowRepository_getById M i no_options)
     (\<lambda>i u. SyncflowRepository_updateState M i u no_options)
     (\<lambda>i s. SyncflowRepository_updateStatus M i s no_options) (setState M)"
proof
  fix i u w
  show "fst (SyncflowRepository_getById M i no_options
      (snd (SyncflowRepository_updateState M i u no_options w))) =
    map_sum id (map_option (\<lambda>s. s\<lparr>sf_state := setState M u (sf_state s)\<rparr>))
      (fst (SyncflowRepository_getById M i no_options w))"
    by (simp add: syncflow_getById syncflow_updateState syncflow_updateStatus Let_def find_update_first_same)
next
  fix i j :: oid and u w
  assume "j \<noteq> i"
  then show "fst (SyncflowRepository_getById M j no_options
      (snd (SyncflowRepository_updateState M i u no_options w))) =
    fst (SyncflowRepository_getById M j no_options w)"
    by (auto simp: syncflow_getById syncflow_updateState syncflow_updateStatus Let_def intro!: find_update_first_other)
qed (simp_all add: syncflow_getById syncflow_updateState syncflow_updateStatus Let_def)

end

interpretation lsf: ISyncflowRepository "\<lambda>i. SyncflowRepository_getById listMongo i no_options"
  "\<lambda>i u. SyncflowRepository_updateState listMongo i u no_options"
  "\<lambda>i s. SyncflowRepository_updateStatus listMongo i s no_options" "setState listMongo"
  by (rule lm.syncflow_repository_interface)

end
