(* ===== verification/TriggerRepository.thy ===== *)
theory TriggerRepository
  imports Store
begin

text \<open>
  The trigger, webhook and idempotency repositories of
  \<open>libs/modules/src/repository/mongodb/repositories\<close>.
\<close>

section \<open>Triggers\<close>

definition TriggerRepository_getById ::
  "mongo \<Rightarrow> oid \<Rightarrow> QueryOptions \<Rightarrow> Trigger option act" where
  "TriggerRepository_getById M i opts = gets_io (\<lambda>w.
     m_findOne (mg_triggers M)
       (\<lambda>d. tr_id d = i \<and> (qo_includeDeleted opts \<or> \<not> tr_isDeleted d))
       (db_triggers (readDb (qo_session opts) w)))"

definition TriggerRepository_getByDataSourceId ::
  "mongo \<Rightarrow> oid \<Rightarrow> QueryOptions \<Rightarrow> Trigger list act" where
  "TriggerRepository_getByDataSourceId M dataSourceId opts = gets_io (\<lambda>w.
     m_find (mg_triggers M)
       (\<lambda>d. tr_sourceId d = dataSourceId \<and> (qo_includeDeleted opts \<or> \<not> tr_isDeleted d))
       (db_triggers (readDb (qo_session opts) w)))"

definition TriggerRepository_getByWorkflowId ::
  "mongo \<Rightarrow> oid \<Rightarrow> QueryOptions \<Rightarrow> Trigger option act" where
  "TriggerRepository_getByWorkflowId M i opts = gets_io (\<lambda>w.
     m_findOne (mg_triggers M)
       (\<lambda>d. tr_workflow_id d = i \<and> (qo_includeDeleted opts \<or> \<not> tr_isDeleted d))
       (db_triggers (readDb (qo_session opts) w)))"

text \<open>Deleted triggers are not filtered out here.\<close>

definition TriggerRepository_getByWorkflowIds :: "mongo \<Rightarrow> oid list \<Rightarrow> Trigger list act" where
  "TriggerRepository_getByWorkflowIds M syncflowIds = gets_io (\<lambda>w.
     m_find (mg_triggers M) (\<lambda>d. List.member syncflowIds (tr_workflow_id d))
       (db_triggers (readDb False w)))"

text \<open>A condition \<open>config.k: v\<close>; \<open>null\<close> also matches an absent path.\<close>

fun matchesConfig :: "TriggerConfig \<Rightarrow> Trigger \<Rightarrow> bool" where
  "matchesConfig [] d = True"
| "matchesConfig ((k, v) # kvs) d =
    ((case map_of (case tr_config d of None \<Rightarrow> [] | Some c \<Rightarrow> c) k of
        None \<Rightarrow> v = JNull | Some v' \<Rightarrow> v' = v) \<and> matchesConfig kvs d)"

definition TriggerRepository_getByConfig ::
  "mongo \<Rightarrow> TriggerConfig \<Rightarrow> QueryOptions \<Rightarrow> Trigger option act" where
  "TriggerRepository_getByConfig M config opts = gets_io (\<lambda>w.
     m_findOne (mg_triggers M)
       (\<lambda>d. matchesConfig config d \<and> (qo_includeDeleted opts \<or> \<not> tr_isDeleted d))
       (db_triggers (readDb (qo_session opts) w)))"

definition TriggerRepository_create :: "mongo \<Rightarrow> json \<Rightarrow> Trigger option act" where
  "TriggerRepository_create M data =
    bind_io (runWithTransaction M (return_io ())) (\<lambda>_. return_io None)"

definition TriggerRepository_update ::
  "mongo \<Rightarrow> oid \<Rightarrow> QueryOptions \<Rightarrow> Trigger option act" where
  "TriggerRepository_update M data opts =
    bind_io (runWithTransaction M (return_io ())) (\<lambda>_. return_io None)"

fun set_config :: "TriggerConfig \<Rightarrow> TriggerConfig option \<Rightarrow> TriggerConfig option" where
  "set_config [] old = old"
| "set_config ((k, v) # kvs) old =
    set_config kvs (Some (AList.update k v (case old of None \<Rightarrow> [] | Some m \<Rightarrow> m)))"

definition findLiveTrigger :: "mongo \<Rightarrow> oid \<Rightarrow> Trigger act" where
  "findLiveTrigger M i =
    bind_io (gets_io (\<lambda>w. m_findOne (mg_triggers M) (\<lambda>d. tr_id d = i \<and> \<not> tr_isDeleted d)
        (db_triggers (readDb True w))))
      (\<lambda>r. case r of None \<Rightarrow> throw_io (PlainError ''Trigger not found'')
           | Some d \<Rightarrow> return_io d)"

definition updateTriggerDoc :: "mongo \<Rightarrow> oid \<Rightarrow> (Trigger \<Rightarrow> Trigger) \<Rightarrow> unit act" where
  "updateTriggerDoc M i f = writeDb True (\<lambda>d. d\<lparr>db_triggers :=
     m_updateOne (mg_triggers M) (\<lambda>t. tr_id t = i) f (db_triggers d)\<rparr>)"

text \<open>
  With the \<open>new\<close> option the updated trigger is looked up under \<open>data.id\<close>, a key of the
  configuration, not under the argument \<open>id\<close>; \<open>toObjectId(undefined)\<close> is a new object id.
\<close>

definition TriggerRepository_updateConfig ::
  "mongo \<Rightarrow> oid \<Rightarrow> TriggerConfig \<Rightarrow> QueryOptions \<Rightarrow> Trigger option act" where
  "TriggerRepository_updateConfig M i data opts = inSession M opts
    (bind_io (findLiveTrigger M i) (\<lambda>trigger.
     bind_io (updateTriggerDoc M (tr_id trigger)
       (\<lambda>t. t\<lparr>tr_config := set_config data (tr_config t)\<rparr>)) (\<lambda>_.
     if qo_new opts then
       bind_io (case map_of data ''id'' of
           Some (JStr s) \<Rightarrow> return_io s
         | Some (JBool _) \<Rightarrow> throw_io TypeError
         | Some (JArr _) \<Rightarrow> throw_io TypeError
         | Some (JObj _) \<Rightarrow> throw_io TypeError
         | _ \<Rightarrow> newObjectId M) (\<lambda>j.
       bind_io (gets_io (\<lambda>w. m_findOne (mg_triggers M) (\<lambda>d. tr_id d = j)
           (db_triggers (readDb True w))))
         (\<lambda>r. case r of None \<Rightarrow> throw_io TypeError | Some d \<Rightarrow> return_io (Some d)))
     else return_io None)))"

definition TriggerRepository_delete :: "mongo \<Rightarrow> oid \<Rightarrow> QueryOptions \<Rightarrow> unit act" where
  "TriggerRepository_delete M i opts = inSession M opts
    (bind_io (findLiveTrigger M i) (\<lambda>trigger.
     updateTriggerDoc M (tr_id trigger) (\<lambda>t. t\<lparr>tr_isDeleted := True\<rparr>)))"

section \<open>Webhooks\<close>

record CreateWebhookData =
  cw_type :: WebhookType
  cw_url :: string
  cw_scope :: WebhookScope
  cw_dataSourceId :: "oid option"
  cw_assure :: "bool option"
  cw_metadata :: "(string \<times> json) list option"

definition WebhookRepository_getById ::
  "mongo \<Rightarrow> oid \<Rightarrow> QueryOptions \<Rightarrow> Webhook option act" where
  "WebhookRepository_getById M i opts = gets_io (\<lambda>w.
     m_findOne (mg_webhooks M)
       (\<lambda>d. wh_id d = i \<and> (qo_includeDeleted opts \<or> \<not> wh_isDeleted d))
       (db_webhooks (readDb (qo_session opts) w)))"

text \<open>Without a scope webhooks of every scope match; only the data source scope compares the data
  source.\<close>

definition WebhookRepository_getActiveWebhooksByType ::
  "mongo \<Rightarrow> WebhookType \<Rightarrow> WebhookScope option \<Rightarrow> oid option \<Rightarrow> QueryOptions \<Rightarrow> Webhook list act" where
  "WebhookRepository_getActiveWebhooksByType M ty scope dataSourceId opts = gets_io (\<lambda>w.
     m_find (mg_webhooks M)
       (\<lambda>d. wh_type d = ty \<and> wh_status d = WH_ACTIVE \<and>
            (qo_includeDeleted opts \<or> \<not> wh_isDeleted d) \<and>
            (case scope of
               None \<Rightarrow> True
             | Some SCOPE_DATA_SOURCE \<Rightarrow>
                 wh_scope d = SCOPE_DATA_SOURCE \<and> wh_dataSourceId d = dataSourceId
             | Some SCOPE_GLOBAL \<Rightarrow> wh_scope d = SCOPE_GLOBAL))
       (db_webhooks (readDb (qo_session opts) w)))"

text \<open>\<open>new this.webhookModel({ ...data, status: ACTIVE })\<close> with the schema's defaults.\<close>

definition newWebhook :: "oid \<Rightarrow> CreateWebhookData \<Rightarrow> Webhook" where
  "newWebhook i data = \<lparr>wh_id = i, wh_status = WH_ACTIVE, wh_scope = cw_scope data,
     wh_url = cw_url data, wh_type = cw_type data,
     wh_assure = (case cw_assure data of None \<Rightarrow> False | Some b \<Rightarrow> b),
     wh_dataSourceId = cw_dataSourceId data, wh_metadata = cw_metadata data,
     wh_isDeleted = False\<rparr>"

definition WebhookRepository_create ::
  "mongo \<Rightarrow> CreateWebhookData \<Rightarrow> QueryOptions \<Rightarrow> Webhook act" where
  "WebhookRepository_create M data opts =
    bind_io (newObjectId M) (\<lambda>i.
    bind_io (writeDb (qo_session opts) (\<lambda>d. d\<lparr>db_webhooks :=
       m_save (mg_webhooks M) (newWebhook i data) (db_webhooks d)\<rparr>))
      (\<lambda>_. return_io (newWebhook i data)))"

definition WebhookRepository_bulkCreate ::
  "mongo \<Rightarrow> CreateWebhookData list \<Rightarrow> QueryOptions \<Rightarrow> unit act" where
  "WebhookRepository_bulkCreate M data opts =
    bind_io (map_io (\<lambda>webhookData. bind_io (newObjectId M)
        (\<lambda>i. return_io (newWebhook i webhookData))) data)
      (\<lambda>webhooks. writeDb (qo_session opts) (\<lambda>d. d\<lparr>db_webhooks :=
         fold (m_save (mg_webhooks M)) webhooks (db_webhooks d)\<rparr>))"

definition WebhookRepository_update ::
  "mongo \<Rightarrow> json \<Rightarrow> QueryOptions \<Rightarrow> Webhook option act" where
  "WebhookRepository_update M data opts =
    bind_io (runWithTransaction M (return_io ())) (\<lambda>_. return_io None)"

definition WebhookRepository_delete :: "mongo \<Rightarrow> oid \<Rightarrow> QueryOptions \<Rightarrow> unit act" where
  "WebhookRepository_delete M i opts = inSession M opts
    (bind_io (gets_io (\<lambda>w. m_findOne (mg_webhooks M) (\<lambda>d. wh_id d = i \<and> \<not> wh_isDeleted d)
        (db_webhooks (readDb True w))))
      (\<lambda>r. case r of
         None \<Rightarrow> throw_io (PlainError ''Trigger not found'')
       | Some trigger \<Rightarrow> writeDb True (\<lambda>d. d\<lparr>db_webhooks :=
           m_updateOne (mg_webhooks M) (\<lambda>t. wh_id t = wh_id trigger)
             (\<lambda>t. t\<lparr>wh_isDeleted := True\<rparr>) (db_webhooks d)\<rparr>)))"

section \<open>Idempotency operations\<close>

text \<open>\<open>IdempotencyModel\<close> names the collection \<open>dataproviders\<close>; the model keeps its documents in
  a collection of their own.\<close>

definition IdempotencyRepository_getById ::
  "mongo \<Rightarrow> oid \<Rightarrow> QueryOptions \<Rightarrow> Operation option act" where
  "IdempotencyRepository_getById M i opts = gets_io (\<lambda>w.
     m_findOne (mg_operations M) (\<lambda>d. op_id d = i) (db_operations (readDb (qo_session opts) w)))"

definition IdempotencyRepository_getByOperationName ::
  "mongo \<Rightarrow> string \<Rightarrow> QueryOptions \<Rightarrow> Operation option act" where
  "IdempotencyRepository_getByOperationName M name opts = gets_io (\<lambda>w.
     m_findOne (mg_operations M) (\<lambda>d. op_name d = name)
       (db_operations (readDb (qo_session opts) w)))"

definition IdempotencyRepository_saveOperation ::
  "mongo \<Rightarrow> string \<Rightarrow> QueryOptions \<Rightarrow> unit act" where
  "IdempotencyRepository_saveOperation M name opts =
    bind_io (newObjectId M) (\<lambda>i. writeDb (qo_session opts) (\<lambda>d. d\<lparr>db_operations :=
       m_save (mg_operations M) \<lparr>op_id = i, op_name = name\<rparr> (db_operations d)\<rparr>))"

definition IdempotencyRepository_deleteByName ::
  "mongo \<Rightarrow> string \<Rightarrow> QueryOptions \<Rightarrow> unit act" where
  "IdempotencyRepository_deleteByName M name opts = inSession M opts
    (bind_io (gets_io (\<lambda>w. m_findOne (mg_operations M) (\<lambda>d. op_name d = name)
        (db_operations (readDb True w))))
      (\<lambda>r. case r of
         None \<Rightarrow> throw_io (PlainError ''Operation not found'')
       | Some document \<Rightarrow> writeDb True (\<lambda>d. d\<lparr>db_operations :=
           m_deleteOne (mg_operations M) (\<lambda>t. op_id t = op_id document) (db_operations d)\<rparr>)))"

section \<open>Facts\<close>

context mongo_driver begin

lemma trigger_getById:
  "TriggerRepository_getById M i opts w =
    (Inr (List.find (\<lambda>d. tr_id d = i \<and> (qo_includeDeleted opts \<or> \<not> tr_isDeleted d))
       (db_triggers (readDb (qo_session opts) w))), w)"
  by (simp add: TriggerRepository_getById_def)

lemma trigger_getByDataSourceId [repo_simps]:
  "TriggerRepository_getByDataSourceId M i opts w =
    (Inr (filter (\<lambda>d. tr_sourceId d = i \<and> (qo_includeDeleted opts \<or> \<not> tr_isDeleted d))
       (db_triggers (readDb (qo_session opts) w))), w)"
  by (simp add: TriggerRepository_getByDataSourceId_def)

end

end
