(* ===== verification/ConnectionRepository.thy ===== *)
theory ConnectionRepository
  imports SyncflowRepository TriggerRepository
begin

text \<open>
  \<open>libs/modules/src/repository/mongodb/repositories/syncConnection.repository.ts\<close>. A sync
  connection is created together with its syncflow and trigger documents and deleted together
  with them.

  \<open>create\<close> compares two \<open>ObjectId\<close> objects with \<open>===\<close>, so object ids built in memory carry the
  identity of the object beside the hexadecimal value that is stored.
\<close>

section \<open>Object ids in memory\<close>

record ObjectId =
  oi_ref :: nat
  oi_hex :: oid

text \<open>The \<open>_id\<close> of a new document: a new value in a new object.\<close>

definition allocObjectId :: "mongo \<Rightarrow> ObjectId act" where
  "allocObjectId M = (\<lambda>w. (Inr \<lparr>oi_ref = w_oids w, oi_hex = mg_oid M (w_oids w)\<rparr>,
     w\<lparr>w_oids := Suc (w_oids w)\<rparr>))"

text \<open>\<open>Utils.toObjectId(str)\<close>: a new object with the given value.\<close>

definition toObjectId :: "oid \<Rightarrow> ObjectId act" where
  "toObjectId hex = (\<lambda>w. (Inr \<lparr>oi_ref = w_oids w, oi_hex = hex\<rparr>, w\<lparr>w_oids := Suc (w_oids w)\<rparr>))"

lemma allocObjectId_run [simp, io_simps]:
  "allocObjectId M w = (Inr \<lparr>oi_ref = w_oids w, oi_hex = mg_oid M (w_oids w)\<rparr>,
     w\<lparr>w_oids := Suc (w_oids w)\<rparr>)"
  by (simp add: allocObjectId_def)

lemma toObjectId_run [simp, io_simps]:
  "toObjectId hex w = (Inr \<lparr>oi_ref = w_oids w, oi_hex = hex\<rparr>, w\<lparr>w_oids := Suc (w_oids w)\<rparr>)"
  by (simp add: toObjectId_def)

section \<open>Operations\<close>

record SyncflowCreateData =
  sfc_name :: string
  sfc_attributes :: SyncflowAttributes
  sfc_trigger_name :: string
  sfc_trigger_config :: "TriggerConfig option"
  sfc_config :: "json option"

record CreateSyncConnectionData =
  csc_config :: "SyncConnectionConfig option"
  csc_sourceId :: oid
  csc_syncflows :: "SyncflowCreateData list"

definition SyncConnectionRepository_getById ::
  "mongo \<Rightarrow> oid \<Rightarrow> QueryOptions \<Rightarrow> SyncConnection option act" where
  "SyncConnectionRepository_getById M i opts = gets_io (\<lambda>w.
     m_findOne (mg_connections M)
       (\<lambda>d. sc_id d = i \<and> (qo_includeDeleted opts \<or> \<not> sc_isDeleted d))
       (db_connections (readDb (qo_session opts) w)))"

definition SyncConnectionRepository_getByDataSourceId ::
  "mongo \<Rightarrow> oid \<Rightarrow> QueryOptions \<Rightarrow> SyncConnection option act" where
  "SyncConnectionRepository_getByDataSourceId M i opts = gets_io (\<lambda>w.
     m_findOne (mg_connections M)
       (\<lambda>d. sc_sourceId d = i \<and> (qo_includeDeleted opts \<or> \<not> sc_isDeleted d))
       (db_connections (readDb (qo_session opts) w)))"

text \<open>One syncflow document: registry lookups (a missing entry is a \<open>TypeError\<close>), \<open>new\<close>, \<open>save\<close>
  in the session. The result keeps the object that holds the \<open>_id\<close>.\<close>

definition createSyncflowDoc ::
  "mongo \<Rightarrow> registries \<Rightarrow> oid \<Rightarrow> SyncflowCreateData \<Rightarrow> (ObjectId \<times> Syncflow) act" where
  "createSyncflowDoc M R sourceId syncflowData =
    (case (SyncflowRegistry_get R (sfc_name syncflowData),
           TriggerRegistry_get R (sfc_trigger_name syncflowData)) of
       (Some syncflowFromRegistry, Some trigger) \<Rightarrow>
         bind_io (allocObjectId M) (\<lambda>i.
           let syncflow = \<lparr>sf_id = oi_hex i, sf_name = srr_name syncflowFromRegistry,
                 sf_attributes = srr_attributes syncflowFromRegistry, sf_sourceId = sourceId,
                 sf_state = defaultSyncflowState, sf_config = sfc_config syncflowData,
                 sf_trigger_id = None, sf_trigger_name = trr_name trigger,
                 sf_trigger_type = trr_type trigger, sf_isDeleted = False\<rparr>
           in bind_io (writeDb True (\<lambda>d. d\<lparr>db_syncflows :=
                 m_save (mg_syncflows M) syncflow (db_syncflows d)\<rparr>))
               (\<lambda>_. return_io (i, syncflow)))
     | _ \<Rightarrow> throw_io TypeError)"

text \<open>The trigger of one syncflow; the result keeps the objects holding its \<open>_id\<close> and its
  \<open>workflow.id\<close>.\<close>

definition createTriggerDoc ::
  "mongo \<Rightarrow> oid \<Rightarrow> (ObjectId \<times> Syncflow) \<times> SyncflowCreateData \<Rightarrow>
   (ObjectId \<times> ObjectId \<times> Trigger) act" where
  "createTriggerDoc M sourceId = (\<lambda>((_, syncflow), syncflowData).
    bind_io (toObjectId (sf_id syncflow)) (\<lambda>wid.
    bind_io (allocObjectId M) (\<lambda>i.
      let trigger = \<lparr>tr_id = oi_hex i, tr_name = sf_trigger_name syncflow,
            tr_type = sf_trigger_type syncflow, tr_workflow_id = oi_hex wid,
            tr_workflow_name = sf_name syncflow, tr_workflow_type = SYNCFLOW,
            tr_sourceId = sourceId, tr_config = sfc_trigger_config syncflowData,
            tr_isDeleted = False\<rparr>
      in bind_io (writeDb True (\<lambda>d. d\<lparr>db_triggers :=
            m_save (mg_triggers M) trigger (db_triggers d)\<rparr>))
          (\<lambda>_. return_io (i, wid, trigger)))))"

text \<open>The embedded syncflow; \<open>trigger.workflow.id === syncflow._id\<close> compares objects.\<close>

definition embedSyncflow ::
  "(ObjectId \<times> ObjectId \<times> Trigger) list \<Rightarrow> ObjectId \<times> Syncflow \<Rightarrow> EmbeddedSyncflow" where
  "embedSyncflow triggerDocuments = (\<lambda>(i, syncflow).
     \<lparr>es_id = oi_hex i, es_name = sf_name syncflow,
      es_trigger_id = map_option (\<lambda>(tid, _, _). oi_hex tid)
        (List.find (\<lambda>(_, wid, _). oi_ref wid = oi_ref i) triggerDocuments),
      es_trigger_name = sf_trigger_name syncflow, es_trigger_type = sf_trigger_type syncflow,
      es_config = sf_config syncflow\<rparr>)"

definition SyncConnectionRepository_create ::
  "mongo \<Rightarrow> registries \<Rightarrow> CreateSyncConnectionData \<Rightarrow> QueryOptions \<Rightarrow> SyncConnection act" where
  "SyncConnectionRepository_create M R data opts = inSession M opts
    (bind_io (map_io (createSyncflowDoc M R (csc_sourceId data)) (csc_syncflows data))
      (\<lambda>syncflowDocuments.
     bind_io (map_io (createTriggerDoc M (csc_sourceId data))
         (zip syncflowDocuments (csc_syncflows data)))
      (\<lambda>triggerDocuments.
     bind_io (allocObjectId M) (\<lambda>i.
       let syncConnection = \<lparr>sc_id = oi_hex i, sc_state = defaultSyncConnectionState,
             sc_sourceId = csc_sourceId data, sc_config = csc_config data,
             sc_syncflows = map (embedSyncflow triggerDocuments) syncflowDocuments,
             sc_isDeleted = False\<rparr>
       in bind_io (writeDb True (\<lambda>d. d\<lparr>db_connections :=
             m_save (mg_connections M) syncConnection (db_connections d)\<rparr>))
           (\<lambda>_. return_io syncConnection)))))"

definition findConnection :: "mongo \<Rightarrow> oid \<Rightarrow> string \<Rightarrow> SyncConnection act" where
  "findConnection M i msg =
    bind_io (gets_io (\<lambda>w. m_findOne (mg_connections M) (\<lambda>d. sc_id d = i)
        (db_connections (readDb True w))))
      (\<lambda>r. case r of None \<Rightarrow> throw_io (PlainError msg) | Some d \<Rightarrow> return_io d)"

definition updateConnectionDoc ::
  "mongo \<Rightarrow> oid \<Rightarrow> (SyncConnection \<Rightarrow> SyncConnection) \<Rightarrow> unit act" where
  "updateConnectionDoc M i f = writeDb True (\<lambda>d. d\<lparr>db_connections :=
     m_updateOne (mg_connections M) (\<lambda>c. sc_id c = i) f (db_connections d)\<rparr>)"

definition reloadConnection ::
  "mongo \<Rightarrow> QueryOptions \<Rightarrow> oid \<Rightarrow> SyncConnection option act" where
  "reloadConnection M opts i =
    (if qo_new opts then gets_io (\<lambda>w. m_findOne (mg_connections M) (\<lambda>d. sc_id d = i)
        (db_connections (readDb True w)))
     else return_io None)"

text \<open>\<open>update\<close> sets nothing.\<close>

definition SyncConnectionRepository_update ::
  "mongo \<Rightarrow> oid \<Rightarrow> QueryOptions \<Rightarrow> SyncConnection option act" where
  "SyncConnectionRepository_update M i opts = inSession M opts
    (bind_io (findConnection M i ''DataSource not found'') (\<lambda>syncConnection.
     bind_io (updateConnectionDoc M (sc_id syncConnection) (\<lambda>c. c)) (\<lambda>_.
     reloadConnection M opts i)))"

record UpdateSyncConnectionStateData =
  usc_id :: oid
  usc_status :: "SyncConnectionStatus option"
  usc_healthStatus :: "SyncConnectionHealthStatus option"

definition applyConnectionState ::
  "UpdateSyncConnectionStateData \<Rightarrow> SyncConnectionState \<Rightarrow> SyncConnectionState" where
  "applyConnectionState data s = s\<lparr>
     cs_status := (case usc_status data of None \<Rightarrow> cs_status s | Some v \<Rightarrow> v),
     cs_healthStatus := (case usc_healthStatus data of None \<Rightarrow> cs_healthStatus s | Some v \<Rightarrow> v)\<rparr>"

definition SyncConnectionRepository_updateState ::
  "mongo \<Rightarrow> UpdateSyncConnectionStateData \<Rightarrow> QueryOptions \<Rightarrow> SyncConnection option act" where
  "SyncConnectionRepository_updateState M data opts = inSession M opts
    (bind_io (findConnection M (usc_id data) ''Sync connection not found'') (\<lambda>syncConnection.
     bind_io (updateConnectionDoc M (sc_id syncConnection)
       (\<lambda>c. c\<lparr>sc_state := applyConnectionState data (sc_state c)\<rparr>)) (\<lambda>_.
     reloadConnection M opts (usc_id data))))"

text \<open>The syncflow and the trigger of one embedded syncflow; a missing document is a
  \<open>TypeError\<close> (\<open>null.updateOne\<close>).\<close>

definition deleteEmbedded :: "mongo \<Rightarrow> EmbeddedSyncflow \<Rightarrow> unit act" where
  "deleteEmbedded M syncflow =
    bind_io (gets_io (\<lambda>w. m_findOne (mg_syncflows M) (\<lambda>d. sf_id d = es_id syncflow)
        (db_syncflows (readDb True w)))) (\<lambda>r. case r of
      None \<Rightarrow> throw_io TypeError
    | Some syncflowDoc \<Rightarrow>
        bind_io (writeDb True (\<lambda>d. d\<lparr>db_syncflows := m_updateOne (mg_syncflows M)
            (\<lambda>s. sf_id s = sf_id syncflowDoc) (\<lambda>s. s\<lparr>sf_isDeleted := True\<rparr>) (db_syncflows d)\<rparr>))
        (\<lambda>_. bind_io (gets_io (\<lambda>w. m_findOne (mg_triggers M)
            (\<lambda>t. tr_workflow_id t = es_id syncflow) (db_triggers (readDb True w)))) (\<lambda>r.
          case r of
            None \<Rightarrow> throw_io TypeError
          | Some triggerDoc \<Rightarrow> writeDb True (\<lambda>d. d\<lparr>db_triggers := m_updateOne (mg_triggers M)
              (\<lambda>t. tr_id t = tr_id triggerDoc) (\<lambda>t. t\<lparr>tr_isDeleted := True\<rparr>)
              (db_triggers d)\<rparr>))))"

text \<open>The connection is looked up whether deleted or not; the document returned for \<open>old\<close> is the
  one read before the update.\<close>

definition SyncConnectionRepository_delete ::
  "mongo \<Rightarrow> oid \<Rightarrow> QueryOptions \<Rightarrow> SyncConnection option act" where
  "SyncConnectionRepository_delete M i opts = inSession M opts
    (bind_io (findConnection M i ''Sync connection not found'') (\<lambda>syncConnection.
     bind_io (updateConnectionDoc M (sc_id syncConnection) (\<lambda>c. c\<lparr>sc_isDeleted := True\<rparr>)) (\<lambda>_.
     bind_io (for_io (sc_syncflows syncConnection) (deleteEmbedded M)) (\<lambda>_.
     return_io (if qo_old opts then Some syncConnection else None)))))"

end
