(* ===== verification/SourceRepository.thy ===== *)
theory SourceRepository
  imports ProviderRepository ConnectionRepository
begin

text \<open>
  \<open>libs/modules/src/repository/mongodb/repositories/dataSource.repository.ts\<close>: data sources, and
  their deletion together with the sync connection.
\<close>

record CreateDataSourceData =
  cds_providerType :: ProviderType
  cds_providerId :: oid
  cds_externalId :: string
  cds_externalLocalId :: string
  cds_config :: DataSourceConfig
  cds_name :: "string option"
  cds_metadata :: "Metadata option"

record UpdateDataSourceData =
  uds_id :: oid
  uds_metadata :: "Metadata option"

record UpdateDataSourceStatisticsData =
  uss_rowsNumber :: "int option"
  uss_storageUsage :: "int option"

record DeletedDataSource =
  del_dataSource :: DataSource
  del_syncConnection :: "SyncConnection option"

definition DataSourceRepository_getById ::
  "mongo \<Rightarrow> oid \<Rightarrow> QueryOptions \<Rightarrow> DataSource option act" where
  "DataSourceRepository_getById M i opts = gets_io (\<lambda>w.
     m_findOne (mg_sources M)
       (\<lambda>d. ds_id d = i \<and> (qo_includeDeleted opts \<or> \<not> ds_isDeleted d))
       (db_sources (readDb (qo_session opts) w)))"

definition DataSourceRepository_getByProviderId ::
  "mongo \<Rightarrow> oid \<Rightarrow> QueryOptions \<Rightarrow> DataSource list act" where
  "DataSourceRepository_getByProviderId M providerId opts = gets_io (\<lambda>w.
     m_find (mg_sources M)
       (\<lambda>d. ds_provider_id d = providerId \<and> (qo_includeDeleted opts \<or> \<not> ds_isDeleted d))
       (db_sources (readDb (qo_session opts) w)))"

definition DataSourceRepository_getByExternalId ::
  "mongo \<Rightarrow> string \<Rightarrow> QueryOptions \<Rightarrow> DataSource option act" where
  "DataSourceRepository_getByExternalId M externalId opts = gets_io (\<lambda>w.
     m_findOne (mg_sources M)
       (\<lambda>d. ds_externalId d = externalId \<and> (qo_includeDeleted opts \<or> \<not> ds_isDeleted d))
       (db_sources (readDb (qo_session opts) w)))"

definition DataSourceRepository_create ::
  "mongo \<Rightarrow> CreateDataSourceData \<Rightarrow> QueryOptions \<Rightarrow> DataSource act" where
  "DataSourceRepository_create M data opts =
    bind_io (newObjectId M) (\<lambda>i.
      let dataSource = \<lparr>ds_id = i, ds_externalId = cds_externalId data,
            ds_externalLocalId = cds_externalLocalId data, ds_name = cds_name data,
            ds_provider_id = cds_providerId data, ds_provider_type = cds_providerType data,
            ds_config = cds_config data, ds_statistics = defaultDataSourceStatistics,
            ds_limits = defaultDataSourceLimitation, ds_metadata = cds_metadata data,
            ds_isDeleted = False\<rparr>
      in bind_io (writeDb (qo_session opts) (\<lambda>d. d\<lparr>db_sources :=
            m_save (mg_sources M) dataSource (db_sources d)\<rparr>))
          (\<lambda>_. return_io dataSource))"

definition findSource :: "mongo \<Rightarrow> (DataSource \<Rightarrow> bool) \<Rightarrow> DataSource act" where
  "findSource M p =
    bind_io (gets_io (\<lambda>w. m_findOne (mg_sources M) p (db_sources (readDb True w))))
      (\<lambda>r. case r of None \<Rightarrow> throw_io (PlainError ''DataSource not found'')
           | Some d \<Rightarrow> return_io d)"

definition updateSourceDoc :: "mongo \<Rightarrow> oid \<Rightarrow> (DataSource \<Rightarrow> DataSource) \<Rightarrow> unit act" where
  "updateSourceDoc M i f = writeDb True (\<lambda>d. d\<lparr>db_sources :=
     m_updateOne (mg_sources M) (\<lambda>c. ds_id c = i) f (db_sources d)\<rparr>)"

definition reloadSource :: "mongo \<Rightarrow> QueryOptions \<Rightarrow> oid \<Rightarrow> DataSource option act" where
  "reloadSource M opts i =
    (if qo_new opts then
       bind_io (gets_io (\<lambda>w. m_findOne (mg_sources M) (\<lambda>d. ds_id d = i)
           (db_sources (readDb True w))))
         (\<lambda>r. case r of None \<Rightarrow> throw_io TypeError | Some d \<Rightarrow> return_io (Some d))
     else return_io None)"

definition DataSourceRepository_update ::
  "mongo \<Rightarrow> UpdateDataSourceData \<Rightarrow> QueryOptions \<Rightarrow> DataSource option act" where
  "DataSourceRepository_update M data opts = inSession M opts
    (bind_io (findSource M (\<lambda>d. ds_id d = uds_id data)) (\<lambda>dataSource.
     bind_io (updateSourceDoc M (ds_id dataSource)
       (\<lambda>d. d\<lparr>ds_metadata := opt_set_metadata (uds_metadata data) (ds_metadata d)\<rparr>)) (\<lambda>_.
     reloadSource M opts (uds_id data))))"

definition sessionOnly :: QueryOptions where
  "sessionOnly = no_options\<lparr>qo_session := True\<rparr>"

text \<open>The sync connection is looked up and deleted in the same session; the document returned for
  \<open>old\<close> is the one read before the update.\<close>

definition DataSourceRepository_delete ::
  "mongo \<Rightarrow> oid \<Rightarrow> QueryOptions \<Rightarrow> DeletedDataSource option act" where
  "DataSourceRepository_delete M i opts = inSession M opts
    (bind_io (findSource M (\<lambda>d. ds_id d = i \<and> \<not> ds_isDeleted d)) (\<lambda>dataSource.
     bind_io (updateSourceDoc M (ds_id dataSource) (\<lambda>d. d\<lparr>ds_isDeleted := True\<rparr>)) (\<lambda>_.
     bind_io (SyncConnectionRepository_getByDataSourceId M i sessionOnly) (\<lambda>syncConnection.
     bind_io (case syncConnection of
         None \<Rightarrow> return_io ()
       | Some c \<Rightarrow> bind_io (SyncConnectionRepository_delete M (sc_id c) sessionOnly)
                    (\<lambda>_. return_io ())) (\<lambda>_.
     return_io (if qo_old opts
       then Some \<lparr>del_dataSource = dataSource, del_syncConnection = syncConnection\<rparr>
       else None))))))"

definition DataSourceRepository_updateStatistics ::
  "mongo \<Rightarrow> oid \<Rightarrow> UpdateDataSourceStatisticsData \<Rightarrow> QueryOptions \<Rightarrow> DataSource option act" where
  "DataSourceRepository_updateStatistics M i data opts = inSession M opts
    (bind_io (findSource M (\<lambda>d. ds_id d = i)) (\<lambda>dataSource.
     bind_io (updateSourceDoc M (ds_id dataSource) (\<lambda>d. d\<lparr>ds_statistics := (ds_statistics d)\<lparr>
         st_rowsNumber := (case uss_rowsNumber data of
            None \<Rightarrow> st_rowsNumber (ds_statistics d) | Some n \<Rightarrow> n),
         st_storageUsage := (case uss_storageUsage data of
            None \<Rightarrow> st_storageUsage (ds_statistics d) | Some n \<Rightarrow> n)\<rparr>\<rparr>)) (\<lambda>_.
     reloadSource M opts i)))"

section \<open>Live documents\<close>

text \<open>What the \<open>getBy...\<close> queries find: the first document that matches and is not deleted.\<close>

definition live_syncflow :: "oid \<Rightarrow> db \<Rightarrow> Syncflow option" where
  "live_syncflow i d = List.find (\<lambda>s. sf_id s = i \<and> \<not> sf_isDeleted s) (db_syncflows d)"

definition live_source :: "oid \<Rightarrow> db \<Rightarrow> DataSource option" where
  "live_source i d = List.find (\<lambda>s. ds_id s = i \<and> \<not> ds_isDeleted s) (db_sources d)"

definition live_provider :: "oid \<Rightarrow> db \<Rightarrow> DataProvider option" where
  "live_provider i d = List.find (\<lambda>p. dp_id p = i \<and> \<not> dp_isDeleted p) (db_providers d)"

definition live_trigger :: "oid \<Rightarrow> db \<Rightarrow> Trigger option" where
  "live_trigger i d = List.find (\<lambda>t. tr_id t = i \<and> \<not> tr_isDeleted t) (db_triggers d)"

definition live_connection :: "oid \<Rightarrow> db \<Rightarrow> SyncConnection option" where
  "live_connection i d =
     List.find (\<lambda>c. sc_sourceId c = i \<and> \<not> sc_isDeleted c) (db_connections d)"

lemmas live_defs = live_syncflow_def live_source_def live_provider_def live_trigger_def
  live_connection_def

lemma live_syncflow_id: "live_syncflow i d = Some s \<Longrightarrow> sf_id s = i \<and> \<not> sf_isDeleted s"
  by (auto simp: live_syncflow_def dest: find_SomeD)

lemma live_connection_id: "live_connection i d = Some c \<Longrightarrow> sc_sourceId c = i \<and> \<not> sc_isDeleted c"
  by (auto simp: live_connection_def dest: find_SomeD)

text \<open>The stored effect of a state update, and reading it back.\<close>

definition put_state :: "oid \<Rightarrow> (SyncflowState \<Rightarrow> SyncflowState) \<Rightarrow> db \<Rightarrow> db" where
  "put_state i f d = d\<lparr>db_syncflows :=
     update_first (\<lambda>s. sf_id s = i \<and> \<not> sf_isDeleted s) (\<lambda>s. s\<lparr>sf_state := f (sf_state s)\<rparr>)
       (db_syncflows d)\<rparr>"

lemma put_state_sel [simp]:
  "db_providers (put_state i f d) = db_providers d" "db_sources (put_state i f d) = db_sources d"
  "db_connections (put_state i f d) = db_connections d"
  "db_triggers (put_state i f d) = db_triggers d" "db_webhooks (put_state i f d) = db_webhooks d"
  by (simp_all add: put_state_def)

lemma live_syncflow_put_state:
  "live_syncflow j (put_state i f d) =
    (if j = i then map_option (\<lambda>s. s\<lparr>sf_state := f (sf_state s)\<rparr>) (live_syncflow i d)
     else live_syncflow j d)"
  by (auto simp: live_syncflow_def put_state_def find_update_first_same
      intro!: find_update_first_other)

lemma live_put_state [simp]:
  "live_source j (put_state i f d) = live_source j d"
  "live_provider j (put_state i f d) = live_provider j d"
  "live_trigger j (put_state i f d) = live_trigger j d"
  "live_connection j (put_state i f d) = live_connection j d"
  by (simp_all add: live_defs)

context mongo_driver begin

lemma getById_live [repo_simps]:
  "\<not> qo_includeDeleted opts \<Longrightarrow> SyncflowRepository_getById M i opts w =
     (Inr (live_syncflow i (readDb (qo_session opts) w)), w)"
  "\<not> qo_includeDeleted opts \<Longrightarrow> DataSourceRepository_getById M i opts w =
     (Inr (live_source i (readDb (qo_session opts) w)), w)"
  "\<not> qo_includeDeleted opts \<Longrightarrow> DataProviderRepository_getById M i opts w =
     (Inr (live_provider i (readDb (qo_session opts) w)), w)"
  "\<not> qo_includeDeleted opts \<Longrightarrow> TriggerRepository_getById M i opts w =
     (Inr (live_trigger i (readDb (qo_session opts) w)), w)"
  "\<not> qo_includeDeleted opts \<Longrightarrow> SyncConnectionRepository_getByDataSourceId M i opts w =
     (Inr (live_connection i (readDb (qo_session opts) w)), w)"
  by (simp_all add: live_defs SyncflowRepository_getById_def DataSourceRepository_getById_def
      DataProviderRepository_getById_def TriggerRepository_getById_def
      SyncConnectionRepository_getByDataSourceId_def)

lemma updateState_put [repo_simps]:
  "SyncflowRepository_updateState M i u opts w =
    (Inr (if qo_new opts then live_syncflow i (put_state i (setState M u) (w_db w)) else None),
     w\<lparr>w_db := put_state i (setState M u) (w_db w)\<rparr>)"
  by (simp add: syncflow_updateState put_state_def live_syncflow_def Let_def)

end

end
