(* ===== verification/Sessions.thy ===== *)
theory Sessions
  imports SourceRepository
begin

text \<open>
  Functions that act only through their session. Such a function, run by
  \<open>runWithTransaction\<close>, either replaces the committed store by what its session sees at the end
  or leaves it as it was; the predicate is closed under the ways the repositories are composed.
\<close>

named_theorems session_intros \<open>closure of \<open>session_only\<close>\<close>

definition in_tx :: "world \<Rightarrow> bool" where
  "in_tx w \<longleftrightarrow> (case w_tx w of None \<Rightarrow> False | Some (d, g) \<Rightarrow> g (w_db w) = d)"

definition same_outside :: "world \<Rightarrow> world \<Rightarrow> bool" where
  "same_outside w w' \<longleftrightarrow> w_db w' = w_db w \<and> w_events w' = w_events w \<and>
     w_calls w' = w_calls w \<and> w_now w' = w_now w"

definition session_only :: "'a act \<Rightarrow> bool" where
  "session_only fn \<longleftrightarrow> (\<forall>w. in_tx w \<longrightarrow> in_tx (snd (fn w)) \<and> same_outside w (snd (fn w)))"

lemma session_onlyI:
  assumes "\<And>w. in_tx w \<Longrightarrow> in_tx (snd (fn w)) \<and> same_outside w (snd (fn w))"
  shows "session_only fn"
  using assms by (simp add: session_only_def)

lemma same_outside_trans: "same_outside w w' \<Longrightarrow> same_outside w' w'' \<Longrightarrow> same_outside w w''"
  by (simp add: same_outside_def)

lemma session_only_return [session_intros]: "session_only (return_io x)"
  by (simp add: session_only_def same_outside_def)

lemma session_only_throw [session_intros]: "session_only (throw_io e)"
  by (simp add: session_only_def same_outside_def)

lemma session_only_gets [session_intros]: "session_only (gets_io f)"
  by (simp add: session_only_def same_outside_def)

lemma session_only_oid [session_intros]: "session_only (newObjectId M)"
  by (simp add: session_only_def same_outside_def in_tx_def split: option.splits)

lemma session_only_alloc [session_intros]: "session_only (allocObjectId M)"
  by (simp add: session_only_def same_outside_def in_tx_def split: option.splits)

lemma session_only_toObjectId [session_intros]: "session_only (toObjectId h)"
  by (simp add: session_only_def same_outside_def in_tx_def split: option.splits)

lemma session_only_write [session_intros]: "session_only (writeDb True f)"
  by (auto simp: session_only_def same_outside_def in_tx_def writeDb_def split: option.splits)

lemma session_only_bind [session_intros]:
  assumes "session_only m" and "\<And>x. session_only (f x)"
  shows "session_only (bind_io m f)"
proof (rule session_onlyI)
  fix w assume w: "in_tx w"
  obtain r w' where m: "m w = (r, w')" by (cases "m w")
  with w assms(1) have w': "in_tx w' \<and> same_outside w w'"
    unfolding session_only_def by (metis snd_conv)
  show "in_tx (snd (bind_io m f w)) \<and> same_outside w (snd (bind_io m f w))"
  proof (cases r)
    case (Inl e)
    then show ?thesis using m w' by (simp add: bind_io_run)
  next
    case (Inr x)
    have "in_tx (snd (f x w')) \<and> same_outside w' (snd (f x w'))"
      using assms(2) w' unfolding session_only_def by blast
    then show ?thesis using Inr m w' by (auto simp: bind_io_run intro: same_outside_trans)
  qed
qed

lemma session_only_for [session_intros]:
  "(\<And>x. session_only (f x)) \<Longrightarrow> session_only (for_io xs f)"
  by (induction xs) (auto intro: session_intros)

lemma session_only_map [session_intros]:
  "(\<And>x. session_only (f x)) \<Longrightarrow> session_only (map_io f xs)"
  by (induction xs) (auto intro!: session_intros)

lemma session_only_option [session_intros]:
  "session_only a \<Longrightarrow> (\<And>x. session_only (b x)) \<Longrightarrow>
   session_only (case v of None \<Rightarrow> a | Some x \<Rightarrow> b x)"
  by (cases v) simp_all

lemma session_only_if [session_intros]:
  "session_only a \<Longrightarrow> session_only b \<Longrightarrow> session_only (if c then a else b)"
  by simp

lemma session_only_Let [session_intros]: "session_only (f x) \<Longrightarrow> session_only (Let x f)"
  by simp

text \<open>A transaction over such a function is atomic.\<close>

context mongo_driver begin

lemma transaction_atomic:
  assumes "session_only fn"
  shows "runWithTransaction M fn w =
    (case fn (w\<lparr>w_tx := Some (w_db w, id)\<rparr>) of
       (Inl e, w') \<Rightarrow> (Inl e, w\<lparr>w_oids := w_oids w'\<rparr>)
     | (Inr x, w') \<Rightarrow> (Inr x, w\<lparr>w_db := readDb True w', w_oids := w_oids w'\<rparr>))"
proof -
  let ?w0 = "w\<lparr>w_tx := Some (w_db w, id)\<rparr>"
  obtain r w' where m: "fn ?w0 = (r, w')" by (cases "fn ?w0")
  have "in_tx ?w0" by (simp add: in_tx_def)
  then have *: "in_tx w' \<and> same_outside ?w0 w'"
    using assms m unfolding session_only_def by (metis snd_conv)
  then obtain d g where tx: "w_tx w' = Some (d, g)" "g (w_db w') = d"
    by (auto simp: in_tx_def split: option.splits)
  have eqs: "w_db w' = w_db w" "w_events w' = w_events w" "w_calls w' = w_calls w"
    "w_now w' = w_now w" using * by (simp_all add: same_outside_def)
  show ?thesis
    using m tx eqs by (cases r) (auto simp: runWithTransaction_def intro!: world.equality)
qed

text \<open>If it throws, the committed store is what it was.\<close>

lemma transaction_all_or_nothing:
  assumes "session_only fn" and "runWithTransaction M fn w = (Inl e, w')"
  shows "w_db w' = w_db w \<and> w_events w' = w_events w"
  using assms(2) by (auto simp: transaction_atomic[OF assms(1)] split: prod.splits sum.splits)

end

section \<open>The repositories act only through their session\<close>

lemma session_only_getByDataSourceId [session_intros]:
  "session_only (SyncConnectionRepository_getByDataSourceId M i opts)"
  by (simp add: SyncConnectionRepository_getByDataSourceId_def session_intros)

lemma session_only_findConnection [session_intros]: "session_only (findConnection M i msg)"
  unfolding findConnection_def by (intro session_intros)

lemma session_only_findSource [session_intros]: "session_only (findSource M p)"
  unfolding findSource_def by (intro session_intros)

lemma session_only_findLiveProvider [session_intros]: "session_only (findLiveProvider M i msg)"
  unfolding findLiveProvider_def by (intro session_intros)

lemma session_only_docs [session_intros]:
  "session_only (updateConnectionDoc M i f)" "session_only (updateSourceDoc M i g)"
  "session_only (updateProviderDoc M i h)"
  by (simp_all add: updateConnectionDoc_def updateSourceDoc_def updateProviderDoc_def
      session_intros)

lemma session_only_deleteEmbedded [session_intros]: "session_only (deleteEmbedded M e)"
  unfolding deleteEmbedded_def by (intro session_intros)

lemma session_only_connection_delete [session_intros]:
  "qo_session opts \<Longrightarrow> session_only (SyncConnectionRepository_delete M i opts)"
  unfolding SyncConnectionRepository_delete_def inSession_def
  by (simp, intro session_intros)

lemma session_only_createSyncflowDoc [session_intros]:
  "session_only (createSyncflowDoc M R s d)"
  unfolding createSyncflowDoc_def
  by (auto split: option.splits intro!: session_intros)

lemma session_only_createTriggerDoc [session_intros]: "session_only (createTriggerDoc M s d)"
  unfolding createTriggerDoc_def by (auto split: prod.splits intro!: session_intros)

lemma session_only_connection_create [session_intros]:
  "qo_session opts \<Longrightarrow> session_only (SyncConnectionRepository_create M R data opts)"
  unfolding SyncConnectionRepository_create_def inSession_def
  by (simp, intro session_intros)

lemma sessionOnly_sel [simp]:
  "qo_session sessionOnly" "\<not> qo_includeDeleted sessionOnly" "\<not> qo_new sessionOnly"
  "\<not> qo_old sessionOnly"
  by (simp_all add: sessionOnly_def)

lemma session_only_source_delete [session_intros]:
  "qo_session opts \<Longrightarrow> session_only (DataSourceRepository_delete M i opts)"
  unfolding DataSourceRepository_delete_def inSession_def
  by (simp, intro session_intros) simp

lemma session_only_provider_delete [session_intros]:
  "qo_session opts \<Longrightarrow> session_only (DataProviderRepository_delete M i opts)"
  unfolding DataProviderRepository_delete_def inSession_def
  by (simp, intro session_intros)

end
