(* ===== verification/Cascade.thy ===== *)
theory Cascade
  imports Sessions
begin

text \<open>
  Deletion cascades, stated on the store: the abstract effect of deleting a sync connection or a
  data source, the well-formedness the repositories maintain, and the refinement of the
  specifications by the repository code run in a transaction.
\<close>

section \<open>Well-formed stores\<close>

definition keys_distinct :: "db \<Rightarrow> bool" where
  "keys_distinct d \<longleftrightarrow> distinct (map dp_id (db_providers d)) \<and>
     distinct (map ds_id (db_sources d)) \<and> distinct (map sc_id (db_connections d)) \<and>
     distinct (map sf_id (db_syncflows d)) \<and> distinct (map tr_id (db_triggers d)) \<and>
     distinct (map tr_workflow_id (db_triggers d))"

text \<open>Every embedded syncflow of a connection has its syncflow document and its trigger.\<close>

definition embedded_present :: "db \<Rightarrow> bool" where
  "embedded_present d \<longleftrightarrow> (\<forall>c \<in> set (db_connections d). \<forall>e \<in> set (sc_syncflows c).
     es_id e \<in> set (map sf_id (db_syncflows d)) \<and>
     es_id e \<in> set (map tr_workflow_id (db_triggers d)))"

text \<open>No data source has two live sync connections.\<close>

definition one_live_connection :: "db \<Rightarrow> bool" where
  "one_live_connection d \<longleftrightarrow>
     distinct (map sc_sourceId (filter (\<lambda>c. \<not> sc_isDeleted c) (db_connections d)))"

definition db_wf :: "db \<Rightarrow> bool" where
  "db_wf d \<longleftrightarrow> keys_distinct d \<and> embedded_present d \<and> one_live_connection d"

section \<open>Runs of session functions\<close>

text \<open>From a session that sees \<open>d\<close>, \<open>fn\<close> returns \<open>x\<close> and leaves the session seeing \<open>d'\<close>; it takes
  no new object id.\<close>

definition runs :: "'a act \<Rightarrow> db \<Rightarrow> 'a \<Rightarrow> db \<Rightarrow> bool" where
  "runs fn d x d' \<longleftrightarrow> (\<forall>w. in_tx w \<longrightarrow> readDb True w = d \<longrightarrow>
     (\<exists>w'. fn w = (Inr x, w') \<and> in_tx w' \<and> readDb True w' = d' \<and> w_oids w' = w_oids w))"

named_theorems runs_intros \<open>runs of the repository steps\<close>

lemma runs_return [runs_intros]: "runs (return_io x) d x d"
  by (simp add: runs_def)

lemma runs_Pair [simp]: "runs (Pair (Inr x)) d x d"
  by (simp add: runs_def)

lemma runs_bind: "runs m d x d1 \<Longrightarrow> runs (f x) d1 y d2 \<Longrightarrow> runs (bind_io m f) d y d2"
  unfolding runs_def by (fastforce simp: bind_io_run)

lemma runs_gets: "runs (gets_io (\<lambda>w. f (readDb True w))) d (f d) d"
  by (simp add: runs_def)

lemma runs_write [runs_intros]: "runs (writeDb True f) d () (f d)"
  by (auto simp: runs_def in_tx_def readDb_def writeDb_def split: option.splits)

lemma runs_for:
  assumes "P d" and "\<And>x d. x \<in> set xs \<Longrightarrow> P d \<Longrightarrow> runs (f x) d () (h x d) \<and> P (h x d)"
  shows "runs (for_io xs f) d () (fold h xs d)"
  using assms
proof (induction xs arbitrary: d)
  case Nil
  then show ?case by (simp add: runs_return)
next
  case (Cons x xs)
  have "runs (f x) d () (h x d)" "P (h x d)" using Cons.prems by simp_all
  then have "runs (for_io xs f) (h x d) () (fold h xs (h x d))"
    using Cons.prems(2) by (intro Cons.IH) auto
  with \<open>runs (f x) d () (h x d)\<close> show ?case by (auto intro: runs_bind)
qed

context mongo_driver begin

text \<open>A run becomes a committed transaction.\<close>

lemma transaction_runs:
  assumes "session_only fn" and "runs fn (w_db w) x d'"
  shows "runWithTransaction M fn w = (Inr x, w\<lparr>w_db := d'\<rparr>)"
proof -
  let ?w0 = "w\<lparr>w_tx := Some (w_db w, id)\<rparr>"
  have "in_tx ?w0" "readDb True ?w0 = w_db w" by (simp_all add: in_tx_def readDb_def)
  then obtain w' where "fn ?w0 = (Inr x, w')" "readDb True w' = d'" "w_oids w' = w_oids w"
    using assms(2)[unfolded runs_def, rule_format, of ?w0] by auto
  then show ?thesis by (auto simp: transaction_atomic[OF assms(1)] intro!: world.equality)
qed

end

section \<open>The cascade of a sync connection\<close>

definition mark_embedded :: "EmbeddedSyncflow \<Rightarrow> db \<Rightarrow> db" where
  "mark_embedded e d = d\<lparr>
     db_syncflows := map (\<lambda>s. if sf_id s = es_id e then s\<lparr>sf_isDeleted := True\<rparr> else s)
       (db_syncflows d),
     db_triggers := map (\<lambda>t. if tr_workflow_id t = es_id e then t\<lparr>tr_isDeleted := True\<rparr> else t)
       (db_triggers d)\<rparr>"

definition mark_connection :: "oid \<Rightarrow> db \<Rightarrow> db" where
  "mark_connection i d = d\<lparr>db_connections :=
     map (\<lambda>c. if sc_id c = i then c\<lparr>sc_isDeleted := True\<rparr> else c) (db_connections d)\<rparr>"

definition cascade_connection :: "SyncConnection \<Rightarrow> db \<Rightarrow> db" where
  "cascade_connection c d = d\<lparr>
     db_connections := map (\<lambda>x. if sc_id x = sc_id c then x\<lparr>sc_isDeleted := True\<rparr> else x)
       (db_connections d),
     db_syncflows := map (\<lambda>s. if sf_id s \<in> es_id ` set (sc_syncflows c)
       then s\<lparr>sf_isDeleted := True\<rparr> else s) (db_syncflows d),
     db_triggers := map (\<lambda>t. if tr_workflow_id t \<in> es_id ` set (sc_syncflows c)
       then t\<lparr>tr_isDeleted := True\<rparr> else t) (db_triggers d)\<rparr>"

lemma mark_keys [simp]:
  "sf_id \<circ> (\<lambda>s. if p s then s\<lparr>sf_isDeleted := True\<rparr> else s) = sf_id"
  "tr_id \<circ> (\<lambda>t. if q t then t\<lparr>tr_isDeleted := True\<rparr> else t) = tr_id"
  "tr_workflow_id \<circ> (\<lambda>t. if q t then t\<lparr>tr_isDeleted := True\<rparr> else t) = tr_workflow_id"
  "sc_id \<circ> (\<lambda>c. if r c then c\<lparr>sc_isDeleted := True\<rparr> else c) = sc_id"
  by (auto simp: fun_eq_iff)

lemma fold_mark_embedded:
  "fold mark_embedded es d = d\<lparr>
     db_syncflows := map (\<lambda>s. if sf_id s \<in> es_id ` set es then s\<lparr>sf_isDeleted := True\<rparr> else s)
       (db_syncflows d),
     db_triggers := map (\<lambda>t. if tr_workflow_id t \<in> es_id ` set es then t\<lparr>tr_isDeleted := True\<rparr>
       else t) (db_triggers d)\<rparr>"
  by (induction es arbitrary: d) (auto simp: mark_embedded_def)

text \<open>What the loop over the embedded syncflows needs of the store, and keeps.\<close>

definition embedded_ready :: "EmbeddedSyncflow list \<Rightarrow> db \<Rightarrow> bool" where
  "embedded_ready es d \<longleftrightarrow> keys_distinct d \<and> (\<forall>e \<in> set es.
     es_id e \<in> set (map sf_id (db_syncflows d)) \<and>
     es_id e \<in> set (map tr_workflow_id (db_triggers d)))"

lemma embedded_ready_mark: "embedded_ready es d \<Longrightarrow> embedded_ready es (mark_embedded e d)"
  unfolding embedded_ready_def keys_distinct_def mark_embedded_def
  by (simp del: set_map list.set_map)

lemma key_found: "i \<in> set (map k xs) \<Longrightarrow> \<exists>x. find (\<lambda>x. k x = i) xs = Some x \<and> k x = i"
  by (induction xs) auto

context mongo_driver begin

lemma runs_deleteEmbedded:
  assumes "embedded_ready es d" and "e \<in> set es"
  shows "runs (deleteEmbedded M e) d () (mark_embedded e d)"
proof -
  obtain s where s: "find (\<lambda>s. sf_id s = es_id e) (db_syncflows d) = Some s" "sf_id s = es_id e"
    using assms key_found[of "es_id e" sf_id] unfolding embedded_ready_def by blast
  obtain t where t: "find (\<lambda>t. tr_workflow_id t = es_id e) (db_triggers d) = Some t"
    using assms key_found[of "es_id e" tr_workflow_id] unfolding embedded_ready_def by blast
  let ?d1 = "d\<lparr>db_syncflows := update_first (\<lambda>x. sf_id x = sf_id s)
      (\<lambda>x. x\<lparr>sf_isDeleted := True\<rparr>) (db_syncflows d)\<rparr>"
  have d1: "?d1 = d\<lparr>db_syncflows := map (\<lambda>s. if sf_id s = es_id e
      then s\<lparr>sf_isDeleted := True\<rparr> else s) (db_syncflows d)\<rparr>"
    using assms(1) s by (simp add: update_first_unique embedded_ready_def keys_distinct_def)
  have tr: "update_first (\<lambda>x. tr_id x = tr_id t) (\<lambda>x. x\<lparr>tr_isDeleted := True\<rparr>) (db_triggers d)
      = map (\<lambda>t. if tr_workflow_id t = es_id e then t\<lparr>tr_isDeleted := True\<rparr> else t)
          (db_triggers d)"
    by (rule update_first_unique_by_key[OF t])
       (use assms(1) in \<open>simp_all add: embedded_ready_def keys_distinct_def\<close>)
  show ?thesis
    unfolding deleteEmbedded_def mark_embedded_def
    apply (rule runs_bind[OF runs_gets])
    apply (simp add: s(1))
    apply (rule runs_bind[OF runs_write])
    apply (rule runs_bind[OF runs_gets])
    apply (simp add: t)
    apply (rule subst[of _ _ "\<lambda>r. runs (writeDb True _) _ () r", OF _ runs_write])
    using d1 tr by simp
qed

lemma runs_delete_loop:
  assumes "embedded_ready es d"
  shows "runs (for_io es (deleteEmbedded M)) d () (fold mark_embedded es d)"
  using assms
  by (intro runs_for[where P = "embedded_ready es"])
     (simp_all add: runs_deleteEmbedded embedded_ready_mark)

lemma runs_findConnection:
  "find (\<lambda>c. sc_id c = i) (db_connections d) = Some c \<Longrightarrow> runs (findConnection M i msg) d c d"
  unfolding findConnection_def
  by (rule runs_bind[OF runs_gets]) (simp add: runs_return)

lemma runs_connection_delete:
  assumes "db_wf d" and c: "find (\<lambda>c. sc_id c = i) (db_connections d) = Some c"
    and "qo_session opts"
  shows "runs (SyncConnectionRepository_delete M i opts) d
    (if qo_old opts then Some c else None) (cascade_connection c d)"
proof -
  have kd: "keys_distinct d" and ep: "embedded_present d"
    using assms(1) by (simp_all add: db_wf_def)
  have ci: "c \<in> set (db_connections d)" "sc_id c = i" using find_SomeD[OF c] by simp_all
  have d1: "d\<lparr>db_connections := update_first (\<lambda>x. sc_id x = sc_id c)
      (\<lambda>c. c\<lparr>sc_isDeleted := True\<rparr>) (db_connections d)\<rparr> = mark_connection i d"
    using kd ci by (simp add: mark_connection_def update_first_unique keys_distinct_def)
  have ready: "embedded_ready (sc_syncflows c) (mark_connection i d)"
    using kd ep ci unfolding embedded_ready_def mark_connection_def keys_distinct_def
      embedded_present_def by (simp del: set_map list.set_map)
  have casc: "fold mark_embedded (sc_syncflows c) (mark_connection i d) = cascade_connection c d"
    by (simp add: fold_mark_embedded cascade_connection_def mark_connection_def ci(2))
  have upd: "runs (updateConnectionDoc M (sc_id c) (\<lambda>c. c\<lparr>sc_isDeleted := True\<rparr>)) d ()
      (mark_connection i d)"
    unfolding updateConnectionDoc_def model_ops using runs_write[of
      "\<lambda>d. d\<lparr>db_connections := update_first (\<lambda>x. sc_id x = sc_id c)
        (\<lambda>c. c\<lparr>sc_isDeleted := True\<rparr>) (db_connections d)\<rparr>" d] d1 by simp
  have loop: "runs (for_io (sc_syncflows c) (deleteEmbedded M)) (mark_connection i d) ()
      (cascade_connection c d)"
    using runs_delete_loop[OF ready] casc by simp
  show ?thesis
    unfolding SyncConnectionRepository_delete_def inSession_def using assms(3)
    by (auto intro!: runs_bind[OF runs_findConnection[OF c]] runs_bind[OF upd] runs_bind[OF loop]
        runs_return)
qed

end

section \<open>The cascade of a data source\<close>

definition mark_source :: "oid \<Rightarrow> db \<Rightarrow> db" where
  "mark_source i d = d\<lparr>db_sources :=
     map (\<lambda>s. if ds_id s = i then s\<lparr>ds_isDeleted := True\<rparr> else s) (db_sources d)\<rparr>"

definition cascade_source :: "oid \<Rightarrow> db \<Rightarrow> db" where
  "cascade_source i d = (case live_connection i d of
     None \<Rightarrow> mark_source i d
   | Some c \<Rightarrow> cascade_connection c (mark_source i d))"

lemma mark_source_key [simp]:
  "ds_id \<circ> (\<lambda>s. if p s then s\<lparr>ds_isDeleted := True\<rparr> else s) = ds_id"
  by (auto simp: fun_eq_iff)

lemma db_wf_mark_source: "db_wf d \<Longrightarrow> db_wf (mark_source i d)"
  by (simp add: db_wf_def keys_distinct_def embedded_present_def one_live_connection_def
      mark_source_def)

lemma filter_marked:
  assumes "\<And>c b. g (c\<lparr>sc_isDeleted := b\<rparr>) = g c"
  shows "map g (filter (\<lambda>c. \<not> sc_isDeleted c)
      (map (\<lambda>x. if p x then x\<lparr>sc_isDeleted := True\<rparr> else x) cs))
    = map g (filter (\<lambda>c. \<not> p c) (filter (\<lambda>c. \<not> sc_isDeleted c) cs))"
  using assms by (induction cs) auto

lemma embedded_present_cong:
  assumes "map sc_syncflows (db_connections d') = map sc_syncflows (db_connections d)"
    and "map sf_id (db_syncflows d') = map sf_id (db_syncflows d)"
    and "map tr_workflow_id (db_triggers d') = map tr_workflow_id (db_triggers d)"
  shows "embedded_present d' = embedded_present d"
proof -
  have "embedded_present d = (\<forall>es \<in> set (map sc_syncflows (db_connections d)). \<forall>e \<in> set es.
     es_id e \<in> set (map sf_id (db_syncflows d)) \<and>
     es_id e \<in> set (map tr_workflow_id (db_triggers d)))" for d
    by (simp add: embedded_present_def)
  then show ?thesis using assms by (simp only:)
qed

lemma db_wf_cascade_connection:
  assumes "db_wf d"
  shows "db_wf (cascade_connection c d)"
proof -
  have "sc_syncflows \<circ> (\<lambda>x. if sc_id x = sc_id c then x\<lparr>sc_isDeleted := True\<rparr> else x) = sc_syncflows"
    by (auto simp: fun_eq_iff)
  then have "embedded_present (cascade_connection c d) = embedded_present d"
    by (intro embedded_present_cong) (simp_all add: cascade_connection_def)
  moreover have "one_live_connection (cascade_connection c d)"
    using assms unfolding db_wf_def one_live_connection_def cascade_connection_def
    by (simp add: filter_marked distinct_map_filter del: filter_filter)
  moreover have "keys_distinct (cascade_connection c d)"
    using assms by (simp add: db_wf_def keys_distinct_def cascade_connection_def)
  ultimately show ?thesis using assms by (simp add: db_wf_def)
qed

lemma db_wf_cascade_source: "db_wf d \<Longrightarrow> db_wf (cascade_source i d)"
  by (simp add: cascade_source_def db_wf_mark_source db_wf_cascade_connection split: option.split)

context mongo_driver begin

lemma runs_source_delete:
  assumes wf: "db_wf d"
    and s: "find (\<lambda>s. ds_id s = i \<and> \<not> ds_isDeleted s) (db_sources d) = Some s"
    and opts: "qo_session opts"
  shows "runs (DataSourceRepository_delete M i opts) d
    (if qo_old opts then Some \<lparr>del_dataSource = s, del_syncConnection = live_connection i d\<rparr>
     else None) (cascade_source i d)"
proof -
  have si: "ds_id s = i" using find_SomeD[OF s] by simp
  have d1: "d\<lparr>db_sources := update_first (\<lambda>x. ds_id x = ds_id s)
      (\<lambda>s. s\<lparr>ds_isDeleted := True\<rparr>) (db_sources d)\<rparr> = mark_source i d"
    using wf si
    by (simp add: mark_source_def update_first_unique db_wf_def keys_distinct_def)
  have find: "runs (findSource M (\<lambda>s. ds_id s = i \<and> \<not> ds_isDeleted s)) d s d"
    unfolding findSource_def by (rule runs_bind[OF runs_gets]) (simp add: s)
  have upd: "runs (updateSourceDoc M (ds_id s) (\<lambda>d. d\<lparr>ds_isDeleted := True\<rparr>)) d ()
      (mark_source i d)"
    unfolding updateSourceDoc_def model_ops using runs_write[of
      "\<lambda>d. d\<lparr>db_sources := update_first (\<lambda>x. ds_id x = ds_id s)
        (\<lambda>s. s\<lparr>ds_isDeleted := True\<rparr>) (db_sources d)\<rparr>" d] d1 by simp
  have conn: "runs (SyncConnectionRepository_getByDataSourceId M i sessionOnly)
      (mark_source i d) (live_connection i d) (mark_source i d)"
    unfolding SyncConnectionRepository_getByDataSourceId_def live_connection_def
    using runs_gets[of "\<lambda>d. find (\<lambda>c. sc_sourceId c = i \<and> \<not> sc_isDeleted c) (db_connections d)"
      "mark_source i d"]
    by (simp add: mark_source_def)
  have del: "runs (case live_connection i d of None \<Rightarrow> return_io ()
       | Some c \<Rightarrow> bind_io (SyncConnectionRepository_delete M (sc_id c) sessionOnly)
                    (\<lambda>_. return_io ())) (mark_source i d) () (cascade_source i d)"
  proof (cases "live_connection i d")
    case None
    then show ?thesis by (simp add: cascade_source_def runs_return)
  next
    case (Some c)
    then have "c \<in> set (db_connections (mark_source i d))"
      unfolding live_connection_def by (auto simp: mark_source_def dest: find_SomeD)
    then have "find (\<lambda>x. sc_id x = sc_id c) (db_connections (mark_source i d)) = Some c"
      using db_wf_mark_source[OF wf, of i]
      by (intro find_key_unique) (simp_all add: db_wf_def keys_distinct_def)
    then have "runs (SyncConnectionRepository_delete M (sc_id c) sessionOnly) (mark_source i d)
        None (cascade_connection c (mark_source i d))"
      using runs_connection_delete[OF db_wf_mark_source[OF wf], of "sc_id c" i c sessionOnly]
      by simp
    with Some show ?thesis
      by (auto simp: cascade_source_def intro: runs_bind runs_return)
  qed
  show ?thesis
    unfolding DataSourceRepository_delete_def inSession_def using opts
    by (auto intro!: runs_bind[OF find] runs_bind[OF upd] runs_bind[OF conn] runs_bind[OF del]
        runs_return)
qed

end

section \<open>What is visible after a cascade\<close>

lemma find_none_marked:
  "find (\<lambda>s. sf_id s = j \<and> \<not> sf_isDeleted s)
     (map (\<lambda>s. if sf_id s \<in> A then s\<lparr>sf_isDeleted := True\<rparr> else s) xs)
   = (if j \<in> A then None else find (\<lambda>s. sf_id s = j \<and> \<not> sf_isDeleted s) xs)"
  by (induction xs) auto

lemma find_trigger_marked:
  "find (\<lambda>t. tr_workflow_id t = j \<and> \<not> tr_isDeleted t)
     (map (\<lambda>t. if tr_workflow_id t \<in> A then t\<lparr>tr_isDeleted := True\<rparr> else t) xs)
   = (if j \<in> A then None else find (\<lambda>t. tr_workflow_id t = j \<and> \<not> tr_isDeleted t) xs)"
  by (induction xs) auto

lemma find_source_marked:
  "find (\<lambda>s. ds_id s = j \<and> \<not> ds_isDeleted s)
     (map (\<lambda>s. if ds_id s = i then s\<lparr>ds_isDeleted := True\<rparr> else s) xs)
   = (if j = i then None else find (\<lambda>s. ds_id s = j \<and> \<not> ds_isDeleted s) xs)"
  by (induction xs) auto

lemma live_connection_marked:
  assumes "distinct (map sc_sourceId (filter (\<lambda>c. \<not> sc_isDeleted c) cs))"
    and "c \<in> set cs" "\<not> sc_isDeleted c" "sc_sourceId c = i"
  shows "find (\<lambda>x. sc_sourceId x = i \<and> \<not> sc_isDeleted x)
    (map (\<lambda>x. if sc_id x = sc_id c then x\<lparr>sc_isDeleted := True\<rparr> else x) cs) = None"
proof -
  have "sc_id x = sc_id c" if "x \<in> set cs" "\<not> sc_isDeleted x" "sc_sourceId x = i" for x
  proof -
    have "x = c" using assms that
      by (auto simp: distinct_map dest: inj_onD[where x = x and y = c])
    then show ?thesis by simp
  qed
  then show ?thesis by (auto simp: find_None_iff)
qed

end
