(* ===== verification/Examples.thy ===== *)
theory Examples
  imports SourceRepository
begin

text \<open>
  Concrete documents and a concrete world on which the witnesses evaluate: one Google Sheets data
  source with its provider, sync connection, syncflow and trigger.
\<close>

definition example_config :: DataSourceConfig where
  "example_config = \<lparr>cfg_spreadsheetId = Some ''spr'', cfg_sheetId = Some ''7'',
     cfg_userId = Some ''u'', cfg_driveId = None, cfg_workbookId = Some ''wb'',
     cfg_worksheetId = Some ''w1'', cfg_worksheetName = Some ''Sheet1'',
     cfg_timezone = Some ''UTC'', cfg_auth = Some ''rt'', cfg_destTableName = None\<rparr>"

definition example_provider :: DataProvider where
  "example_provider = \<lparr>dp_id = ''p1'', dp_externalId = Some ''spr'', dp_type = GOOGLE_SHEETS,
     dp_config = example_config, dp_state = None, dp_metadata = None, dp_isDeleted = False\<rparr>"

definition example_source :: DataSource where
  "example_source = \<lparr>ds_id = ''d1'', ds_externalId = ''spr'', ds_externalLocalId = ''7'',
     ds_name = None, ds_provider_id = ''p1'', ds_provider_type = GOOGLE_SHEETS,
     ds_config = example_config, ds_statistics = defaultDataSourceStatistics,
     ds_limits = defaultDataSourceLimitation, ds_metadata = Some [(''team'', ''a'')],
     ds_isDeleted = False\<rparr>"

definition example_syncflow :: Syncflow where
  "example_syncflow = \<lparr>sf_id = ''s1'', sf_name = SN_GOOGLE_SHEETS_FULL,
     sf_attributes = builder_reset, sf_sourceId = ''d1'', sf_state = defaultSyncflowState,
     sf_config = None, sf_trigger_id = None, sf_trigger_name = TN_GOOGLE_SHEETS_WEBHOOK,
     sf_trigger_type = EVENT_WEBHOOK, sf_isDeleted = False\<rparr>"

definition example_trigger :: Trigger where
  "example_trigger = \<lparr>tr_id = ''t1'', tr_name = TN_GOOGLE_SHEETS_WEBHOOK, tr_type = EVENT_WEBHOOK,
     tr_workflow_id = ''s1'', tr_workflow_name = SN_GOOGLE_SHEETS_FULL,
     tr_workflow_type = SYNCFLOW, tr_sourceId = ''d1'', tr_config = None, tr_isDeleted = False\<rparr>"

definition example_connection :: SyncConnection where
  "example_connection = \<lparr>sc_id = ''c1'', sc_state = defaultSyncConnectionState,
     sc_sourceId = ''d1'', sc_config = None,
     sc_syncflows = [\<lparr>es_id = ''s1'', es_name = SN_GOOGLE_SHEETS_FULL, es_trigger_id = None,
       es_trigger_name = TN_GOOGLE_SHEETS_WEBHOOK, es_trigger_type = EVENT_WEBHOOK,
       es_config = None\<rparr>],
     sc_isDeleted = False\<rparr>"

definition example_db :: db where
  "example_db = empty_db\<lparr>db_providers := [example_provider], db_sources := [example_source],
     db_connections := [example_connection], db_syncflows := [example_syncflow],
     db_triggers := [example_trigger]\<rparr>"

definition example_world :: world where
  "example_world = empty_world\<lparr>w_db := example_db\<rparr>"

text \<open>The same data source as an Excel one.\<close>

definition excel_world :: world where
  "excel_world = empty_world\<lparr>w_db := example_db\<lparr>
     db_sources := [example_source\<lparr>ds_provider_type := MICROSOFT_EXCEL\<rparr>]\<rparr>\<rparr>"

lemmas example_defs = example_config_def example_provider_def example_source_def
  example_syncflow_def example_trigger_def example_connection_def example_db_def
  example_world_def excel_world_def empty_world_def empty_db_def

lemma mongo_driverI: "mongo_ok M \<Longrightarrow> mongo_driver M"
  by (rule mongo_driver.intro)

end
