(* ===== verification/Deletion.thy ===== *)
theory Deletion
  imports Cascade Examples
begin

text \<open>
  What the repositories' deletions and creations do to the committed store, run in a transaction
  of their own: the code refines the cascades of \<open>Cascade\<close>, leaves nothing of a deleted data
  source visible, keeps the store well formed, and is undone as a whole when it throws.
\<close>

section \<open>Deleting a data source\<close>

context mongo_driver begin

lemma source_delete_run:
  assumes "db_wf (w_db w)" and "live_source i (w_db w) = Some s" and "\<not> qo_session opts"
  shows "DataSourceRepository_delete M i opts w =
    (Inr (if qo_old opts
       then Some \<lparr>del_dataSource = s, del_syncConnection = live_connection i (w_db w)\<rparr> else None),
     w\<lparr>w_db := cascade_source i (w_db w)\<rparr>)"
proof -
  let ?o = "opts\<lparr>qo_session := True\<rparr>"
  have eq: "DataSourceRepository_delete M i opts
      = runWithTransaction M (DataSourceRepository_delete M i ?o)"
    using assms(3) by (simp add: DataSourceRepository_delete_def inSession_def)
  have "runs (DataSourceRepository_delete M i ?o) (w_db w)
      (if qo_old ?o then Some \<lparr>del_dataSource = s, del_syncConnection = live_connection i (w_db w)\<rparr>
       else None) (cascade_source i (w_db w))"
    using assms(1,2) by (intro runs_source_delete) (simp_all add: live_source_def)
  from transaction_runs[OF session_only_source_delete this] show ?thesis by (simp add: eq)
qed

lemma connection_delete_run:
  assumes "db_wf (w_db w)" and "find (\<lambda>c. sc_id c = i) (db_connections (w_db w)) = Some c"
    and "\<not> qo_session opts"
  shows "SyncConnectionRepository_delete M i opts w =
    (Inr (if qo_old opts then Some c else None),
     w\<lparr>w_db := cascade_connection c (w_db w)\<rparr>)"
proof -
  let ?o = "opts\<lparr>qo_session := True\<rparr>"
  have eq: "SyncConnectionRepository_delete M i opts
      = runWithTransaction M (SyncConnectionRepository_delete M i ?o)"
    using assms(3) by (simp add: SyncConnectionRepository_delete_def inSession_def)
  have "runs (SyncConnectionRepository_delete M i ?o) (w_db w)
      (if qo_old ?o then Some c else None) (cascade_connection c (w_db w))"
    using assms(1,2) by (intro runs_connection_delete) simp_all
  from transaction_runs[OF session_only_connection_delete this] show ?thesis by (simp add: eq)
qed

end

text \<open>The store after the cascade of a data source, read through the queries of the code.\<close>

lemma live_cascade_connection:
  "live_syncflow j (cascade_connection c d) =
     (if j \<in> es_id ` set (sc_syncflows c) then None else live_syncflow j d)"
  "live_source j (cascade_connection c d) = live_source j d"
  "live_provider j (cascade_connection c d) = live_provider j d"
  by (simp_all add: live_defs cascade_connection_def find_none_marked)

lemma live_cascade_source:
  assumes "live_connection i d = Some c"
  shows "live_syncflow j (cascade_source i d) =
     (if j \<in> es_id ` set (sc_syncflows c) then None else live_syncflow j d)"
    and "live_source j (cascade_source i d) = (if j = i then None else live_source j d)"
  using assms
  by (simp_all add: cascade_source_def live_cascade_connection)
     (simp_all add: live_defs mark_source_def find_source_marked)

lemma live_connection_cascade_source:
  assumes "db_wf d"
  shows "live_connection i (cascade_source i d) = None"
proof (cases "live_connection i d")
  case None
  then show ?thesis by (simp add: cascade_source_def live_connection_def mark_source_def)
next
  case (Some c)
  then have "c \<in> set (db_connections d)" "\<not> sc_isDeleted c" "sc_sourceId c = i"
    by (auto simp: live_connection_def dest: find_SomeD)
  then show ?thesis
    using assms Some
    by (simp add: cascade_source_def live_connection_def cascade_connection_def mark_source_def
        live_connection_marked db_wf_def one_live_connection_def)
qed

lemma trigger_cascade_source:
  assumes "live_connection i d = Some c"
  shows "find (\<lambda>t. tr_workflow_id t = j \<and> \<not> tr_isDeleted t) (db_triggers (cascade_source i d)) =
     (if j \<in> es_id ` set (sc_syncflows c) then None
      else find (\<lambda>t. tr_workflow_id t = j \<and> \<not> tr_isDeleted t) (db_triggers d))"
  using assms
  by (simp add: cascade_source_def cascade_connection_def mark_source_def find_trigger_marked)

text \<open>
  C23: deleting a data source is the cascade. Outside a caller's session, on a well-formed store
  with the data source live, the repository marks as deleted, in one transaction, the data
  source, its live sync connection, and the syncflow and trigger of every embedded syncflow, and
  nothing else; with \<open>old\<close> it returns the documents as they were; the store stays well formed.
\<close>

theorem source_delete_refines_cascade:
  assumes "mongo_ok M" and "db_wf (w_db w)" and "live_source i (w_db w) = Some s"
    and "\<not> qo_session opts"
  shows "DataSourceRepository_delete M i opts w =
      (Inr (if qo_old opts
         then Some \<lparr>del_dataSource = s, del_syncConnection = live_connection i (w_db w)\<rparr>
         else None),
       w\<lparr>w_db := cascade_source i (w_db w)\<rparr>)
    \<and> db_wf (cascade_source i (w_db w))"
  using mongo_driver.source_delete_run[OF mongo_driverI[OF assms(1)] assms(2-4)]
    db_wf_cascade_source[OF assms(2)] by blast

lemma example_db_wf: "db_wf example_db"
  by (simp add: db_wf_def keys_distinct_def embedded_present_def one_live_connection_def
      example_defs)

lemma example_db_live [simp]:
  "live_source ''d1'' example_db = Some example_source"
  "live_connection ''d1'' example_db = Some example_connection"
  "live_syncflow ''s1'' example_db = Some example_syncflow"
  by (simp_all add: live_defs example_defs)

lemma example_world_sel [simp]:
  "w_db example_world = example_db" "w_tx example_world = None" "w_events example_world = []"
  "w_calls example_world = []"
  by (simp_all add: example_world_def empty_world_def)

theorem source_delete_refines_cascade_witness:
  "db_wf (w_db (snd (DataSourceRepository_delete listMongo ''d1'' no_options example_world)))"
  using source_delete_refines_cascade [OF listMongo_ok, of example_world "''d1''" example_source
      no_options] example_db_wf
  by auto

text \<open>
  After a data source is deleted, nothing of it is visible. A successful deletion leaves no
  live data source of that id, no live sync connection for it, and no live syncflow or trigger of
  the connection it had; every other data source and syncflow is as visible as before.
\<close>

theorem deleted_source_not_visible:
  assumes "mongo_ok M" and "db_wf (w_db w)" and "\<not> qo_session opts"
    and "live_connection i (w_db w) = Some c"
    and "DataSourceRepository_delete M i opts w = (Inr r, w')"
    and "live_source i (w_db w) = Some s"
  shows "live_source i (w_db w') = None \<and> live_connection i (w_db w') = None
    \<and> (\<forall>j. live_syncflow j (w_db w') = (if j \<in> es_id ` set (sc_syncflows c) then None
          else live_syncflow j (w_db w))
        \<and> find (\<lambda>t. tr_workflow_id t = j \<and> \<not> tr_isDeleted t) (db_triggers (w_db w')) =
          (if j \<in> es_id ` set (sc_syncflows c) then None
           else find (\<lambda>t. tr_workflow_id t = j \<and> \<not> tr_isDeleted t) (db_triggers (w_db w)))
        \<and> (j \<noteq> i \<longrightarrow> live_source j (w_db w') = live_source j (w_db w)))"
proof -
  have w': "w_db w' = cascade_source i (w_db w)"
    using mongo_driver.source_delete_run[OF mongo_driverI[OF assms(1)] assms(2,6,3)] assms(5)
    by auto
  show ?thesis
    unfolding w' by (simp add: live_cascade_source[OF assms(4)] trigger_cascade_source[OF assms(4)]
        live_connection_cascade_source[OF assms(2)])
qed

theorem deleted_source_not_visible_witness:
  "live_syncflow ''s1'' (w_db (snd (DataSourceRepository_delete listMongo ''d1'' no_options
     example_world))) = None"
proof -
  obtain r w' where d: "DataSourceRepository_delete listMongo ''d1'' no_options example_world
      = (Inr r, w')"
    using lm.source_delete_run[of example_world "''d1''" example_source no_options] example_db_wf
    by auto
  show ?thesis
    using deleted_source_not_visible [OF listMongo_ok _ _ _ d, of example_connection example_source]
      example_db_wf d by (simp add: example_connection_def)
qed

section \<open>Atomicity\<close>

text \<open>
  C25: the multi-document operations of the repositories are all or nothing. Deleting a data
  source, a sync connection or a provider, or creating a sync connection, outside a caller's
  session: when the operation throws at any step, the committed store is exactly what it was.
\<close>

theorem repository_operations_atomic:
  assumes "mongo_ok M" and "\<not> qo_session opts"
    and "DataSourceRepository_delete M i opts w = (Inl e, w') \<or>
      SyncConnectionRepository_delete M i opts w = (Inl e, w') \<or>
      DataProviderRepository_delete M i opts w = (Inl e, w') \<or>
      SyncConnectionRepository_create M R data opts w = (Inl e, w')"
  shows "w_db w' = w_db w \<and> w_events w' = w_events w"
proof -
  note atomic = mongo_driver.transaction_all_or_nothing[OF mongo_driverI[OF assms(1)]]
  let ?o = "opts\<lparr>qo_session := True\<rparr>"
  have eqs:
    "DataSourceRepository_delete M i opts = runWithTransaction M (DataSourceRepository_delete M i ?o)"
    "SyncConnectionRepository_delete M i opts
      = runWithTransaction M (SyncConnectionRepository_delete M i ?o)"
    "DataProviderRepository_delete M i opts
      = runWithTransaction M (DataProviderRepository_delete M i ?o)"
    "SyncConnectionRepository_create M R data opts
      = runWithTransaction M (SyncConnectionRepository_create M R data ?o)"
    using assms(2) by (simp_all add: DataSourceRepository_delete_def inSession_def
        SyncConnectionRepository_delete_def DataProviderRepository_delete_def
        SyncConnectionRepository_create_def)
  from assms(3) show ?thesis
    unfolding eqs by (elim disjE) (erule atomic[rotated]; simp add: session_intros)+
qed

definition no_trigger_world :: world where
  "no_trigger_world = example_world\<lparr>w_db := example_db\<lparr>db_triggers := []\<rparr>\<rparr>"

lemma no_trigger_delete_throws:
  "fst (DataSourceRepository_delete listMongo ''d1'' no_options no_trigger_world) = Inl TypeError"
  by (simp add: no_trigger_world_def DataSourceRepository_delete_def inSession_def
      runWithTransaction_def findSource_def updateSourceDoc_def io_simps readDb_def writeDb_def
      SyncConnectionRepository_getByDataSourceId_def SyncConnectionRepository_delete_def
      findConnection_def updateConnectionDoc_def deleteEmbedded_def example_defs)

theorem repository_operations_atomic_witness:
  "w_db (snd (DataSourceRepository_delete listMongo ''d1'' no_options no_trigger_world))
    = example_db\<lparr>db_triggers := []\<rparr>"
proof -
  obtain w' where d: "DataSourceRepository_delete listMongo ''d1'' no_options no_trigger_world
      = (Inl TypeError, w')"
    using no_trigger_delete_throws by (metis prod.collapse)
  show ?thesis
    using repository_operations_atomic [OF listMongo_ok _ disjI1, OF _ d] d
    by (simp add: no_trigger_world_def)
qed

end
