(* ===== verification/Creation.thy ===== *)
theory Creation
  imports Deletion Events
begin

text \<open>
  \<open>SyncConnectionRepository.create\<close> in a transaction of its own: the documents it adds, the
  well-formedness of the store it leaves, and the reference from the embedded syncflow to its
  trigger.
\<close>

section \<open>Session functions that take new object ids\<close>

text \<open>As \<open>runs\<close>, with the number of object ids used so far before and after.\<close>

definition allocs :: "'a act \<Rightarrow> db \<Rightarrow> nat \<Rightarrow> 'a \<Rightarrow> db \<Rightarrow> nat \<Rightarrow> bool" where
  "allocs fn d n x d' n' \<longleftrightarrow> (\<forall>w. in_tx w \<longrightarrow> readDb True w = d \<longrightarrow> w_oids w = n \<longrightarrow>
     (\<exists>w'. fn w = (Inr x, w') \<and> in_tx w' \<and> readDb True w' = d' \<and> w_oids w' = n'))"

lemma allocs_return: "allocs (return_io x) d n x d n"
  by (simp add: allocs_def)

lemma allocs_bind:
  "allocs m d n x d1 n1 \<Longrightarrow> allocs (f x) d1 n1 y d2 n2 \<Longrightarrow> allocs (bind_io m f) d n y d2 n2"
  unfolding allocs_def by (fastforce simp: bind_io_run)

lemma allocs_Cons:
  "allocs (f x) d n y d1 n1 \<Longrightarrow> allocs (map_io f xs) d1 n1 ys d2 n2 \<Longrightarrow>
   allocs (map_io f (x # xs)) d n (y # ys) d2 n2"
  unfolding map_io.simps by (erule allocs_bind) (erule allocs_bind, rule allocs_return)

lemma allocs_write: "allocs (writeDb True f) d n () (f d) n"
  by (auto simp: allocs_def in_tx_def readDb_def writeDb_def split: option.splits)

lemma allocs_alloc:
  "allocs (allocObjectId M) d n \<lparr>oi_ref = n, oi_hex = mg_oid M n\<rparr> d (Suc n)"
  by (auto simp: allocs_def in_tx_def readDb_def split: option.splits)

lemma allocs_toObjectId: "allocs (toObjectId h) d n \<lparr>oi_ref = n, oi_hex = h\<rparr> d (Suc n)"
  by (auto simp: allocs_def in_tx_def readDb_def split: option.splits)

context mongo_driver begin

lemma transaction_allocs:
  assumes "session_only fn" and "allocs fn (w_db w) (w_oids w) x d' n'"
  shows "runWithTransaction M fn w = (Inr x, w\<lparr>w_db := d', w_oids := n'\<rparr>)"
proof -
  let ?w0 = "w\<lparr>w_tx := Some (w_db w, id)\<rparr>"
  have "in_tx ?w0" "readDb True ?w0 = w_db w" "w_oids ?w0 = w_oids w"
    by (simp_all add: in_tx_def readDb_def)
  then obtain w' where "fn ?w0 = (Inr x, w')" "readDb True w' = d'" "w_oids w' = n'"
    using assms(2) unfolding allocs_def by blast
  then show ?thesis by (auto simp: transaction_atomic[OF assms(1)])
qed

end

section \<open>The documents of a new connection\<close>

definition newSyncflow ::
  "mongo \<Rightarrow> registries \<Rightarrow> oid \<Rightarrow> nat \<Rightarrow> SyncflowCreateData \<Rightarrow> ObjectId \<times> Syncflow" where
  "newSyncflow M R sourceId n data =
    (let s = the (SyncflowRegistry_get R (sfc_name data));
         t = the (TriggerRegistry_get R (sfc_trigger_name data))
     in (\<lparr>oi_ref = n, oi_hex = mg_oid M n\<rparr>,
         \<lparr>sf_id = mg_oid M n, sf_name = srr_name s, sf_attributes = srr_attributes s,
          sf_sourceId = sourceId, sf_state = defaultSyncflowState, sf_config = sfc_config data,
          sf_trigger_id = None, sf_trigger_name = trr_name t, sf_trigger_type = trr_type t,
          sf_isDeleted = False\<rparr>))"

fun newSyncflows ::
  "mongo \<Rightarrow> registries \<Rightarrow> oid \<Rightarrow> nat \<Rightarrow> SyncflowCreateData list \<Rightarrow> (ObjectId \<times> Syncflow) list" where
  "newSyncflows M R sourceId n [] = []"
| "newSyncflows M R sourceId n (x # xs) =
     newSyncflow M R sourceId n x # newSyncflows M R sourceId (Suc n) xs"

definition newTrigger ::
  "mongo \<Rightarrow> oid \<Rightarrow> nat \<Rightarrow> (ObjectId \<times> Syncflow) \<times> SyncflowCreateData \<Rightarrow>
   ObjectId \<times> ObjectId \<times> Trigger" where
  "newTrigger M sourceId n p =
    (let s = snd (fst p)
     in (\<lparr>oi_ref = Suc n, oi_hex = mg_oid M (Suc n)\<rparr>, \<lparr>oi_ref = n, oi_hex = sf_id s\<rparr>,
         \<lparr>tr_id = mg_oid M (Suc n), tr_name = sf_trigger_name s, tr_type = sf_trigger_type s,
          tr_workflow_id = sf_id s, tr_workflow_name = sf_name s, tr_workflow_type = SYNCFLOW,
          tr_sourceId = sourceId, tr_config = sfc_trigger_config (snd p), tr_isDeleted = False\<rparr>))"

fun newTriggers ::
  "mongo \<Rightarrow> oid \<Rightarrow> nat \<Rightarrow> ((ObjectId \<times> Syncflow) \<times> SyncflowCreateData) list \<Rightarrow>
   (ObjectId \<times> ObjectId \<times> Trigger) list" where
  "newTriggers M sourceId n [] = []"
| "newTriggers M sourceId n (p # ps) =
     newTrigger M sourceId n p # newTriggers M sourceId (Suc (Suc n)) ps"

definition registered :: "registries \<Rightarrow> SyncflowCreateData \<Rightarrow> bool" where
  "registered R x \<longleftrightarrow> SyncflowRegistry_get R (sfc_name x) \<noteq> None \<and>
     TriggerRegistry_get R (sfc_trigger_name x) \<noteq> None"

lemma newSyncflows_props:
  "length (newSyncflows M R s n xs) = length xs"
  "map (oi_ref \<circ> fst) (newSyncflows M R s n xs) = [n..<n + length xs]"
  "map (sf_id \<circ> snd) (newSyncflows M R s n xs) = map (mg_oid M) [n..<n + length xs]"
  "p \<in> set (newSyncflows M R s n xs) \<Longrightarrow> oi_hex (fst p) = sf_id (snd p) \<and>
     sf_sourceId (snd p) = s \<and> sf_state (snd p) = defaultSyncflowState \<and> \<not> sf_isDeleted (snd p)"
  by (induction xs arbitrary: n)
     (auto simp: newSyncflow_def Let_def upt_conv_Cons simp del: upt_Suc)

lemma newTriggers_props:
  "map (tr_workflow_id \<circ> (snd \<circ> snd)) (newTriggers M s n ps) = map (sf_id \<circ> (snd \<circ> fst)) ps"
  "set (map (tr_id \<circ> (snd \<circ> snd)) (newTriggers M s n ps)) \<subseteq> mg_oid M ` {n..}"
  "t \<in> set (newTriggers M s n ps) \<Longrightarrow> n \<le> oi_ref (fst (snd t)) \<and> \<not> tr_isDeleted (snd (snd t))"
  "inj (mg_oid M) \<Longrightarrow> distinct (map (tr_id \<circ> (snd \<circ> snd)) (newTriggers M s n ps))"
proof -
  show "map (tr_workflow_id \<circ> (snd \<circ> snd)) (newTriggers M s n ps) = map (sf_id \<circ> (snd \<circ> fst)) ps"
    by (induction ps arbitrary: n) (simp_all add: newTrigger_def Let_def)
  have ids: "set (map (tr_id \<circ> (snd \<circ> snd)) (newTriggers M s n ps)) \<subseteq> mg_oid M ` {n..}" for n ps
  proof (induction ps arbitrary: n)
    case (Cons p ps)
    have "mg_oid M ` {Suc (Suc n)..} \<subseteq> mg_oid M ` {n..}" by (intro image_mono) auto
    then show ?case using Cons[of "Suc (Suc n)"] by (auto simp: newTrigger_def Let_def)
  qed simp
  then show "set (map (tr_id \<circ> (snd \<circ> snd)) (newTriggers M s n ps)) \<subseteq> mg_oid M ` {n..}" .
  show "t \<in> set (newTriggers M s n ps) \<Longrightarrow> n \<le> oi_ref (fst (snd t)) \<and> \<not> tr_isDeleted (snd (snd t))"
    by (induction ps arbitrary: n) (fastforce simp: newTrigger_def Let_def)+
  show "inj (mg_oid M) \<Longrightarrow> distinct (map (tr_id \<circ> (snd \<circ> snd)) (newTriggers M s n ps))"
  proof (induction ps arbitrary: n)
    case (Cons p ps)
    have "mg_oid M (Suc n) \<notin> mg_oid M ` {Suc (Suc n)..}"
      using Cons.prems by (auto dest: injD)
    then have "mg_oid M (Suc n) \<notin> set (map (tr_id \<circ> (snd \<circ> snd)) (newTriggers M s (Suc (Suc n)) ps))"
      using ids[of "Suc (Suc n)" ps] by blast
    then show ?case using Cons by (simp add: newTrigger_def Let_def)
  qed simp
qed

context mongo_driver begin

lemma allocs_createSyncflowDoc:
  assumes "registered R x"
  shows "allocs (createSyncflowDoc M R s x) d n (newSyncflow M R s n x)
    (d\<lparr>db_syncflows := db_syncflows d @ [snd (newSyncflow M R s n x)]\<rparr>) (Suc n)"
proof -
  obtain a b where ab: "SyncflowRegistry_get R (sfc_name x) = Some a"
    "TriggerRegistry_get R (sfc_trigger_name x) = Some b"
    using assms by (auto simp: registered_def)
  show ?thesis
    unfolding createSyncflowDoc_def ab option.case prod.case Let_def newSyncflow_def option.sel
    by (rule allocs_bind[OF allocs_alloc], rule allocs_bind[OF allocs_write]) 
       (simp add: allocs_def)
qed

lemma allocs_createSyncflows:
  assumes "\<forall>x \<in> set xs. registered R x"
  shows "allocs (map_io (createSyncflowDoc M R s) xs) d n (newSyncflows M R s n xs)
    (d\<lparr>db_syncflows := db_syncflows d @ map snd (newSyncflows M R s n xs)\<rparr>) (n + length xs)"
  using assms
proof (induction xs arbitrary: d n)
  case Nil
  then show ?case by (simp add: allocs_def)
next
  case (Cons x xs)
  let ?d = "d\<lparr>db_syncflows := db_syncflows d @ [snd (newSyncflow M R s n x)]\<rparr>"
  have "allocs (map_io (createSyncflowDoc M R s) xs) ?d (Suc n) (newSyncflows M R s (Suc n) xs)
      (d\<lparr>db_syncflows := db_syncflows d @ map snd (newSyncflows M R s n (x # xs))\<rparr>)
      (n + length (x # xs))"
    using Cons.IH[of ?d "Suc n"] Cons.prems by simp
  from allocs_Cons[OF allocs_createSyncflowDoc this] Cons.prems show ?case by simp
qed

lemma allocs_createTriggerDoc:
  "allocs (createTriggerDoc M s p) d n (newTrigger M s n p)
    (d\<lparr>db_triggers := db_triggers d @ [snd (snd (newTrigger M s n p))]\<rparr>) (Suc (Suc n))"
proof -
  obtain i sf x where p: "p = ((i, sf), x)" by (metis prod.collapse)
  show ?thesis
    unfolding createTriggerDoc_def p prod.case Let_def newTrigger_def fst_conv snd_conv
    by (rule allocs_bind[OF allocs_toObjectId], rule allocs_bind[OF allocs_alloc],
        rule allocs_bind[OF allocs_write]) (simp add: allocs_def)
qed

lemma allocs_createTriggers:
  "allocs (map_io (createTriggerDoc M s) ps) d n (newTriggers M s n ps)
    (d\<lparr>db_triggers := db_triggers d @ map (snd \<circ> snd) (newTriggers M s n ps)\<rparr>)
    (n + 2 * length ps)"
proof (induction ps arbitrary: d n)
  case Nil
  then show ?case by (simp add: allocs_def)
next
  case (Cons p ps)
  let ?d = "d\<lparr>db_triggers := db_triggers d @ [snd (snd (newTrigger M s n p))]\<rparr>"
  have "allocs (map_io (createTriggerDoc M s) ps) ?d (Suc (Suc n))
      (newTriggers M s (Suc (Suc n)) ps)
      (d\<lparr>db_triggers := db_triggers d @ map (snd \<circ> snd) (newTriggers M s n (p # ps))\<rparr>)
      (n + 2 * length (p # ps))"
    using Cons.IH[of ?d "Suc (Suc n)"] by (simp add: comp_def)
  from allocs_Cons[OF allocs_createTriggerDoc this] show ?case by (simp add: comp_def)
qed

end

definition newConnection ::
  "mongo \<Rightarrow> registries \<Rightarrow> CreateSyncConnectionData \<Rightarrow> nat \<Rightarrow> SyncConnection" where
  "newConnection M R data n =
    (let syncflows = newSyncflows M R (csc_sourceId data) n (csc_syncflows data);
         n1 = n + length (csc_syncflows data);
         triggers = newTriggers M (csc_sourceId data) n1 (zip syncflows (csc_syncflows data))
     in \<lparr>sc_id = mg_oid M (n1 + 2 * length (csc_syncflows data)),
         sc_state = defaultSyncConnectionState, sc_sourceId = csc_sourceId data,
         sc_config = csc_config data, sc_syncflows = map (embedSyncflow triggers) syncflows,
         sc_isDeleted = False\<rparr>)"

definition withConnection ::
  "mongo \<Rightarrow> registries \<Rightarrow> CreateSyncConnectionData \<Rightarrow> nat \<Rightarrow> db \<Rightarrow> db" where
  "withConnection M R data n d =
    (let syncflows = newSyncflows M R (csc_sourceId data) n (csc_syncflows data)
     in d\<lparr>db_syncflows := db_syncflows d @ map snd syncflows,
         db_triggers := db_triggers d @ map (snd \<circ> snd) (newTriggers M (csc_sourceId data)
           (n + length (csc_syncflows data)) (zip syncflows (csc_syncflows data))),
         db_connections := db_connections d @ [newConnection M R data n]\<rparr>)"

text \<open>The number of object ids in use after a creation.\<close>

definition oidsAfter :: "CreateSyncConnectionData \<Rightarrow> nat \<Rightarrow> nat" where
  "oidsAfter data n = Suc (n + length (csc_syncflows data) + 2 * length (csc_syncflows data))"

context mongo_driver begin

lemma allocs_connection_create:
  assumes "\<forall>x \<in> set (csc_syncflows data). registered R x" and "qo_session opts"
  shows "allocs (SyncConnectionRepository_create M R data opts) d n
    (newConnection M R data n) (withConnection M R data n d) (oidsAfter data n)"
proof -
  let ?sfs = "newSyncflows M R (csc_sourceId data) n (csc_syncflows data)"
  let ?n1 = "n + length (csc_syncflows data)"
  let ?d1 = "d\<lparr>db_syncflows := db_syncflows d @ map snd ?sfs\<rparr>"
  have trig: "allocs (map_io (createTriggerDoc M (csc_sourceId data)) (zip ?sfs (csc_syncflows data)))
      ?d1 ?n1 (newTriggers M (csc_sourceId data) ?n1 (zip ?sfs (csc_syncflows data)))
      (?d1\<lparr>db_triggers := db_triggers d @ map (snd \<circ> snd)
         (newTriggers M (csc_sourceId data) ?n1 (zip ?sfs (csc_syncflows data)))\<rparr>)
      (?n1 + 2 * length (csc_syncflows data))"
    using allocs_createTriggers[of "csc_sourceId data" "zip ?sfs (csc_syncflows data)" ?d1 ?n1]
    by (simp add: newSyncflows_props(1))
  show ?thesis
    unfolding SyncConnectionRepository_create_def inSession_def if_P[OF assms(2)] oidsAfter_def
    apply (rule allocs_bind[OF allocs_createSyncflows[OF assms(1)]])
    apply (rule allocs_bind[OF trig])
    apply (rule allocs_bind[OF allocs_alloc])
    apply (simp only: Let_def)
    apply (rule allocs_bind[where ?d1.0 = "withConnection M R data n d"])
    apply (rule subst[of _ _ "\<lambda>r. allocs (writeDb True _) _ _ () r _", OF _ allocs_write])
    apply (simp add: withConnection_def newConnection_def Let_def newSyncflows_props(1))
    apply (simp only: newConnection_def Let_def ObjectId.select_convs)
    apply (rule allocs_return)
    done
qed

end

section \<open>The store after a creation\<close>

definition ids_fresh :: "mongo \<Rightarrow> nat \<Rightarrow> db \<Rightarrow> bool" where
  "ids_fresh M n d \<longleftrightarrow> mg_oid M ` {n..} \<inter> (set (map sf_id (db_syncflows d)) \<union>
     set (map tr_id (db_triggers d)) \<union> set (map tr_workflow_id (db_triggers d)) \<union>
     set (map sc_id (db_connections d))) = {}"

lemma newSyncflows_ids:
  "map (sf_id \<circ> snd) (newSyncflows M R s n xs) = map (mg_oid M) [n..<n + length xs]"
  "set (map (sf_id \<circ> snd) (newSyncflows M R s n xs)) \<subseteq> mg_oid M ` {n..}"
  by (simp_all add: newSyncflows_props(3) image_mono)
     (metis (no_types) newSyncflows_props(3) atLeastLessThan_iff atLeast_iff image_mono list.set_map
       set_upt subsetI)

lemma zip_source: "length xs = length ys \<Longrightarrow> map (f \<circ> fst) (zip xs ys) = map f xs"
  by (metis map_fst_zip map_map)

lemma trigger_workflow_ids:
  assumes "length sfs = length xs"
  shows "map (tr_workflow_id \<circ> (snd \<circ> snd)) (newTriggers M s n (zip sfs xs))
    = map (sf_id \<circ> snd) sfs"
  using newTriggers_props(1)[of M s n "zip sfs xs"] zip_source[OF assms, of "sf_id \<circ> snd"]
  by (simp add: comp_def)

lemma embedded_ids: "map es_id (map (embedSyncflow ts) sfs) = map (oi_hex \<circ> fst) sfs"
  by (induction sfs) (auto simp: embedSyncflow_def)

text \<open>No trigger is found for an embedded syncflow: the objects compared are all different.\<close>

lemma embedSyncflow_no_trigger:
  assumes "\<forall>p \<in> set sfs. oi_ref (fst p) < n" and "\<forall>t \<in> set ts. n \<le> oi_ref (fst (snd t))"
  shows "\<forall>e \<in> set (map (embedSyncflow ts) sfs). es_trigger_id e = None"
proof -
  have "find (\<lambda>(_, wid, _). oi_ref wid = oi_ref (fst p)) ts = None" if "p \<in> set sfs" for p
    using assms that by (fastforce simp: find_None_iff)
  then show ?thesis by (auto simp: embedSyncflow_def split_beta)
qed

lemma newConnection_no_trigger:
  "\<forall>e \<in> set (sc_syncflows (newConnection M R data n)). es_trigger_id e = None"
proof -
  let ?sfs = "newSyncflows M R (csc_sourceId data) n (csc_syncflows data)"
  have "\<forall>p \<in> set ?sfs. oi_ref (fst p) < n + length (csc_syncflows data)"
  proof
    fix p assume "p \<in> set ?sfs"
    then have "oi_ref (fst p) \<in> set (map (oi_ref \<circ> fst) ?sfs)" by auto
    then show "oi_ref (fst p) < n + length (csc_syncflows data)"
      unfolding newSyncflows_props(2) by simp
  qed
  then show ?thesis
    unfolding newConnection_def Let_def SyncConnection.select_convs
    by (rule embedSyncflow_no_trigger) (use newTriggers_props(3) in blast)
qed

lemma keys_distinct_create:
  assumes "inj (mg_oid M)" and "keys_distinct d" and fresh: "ids_fresh M n d"
  shows "keys_distinct (withConnection M R data n d)"
proof -
  let ?sfs = "newSyncflows M R (csc_sourceId data) n (csc_syncflows data)"
  let ?n1 = "n + length (csc_syncflows data)"
  let ?ts = "newTriggers M (csc_sourceId data) ?n1 (zip ?sfs (csc_syncflows data))"
  have len: "length ?sfs = length (csc_syncflows data)" by (rule newSyncflows_props(1))
  have sub: "mg_oid M ` {?n1..} \<subseteq> mg_oid M ` {n..}" by (intro image_mono) auto
  have ids: "distinct (map (sf_id \<circ> snd) ?sfs)" "set (map (sf_id \<circ> snd) ?sfs) \<subseteq> mg_oid M ` {n..}"
    using assms(1) newSyncflows_ids(2)
    by (simp_all only: newSyncflows_ids(1) distinct_map distinct_upt) (metis inj_on_subset subset_UNIV)
  have tids: "distinct (map (tr_id \<circ> (snd \<circ> snd)) ?ts)"
    "set (map (tr_id \<circ> (snd \<circ> snd)) ?ts) \<subseteq> mg_oid M ` {n..}"
    using newTriggers_props(4)[OF assms(1)] newTriggers_props(2) sub by (blast, meson subset_trans)
  have sc: "sc_id (newConnection M R data n) \<in> mg_oid M ` {n..}"
    by (auto simp: newConnection_def Let_def)
  have disj: "set (map sf_id (db_syncflows d)) \<inter> mg_oid M ` {n..} = {}"
    "set (map tr_id (db_triggers d)) \<inter> mg_oid M ` {n..} = {}"
    "set (map tr_workflow_id (db_triggers d)) \<inter> mg_oid M ` {n..} = {}"
    "set (map sc_id (db_connections d)) \<inter> mg_oid M ` {n..} = {}"
    using fresh unfolding ids_fresh_def by blast+
  have app: "distinct xs \<Longrightarrow> distinct ys \<Longrightarrow> set xs \<inter> A = {} \<Longrightarrow> set ys \<subseteq> A \<Longrightarrow>
    distinct (xs @ ys)" for xs ys :: "oid list" and A
    by auto
  have d: "distinct (map sf_id (db_syncflows d))" "distinct (map tr_id (db_triggers d))"
    "distinct (map tr_workflow_id (db_triggers d))" "distinct (map sc_id (db_connections d))"
    "distinct (map dp_id (db_providers d))" "distinct (map ds_id (db_sources d))"
    using assms(2) by (simp_all add: keys_distinct_def)
  have "set [sc_id (newConnection M R data n)] \<subseteq> mg_oid M ` {n..}" using sc by simp
  note new = app[OF d(1) ids(1) disj(1) ids(2)] app[OF d(2) tids(1) disj(2) tids(2)]
    app[OF d(3) ids(1) disj(3) ids(2)] app[OF d(4) distinct_singleton disj(4) this]
  show ?thesis
    unfolding keys_distinct_def withConnection_def Let_def
    using new d(5,6) trigger_workflow_ids[OF len, of M "csc_sourceId data" ?n1]
    by (simp del: distinct_append)
qed

lemma newConnection_ids:
  "map es_id (sc_syncflows (newConnection M R data n))
    = map (sf_id \<circ> snd) (newSyncflows M R (csc_sourceId data) n (csc_syncflows data))"
proof -
  have "map (oi_hex \<circ> fst) (newSyncflows M R s n xs) = map (sf_id \<circ> snd) (newSyncflows M R s n xs)"
    for s n xs using newSyncflows_props(4) by (auto intro!: map_cong)
  then show ?thesis by (simp only: newConnection_def Let_def SyncConnection.select_convs embedded_ids)
qed

lemma withConnection_keys:
  "map sf_id (db_syncflows (withConnection M R data n d)) =
    map sf_id (db_syncflows d) @ map es_id (sc_syncflows (newConnection M R data n))"
  "map tr_workflow_id (db_triggers (withConnection M R data n d)) =
    map tr_workflow_id (db_triggers d) @ map es_id (sc_syncflows (newConnection M R data n))"
  by (simp_all only: newConnection_ids withConnection_def Let_def)
     (simp_all add: trigger_workflow_ids newSyncflows_props(1))

lemma withConnection_connections [simp]:
  "db_connections (withConnection M R data n d) = db_connections d @ [newConnection M R data n]"
  by (simp add: withConnection_def Let_def)

lemma newConnection_sel [simp]:
  "sc_sourceId (newConnection M R data n) = csc_sourceId data"
  "\<not> sc_isDeleted (newConnection M R data n)"
  "length (sc_syncflows (newConnection M R data n)) = length (csc_syncflows data)"
  by (simp_all add: newConnection_def Let_def newSyncflows_props(1))

lemma db_wf_create:
  assumes "inj (mg_oid M)" and "db_wf d" and "ids_fresh M n d"
    and "live_connection (csc_sourceId data) d = None"
  shows "db_wf (withConnection M R data n d)"
proof -
  have "embedded_present (withConnection M R data n d)"
    unfolding embedded_present_def withConnection_keys
  proof (intro ballI)
    fix c e assume c: "c \<in> set (db_connections (withConnection M R data n d))"
      and e: "e \<in> set (sc_syncflows c)"
    show "es_id e \<in> set (map sf_id (db_syncflows d) @ map es_id (sc_syncflows (newConnection M R data n)))
      \<and> es_id e \<in> set (map tr_workflow_id (db_triggers d) @
          map es_id (sc_syncflows (newConnection M R data n)))"
    proof (cases "c = newConnection M R data n")
      case True
      then show ?thesis using e by simp
    next
      case False
      then have "c \<in> set (db_connections d)" using c by simp
      then show ?thesis using e assms(2) unfolding db_wf_def embedded_present_def set_append by blast
    qed
  qed
  moreover have "one_live_connection (withConnection M R data n d)"
    using assms(2,4) unfolding one_live_connection_def live_connection_def find_None_iff db_wf_def
    by auto
  ultimately show ?thesis
    using keys_distinct_create[OF assms(1) _ assms(3)] assms(2) by (simp add: db_wf_def)
qed

lemma find_append:
  "find p (xs @ ys) = (case find p xs of None \<Rightarrow> find p ys | Some x \<Rightarrow> Some x)"
  by (induction xs) simp_all

lemma find_and: "find p xs = Some x \<Longrightarrow> q x \<Longrightarrow> find (\<lambda>x. p x \<and> q x) xs = Some x"
  by (induction xs) (auto split: if_splits)

lemma live_syncflow_of_find:
  "find (\<lambda>s. sf_id s = i) (db_syncflows d) = Some s \<Longrightarrow> \<not> sf_isDeleted s \<Longrightarrow>
   live_syncflow i d = Some s"
  unfolding live_syncflow_def by (rule find_and)

lemma live_of_new_syncflow:
  assumes "inj (mg_oid M)" and "keys_distinct d" and "ids_fresh M n d"
    and "e \<in> set (sc_syncflows (newConnection M R data n))"
  shows "\<exists>s. live_syncflow (es_id e) (withConnection M R data n d) = Some s \<and>
    sf_sourceId s = csc_sourceId data \<and> sf_state s = defaultSyncflowState"
proof -
  let ?sfs = "newSyncflows M R (csc_sourceId data) n (csc_syncflows data)"
  have "es_id e \<in> set (map (sf_id \<circ> snd) ?sfs)" using assms(4) newConnection_ids[of M R data n]
    by (metis image_eqI list.set_map)
  then obtain p where p: "p \<in> set ?sfs" "sf_id (snd p) = es_id e" by auto
  have "snd p \<in> set (db_syncflows (withConnection M R data n d))"
    using p by (simp add: withConnection_def Let_def)
  then have "find (\<lambda>s. sf_id s = sf_id (snd p)) (db_syncflows (withConnection M R data n d))
      = Some (snd p)"
    using keys_distinct_create[OF assms(1-3)]
    by (intro find_key_unique) (simp_all add: keys_distinct_def)
  then show ?thesis using newSyncflows_props(4)[OF p(1)] p(2) live_syncflow_of_find by auto
qed

context mongo_driver begin

lemma connection_create_run:
  assumes "\<forall>x \<in> set (csc_syncflows data). registered R x" and "\<not> qo_session opts"
  shows "SyncConnectionRepository_create M R data opts w =
    (Inr (newConnection M R data (w_oids w)),
     w\<lparr>w_db := withConnection M R data (w_oids w) (w_db w), w_oids := oidsAfter data (w_oids w)\<rparr>)"
proof -
  let ?o = "opts\<lparr>qo_session := True\<rparr>"
  have eq: "SyncConnectionRepository_create M R data opts
      = runWithTransaction M (SyncConnectionRepository_create M R data ?o)"
    using assms(2) by (simp add: SyncConnectionRepository_create_def inSession_def)
  have "allocs (SyncConnectionRepository_create M R data ?o) (w_db w) (w_oids w)
      (newConnection M R data (w_oids w)) (withConnection M R data (w_oids w) (w_db w))
      (oidsAfter data (w_oids w))"
    using allocs_connection_create[OF assms(1), of ?o] by simp
  from transaction_allocs[OF session_only_connection_create this] show ?thesis by (auto simp: eq)
qed

end

section \<open>Properties\<close>

text \<open>
  C24: creating a sync connection. When every syncflow and trigger name is registered, the data
  source has no live connection and the object ids to come are not in use, creation outside a
  caller's session commits a store that is again well formed, in which the new connection is the
  data source's live one, embeds one syncflow per description, and each of them is a live
  syncflow of the data source in its initial state.
\<close>

theorem connection_create_correct:
  assumes "mongo_ok M" and "db_wf (w_db w)" and "ids_fresh M (w_oids w) (w_db w)"
    and "live_connection (csc_sourceId data) (w_db w) = None"
    and "\<forall>x \<in> set (csc_syncflows data). registered R x" and "\<not> qo_session opts"
  shows "\<exists>c w'. SyncConnectionRepository_create M R data opts w = (Inr c, w') \<and> db_wf (w_db w')
    \<and> live_connection (csc_sourceId data) (w_db w') = Some c
    \<and> length (sc_syncflows c) = length (csc_syncflows data)
    \<and> (\<forall>e \<in> set (sc_syncflows c). \<exists>s. live_syncflow (es_id e) (w_db w') = Some s
        \<and> sf_sourceId s = csc_sourceId data \<and> sf_state s = defaultSyncflowState)"
proof -
  note d = mongo_driverI[OF assms(1)]
  let ?c = "newConnection M R data (w_oids w)"
  let ?d = "withConnection M R data (w_oids w) (w_db w)"
  have kd: "keys_distinct (w_db w)" using assms(2) by (simp add: db_wf_def)
  obtain n where run: "SyncConnectionRepository_create M R data opts w =
      (Inr ?c, w\<lparr>w_db := ?d, w_oids := n\<rparr>)"
    using mongo_driver.connection_create_run[OF d assms(5,6)] by blast
  have "live_connection (csc_sourceId data) ?d = Some ?c"
    using assms(4) by (simp add: live_connection_def find_append)
  moreover note db_wf_create[OF mongo_driver.oid_inj[OF d] assms(2-4)]
    live_of_new_syncflow[OF mongo_driver.oid_inj[OF d] kd assms(3)]
  ultimately show ?thesis using run by auto
qed

definition example_create_data :: CreateSyncConnectionData where
  "example_create_data = \<lparr>csc_config = None, csc_sourceId = ''d2'', csc_syncflows =
     [\<lparr>sfc_name = SN_GOOGLE_SHEETS_FULL, sfc_attributes = builder_reset,
       sfc_trigger_name = TN_GOOGLE_SHEETS_WEBHOOK, sfc_trigger_config = None,
       sfc_config = None\<rparr>]\<rparr>"

lemma oid_last: "last (mg_oid listMongo n) = CHR ''d''"
  by (simp add: listMongo_def)

lemma oid_other: "o' \<noteq> [] \<Longrightarrow> last o' \<noteq> CHR ''d'' \<Longrightarrow> o' \<noteq> mg_oid listMongo n"
  using oid_last by auto

lemma example_create_ready:
  "ids_fresh listMongo 0 example_db" "live_connection ''d2'' example_db = None"
  "\<forall>x \<in> set (csc_syncflows example_create_data). registered loaded_registries x"
  by (auto simp: ids_fresh_def example_defs live_connection_def example_create_data_def
      registered_def oid_other)

theorem connection_create_correct_witness:
  "\<exists>c. live_connection ''d2'' (w_db (snd (SyncConnectionRepository_create listMongo
     loaded_registries example_create_data no_options example_world))) = Some c"
proof -
  have "w_oids example_world = 0" "csc_sourceId example_create_data = ''d2''"
    by (simp_all add: example_world_def empty_world_def example_create_data_def)
  then show ?thesis
    using connection_create_correct [OF listMongo_ok, of example_world example_create_data
        loaded_registries no_options] example_create_ready example_db_wf
    by fastforce
qed

text \<open>
  The embedded syncflows never name their trigger. \<open>create\<close> looks for the trigger with
  \<open>trigger.workflow.id === syncflow._id\<close>, which compares two \<open>ObjectId\<close> objects; they are never
  the same object, so every embedded syncflow of a created connection is stored without the id
  of its trigger.
\<close>

theorem embedded_trigger_id_lost:
  assumes "mongo_ok M" and "SyncConnectionRepository_create M R data opts w = (Inr c, w')"
    and "\<forall>x \<in> set (csc_syncflows data). registered R x" and "\<not> qo_session opts"
  shows "\<forall>e \<in> set (sc_syncflows c). es_trigger_id e = None"
  using mongo_driver.connection_create_run[OF mongo_driverI[OF assms(1)] assms(3,4), of w] assms(2)
    newConnection_no_trigger[of M R data "w_oids w"]
  by auto

theorem embedded_trigger_id_lost_witness:
  "\<exists>c w'. SyncConnectionRepository_create listMongo loaded_registries example_create_data
     no_options example_world = (Inr c, w') \<and> (\<forall>e \<in> set (sc_syncflows c). es_trigger_id e = None)"
  using embedded_trigger_id_lost [OF listMongo_ok, of loaded_registries example_create_data
      no_options example_world]
    lm.connection_create_run[OF example_create_ready(3), of no_options example_world]
    example_create_ready(3)
  by fastforce

end
