(* ===== verification/Orchestrator.thy ===== *)
theory Orchestrator
  imports Store
begin

text \<open>
  \<open>libs/modules/src/orchestrator/orchestrator.service.ts\<close> and the workflow services of the
  configurator and the post-processor: starting Temporal workflows. The Temporal server is the
  parameter \<open>S :: temporal\<close>.
\<close>

record temporal =
  tm_start :: "ext_call list \<Rightarrow> js_error + unit"
  tm_result :: "ext_call list \<Rightarrow> js_error + json"
  tm_list :: "ext_call list \<Rightarrow> js_error + (string \<times> string) list"  \<comment> \<open>workflow id, run id\<close>
  tm_terminate :: "ext_call list \<Rightarrow> js_error + unit"

text \<open>A workflow that is already started is not an error unless the caller asks for one. (The
  handle the code then fetches is used only in a log message.) \<open>None\<close> is \<open>undefined\<close>.\<close>

definition OrchestratorService_executeWorkflow ::
  "temporal \<Rightarrow> string \<Rightarrow> WorkflowOptions \<Rightarrow> json option act" where
  "OrchestratorService_executeWorkflow S workflowName options =
    catch_io
      (bind_io (callService (tm_start S) (StartWorkflow workflowName options)) (\<lambda>_.
       if wo_waitResult options
       then bind_io (awaitAnswer (tm_result S)) (\<lambda>r. return_io (Some r))
       else return_io None))
      (\<lambda>err. if err = WorkflowExecutionAlreadyStartedError \<and> \<not> wo_errorOnDuplicate options
             then return_io None else throw_io err)"

text \<open>The configurator always waits for the result; the post-processor returns the handle.\<close>

definition configurator_executeWorkflow :: "temporal \<Rightarrow> string \<Rightarrow> WorkflowOptions \<Rightarrow> json option act" where
  "configurator_executeWorkflow S workflowName options =
    catch_io
      (bind_io (callService (tm_start S) (StartWorkflow workflowName options)) (\<lambda>_.
       bind_io (awaitAnswer (tm_result S)) (\<lambda>r. return_io (Some r))))
      (\<lambda>err. if err = WorkflowExecutionAlreadyStartedError then return_io None
             else throw_io err)"

text \<open>\<open>listResult.executions.map(...)\<close>: every listed execution is terminated.\<close>

definition terminateWorkflowsByQuery :: "temporal \<Rightarrow> string \<Rightarrow> unit act" where
  "terminateWorkflowsByQuery S query =
    bind_io (callService (tm_list S) (ListWorkflows query)) (\<lambda>executions.
      for_io executions (\<lambda>(workflowId, runId).
        callService (tm_terminate S) (TerminateWorkflow workflowId runId)))"

text \<open>Template literals of JSON values; an array prints its elements with commas.\<close>

fun showJson :: "json \<Rightarrow> string" where
  "showJson JNull = ''null''"
| "showJson (JBool b) = (if b then ''true'' else ''false'')"
| "showJson (JNum n) = show_int n"
| "showJson (JStr s) = s"
| "showJson (JArr xs) = joinWith '','' (map (\<lambda>x. if x = JNull then [] else showJson x) xs)"
| "showJson (JObj xs) = ''[object Object]''"

text \<open>\<open>convertToQuery\<close>: strings are quoted (but not escaped), other values printed.\<close>

definition convertToQuery :: "(string \<times> json) list \<Rightarrow> string" where
  "convertToQuery data = joinWith '' and ''
     (map (\<lambda>(key, value). case value of
        JStr s \<Rightarrow> key @ '' = '' @ [CHR 39] @ s @ [CHR 39]
      | _ \<Rightarrow> key @ '' = '' @ showJson value) data)"

definition terminateWorkflowsByAttributes :: "temporal \<Rightarrow> (string \<times> json) list \<Rightarrow> unit act" where
  "terminateWorkflowsByAttributes S data = terminateWorkflowsByQuery S (convertToQuery data)"

section \<open>Facts\<close>

lemma executeWorkflow_duplicate:
  assumes "tm_start S (w_calls w @ [StartWorkflow n opts])
      = Inl WorkflowExecutionAlreadyStartedError" and "\<not> wo_errorOnDuplicate opts"
  shows "OrchestratorService_executeWorkflow S n opts w =
    (Inr None, w\<lparr>w_calls := w_calls w @ [StartWorkflow n opts]\<rparr>)"
  using assms by (simp add: OrchestratorService_executeWorkflow_def io_simps)

end
