(* ===== verification/ConnectionService.thy ===== *)
theory ConnectionService
  imports Creation Orchestrator
begin

text \<open>
  The configurator's sync connection, trigger and webhook services
  (\<open>apps/configurator/src/modules/{sync-connection,trigger,webhook}\<close>).

  What these services draw at random (\<open>Math.random\<close>, \<open>uuidv4\<close>) is the parameter
  \<open>rnd :: nat \<Rightarrow> draws\<close>, the draws for the trigger of the n-th syncflow of a connection.
  \<open>Math.random()\<close> is \<open>k / 2^53\<close> for a natural number \<open>k < 2^53\<close>, so \<open>Math.floor(Math.random() * m)\<close>
  is \<open>(k * m) div 2^53\<close>.
\<close>

record draws =
  rn_seconds :: int
  rn_minutes :: int
  rn_uuid :: string

record 'a CreationResult =
  cr_data :: 'a
  cr_isAlreadyCreated :: bool

record 'a DeleteResult =
  dr_data :: "'a option"
  dr_isAlreadyDeleted :: bool

text \<open>The codes of \<open>new ApiError(ErrorCode.X, message)\<close>.\<close>

definition INVALID_DATA :: json where "INVALID_DATA = JStr ''E0''"
definition NO_DATA_EXISTS :: json where "NO_DATA_EXISTS = JStr ''E1''"
definition ALREADY_EXISTS :: json where "ALREADY_EXISTS = JStr ''E4''"

section \<open>Trigger service\<close>

definition randomBelow :: "int \<Rightarrow> int \<Rightarrow> int" where
  "randomBelow k m = (k * m) div 2 ^ 53"

definition createCronExpressionFromFrequency :: "draws \<Rightarrow> int \<Rightarrow> string" where
  "createCronExpressionFromFrequency r minutes =
    show_int (randomBelow (rn_seconds r) 60) @ '' '' @
    show_int (randomBelow (rn_minutes r) minutes) @ ''/'' @ show_int minutes @ '' * * * *''"

text \<open>\<open>cronTriggerUrl\<close> is the configured address of the cron service. \<open>trigger\<close> and
  \<open>trigger.config\<close> may be missing: their properties are read all the same. A status other than 200 is an error of the request.\<close>

definition unregisterTrigger ::
  "mongo \<Rightarrow> (ext_call list \<Rightarrow> js_error + unit) \<Rightarrow> string \<Rightarrow> oid \<Rightarrow> unit act" where
  "unregisterTrigger M http cronTriggerUrl i =
    bind_io (TriggerRepository_getById M i no_options) (\<lambda>trigger. case trigger of
      None \<Rightarrow> throw_io TypeError
    | Some t \<Rightarrow>
        if tr_type t = CRON then
          (case tr_config t of
             None \<Rightarrow> throw_io TypeError
           | Some config \<Rightarrow> callService http (HttpDelete (cronTriggerUrl @ ''/triggers'')
               (JObj (List.map_filter (\<lambda>k. map_option (Pair k) (map_of config k))
                 [''cron'', ''jobId'']))))
        else throw_io (PlainError ''Unsupported trigger type''))"

text \<open>\<open>(await getByDataSourceId(id))[0].id\<close>.\<close>

definition getTriggerOfDataSource :: "mongo \<Rightarrow> DataSource \<Rightarrow> Trigger option act" where
  "getTriggerOfDataSource M dataSource =
    (if ds_provider_type dataSource = AIR_TABLE
     then throw_io (PlainError ''Unsupported provider type'')
     else bind_io (TriggerRepository_getByDataSourceId M (ds_id dataSource) no_options)
       (\<lambda>triggers. case triggers of
          [] \<Rightarrow> throw_io TypeError
        | t # _ \<Rightarrow> TriggerRepository_getById M (tr_id t) no_options))"

definition manualTrigger :: "mongo \<Rightarrow> oid \<Rightarrow> unit act" where
  "manualTrigger M i =
    bind_io (TriggerRepository_getById M i no_options) (\<lambda>trigger. case trigger of
      None \<Rightarrow> throw_io (ApiError NO_DATA_EXISTS ''Trigger not found'')
    | Some t \<Rightarrow>
        if tr_type t = CRON \<or> tr_type t = EVENT_WEBHOOK then emitEvent (WorkflowTriggered t)
        else throw_io (PlainError ''Unsupported trigger type''))"

section \<open>Sync connection service\<close>

text \<open>\<open>config?.frequency || DEFAULT_CRON_TRIGGER_FREQUENCY\<close>; the DTO admits numbers only.\<close>

definition triggerFrequency :: "TriggerConfig option \<Rightarrow> int" where
  "triggerFrequency config = (case config of
     None \<Rightarrow> DEFAULT_CRON_TRIGGER_FREQUENCY
   | Some c \<Rightarrow> (case map_of c ''frequency'' of
       Some (JNum n) \<Rightarrow> if n \<noteq> 0 then n else DEFAULT_CRON_TRIGGER_FREQUENCY
     | _ \<Rightarrow> DEFAULT_CRON_TRIGGER_FREQUENCY))"

text \<open>The configuration of a trigger: only cron triggers have one.\<close>

definition buildTriggerData :: "draws \<Rightarrow> TriggerType \<Rightarrow> TriggerConfig option \<Rightarrow> TriggerConfig option"
  where
  "buildTriggerData r ty config =
    (if ty = CRON then
       (let frequency = triggerFrequency config
        in Some [(''cron'', JStr (createCronExpressionFromFrequency r frequency)),
             (''frequency'', JNum frequency), (''jobId'', JStr (rn_uuid r))])
     else None)"

text \<open>The syncflow descriptions of one registered name. An unregistered syncflow or trigger is
  \<open>undefined\<close>, whose properties are read.\<close>

definition buildSyncflow ::
  "registries \<Rightarrow> (nat \<Rightarrow> draws) \<Rightarrow> SyncConnectionConfig option \<Rightarrow> nat \<times> string \<Rightarrow>
   SyncflowCreateData option" where
  "buildSyncflow R rnd config = (\<lambda>(n, name).
    case SyncflowRegistry_get R name of
      None \<Rightarrow> None
    | Some syncflow \<Rightarrow> (case TriggerRegistry_get R (srr_triggerName syncflow) of
        None \<Rightarrow> None
      | Some trigger \<Rightarrow> Some \<lparr>sfc_name = srr_name syncflow,
          sfc_attributes = srr_attributes syncflow, sfc_trigger_name = trr_name trigger,
          sfc_trigger_config = buildTriggerData (rnd n) (trr_type trigger)
            (Option.bind config cc_trigger),
          sfc_config = None\<rparr>))"

definition buildSyncflowData ::
  "registries \<Rightarrow> (nat \<Rightarrow> draws) \<Rightarrow> SyncConnectionConfig option \<Rightarrow> ProviderType \<Rightarrow>
   js_error + SyncflowCreateData list" where
  "buildSyncflowData R rnd config providerType =
    (case ProviderSyncflowsRegistry_get R providerType of
       None \<Rightarrow> Inl TypeError
     | Some [] \<Rightarrow> Inl (ApiError NO_DATA_EXISTS
         (''No syncflow found for provider type '' @ showProviderType providerType))
     | Some names \<Rightarrow>
         (let built = map (buildSyncflow R rnd config) (List.enumerate 0 names)
          in if None \<in> set built then Inl TypeError else Inr (map the built)))"

definition SyncConnectionService_getById :: "mongo \<Rightarrow> oid \<Rightarrow> SyncConnection act" where
  "SyncConnectionService_getById M i =
    bind_io (SyncConnectionRepository_getById M i no_options) (\<lambda>r. case r of
      None \<Rightarrow> throw_io (ApiError NO_DATA_EXISTS (''SyncConnection with id '' @ i @ '' not found''))
    | Some c \<Rightarrow> return_io c)"

definition SyncConnectionService_create ::
  "mongo \<Rightarrow> registries \<Rightarrow> (nat \<Rightarrow> draws) \<Rightarrow> CreateSyncConnectionDto \<Rightarrow>
   SyncConnection CreationResult act" where
  "SyncConnectionService_create M R rnd data =
    bind_io (SyncConnectionRepository_getByDataSourceId M (cn_sourceId data) no_options)
      (\<lambda>existing. case existing of
        Some c \<Rightarrow> return_io \<lparr>cr_data = c, cr_isAlreadyCreated = True\<rparr>
      | None \<Rightarrow> bind_io (DataSourceRepository_getById M (cn_sourceId data) no_options)
          (\<lambda>dataSource. case dataSource of
            None \<Rightarrow> throw_io (ApiError NO_DATA_EXISTS
              (''DataSource with id '' @ cn_sourceId data @ '' not found''))
          | Some ds \<Rightarrow>
              bind_io (lift_io (buildSyncflowData R rnd (cn_config data) (ds_provider_type ds)))
                (\<lambda>syncflows.
              bind_io (SyncConnectionRepository_create M R \<lparr>csc_config = cn_config data,
                csc_sourceId = cn_sourceId data, csc_syncflows = syncflows\<rparr> no_options)
                (\<lambda>c. return_io \<lparr>cr_data = c, cr_isAlreadyCreated = False\<rparr>))))"

definition updateStateWithDataSourceId ::
  "mongo \<Rightarrow> oid \<Rightarrow> SyncConnectionStatus option \<Rightarrow> unit act" where
  "updateStateWithDataSourceId M dataSourceId status =
    bind_io (SyncConnectionRepository_getByDataSourceId M dataSourceId no_options) (\<lambda>r. case r of
      None \<Rightarrow> throw_io (ApiError NO_DATA_EXISTS ''Sync connection not found'')
    | Some c \<Rightarrow> bind_io (SyncConnectionRepository_updateState M
          \<lparr>usc_id = sc_id c, usc_status = status, usc_healthStatus = None\<rparr> no_options)
          (\<lambda>_. return_io ()))"

definition SyncConnectionService_delete :: "mongo \<Rightarrow> oid \<Rightarrow> SyncConnection DeleteResult act" where
  "SyncConnectionService_delete M i =
    bind_io (SyncConnectionRepository_getById M i no_options) (\<lambda>existing. case existing of
      None \<Rightarrow> return_io \<lparr>dr_data = None, dr_isAlreadyDeleted = True\<rparr>
    | Some _ \<Rightarrow> bind_io (SyncConnectionRepository_delete M i (no_options\<lparr>qo_old := True\<rparr>))
        (\<lambda>data. return_io \<lparr>dr_data = data, dr_isAlreadyDeleted = False\<rparr>))"

section \<open>Workflows of sync connections\<close>

text \<open>
  \<open>apps/configurator/src/workflows/syncConnection.workflows.ts\<close>. \<open>F\<close> turns what an activity
  throws into the error that the workflow sees.
\<close>

definition activity :: "(js_error \<Rightarrow> js_error) \<Rightarrow> 'a act \<Rightarrow> 'a act" where
  "activity F m = catch_io m (\<lambda>e. throw_io (F e))"

definition createSyncConnectionWf ::
  "mongo \<Rightarrow> registries \<Rightarrow> (nat \<Rightarrow> draws) \<Rightarrow> (js_error \<Rightarrow> js_error) \<Rightarrow> CreateSyncConnectionDto \<Rightarrow>
   SyncConnection CreationResult act" where
  "createSyncConnectionWf M R rnd F data =
    bind_io (activity F (SyncConnectionService_create M R rnd data)) (\<lambda>result.
    bind_io (if \<not> cr_isAlreadyCreated result
        then activity F (emitEvent (ConnectionCreated (cr_data result))) else return_io ()) (\<lambda>_.
    return_io result))"

text \<open>The condition is \<open>!result.isAlreadyDeleted === false\<close>.\<close>

definition deleteSyncConnectionWf ::
  "mongo \<Rightarrow> (js_error \<Rightarrow> js_error) \<Rightarrow> oid \<Rightarrow> SyncConnection DeleteResult act" where
  "deleteSyncConnectionWf M F i =
    bind_io (activity F (SyncConnectionService_delete M i)) (\<lambda>result.
    bind_io (if (\<not> dr_isAlreadyDeleted result) = False
        then activity F (emitEvent (ConnectionDeleted (dr_data result))) else return_io ()) (\<lambda>_.
    return_io result))"

section \<open>Webhook service\<close>

record CreateWebhookDto =
  cwd_type :: WebhookType
  cwd_url :: string
  cwd_assure :: "bool option"
  cwd_dataSourceId :: "oid option"
  cwd_metadata :: "(string \<times> json) list option"

definition webhookData :: "CreateWebhookDto \<Rightarrow> WebhookScope \<Rightarrow> CreateWebhookData" where
  "webhookData d scope = \<lparr>cw_type = cwd_type d, cw_url = cwd_url d, cw_scope = scope,
     cw_dataSourceId = cwd_dataSourceId d, cw_assure = cwd_assure d, cw_metadata = cwd_metadata d\<rparr>"

text \<open>The scope of a webhook: the data source must exist when one is named.\<close>

definition webhookScope :: "mongo \<Rightarrow> CreateWebhookDto \<Rightarrow> WebhookScope act" where
  "webhookScope M d =
    (if truthy_str (cwd_dataSourceId d) then
       bind_io (DataSourceRepository_getById M (the (cwd_dataSourceId d)) no_options)
         (\<lambda>dataSource. case dataSource of
            None \<Rightarrow> throw_io (ApiError (JNum 404)
              (''DataSource with id '' @ the (cwd_dataSourceId d) @ '' not found''))
          | Some _ \<Rightarrow> return_io SCOPE_DATA_SOURCE)
     else return_io SCOPE_GLOBAL)"

definition WebhookService_create :: "mongo \<Rightarrow> CreateWebhookDto \<Rightarrow> unit act" where
  "WebhookService_create M data =
    bind_io (webhookScope M data) (\<lambda>scope.
    bind_io (WebhookRepository_create M (webhookData data scope) no_options) (\<lambda>_. return_io ()))"

text \<open>The entries without a data source are pushed before any of the queries answers; the answers
  come in the order of the queries.\<close>

definition WebhookService_bulkCreate :: "mongo \<Rightarrow> CreateWebhookDto list \<Rightarrow> unit act" where
  "WebhookService_bulkCreate M webhooks =
    (let global = filter (\<lambda>d. \<not> truthy_str (cwd_dataSourceId d)) webhooks;
         scoped = filter (\<lambda>d. truthy_str (cwd_dataSourceId d)) webhooks
     in bind_io (map_io (webhookScope M) scoped) (\<lambda>_.
        WebhookRepository_bulkCreate M (map (\<lambda>d. webhookData d SCOPE_GLOBAL) global @
          map (\<lambda>d. webhookData d SCOPE_DATA_SOURCE) scoped) no_options))"

section \<open>Facts\<close>

definition live_connection_doc :: "oid \<Rightarrow> db \<Rightarrow> SyncConnection option" where
  "live_connection_doc i d = List.find (\<lambda>c. sc_id c = i \<and> \<not> sc_isDeleted c) (db_connections d)"

text \<open>The description of the one syncflow that a loaded provider registers.\<close>

definition providerSyncflow ::
  "ProviderType \<Rightarrow> draws \<Rightarrow> SyncConnectionConfig option \<Rightarrow> SyncflowCreateData" where
  "providerSyncflow p r config = (if p = GOOGLE_SHEETS then
     \<lparr>sfc_name = SN_GOOGLE_SHEETS_FULL,
      sfc_attributes = sdf_attributes (hd GoogleSheetsSyncflowDefinitions),
      sfc_trigger_name = TN_GOOGLE_SHEETS_WEBHOOK, sfc_trigger_config = None, sfc_config = None\<rparr>
   else
     \<lparr>sfc_name = SN_EXCEL_FULL,
      sfc_attributes = sdf_attributes (hd MicrosoftExcelSyncflowDefinitions),
      sfc_trigger_name = TN_MIRCROSOFT_EXCEL_CRON,
      sfc_trigger_config = buildTriggerData r CRON (Option.bind config cc_trigger),
      sfc_config = None\<rparr>)"

lemma buildSyncflowData_loaded:
  assumes "p \<noteq> AIR_TABLE"
  shows "buildSyncflowData loaded_registries rnd config p
    = Inr [providerSyncflow p (rnd 0) config]"
  using assms by (cases p)
    (simp_all add: buildSyncflowData_def buildSyncflow_def providerSyncflow_def buildTriggerData_def)

lemma buildSyncflowData_airtable:
  "buildSyncflowData loaded_registries rnd config AIR_TABLE = Inl TypeError"
  by (simp add: buildSyncflowData_def)

lemma providerSyncflow_registered: "registered loaded_registries (providerSyncflow p r config)"
  by (simp add: registered_def providerSyncflow_def)

lemma activity_Inr: "m w = (Inr x, w') \<Longrightarrow> activity F m w = (Inr x, w')"
  by (simp add: activity_def catch_io_run)

lemma activity_Inl: "m w = (Inl e, w') \<Longrightarrow> activity F m w = (Inl (F e), w')"
  by (simp add: activity_def catch_io_run)

definition creationData ::
  "draws \<Rightarrow> ProviderType \<Rightarrow> CreateSyncConnectionDto \<Rightarrow> CreateSyncConnectionData" where
  "creationData r p data = \<lparr>csc_config = cn_config data, csc_sourceId = cn_sourceId data,
     csc_syncflows = [providerSyncflow p r (cn_config data)]\<rparr>"

context mongo_driver begin

lemma service_create_existing:
  "live_connection (cn_sourceId data) (w_db w) = Some c \<Longrightarrow>
   SyncConnectionService_create M R rnd data w
     = (Inr \<lparr>cr_data = c, cr_isAlreadyCreated = True\<rparr>, w)"
  by (simp add: SyncConnectionService_create_def bind_io_run getById_live)

lemma service_create_no_source:
  assumes "live_connection (cn_sourceId data) (w_db w) = None"
    and "live_source (cn_sourceId data) (w_db w) = None"
  shows "SyncConnectionService_create M R rnd data w = (Inl (ApiError NO_DATA_EXISTS
      (''DataSource with id '' @ cn_sourceId data @ '' not found'')), w)"
  using assms by (simp add: SyncConnectionService_create_def bind_io_run getById_live)

lemma service_create_airtable:
  assumes "live_connection (cn_sourceId data) (w_db w) = None"
    and "live_source (cn_sourceId data) (w_db w) = Some ds" and "ds_provider_type ds = AIR_TABLE"
  shows "SyncConnectionService_create M loaded_registries rnd data w = (Inl TypeError, w)"
  using assms by (simp add: SyncConnectionService_create_def bind_io_run getById_live
      buildSyncflowData_airtable)

lemma service_create_new:
  assumes "live_connection (cn_sourceId data) (w_db w) = None"
    and "live_source (cn_sourceId data) (w_db w) = Some ds" and "ds_provider_type ds \<noteq> AIR_TABLE"
  shows "SyncConnectionService_create M loaded_registries rnd data w =
    (let cd = creationData (rnd 0) (ds_provider_type ds) data
     in (Inr \<lparr>cr_data = newConnection M loaded_registries cd (w_oids w),
           cr_isAlreadyCreated = False\<rparr>,
         w\<lparr>w_db := withConnection M loaded_registries cd (w_oids w) (w_db w),
           w_oids := oidsAfter cd (w_oids w)\<rparr>))"
proof -
  let ?cd = "creationData (rnd 0) (ds_provider_type ds) data"
  have "\<forall>x \<in> set (csc_syncflows ?cd). registered loaded_registries x"
    by (simp add: creationData_def providerSyncflow_registered)
  from connection_create_run[OF this, of no_options w] show ?thesis using assms
    by (auto simp: SyncConnectionService_create_def bind_io_run getById_live
        buildSyncflowData_loaded creationData_def Let_def)
qed

lemma service_delete_missing:
  "live_connection_doc i (w_db w) = None \<Longrightarrow> SyncConnectionService_delete M i w
    = (Inr \<lparr>dr_data = None, dr_isAlreadyDeleted = True\<rparr>, w)"
  by (simp add: SyncConnectionService_delete_def SyncConnectionRepository_getById_def
      bind_io_run live_connection_doc_def)

end

lemma live_doc_find:
  assumes "keys_distinct d" and "live_connection_doc i d = Some c"
  shows "find (\<lambda>c. sc_id c = i) (db_connections d) = Some c"
  using assms find_SomeD[of _ "db_connections d" c]
  by (intro find_key_unique) (auto simp: keys_distinct_def live_connection_doc_def)

context mongo_driver begin

lemma service_delete_live:
  assumes "db_wf (w_db w)" and "live_connection_doc i (w_db w) = Some c"
  shows "SyncConnectionService_delete M i w
    = (Inr \<lparr>dr_data = Some c, dr_isAlreadyDeleted = False\<rparr>, w\<lparr>w_db := cascade_connection c (w_db w)\<rparr>)"
proof -
  have "find (\<lambda>c. sc_id c = i) (db_connections (w_db w)) = Some c"
    using assms live_doc_find by (simp add: db_wf_def)
  from connection_delete_run[OF assms(1) this, of "no_options\<lparr>qo_old := True\<rparr>"]
  show ?thesis using assms(2)
    by (simp add: SyncConnectionService_delete_def SyncConnectionRepository_getById_def
        bind_io_run live_connection_doc_def)
qed

end

lemma div_less_bound:
  fixes a b m :: int
  assumes "0 < b" and "a < b * m"
  shows "a div b < m"
proof -
  have "b * (a div b) \<le> a" using assms(1) by (metis mult_div_mod_eq pos_mod_sign le_add_same_cancel1)
  then have "b * (a div b) < b * m" using assms(2) by linarith
  then show ?thesis using assms(1) by (simp add: mult_less_cancel_left)
qed

text \<open>\<open>Math.floor(Math.random() * m)\<close> is below \<open>m\<close>.\<close>

lemma randomBelow_bounds:
  assumes "0 \<le> k" and "k < 2 ^ 53" and "0 < m"
  shows "0 \<le> randomBelow k m \<and> randomBelow k m < m"
proof -
  have "k * m < 2 ^ 53 * m" using assms by (intro mult_strict_right_mono) simp_all
  then have "k * m div 2 ^ 53 < m" by (simp add: div_less_bound)
  then show ?thesis using assms by (simp add: randomBelow_def pos_imp_zdiv_nonneg_iff)
qed

section \<open>Properties\<close>

text \<open>The creation workflow, for each of the cases of the service.\<close>

lemma creation_workflow_existing:
  assumes "mongo_ok M" and "live_connection (cn_sourceId data) (w_db w) = Some c"
  shows "createSyncConnectionWf M R rnd F data w = (Inr \<lparr>cr_data = c, cr_isAlreadyCreated = True\<rparr>, w)"
  using mongo_driver.service_create_existing[OF mongo_driverI[OF assms(1)] assms(2)]
  by (simp add: createSyncConnectionWf_def bind_io_run activity_def catch_io_run)

lemma creation_workflow_fails:
  assumes "mongo_ok M" and "live_connection (cn_sourceId data) (w_db w) = None"
    and "\<And>ds. live_source (cn_sourceId data) (w_db w) = Some ds \<Longrightarrow> ds_provider_type ds = AIR_TABLE"
  obtains e where "createSyncConnectionWf M loaded_registries rnd F data w = (Inl (F e), w)"
proof -
  note d = mongo_driverI[OF assms(1)]
  obtain e where "SyncConnectionService_create M loaded_registries rnd data w = (Inl e, w)"
  proof (cases "live_source (cn_sourceId data) (w_db w)")
    case None
    then show ?thesis using that mongo_driver.service_create_no_source[OF d assms(2)] by blast
  next
    case (Some ds)
    then show ?thesis using that mongo_driver.service_create_airtable[OF d assms(2)] assms(3) by blast
  qed
  then show ?thesis
    using that by (simp add: createSyncConnectionWf_def bind_io_run activity_def catch_io_run)
qed

lemma creation_workflow_new:
  fixes data rnd w ds
  defines "cd \<equiv> creationData (rnd 0) (ds_provider_type ds) data"
  defines "c \<equiv> \<lambda>M. newConnection M loaded_registries cd (w_oids w)"
  assumes "mongo_ok M" and "live_connection (cn_sourceId data) (w_db w) = None"
    and "live_source (cn_sourceId data) (w_db w) = Some ds" and "ds_provider_type ds \<noteq> AIR_TABLE"
  shows "createSyncConnectionWf M loaded_registries rnd F data w =
      (Inr \<lparr>cr_data = c M, cr_isAlreadyCreated = False\<rparr>,
       w\<lparr>w_db := withConnection M loaded_registries cd (w_oids w) (w_db w),
         w_oids := oidsAfter cd (w_oids w), w_events := w_events w @ [ConnectionCreated (c M)]\<rparr>)"
    "live_connection (cn_sourceId data) (withConnection M loaded_registries cd (w_oids w) (w_db w))
      = Some (c M)"
    "sc_sourceId (c M) = cn_sourceId data" "sc_config (c M) = cn_config data"
    "length (sc_syncflows (c M)) = 1"
proof -
  show "createSyncConnectionWf M loaded_registries rnd F data w =
      (Inr \<lparr>cr_data = c M, cr_isAlreadyCreated = False\<rparr>,
       w\<lparr>w_db := withConnection M loaded_registries cd (w_oids w) (w_db w),
         w_oids := oidsAfter cd (w_oids w), w_events := w_events w @ [ConnectionCreated (c M)]\<rparr>)"
    using mongo_driver.service_create_new[OF mongo_driverI[OF assms(3)] assms(4-6)]
    by (simp add: createSyncConnectionWf_def bind_io_run activity_def catch_io_run Let_def cd_def c_def)
  show "live_connection (cn_sourceId data) (withConnection M loaded_registries cd (w_oids w) (w_db w))
      = Some (c M)"
    using assms(4) by (simp add: live_connection_def find_append c_def cd_def creationData_def)
  show "sc_sourceId (c M) = cn_sourceId data" "sc_config (c M) = cn_config data"
    "length (sc_syncflows (c M)) = 1"
    by (simp_all add: c_def cd_def creationData_def newConnection_def Let_def newSyncflows_props(1))
qed

text \<open>
  A sync connection is created once and announced once. For a live Google Sheets or Excel
  data source without a connection, the creation workflow commits a well-formed store in which
  the returned connection is the live one and embeds the provider's one syncflow, and emits one
  creation event that carries it. Any later run of the workflow for the same data source, with
  whatever configuration, returns that connection as already created, changes nothing and emits
  nothing.
\<close>

theorem connection_created_once:
  assumes "mongo_ok M" and "db_wf (w_db w)" and "ids_fresh M (w_oids w) (w_db w)"
    and "live_connection (cn_sourceId data) (w_db w) = None"
    and "live_source (cn_sourceId data) (w_db w) = Some ds"
    and "ds_provider_type ds \<noteq> AIR_TABLE"
  shows "\<exists>c w'. createSyncConnectionWf M loaded_registries rnd F data w
        = (Inr \<lparr>cr_data = c, cr_isAlreadyCreated = False\<rparr>, w')
    \<and> w_events w' = w_events w @ [ConnectionCreated c] \<and> db_wf (w_db w')
    \<and> live_connection (cn_sourceId data) (w_db w') = Some c \<and> length (sc_syncflows c) = 1
    \<and> (\<forall>data' rnd' F'. cn_sourceId data' = cn_sourceId data \<longrightarrow>
         createSyncConnectionWf M loaded_registries rnd' F' data' w'
           = (Inr \<lparr>cr_data = c, cr_isAlreadyCreated = True\<rparr>, w'))"
proof -
  note new = creation_workflow_new[where rnd = rnd, OF assms(1,4-6)]
  let ?cd = "creationData (rnd 0) (ds_provider_type ds) data"
  let ?c = "newConnection M loaded_registries ?cd (w_oids w)"
  let ?d = "withConnection M loaded_registries ?cd (w_oids w) (w_db w)"
  let ?w = "w\<lparr>w_db := ?d, w_oids := oidsAfter ?cd (w_oids w),
    w_events := w_events w @ [ConnectionCreated ?c]\<rparr>"
  have "csc_sourceId ?cd = cn_sourceId data" by (simp add: creationData_def)
  then have wf: "db_wf ?d"
    using db_wf_create[OF mongo_driver.oid_inj[OF mongo_driverI[OF assms(1)]] assms(2,3), of ?cd]
      assms(4) by simp
  have "createSyncConnectionWf M loaded_registries rnd' F' data' ?w
      = (Inr \<lparr>cr_data = ?c, cr_isAlreadyCreated = True\<rparr>, ?w)"
    if "cn_sourceId data' = cn_sourceId data" for data' rnd' F'
    using creation_workflow_existing[OF assms(1), of data' ?w ?c] new(2) that by simp
  then show ?thesis using wf new(1)[where F = F] new(2,5) by (intro exI[of _ ?c] exI[of _ ?w]) simp
qed

definition unconnected_world :: world where
  "unconnected_world = example_world\<lparr>w_db := example_db\<lparr>
     db_sources := [example_source, example_source\<lparr>ds_id := ''d2''\<rparr>]\<rparr>\<rparr>"

lemma unconnected_ready:
  "db_wf (w_db unconnected_world)" "w_oids unconnected_world = 0"
  "ids_fresh listMongo 0 (w_db unconnected_world)"
  "live_connection ''d2'' (w_db unconnected_world) = None"
  "live_source ''d2'' (w_db unconnected_world) = Some (example_source\<lparr>ds_id := ''d2''\<rparr>)"
  by (simp_all add: unconnected_world_def db_wf_def keys_distinct_def embedded_present_def
      one_live_connection_def live_defs ids_fresh_def example_defs)
     (auto simp: oid_other)

theorem connection_created_once_witness:
  "\<exists>c. w_events (snd (createSyncConnectionWf listMongo loaded_registries
     (\<lambda>_. \<lparr>rn_seconds = 0, rn_minutes = 0, rn_uuid = ''u''\<rparr>) id \<lparr>cn_sourceId = ''d2'', cn_config = None\<rparr> unconnected_world)) = [ConnectionCreated c]"
proof -
  have "w_events unconnected_world = []" "ds_provider_type (example_source\<lparr>ds_id := ''d2''\<rparr>) \<noteq> AIR_TABLE"
    by (simp_all add: unconnected_world_def example_defs)
  then show ?thesis
    using connection_created_once [OF listMongo_ok, of unconnected_world
        "\<lparr>cn_sourceId = ''d2'', cn_config = None\<rparr>" _
        "\<lambda>_. \<lparr>rn_seconds = 0, rn_minutes = 0, rn_uuid = ''u''\<rparr>" id] unconnected_ready
    by fastforce
qed

text \<open>
  The deletion event is sent in the wrong case. On a well-formed store, the deletion workflow
  of a live sync connection cascades the deletion and returns the connection, but emits no
  event; for a connection that does not exist or is already deleted it changes nothing of the
  store and does emit a connection-deleted event, one that carries no connection.
\<close>

theorem connection_deleted_event_inverted:
  assumes "mongo_ok M" and "db_wf (w_db w)"
  shows "deleteSyncConnectionWf M F i w = (case live_connection_doc i (w_db w) of
      None \<Rightarrow> (Inr \<lparr>dr_data = None, dr_isAlreadyDeleted = True\<rparr>,
        w\<lparr>w_events := w_events w @ [ConnectionDeleted None]\<rparr>)
    | Some c \<Rightarrow> (Inr \<lparr>dr_data = Some c, dr_isAlreadyDeleted = False\<rparr>,
        w\<lparr>w_db := cascade_connection c (w_db w)\<rparr>))"
  using mongo_driver.service_delete_missing[OF mongo_driverI[OF assms(1)], of i w]
    mongo_driver.service_delete_live[OF mongo_driverI[OF assms(1)] assms(2), of i]
  by (simp add: deleteSyncConnectionWf_def bind_io_run activity_def catch_io_run split: option.split)

theorem connection_deleted_event_inverted_witness:
  "w_events (snd (deleteSyncConnectionWf listMongo id ''c1'' example_world)) = []"
proof -
  have "live_connection_doc ''c1'' example_db = Some example_connection"
    by (simp add: live_connection_doc_def example_defs)
  then show ?thesis
    using connection_deleted_event_inverted [OF listMongo_ok, of example_world id "''c1''"]
      example_db_wf by simp
qed



text \<open>
  The frequency is not checked against the length of an hour. For every frequency above 60
  some draw gives a start minute of 60 or more, which is not a minute of a cron expression.
\<close>

theorem cron_minute_out_of_range:
  assumes "60 < f" and "f \<le> 2 ^ 53"
  shows "\<exists>k m. 0 \<le> k \<and> k < 2 ^ 53 \<and> 60 \<le> m \<and>
    createCronExpressionFromFrequency \<lparr>rn_seconds = 0, rn_minutes = k, rn_uuid = u\<rparr> f
      = show_int 0 @ '' '' @ show_int m @ ''/'' @ show_int f @ '' * * * *''"
proof -
  have "(2 ^ 53 - 1) * f = (2 ^ 53 - f) + (f - 1) * 2 ^ 53" by (simp add: algebra_simps)
  then have "randomBelow (2 ^ 53 - 1) f = f - 1"
    using assms unfolding randomBelow_def by (simp only: div_mult_self1) simp
  then show ?thesis using assms(1)
    by (intro exI[of _ "2 ^ 53 - 1"] exI[of _ "f - 1"])
       (simp add: createCronExpressionFromFrequency_def randomBelow_def[of 0])
qed

theorem cron_minute_out_of_range_witness:
  "\<exists>k m. 0 \<le> k \<and> k < 2 ^ 53 \<and> 60 \<le> m \<and>
    createCronExpressionFromFrequency \<lparr>rn_seconds = 0, rn_minutes = k, rn_uuid = []\<rparr> 120
      = show_int 0 @ '' '' @ show_int m @ ''/'' @ show_int 120 @ '' * * * *''"
  by (rule cron_minute_out_of_range) simp_all

end
