(* ===== verification/ThirdParty.thy ===== *)
theory ThirdParty
  imports Store
begin

text \<open>
  The services of \<open>libs/modules/src/third-party\<close>: token exchange and scope checks, the Google
  Sheets, Drive and Microsoft Graph calls the applications make, and the error handlers that
  translate their failures into \<open>ExternalError\<close>s. What the remote services answer is a field of
  the parameter \<open>T :: third_party\<close>, a function of the calls made so far; each call is logged.
\<close>

section \<open>Error handlers\<close>

text \<open>The handlers always throw: they are functions from the caught error to the thrown one.
  Reading \<open>.status\<close> of an absent response is a \<open>TypeError\<close>.\<close>

definition errorResponse :: "js_error \<Rightarrow> ErrorResponse option" where
  "errorResponse e = (case e of ServiceFailure s \<Rightarrow> sv_response s | _ \<Rightarrow> None)"

definition errorCodeOf :: "js_error \<Rightarrow> string option" where
  "errorCodeOf e = (case e of ServiceFailure s \<Rightarrow> sv_errorCode s | _ \<Rightarrow> None)"

definition statusCodeOf :: "js_error \<Rightarrow> int option" where
  "statusCodeOf e = (case e of ServiceFailure s \<Rightarrow> sv_statusCode s | _ \<Rightarrow> None)"

definition handleGoogleAuthError :: "js_error \<Rightarrow> js_error" where
  "handleGoogleAuthError error = (case errorResponse error of
     None \<Rightarrow> TypeError
   | Some r \<Rightarrow>
       if er_status r = 400 then
         (case er_data r of
            None \<Rightarrow> TypeError
          | Some b \<Rightarrow> if rb_error b = Some (GoogleErrorString ''invalid_grant'')
                     then ExternalError TOKEN_INVALID ''Auth credential is invalid'' None
                     else error)
       else if er_status r = 403
       then ExternalError TOKEN_MISSING_PERMISSIONS ''Missing required permissions'' None
       else error)"

text \<open>\<open>err.response.data.error.code === 400\<close>.\<close>

definition innerCodeIs400 :: "ErrorResponse \<Rightarrow> bool option" where
  "innerCodeIs400 r = (case er_data r of
     None \<Rightarrow> None
   | Some b \<Rightarrow> (case rb_error b of
        None \<Rightarrow> None
      | Some (GoogleErrorString _) \<Rightarrow> Some False
      | Some (GoogleErrorObject c) \<Rightarrow> Some (c = Some 400)))"

text \<open>Case 400 has no \<open>break\<close>: when the inner code is not 400 it falls through to case 403.\<close>

definition handleSpreadSheetError :: "js_error \<Rightarrow> js_error" where
  "handleSpreadSheetError error =
    (let missing = ExternalError SPREADSHEET_MISSING_PERMISSIONS
           ''Does not have enough permissions to the spreadsheet'' None
     in case errorResponse error of
          None \<Rightarrow> TypeError
        | Some r \<Rightarrow>
            if er_status r = 400 then
              (case innerCodeIs400 r of
                 None \<Rightarrow> TypeError
               | Some True \<Rightarrow> ExternalError TOKEN_INVALID ''Token is invalid'' None
               | Some False \<Rightarrow> missing)
            else if er_status r = 403 then missing
            else if er_status r = 404
            then ExternalError SPREADSHEET_NOT_FOUND ''Spreadsheet not found'' None
            else error)"

definition handleDriveFileError :: "js_error \<Rightarrow> js_error" where
  "handleDriveFileError error =
    (let missing = ExternalError GOOGLE_DRIVE_FILE_MISSING_PERMISSIONS
           ''Does not have enough permissions to the google drive file'' None
     in case errorResponse error of
          None \<Rightarrow> TypeError
        | Some r \<Rightarrow>
            if er_status r = 400 then
              (case innerCodeIs400 r of
                 None \<Rightarrow> TypeError
               | Some True \<Rightarrow> ExternalError TOKEN_INVALID ''Token is invalid'' None
               | Some False \<Rightarrow> missing)
            else if er_status r = 403 then missing
            else if er_status r = 404
            then ExternalError GOOGLE_DRIVE_FILE_NOT_FOUND ''Drive file not found'' None
            else error)"

definition handleAuthApiError :: "js_error \<Rightarrow> js_error" where
  "handleAuthApiError error =
    (if errorCodeOf error = Some ''invalid_grant''
     then ExternalError TOKEN_INVALID ''Token is invalid'' None else error)"

definition handleWorkbookError :: "js_error \<Rightarrow> js_error" where
  "handleWorkbookError error =
    (if statusCodeOf error = Some 401 then ExternalError TOKEN_INVALID ''Token is invalid'' None
     else if statusCodeOf error = Some 403
     then ExternalError WORKBOOK_MISSING_PERMISSIONS
            ''Does not have permissions to the workbook'' None
     else if statusCodeOf error = Some 404
     then ExternalError WORKBOOK_NOT_FOUND ''Workbook not found'' None
     else error)"

definition handleWorksheetError :: "js_error \<Rightarrow> js_error" where
  "handleWorksheetError error =
    (if statusCodeOf error = Some 401 then ExternalError TOKEN_INVALID ''Token is invalid'' None
     else if statusCodeOf error = Some 403
     then ExternalError WORKBOOK_MISSING_PERMISSIONS
            ''Does not have permissions to the workbook'' None
     else if statusCodeOf error = Some 404
     then ExternalError WORKSHEET_RANGE_NOT_FOUND ''Worksheet range not found'' None
     else error)"

definition handleFileError :: "js_error \<Rightarrow> js_error" where
  "handleFileError error =
    (if statusCodeOf error = Some 401 then ExternalError TOKEN_INVALID ''Token is invalid'' None
     else if statusCodeOf error = Some 403
     then ExternalError ONE_DRIVE_FILE_MISSING_PERMISSIONS
            ''Does not have permissions to the workbook'' None
     else if statusCodeOf error = Some 404
     then ExternalError ONE_DRIVE_FILE_NOT_FOUND ''File not found'' None
     else error)"

text \<open>\<open>try { await m } catch (error) { handle(error) }\<close>.\<close>

definition handled :: "(js_error \<Rightarrow> js_error) \<Rightarrow> 'a act \<Rightarrow> 'a act" where
  "handled h m = catch_io m (\<lambda>e. throw_io (h e))"

section \<open>Answers of the remote services\<close>

record GoogleToken =
  gt_token :: string
  gt_scope :: string

record SheetProperties =
  sh_sheetId :: int
  sh_index :: int
  sh_title :: string

record Spreadsheet =
  sp_timeZone :: string
  sp_sheets :: "SheetProperties list option"

record Worksheet =
  ws_id :: string
  ws_name :: string
  ws_position :: int
  ws_visibility :: string

text \<open>The parts of a range response that the code selects.\<close>

record UsedRange =
  ur_address :: string
  ur_values :: "json list list"

record third_party =
  tp_googleScopes :: "string list"    \<comment> \<open>configuration: the required scopes\<close>
  tp_googleToken :: "ext_call list \<Rightarrow> js_error + GoogleToken"
  tp_googleUser :: "ext_call list \<Rightarrow> js_error + string"
  tp_spreadsheet :: "ext_call list \<Rightarrow> js_error + Spreadsheet"
  tp_rangeValue :: "ext_call list \<Rightarrow> js_error + json list list option"
  tp_driveWatch :: "ext_call list \<Rightarrow> js_error + (string \<times> string)"
  tp_driveStop :: "ext_call list \<Rightarrow> js_error + unit"
  tp_microsoftToken :: "ext_call list \<Rightarrow> js_error + string"
  tp_workbookSession :: "ext_call list \<Rightarrow> js_error + string"
  tp_closeSession :: "ext_call list \<Rightarrow> js_error + unit"
  tp_worksheet :: "ext_call list \<Rightarrow> js_error + Worksheet"
  tp_worksheets :: "ext_call list \<Rightarrow> js_error + Worksheet list"
  tp_fileInfo :: "ext_call list \<Rightarrow> js_error + string"   \<comment> \<open>\<open>cTag\<close>\<close>
  tp_usedRange :: "ext_call list \<Rightarrow> js_error + UsedRange"

section \<open>Google\<close>

text \<open>\<open>s.split(' ')\<close>.\<close>

fun splitSpaces :: "string \<Rightarrow> string list" where
  "splitSpaces [] = [[]]"
| "splitSpaces (c # cs) =
    (if c = CHR '' '' then [] # splitSpaces cs
     else (case splitSpaces cs of [] \<Rightarrow> [[c]] | w # ws \<Rightarrow> (c # w) # ws))"

text \<open>lodash \<open>intersection\<close>: the values of the first array, once each, that the second has.\<close>

definition intersection :: "string list \<Rightarrow> string list \<Rightarrow> string list" where
  "intersection xs ys = filter (List.member ys) (remdups xs)"

definition missingScopes :: "third_party \<Rightarrow> GoogleToken \<Rightarrow> bool" where
  "missingScopes T token \<longleftrightarrow>
     length (intersection (splitSpaces (gt_scope token)) (tp_googleScopes T))
       \<noteq> length (tp_googleScopes T)"

definition missingPermissions :: js_error where
  "missingPermissions = ExternalError TOKEN_MISSING_PERMISSIONS
     ''Token doesn't have enough required permissions'' None"

text \<open>The scope check is inside the \<open>try\<close>, so its own \<open>ExternalError\<close> goes through
  \<open>handleGoogleAuthError\<close>.\<close>

definition GoogleService_getAccessToken :: "third_party \<Rightarrow> string option \<Rightarrow> string act" where
  "GoogleService_getAccessToken T refreshToken = handled handleGoogleAuthError
    (bind_io (callService (tp_googleToken T) (GoogleToken (show_opt refreshToken))) (\<lambda>token.
       if missingScopes T token then throw_io missingPermissions
       else return_io (gt_token token)))"

text \<open>In \<open>validateToken\<close> only the token request is inside the \<open>try\<close>.\<close>

definition GoogleService_validateToken :: "third_party \<Rightarrow> string option \<Rightarrow> unit act" where
  "GoogleService_validateToken T refreshToken =
    bind_io (handled handleGoogleAuthError
        (callService (tp_googleToken T) (GoogleToken (show_opt refreshToken)))) (\<lambda>token.
      if missingScopes T token then throw_io missingPermissions else return_io ())"

definition GoogleService_getUserInfo :: "third_party \<Rightarrow> string option \<Rightarrow> string act" where
  "GoogleService_getUserInfo T refreshToken = handled handleGoogleAuthError
    (callService (tp_googleUser T)
      (HttpPost ''https://www.googleapis.com/oauth2/v2/userinfo'' (JStr (show_opt refreshToken))))"

definition GoogleSheetsService_getSpreadSheets ::
  "third_party \<Rightarrow> string option \<Rightarrow> string option \<Rightarrow> string \<Rightarrow> Spreadsheet act" where
  "GoogleSheetsService_getSpreadSheets T client spreadsheetId fieldList =
    handled handleSpreadSheetError
      (callService (tp_spreadsheet T) (GoogleGet (show_opt spreadsheetId) fieldList))"

text \<open>\<open>res.data.values || []\<close>.\<close>

definition GoogleSheetsService_getRangeValue ::
  "third_party \<Rightarrow> string option \<Rightarrow> string \<Rightarrow> json list list act" where
  "GoogleSheetsService_getRangeValue T spreadsheetId a1Range = handled handleSpreadSheetError
    (bind_io (callService (tp_rangeValue T) (GoogleGet (show_opt spreadsheetId) a1Range))
      (\<lambda>values. return_io (case values of None \<Rightarrow> [] | Some v \<Rightarrow> v)))"

definition GoogleSheetsService_registerFileChangeWebhook ::
  "third_party \<Rightarrow> string \<Rightarrow> string option \<Rightarrow> string \<Rightarrow> (string \<times> string) act" where
  "GoogleSheetsService_registerFileChangeWebhook T webhookId fileId webhookUrl =
    handled handleDriveFileError
      (callService (tp_driveWatch T) (DriveWatch (show_opt fileId) webhookId webhookUrl))"

definition GoogleSheetsService_stopFileChangeWebhook ::
  "third_party \<Rightarrow> string \<Rightarrow> string \<Rightarrow> unit act" where
  "GoogleSheetsService_stopFileChangeWebhook T webhookId resourceId =
    handled handleDriveFileError (callService (tp_driveStop T) (DriveStop webhookId resourceId))"

section \<open>Microsoft\<close>

definition MicrosoftService_getAccessToken :: "third_party \<Rightarrow> string option \<Rightarrow> string act" where
  "MicrosoftService_getAccessToken T refreshToken = handled handleAuthApiError
    (callService (tp_microsoftToken T) (MicrosoftToken (show_opt refreshToken)))"

definition MicrosoftGraphService_createWorkbookSession ::
  "third_party \<Rightarrow> string option \<Rightarrow> bool option \<Rightarrow> string act" where
  "MicrosoftGraphService_createWorkbookSession T workbookId persist =
    handled handleWorkbookError
      (callService (tp_workbookSession T)
        (HttpPost (''/me/drive/items/'' @ show_opt workbookId @ ''/workbook/createSession'')
          (JObj [(''persistChanges'', JBool (persist = Some True))])))"

text \<open>A failure to close the session is logged and swallowed.\<close>

definition MicrosoftGraphService_closeWorkbookSession ::
  "third_party \<Rightarrow> string option \<Rightarrow> string \<Rightarrow> unit act" where
  "MicrosoftGraphService_closeWorkbookSession T workbookId sessionId =
    catch_io (callService (tp_closeSession T)
        (HttpPost (''/me/drive/items/'' @ show_opt workbookId @ ''/workbook/closeSession'')
          (JObj [])))
      (\<lambda>_. return_io ())"

text \<open>\<open>url.concat(`?$select=${select.join(',')}`)\<close> when a selection is given.\<close>

definition withSelect :: "string \<Rightarrow> string list \<Rightarrow> string" where
  "withSelect url select =
    (if select \<noteq> [] then url @ ''?$select='' @ joinWith '','' select else url)"

definition worksheetUrl :: "string option \<Rightarrow> string option \<Rightarrow> string" where
  "worksheetUrl workbookId worksheetId = ''/me/drive/items/'' @ show_opt workbookId @
     ''/workbook/worksheets/'' @ show_opt worksheetId"

definition MicrosoftGraphService_getWorksheet ::
  "third_party \<Rightarrow> string option \<Rightarrow> string option \<Rightarrow> string list \<Rightarrow> Worksheet act" where
  "MicrosoftGraphService_getWorksheet T workbookId worksheetId select =
    handled handleWorksheetError
      (callService (tp_worksheet T)
        (GraphGet (withSelect (worksheetUrl workbookId worksheetId) select)))"

definition MicrosoftGraphService_listWorksheets ::
  "third_party \<Rightarrow> string option \<Rightarrow> Worksheet list act" where
  "MicrosoftGraphService_listWorksheets T workbookId = handled handleWorksheetError
    (callService (tp_worksheets T)
      (GraphGet (''/me/drive/items/'' @ show_opt workbookId @ ''/workbook/worksheets'')))"

definition MicrosoftGraphService_getWorkbookFileInfo ::
  "third_party \<Rightarrow> string option \<Rightarrow> string list \<Rightarrow> string act" where
  "MicrosoftGraphService_getWorkbookFileInfo T workbookId select = handled handleFileError
    (callService (tp_fileInfo T)
      (GraphGet (withSelect (''/me/drive/items/'' @ show_opt workbookId) select)))"

definition MicrosoftGraphService_getWorksheetUsedRangeRow ::
  "third_party \<Rightarrow> string option \<Rightarrow> string option \<Rightarrow> int \<Rightarrow> string list \<Rightarrow> UsedRange act" where
  "MicrosoftGraphService_getWorksheetUsedRangeRow T workbookId worksheetId row select =
    handled handleWorksheetError
      (callService (tp_usedRange T)
        (GraphGet (withSelect (worksheetUrl workbookId worksheetId @
          ''/range/usedRange/row(row='' @ show_int row @ '')'') select)))"

text \<open>\<open>res.values[0]\<close>; \<open>None\<close> is \<open>undefined\<close>.\<close>

definition MicrosoftGraphService_getWorksheetUsedRangeRowValues ::
  "third_party \<Rightarrow> string option \<Rightarrow> string option \<Rightarrow> int \<Rightarrow> json list option act" where
  "MicrosoftGraphService_getWorksheetUsedRangeRowValues T workbookId worksheetId row =
    bind_io (MicrosoftGraphService_getWorksheetUsedRangeRow T workbookId worksheetId row
        [''values''])
      (\<lambda>res. return_io (case ur_values res of [] \<Rightarrow> None | v # _ \<Rightarrow> Some v))"

definition MicrosoftGraphService_getWorksheetUsedRange ::
  "third_party \<Rightarrow> string option \<Rightarrow> string option \<Rightarrow> string list \<Rightarrow> UsedRange act" where
  "MicrosoftGraphService_getWorksheetUsedRange T workbookId worksheetId select =
    handled handleWorksheetError
      (callService (tp_usedRange T)
        (GraphGet (withSelect (worksheetUrl workbookId worksheetId @ ''/range/usedRange'')
          select)))"

text \<open>\<open>sheetName.replace("'", "''")\<close> replaces the first quote only.\<close>

fun replaceFirstQuote :: "string \<Rightarrow> string" where
  "replaceFirstQuote [] = []"
| "replaceFirstQuote (c # cs) =
    (if c = CHR 39 then CHR 39 # CHR 39 # cs else c # replaceFirstQuote cs)"

definition formatSheetNameInRange :: "string \<Rightarrow> string" where
  "formatSheetNameInRange sheetName = CHR 39 # replaceFirstQuote sheetName @ [CHR 39]"

section \<open>Facts\<close>

lemma handled_ok: "m w = (Inr x, w') \<Longrightarrow> handled h m w = (Inr x, w')"
  by (simp add: handled_def io_simps)

lemma handled_throw: "m w = (Inl e, w') \<Longrightarrow> handled h m w = (Inl (h e), w')"
  by (simp add: handled_def io_simps)

lemma handled_run [io_simps]: "handled h m w = map_prod (map_sum h id) id (m w)"
  by (auto simp: handled_def io_simps split: prod.splits sum.splits)

text \<open>The handler on the error of the scope check itself: it has no response.\<close>

lemma handleGoogleAuthError_scope [simp]: "handleGoogleAuthError missingPermissions = TypeError"
  by (simp add: handleGoogleAuthError_def errorResponse_def missingPermissions_def)

lemma length_intersection: "length (intersection xs ys) = card (set (intersection xs ys))"
  by (rule distinct_card[symmetric]) (simp add: intersection_def)

lemma intersection_complete:
  assumes "distinct ys"
  shows "length (intersection xs ys) = length ys \<longleftrightarrow> set ys \<subseteq> set xs"
proof -
  note len = length_intersection[of xs ys]
  have sub: "set (intersection xs ys) \<subseteq> set ys"
    by (auto simp: intersection_def)
  have card: "card (set ys) = length ys" using assms by (rule distinct_card)
  show ?thesis
  proof
    assume "length (intersection xs ys) = length ys"
    then have "set (intersection xs ys) = set ys"
      using len card sub by (intro card_subset_eq) auto
    then show "set ys \<subseteq> set xs" by (auto simp: intersection_def)
  next
    assume "set ys \<subseteq> set xs"
    then have "set (intersection xs ys) = set ys"
      by (auto simp: intersection_def)
    then show "length (intersection xs ys) = length ys" using len card by simp
  qed
qed

lemma missingScopes_iff:
  "distinct (tp_googleScopes T) \<Longrightarrow>
   missingScopes T token \<longleftrightarrow> \<not> set (tp_googleScopes T) \<subseteq> set (splitSpaces (gt_scope token))"
  by (simp add: missingScopes_def intersection_complete)

section \<open>Properties\<close>

text \<open>
  The two scope checks of \<open>GoogleService\<close>. With distinct configured scopes, a token whose
  \<open>scope\<close> names all of them is accepted by both functions (and returned by \<open>getAccessToken\<close>).
  A token that lacks one is rejected by \<open>validateToken\<close> with the documented external error
  \<open>TOKEN_MISSING_PERMISSIONS\<close>, but by \<open>getAccessToken\<close> with a \<open>TypeError\<close>: its own error is
  caught by its own handler, which reads the status of a response that is not there.
\<close>

theorem google_scope_check:
  assumes "distinct (tp_googleScopes T)"
    and "tp_googleToken T (w_calls w @ [GoogleToken (show_opt r)]) = Inr token"
  shows "if set (tp_googleScopes T) \<subseteq> set (splitSpaces (gt_scope token))
    then fst (GoogleService_getAccessToken T r w) = Inr (gt_token token) \<and>
         fst (GoogleService_validateToken T r w) = Inr ()
    else fst (GoogleService_getAccessToken T r w) = Inl TypeError \<and>
         fst (GoogleService_validateToken T r w) = Inl missingPermissions"
proof -
  have get: "fst (GoogleService_getAccessToken T r w) =
      (if missingScopes T token then Inl TypeError else Inr (gt_token token))"
    using assms(2) by (simp add: GoogleService_getAccessToken_def io_simps)
  have val: "fst (GoogleService_validateToken T r w) =
      (if missingScopes T token then Inl missingPermissions else Inr ())"
    using assms(2) by (simp add: GoogleService_validateToken_def io_simps)
  show ?thesis using get val missingScopes_iff[OF assms(1), of token] by simp
qed

definition example_services :: third_party where
  "example_services = \<lparr>tp_googleScopes = [''drive'', ''sheets''],
     tp_googleToken = (\<lambda>_. Inr \<lparr>gt_token = ''at'', gt_scope = ''email drive''\<rparr>),
     tp_googleUser = (\<lambda>_. Inr ''user''),
     tp_spreadsheet = (\<lambda>_. Inr \<lparr>sp_timeZone = ''UTC'', sp_sheets = None\<rparr>),
     tp_rangeValue = (\<lambda>_. Inr None), tp_driveWatch = (\<lambda>_. Inr (''chan'', ''res'')),
     tp_driveStop = (\<lambda>_. Inr ()), tp_microsoftToken = (\<lambda>_. Inr ''mt''),
     tp_workbookSession = (\<lambda>_. Inr ''ses''), tp_closeSession = (\<lambda>_. Inr ()),
     tp_worksheet = (\<lambda>_. Inr \<lparr>ws_id = ''w1'', ws_name = ''Sheet1'', ws_position = 0,
       ws_visibility = ''Visible''\<rparr>),
     tp_worksheets = (\<lambda>_. Inr []), tp_fileInfo = (\<lambda>_. Inr ''tag1''),
     tp_usedRange = (\<lambda>_. Inr \<lparr>ur_address = ''Sheet1!A1:B1'', ur_values = []\<rparr>)\<rparr>"

theorem google_scope_check_witness:
  "fst (GoogleService_getAccessToken example_services (Some ''rt'') empty_world) = Inl TypeError \<and>
   fst (GoogleService_validateToken example_services (Some ''rt'') empty_world)
     = Inl missingPermissions"
  using google_scope_check [of example_services empty_world "Some ''rt''"
      "\<lparr>gt_token = ''at'', gt_scope = ''email drive''\<rparr>"]
  by (simp add: example_services_def)

text \<open>
  How a failed spreadsheet request is classified, on every branch. A 400 is an invalid token
  only if the error body says 400 too; any other 400 falls through to the missing-permissions
  error of case 403; 404 is not found; a failure without a response is a \<open>TypeError\<close>; every
  other status is passed on unchanged.
\<close>

theorem handleSpreadSheetError_cases:
  "handleSpreadSheetError e = (case errorResponse e of
     None \<Rightarrow> TypeError
   | Some r \<Rightarrow>
       if er_status r = 404 then ExternalError SPREADSHEET_NOT_FOUND ''Spreadsheet not found'' None
       else if er_status r = 403 \<or> er_status r = 400 \<and> innerCodeIs400 r = Some False
       then ExternalError SPREADSHEET_MISSING_PERMISSIONS
              ''Does not have enough permissions to the spreadsheet'' None
       else if er_status r = 400 \<and> innerCodeIs400 r = Some True
       then ExternalError TOKEN_INVALID ''Token is invalid'' None
       else if er_status r = 400 then TypeError
       else e)"
  by (auto simp: handleSpreadSheetError_def Let_def split: option.splits bool.splits)

text \<open>The quoting that sheet names in ranges need: every quote is doubled.\<close>

definition quoteSheetName :: "string \<Rightarrow> string" where
  "quoteSheetName name =
     CHR 39 # concat (map (\<lambda>c. if c = CHR 39 then [CHR 39, CHR 39] else [c]) name) @ [CHR 39]"

definition quoteCount :: "string \<Rightarrow> nat" where
  "quoteCount name = length (filter (\<lambda>c. c = CHR 39) name)"

lemma length_double_quotes:
  "length (concat (map (\<lambda>c. if c = CHR 39 then [CHR 39, CHR 39] else [c]) name))
    = length name + quoteCount name"
  by (induction name) (auto simp: quoteCount_def)

lemma double_no_quotes:
  "quoteCount name = 0 \<Longrightarrow>
   concat (map (\<lambda>c. if c = CHR 39 then [CHR 39, CHR 39] else [c]) name) = name"
  by (induction name) (auto simp: quoteCount_def split: if_splits)

lemma replaceFirstQuote_single:
  "quoteCount name \<le> 1 \<Longrightarrow> replaceFirstQuote name =
     concat (map (\<lambda>c. if c = CHR 39 then [CHR 39, CHR 39] else [c]) name)"
proof (induction name)
  case Nil
  then show ?case by simp
next
  case (Cons c cs)
  then show ?case using double_no_quotes[of cs] by (auto simp: quoteCount_def split: if_splits)
qed

lemma length_replaceFirstQuote: "length (replaceFirstQuote name) \<le> Suc (length name)"
  by (induction name) auto

text \<open>
  \<open>formatSheetNameInRange\<close> quotes a sheet name correctly exactly when the name contains at
  most one single quote: \<open>String.replace\<close> with a string pattern replaces only the first one.
\<close>

theorem formatSheetNameInRange_correct_iff:
  "formatSheetNameInRange name = quoteSheetName name \<longleftrightarrow> quoteCount name \<le> 1"
proof
  assume "formatSheetNameInRange name = quoteSheetName name"
  then have "length (replaceFirstQuote name) = length name + quoteCount name"
    using length_double_quotes[of name]
    by (simp add: formatSheetNameInRange_def quoteSheetName_def)
  then show "quoteCount name \<le> 1" using length_replaceFirstQuote[of name] by simp
next
  assume "quoteCount name \<le> 1"
  then show "formatSheetNameInRange name = quoteSheetName name"
    by (simp add: formatSheetNameInRange_def quoteSheetName_def replaceFirstQuote_single)
qed

end
