(* ===== verification/Discoverer.thy ===== *)
theory Discoverer
  imports ThirdParty Examples
begin

text \<open>
  The configurator's discoverers (\<open>apps/configurator/src/modules/discoverer\<close>): listing the data
  sources of a provider and checking that a sheet can be synced (it exists, has a header row with
  some value, and at most one id column).
\<close>

definition IdColumnName :: string where "IdColumnName = ''__StarionId''"

section \<open>A1 notation\<close>

text \<open>\<open>s.split('!')\<close>.\<close>

fun splitBang :: "string \<Rightarrow> string list" where
  "splitBang [] = [[]]"
| "splitBang (c # cs) =
    (if c = CHR ''!'' then [] # splitBang cs
     else (case splitBang cs of [] \<Rightarrow> [[c]] | w # ws \<Rightarrow> (c # w) # ws))"

definition isDigit :: "char \<Rightarrow> bool" where
  "isDigit c = List.member ''0123456789'' c"

text \<open>The first match of \<open>/(\d+)/\<close>.\<close>

definition firstDigits :: "string \<Rightarrow> string" where
  "firstDigits s = takeWhile isDigit (dropWhile (\<lambda>c. \<not> isDigit c) s)"

text \<open>Without a \<open>!\<close> the range is \<open>undefined\<close> and \<open>range.match\<close> throws.\<close>

definition getFirstRowFromA1Notation :: "string \<Rightarrow> js_error + nat" where
  "getFirstRowFromA1Notation a1Notation = (case splitBang a1Notation of
     _ # rng # _ \<Rightarrow>
       (if firstDigits rng = [] then Inl (PlainError ''Invalid A1 notation range format'')
        else Inr (read_nat (firstDigits rng)))
   | _ \<Rightarrow> Inl TypeError)"

section \<open>The header row\<close>

text \<open>The loop over the header values: the count of values that are not empty strings, or the
  error of a second id column.\<close>

fun scanHeader :: "json list \<Rightarrow> bool \<Rightarrow> nat \<Rightarrow> js_error + nat" where
  "scanHeader [] isIdColContained headerValuesCount = Inr headerValuesCount"
| "scanHeader (v # vs) isIdColContained headerValuesCount =
    (if v \<noteq> JStr [] then
       (if v = JStr IdColumnName then
          (if isIdColContained then Inl (ExternalError ID_COLUMN_DUPLICATED
             (''The id column ('' @ IdColumnName @ '') is duplicated'') None)
           else scanHeader vs True (Suc headerValuesCount))
        else scanHeader vs isIdColContained (Suc headerValuesCount))
     else scanHeader vs isIdColContained headerValuesCount)"

section \<open>Google Sheets\<close>

definition GoogleSheetsDiscoverer_discoverProvider ::
  "third_party \<Rightarrow> DataSourceConfig \<Rightarrow> (string \<times> SheetProperties) list act" where
  "GoogleSheetsDiscoverer_discoverProvider T config =
    bind_io (GoogleSheetsService_getSpreadSheets T (cfg_auth config) (cfg_spreadsheetId config)
        ''sheets.properties'')
      (\<lambda>res. case sp_sheets res of
         None \<Rightarrow> throw_io TypeError
       | Some sheets \<Rightarrow> return_io (map (\<lambda>s. (show_int (sh_sheetId s), s)) sheets))"

definition GoogleSheetsDiscoverer_checkEmpty ::
  "third_party \<Rightarrow> string \<Rightarrow> DataSourceConfig \<Rightarrow> unit act" where
  "GoogleSheetsDiscoverer_checkEmpty T sheetName config =
    bind_io (GoogleSheetsService_getRangeValue T (cfg_spreadsheetId config)
        (formatSheetNameInRange sheetName @ ''!A1:Z1'')) (\<lambda>headerRangeValues.
    bind_io (case headerRangeValues of
        [] \<Rightarrow> return_io True
      | headerValues # _ \<Rightarrow> bind_io (lift_io (scanHeader headerValues False 0))
          (\<lambda>n. return_io (headerValues = [] \<or> n = 0))) (\<lambda>isEmpty.
    if isEmpty then throw_io (ExternalError SHEET_EMPTY ''Sheet doesn't have any data'' None)
    else return_io ()))"

definition GoogleSheetsDiscoverer_checkDataSource ::
  "third_party \<Rightarrow> DataSourceConfig \<Rightarrow> unit act" where
  "GoogleSheetsDiscoverer_checkDataSource T config =
    bind_io (GoogleService_validateToken T (cfg_auth config)) (\<lambda>_.
    bind_io (GoogleSheetsDiscoverer_discoverProvider T config) (\<lambda>sheets.
    case List.find (\<lambda>s. Some (fst s) = cfg_sheetId config) sheets of
      None \<Rightarrow> throw_io (ExternalError SHEET_NOT_FOUND ''Sheet doesn't exist'' None)
    | Some s \<Rightarrow> GoogleSheetsDiscoverer_checkEmpty T (sh_title (snd s)) config))"

definition GoogleSheetsDiscoverer_discoverConfig ::
  "third_party \<Rightarrow> DataSourceConfig \<Rightarrow> DataSourceConfig act" where
  "GoogleSheetsDiscoverer_discoverConfig T config =
    bind_io (GoogleService_getUserInfo T (cfg_auth config))
      (\<lambda>userId. return_io (config\<lparr>cfg_userId := Some userId\<rparr>))"

section \<open>Microsoft Excel\<close>

text \<open>A range that does not exist is an empty sheet; every other error is rethrown.\<close>

definition MicrosoftExcelDiscoverer_checkEmpty ::
  "third_party \<Rightarrow> DataSourceConfig \<Rightarrow> unit act" where
  "MicrosoftExcelDiscoverer_checkEmpty T config =
    bind_io (catch_io
      (bind_io (MicrosoftGraphService_getWorksheetUsedRangeRow T (cfg_workbookId config)
          (cfg_worksheetId config) 0 [''address'', ''values'']) (\<lambda>firstRowOfSheet.
       bind_io (lift_io (getFirstRowFromA1Notation (ur_address firstRowOfSheet)))
         (\<lambda>firstRowNumber.
       if firstRowNumber \<noteq> 1 then return_io True
       else (case ur_values firstRowOfSheet of
           [] \<Rightarrow> throw_io TypeError
         | headerValues # _ \<Rightarrow> bind_io (lift_io (scanHeader headerValues False 0))
             (\<lambda>n. return_io (headerValues = [] \<or> n = 0))))))
      (\<lambda>error. case error of
         ExternalError code _ _ \<Rightarrow> if code = WORKSHEET_RANGE_NOT_FOUND then return_io True
           else throw_io error
       | _ \<Rightarrow> throw_io error)) (\<lambda>isEmpty.
    if isEmpty then throw_io (ExternalError WORKSHEET_EMPTY ''Worksheet doesn't have any data'' None)
    else return_io ())"

text \<open>The session is closed only after a successful check, without waiting for it.\<close>

definition MicrosoftExcelDiscoverer_checkDataSource ::
  "third_party \<Rightarrow> DataSourceConfig \<Rightarrow> unit act" where
  "MicrosoftExcelDiscoverer_checkDataSource T config =
    bind_io (MicrosoftService_getAccessToken T (cfg_auth config)) (\<lambda>accessToken.
    bind_io (MicrosoftGraphService_createWorkbookSession T (cfg_workbookId config) (Some False))
      (\<lambda>sessionId.
    bind_io (MicrosoftGraphService_getWorkbookFileInfo T (cfg_workbookId config) [[]]) (\<lambda>_.
    bind_io (MicrosoftGraphService_listWorksheets T (cfg_workbookId config)) (\<lambda>worksheets.
    case List.find (\<lambda>s. Some (ws_id s) = cfg_worksheetId config) worksheets of
      None \<Rightarrow> throw_io (ExternalError WORKSHEET_NOT_FOUND ''Worksheet doesn't exist'' None)
    | Some _ \<Rightarrow> bind_io (MicrosoftExcelDiscoverer_checkEmpty T config) (\<lambda>_.
        MicrosoftGraphService_closeWorkbookSession T (cfg_workbookId config) sessionId)))))"

definition MicrosoftExcelDiscoverer_discoverProvider ::
  "third_party \<Rightarrow> DataSourceConfig \<Rightarrow> Worksheet list act" where
  "MicrosoftExcelDiscoverer_discoverProvider T config =
    bind_io (MicrosoftService_getAccessToken T (cfg_auth config)) (\<lambda>accessToken.
      MicrosoftGraphService_listWorksheets T (cfg_workbookId config))"

definition MicrosoftExcelDiscoverer_discoverConfig :: "DataSourceConfig \<Rightarrow> DataSourceConfig act" where
  "MicrosoftExcelDiscoverer_discoverConfig dataSourceConfig = return_io dataSourceConfig"

section \<open>The service\<close>

definition unknownProvider :: "'a act" where
  "unknownProvider = throw_io (PlainError ''Unknown provider type'')"

text \<open>The ids of the discovered data sources, by the provider's discoverer.\<close>

definition discoverProviderByConfig ::
  "third_party \<Rightarrow> ProviderType \<Rightarrow> DataSourceConfig \<Rightarrow> string list act" where
  "discoverProviderByConfig T providerType config = (case providerType of
     GOOGLE_SHEETS \<Rightarrow> bind_io (GoogleSheetsDiscoverer_discoverProvider T config)
       (\<lambda>sheets. return_io (map fst sheets))
   | MICROSOFT_EXCEL \<Rightarrow> bind_io (MicrosoftExcelDiscoverer_discoverProvider T config)
       (\<lambda>sheets. return_io (map ws_id sheets))
   | AIR_TABLE \<Rightarrow> unknownProvider)"

definition discoverProvider :: "mongo \<Rightarrow> third_party \<Rightarrow> oid \<Rightarrow> string list act" where
  "discoverProvider M T providerId =
    bind_io (DataProviderRepository_getById M providerId no_options) (\<lambda>dataProvider.
      case dataProvider of
        None \<Rightarrow> throw_io (PlainError (''DataProvider with id '' @ providerId @ '' not found''))
      | Some p \<Rightarrow> discoverProviderByConfig T (dp_type p) (dp_config p))"

definition discoverConfig ::
  "third_party \<Rightarrow> ProviderType \<Rightarrow> DataSourceConfig \<Rightarrow> DataSourceConfig act" where
  "discoverConfig T providerType config = (case providerType of
     GOOGLE_SHEETS \<Rightarrow> GoogleSheetsDiscoverer_discoverConfig T config
   | MICROSOFT_EXCEL \<Rightarrow> MicrosoftExcelDiscoverer_discoverConfig config
   | AIR_TABLE \<Rightarrow> unknownProvider)"

definition checkDataSource :: "third_party \<Rightarrow> ProviderType \<Rightarrow> DataSourceConfig \<Rightarrow> unit act" where
  "checkDataSource T providerType config = (case providerType of
     GOOGLE_SHEETS \<Rightarrow> GoogleSheetsDiscoverer_checkDataSource T config
   | MICROSOFT_EXCEL \<Rightarrow> MicrosoftExcelDiscoverer_checkDataSource T config
   | AIR_TABLE \<Rightarrow> unknownProvider)"

section \<open>Facts\<close>

definition idColumns :: "json list \<Rightarrow> nat" where
  "idColumns vs = length (filter (\<lambda>v. v = JStr IdColumnName) vs)"

definition duplicatedId :: js_error where
  "duplicatedId = ExternalError ID_COLUMN_DUPLICATED
     (''The id column ('' @ IdColumnName @ '') is duplicated'') None"

lemma scanHeader_spec:
  "scanHeader vs b n =
    (if idColumns vs + (if b then 1 else 0) \<le> 1
     then Inr (n + length (filter (\<lambda>v. v \<noteq> JStr []) vs))
     else Inl duplicatedId)"
  by (induction vs arbitrary: b n)
     (auto simp: idColumns_def duplicatedId_def IdColumnName_def)

text \<open>
  Which header rows the Google Sheets check accepts. With the first row read, the check
  returns exactly when some value of it is not the empty string and the id column appears at most
  once; two id columns are reported as such even in an otherwise empty row, and no row, an empty
  row or a row of empty strings is an empty sheet. The only effect is the read request.
\<close>

theorem header_check:
  assumes "tp_rangeValue T (w_calls w @ [c]) = Inr rows"
    and "c = GoogleGet (show_opt (cfg_spreadsheetId config))
      (formatSheetNameInRange sheetName @ ''!A1:Z1'')"
  shows "GoogleSheetsDiscoverer_checkEmpty T sheetName config w =
    (let vs = (case rows of Some (r # _) \<Rightarrow> r | _ \<Rightarrow> [])
     in if idColumns vs \<ge> 2 then Inl duplicatedId
        else if \<exists>v \<in> set vs. v \<noteq> JStr [] then Inr ()
        else Inl (ExternalError SHEET_EMPTY ''Sheet doesn't have any data'' None),
     w\<lparr>w_calls := w_calls w @ [c]\<rparr>)"
proof -
  have run: "GoogleSheetsService_getRangeValue T (cfg_spreadsheetId config)
      (formatSheetNameInRange sheetName @ ''!A1:Z1'') w
    = (Inr (case rows of None \<Rightarrow> [] | Some v \<Rightarrow> v), w\<lparr>w_calls := w_calls w @ [c]\<rparr>)"
    using assms by (simp add: GoogleSheetsService_getRangeValue_def io_simps)
  have nonempty: "(vs = [] \<or> filter (\<lambda>v. v \<noteq> JStr []) vs = []) = (\<not> (\<exists>v \<in> set vs. v \<noteq> JStr []))" for vs
    by (auto simp: filter_empty_conv)
  show ?thesis
    by (auto simp: GoogleSheetsDiscoverer_checkEmpty_def bind_io_run run scanHeader_spec nonempty
        Let_def idColumns_def filter_empty_conv split: option.splits list.splits)
qed

theorem header_check_witness:
  "fst (GoogleSheetsDiscoverer_checkEmpty
     (example_services\<lparr>tp_rangeValue := (\<lambda>_. Inr (Some [[JStr ''a'', JStr IdColumnName]]))\<rparr>)
     ''S'' example_config empty_world) = Inr ()"
  using header_check [of "example_services\<lparr>tp_rangeValue := (\<lambda>_. Inr (Some [[JStr ''a'',
      JStr IdColumnName]]))\<rparr>" empty_world _ "Some [[JStr ''a'', JStr IdColumnName]]" example_config "''S''"]
  by (simp add: idColumns_def IdColumnName_def)

end
