(* ===== verification/SourceService.thy ===== *)
theory SourceService
  imports ConnectionService Discoverer
begin

text \<open>
  The configurator's data provider and data source services and the deletion workflow of a data
  source (\<open>apps/configurator/src/modules/{data-provider,data-source}\<close>,
  \<open>apps/configurator/src/workflows/dataSource.workflows.ts\<close>).
\<close>

section \<open>External ids\<close>

definition getOrGenerateProviderExternalId ::
  "ProviderType \<Rightarrow> DataSourceConfig \<Rightarrow> js_error + string option" where
  "getOrGenerateProviderExternalId ty config = (case ty of
     MICROSOFT_EXCEL \<Rightarrow>
       if \<not> truthy_str (cfg_driveId config) then Inr (cfg_workbookId config)
       else Inr (Some (show_opt (cfg_driveId config) @ ''-'' @ show_opt (cfg_workbookId config)))
   | GOOGLE_SHEETS \<Rightarrow> Inr (cfg_spreadsheetId config)
   | AIR_TABLE \<Rightarrow> Inl (PlainError (''Unknown provider type '' @ showProviderType ty)))"

text \<open>The external id and the external local id.\<close>

definition getOrGenerateDataSourceExternalId ::
  "ProviderType \<Rightarrow> DataSourceConfig \<Rightarrow> js_error + string \<times> string" where
  "getOrGenerateDataSourceExternalId ty config = (case ty of
     MICROSOFT_EXCEL \<Rightarrow>
       if \<not> truthy_str (cfg_driveId config)
       then Inr (show_opt (cfg_workbookId config), show_opt (cfg_worksheetId config))
       else Inr (show_opt (cfg_driveId config) @ ''-'' @ show_opt (cfg_workbookId config),
         show_opt (cfg_worksheetId config))
   | GOOGLE_SHEETS \<Rightarrow> Inr (show_opt (cfg_spreadsheetId config), show_opt (cfg_sheetId config))
   | AIR_TABLE \<Rightarrow> Inl (PlainError (''Unknown provider type '' @ showProviderType ty)))"

section \<open>Data provider service\<close>

record CreateDataProviderDto =
  cpd_type :: ProviderType
  cpd_config :: DataSourceConfig
  cpd_metadata :: "Metadata option"

definition DataProviderService_getById :: "mongo \<Rightarrow> oid \<Rightarrow> DataProvider act" where
  "DataProviderService_getById M i =
    bind_io (DataProviderRepository_getById M i no_options) (\<lambda>r. case r of
      None \<Rightarrow> throw_io (ApiError NO_DATA_EXISTS (''DataProvider with id '' @ i @ '' not found''))
    | Some p \<Rightarrow> return_io p)"

definition DataProviderService_getByExternalId ::
  "mongo \<Rightarrow> string option \<Rightarrow> DataProvider option act" where
  "DataProviderService_getByExternalId M externalId =
    DataProviderRepository_getByExternalId M externalId no_options"

definition DataProviderService_create ::
  "mongo \<Rightarrow> CreateDataProviderDto \<Rightarrow> DataProvider CreationResult act" where
  "DataProviderService_create M dto =
    bind_io (lift_io (getOrGenerateProviderExternalId (cpd_type dto) (cpd_config dto)))
      (\<lambda>externalId.
    bind_io (DataProviderRepository_getByExternalId M externalId no_options) (\<lambda>existing.
    case existing of
      Some p \<Rightarrow> return_io \<lparr>cr_data = p, cr_isAlreadyCreated = True\<rparr>
    | None \<Rightarrow> bind_io (DataProviderRepository_create M \<lparr>cdp_type = cpd_type dto,
          cdp_externalId = externalId, cdp_config = cpd_config dto,
          cdp_metadata = cpd_metadata dto\<rparr> no_options)
        (\<lambda>p. return_io \<lparr>cr_data = p, cr_isAlreadyCreated = False\<rparr>)))"

definition DataProviderService_update ::
  "mongo \<Rightarrow> oid \<Rightarrow> string option option \<Rightarrow> Metadata option \<Rightarrow> DataProvider option act" where
  "DataProviderService_update M i auth metadata =
    catch_io (DataProviderRepository_update M
        \<lparr>udp_id = i, udp_auth = auth, udp_metadata = metadata\<rparr> (no_options\<lparr>qo_new := True\<rparr>))
      (\<lambda>error. throw_io (ApiError INVALID_DATA
        (''Failed to update provider: '' @ error_message error)))"

definition DataProviderService_discover :: "mongo \<Rightarrow> third_party \<Rightarrow> oid \<Rightarrow> string list act" where
  "DataProviderService_discover M T providerId = discoverProvider M T providerId"

definition DataProviderService_discoverByConfig ::
  "third_party \<Rightarrow> ProviderType \<Rightarrow> DataSourceConfig \<Rightarrow> string list act" where
  "DataProviderService_discoverByConfig T ty config = discoverProviderByConfig T ty config"

section \<open>Data source service\<close>

record CreateDataSourceDto =
  cdd_type :: ProviderType
  cdd_config :: DataSourceConfig
  cdd_metadata :: "Metadata option"

record DeleteDataSourceResult =
  dd_dataSource :: DataSource
  dd_syncConnection :: "SyncConnection option"
  dd_isProviderDeleted :: bool

definition DataSourceService_getById :: "mongo \<Rightarrow> oid \<Rightarrow> DataSource act" where
  "DataSourceService_getById M i =
    bind_io (DataSourceRepository_getById M i no_options) (\<lambda>r. case r of
      None \<Rightarrow> throw_io (ApiError NO_DATA_EXISTS ''Data source not found'')
    | Some d \<Rightarrow> return_io d)"

text \<open>The provider of the external id, created when there is none.\<close>

definition providerForSource ::
  "mongo \<Rightarrow> CreateDataSourceDto \<Rightarrow> string option \<Rightarrow> DataProvider act" where
  "providerForSource M dto dataProviderExternalId =
    bind_io (DataProviderRepository_getByExternalId M dataProviderExternalId no_options)
      (\<lambda>dataProvider. case dataProvider of
        Some p \<Rightarrow> return_io p
      | None \<Rightarrow> bind_io (DataProviderService_create M \<lparr>cpd_type = cdd_type dto,
            cpd_config = cdd_config dto, cpd_metadata = cdd_metadata dto\<rparr>)
          (\<lambda>r. return_io (cr_data r)))"

definition DataSourceService_create ::
  "mongo \<Rightarrow> third_party \<Rightarrow> CreateDataSourceDto \<Rightarrow> DataSource CreationResult act" where
  "DataSourceService_create M T dto =
    bind_io (lift_io (getOrGenerateDataSourceExternalId (cdd_type dto) (cdd_config dto)))
      (\<lambda>(externalId, externalLocalId).
    bind_io (lift_io (getOrGenerateProviderExternalId (cdd_type dto) (cdd_config dto)))
      (\<lambda>dataProviderExternalId.
    bind_io (providerForSource M dto dataProviderExternalId) (\<lambda>dataProvider.
    bind_io (discoverConfig T (dp_type dataProvider) (cdd_config dto)) (\<lambda>fullConfig.
    bind_io (checkDataSource T (dp_type dataProvider) fullConfig) (\<lambda>_.
    bind_io (DataSourceRepository_create M \<lparr>cds_providerType = cdd_type dto,
        cds_providerId = dp_id dataProvider, cds_externalId = externalId,
        cds_externalLocalId = externalLocalId, cds_config = fullConfig, cds_name = None,
        cds_metadata = cdd_metadata dto\<rparr> no_options) (\<lambda>dataSource.
    return_io \<lparr>cr_data = dataSource, cr_isAlreadyCreated = False\<rparr>))))))"

definition DataSourceService_update ::
  "mongo \<Rightarrow> oid \<Rightarrow> Metadata option \<Rightarrow> DataSource option act" where
  "DataSourceService_update M i metadata =
    catch_io (DataSourceRepository_update M \<lparr>uds_id = i, uds_metadata = metadata\<rparr>
        (no_options\<lparr>qo_new := True\<rparr>))
      (\<lambda>error. throw_io (ApiError INVALID_DATA
        (''Failed to update source: '' @ error_message error)))"

definition DataSourceService_updateSyncConnection ::
  "mongo \<Rightarrow> oid \<Rightarrow> SyncConnectionStatus option \<Rightarrow> unit act" where
  "DataSourceService_updateSyncConnection M i status =
    bind_io (DataSourceService_getById M i) (\<lambda>dataSource.
      updateStateWithDataSourceId M (ds_id dataSource) status)"

text \<open>\<open>trigger.id\<close> of a missing trigger is a \<open>TypeError\<close>.\<close>

definition triggerSyncConnection :: "mongo \<Rightarrow> oid \<Rightarrow> unit act" where
  "triggerSyncConnection M i =
    bind_io (DataSourceService_getById M i) (\<lambda>dataSource.
    bind_io (getTriggerOfDataSource M dataSource) (\<lambda>trigger. case trigger of
      None \<Rightarrow> throw_io TypeError
    | Some t \<Rightarrow> manualTrigger M (tr_id t)))"

definition deleteTransaction :: "mongo \<Rightarrow> oid \<Rightarrow> DeleteDataSourceResult DeleteResult act" where
  "deleteTransaction M i =
    bind_io (DataSourceRepository_getById M i sessionOnly) (\<lambda>existingDs. case existingDs of
      None \<Rightarrow> return_io \<lparr>dr_data = None, dr_isAlreadyDeleted = True\<rparr>
    | Some ds \<Rightarrow>
        bind_io (DataSourceRepository_delete M i (sessionOnly\<lparr>qo_old := True\<rparr>)) (\<lambda>data.
        bind_io (DataSourceRepository_getByProviderId M (ds_provider_id ds) sessionOnly)
          (\<lambda>dataSourcesInProvider.
        let isProviderDeleted = (dataSourcesInProvider = [])
        in bind_io (if isProviderDeleted
             then DataProviderRepository_delete M (ds_provider_id ds) sessionOnly
             else return_io ()) (\<lambda>_.
           case data of
             None \<Rightarrow> throw_io TypeError
           | Some d \<Rightarrow> return_io \<lparr>dr_data = Some \<lparr>dd_dataSource = del_dataSource d,
               dd_syncConnection = del_syncConnection d, dd_isProviderDeleted = isProviderDeleted\<rparr>,
               dr_isAlreadyDeleted = False\<rparr>))))"

definition DataSourceService_delete :: "mongo \<Rightarrow> oid \<Rightarrow> DeleteDataSourceResult DeleteResult act" where
  "DataSourceService_delete M i = runWithTransaction M (deleteTransaction M i)"

definition quoted :: "string \<Rightarrow> string" where
  "quoted s = [CHR 39] @ s @ [CHR 39]"

definition dataSourceWorkflowsQuery :: "oid \<Rightarrow> string" where
  "dataSourceWorkflowsQuery i = ''DataSourceId = '' @ quoted i @
     '' AND (ExecutionStatus = '' @ quoted ''Running'' @ '' OR ExecutionStatus = '' @
     quoted ''TimedOut'' @ '' OR ExecutionStatus = '' @ quoted ''ContinuedAsNew'' @
     '') AND (WorkflowType != '' @ quoted ''deleteDataSourceWf'' @ '')''"

definition terminateDataSourceWorkflows :: "temporal \<Rightarrow> oid \<Rightarrow> unit act" where
  "terminateDataSourceWorkflows S i = terminateWorkflowsByQuery S (dataSourceWorkflowsQuery i)"

definition checkDataSourceInProvider ::
  "third_party \<Rightarrow> ProviderType \<Rightarrow> DataSourceConfig \<Rightarrow> string \<Rightarrow> string act" where
  "checkDataSourceInProvider T providerType providerConfig externalLocalId =
    bind_io (DataProviderService_discoverByConfig T providerType providerConfig)
      (\<lambda>discoveredDataSources.
      if externalLocalId \<in> set discoveredDataSources then return_io externalLocalId
      else throw_io (ExternalError DATA_SOURCE_NOT_FOUND
        ''Data source doesn't exist in provider'' None))"

section \<open>The deletion workflow\<close>

definition deleteDataSourceWf ::
  "mongo \<Rightarrow> temporal \<Rightarrow> (js_error \<Rightarrow> js_error) \<Rightarrow> oid \<Rightarrow> DeleteDataSourceResult DeleteResult act"
  where
  "deleteDataSourceWf M S F i =
    bind_io (activity F (DataSourceService_delete M i)) (\<lambda>result.
    bind_io (activity F (terminateDataSourceWorkflows S i)) (\<lambda>_.
    bind_io (if dr_isAlreadyDeleted result then return_io ()
      else
        bind_io (case Option.bind (dr_data result) dd_syncConnection of
            None \<Rightarrow> activity F (emitEvent (DataSourceDeleted i None))
          | Some c \<Rightarrow> bind_io (activity F (emitEvent (ConnectionDeleted (Some c)))) (\<lambda>_.
              activity F (emitEvent (DataSourceDeleted i (Some (sc_id c)))))) (\<lambda>_.
        case dr_data result of
          Some d \<Rightarrow> if dd_isProviderDeleted d
            then activity F (emitEvent (DataProviderDeleted (ds_provider_id (dd_dataSource d))
              (ds_provider_type (dd_dataSource d))))
            else return_io ()
        | None \<Rightarrow> return_io ())) (\<lambda>_.
    return_io result)))"

section \<open>The abstract deletion\<close>

definition mark_provider :: "oid \<Rightarrow> db \<Rightarrow> db" where
  "mark_provider p d = d\<lparr>
     db_providers := map (\<lambda>x. if dp_id x = p then x\<lparr>dp_isDeleted := True\<rparr> else x) (db_providers d),
     db_sources := map (\<lambda>s. if ds_provider_id s = p then s\<lparr>ds_isDeleted := True\<rparr> else s)
       (db_sources d)\<rparr>"

text \<open>No live data source of the provider but the given one.\<close>

definition last_of_provider :: "oid \<Rightarrow> oid \<Rightarrow> db \<Rightarrow> bool" where
  "last_of_provider i p d \<longleftrightarrow>
     (\<forall>s \<in> set (db_sources d). ds_provider_id s = p \<and> \<not> ds_isDeleted s \<longrightarrow> ds_id s = i)"

definition delete_source_spec :: "oid \<Rightarrow> oid \<Rightarrow> db \<Rightarrow> db" where
  "delete_source_spec i p d = (if last_of_provider i p d then mark_provider p (cascade_source i d)
     else cascade_source i d)"

lemma mark_provider_key [simp]:
  "dp_id \<circ> (\<lambda>x. if P x then x\<lparr>dp_isDeleted := True\<rparr> else x) = dp_id"
  by (auto simp: fun_eq_iff)

lemma db_wf_mark_provider: "db_wf d \<Longrightarrow> db_wf (mark_provider p d)"
  by (simp add: db_wf_def keys_distinct_def embedded_present_def one_live_connection_def
      mark_provider_def)

lemma db_wf_delete_source: "db_wf d \<Longrightarrow> db_wf (delete_source_spec i p d)"
  by (simp add: delete_source_spec_def db_wf_mark_provider db_wf_cascade_source)

lemma cascade_source_docs [simp]:
  "db_providers (cascade_source i d) = db_providers d"
  "db_sources (cascade_source i d) =
    map (\<lambda>s. if ds_id s = i then s\<lparr>ds_isDeleted := True\<rparr> else s) (db_sources d)"
  by (simp_all add: cascade_source_def mark_source_def cascade_connection_def split: option.splits)

lemma sources_left:
  "(filter (\<lambda>s. ds_provider_id s = p \<and> \<not> ds_isDeleted s) (db_sources (cascade_source i d)) = [])
    = last_of_provider i p d"
  by (auto simp: last_of_provider_def filter_empty_conv)

section \<open>Failing session functions\<close>

definition fails :: "'a act \<Rightarrow> db \<Rightarrow> js_error \<Rightarrow> bool" where
  "fails fn d e \<longleftrightarrow> (\<forall>w. in_tx w \<longrightarrow> readDb True w = d \<longrightarrow>
     (\<exists>w'. fn w = (Inl e, w') \<and> w_oids w' = w_oids w))"

lemma fails_bind: "fails m d e \<Longrightarrow> fails (bind_io m f) d e"
  unfolding fails_def by (fastforce simp: bind_io_run)

lemma fails_bind2: "runs m d x d1 \<Longrightarrow> fails (f x) d1 e \<Longrightarrow> fails (bind_io m f) d e"
  unfolding fails_def runs_def by (fastforce simp: bind_io_run)

lemma fails_throw: "fails (throw_io e) d e"
  by (simp add: fails_def)

lemma fails_Pair [simp]: "fails (Pair (Inl e)) d e"
  by (simp add: fails_def)

context mongo_driver begin

lemma transaction_fails:
  assumes "session_only fn" and "fails fn (w_db w) e"
  shows "runWithTransaction M fn w = (Inl e, w)"
proof -
  let ?w0 = "w\<lparr>w_tx := Some (w_db w, id)\<rparr>"
  have "in_tx ?w0" "readDb True ?w0 = w_db w" by (simp_all add: in_tx_def readDb_def)
  then obtain w' where "fn ?w0 = (Inl e, w')" "w_oids w' = w_oids w"
    using assms(2)[unfolded fails_def, rule_format, of ?w0] by auto
  then show ?thesis by (auto simp: transaction_atomic[OF assms(1)] intro!: world.equality)
qed

section \<open>The deletion transaction\<close>

lemma runs_provider_delete:
  assumes "keys_distinct d" and "live_provider p d = Some x" and "qo_session opts"
  shows "runs (DataProviderRepository_delete M p opts) d () (mark_provider p d)"
proof -
  have x: "dp_id x = p" using assms(2) by (auto simp: live_provider_def dest: find_SomeD)
  have find: "runs (findLiveProvider M p msg) d x d" for msg
    using assms(2) unfolding findLiveProvider_def live_provider_def
    by (intro runs_bind[OF runs_gets]) (simp add: runs_return)
  let ?d1 = "d\<lparr>db_providers := update_first (\<lambda>y. dp_id y = dp_id x)
    (\<lambda>y. y\<lparr>dp_isDeleted := True\<rparr>) (db_providers d)\<rparr>"
  have upd: "runs (updateProviderDoc M (dp_id x) (\<lambda>y. y\<lparr>dp_isDeleted := True\<rparr>)) d () ?d1"
    unfolding updateProviderDoc_def model_ops by (rule runs_write)
  have fin: "mark_provider p d = ?d1\<lparr>db_sources := update_all (\<lambda>s. ds_provider_id s = p)
      (\<lambda>s. s\<lparr>ds_isDeleted := True\<rparr>) (db_sources ?d1)\<rparr>"
    using assms(1) x
    by (simp add: mark_provider_def update_first_unique keys_distinct_def update_all_def)
  have last: "runs (writeDb True (\<lambda>d. d\<lparr>db_sources := update_all (\<lambda>s. ds_provider_id s = p)
      (\<lambda>s. s\<lparr>ds_isDeleted := True\<rparr>) (db_sources d)\<rparr>)) ?d1 () (mark_provider p d)"
    unfolding fin by (rule runs_write)
  show ?thesis
    unfolding DataProviderRepository_delete_def inSession_def if_P[OF assms(3)] model_ops
    by (rule runs_bind[OF find], rule runs_bind[OF upd], rule last)
qed

lemma fails_provider_delete:
  assumes "live_provider p d = None" and "qo_session opts"
  shows "fails (DataProviderRepository_delete M p opts) d (PlainError ''Data Provider not found'')"
  unfolding DataProviderRepository_delete_def inSession_def if_P[OF assms(2)] findLiveProvider_def
  by (rule fails_bind, rule fails_bind2[OF runs_gets])
     (use assms(1) in \<open>simp add: live_provider_def fails_throw\<close>)

lemma session_only_deleteTransaction: "session_only (deleteTransaction M i)"
  unfolding deleteTransaction_def DataSourceRepository_getById_def
    DataSourceRepository_getByProviderId_def
  by (intro session_intros) simp_all

lemma runs_reads:
  "runs (DataSourceRepository_getById M i sessionOnly) d (live_source i d) d"
  "runs (DataSourceRepository_getByProviderId M p sessionOnly) d
     (filter (\<lambda>s. ds_provider_id s = p \<and> \<not> ds_isDeleted s) (db_sources d)) d"
  by (simp_all add: DataSourceRepository_getById_def DataSourceRepository_getByProviderId_def
      runs_def live_source_def)

text \<open>The four ways a deletion can go.\<close>

lemma deletion_missing:
  assumes "live_source i (w_db w) = None"
  shows "DataSourceService_delete M i w = (Inr \<lparr>dr_data = None, dr_isAlreadyDeleted = True\<rparr>, w)"
proof -
  have "runs (deleteTransaction M i) (w_db w) \<lparr>dr_data = None, dr_isAlreadyDeleted = True\<rparr> (w_db w)"
    unfolding deleteTransaction_def
    by (rule runs_bind[OF runs_reads(1)]) (simp add: assms runs_return)
  from transaction_runs[OF session_only_deleteTransaction this]
  show ?thesis by (simp add: DataSourceService_delete_def)
qed

lemma runs_source_part:
  assumes "db_wf d" and "live_source i d = Some s"
  shows "runs (DataSourceRepository_delete M i (sessionOnly\<lparr>qo_old := True\<rparr>)) d
    (Some \<lparr>del_dataSource = s, del_syncConnection = live_connection i d\<rparr>) (cascade_source i d)"
  using runs_source_delete[OF assms(1), of i s "sessionOnly\<lparr>qo_old := True\<rparr>"] assms(2)
  by (simp add: live_source_def)

lemma deletion_fails:
  assumes "db_wf (w_db w)" and "live_source i (w_db w) = Some s"
    and "last_of_provider i (ds_provider_id s) (w_db w)"
    and "live_provider (ds_provider_id s) (w_db w) = None"
  shows "DataSourceService_delete M i w = (Inl (PlainError ''Data Provider not found''), w)"
proof -
  have none: "live_provider (ds_provider_id s) (cascade_source i (w_db w)) = None"
    using assms(4) by (simp add: live_provider_def)
  have "fails (deleteTransaction M i) (w_db w) (PlainError ''Data Provider not found'')"
    unfolding deleteTransaction_def
    apply (rule fails_bind2[OF runs_reads(1)])
    apply (simp only: assms(2) option.case)
    apply (rule fails_bind2[OF runs_source_part[OF assms(1,2)]])
    apply (rule fails_bind2[OF runs_reads(2)])
    apply (simp only: sources_left assms(3) Let_def if_True)
    by (rule fails_bind[OF fails_provider_delete[OF none]]) simp
  from transaction_fails[OF session_only_deleteTransaction this]
  show ?thesis by (simp add: DataSourceService_delete_def)
qed

lemma deletion_run:
  assumes "db_wf (w_db w)" and "live_source i (w_db w) = Some s"
    and "last_of_provider i (ds_provider_id s) (w_db w) \<Longrightarrow>
      live_provider (ds_provider_id s) (w_db w) \<noteq> None"
  shows "DataSourceService_delete M i w =
    (Inr \<lparr>dr_data = Some \<lparr>dd_dataSource = s, dd_syncConnection = live_connection i (w_db w),
        dd_isProviderDeleted = last_of_provider i (ds_provider_id s) (w_db w)\<rparr>,
       dr_isAlreadyDeleted = False\<rparr>,
     w\<lparr>w_db := delete_source_spec i (ds_provider_id s) (w_db w)\<rparr>)"
proof -
  let ?p = "ds_provider_id s"
  have kd: "keys_distinct (cascade_source i (w_db w))"
    using db_wf_cascade_source[OF assms(1)] by (simp add: db_wf_def)
  have prov: "runs (if last_of_provider i ?p (w_db w) then DataProviderRepository_delete M ?p sessionOnly
      else return_io ()) (cascade_source i (w_db w)) () (delete_source_spec i ?p (w_db w))"
  proof (cases "last_of_provider i ?p (w_db w)")
    case True
    then obtain x where "live_provider ?p (cascade_source i (w_db w)) = Some x"
      using assms(3) by (auto simp: live_provider_def)
    from runs_provider_delete[OF kd this, of sessionOnly] True show ?thesis
      by (simp add: delete_source_spec_def)
  qed (simp add: delete_source_spec_def runs_return)
  have "runs (deleteTransaction M i) (w_db w)
      \<lparr>dr_data = Some \<lparr>dd_dataSource = s, dd_syncConnection = live_connection i (w_db w),
        dd_isProviderDeleted = last_of_provider i ?p (w_db w)\<rparr>, dr_isAlreadyDeleted = False\<rparr>
      (delete_source_spec i ?p (w_db w))"
    unfolding deleteTransaction_def
    apply (rule runs_bind[OF runs_reads(1)])
    apply (simp only: assms(2) option.case)
    apply (rule runs_bind[OF runs_source_part[OF assms(1,2)]])
    apply (rule runs_bind[OF runs_reads(2)])
    apply (simp only: sources_left Let_def)
    by (rule runs_bind[OF prov]) (simp add: runs_return)
  from transaction_runs[OF session_only_deleteTransaction this]
  show ?thesis by (simp add: DataSourceService_delete_def)
qed

end

section \<open>Properties of deletion\<close>


lemma example_last: "last_of_provider ''d1'' ''p1'' example_db"
  "live_provider ''p1'' example_db = Some example_provider"
  "ds_provider_id example_source = ''p1''" "ds_provider_type example_source = GOOGLE_SHEETS"
  by (simp_all add: last_of_provider_def live_provider_def example_defs)


text \<open>The events of a deletion, in order.\<close>

definition deletion_events :: "oid \<Rightarrow> DataSource \<Rightarrow> SyncConnection option \<Rightarrow> bool \<Rightarrow> event list" where
  "deletion_events i s c providerDeleted =
    (case c of None \<Rightarrow> [DataSourceDeleted i None]
     | Some c \<Rightarrow> [ConnectionDeleted (Some c), DataSourceDeleted i (Some (sc_id c))]) @
    (if providerDeleted then [DataProviderDeleted (ds_provider_id s) (ds_provider_type s)] else [])"

lemma keeps_callService: "(\<And>w c. f (w\<lparr>w_calls := c\<rparr>) = f w) \<Longrightarrow> keeps f (callService a c)"
  by (simp add: keeps_def)

lemma keeps_events_terminate:
  assumes "\<And>w c. f (w\<lparr>w_calls := c\<rparr>) = f w"
  shows "keeps f (terminateDataSourceWorkflows S i)"
  unfolding terminateDataSourceWorkflows_def terminateWorkflowsByQuery_def
  by (auto intro!: keeps_bind keeps_for keeps_callService assms split: prod.splits)

lemma terminate_keeps:
  assumes "terminateDataSourceWorkflows S i w = (t, w')"
  shows "w_db w' = w_db w" "w_events w' = w_events w"
  using keepsD[OF keeps_events_terminate[of "\<lambda>w. (w_db w, w_events w)"] assms] by simp_all

text \<open>A deletion that returns sends nothing, and has data exactly when it deleted something.\<close>

lemma deletion_result:
  assumes "mongo_ok M" and "db_wf (w_db w)"
    and "DataSourceService_delete M i w = (Inr result, w1)"
  shows "w_events w1 = w_events w" "dr_isAlreadyDeleted result \<longleftrightarrow> dr_data result = None"
proof -
  note d = mongo_driverI[OF assms(1)]
  have "w_events w1 = w_events w \<and> (dr_isAlreadyDeleted result \<longleftrightarrow> dr_data result = None)"
  proof (cases "live_source i (w_db w)")
    case None
    then show ?thesis using mongo_driver.deletion_missing[OF d None] assms(3) by auto
  next
    case (Some s)
    then show ?thesis using mongo_driver.deletion_fails[OF d assms(2) Some]
        mongo_driver.deletion_run[OF d assms(2) Some] assms(3)
      by (cases "last_of_provider i (ds_provider_id s) (w_db w) \<and>
        live_provider (ds_provider_id s) (w_db w) = None") auto
  qed
  then show "w_events w1 = w_events w" "dr_isAlreadyDeleted result \<longleftrightarrow> dr_data result = None" by auto
qed

text \<open>The workflow after the deletion: it fails when terminating the workflows fails, and announces
  what was deleted otherwise.\<close>

lemma deletion_workflow_run:
  assumes "DataSourceService_delete M i w = (Inr result, w1)"
    and "terminateDataSourceWorkflows S i w1 = (t, w2)"
    and "dr_isAlreadyDeleted result \<longleftrightarrow> dr_data result = None"
  shows "deleteDataSourceWf M S F i w = (case t of
      Inl e \<Rightarrow> (Inl (F e), w2)
    | Inr _ \<Rightarrow> (Inr result, w2\<lparr>w_events := w_events w2 @ (case dr_data result of
        None \<Rightarrow> []
      | Some d \<Rightarrow> deletion_events i (dd_dataSource d) (dd_syncConnection d)
          (dd_isProviderDeleted d))\<rparr>))"
proof -
  have act: "activity F (DataSourceService_delete M i) w = (Inr result, w1)"
    using assms(1) by (rule activity_Inr)
  show ?thesis
  proof (cases t)
    case (Inl e)
    have "activity F (terminateDataSourceWorkflows S i) w1 = (Inl (F e), w2)"
      using assms(2) Inl by (intro activity_Inl) simp
    then show ?thesis using act Inl by (simp add: deleteDataSourceWf_def bind_io_run)
  next
    case (Inr u)
    have em: "activity F (emitEvent e) = emitEvent e" for F e
      by (rule ext) (simp add: activity_def catch_io_run)
    have "activity F (terminateDataSourceWorkflows S i) w1 = (Inr u, w2)"
      using assms(2) Inr by (intro activity_Inr) simp
    then show ?thesis using act Inr assms(3)
      by (cases "dr_data result")
         (auto simp: deleteDataSourceWf_def bind_io_run em deletion_events_def split: option.splits)
  qed
qed

text \<open>
  What the deletion workflow announces. After a deletion that takes effect, and once the
  running workflows of the data source have been terminated, the workflow emits the deletion of
  the connection if there was one, then that of the data source with the connection's id, then
  that of the provider exactly when it was deleted as well. If terminating the workflows fails,
  the workflow fails and none of these events is sent, although the deletion stays committed. A
  data source that is already deleted is announced no second time.
\<close>

theorem source_deletion_events:
  assumes "mongo_ok M" and "db_wf (w_db w)"
    and "DataSourceService_delete M i w = (Inr result, w1)"
    and "terminateDataSourceWorkflows S i w1 = (t, w2)"
  shows "w_db w2 = w_db w1 \<and> w_events w2 = w_events w \<and>
    deleteDataSourceWf M S F i w = (case t of
      Inl e \<Rightarrow> (Inl (F e), w2)
    | Inr _ \<Rightarrow> (Inr result, w2\<lparr>w_events := w_events w @ (case dr_data result of
        None \<Rightarrow> []
      | Some d \<Rightarrow> deletion_events i (dd_dataSource d) (dd_syncConnection d)
          (dd_isProviderDeleted d))\<rparr>))"
  using deletion_result[OF assms(1-3)] terminate_keeps[OF assms(4)]
    deletion_workflow_run[OF assms(3,4), of F]
  by (simp split: sum.split)

definition example_temporal :: temporal where
  "example_temporal = \<lparr>tm_start = (\<lambda>_. Inr ()), tm_result = (\<lambda>_. Inr JNull),
     tm_list = (\<lambda>_. Inr []), tm_terminate = (\<lambda>_. Inr ())\<rparr>"

theorem source_deletion_events_witness:
  "w_events (snd (deleteDataSourceWf listMongo example_temporal id ''d1'' example_world)) =
    [ConnectionDeleted (Some example_connection), DataSourceDeleted ''d1'' (Some ''c1''),
     DataProviderDeleted ''p1'' GOOGLE_SHEETS]"
proof -
  let ?w1 = "example_world\<lparr>w_db := delete_source_spec ''d1'' ''p1'' example_db\<rparr>"
  have run: "DataSourceService_delete listMongo ''d1'' example_world =
    (Inr \<lparr>dr_data = Some \<lparr>dd_dataSource = example_source,
        dd_syncConnection = Some example_connection, dd_isProviderDeleted = True\<rparr>,
       dr_isAlreadyDeleted = False\<rparr>, ?w1)"
    using lm.deletion_run[of example_world "''d1''" example_source] example_db_wf example_last
    by simp
  have "terminateDataSourceWorkflows example_temporal ''d1'' ?w1 =
    (Inr (), ?w1\<lparr>w_calls := [ListWorkflows (dataSourceWorkflowsQuery ''d1'')]\<rparr>)"
    by (simp add: terminateDataSourceWorkflows_def terminateWorkflowsByQuery_def bind_io_run
        example_temporal_def)
  from source_deletion_events [OF listMongo_ok _ run this, of id] show ?thesis
    using example_db_wf example_last by (simp add: deletion_events_def example_connection_def)
qed

section \<open>Creation of data sources\<close>

text \<open>What a check of the remote document cannot change.\<close>

definition store_obs :: "world \<Rightarrow> db \<times> (db \<times> (db \<Rightarrow> db)) option \<times> nat \<times> event list" where
  "store_obs w = (w_db w, w_tx w, w_oids w, w_events w)"

lemma keeps_store_call [keeps_intros]: "keeps store_obs (callService a c)"
  by (simp add: keeps_callService store_obs_def)

lemma keeps_lift [keeps_intros]: "keeps f (lift_io r)"
  by (simp add: keeps_def)

lemma keeps_unknown [keeps_intros]: "keeps f unknownProvider"
  by (simp add: unknownProvider_def keeps_intros)

lemma keeps_handled_errors [keeps_intros]: "keeps f m \<Longrightarrow> keeps f (handled h m)"
  unfolding handled_def by (intro keeps_intros)

lemma keeps_remote [keeps_intros]:
  "keeps store_obs (GoogleService_validateToken T r)" "keeps store_obs (GoogleService_getUserInfo T r)"
  "keeps store_obs (GoogleSheetsService_getSpreadSheets T r s fl)"
  "keeps store_obs (GoogleSheetsService_getRangeValue T s a1)"
  "keeps store_obs (MicrosoftService_getAccessToken T r)"
  "keeps store_obs (MicrosoftGraphService_createWorkbookSession T wb p)"
  "keeps store_obs (MicrosoftGraphService_closeWorkbookSession T wb ss)"
  "keeps store_obs (MicrosoftGraphService_listWorksheets T wb)"
  "keeps store_obs (MicrosoftGraphService_getWorkbookFileInfo T wb sel)"
  "keeps store_obs (MicrosoftGraphService_getWorksheetUsedRangeRow T wb wid n sel)"
  unfolding GoogleService_validateToken_def GoogleService_getUserInfo_def
    GoogleSheetsService_getSpreadSheets_def GoogleSheetsService_getRangeValue_def
    MicrosoftService_getAccessToken_def MicrosoftGraphService_createWorkbookSession_def
    MicrosoftGraphService_closeWorkbookSession_def MicrosoftGraphService_listWorksheets_def
    MicrosoftGraphService_getWorkbookFileInfo_def MicrosoftGraphService_getWorksheetUsedRangeRow_def
  by (intro keeps_intros)+

lemma keeps_google_check [keeps_intros]: "keeps store_obs (GoogleSheetsDiscoverer_checkDataSource T c)"
proof -
  have "keeps store_obs (GoogleSheetsDiscoverer_checkEmpty T n c)" for n
    unfolding GoogleSheetsDiscoverer_checkEmpty_def
    by (intro keeps_bind keeps_remote) (auto split: list.splits intro!: keeps_intros)
  moreover have "keeps store_obs (GoogleSheetsDiscoverer_discoverProvider T c)"
    unfolding GoogleSheetsDiscoverer_discoverProvider_def by (intro keeps_intros)
  ultimately show ?thesis
    unfolding GoogleSheetsDiscoverer_checkDataSource_def by (intro keeps_intros)
qed

lemma keeps_excel_check [keeps_intros]: "keeps store_obs (MicrosoftExcelDiscoverer_checkDataSource T c)"
proof -
  have "keeps store_obs (MicrosoftExcelDiscoverer_checkEmpty T c)"
    unfolding MicrosoftExcelDiscoverer_checkEmpty_def
    by (intro keeps_bind keeps_catch keeps_remote keeps_lift)
       (auto split: list.splits js_error.splits intro!: keeps_intros)
  then show ?thesis
    unfolding MicrosoftExcelDiscoverer_checkDataSource_def by (intro keeps_intros)
qed

lemma keeps_discovery [keeps_intros]:
  "keeps store_obs (checkDataSource T p c)" "keeps store_obs (discoverConfig T p c)"
  unfolding checkDataSource_def discoverConfig_def GoogleSheetsDiscoverer_discoverConfig_def
    MicrosoftExcelDiscoverer_discoverConfig_def
  by (cases p; simp; intro keeps_intros)+

text \<open>The provider that a new data source joins, and the store once it is there.\<close>

definition newProvider :: "mongo \<Rightarrow> CreateDataSourceDto \<Rightarrow> nat \<Rightarrow> string option \<Rightarrow> DataProvider" where
  "newProvider M dto n externalId = \<lparr>dp_id = mg_oid M n, dp_externalId = externalId,
     dp_type = cdd_type dto, dp_config = cdd_config dto, dp_state = None,
     dp_metadata = cdd_metadata dto, dp_isDeleted = False\<rparr>"

definition live_external :: "string option \<Rightarrow> db \<Rightarrow> DataProvider option" where
  "live_external e d = List.find (\<lambda>p. dp_externalId p = e \<and> \<not> dp_isDeleted p) (db_providers d)"

context mongo_driver begin

lemma providerForSource_run:
  assumes "getOrGenerateProviderExternalId (cdd_type dto) (cdd_config dto) = Inr e"
  shows "providerForSource M dto e w = (case live_external e (w_db w) of
      Some p \<Rightarrow> (Inr p, w)
    | None \<Rightarrow> (Inr (newProvider M dto (w_oids w) e), w\<lparr>w_oids := Suc (w_oids w),
        w_db := (w_db w)\<lparr>db_providers := db_providers (w_db w) @
          [newProvider M dto (w_oids w) e]\<rparr>\<rparr>))"
  using assms
  by (simp add: providerForSource_def bind_io_run provider_getByExternalId live_external_def
      DataProviderService_create_def DataProviderRepository_create_def newProvider_def Let_def
      split: option.split)

end

lemma bind_lift_Inr: "bind_io (lift_io (Inr x)) f = f x"
  by (rule ext) (simp add: bind_io_run)

lemma bind_Inr_run: "m w = (Inr x, w') \<Longrightarrow> bind_io m f w = f x w'"
  by (simp add: bind_io_run)

lemma store_obs_eq:
  "store_obs w' = store_obs w \<Longrightarrow> w_db w' = w_db w \<and> w_oids w' = w_oids w \<and> w_events w' = w_events w"
  by (simp add: store_obs_def)

context mongo_driver begin

lemma source_repository_create_run:
  "\<exists>ds. DataSourceRepository_create M data no_options w = (Inr ds, w\<lparr>w_oids := Suc (w_oids w),
      w_db := (w_db w)\<lparr>db_sources := db_sources (w_db w) @ [ds]\<rparr>\<rparr>)
    \<and> ds_provider_id ds = cds_providerId data \<and> ds_externalId ds = cds_externalId data
    \<and> ds_externalLocalId ds = cds_externalLocalId data \<and> \<not> ds_isDeleted ds
    \<and> ds_statistics ds = defaultDataSourceStatistics \<and> ds_id ds = mg_oid M (w_oids w)"
  by (simp add: DataSourceRepository_create_def bind_io_run Let_def)

end

text \<open>The steps after the provider is found: nothing is stored unless both checks pass.\<close>

lemma source_create_tail:
  assumes "mongo_ok M"
    and "bind_io (discoverConfig T p config) (\<lambda>full. bind_io (checkDataSource T p full) (\<lambda>_.
      bind_io (DataSourceRepository_create M (data full) no_options) (\<lambda>dataSource.
      return_io \<lparr>cr_data = dataSource, cr_isAlreadyCreated = False\<rparr>))) w = (r, w')"
  shows "w_events w' = w_events w \<and> (case r of
      Inl _ \<Rightarrow> w_db w' = w_db w
    | Inr res \<Rightarrow> \<not> cr_isAlreadyCreated res \<and>
        w_db w' = (w_db w)\<lparr>db_sources := db_sources (w_db w) @ [cr_data res]\<rparr> \<and>
        (\<exists>full. ds_provider_id (cr_data res) = cds_providerId (data full) \<and>
           ds_externalId (cr_data res) = cds_externalId (data full) \<and>
           ds_externalLocalId (cr_data res) = cds_externalLocalId (data full)) \<and>
        ds_statistics (cr_data res) = defaultDataSourceStatistics \<and> \<not> ds_isDeleted (cr_data res))"
proof -
  obtain rc w2 where c: "discoverConfig T p config w = (rc, w2)"
    by (cases "discoverConfig T p config w")
  note w2 = store_obs_eq[OF keepsD[OF keeps_discovery(2) c]]
  show ?thesis
  proof (cases rc)
    case (Inl err)
    then show ?thesis using assms(2) c w2 by (auto simp: bind_io_run)
  next
    case (Inr full)
    obtain rk w3 where k: "checkDataSource T p full w2 = (rk, w3)"
      by (cases "checkDataSource T p full w2")
    note w3 = store_obs_eq[OF keepsD[OF keeps_discovery(1) k]]
    show ?thesis
    proof (cases rk)
      case (Inl err)
      then show ?thesis using assms(2) c k Inr w2 w3 by (auto simp: bind_io_run)
    next
      case ok: (Inr u)
      show ?thesis
        using assms(2) c k Inr ok w2 w3
          mongo_driver.source_repository_create_run[OF mongo_driverI[OF assms(1)], of "data full" w3]
        by (auto simp: bind_io_run) blast
    qed
  qed
qed

text \<open>
  What creating a data source does to the store. The provider of the external id is reused
  when a live one exists and created otherwise; then the remote document is discovered and
  checked. If that fails the data source is not created, but a new provider stays. If it succeeds
  one new live data source with the external ids, the provider and empty statistics is appended,
  and the result says that it was not already there, whether or not a live data source with the
  same external ids exists. Nothing else of the store changes and no event is sent.
\<close>

theorem source_create_outcomes:
  assumes "mongo_ok M"
    and "getOrGenerateDataSourceExternalId (cdd_type dto) (cdd_config dto) = Inr (x, l)"
    and "getOrGenerateProviderExternalId (cdd_type dto) (cdd_config dto) = Inr e"
    and "DataSourceService_create M T dto w = (r, w')"
  shows "w_events w' = w_events w \<and>
    (let fresh = newProvider M dto (w_oids w) e; old = live_external e (w_db w);
         d1 = (w_db w)\<lparr>db_providers := db_providers (w_db w) @
           (case old of Some _ \<Rightarrow> [] | None \<Rightarrow> [fresh])\<rparr>
     in case r of
          Inl _ \<Rightarrow> w_db w' = d1
        | Inr res \<Rightarrow> \<not> cr_isAlreadyCreated res
            \<and> w_db w' = d1\<lparr>db_sources := db_sources (w_db w) @ [cr_data res]\<rparr>
            \<and> ds_provider_id (cr_data res) = dp_id (case old of Some p \<Rightarrow> p | None \<Rightarrow> fresh)
            \<and> ds_externalId (cr_data res) = x \<and> ds_externalLocalId (cr_data res) = l
            \<and> ds_statistics (cr_data res) = defaultDataSourceStatistics
            \<and> \<not> ds_isDeleted (cr_data res))"
proof -
  let ?old = "live_external e (w_db w)" let ?fresh = "newProvider M dto (w_oids w) e"
  let ?p = "case ?old of Some p \<Rightarrow> p | None \<Rightarrow> ?fresh"
  let ?data = "\<lambda>full. \<lparr>cds_providerType = cdd_type dto, cds_providerId = dp_id ?p,
    cds_externalId = x, cds_externalLocalId = l, cds_config = full, cds_name = None,
    cds_metadata = cdd_metadata dto\<rparr>"
  obtain w1 where p: "providerForSource M dto e w = (Inr ?p, w1)"
    "w_db w1 = (w_db w)\<lparr>db_providers := db_providers (w_db w) @
      (case ?old of Some _ \<Rightarrow> [] | None \<Rightarrow> [?fresh])\<rparr>" "w_events w1 = w_events w"
    using mongo_driver.providerForSource_run[OF mongo_driverI[OF assms(1)] assms(3), of w]
    by (cases ?old) auto
  have "bind_io (discoverConfig T (dp_type ?p) (cdd_config dto)) (\<lambda>full.
    bind_io (checkDataSource T (dp_type ?p) full) (\<lambda>_.
    bind_io (DataSourceRepository_create M (?data full) no_options) (\<lambda>dataSource.
    return_io \<lparr>cr_data = dataSource, cr_isAlreadyCreated = False\<rparr>))) w1 = (r, w')"
    using assms(4) unfolding DataSourceService_create_def
    by (simp only: bind_lift_Inr assms(2,3) prod.case
        bind_Inr_run[of "providerForSource M dto e" w, OF p(1)])
  from source_create_tail[OF assms(1) this] show ?thesis
    using p(2,3) by (auto simp: Let_def split: sum.splits)
qed

theorem source_create_outcomes_witness:
  "\<exists>w'. DataSourceService_create listMongo
      (example_services\<lparr>tp_googleUser := (\<lambda>_. Inl TypeError)\<rparr>)
      \<lparr>cdd_type = GOOGLE_SHEETS, cdd_config = example_config, cdd_metadata = None\<rparr> empty_world
      = (Inl (handleGoogleAuthError TypeError), w')
    \<and> length (db_providers (w_db w')) = 1 \<and> db_sources (w_db w') = []"
proof -
  let ?T = "example_services\<lparr>tp_googleUser := (\<lambda>_. Inl TypeError)\<rparr>"
  let ?dto = "\<lparr>cdd_type = GOOGLE_SHEETS, cdd_config = example_config, cdd_metadata = None\<rparr>"
  have ids: "getOrGenerateDataSourceExternalId (cdd_type ?dto) (cdd_config ?dto) = Inr (''spr'', ''7'')"
    "getOrGenerateProviderExternalId (cdd_type ?dto) (cdd_config ?dto) = Inr (Some ''spr'')"
    by (simp_all add: getOrGenerateDataSourceExternalId_def getOrGenerateProviderExternalId_def
        example_config_def)
  have empty: "live_external e (w_db empty_world) = None" "w_db empty_world = empty_db" for e
    by (simp_all add: live_external_def example_defs)
  obtain w1 where w1: "providerForSource listMongo ?dto (Some ''spr'') empty_world
      = (Inr (newProvider listMongo ?dto (w_oids empty_world) (Some ''spr'')), w1)"
    using lm.providerForSource_run[OF ids(2), of empty_world] empty by simp
  have "fst (DataSourceService_create listMongo ?T ?dto empty_world)
      = Inl (handleGoogleAuthError TypeError)"
    unfolding DataSourceService_create_def
    by (simp add: bind_io_run ids[simplified] w1 newProvider_def discoverConfig_def
        GoogleSheetsDiscoverer_discoverConfig_def GoogleService_getUserInfo_def handled_def
        catch_io_run)
  then obtain w' where run: "DataSourceService_create listMongo ?T ?dto empty_world
      = (Inl (handleGoogleAuthError TypeError), w')" by (metis prod.collapse)
  from source_create_outcomes [OF listMongo_ok ids run] show ?thesis
    using run empty by (auto simp: Let_def empty_db_def)
qed

end
