(* ===== verification/Controller.thy ===== *)
theory Controller
  imports Cascade ThirdParty Examples
begin

text \<open>
  The controller application (\<open>apps/controller/src/modules\<close>): what happens when a trigger fires.
  \<open>handleWorkflowTriggered\<close> checks the syncflow, its trigger, data source and sync connection in a
  transaction, lets the provider's controller decide whether there is anything to sync, marks the
  syncflow \<open>SCHEDULED\<close> and, after the transaction, emits \<open>syncflow.scheduled\<close>.
\<close>

section \<open>Data source limits\<close>

text \<open>\<open>checkLimitation\<close>: the first limit that is exceeded throws (in the order of the object's
  entries). The service defines it; the call in \<open>handleSyncflowTriggered\<close> is commented out.\<close>

definition checkLimitation :: "DataSource \<Rightarrow> js_error + unit" where
  "checkLimitation dataSource =
    (if st_rowsNumber (ds_statistics dataSource) > lim_hard (dl_rowsNumber (ds_limits dataSource))
     then Inl (UnacceptableActivityError
       (''Ds '' @ ds_id dataSource @ '' exceed limitation of rowsNumber'') (workflowFail False))
     else if st_storageUsage (ds_statistics dataSource)
            > lim_hard (dl_storageUsage (ds_limits dataSource))
     then Inl (UnacceptableActivityError
       (''Ds '' @ ds_id dataSource @ '' exceed limitation of storageUsage'') (workflowFail False))
     else Inr ())"

section \<open>Provider controllers\<close>

definition GoogleSheetsSyncflowController_run :: "Syncflow \<Rightarrow> DataSource \<Rightarrow> unit act" where
  "GoogleSheetsSyncflowController_run syncflow dataSource = return_io ()"

text \<open>The new cursor is stored before the syncflow is scheduled.\<close>

definition MicrosoftExcelSyncflowController_run ::
  "mongo \<Rightarrow> third_party \<Rightarrow> Syncflow \<Rightarrow> DataSource \<Rightarrow> unit act" where
  "MicrosoftExcelSyncflowController_run M T syncflow dataSource =
    bind_io (MicrosoftService_getAccessToken T (cfg_auth (ds_config dataSource)))
      (\<lambda>accessToken.
    bind_io (externalActivityWrapper
        (MicrosoftGraphService_getWorkbookFileInfo T (cfg_workbookId (ds_config dataSource))
          [''cTag'']) (Some ''getWorkbookFileInfo'')) (\<lambda>ctag.
      if Some ctag = ss_ctag (sf_state syncflow) then
        throw_io (UnacceptableActivityError
          (''Syncflow '' @ sf_id syncflow @ '' with ds not changed, skipping'')
          (workflowFail False))
      else bind_io (SyncflowRepository_updateState M (sf_id syncflow)
               (no_update\<lparr>up_ctag := Some (Some ctag)\<rparr>) no_options)
             (\<lambda>_. return_io ())))"

text \<open>\<open>syncflowControllerFactory.get(providerType).run(syncflow, dataSource)\<close>.\<close>

definition runSyncflowController ::
  "mongo \<Rightarrow> third_party \<Rightarrow> Syncflow \<Rightarrow> DataSource \<Rightarrow> unit act" where
  "runSyncflowController M T syncflow dataSource = (case ds_provider_type dataSource of
     GOOGLE_SHEETS \<Rightarrow> GoogleSheetsSyncflowController_run syncflow dataSource
   | MICROSOFT_EXCEL \<Rightarrow> MicrosoftExcelSyncflowController_run M T syncflow dataSource
   | AIR_TABLE \<Rightarrow> throw_io (PlainError ''Unknown provider type''))"

section \<open>Workflow service\<close>

text \<open>\<open>throw new UnacceptableActivityError(message, { shouldWorkflowFail: false })\<close>.\<close>

definition reject :: "string \<Rightarrow> 'a act" where
  "reject msg = throw_io (UnacceptableActivityError msg (workflowFail False))"

definition checkWorkflowAlreadyScheduled ::
  "mongo \<Rightarrow> Trigger \<Rightarrow> QueryOptions \<Rightarrow> unit act" where
  "checkWorkflowAlreadyScheduled M trigger opts =
    bind_io (SyncflowRepository_getById M (tr_workflow_id trigger) opts) (\<lambda>workflow.
      case workflow of
        None \<Rightarrow> reject (''Workflow not found: '' @ tr_workflow_id trigger)
      | Some flow \<Rightarrow>
          if ss_status (sf_state flow) \<noteq> IDLING
          then reject (''Workflow status is already scheduled or running: '' @ sf_id flow)
          else return_io ())"

definition handleSyncflowTriggered ::
  "mongo \<Rightarrow> third_party \<Rightarrow> Trigger \<Rightarrow> Syncflow option act" where
  "handleSyncflowTriggered M T trigger =
    bind_io (SyncflowRepository_getById M (tr_workflow_id trigger) sessionOnly) (\<lambda>syncflow.
    bind_io (DataSourceRepository_getById M (tr_sourceId trigger) sessionOnly) (\<lambda>dataSource.
    bind_io (SyncConnectionRepository_getByDataSourceId M (tr_sourceId trigger) sessionOnly)
      (\<lambda>syncConnection.
     case dataSource of
       None \<Rightarrow> (case syncflow of
           None \<Rightarrow> throw_io TypeError
         | Some sf \<Rightarrow> reject (''DataSource not found: '' @ sf_sourceId sf))
     | Some ds \<Rightarrow>
     (case syncConnection of
       None \<Rightarrow> reject (''SyncConnection not found: '' @ tr_sourceId trigger)
     | Some sc \<Rightarrow>
     (case syncflow of
       None \<Rightarrow> reject (''Syncflow not found: '' @ tr_workflow_id trigger)
     | Some sf \<Rightarrow>
       if cs_status (sc_state sc) \<noteq> SC_ACTIVE
       then reject (''Sync connection is not active: '' @ sc_id sc)
       else if ss_status (sf_state sf) = SCHEDULED
       then throw_io (AcceptableActivityError
              (''Syncflow status is already scheduled: '' @ sf_id sf) (AcceptSyncflow sf))
       else bind_io (runSyncflowController M T sf ds) (\<lambda>_.
            SyncflowRepository_updateState M (sf_id sf)
              (no_update\<lparr>up_status := Some SCHEDULED\<rparr>)
              (sessionOnly\<lparr>qo_new := True\<rparr>)))))))"

text \<open>The function run in the transaction: it returns the events to emit. The trigger is read
  with \<open>transaction.session\<close>, which is undefined, and so outside the transaction.\<close>

definition triggeredTransaction :: "mongo \<Rightarrow> third_party \<Rightarrow> Trigger \<Rightarrow> event list act" where
  "triggeredTransaction M T trigger =
    catch_io
      (bind_io (checkWorkflowAlreadyScheduled M trigger sessionOnly) (\<lambda>_.
       bind_io (TriggerRepository_getById M (tr_id trigger) no_options) (\<lambda>triggerFromDb.
         case triggerFromDb of
           None \<Rightarrow> reject (''Trigger not found: '' @ tr_id trigger)
         | Some _ \<Rightarrow>
             (case tr_workflow_type trigger of
                SYNCFLOW \<Rightarrow>
                  bind_io (handleSyncflowTriggered M T trigger) (\<lambda>syncflow.
                    case syncflow of
                      None \<Rightarrow> throw_io TypeError
                    | Some sf \<Rightarrow> return_io [SyncflowScheduled
                        \<lparr>sd_syncflow = sf, sd_version = ss_version (sf_state sf)\<rparr>])
              | OtherWorkflow ty \<Rightarrow>
                  throw_io (UnacceptableActivityError (''Unknown workflow type: '' @ ty)
                    (workflowFail True))))))
      (\<lambda>error. if isActivityError error then return_io [] else throw_io error)"

definition handleWorkflowTriggered :: "mongo \<Rightarrow> third_party \<Rightarrow> Trigger \<Rightarrow> unit act" where
  "handleWorkflowTriggered M T trigger =
    bind_io (runWithTransaction M (triggeredTransaction M T trigger))
      (\<lambda>events. for_io events emitEvent)"

section \<open>Facts\<close>

text \<open>The transaction writes nothing through its session.\<close>

abbreviation tx_events :: "world \<Rightarrow> (db \<times> (db \<Rightarrow> db)) option \<times> event list" where
  "tx_events w \<equiv> (w_tx w, w_events w)"

lemma keeps_world [keeps_intros]:
  "keeps tx_events (writeDb False h)" "keeps tx_events (callService a c)"
  by (simp_all add: keeps_def)

lemma keeps_reject [keeps_intros]: "keeps f (reject m)"
  by (simp add: reject_def keeps_def)

lemma keeps_repo [keeps_intros]:
  "keeps f (SyncflowRepository_getById M i opts)" "keeps f (DataSourceRepository_getById M i opts)"
  "keeps f (SyncConnectionRepository_getByDataSourceId M i opts)"
  "keeps f (TriggerRepository_getById M i opts)"
  by (simp_all add: SyncflowRepository_getById_def DataSourceRepository_getById_def
      SyncConnectionRepository_getByDataSourceId_def TriggerRepository_getById_def keeps_intros)

lemma keeps_updateState [keeps_intros]:
  "keeps tx_events (SyncflowRepository_updateState M i u opts)"
  unfolding SyncflowRepository_updateState_def updateLiveSyncflow_def returnNewSyncflow_def
  by (intro keeps_intros)

lemma keeps_handled [keeps_intros]: "keeps f m \<Longrightarrow> keeps f (handled h m)"
  unfolding handled_def by (intro keeps_intros)

lemma keeps_external [keeps_intros]: "keeps f m \<Longrightarrow> keeps f (externalActivityWrapper m n)"
  unfolding externalActivityWrapper_def Let_def
  by (rule keeps_catch) (auto split: js_error.splits intro!: keeps_intros)

lemma keeps_controller [keeps_intros]: "keeps tx_events (runSyncflowController M T sf ds)"
  unfolding runSyncflowController_def GoogleSheetsSyncflowController_run_def
    MicrosoftExcelSyncflowController_run_def MicrosoftService_getAccessToken_def
    MicrosoftGraphService_getWorkbookFileInfo_def
  by (auto split: ProviderType.splits intro!: keeps_intros)

lemma keeps_triggered: "keeps tx_events (triggeredTransaction M T trigger)"
  unfolding triggeredTransaction_def checkWorkflowAlreadyScheduled_def handleSyncflowTriggered_def
  by (auto split: WorkflowType.splits intro!: keeps_intros)

context mongo_driver begin

text \<open>A transaction without session writes commits nothing more than what was written outside.\<close>

lemma transaction_keeps:
  assumes "keeps tx_events fn"
  shows "runWithTransaction M fn w =
    (let (r, w') = fn (w\<lparr>w_tx := Some (w_db w, id)\<rparr>) in (r, w'\<lparr>w_tx := w_tx w\<rparr>))"
proof -
  let ?w0 = "w\<lparr>w_tx := Some (w_db w, id)\<rparr>"
  obtain r w' where m: "fn ?w0 = (r, w')" by (cases "fn ?w0")
  have "w_tx w' = Some (w_db w, id)" using keepsD[OF assms m] by simp
  then show ?thesis using m by (cases r) (simp_all add: runWithTransaction_def)
qed

end

section \<open>When a trigger schedules its syncflow\<close>

text \<open>The state of the store in which a trigger may schedule: the syncflow is live and idle, the
  trigger and the data source are live, and the data source's live connection is active.\<close>

definition triggerable ::
  "Trigger \<Rightarrow> db \<Rightarrow> Syncflow \<Rightarrow> DataSource \<Rightarrow> SyncConnection \<Rightarrow> bool" where
  "triggerable t d sf ds sc \<longleftrightarrow>
     live_syncflow (tr_workflow_id t) d = Some sf \<and> ss_status (sf_state sf) = IDLING \<and>
     live_trigger (tr_id t) d \<noteq> None \<and> tr_workflow_type t = SYNCFLOW \<and>
     live_source (tr_sourceId t) d = Some ds \<and>
     live_connection (tr_sourceId t) d = Some sc \<and> cs_status (sc_state sc) = SC_ACTIVE"

lemma triggerable_id: "triggerable t d sf ds sc \<Longrightarrow> sf_id sf = tr_workflow_id t"
  by (auto simp: triggerable_def dest: live_syncflow_id)

text \<open>The syncflow as stored and as announced once it is scheduled.\<close>

definition as_scheduled :: "mongo \<Rightarrow> (SyncflowState \<Rightarrow> SyncflowState) \<Rightarrow> Syncflow \<Rightarrow> Syncflow" where
  "as_scheduled M f sf = sf\<lparr>sf_state :=
     setState M (no_update\<lparr>up_status := Some SCHEDULED\<rparr>) (f (sf_state sf))\<rparr>"

context mongo_driver begin

lemma for_emit: "for_io [e] emitEvent w = (Inr (), w\<lparr>w_events := w_events w @ [e]\<rparr>)"
  by (simp add: bind_io_run)

text \<open>A trigger that may not schedule changes nothing.\<close>

lemma triggered_not_triggerable:
  assumes "\<And>sf ds sc. \<not> triggerable t (w_db w) sf ds sc"
  shows "w_tx w = Some (w_db w, id) \<Longrightarrow>
    snd (triggeredTransaction M T t w) = w \<and>
    (fst (triggeredTransaction M T t w) = Inr [] \<or> (\<exists>e. fst (triggeredTransaction M T t w) = Inl e))"
  using assms
  by (auto simp: triggeredTransaction_def checkWorkflowAlreadyScheduled_def
      handleSyncflowTriggered_def reject_def io_simps repo_simps triggerable_def
      split: option.splits WorkflowType.splits)

lemma handle_not_triggerable:
  assumes "\<And>sf ds sc. \<not> triggerable t (w_db w) sf ds sc"
  shows "snd (handleWorkflowTriggered M T t w) = w"
proof -
  let ?w0 = "w\<lparr>w_tx := Some (w_db w, id)\<rparr>"
  obtain r w' where m: "triggeredTransaction M T t ?w0 = (r, w')"
    by (cases "triggeredTransaction M T t ?w0")
  have "w' = ?w0 \<and> (r = Inr [] \<or> (\<exists>e. r = Inl e))"
    using triggered_not_triggerable[of t ?w0 T] assms m by simp
  then show ?thesis using m
    by (auto simp: handleWorkflowTriggered_def bind_io_run transaction_keeps[OF keeps_triggered])
qed

text \<open>A trigger that may schedule runs the provider's controller; if that succeeds, the status is
  set and one event is emitted.\<close>

lemma handle_triggerable:
  assumes tg: "triggerable t (w_db w) sf ds sc"
    and run: "runSyncflowController M T sf ds (w\<lparr>w_tx := Some (w_db w, id)\<rparr>) = (Inr (),
      w\<lparr>w_tx := Some (w_db w, id), w_calls := cs, w_db := put_state (sf_id sf) f (w_db w)\<rparr>)"
  shows "handleWorkflowTriggered M T t w = (Inr (), w\<lparr>w_calls := cs,
      w_db := put_state (sf_id sf) (setState M (no_update\<lparr>up_status := Some SCHEDULED\<rparr>))
        (put_state (sf_id sf) f (w_db w)),
      w_events := w_events w @ [SyncflowScheduled \<lparr>sd_syncflow = as_scheduled M f sf,
        sd_version = ss_version (f (sf_state sf))\<rparr>]\<rparr>)"
proof -
  have id: "sf_id sf = tr_workflow_id t" by (rule triggerable_id[OF tg])
  have live: "live_syncflow (tr_workflow_id t) (put_state (tr_workflow_id t)
      (setState M (no_update\<lparr>up_status := Some SCHEDULED\<rparr>)) (put_state (tr_workflow_id t) f (w_db w)))
      = Some (as_scheduled M f sf)"
    using tg by (simp add: live_syncflow_put_state triggerable_def as_scheduled_def)
  have ver: "ss_version (sf_state (as_scheduled M f sf)) = ss_version (f (sf_state sf))"
    by (simp add: as_scheduled_def no_update_def)
  let ?w0 = "w\<lparr>w_tx := Some (w_db w, id)\<rparr>"
  have tx: "triggeredTransaction M T t ?w0 = (Inr [SyncflowScheduled \<lparr>sd_syncflow =
        as_scheduled M f sf, sd_version = ss_version (f (sf_state sf))\<rparr>],
      w\<lparr>w_tx := Some (w_db w, id), w_calls := cs,
        w_db := put_state (sf_id sf) (setState M (no_update\<lparr>up_status := Some SCHEDULED\<rparr>))
          (put_state (sf_id sf) f (w_db w))\<rparr>)"
    using tg run live
    by (simp add: triggeredTransaction_def checkWorkflowAlreadyScheduled_def
        handleSyncflowTriggered_def reject_def io_simps repo_simps triggerable_def id ver
        split: option.splits)
  show ?thesis
    by (simp add: handleWorkflowTriggered_def bind_io_run transaction_keeps[OF keeps_triggered] tx)
qed

lemma handle_rejected:
  assumes tg: "triggerable t (w_db w) sf ds sc"
    and run: "runSyncflowController M T sf ds (w\<lparr>w_tx := Some (w_db w, id)\<rparr>) =
      (Inl (UnacceptableActivityError m u), w\<lparr>w_tx := Some (w_db w, id), w_calls := cs\<rparr>)"
  shows "handleWorkflowTriggered M T t w = (Inr (), w\<lparr>w_calls := cs\<rparr>)"
proof -
  have "triggeredTransaction M T t (w\<lparr>w_tx := Some (w_db w, id)\<rparr>) =
      (Inr [], w\<lparr>w_tx := Some (w_db w, id), w_calls := cs\<rparr>)"
    using tg run
    by (auto simp: triggeredTransaction_def checkWorkflowAlreadyScheduled_def
        handleSyncflowTriggered_def io_simps repo_simps triggerable_def)
  then show ?thesis
    by (simp add: handleWorkflowTriggered_def bind_io_run transaction_keeps[OF keeps_triggered])
qed

text \<open>A syncflow that is not idle is rejected with an activity error, which is swallowed.\<close>

lemma handle_not_idle:
  assumes "live_syncflow (tr_workflow_id t) (w_db w) = Some sf"
    and "ss_status (sf_state sf) \<noteq> IDLING"
  shows "handleWorkflowTriggered M T t w = (Inr (), w)"
proof -
  have "triggeredTransaction M T t (w\<lparr>w_tx := Some (w_db w, id)\<rparr>) =
      (Inr [], w\<lparr>w_tx := Some (w_db w, id)\<rparr>)"
    using assms by (simp add: triggeredTransaction_def checkWorkflowAlreadyScheduled_def
        reject_def io_simps repo_simps)
  then show ?thesis
    by (simp add: handleWorkflowTriggered_def bind_io_run transaction_keeps[OF keeps_triggered])
qed

text \<open>What the Excel controller does when it succeeds.\<close>

lemma excel_run:
  assumes "MicrosoftExcelSyncflowController_run M T sf ds w = (Inr (), w')"
  shows "\<exists>cs ctag. Some ctag \<noteq> ss_ctag (sf_state sf) \<and> w' = w\<lparr>w_calls := cs,
    w_db := put_state (sf_id sf) (setState M (no_update\<lparr>up_ctag := Some (Some ctag)\<rparr>)) (w_db w)\<rparr>"
  using assms
  by (auto simp: MicrosoftExcelSyncflowController_run_def MicrosoftService_getAccessToken_def
      MicrosoftGraphService_getWorkbookFileInfo_def externalActivityWrapper_def io_simps repo_simps
      Let_def split: sum.splits prod.splits if_splits js_error.splits)

lemma put_state_id [simp]: "put_state i (\<lambda>s. s) d = d"
proof -
  have "update_first p (\<lambda>s. s\<lparr>sf_state := sf_state s\<rparr>) xs = xs" for p and xs :: "Syncflow list"
    by (induction xs) auto
  then show ?thesis by (simp add: put_state_def)
qed

lemma controller_run_effect:
  assumes "runSyncflowController M T sf ds w = (Inr (), w')"
  shows "\<exists>cs u. w' = w\<lparr>w_calls := cs, w_db := put_state (sf_id sf) u (w_db w)\<rparr> \<and>
    (u = (\<lambda>s. s) \<or> (\<exists>c. u = setState M (no_update\<lparr>up_ctag := Some c\<rparr>)))"
proof (cases "ds_provider_type ds")
  case GOOGLE_SHEETS
  then have "w' = w\<lparr>w_calls := w_calls w, w_db := put_state (sf_id sf) (\<lambda>s. s) (w_db w)\<rparr>"
    using assms by (simp add: runSyncflowController_def GoogleSheetsSyncflowController_run_def)
  then show ?thesis by blast
next
  case MICROSOFT_EXCEL
  then show ?thesis using assms excel_run[of T sf ds w w']
    by (simp add: runSyncflowController_def) blast
next
  case AIR_TABLE
  then show ?thesis using assms by (simp add: runSyncflowController_def)
qed

end

lemma handle_emits:
  assumes "mongo_ok M" and "handleWorkflowTriggered M T t w = (r, w')"
    and "w_events w' \<noteq> w_events w"
  shows "\<exists>sf ds sc sf'. triggerable t (w_db w) sf ds sc \<and>
    w_events w' = w_events w @ [SyncflowScheduled
      \<lparr>sd_syncflow = sf', sd_version = ss_version (sf_state sf)\<rparr>] \<and>
    live_syncflow (tr_workflow_id t) (w_db w') = Some sf' \<and>
    ss_status (sf_state sf') = SCHEDULED \<and>
    ss_version (sf_state sf') = ss_version (sf_state sf) \<and>
    ss_prevVersion (sf_state sf') = ss_prevVersion (sf_state sf)"
proof -
  note d = mongo_driverI[OF assms(1)]
  obtain sf ds sc where tg: "triggerable t (w_db w) sf ds sc"
    using mongo_driver.handle_not_triggerable[OF d, of t w T] assms(2,3) by fastforce
  let ?w0 = "w\<lparr>w_tx := Some (w_db w, id)\<rparr>"
  obtain q w1 where run: "runSyncflowController M T sf ds ?w0 = (q, w1)"
    by (cases "runSyncflowController M T sf ds ?w0")
  show ?thesis
  proof (cases q)
    case (Inl e)
    have "triggeredTransaction M T t ?w0 =
        (if isActivityError e then Inr [] else Inl e, w1)"
      using tg run Inl
      by (auto simp: triggeredTransaction_def checkWorkflowAlreadyScheduled_def
          handleSyncflowTriggered_def io_simps mongo_driver.getById_live[OF d] triggerable_def)
    then have "w_events w' = w_events w1"
      using assms(2) by (auto simp: handleWorkflowTriggered_def bind_io_run
          mongo_driver.transaction_keeps[OF d keeps_triggered] split: if_splits)
    moreover have "w_events w1 = w_events w"
      using keepsD[OF keeps_controller run] by simp
    ultimately show ?thesis using assms(3) by simp
  next
    case (Inr u)
    then obtain cs f where f: "w1 = ?w0\<lparr>w_calls := cs, w_db := put_state (sf_id sf) f (w_db w)\<rparr>"
      "f = (\<lambda>s. s) \<or> (\<exists>c. f = setState M (no_update\<lparr>up_ctag := Some c\<rparr>))"
      using mongo_driver.controller_run_effect[OF d, of T sf ds ?w0 w1] run by auto
    have vers: "ss_version (f s) = ss_version s" "ss_prevVersion (f s) = ss_prevVersion s" for s
      using f(2) by (auto simp: no_update_def)
    have "runSyncflowController M T sf ds ?w0 = (Inr (), w\<lparr>w_tx := Some (w_db w, id),
        w_calls := cs, w_db := put_state (sf_id sf) f (w_db w)\<rparr>)"
      using run Inr f(1) by simp
    from mongo_driver.handle_triggerable[OF d tg this] assms(2)
    have w': "w' = w\<lparr>w_calls := cs,
      w_db := put_state (sf_id sf) (setState M (no_update\<lparr>up_status := Some SCHEDULED\<rparr>))
        (put_state (sf_id sf) f (w_db w)),
      w_events := w_events w @ [SyncflowScheduled \<lparr>sd_syncflow = as_scheduled M f sf,
        sd_version = ss_version (f (sf_state sf))\<rparr>]\<rparr>" by simp
    have "live_syncflow (tr_workflow_id t) (w_db w') = Some (as_scheduled M f sf)"
      using tg triggerable_id[OF tg]
      by (simp add: w' live_syncflow_put_state triggerable_def as_scheduled_def)
    with tg w' vers show ?thesis
      by (intro exI[of _ sf] exI[of _ ds] exI[of _ sc] exI[of _ "as_scheduled M f sf"])
         (simp add: as_scheduled_def no_update_def)
  qed
qed

lemma example_triggerable:
  "triggerable example_trigger (w_db example_world) example_syncflow example_source
     example_connection"
  by (simp add: triggerable_def live_defs example_defs defaultSyncflowState_def
      defaultSyncConnectionState_def)

lemma example_google_run:
  "runSyncflowController listMongo example_services example_syncflow example_source
     (example_world\<lparr>w_tx := Some (w_db example_world, id)\<rparr>) = (Inr (),
     example_world\<lparr>w_tx := Some (w_db example_world, id), w_calls := w_calls example_world,
       w_db := put_state (sf_id example_syncflow) (\<lambda>s. s) (w_db example_world)\<rparr>)"
  by (simp add: runSyncflowController_def GoogleSheetsSyncflowController_run_def
      example_source_def lm.put_state_id)

lemmas example_handled = lm.handle_triggerable[OF example_triggerable example_google_run]

lemma excel_triggerable:
  "triggerable example_trigger (w_db excel_world) example_syncflow
     (example_source\<lparr>ds_provider_type := MICROSOFT_EXCEL\<rparr>) example_connection"
  by (simp add: triggerable_def live_defs example_defs defaultSyncflowState_def
      defaultSyncConnectionState_def)

section \<open>Properties\<close>

text \<open>A Google Sheets trigger calls no service.\<close>

lemma google_schedules:
  assumes "mongo_ok M" and "triggerable t (w_db w) sf ds sc"
    and "ds_provider_type ds = GOOGLE_SHEETS"
  shows "handleWorkflowTriggered M T t w = (Inr (), w\<lparr>
    w_db := put_state (tr_workflow_id t) (setState M (no_update\<lparr>up_status := Some SCHEDULED\<rparr>))
      (w_db w),
    w_events := w_events w @ [SyncflowScheduled
      \<lparr>sd_syncflow = sf\<lparr>sf_state := (sf_state sf)\<lparr>ss_status := SCHEDULED\<rparr>\<rparr>,
       sd_version = ss_version (sf_state sf)\<rparr>]\<rparr>)"
proof -
  note d = mongo_driverI[OF assms(1)]
  have run: "runSyncflowController M T sf ds (w\<lparr>w_tx := Some (w_db w, id)\<rparr>) = (Inr (),
      w\<lparr>w_tx := Some (w_db w, id), w_calls := w_calls w,
        w_db := put_state (sf_id sf) (\<lambda>s. s) (w_db w)\<rparr>)"
    using assms(3) by (simp add: runSyncflowController_def GoogleSheetsSyncflowController_run_def
        mongo_driver.put_state_id[OF d])
  have "as_scheduled M (\<lambda>s. s) sf = sf\<lparr>sf_state := (sf_state sf)\<lparr>ss_status := SCHEDULED\<rparr>\<rparr>"
    by (simp add: as_scheduled_def setState_def no_update_def)
  then show ?thesis
    using mongo_driver.handle_triggerable[OF d assms(2) run] triggerable_id[OF assms(2)]
    by (simp add: mongo_driver.put_state_id[OF d])
qed

text \<open>
  A Google Sheets trigger that finds its syncflow idle, its data source live and its sync
  connection active is scheduled: the call returns, the stored syncflow becomes \<open>SCHEDULED\<close> and
  is otherwise unchanged, exactly one \<open>syncflow.scheduled\<close> event is emitted, carrying the new
  document and its current version, and no external service is called.
\<close>

theorem google_trigger_schedules:
  assumes "mongo_ok M" and "triggerable t (w_db w) sf ds sc"
    and "ds_provider_type ds = GOOGLE_SHEETS"
  shows "handleWorkflowTriggered M T t w = (Inr (), w\<lparr>
    w_db := put_state (tr_workflow_id t) (setState M (no_update\<lparr>up_status := Some SCHEDULED\<rparr>))
      (w_db w),
    w_events := w_events w @ [SyncflowScheduled
      \<lparr>sd_syncflow = sf\<lparr>sf_state := (sf_state sf)\<lparr>ss_status := SCHEDULED\<rparr>\<rparr>,
       sd_version = ss_version (sf_state sf)\<rparr>]\<rparr>)"
  by (rule google_schedules[OF assms])

theorem google_trigger_schedules_witness:
  "fst (handleWorkflowTriggered listMongo example_services example_trigger example_world) = Inr () \<and>
   length (w_events (snd (handleWorkflowTriggered listMongo example_services example_trigger
     example_world))) = 1"
proof -
  have "triggerable example_trigger (w_db example_world) example_syncflow example_source
      example_connection"
    by (simp add: triggerable_def live_defs example_defs defaultSyncflowState_def
        defaultSyncConnectionState_def)
  then show ?thesis
    using google_trigger_schedules [of listMongo example_trigger example_world example_syncflow
        example_source example_connection example_services]
    by (simp add: example_source_def) (simp add: example_defs)
qed

text \<open>
  C26: nothing is scheduled without cause. If handling a trigger emits anything, then its syncflow
  was live and idle, its trigger and data source live and the sync connection active; the handler
  emits exactly one \<open>syncflow.scheduled\<close> event, whose syncflow is \<open>SCHEDULED\<close> and stored as
  announced, and neither the version nor the previous version changed.
\<close>

theorem scheduled_only_if_triggerable:
  assumes "mongo_ok M" and "handleWorkflowTriggered M T t w = (r, w')"
    and "w_events w' \<noteq> w_events w"
  shows "\<exists>sf ds sc sf'. triggerable t (w_db w) sf ds sc \<and>
    w_events w' = w_events w @ [SyncflowScheduled
      \<lparr>sd_syncflow = sf', sd_version = ss_version (sf_state sf)\<rparr>] \<and>
    live_syncflow (tr_workflow_id t) (w_db w') = Some sf' \<and>
    ss_status (sf_state sf') = SCHEDULED \<and>
    ss_version (sf_state sf') = ss_version (sf_state sf) \<and>
    ss_prevVersion (sf_state sf') = ss_prevVersion (sf_state sf)"
  by (rule handle_emits[OF assms])

theorem scheduled_only_if_triggerable_witness:
  "\<exists>sf ds sc. triggerable example_trigger (w_db example_world) sf ds sc"
  using scheduled_only_if_triggerable [of listMongo example_services example_trigger
      example_world "Inr ()"] example_handled by fastforce

text \<open>
  A syncflow is scheduled at most once until its run ends. Once handling a trigger has
  announced a schedule, any further trigger for the same syncflow returns normally and changes
  nothing at all: no store write, no event, no external call.
\<close>

theorem scheduled_once:
  assumes "mongo_ok M" and "handleWorkflowTriggered M T t w = (r, w')"
    and "w_events w' \<noteq> w_events w" and "tr_workflow_id t2 = tr_workflow_id t"
  shows "handleWorkflowTriggered M T2 t2 w' = (Inr (), w')"
proof -
  obtain sf' where sf': "live_syncflow (tr_workflow_id t2) (w_db w') = Some sf'"
    "ss_status (sf_state sf') = SCHEDULED"
    using handle_emits[OF assms(1-3)] assms(4) by auto
  show ?thesis by (rule mongo_driver.handle_not_idle[OF mongo_driverI[OF assms(1)] sf'(1)])
    (simp add: sf'(2))
qed

theorem scheduled_once_witness:
  "handleWorkflowTriggered listMongo example_services example_trigger
     (snd (handleWorkflowTriggered listMongo example_services example_trigger example_world))
   = (Inr (), snd (handleWorkflowTriggered listMongo example_services example_trigger
       example_world))"
  by (rule scheduled_once [of listMongo example_services example_trigger example_world "Inr ()"])
     (simp_all add: example_handled)

text \<open>
  An Excel trigger, with both remote calls answered. If the file's cTag is the one in the
  stored cursor the syncflow is left alone. Otherwise it is scheduled, and the cursor the store
  holds afterwards is the new cTag only if mongoose keeps paths the schema does not declare:
  with the default strict mode \<open>state.cursor\<close> is dropped, so the old cursor stays and the
  comparison never sees the cTag of an earlier run.
\<close>

theorem excel_trigger_schedules:
  assumes "mongo_ok M" and "triggerable t (w_db w) sf ds sc"
    and "ds_provider_type ds = MICROSOFT_EXCEL"
    and "tp_microsoftToken T (w_calls w @ [c1]) = Inr token"
    and "tp_fileInfo T (w_calls w @ [c1, c2]) = Inr ctag"
    and "c1 = MicrosoftToken (show_opt (cfg_auth (ds_config ds)))"
    and "c2 = GraphGet (''/me/drive/items/'' @ show_opt (cfg_workbookId (ds_config ds))
               @ ''?$select=cTag'')"
  shows "if ss_ctag (sf_state sf) = Some ctag
    then handleWorkflowTriggered M T t w = (Inr (), w\<lparr>w_calls := w_calls w @ [c1, c2]\<rparr>)
    else \<exists>sf'. live_syncflow (tr_workflow_id t) (w_db (snd (handleWorkflowTriggered M T t w)))
        = Some sf' \<and>
      w_events (snd (handleWorkflowTriggered M T t w)) = w_events w @ [SyncflowScheduled
        \<lparr>sd_syncflow = sf', sd_version = ss_version (sf_state sf)\<rparr>] \<and>
      ss_status (sf_state sf') = SCHEDULED \<and>
      ss_ctag (sf_state sf') = (if mg_strict M then ss_ctag (sf_state sf) else Some ctag)"
proof -
  note d = mongo_driverI[OF assms(1)]
  let ?w0 = "w\<lparr>w_tx := Some (w_db w, id)\<rparr>"
  let ?f = "setState M (no_update\<lparr>up_ctag := Some (Some ctag)\<rparr>)"
  note run_defs = runSyncflowController_def MicrosoftExcelSyncflowController_run_def
    MicrosoftService_getAccessToken_def MicrosoftGraphService_getWorkbookFileInfo_def
    externalActivityWrapper_def withSelect_def
  show ?thesis
  proof (cases "ss_ctag (sf_state sf) = Some ctag")
    case True
    have run: "runSyncflowController M T sf ds ?w0 = (Inl (UnacceptableActivityError
        (''Syncflow '' @ sf_id sf @ '' with ds not changed, skipping'') (workflowFail False)),
        ?w0\<lparr>w_calls := w_calls w @ [c1, c2]\<rparr>)"
      using assms True by (simp add: run_defs io_simps)
    show ?thesis using True mongo_driver.handle_rejected[OF d assms(2) run] by simp
  next
    case False
    have run: "runSyncflowController M T sf ds ?w0 = (Inr (), w\<lparr>w_tx := Some (w_db w, id),
        w_calls := w_calls w @ [c1, c2], w_db := put_state (sf_id sf) ?f (w_db w)\<rparr>)"
      using assms False by (simp add: run_defs io_simps mongo_driver.updateState_put[OF d])
    have ver: "ss_version (?f s) = ss_version s" for s by (simp add: no_update_def)
    show ?thesis
      using False mongo_driver.handle_triggerable[OF d assms(2) run] assms(2)
        triggerable_id[OF assms(2)]
      by (simp add: ver live_syncflow_put_state triggerable_def as_scheduled_def)
         (simp add: no_update_def)
  qed
qed

theorem excel_trigger_schedules_witness:
  "\<exists>sf'. live_syncflow ''s1'' (w_db (snd (handleWorkflowTriggered listMongo example_services
     example_trigger excel_world))) = Some sf' \<and> ss_status (sf_state sf') = SCHEDULED \<and>
     ss_ctag (sf_state sf') = None"
  using excel_trigger_schedules [of listMongo example_trigger excel_world example_syncflow
      "example_source\<lparr>ds_provider_type := MICROSOFT_EXCEL\<rparr>" example_connection
      example_services _ "''mt''" _ "''tag1''", OF _ excel_triggerable _ _ _ refl refl]
  by (auto simp: example_services_def example_syncflow_def example_trigger_def
      defaultSyncflowState_def)

end
