(* ===== verification/PostProcessor.thy ===== *)
theory PostProcessor
  imports Controller
begin

text \<open>
  The post-processor (\<open>apps/post-processor/src/modules\<close>): what follows a sync run. A successful
  run has the objects of the previous version deleted from the storage and its row counts added to
  the data source's statistics; a failed one stops the sync connection. The object storage is the
  parameter \<open>X :: storage\<close>; the bucket name of its requests is a configuration constant and left
  out.
\<close>

record storage =
  xs_delete :: "ext_call list \<Rightarrow> js_error + string list"   \<comment> \<open>keys in \<open>res.Errors\<close>\<close>

section \<open>Cleaners\<close>

definition diffDataKeys :: "oid \<Rightarrow> int \<Rightarrow> string list" where
  "diffDataKeys dataSourceId syncVersion =
    (let n = dataSourceId @ ''-'' @ show_int syncVersion
     in [''data/'' @ n @ ''.json'', ''data/'' @ n @ ''.parquet'', ''schema/'' @ n @ ''.json'',
         ''result/'' @ n @ ''-addedRows.json'', ''result/'' @ n @ ''-deletedRows.json'',
         ''result/'' @ n @ ''-deletedFields.json'', ''result/'' @ n @ ''-updatedFields.json'',
         ''result/'' @ n @ ''-addedFields.json'', ''result/'' @ n @ ''-schema.json''])"

text \<open>Objects that could not be deleted are only logged.\<close>

definition cleanDiffData :: "storage \<Rightarrow> oid \<Rightarrow> int \<Rightarrow> unit act" where
  "cleanDiffData X dataSourceId syncVersion =
    bind_io (callService (xs_delete X) (StorageDelete (diffDataKeys dataSourceId syncVersion)))
      (\<lambda>_. return_io ())"

definition GoogleSheetsWorkflowCleaner_run :: "storage \<Rightarrow> Syncflow \<Rightarrow> int \<Rightarrow> int \<Rightarrow> unit act" where
  "GoogleSheetsWorkflowCleaner_run X syncflow syncVersion prevSyncVersion =
    cleanDiffData X (sf_sourceId syncflow) prevSyncVersion"

text \<open>The Excel cleaner has a method of its own, which deletes the same objects.\<close>

definition Excel_diffDataKeys :: "oid \<Rightarrow> int \<Rightarrow> string list" where
  "Excel_diffDataKeys dataSourceId syncVersion =
    (let n = dataSourceId @ ''-'' @ show_int syncVersion
     in [''data/'' @ n @ ''.json'', ''data/'' @ n @ ''.parquet'', ''schema/'' @ n @ ''.json'',
         ''result/'' @ n @ ''-addedRows.json'', ''result/'' @ n @ ''-deletedRows.json'',
         ''result/'' @ n @ ''-deletedFields.json'', ''result/'' @ n @ ''-updatedFields.json'',
         ''result/'' @ n @ ''-addedFields.json'', ''result/'' @ n @ ''-schema.json''])"

definition Excel_cleanDiffData :: "storage \<Rightarrow> oid \<Rightarrow> int \<Rightarrow> unit act" where
  "Excel_cleanDiffData X dataSourceId syncVersion =
    bind_io (callService (xs_delete X) (StorageDelete (Excel_diffDataKeys dataSourceId syncVersion)))
      (\<lambda>_. return_io ())"

lemma excel_cleans [simp]: "Excel_cleanDiffData = cleanDiffData"
  by (intro ext) (simp add: Excel_cleanDiffData_def cleanDiffData_def Excel_diffDataKeys_def diffDataKeys_def)

definition MicrosoftExcelWorkflowCleaner_run :: "storage \<Rightarrow> Syncflow \<Rightarrow> int \<Rightarrow> int \<Rightarrow> unit act" where
  "MicrosoftExcelWorkflowCleaner_run X syncflow syncVersion prevSyncVersion =
    Excel_cleanDiffData X (sf_sourceId syncflow) prevSyncVersion"

text \<open>A failed request is logged, and then the properties of \<open>res\<close>, still \<open>undefined\<close>, are
  read.\<close>

definition cleanSpreadsheetData :: "storage \<Rightarrow> oid \<Rightarrow> unit act" where
  "cleanSpreadsheetData X providerId =
    bind_io (catch_io
        (bind_io (callService (xs_delete X) (StorageDelete [''data/'' @ providerId @ ''.xlsx'']))
          (\<lambda>r. return_io (Some r)))
        (\<lambda>err. return_io None))
      (\<lambda>res. case res of None \<Rightarrow> throw_io TypeError | Some _ \<Rightarrow> return_io ())"

definition GoogleSheetsDataProviderCleaner_run :: "storage \<Rightarrow> oid \<Rightarrow> unit act" where
  "GoogleSheetsDataProviderCleaner_run X providerId = cleanSpreadsheetData X providerId"

definition MicrosoftExcelDataProviderCleaner_run :: "oid \<Rightarrow> unit act" where
  "MicrosoftExcelDataProviderCleaner_run providerId = return_io ()"

definition getWorkflowCleaner ::
  "storage \<Rightarrow> ProviderType \<Rightarrow> js_error + (Syncflow \<Rightarrow> int \<Rightarrow> int \<Rightarrow> unit act)" where
  "getWorkflowCleaner X providerType = (case providerType of
     MICROSOFT_EXCEL \<Rightarrow> Inr (MicrosoftExcelWorkflowCleaner_run X)
   | GOOGLE_SHEETS \<Rightarrow> Inr (GoogleSheetsWorkflowCleaner_run X)
   | AIR_TABLE \<Rightarrow> Inl (PlainError ''Unknown provider type''))"

text \<open>The Excel case returns the Google Sheets cleaner.\<close>

definition getDataProviderCleaner :: "storage \<Rightarrow> ProviderType \<Rightarrow> js_error + (oid \<Rightarrow> unit act)" where
  "getDataProviderCleaner X providerType = (case providerType of
     GOOGLE_SHEETS \<Rightarrow> Inr (GoogleSheetsDataProviderCleaner_run X)
   | MICROSOFT_EXCEL \<Rightarrow> Inr (GoogleSheetsDataProviderCleaner_run X)
   | AIR_TABLE \<Rightarrow> Inl (PlainError (''Unknow provider cleaner for '' @ showProviderType AIR_TABLE)))"

section \<open>Services\<close>

definition includeDeletedOnly :: QueryOptions where
  "includeDeletedOnly = no_options\<lparr>qo_includeDeleted := True\<rparr>"

definition handleSyncflowSucceed ::
  "mongo \<Rightarrow> storage \<Rightarrow> SyncflowSucceedPayload \<Rightarrow> unit act" where
  "handleSyncflowSucceed M X data =
    bind_io (SyncflowRepository_getById M (sp_syncflowId data) includeDeletedOnly) (\<lambda>sf.
    bind_io (DataSourceRepository_getById M (sp_dataSourceId data) includeDeletedOnly) (\<lambda>ds.
    case sf of None \<Rightarrow> return_io ()
    | Some syncflow \<Rightarrow> (case ds of None \<Rightarrow> return_io ()
    | Some dataSource \<Rightarrow>
        bind_io (lift_io (getWorkflowCleaner X (ds_provider_type dataSource))) (\<lambda>cleaner.
        bind_io (cleaner syncflow (sp_syncVersion data) (sp_prevSyncVersion data)) (\<lambda>_.
        let rowsNumber = st_rowsNumber (ds_statistics dataSource) +
              (sx_addedRowsCount (sp_statistics data) - sx_deletedRowsCount (sp_statistics data))
        in bind_io (DataSourceRepository_updateStatistics M (sp_dataSourceId data)
             \<lparr>uss_rowsNumber = Some rowsNumber, uss_storageUsage = None\<rparr> no_options) (\<lambda>_.
           emitEvent (SyncflowCompleted \<lparr>cp_dataSourceId = sp_dataSourceId data,
             cp_syncflowId = sp_syncflowId data, cp_syncVersion = sp_syncVersion data,
             cp_rowsNumber = rowsNumber\<rparr>)))))))"

definition stopSyncConnection :: "mongo \<Rightarrow> oid \<Rightarrow> unit act" where
  "stopSyncConnection M dataSourceId =
    bind_io (SyncConnectionRepository_getByDataSourceId M dataSourceId no_options)
      (\<lambda>r. case r of None \<Rightarrow> return_io ()
       | Some syncConnection \<Rightarrow>
           if cs_status (sc_state syncConnection) = SC_ACTIVE then
             bind_io (SyncConnectionRepository_updateState M \<lparr>usc_id = sc_id syncConnection,
               usc_status = Some SC_INACTIVE, usc_healthStatus = None\<rparr> no_options)
               (\<lambda>_. return_io ())
           else return_io ())"

definition handleDataSourceError :: "mongo \<Rightarrow> oid \<Rightarrow> unit act" where
  "handleDataSourceError M dataSourceId = stopSyncConnection M dataSourceId"

definition handleSyncflowFailed :: "mongo \<Rightarrow> oid \<Rightarrow> unit act" where
  "handleSyncflowFailed M dataSourceId = stopSyncConnection M dataSourceId"

definition handleProviderDeleted :: "storage \<Rightarrow> oid \<Rightarrow> ProviderType \<Rightarrow> unit act" where
  "handleProviderDeleted X providerId providerType =
    bind_io (lift_io (getDataProviderCleaner X providerType)) (\<lambda>cleaner. cleaner providerId)"

text \<open>The broker controller dispatches the four topics the post-processor subscribes to.\<close>

definition postProcessor_handle :: "mongo \<Rightarrow> storage \<Rightarrow> event \<Rightarrow> unit act" where
  "postProcessor_handle M X e = (case e of
     SyncflowSucceed p \<Rightarrow> handleSyncflowSucceed M X p
   | SyncflowFailed p \<Rightarrow> handleSyncflowFailed M (fp_dataSourceId p)
   | DataSourceError d _ _ \<Rightarrow> handleDataSourceError M d
   | DataProviderDeleted p t \<Rightarrow> handleProviderDeleted X p t
   | _ \<Rightarrow> return_io ())"

section \<open>Facts\<close>

definition put_rows :: "oid \<Rightarrow> int \<Rightarrow> db \<Rightarrow> db" where
  "put_rows i n d = d\<lparr>db_sources := update_first (\<lambda>s. ds_id s = i)
     (\<lambda>s. s\<lparr>ds_statistics := (ds_statistics s)\<lparr>st_rowsNumber := n\<rparr>\<rparr>) (db_sources d)\<rparr>"

definition put_connection_status :: "oid \<Rightarrow> SyncConnectionStatus \<Rightarrow> db \<Rightarrow> db" where
  "put_connection_status i v d = d\<lparr>db_connections := update_first (\<lambda>c. sc_id c = i)
     (\<lambda>c. c\<lparr>sc_state := (sc_state c)\<lparr>cs_status := v\<rparr>\<rparr>) (db_connections d)\<rparr>"

lemma session_only_updateStatistics [session_intros]:
  "qo_session opts \<Longrightarrow> session_only (DataSourceRepository_updateStatistics M i data opts)"
  unfolding DataSourceRepository_updateStatistics_def inSession_def reloadSource_def
  by (simp, intro conjI impI session_intros)

lemma session_only_connection_updateState [session_intros]:
  "qo_session opts \<Longrightarrow> session_only (SyncConnectionRepository_updateState M data opts)"
  unfolding SyncConnectionRepository_updateState_def inSession_def reloadConnection_def
  by (simp, intro conjI impI session_intros)

context mongo_driver begin

lemma updateStatistics_rows:
  assumes "find (\<lambda>s. ds_id s = i) (db_sources (w_db w)) = Some ds"
  shows "DataSourceRepository_updateStatistics M i
      \<lparr>uss_rowsNumber = Some n, uss_storageUsage = None\<rparr> no_options w
    = (Inr None, w\<lparr>w_db := put_rows i n (w_db w)\<rparr>)"
proof -
  let ?u = "\<lparr>uss_rowsNumber = Some n, uss_storageUsage = None\<rparr>"
  let ?fn = "DataSourceRepository_updateStatistics M i ?u sessionOnly"
  have id: "ds_id ds = i" using find_SomeD[OF assms] by simp
  have eq: "DataSourceRepository_updateStatistics M i ?u no_options = runWithTransaction M ?fn"
    by (simp add: DataSourceRepository_updateStatistics_def inSession_def reloadSource_def)
  have find: "runs (findSource M (\<lambda>d. ds_id d = i)) (w_db w) ds (w_db w)"
    unfolding findSource_def by (rule runs_bind[OF runs_gets]) (simp add: assms)
  have upd: "runs (updateSourceDoc M i f) d () (d\<lparr>db_sources := update_first (\<lambda>c. ds_id c = i) f
      (db_sources d)\<rparr>)" for f d
    unfolding updateSourceDoc_def model_ops by (rule runs_write)
  have f: "(\<lambda>d. d\<lparr>ds_statistics := (ds_statistics d)\<lparr>
        st_rowsNumber := (case uss_rowsNumber ?u of None \<Rightarrow> st_rowsNumber (ds_statistics d)
          | Some n \<Rightarrow> n),
        st_storageUsage := (case uss_storageUsage ?u of None \<Rightarrow> st_storageUsage (ds_statistics d)
          | Some n \<Rightarrow> n)\<rparr>\<rparr>)
      = (\<lambda>s. s\<lparr>ds_statistics := (ds_statistics s)\<lparr>st_rowsNumber := n\<rparr>\<rparr>)"
    by simp
  have "runs ?fn (w_db w) None (put_rows i n (w_db w))"
    unfolding DataSourceRepository_updateStatistics_def inSession_def reloadSource_def
      put_rows_def f
    by (auto simp: id intro!: runs_bind[OF find] runs_bind[OF upd] runs_return)
  from transaction_runs[OF session_only_updateStatistics this] show ?thesis by (simp add: eq)
qed

lemma connection_updateStatus:
  assumes "find (\<lambda>c. sc_id c = i) (db_connections (w_db w)) = Some c" and "\<not> qo_new opts"
    and "\<not> qo_session opts"
  shows "SyncConnectionRepository_updateState M
      \<lparr>usc_id = i, usc_status = Some v, usc_healthStatus = None\<rparr> opts w
    = (Inr None, w\<lparr>w_db := put_connection_status i v (w_db w)\<rparr>)"
proof -
  let ?u = "\<lparr>usc_id = i, usc_status = Some v, usc_healthStatus = None\<rparr>"
  let ?o = "opts\<lparr>qo_session := True\<rparr>"
  let ?fn = "SyncConnectionRepository_updateState M ?u ?o"
  have id: "sc_id c = i" using find_SomeD[OF assms(1)] by simp
  have eq: "SyncConnectionRepository_updateState M ?u opts = runWithTransaction M ?fn"
    using assms by (simp add: SyncConnectionRepository_updateState_def inSession_def
        reloadConnection_def)
  have upd: "runs (updateConnectionDoc M i f) d () (d\<lparr>db_connections :=
      update_first (\<lambda>c. sc_id c = i) f (db_connections d)\<rparr>)" for f d
    unfolding updateConnectionDoc_def model_ops by (rule runs_write)
  have f: "(\<lambda>c. c\<lparr>sc_state := applyConnectionState ?u (sc_state c)\<rparr>)
      = (\<lambda>c. c\<lparr>sc_state := (sc_state c)\<lparr>cs_status := v\<rparr>\<rparr>)"
    by (simp add: applyConnectionState_def)
  have "runs ?fn (w_db w) None (put_connection_status i v (w_db w))"
    unfolding SyncConnectionRepository_updateState_def inSession_def reloadConnection_def
      put_connection_status_def f
    using assms(2)
    by (auto simp: id intro!: runs_bind[OF runs_findConnection[OF assms(1)]] runs_bind[OF upd]
        runs_return)
  from transaction_runs[OF session_only_connection_updateState this] show ?thesis
    by (simp add: eq)
qed

end

lemma rows_put_rows:
  "find (\<lambda>s. ds_id s = j) (db_sources (put_rows i n d)) =
    (if j = i then map_option (\<lambda>s. s\<lparr>ds_statistics := (ds_statistics s)\<lparr>st_rowsNumber := n\<rparr>\<rparr>)
       (find (\<lambda>s. ds_id s = i) (db_sources d))
     else find (\<lambda>s. ds_id s = j) (db_sources d))"
  by (auto simp: put_rows_def find_update_first_same intro!: find_update_first_other)

lemma put_rows_sel [simp]: "db_syncflows (put_rows i n d) = db_syncflows d"
  by (simp add: put_rows_def)

lemma includeDeletedOnly_sel [simp]:
  "qo_includeDeleted includeDeletedOnly" "\<not> qo_session includeDeletedOnly"
  by (simp_all add: includeDeletedOnly_def)

definition rows_delta :: "SyncflowSucceedPayload \<Rightarrow> int" where
  "rows_delta p = sx_addedRowsCount (sp_statistics p) - sx_deletedRowsCount (sp_statistics p)"

context mongo_driver begin

lemma succeed_run:
  assumes "find (\<lambda>s. sf_id s = sp_syncflowId p) (db_syncflows (w_db w)) = Some sf"
    and "find (\<lambda>s. ds_id s = sp_dataSourceId p) (db_sources (w_db w)) = Some ds"
    and "ds_provider_type ds \<noteq> AIR_TABLE"
    and "xs_delete X (w_calls w @ [c]) = Inr errs"
    and "c = StorageDelete (diffDataKeys (sf_sourceId sf) (sp_prevSyncVersion p))"
    and "n = st_rowsNumber (ds_statistics ds) + rows_delta p"
  shows "handleSyncflowSucceed M X p w = (Inr (), w\<lparr>w_calls := w_calls w @ [c],
    w_db := put_rows (sp_dataSourceId p) n (w_db w),
    w_events := w_events w @ [SyncflowCompleted \<lparr>cp_dataSourceId = sp_dataSourceId p,
      cp_syncflowId = sp_syncflowId p, cp_syncVersion = sp_syncVersion p, cp_rowsNumber = n\<rparr>]\<rparr>)"
proof -
  have clean: "\<exists>f. getWorkflowCleaner X (ds_provider_type ds) = Inr f \<and>
      f sf v pv w = (Inr (), w\<lparr>w_calls := w_calls w @ [c]\<rparr>)" if "pv = sp_prevSyncVersion p" for v pv
    using assms(3-5) that
    by (cases "ds_provider_type ds") (simp_all add: getWorkflowCleaner_def io_simps cleanDiffData_def
        MicrosoftExcelWorkflowCleaner_run_def GoogleSheetsWorkflowCleaner_run_def)
  obtain f where f: "getWorkflowCleaner X (ds_provider_type ds) = Inr f"
    "f sf (sp_syncVersion p) (sp_prevSyncVersion p) w = (Inr (), w\<lparr>w_calls := w_calls w @ [c]\<rparr>)"
    using clean by blast
  show ?thesis
    using assms(1,2,6) f updateStatistics_rows[of "sp_dataSourceId p" "w\<lparr>w_calls := w_calls w @ [c]\<rparr>"]
    by (simp add: handleSyncflowSucceed_def SyncflowRepository_getById_def
        DataSourceRepository_getById_def io_simps Let_def rows_delta_def)
qed

end

lemma find_stopped:
  assumes "find (\<lambda>x. sc_sourceId x = i \<and> \<not> sc_isDeleted x) cs = Some c" "distinct (map sc_id cs)"
  shows "find (\<lambda>x. sc_sourceId x = i \<and> \<not> sc_isDeleted x)
      (update_first (\<lambda>x. sc_id x = sc_id c) (\<lambda>x. x\<lparr>sc_state := f (sc_state x)\<rparr>) cs)
    = Some (c\<lparr>sc_state := f (sc_state c)\<rparr>)"
  using assms by (induction cs) (auto split: if_splits dest: find_SomeD)

definition rows_of :: "oid \<Rightarrow> db \<Rightarrow> int option" where
  "rows_of i d = map_option (\<lambda>s. st_rowsNumber (ds_statistics s))
     (find (\<lambda>s. ds_id s = i) (db_sources d))"

section \<open>Properties\<close>

text \<open>
  What follows a successful run. When the syncflow and the data source are stored (deleted or
  not), the provider is Google Sheets or Excel and the storage answers, the nine objects of the
  previous version are deleted, the row count of the data source changes by the rows the run
  added less those it deleted, one \<open>syncflow.completed\<close> event announces the new count, and
  nothing else changes.
\<close>

theorem success_handled:
  assumes "mongo_ok M"
    and "find (\<lambda>s. sf_id s = sp_syncflowId p) (db_syncflows (w_db w)) = Some sf"
    and "find (\<lambda>s. ds_id s = sp_dataSourceId p) (db_sources (w_db w)) = Some ds"
    and "ds_provider_type ds \<noteq> AIR_TABLE"
    and "xs_delete X (w_calls w @ [c]) = Inr errs"
    and "c = StorageDelete (diffDataKeys (sf_sourceId sf) (sp_prevSyncVersion p))"
    and "n = st_rowsNumber (ds_statistics ds) + rows_delta p"
  shows "postProcessor_handle M X (SyncflowSucceed p) w = (Inr (), w\<lparr>w_calls := w_calls w @ [c],
      w_db := put_rows (sp_dataSourceId p) n (w_db w),
      w_events := w_events w @ [SyncflowCompleted \<lparr>cp_dataSourceId = sp_dataSourceId p,
        cp_syncflowId = sp_syncflowId p, cp_syncVersion = sp_syncVersion p, cp_rowsNumber = n\<rparr>]\<rparr>)
    \<and> rows_of (sp_dataSourceId p) (put_rows (sp_dataSourceId p) n (w_db w)) = Some n
    \<and> length (diffDataKeys (sf_sourceId sf) (sp_prevSyncVersion p)) = 9"
  using mongo_driver.succeed_run[OF mongo_driverI[OF assms(1)] assms(2-6)] assms(3,7)
  by (simp add: postProcessor_handle_def rows_of_def rows_put_rows
      diffDataKeys_def Let_def)

definition example_storage :: storage where
  "example_storage = \<lparr>xs_delete = (\<lambda>_. Inr [])\<rparr>"

definition example_succeed :: "int \<Rightarrow> int \<Rightarrow> SyncflowSucceedPayload" where
  "example_succeed a b = \<lparr>sp_dataSourceId = ''d1'', sp_syncflowId = ''s1'', sp_syncVersion = 1,
     sp_prevSyncVersion = 0, sp_statistics = \<lparr>sx_addedRowsCount = a, sx_deletedRowsCount = b,
       sx_isSchemaChanged = False\<rparr>\<rparr>"

lemma example_found:
  "find (\<lambda>s. sf_id s = ''s1'') (db_syncflows example_db) = Some example_syncflow"
  "find (\<lambda>s. ds_id s = ''d1'') (db_sources example_db) = Some example_source"
  "find (\<lambda>s. sc_id s = ''c1'') (db_connections example_db) = Some example_connection"
  by (simp_all add: example_defs)

theorem success_handled_witness:
  "rows_of ''d1'' (w_db (snd (postProcessor_handle listMongo example_storage
     (SyncflowSucceed (example_succeed 5 2)) example_world))) = Some 3"
  using success_handled [OF listMongo_ok, of "example_succeed 5 2" example_world example_syncflow
      example_source example_storage _ "[]" 3] example_found
  by (simp add: example_succeed_def example_storage_def rows_delta_def example_world_def
      example_source_def defaultDataSourceStatistics_def)

text \<open>
  C30: the statistics add up. Handling any sequence of success events of syncflows of one Google
  Sheets or Excel data source leaves as row count the initial one plus the sum of the rows added
  less the rows deleted by the runs, and emits one completion event per success event.
\<close>

theorem statistics_accumulate:
  assumes "mongo_ok M"
    and "\<forall>p \<in> set ps. sp_dataSourceId p = i \<and>
      find (\<lambda>s. sf_id s = sp_syncflowId p) (db_syncflows (w_db w)) \<noteq> None"
    and "find (\<lambda>s. ds_id s = i) (db_sources (w_db w)) = Some ds"
    and "ds_provider_type ds \<noteq> AIR_TABLE" and "\<forall>cs. \<exists>errs. xs_delete X cs = Inr errs"
  shows "\<exists>w'. for_io ps (\<lambda>p. postProcessor_handle M X (SyncflowSucceed p)) w = (Inr (), w')
    \<and> rows_of i (w_db w') = Some (st_rowsNumber (ds_statistics ds) + sum_list (map rows_delta ps))
    \<and> length (w_events w') = length (w_events w) + length ps"
  using assms(2-4)
proof (induction ps arbitrary: w ds)
  case Nil
  then show ?case by (simp add: rows_of_def)
next
  case (Cons p ps)
  let ?n = "st_rowsNumber (ds_statistics ds) + rows_delta p"
  let ?ds = "ds\<lparr>ds_statistics := (ds_statistics ds)\<lparr>st_rowsNumber := ?n\<rparr>\<rparr>"
  obtain sf where sf: "find (\<lambda>s. sf_id s = sp_syncflowId p) (db_syncflows (w_db w)) = Some sf"
    and pi: "sp_dataSourceId p = i" using Cons.prems(1) by auto
  define c where "c = StorageDelete (diffDataKeys (sf_sourceId sf) (sp_prevSyncVersion p))"
  obtain errs where "xs_delete X (w_calls w @ [c]) = Inr errs" using assms(5) by blast
  note run = mongo_driver.succeed_run[OF mongo_driverI[OF assms(1)] sf, unfolded pi,
      OF Cons.prems(2,3) this c_def, of ?n]
  let ?w = "snd (handleSyncflowSucceed M X p w)"
  have "find (\<lambda>s. ds_id s = i) (db_sources (w_db ?w)) = Some ?ds"
    using run Cons.prems(2) by (simp add: rows_put_rows)
  moreover have "\<forall>q \<in> set ps. sp_dataSourceId q = i \<and>
      find (\<lambda>s. sf_id s = sp_syncflowId q) (db_syncflows (w_db ?w)) \<noteq> None"
    using Cons.prems(1) run by simp
  moreover have "ds_provider_type ?ds \<noteq> AIR_TABLE" using Cons.prems(3) by simp
  ultimately obtain w' where
    "for_io ps (\<lambda>p. postProcessor_handle M X (SyncflowSucceed p)) ?w = (Inr (), w')"
    "rows_of i (w_db w') = Some (st_rowsNumber (ds_statistics ?ds) + sum_list (map rows_delta ps))"
    "length (w_events w') = length (w_events ?w) + length ps"
    using Cons.IH[of ?w ?ds] by blast
  then show ?case using run
    by (simp add: bind_io_run postProcessor_handle_def)
qed

theorem statistics_accumulate_witness:
  "\<exists>w'. for_io [example_succeed 5 2, example_succeed 10 1]
      (\<lambda>p. postProcessor_handle listMongo example_storage (SyncflowSucceed p)) example_world
      = (Inr (), w') \<and> rows_of ''d1'' (w_db w') = Some 12"
  using statistics_accumulate [OF listMongo_ok, of "[example_succeed 5 2, example_succeed 10 1]"
      "''d1''" example_world example_source example_storage] example_found
  by (auto simp: example_succeed_def example_storage_def rows_delta_def example_world_def
      example_source_def defaultDataSourceStatistics_def)

lemma failure_stops:
  assumes "mongo_ok M" and "distinct (map sc_id (db_connections (w_db w)))"
    and "e = SyncflowFailed p \<and> i = fp_dataSourceId p \<or> e = DataSourceError i code msg"
    and "postProcessor_handle M X e w = (r, w')"
  shows "r = Inr () \<and> w_events w' = w_events w \<and> db_syncflows (w_db w') = db_syncflows (w_db w)
    \<and> (\<forall>c. live_connection i (w_db w') = Some c \<longrightarrow> cs_status (sc_state c) = SC_INACTIVE)
    \<and> (\<forall>T t. tr_sourceId t = i \<longrightarrow> snd (handleWorkflowTriggered M T t w') = w')"
proof -
  note d = mongo_driverI[OF assms(1)]
  have h: "stopSyncConnection M i w = (r, w')"
    using assms(3,4) by (auto simp: postProcessor_handle_def handleSyncflowFailed_def
        handleDataSourceError_def)
  have main: "r = Inr () \<and> w_events w' = w_events w \<and> db_syncflows (w_db w') = db_syncflows (w_db w) \<and>
      (\<forall>c. live_connection i (w_db w') = Some c \<longrightarrow> cs_status (sc_state c) = SC_INACTIVE)"
  proof (cases "\<exists>c. live_connection i (w_db w) = Some c \<and> cs_status (sc_state c) = SC_ACTIVE")
    case False
    have "cs_status v = SC_ACTIVE \<or> cs_status v = SC_INACTIVE" for v :: SyncConnectionState
      by (cases "cs_status v") simp_all
    with False h show ?thesis
      by (auto simp: stopSyncConnection_def io_simps mongo_driver.getById_live[OF d]
          split: option.splits)
  next
    case True
    then obtain c where c: "live_connection i (w_db w) = Some c"
      "cs_status (sc_state c) = SC_ACTIVE" by blast
    then have mem: "c \<in> set (db_connections (w_db w))"
      by (auto simp: live_connection_def dest: find_SomeD)
    have "find (\<lambda>x. sc_id x = sc_id c) (db_connections (w_db w)) = Some c"
      by (rule find_key_unique) (use mem assms(2) in simp_all)
    then have w': "r = Inr ()" "w' = w\<lparr>w_db := put_connection_status (sc_id c) SC_INACTIVE (w_db w)\<rparr>"
      using h c mongo_driver.connection_updateStatus[OF d, of "sc_id c" w c no_options]
      by (simp_all add: stopSyncConnection_def io_simps mongo_driver.getById_live[OF d])
    have "live_connection i (w_db w') = Some (c\<lparr>sc_state := (sc_state c)\<lparr>cs_status := SC_INACTIVE\<rparr>\<rparr>)"
      using c(1) mem assms(2) unfolding w' put_connection_status_def live_connection_def
      by (simp add: find_stopped)
    then show ?thesis using w' by (simp add: put_connection_status_def)
  qed
  have "\<not> triggerable t (w_db w') sf ds sc" if "tr_sourceId t = i" for t sf ds sc
    using main that by (auto simp: triggerable_def)
  then show ?thesis using main mongo_driver.handle_not_triggerable[OF d] by blast
qed

text \<open>
  After a failure nothing is scheduled. Once the post-processor has handled the failure of a
  run (\<open>syncflow.failed\<close>) or an error of the data source (\<open>dataSource.error\<close>), the data source has
  no active live connection, and no trigger of the data source, whatever its syncflow, changes the
  store, emits an event or calls a service, until the connection is activated again.
\<close>

theorem failure_stops_scheduling:
  assumes "mongo_ok M" and "keys_distinct (w_db w)"
    and "e = SyncflowFailed p \<and> i = fp_dataSourceId p \<or> e = DataSourceError i code msg"
    and "postProcessor_handle M X e w = (r, w')"
  shows "r = Inr () \<and> w_events w' = w_events w
    \<and> (\<forall>c. live_connection i (w_db w') = Some c \<longrightarrow> cs_status (sc_state c) = SC_INACTIVE)
    \<and> (\<forall>T t. tr_sourceId t = i \<longrightarrow> snd (handleWorkflowTriggered M T t w') = w')"
  using failure_stops[OF assms(1) _ assms(3,4)] assms(2) by (simp add: keys_distinct_def)

definition example_failed :: SyncflowFailedPayload where
  "example_failed = \<lparr>fp_dataSourceId = ''d1'', fp_syncflowId = ''s1'', fp_syncVersion = 1,
     fp_error_type = ET_EXTERNAL, fp_error_code = TOKEN_INVALID, fp_error_message = ''m''\<rparr>"

theorem failure_stops_scheduling_witness:
  "\<exists>r w'. postProcessor_handle listMongo example_storage (SyncflowFailed example_failed)
     example_world = (r, w') \<and> (\<forall>c. live_connection ''d1'' (w_db w') = Some c \<longrightarrow>
       cs_status (sc_state c) = SC_INACTIVE)"
proof -
  obtain r w' where h: "postProcessor_handle listMongo example_storage
      (SyncflowFailed example_failed) example_world = (r, w')" by (metis surj_pair)
  show ?thesis
    using failure_stops_scheduling [OF listMongo_ok _ _ h, of example_failed "''d1''"] h
    by (simp add: example_failed_def keys_distinct_def example_defs)
qed

end
