(* ===== verification/WorkerActivities.thy ===== *)
theory WorkerActivities
  imports SourceRepository ThirdParty
begin

text \<open>
  The worker's activities: \<open>apps/worker/src/modules/workflow/workflow.service.ts\<close>,
  \<open>apps/worker/src/activities/workflow.activities.ts\<close>, \<open>activities/google-sheets/index.ts\<close> and
  \<open>activities/microsoft-excel/index.ts\<close>. The processors they call over HTTP are the parameter
  \<open>P :: processors\<close>. The API key header of the requests is left out of the logged calls.
\<close>

record processors =
  px_downloaderUrl :: string
  px_comparerUrl :: string
  px_loaderUrl :: string
  px_post :: "ext_call list \<Rightarrow> js_error + unit"
  px_load :: "ext_call list \<Rightarrow> js_error + SyncStatistics"   \<comment> \<open>\<open>res.data.data\<close>\<close>

section \<open>Workflow service and activities\<close>

text \<open>The message of the not-found error reads \<open>syncflow.id\<close> of the \<open>null\<close> result: a
  \<open>TypeError\<close>.\<close>

definition WorkflowService_checkAndUpdateStatusBeforeStartSyncflow ::
  "mongo \<Rightarrow> oid \<Rightarrow> Syncflow option act" where
  "WorkflowService_checkAndUpdateStatusBeforeStartSyncflow M i =
    bind_io (SyncflowRepository_getById M i no_options) (\<lambda>syncflow. case syncflow of
      None \<Rightarrow> throw_io TypeError
    | Some sf \<Rightarrow>
        if ss_status (sf_state sf) = RUNNING
        then throw_io (AcceptableActivityError (''Syncflow already started: '' @ sf_id sf)
               (AcceptSyncflow sf))
        else SyncflowRepository_updateStatus M i RUNNING (no_options\<lparr>qo_new := True\<rparr>))"

definition WorkflowService_updateSyncflowStatus ::
  "mongo \<Rightarrow> oid \<Rightarrow> WorkflowStatus \<Rightarrow> Syncflow option act" where
  "WorkflowService_updateSyncflowStatus M i status =
    SyncflowRepository_updateStatus M i status no_options"

definition WorkflowService_updateSyncflowState ::
  "mongo \<Rightarrow> oid \<Rightarrow> SyncflowStateUpdate \<Rightarrow> Syncflow option act" where
  "WorkflowService_updateSyncflowState M i state =
    SyncflowRepository_updateState M i state no_options"

definition checkAndUpdateStatusBeforeStartSyncflow ::
  "mongo \<Rightarrow> oid \<Rightarrow> (Syncflow option + AcceptableData) act" where
  "checkAndUpdateStatusBeforeStartSyncflow M i =
    activityWrapper (WorkflowService_checkAndUpdateStatusBeforeStartSyncflow M i)"

definition updateSyncflowStatus ::
  "mongo \<Rightarrow> oid \<Rightarrow> WorkflowStatus \<Rightarrow> (Syncflow option + AcceptableData) act" where
  "updateSyncflowStatus M i status =
    activityWrapper (WorkflowService_updateSyncflowStatus M i status)"

definition updateSyncflowState ::
  "mongo \<Rightarrow> oid \<Rightarrow> SyncflowStateUpdate \<Rightarrow> (Syncflow option + AcceptableData) act" where
  "updateSyncflowState M i state =
    activityWrapper (WorkflowService_updateSyncflowState M i state)"

section \<open>Google Sheets activities\<close>

text \<open>The data source of a syncflow, or an error that does not fail the workflow.\<close>

definition sourceOfSyncflow :: "mongo \<Rightarrow> Syncflow \<Rightarrow> DataSource act" where
  "sourceOfSyncflow M syncflow =
    bind_io (DataSourceRepository_getById M (sf_sourceId syncflow) no_options)
      (\<lambda>dataSource. case dataSource of
         None \<Rightarrow> throw_io (UnacceptableActivityError
           (''DataSource not found: '' @ sf_sourceId syncflow) (workflowFail False))
       | Some ds \<Rightarrow> return_io ds)"

definition providerOrReject :: "mongo \<Rightarrow> oid \<Rightarrow> DataProvider act" where
  "providerOrReject M i =
    bind_io (DataProviderRepository_getById M i no_options)
      (\<lambda>dataProvider. case dataProvider of
         None \<Rightarrow> throw_io (UnacceptableActivityError
           (''DataProvider not found: '' @ i) (workflowFail False))
       | Some p \<Rightarrow> return_io p)"

text \<open>\<open>providerState?.downloadedAt\<close>.\<close>

definition providerDownloadedAt :: "DataProvider \<Rightarrow> date option" where
  "providerDownloadedAt p = Option.bind (dp_state p) ps_downloadedAt"

record DataStateGoogleSheets =
  dst_providerDownloadedAt :: "date option"
  dst_downloadedAt :: "date option"

definition getDataStateGoogleSheets ::
  "mongo \<Rightarrow> Syncflow \<Rightarrow> (DataStateGoogleSheets + AcceptableData) act" where
  "getDataStateGoogleSheets M syncflow = activityWrapper
    (bind_io (sourceOfSyncflow M syncflow) (\<lambda>dataSource.
     bind_io (providerOrReject M (ds_provider_id dataSource)) (\<lambda>dataProvider.
     return_io \<lparr>dst_providerDownloadedAt = providerDownloadedAt dataProvider,
       dst_downloadedAt = ss_downloadedAt (sf_state syncflow)\<rparr>)))"

record DownloadData =
  dd_dataSourceId :: oid
  dd_dataProviderId :: oid
  dd_providerDownloadedAt :: "date option"
  dd_downloadedAt :: "date option"
  dd_ingestedAt :: "date option"
  dd_spreadsheetId :: "string option"
  dd_sheetId :: "string option"
  dd_refreshToken :: "string option"

definition getDownloadDataGoogleSheets ::
  "mongo \<Rightarrow> Syncflow \<Rightarrow> (DownloadData + AcceptableData) act" where
  "getDownloadDataGoogleSheets M syncflow = activityWrapper
    (bind_io (sourceOfSyncflow M syncflow) (\<lambda>dataSource.
     bind_io (providerOrReject M (ds_provider_id dataSource)) (\<lambda>provider.
     return_io \<lparr>dd_dataSourceId = sf_sourceId syncflow,
       dd_dataProviderId = ds_provider_id dataSource,
       dd_providerDownloadedAt = providerDownloadedAt provider,
       dd_downloadedAt = ss_downloadedAt (sf_state syncflow),
       dd_ingestedAt = ss_ingestedAt (sf_state syncflow),
       dd_spreadsheetId = cfg_spreadsheetId (ds_config dataSource),
       dd_sheetId = cfg_sheetId (ds_config dataSource),
       dd_refreshToken = cfg_auth (ds_config dataSource)\<rparr>)))"

text \<open>\<open>dataSource.provider\<close> of a result that may be \<open>null\<close>; the id and type of the provider.\<close>

definition getDataSourceProviderGoogleSheets ::
  "mongo \<Rightarrow> oid \<Rightarrow> ((oid \<times> ProviderType) + AcceptableData) act" where
  "getDataSourceProviderGoogleSheets M dataSourceId = activityWrapper
    (bind_io (DataSourceRepository_getById M dataSourceId no_options)
      (\<lambda>dataSource. case dataSource of
         None \<Rightarrow> throw_io TypeError
       | Some ds \<Rightarrow> return_io (ds_provider_id ds, ds_provider_type ds)))"

record SpreadSheetData =
  ssd_timeZone :: string
  ssd_sheets :: "(string \<times> string \<times> int) list"   \<comment> \<open>sheet id, name, index\<close>

definition getSpreadSheetDataGoogleSheets ::
  "third_party \<Rightarrow> string option \<Rightarrow> string option \<Rightarrow> (SpreadSheetData + AcceptableData) act" where
  "getSpreadSheetDataGoogleSheets T spreadsheetId refreshToken = activityWrapper
    (bind_io (GoogleSheetsService_getSpreadSheets T refreshToken spreadsheetId
        ''sheets.properties.sheetId,sheets.properties.index,sheets.properties.title,properties.timeZone'')
      (\<lambda>res. return_io \<lparr>ssd_timeZone = sp_timeZone res,
         ssd_sheets = (case sp_sheets res of None \<Rightarrow> []
           | Some sheets \<Rightarrow> fold (\<lambda>sheet. AList.update (show_int (sh_sheetId sheet))
               (sh_title sheet, sh_index sheet)) sheets [])\<rparr>))"

definition updateProviderStateGoogleSheets ::
  "mongo \<Rightarrow> oid \<Rightarrow> ProviderState \<Rightarrow> (unit + AcceptableData) act" where
  "updateProviderStateGoogleSheets M i data = activityWrapper
    (bind_io (providerOrReject M i) (\<lambda>_.
     bind_io (DataProviderRepository_updateState M i data no_options) (\<lambda>_. return_io ())))"

record SyncData =
  sy_dataSourceId :: oid
  sy_dataProviderId :: "oid option"
  sy_syncVersion :: int
  sy_prevVersion :: int
  sy_spreadsheetId :: "string option"
  sy_sheetId :: "string option"
  sy_workbookId :: "string option"
  sy_worksheetId :: "string option"
  sy_timezone :: "string option"
  sy_refreshToken :: "string option"
  sy_destTableName :: string
  sy_metadata :: "Metadata option"

text \<open>\<open>config.dest?.tableName || `_${dataSource.id}`\<close>.\<close>

definition destTableName :: "DataSource \<Rightarrow> string" where
  "destTableName ds = (if truthy_str (cfg_destTableName (ds_config ds))
     then the (cfg_destTableName (ds_config ds)) else CHR ''_'' # ds_id ds)"

text \<open>The metadata is sent only for the first sync (\<open>prevVersion === 0\<close>).\<close>

definition initialMetadata :: "Syncflow \<Rightarrow> DataSource \<Rightarrow> Metadata option" where
  "initialMetadata syncflow ds =
    (if ss_prevVersion (sf_state syncflow) = 0 then ds_metadata ds else None)"

definition getSyncDataGoogleSheets ::
  "mongo \<Rightarrow> Syncflow \<Rightarrow> (SyncData + AcceptableData) act" where
  "getSyncDataGoogleSheets M syncflow = activityWrapper
    (bind_io (sourceOfSyncflow M syncflow) (\<lambda>dataSource.
     bind_io (providerOrReject M (ds_provider_id dataSource)) (\<lambda>dataProvider.
     return_io \<lparr>sy_dataSourceId = sf_sourceId syncflow,
       sy_dataProviderId = Some (ds_provider_id dataSource),
       sy_syncVersion = ss_version (sf_state syncflow),
       sy_prevVersion = ss_prevVersion (sf_state syncflow),
       sy_spreadsheetId = cfg_spreadsheetId (ds_config dataSource),
       sy_sheetId = cfg_sheetId (ds_config dataSource),
       sy_workbookId = None, sy_worksheetId = None, sy_timezone = None,
       sy_refreshToken = cfg_auth (ds_config dataSource),
       sy_destTableName = destTableName dataSource,
       sy_metadata = initialMetadata syncflow dataSource\<rparr>)))"

text \<open>Request bodies: a key whose value is \<open>undefined\<close> is not sent.\<close>

definition optField :: "string \<Rightarrow> string option \<Rightarrow> (string \<times> json) list" where
  "optField k v = (case v of None \<Rightarrow> [] | Some s \<Rightarrow> [(k, JStr s)])"

definition metadataField :: "Metadata option \<Rightarrow> (string \<times> json) list" where
  "metadataField m = [(''metadata'', case m of None \<Rightarrow> JNull
     | Some kvs \<Rightarrow> JObj (map (\<lambda>(k, v). (k, JStr v)) kvs))]"

definition downloadGoogleSheets ::
  "third_party \<Rightarrow> processors \<Rightarrow> oid \<Rightarrow> string option \<Rightarrow> string option \<Rightarrow>
   (unit + AcceptableData) act" where
  "downloadGoogleSheets T P dataProviderId spreadsheetId refreshToken =
    activityWrapper (processorWrapper ''downloader''
      (bind_io (GoogleService_getAccessToken T refreshToken) (\<lambda>accessToken.
       processorApiWrapper (callService (px_post P)
         (HttpPost (px_downloaderUrl P @ ''/api/v1/google-sheets/download'')
           (JObj ([(''dataProviderId'', JStr dataProviderId)] @
             optField ''spreadsheetId'' spreadsheetId @
             [(''accessToken'', JStr accessToken)])))))))"

definition ingestGoogleSheets ::
  "third_party \<Rightarrow> processors \<Rightarrow> SyncData \<Rightarrow> int \<Rightarrow> (unit + AcceptableData) act" where
  "ingestGoogleSheets T P data syncVersion =
    activityWrapper (processorWrapper ''downloader''
      (bind_io (GoogleService_getAccessToken T (sy_refreshToken data)) (\<lambda>accessToken.
       processorApiWrapper (callService (px_post P)
         (HttpPost (px_downloaderUrl P @ ''/api/v1/google-sheets/ingest'')
           (JObj ([(''dataSourceId'', JStr (sy_dataSourceId data))] @
             optField ''dataProviderId'' (sy_dataProviderId data) @
             [(''syncVersion'', JNum syncVersion)] @
             optField ''spreadsheetId'' (sy_spreadsheetId data) @
             optField ''sheetId'' (sy_sheetId data) @
             [(''accessToken'', JStr accessToken)])))))))"

definition compareBody :: "oid \<Rightarrow> int \<Rightarrow> int \<Rightarrow> json" where
  "compareBody dataSourceId syncVersion prevVersion =
    JObj [(''dataSourceId'', JStr dataSourceId), (''syncVersion'', JNum syncVersion),
      (''prevVersion'', JNum prevVersion)]"

definition loadBody :: "SyncData \<Rightarrow> int \<Rightarrow> int \<Rightarrow> json" where
  "loadBody data syncVersion prevVersion =
    JObj ([(''dataSourceId'', JStr (sy_dataSourceId data)), (''syncVersion'', JNum syncVersion),
      (''prevVersion'', JNum prevVersion), (''tableName'', JStr (sy_destTableName data))] @
      metadataField (sy_metadata data))"

definition compareGoogleSheets ::
  "processors \<Rightarrow> oid \<Rightarrow> int \<Rightarrow> int \<Rightarrow> (unit + AcceptableData) act" where
  "compareGoogleSheets P dataSourceId syncVersion prevVersion =
    activityWrapper (processorWrapper ''comparer'' (processorApiWrapper
      (callService (px_post P) (HttpPost (px_comparerUrl P @ ''/api/v1/google-sheets/compare'')
        (compareBody dataSourceId syncVersion prevVersion)))))"

definition loadGoogleSheets ::
  "processors \<Rightarrow> SyncData \<Rightarrow> int \<Rightarrow> int \<Rightarrow> (SyncStatistics + AcceptableData) act" where
  "loadGoogleSheets P data syncVersion prevVersion =
    activityWrapper (processorWrapper ''loader'' (processorApiWrapper
      (callService (px_load P) (HttpPost (px_loaderUrl P @ ''/api/v1/google-sheets/load'')
        (loadBody data syncVersion prevVersion)))))"

section \<open>Microsoft Excel activities\<close>

text \<open>\<open>getSyncDataExcel\<close> is not wrapped: its error leaves the activity as it is thrown.\<close>

definition getSyncDataExcel :: "mongo \<Rightarrow> Syncflow \<Rightarrow> SyncData act" where
  "getSyncDataExcel M syncflow =
    bind_io (sourceOfSyncflow M syncflow) (\<lambda>dataSource.
     return_io \<lparr>sy_dataSourceId = sf_sourceId syncflow, sy_dataProviderId = None,
       sy_syncVersion = ss_version (sf_state syncflow),
       sy_prevVersion = ss_prevVersion (sf_state syncflow),
       sy_spreadsheetId = None, sy_sheetId = None,
       sy_workbookId = cfg_workbookId (ds_config dataSource),
       sy_worksheetId = cfg_worksheetId (ds_config dataSource),
       sy_timezone = cfg_timezone (ds_config dataSource),
       sy_refreshToken = cfg_auth (ds_config dataSource),
       sy_destTableName = destTableName dataSource,
       sy_metadata = initialMetadata syncflow dataSource\<rparr>)"

definition downloadExcel ::
  "third_party \<Rightarrow> processors \<Rightarrow> SyncData \<Rightarrow> int \<Rightarrow> (unit + AcceptableData) act" where
  "downloadExcel T P data syncVersion =
    activityWrapper (processorWrapper ''downloader''
      (bind_io (MicrosoftService_getAccessToken T (sy_refreshToken data)) (\<lambda>accessToken.
       processorApiWrapper (callService (px_post P)
         (HttpPost (px_downloaderUrl P @ ''/api/v1/excel/download'')
           (JObj ([(''dataSourceId'', JStr (sy_dataSourceId data)),
               (''syncVersion'', JNum syncVersion)] @
             optField ''workbookId'' (sy_workbookId data) @
             optField ''worksheetId'' (sy_worksheetId data) @
             optField ''timezone'' (sy_timezone data) @
             [(''accessToken'', JStr accessToken)])))))))"

definition compareExcel ::
  "processors \<Rightarrow> oid \<Rightarrow> int \<Rightarrow> int \<Rightarrow> (unit + AcceptableData) act" where
  "compareExcel P dataSourceId syncVersion prevVersion =
    activityWrapper (processorWrapper ''comparer'' (processorApiWrapper
      (callService (px_post P) (HttpPost (px_comparerUrl P @ ''/api/v1/excel/compare'')
        (compareBody dataSourceId syncVersion prevVersion)))))"

definition loadExcel ::
  "processors \<Rightarrow> SyncData \<Rightarrow> int \<Rightarrow> int \<Rightarrow> (SyncStatistics + AcceptableData) act" where
  "loadExcel P data syncVersion prevVersion =
    activityWrapper (processorWrapper ''loader'' (processorApiWrapper
      (callService (px_load P) (HttpPost (px_loaderUrl P @ ''/api/v1/excel/load'')
        (loadBody data syncVersion prevVersion)))))"

end
