(* ===== verification/WorkerWorkflows.thy ===== *)
theory WorkerWorkflows
  imports WorkerActivities Examples
begin

text \<open>
  The worker's Temporal workflows: \<open>apps/worker/src/workflows/google-sheets/index.ts\<close> and
  \<open>microsoft-excel/index.ts\<close>. A workflow reaches its activities through proxies, which are the
  fields of the record \<open>A :: worker_proxies\<close>; the locale \<open>worker_activities\<close> states what the
  workflows rely on, and the proxies over the worker's own activities implement it.
\<close>

section \<open>Activity proxies\<close>

record worker_proxies =
  wp_checkAndUpdateStatusBeforeStartSyncflow :: "oid \<Rightarrow> unit act"
  wp_updateSyncflowState :: "oid \<Rightarrow> SyncflowStateUpdate \<Rightarrow> unit act"
  wp_updateSyncflowStatus :: "oid \<Rightarrow> WorkflowStatus \<Rightarrow> unit act"
  wp_emitEvent :: "event \<Rightarrow> unit act"
  wp_getDataSourceProviderGoogleSheets :: "oid \<Rightarrow> (oid \<times> ProviderType) act"
  wp_getDownloadDataGoogleSheets :: "Syncflow \<Rightarrow> DownloadData act"
  wp_downloadGoogleSheets :: "oid \<Rightarrow> string option \<Rightarrow> string option \<Rightarrow> unit act"
  wp_updateProviderStateGoogleSheets :: "oid \<Rightarrow> ProviderState \<Rightarrow> unit act"
  wp_getSyncDataGoogleSheets :: "Syncflow \<Rightarrow> SyncData act"
  wp_ingestGoogleSheets :: "SyncData \<Rightarrow> int \<Rightarrow> unit act"
  wp_compareGoogleSheets :: "oid \<Rightarrow> int \<Rightarrow> int \<Rightarrow> unit act"
  wp_loadGoogleSheets :: "SyncData \<Rightarrow> int \<Rightarrow> int \<Rightarrow> SyncStatistics act"
  wp_getSyncDataExcel :: "Syncflow \<Rightarrow> SyncData act"
  wp_downloadExcel :: "SyncData \<Rightarrow> int \<Rightarrow> unit act"
  wp_compareExcel :: "oid \<Rightarrow> int \<Rightarrow> int \<Rightarrow> unit act"
  wp_loadExcel :: "SyncData \<Rightarrow> int \<Rightarrow> int \<Rightarrow> SyncStatistics act"

definition now_io :: "date act" where
  "now_io = gets_io w_now"

section \<open>Google Sheets workflows\<close>

definition isWithinOneMinuteRange :: "date \<Rightarrow> date \<Rightarrow> bool" where
  "isWithinOneMinuteRange date1 date2 = (abs (date1 - date2) \<le> 60 * 1000)"

definition failedPayload :: "ScheduledPayload \<Rightarrow> ErrorType \<Rightarrow> ErrorData \<Rightarrow> event" where
  "failedPayload data ty ed = SyncflowFailed
    \<lparr>fp_dataSourceId = sf_sourceId (sd_syncflow data), fp_syncflowId = sf_id (sd_syncflow data),
     fp_syncVersion = sd_version data, fp_error_type = ty, fp_error_code = ed_code ed,
     fp_error_message = ed_message ed\<rparr>"

definition dataSourceErrorPayload :: "ScheduledPayload \<Rightarrow> ErrorData \<Rightarrow> event" where
  "dataSourceErrorPayload data ed =
     DataSourceError (sf_sourceId (sd_syncflow data)) (ed_code ed) (ed_message ed)"

text \<open>\<open>errorDetail?.errorData\<close>.\<close>

definition errorDataOf :: "js_error \<Rightarrow> ErrorData option" where
  "errorDataOf error = Option.bind (getActivityErrorDetail error) fd_errorData"

text \<open>The handler shared by the Google Sheets workflows: it always rethrows.\<close>

definition GoogleSheetsFullSyncErrorHandler ::
  "worker_proxies \<Rightarrow> js_error \<Rightarrow> ScheduledPayload \<Rightarrow> 'a act" where
  "GoogleSheetsFullSyncErrorHandler A error data =
    (let retryState = no_update\<lparr>up_version := Some (sd_version data + 1),
           up_status := Some IDLING\<rparr>
     in case errorDataOf error of
        None \<Rightarrow> throw_io error
      | Some ed \<Rightarrow>
          if ed_type ed = Some ET_EXTERNAL then
            bind_io (wp_updateSyncflowState A (sf_id (sd_syncflow data)) retryState) (\<lambda>_.
            bind_io (wp_emitEvent A (dataSourceErrorPayload data ed)) (\<lambda>_.
            bind_io (wp_emitEvent A (failedPayload data ET_EXTERNAL ed)) (\<lambda>_.
            throw_io error)))
          else if ed_type ed = Some ET_INTERNAL then
            bind_io (wp_updateSyncflowState A (sf_id (sd_syncflow data)) retryState) (\<lambda>_.
            bind_io (wp_emitEvent A (failedPayload data ET_INTERNAL ed)) (\<lambda>_.
            throw_io error))
          else throw_io error)"

text \<open>\<open>providerDownloadedAt && ((!ingestedAt && isWithinOneMinuteRange(new Date(),
  providerDownloadedAt)) || ingestedAt < providerDownloadedAt)\<close>; a comparison with
  \<open>undefined\<close> is false.\<close>

definition hasFreshDownload :: "date \<Rightarrow> DownloadData \<Rightarrow> bool" where
  "hasFreshDownload now d = (case dd_providerDownloadedAt d of
     None \<Rightarrow> False
   | Some p \<Rightarrow> (case dd_ingestedAt d of
       None \<Rightarrow> isWithinOneMinuteRange now p
     | Some i \<Rightarrow> i < p))"

definition googleSheetsDownload ::
  "worker_proxies \<Rightarrow> ScheduledPayload \<Rightarrow> (unit + unit) act" where
  "googleSheetsDownload A data = workflowWrapper (catch_io
    (bind_io (wp_getDownloadDataGoogleSheets A (sd_syncflow data)) (\<lambda>downloadData.
     bind_io now_io (\<lambda>now.
     bind_io
       (if hasFreshDownload now downloadData then
          wp_updateSyncflowState A (sf_id (sd_syncflow data))
            (no_update\<lparr>up_downloadedAt := dd_providerDownloadedAt downloadData\<rparr>)
        else
          bind_io (wp_downloadGoogleSheets A (dd_dataProviderId downloadData)
            (dd_spreadsheetId downloadData) (dd_refreshToken downloadData)) (\<lambda>_.
          bind_io now_io (\<lambda>downloadedAt.
          bind_io (wp_updateProviderStateGoogleSheets A (dd_dataProviderId downloadData)
            \<lparr>ps_downloadedAt = Some downloadedAt\<rparr>) (\<lambda>_.
          wp_updateSyncflowState A (sf_id (sd_syncflow data))
            (no_update\<lparr>up_downloadedAt := Some downloadedAt\<rparr>))))) (\<lambda>_.
     wp_emitEvent A (GoogleSheetsProceedSync data)))))
    (\<lambda>error. GoogleSheetsFullSyncErrorHandler A error data))"

definition googleSheetsProceedSync ::
  "worker_proxies \<Rightarrow> ScheduledPayload \<Rightarrow> (unit + unit) act" where
  "googleSheetsProceedSync A data = workflowWrapper (catch_io
    (bind_io (wp_getSyncDataGoogleSheets A (sd_syncflow data)) (\<lambda>syncData.
     let syncVersion = sd_version data;
         prevSyncVersion = ss_prevVersion (sf_state (sd_syncflow data))
     in
     bind_io (wp_ingestGoogleSheets A syncData syncVersion) (\<lambda>_.
     bind_io now_io (\<lambda>ingestedAt.
     bind_io (wp_updateSyncflowState A (sf_id (sd_syncflow data))
       (no_update\<lparr>up_ingestedAt := Some ingestedAt\<rparr>)) (\<lambda>_.
     bind_io (wp_compareGoogleSheets A (sy_dataSourceId syncData) syncVersion prevSyncVersion) (\<lambda>_.
     bind_io (wp_loadGoogleSheets A syncData syncVersion prevSyncVersion)
       (\<lambda>loadedDataStatistics.
     bind_io (wp_emitEvent A (SyncflowSucceed
       \<lparr>sp_dataSourceId = sy_dataSourceId syncData, sp_syncflowId = sf_id (sd_syncflow data),
        sp_syncVersion = syncVersion, sp_prevSyncVersion = prevSyncVersion,
        sp_statistics = loadedDataStatistics\<rparr>)) (\<lambda>_.
     wp_updateSyncflowState A (sf_id (sd_syncflow data))
       (no_update\<lparr>up_version := Some (sd_version data + 1),
         up_prevVersion := Some (sd_version data), up_status := Some IDLING\<rparr>)))))))))
    (\<lambda>error. GoogleSheetsFullSyncErrorHandler A error data))"

definition googleSheetsFullSync ::
  "worker_proxies \<Rightarrow> ScheduledPayload \<Rightarrow> (unit + unit) act" where
  "googleSheetsFullSync A data = workflowWrapper (catch_io
    (bind_io (wp_checkAndUpdateStatusBeforeStartSyncflow A (sf_id (sd_syncflow data))) (\<lambda>_.
     bind_io (wp_getDataSourceProviderGoogleSheets A (sf_sourceId (sd_syncflow data)))
       (\<lambda>(providerId, _).
     wp_emitEvent A (GoogleSheetsDownload providerId data))))
    (\<lambda>error. GoogleSheetsFullSyncErrorHandler A error data))"

section \<open>Microsoft Excel workflow\<close>

text \<open>The catch block of \<open>excelFullSync\<close>. It reads \<open>errorDetail.errorData\<close> without \<open>?.\<close>, so an
  error without details becomes a \<open>TypeError\<close>; an internal processor error is not rethrown.\<close>

definition excelErrorHandler ::
  "worker_proxies \<Rightarrow> js_error \<Rightarrow> ScheduledPayload \<Rightarrow> unit act" where
  "excelErrorHandler A error data = (case getActivityErrorDetail error of
     None \<Rightarrow> throw_io TypeError
   | Some errorDetail \<Rightarrow>
     (case fd_errorData errorDetail of
        None \<Rightarrow> throw_io error
      | Some ed \<Rightarrow>
          if ed_type ed = Some ET_EXTERNAL then
            bind_io (wp_updateSyncflowStatus A (sf_id (sd_syncflow data)) IDLING) (\<lambda>_.
            bind_io (wp_emitEvent A (dataSourceErrorPayload data ed)) (\<lambda>_.
            bind_io (wp_emitEvent A (failedPayload data ET_EXTERNAL ed)) (\<lambda>_.
            throw_io error)))
          else if ed_type ed = Some ET_INTERNAL then
            bind_io (wp_updateSyncflowStatus A (sf_id (sd_syncflow data)) IDLING) (\<lambda>_.
            wp_emitEvent A (failedPayload data ET_INTERNAL ed))
          else throw_io error))"

definition excelFullSync ::
  "worker_proxies \<Rightarrow> ScheduledPayload \<Rightarrow> (unit + unit) act" where
  "excelFullSync A data = workflowWrapper (catch_io
    (bind_io (wp_checkAndUpdateStatusBeforeStartSyncflow A (sf_id (sd_syncflow data))) (\<lambda>_.
     bind_io (wp_getSyncDataExcel A (sd_syncflow data)) (\<lambda>syncData.
     let syncVersion = sd_version data;
         prevSyncVersion = ss_prevVersion (sf_state (sd_syncflow data))
     in
     bind_io (wp_downloadExcel A syncData syncVersion) (\<lambda>_.
     bind_io (wp_compareExcel A (sy_dataSourceId syncData) syncVersion prevSyncVersion) (\<lambda>_.
     bind_io (wp_loadExcel A syncData syncVersion prevSyncVersion) (\<lambda>loadedDataStatistics.
     bind_io (wp_emitEvent A (SyncflowSucceed
       \<lparr>sp_dataSourceId = sy_dataSourceId syncData, sp_syncflowId = sf_id (sd_syncflow data),
        sp_syncVersion = syncVersion, sp_prevSyncVersion = prevSyncVersion,
        sp_statistics = loadedDataStatistics\<rparr>)) (\<lambda>_.
     wp_updateSyncflowState A (sf_id (sd_syncflow data))
       (no_update\<lparr>up_version := Some (sd_version data + 1),
         up_prevVersion := Some (sd_version data), up_status := Some IDLING\<rparr>))))))))
    (\<lambda>error. excelErrorHandler A error data))"

section \<open>What the workflows rely on\<close>

text \<open>The syncflow collection and the events, which only some activities may change.\<close>

abbreviation flow_obs :: "world \<Rightarrow> Syncflow list \<times> event list" where
  "flow_obs w \<equiv> (db_syncflows (w_db w), w_events w)"

text \<open>Status, version and previous version of a live syncflow.\<close>

definition flow_state :: "oid \<Rightarrow> world \<Rightarrow> (WorkflowStatus \<times> int \<times> int) option" where
  "flow_state i w = map_option (\<lambda>s. (ss_status (sf_state s), ss_version (sf_state s),
     ss_prevVersion (sf_state s))) (live_syncflow i (w_db w))"

text \<open>How a run can end. A successful run announces the version it loaded and leaves the syncflow
  idle, one version further, with that version as the previous one.\<close>

definition run_succeeded :: "ScheduledPayload \<Rightarrow> world \<Rightarrow> world \<Rightarrow> bool" where
  "run_succeeded data w w' \<longleftrightarrow>
     (\<exists>src st. w_events w' = w_events w @ [SyncflowSucceed \<lparr>sp_dataSourceId = src,
        sp_syncflowId = sf_id (sd_syncflow data), sp_syncVersion = sd_version data,
        sp_prevSyncVersion = ss_prevVersion (sf_state (sd_syncflow data)), sp_statistics = st\<rparr>]) \<and>
     flow_state (sf_id (sd_syncflow data)) w'
       = map_option (\<lambda>_. (IDLING, sd_version data + 1, sd_version data))
           (flow_state (sf_id (sd_syncflow data)) w)"

text \<open>A run that failed in a processor: the given events, an idle syncflow whose version is given
  as a function of the stored one, and the previous version kept.\<close>

definition run_failed ::
  "event list \<Rightarrow> (int \<Rightarrow> int) \<Rightarrow> ScheduledPayload \<Rightarrow> world \<Rightarrow> world \<Rightarrow> bool" where
  "run_failed evs nv data w w' \<longleftrightarrow> w_events w' = w_events w @ evs \<and>
     flow_state (sf_id (sd_syncflow data)) w'
       = map_option (\<lambda>(_, v, p). (IDLING, nv v, p)) (flow_state (sf_id (sd_syncflow data)) w)"

lemma flow_state_put:
  assumes "\<And>u s. ss_status (U u s) = (case up_status u of None \<Rightarrow> ss_status s | Some v \<Rightarrow> v)"
    and "\<And>u s. ss_version (U u s) = (case up_version u of None \<Rightarrow> ss_version s | Some v \<Rightarrow> v)"
    and "\<And>u s. ss_prevVersion (U u s)
      = (case up_prevVersion u of None \<Rightarrow> ss_prevVersion s | Some v \<Rightarrow> v)"
  shows "flow_state i (w2\<lparr>w_db := put_state i (U u) (w_db w)\<rparr>) = map_option (\<lambda>(st, v, p).
    (case up_status u of None \<Rightarrow> st | Some x \<Rightarrow> x, case up_version u of None \<Rightarrow> v | Some x \<Rightarrow> x,
     case up_prevVersion u of None \<Rightarrow> p | Some x \<Rightarrow> x)) (flow_state i w)"
  using assms by (simp add: flow_state_def live_syncflow_put_state option.map_comp comp_def)

lemma flow_state_cong: "w_db w = w_db w' \<Longrightarrow> flow_state i w = flow_state i w'"
  by (simp add: flow_state_def)

lemma flow_state_events [simp]: "flow_state i (w\<lparr>w_events := e\<rparr>) = flow_state i w"
  by (simp add: flow_state_def)

lemma keeps_flow_state:
  assumes "keeps flow_obs m"
  shows "keeps (\<lambda>w. (w_events w, flow_state i w)) m"
  by (rule keeps_weaken[OF assms]) (simp add: flow_state_def live_syncflow_def)

locale worker_activities =
  fixes A :: worker_proxies and U :: "SyncflowStateUpdate \<Rightarrow> SyncflowState \<Rightarrow> SyncflowState"
  assumes update_state: "wp_updateSyncflowState A i u w
      = (Inr (), w\<lparr>w_db := put_state i (U u) (w_db w)\<rparr>)"
    and update_status: "wp_updateSyncflowStatus A i st w
      = (Inr (), w\<lparr>w_db := put_state i (U (no_update\<lparr>up_status := Some st\<rparr>)) (w_db w)\<rparr>)"
    and emit: "wp_emitEvent A e w = (Inr (), w\<lparr>w_events := w_events w @ [e]\<rparr>)"
    and U_fields: "ss_status (U u s) = (case up_status u of None \<Rightarrow> ss_status s | Some v \<Rightarrow> v)"
      "ss_version (U u s) = (case up_version u of None \<Rightarrow> ss_version s | Some v \<Rightarrow> v)"
      "ss_prevVersion (U u s) = (case up_prevVersion u of None \<Rightarrow> ss_prevVersion s | Some v \<Rightarrow> v)"
    and data_keeps: "keeps flow_obs (wp_getDataSourceProviderGoogleSheets A d)"
      "keeps flow_obs (wp_getDownloadDataGoogleSheets A sf)"
      "keeps flow_obs (wp_downloadGoogleSheets A p x y)"
      "keeps flow_obs (wp_updateProviderStateGoogleSheets A p ps)"
      "keeps flow_obs (wp_getSyncDataGoogleSheets A sf)"
      "keeps flow_obs (wp_ingestGoogleSheets A sy v)"
      "keeps flow_obs (wp_compareGoogleSheets A d v v')"
      "keeps flow_obs (wp_loadGoogleSheets A sy v v')"
      "keeps flow_obs (wp_getSyncDataExcel A sf)" "keeps flow_obs (wp_downloadExcel A sy v)"
      "keeps flow_obs (wp_compareExcel A d v v')" "keeps flow_obs (wp_loadExcel A sy v v')"
    and check_keeps: "keeps (\<lambda>w. (w_events w, map_option snd (flow_state j w)))
      (wp_checkAndUpdateStatusBeforeStartSyncflow A i)"
begin

lemmas put_flow = flow_state_put[of U, OF U_fields]

abbreviation full_obs :: "oid \<Rightarrow> world \<Rightarrow> event list \<times> (WorkflowStatus \<times> int \<times> int) option" where
  "full_obs i w \<equiv> (w_events w, flow_state i w)"

abbreviation ver_obs :: "oid \<Rightarrow> world \<Rightarrow> event list \<times> (int \<times> int) option" where
  "ver_obs i w \<equiv> (w_events w, map_option snd (flow_state i w))"

lemmas data_full = data_keeps[THEN keeps_flow_state]

text \<open>The external and internal branches of the shared handler, and its other branch.\<close>

lemma handler_outcome:
  assumes "GoogleSheetsFullSyncErrorHandler A error data w = (r, w')"
  shows "r = Inl error \<and>
    ((\<exists>ed. run_failed [dataSourceErrorPayload data ed, failedPayload data ET_EXTERNAL ed]
        (\<lambda>_. sd_version data + 1) data w w') \<or>
     (\<exists>ed. run_failed [failedPayload data ET_INTERNAL ed] (\<lambda>_. sd_version data + 1) data w w') \<or>
     w' = w)"
proof (cases "errorDataOf error")
  case None
  then show ?thesis using assms by (simp add: GoogleSheetsFullSyncErrorHandler_def)
next
  case (Some ed)
  consider (ext) "ed_type ed = Some ET_EXTERNAL" | (int) "ed_type ed = Some ET_INTERNAL"
    | (oth) "ed_type ed = None"
    by (cases "ed_type ed") (auto, metis ErrorType.exhaust)
  then show ?thesis
  proof cases
    case ext
    then have "r = Inl error \<and>
        run_failed [dataSourceErrorPayload data ed, failedPayload data ET_EXTERNAL ed]
          (\<lambda>_. sd_version data + 1) data w w'"
      using assms Some by (auto simp: GoogleSheetsFullSyncErrorHandler_def bind_io_run update_state
          emit run_failed_def put_flow no_update_def case_prod_unfold)
    then show ?thesis by blast
  next
    case int
    then have "r = Inl error \<and>
        run_failed [failedPayload data ET_INTERNAL ed] (\<lambda>_. sd_version data + 1) data w w'"
      using assms Some by (auto simp: GoogleSheetsFullSyncErrorHandler_def bind_io_run update_state
          emit run_failed_def put_flow no_update_def case_prod_unfold)
    then show ?thesis by blast
  next
    case oth
    then show ?thesis using assms Some by (simp add: GoogleSheetsFullSyncErrorHandler_def)
  qed
qed

lemma workflowWrapper_result:
  "workflowWrapper m w = (r, w') \<Longrightarrow> \<exists>r0. m w = (r0, w') \<and> (r = Inr (Inl ()) \<longleftrightarrow> r0 = Inr ())"
  by (auto simp: workflowWrapper_def io_simps split: prod.splits sum.splits option.splits if_splits)

text \<open>The steps of \<open>googleSheetsProceedSync\<close> before the success event.\<close>

definition proceed_prefix :: "ScheduledPayload \<Rightarrow> (oid \<times> SyncStatistics) act" where
  "proceed_prefix data =
    bind_io (wp_getSyncDataGoogleSheets A (sd_syncflow data)) (\<lambda>syncData.
     let syncVersion = sd_version data;
         prevSyncVersion = ss_prevVersion (sf_state (sd_syncflow data))
     in
     bind_io (wp_ingestGoogleSheets A syncData syncVersion) (\<lambda>_.
     bind_io now_io (\<lambda>ingestedAt.
     bind_io (wp_updateSyncflowState A (sf_id (sd_syncflow data))
       (no_update\<lparr>up_ingestedAt := Some ingestedAt\<rparr>)) (\<lambda>_.
     bind_io (wp_compareGoogleSheets A (sy_dataSourceId syncData) syncVersion prevSyncVersion) (\<lambda>_.
     bind_io (wp_loadGoogleSheets A syncData syncVersion prevSyncVersion) (\<lambda>st.
     return_io (sy_dataSourceId syncData, st)))))))"

lemma keeps_ingested: "keeps (full_obs i)
    (wp_updateSyncflowState A j (no_update\<lparr>up_ingestedAt := Some t\<rparr>))"
proof -
  have "flow_state i (w\<lparr>w_db := put_state j (U (no_update\<lparr>up_ingestedAt := Some t\<rparr>)) (w_db w)\<rparr>)
      = flow_state i w" for w
  proof (cases "i = j")
    case True
    then show ?thesis by (simp add: put_flow no_update_def option.map_ident case_prod_unfold)
  next
    case False
    then show ?thesis by (simp add: flow_state_def live_syncflow_put_state)
  qed
  then show ?thesis by (simp add: keeps_def update_state)
qed

lemma keeps_proceed_prefix: "keeps (full_obs i) (proceed_prefix data)"
  unfolding proceed_prefix_def Let_def now_io_def
  by (intro keeps_intros data_full keeps_ingested)

definition finish_run :: "ScheduledPayload \<Rightarrow> oid \<times> SyncStatistics \<Rightarrow> unit act" where
  "finish_run data = (\<lambda>(src, st).
     bind_io (wp_emitEvent A (SyncflowSucceed
       \<lparr>sp_dataSourceId = src, sp_syncflowId = sf_id (sd_syncflow data),
        sp_syncVersion = sd_version data,
        sp_prevSyncVersion = ss_prevVersion (sf_state (sd_syncflow data)),
        sp_statistics = st\<rparr>)) (\<lambda>_.
     wp_updateSyncflowState A (sf_id (sd_syncflow data))
       (no_update\<lparr>up_version := Some (sd_version data + 1),
         up_prevVersion := Some (sd_version data), up_status := Some IDLING\<rparr>)))"

lemma ver_obs_cases:
  assumes "ver_obs i w1 = ver_obs i w"
  shows "w_events w1 = w_events w"
    "map_option (\<lambda>_. c) (flow_state i w1) = map_option (\<lambda>_. c) (flow_state i w)"
    "map_option (\<lambda>(_, v, p). (st, nv v, p)) (flow_state i w1)
      = map_option (\<lambda>(_, v, p). (st, nv v, p)) (flow_state i w)"
  using assms by (cases "flow_state i w1"; cases "flow_state i w"; simp add: case_prod_unfold)+

lemma full_ver: "full_obs i w1 = full_obs i w \<Longrightarrow> ver_obs i w1 = ver_obs i w"
  by simp

lemma finish_run_outcome:
  assumes "ver_obs (sf_id (sd_syncflow data)) w1 = ver_obs (sf_id (sd_syncflow data)) w"
  shows "\<exists>w'. finish_run data x w1 = (Inr (), w') \<and> run_succeeded data w w'"
  using ver_obs_cases[OF assms] by (cases x) (auto simp: finish_run_def bind_io_run emit
      update_state run_succeeded_def put_flow no_update_def case_prod_unfold)

lemma run_failed_trans:
  assumes "ver_obs (sf_id (sd_syncflow data)) w1 = ver_obs (sf_id (sd_syncflow data)) w"
    and "run_failed evs nv data w1 w'"
  shows "run_failed evs nv data w w'"
  using assms(2) ver_obs_cases[OF assms(1)] by (simp add: run_failed_def)

lemma proceed_split:
  "googleSheetsProceedSync A data = workflowWrapper (catch_io
     (bind_io (proceed_prefix data) (finish_run data))
     (\<lambda>error. GoogleSheetsFullSyncErrorHandler A error data))"
  by (simp add: googleSheetsProceedSync_def proceed_prefix_def finish_run_def bind_io_assoc Let_def)

lemma proceed_outcomes:
  assumes "googleSheetsProceedSync A data w = (r, w')"
  shows "(r = Inr (Inl ()) \<and> run_succeeded data w w') \<or> (r \<noteq> Inr (Inl ()) \<and>
    ((\<exists>ed. run_failed [dataSourceErrorPayload data ed, failedPayload data ET_EXTERNAL ed]
        (\<lambda>_. sd_version data + 1) data w w') \<or>
     (\<exists>ed. run_failed [failedPayload data ET_INTERNAL ed] (\<lambda>_. sd_version data + 1) data w w') \<or>
     full_obs (sf_id (sd_syncflow data)) w' = full_obs (sf_id (sd_syncflow data)) w))"
proof -
  let ?i = "sf_id (sd_syncflow data)"
  obtain r0 where r0: "catch_io (bind_io (proceed_prefix data) (finish_run data))
      (\<lambda>error. GoogleSheetsFullSyncErrorHandler A error data) w = (r0, w')"
    "r = Inr (Inl ()) \<longleftrightarrow> r0 = Inr ()"
    using workflowWrapper_result[OF assms[unfolded proceed_split]] by (elim exE conjE) blast
  obtain q w1 where pre: "proceed_prefix data w = (q, w1)" by (cases "proceed_prefix data w")
  have same: "full_obs ?i w1 = full_obs ?i w" using keepsD[OF keeps_proceed_prefix pre] .
  show ?thesis
  proof (cases q)
    case (Inl e)
    then have "GoogleSheetsFullSyncErrorHandler A e data w1 = (r0, w')"
      using r0(1) pre by (simp add: io_simps)
    note out = handler_outcome[OF this]
    then have "r \<noteq> Inr (Inl ())" using r0(2) by blast
    moreover from out consider
        (ext) ed where "run_failed [dataSourceErrorPayload data ed,
          failedPayload data ET_EXTERNAL ed] (\<lambda>_. sd_version data + 1) data w1 w'"
      | (int) ed where "run_failed [failedPayload data ET_INTERNAL ed]
          (\<lambda>_. sd_version data + 1) data w1 w'"
      | (none) "w' = w1" by blast
    then have "(\<exists>ed. run_failed [dataSourceErrorPayload data ed, failedPayload data ET_EXTERNAL ed]
        (\<lambda>_. sd_version data + 1) data w w') \<or>
      (\<exists>ed. run_failed [failedPayload data ET_INTERNAL ed] (\<lambda>_. sd_version data + 1) data w w') \<or>
      full_obs ?i w' = full_obs ?i w"
    proof cases
      case (ext ed)
      then show ?thesis using run_failed_trans[OF full_ver[OF same]] by blast
    next
      case (int ed)
      then show ?thesis using run_failed_trans[OF full_ver[OF same]] by blast
    next
      case none
      then show ?thesis using same by simp
    qed
    ultimately show ?thesis by blast
  next
    case (Inr x)
    obtain w2 where "finish_run data x w1 = (Inr (), w2)" "run_succeeded data w w2"
      using finish_run_outcome[OF full_ver[OF same]] by blast
    moreover have "r0 = Inr () \<and> w' = w2"
      using r0(1) pre Inr calculation(1) by (simp add: io_simps)
    ultimately show ?thesis using r0(2) by blast
  qed
qed

text \<open>The Excel run: the same steps in one workflow, with its own error handler.\<close>

definition excel_prefix :: "ScheduledPayload \<Rightarrow> (oid \<times> SyncStatistics) act" where
  "excel_prefix data =
    bind_io (wp_checkAndUpdateStatusBeforeStartSyncflow A (sf_id (sd_syncflow data))) (\<lambda>_.
    bind_io (wp_getSyncDataExcel A (sd_syncflow data)) (\<lambda>syncData.
     let syncVersion = sd_version data;
         prevSyncVersion = ss_prevVersion (sf_state (sd_syncflow data))
     in
     bind_io (wp_downloadExcel A syncData syncVersion) (\<lambda>_.
     bind_io (wp_compareExcel A (sy_dataSourceId syncData) syncVersion prevSyncVersion) (\<lambda>_.
     bind_io (wp_loadExcel A syncData syncVersion prevSyncVersion) (\<lambda>st.
     return_io (sy_dataSourceId syncData, st))))))"

lemma data_ver:
  assumes "keeps flow_obs m"
  shows "keeps (ver_obs i) m"
  by (rule keeps_weaken[OF keeps_flow_state[OF assms, of i]]) simp

lemma keeps_excel_prefix: "keeps (ver_obs i) (excel_prefix data)"
  unfolding excel_prefix_def Let_def
  by (intro keeps_intros check_keeps data_keeps[THEN data_ver])

lemma excel_split:
  "excelFullSync A data = workflowWrapper (catch_io
     (bind_io (excel_prefix data) (finish_run data)) (\<lambda>error. excelErrorHandler A error data))"
  by (simp add: excelFullSync_def excel_prefix_def finish_run_def bind_io_assoc Let_def)

lemma excel_handler_outcome:
  assumes "excelErrorHandler A error data w = (r, w')"
  shows "(r \<noteq> Inr () \<and> w' = w) \<or>
    (r = Inl error \<and> (\<exists>ed. errorDataOf error = Some ed \<and> ed_type ed = Some ET_EXTERNAL \<and>
       run_failed [dataSourceErrorPayload data ed, failedPayload data ET_EXTERNAL ed]
        (\<lambda>v. v) data w w')) \<or>
    (r = Inr () \<and> (\<exists>ed. errorDataOf error = Some ed \<and> ed_type ed = Some ET_INTERNAL \<and>
       run_failed [failedPayload data ET_INTERNAL ed] (\<lambda>v. v) data w w'))"
proof (cases "errorDataOf error")
  case None
  then show ?thesis using assms
    by (auto simp: excelErrorHandler_def errorDataOf_def split: option.splits)
next
  case (Some ed)
  then obtain d where d: "getActivityErrorDetail error = Some d" "fd_errorData d = Some ed"
    by (auto simp: errorDataOf_def split: bind_splits)
  consider (ext) "ed_type ed = Some ET_EXTERNAL" | (int) "ed_type ed = Some ET_INTERNAL"
    | (oth) "ed_type ed = None"
    by (cases "ed_type ed") (auto, metis ErrorType.exhaust)
  then show ?thesis
    using assms d Some by cases (auto simp: excelErrorHandler_def bind_io_run update_status
          emit run_failed_def put_flow no_update_def case_prod_unfold)
qed

lemma excel_outcomes:
  assumes "excelFullSync A data w = (r, w')"
  shows "(r = Inr (Inl ()) \<and> (run_succeeded data w w' \<or>
      (\<exists>ed. run_failed [failedPayload data ET_INTERNAL ed] (\<lambda>v. v) data w w'))) \<or>
    (r \<noteq> Inr (Inl ()) \<and>
      ((\<exists>ed. run_failed [dataSourceErrorPayload data ed, failedPayload data ET_EXTERNAL ed]
          (\<lambda>v. v) data w w') \<or>
       ver_obs (sf_id (sd_syncflow data)) w' = ver_obs (sf_id (sd_syncflow data)) w))"
proof -
  let ?i = "sf_id (sd_syncflow data)"
  obtain r0 where r0: "catch_io (bind_io (excel_prefix data) (finish_run data))
      (\<lambda>error. excelErrorHandler A error data) w = (r0, w')"
    "r = Inr (Inl ()) \<longleftrightarrow> r0 = Inr ()"
    using workflowWrapper_result[OF assms[unfolded excel_split]] by (elim exE conjE) blast
  obtain q w1 where pre: "excel_prefix data w = (q, w1)" by (cases "excel_prefix data w")
  have same: "ver_obs ?i w1 = ver_obs ?i w" using keepsD[OF keeps_excel_prefix pre] .
  show ?thesis
  proof (cases q)
    case (Inl e)
    then have "excelErrorHandler A e data w1 = (r0, w')"
      using r0(1) pre by (simp add: io_simps)
    from excel_handler_outcome[OF this] consider
        (none) "r0 \<noteq> Inr ()" "w' = w1"
      | (ext) ed where "r0 = Inl e" "run_failed [dataSourceErrorPayload data ed,
          failedPayload data ET_EXTERNAL ed] (\<lambda>v. v) data w1 w'"
      | (int) ed where "r0 = Inr ()" "run_failed [failedPayload data ET_INTERNAL ed]
          (\<lambda>v. v) data w1 w'" by blast
    then show ?thesis
    proof cases
      case none
      then show ?thesis using same r0(2) by simp
    next
      case (ext ed)
      then have "r \<noteq> Inr (Inl ())" using r0(2) by simp
      with run_failed_trans[OF same ext(2)] show ?thesis by blast
    next
      case (int ed)
      then have "r = Inr (Inl ())" using r0(2) by simp
      with run_failed_trans[OF same int(2)] show ?thesis by blast
    qed
  next
    case (Inr x)
    obtain w2 where fin: "finish_run data x w1 = (Inr (), w2)" "run_succeeded data w w2"
      using finish_run_outcome[OF same] by blast
    have "r0 = Inr () \<and> w' = w2" using r0(1) pre Inr fin(1) by (simp add: io_simps)
    then show ?thesis using r0(2) fin(2) by blast
  qed
qed

text \<open>With a fresh download the download step is skipped: no further activity runs.\<close>

lemma download_skipped:
  assumes "wp_getDownloadDataGoogleSheets A (sd_syncflow data) w = (Inr d, w1)"
    and "hasFreshDownload (w_now w1) d"
  shows "googleSheetsDownload A data w = (Inr (Inl ()), w1\<lparr>
    w_db := put_state (sf_id (sd_syncflow data))
      (U (no_update\<lparr>up_downloadedAt := dd_providerDownloadedAt d\<rparr>)) (w_db w1),
    w_events := w_events w1 @ [GoogleSheetsProceedSync data]\<rparr>)"
  using assms by (simp add: googleSheetsDownload_def now_io_def io_simps update_state emit
      workflowWrapper_def)

end

end
