(* ===== verification/Worker.thy ===== *)
theory Worker
  imports WorkerWorkflows Orchestrator
begin

text \<open>
  The worker assembled: the workflows over proxies of the worker's own activities, the broker
  controller that starts them, and the properties of a sync run.

  Temporal turns whatever an activity throws into the error the workflow sees; that conversion is
  the parameter \<open>F\<close>, which no property below constrains further than \<open>temporal_ok\<close>. A proxy call is
  the attempt whose outcome Temporal reports to the workflow; the retries before it are not
  modelled.
\<close>

section \<open>Proxies of the activities\<close>

definition temporal_ok :: "(js_error \<Rightarrow> js_error) \<Rightarrow> bool" where
  "temporal_ok F \<longleftrightarrow>
     (\<forall>nr m d. F (ApplicationFailure nr m d) = ActivityFailure (ApplicationFailure nr m d)) \<and>
     (\<forall>e. (\<forall>nr m d. e \<noteq> ApplicationFailure nr m d) \<longrightarrow> getActivityErrorDetail (F e) = None)"

definition proxy :: "(js_error \<Rightarrow> js_error) \<Rightarrow> 'a act \<Rightarrow> 'a act" where
  "proxy F m = catch_io m (\<lambda>e. throw_io (F e))"

text \<open>A proxy whose result the workflow ignores, and one whose result it destructures. The second
  never sees the data of an acceptable error: the activities it is used for throw none.\<close>

definition proxyUnit :: "(js_error \<Rightarrow> js_error) \<Rightarrow> 'a act \<Rightarrow> unit act" where
  "proxyUnit F m = bind_io (proxy F m) (\<lambda>_. return_io ())"

definition proxyValue :: "(js_error \<Rightarrow> js_error) \<Rightarrow> ('a + AcceptableData) act \<Rightarrow> 'a act" where
  "proxyValue F m = bind_io (proxy F m)
     (\<lambda>r. case r of Inl x \<Rightarrow> return_io x | Inr _ \<Rightarrow> throw_io TypeError)"

definition workerActivities ::
  "mongo \<Rightarrow> third_party \<Rightarrow> processors \<Rightarrow> (js_error \<Rightarrow> js_error) \<Rightarrow> worker_proxies" where
  "workerActivities M T P F = \<lparr>
     wp_checkAndUpdateStatusBeforeStartSyncflow =
       (\<lambda>i. proxyUnit F (checkAndUpdateStatusBeforeStartSyncflow M i)),
     wp_updateSyncflowState = (\<lambda>i u. proxyUnit F (updateSyncflowState M i u)),
     wp_updateSyncflowStatus = (\<lambda>i st. proxyUnit F (updateSyncflowStatus M i st)),
     wp_emitEvent = (\<lambda>e. proxy F (emitEvent e)),
     wp_getDataSourceProviderGoogleSheets =
       (\<lambda>d. proxyValue F (getDataSourceProviderGoogleSheets M d)),
     wp_getDownloadDataGoogleSheets = (\<lambda>sf. proxyValue F (getDownloadDataGoogleSheets M sf)),
     wp_downloadGoogleSheets = (\<lambda>p s r. proxyUnit F (downloadGoogleSheets T P p s r)),
     wp_updateProviderStateGoogleSheets =
       (\<lambda>p s. proxyUnit F (updateProviderStateGoogleSheets M p s)),
     wp_getSyncDataGoogleSheets = (\<lambda>sf. proxyValue F (getSyncDataGoogleSheets M sf)),
     wp_ingestGoogleSheets = (\<lambda>d v. proxyUnit F (ingestGoogleSheets T P d v)),
     wp_compareGoogleSheets = (\<lambda>d v p. proxyUnit F (compareGoogleSheets P d v p)),
     wp_loadGoogleSheets = (\<lambda>d v p. proxyValue F (loadGoogleSheets P d v p)),
     wp_getSyncDataExcel = (\<lambda>sf. proxy F (getSyncDataExcel M sf)),
     wp_downloadExcel = (\<lambda>d v. proxyUnit F (downloadExcel T P d v)),
     wp_compareExcel = (\<lambda>d v p. proxyUnit F (compareExcel P d v p)),
     wp_loadExcel = (\<lambda>d v p. proxyValue F (loadExcel P d v p))\<rparr>"

section \<open>Broker controller\<close>

definition workflowIdOf :: "ScheduledPayload \<Rightarrow> string \<Rightarrow> string" where
  "workflowIdOf payload suffix =
     sf_id (sd_syncflow payload) @ ''-'' @ show_int (sd_version payload) @ suffix"

definition startOptions :: "ScheduledPayload \<Rightarrow> string \<Rightarrow> WorkflowOptions" where
  "startOptions payload suffix = \<lparr>wo_workflowId = workflowIdOf payload suffix,
     wo_args = [ArgPayload payload],
     wo_workflowIdReusePolicy = Some ALLOW_DUPLICATE_FAILED_ONLY,
     wo_searchDataSourceId = Some (sf_sourceId (sd_syncflow payload)),
     wo_waitResult = False, wo_errorOnDuplicate = False\<rparr>"

definition handleSyncflowScheduledEvent :: "temporal \<Rightarrow> ScheduledPayload \<Rightarrow> json option act" where
  "handleSyncflowScheduledEvent S payload =
    OrchestratorService_executeWorkflow S (sf_name (sd_syncflow payload)) (startOptions payload [])"

definition handleGoogleSheetsDownloadEvent :: "temporal \<Rightarrow> ScheduledPayload \<Rightarrow> json option act" where
  "handleGoogleSheetsDownloadEvent S payload =
    OrchestratorService_executeWorkflow S ''googleSheetsDownload''
      (startOptions payload ''-download'')"

definition handleGoogleSheetsProceedSyncEvent ::
  "temporal \<Rightarrow> ScheduledPayload \<Rightarrow> json option act" where
  "handleGoogleSheetsProceedSyncEvent S payload =
    OrchestratorService_executeWorkflow S ''googleSheetsProceedSync''
      (startOptions payload ''-proceed'')"

section \<open>The activities implement what the workflows rely on\<close>

lemma keeps_wrappers [keeps_intros]:
  "keeps f m \<Longrightarrow> keeps f (activityWrapper m)" "keeps f m \<Longrightarrow> keeps f (processorWrapper p m)"
  "keeps f m \<Longrightarrow> keeps f (processorApiWrapper m)"
  by (simp_all add: keeps_def frame_simps)

lemma keeps_call [keeps_intros]: "keeps flow_obs (callService a c)"
  by (simp add: keeps_def)

lemma keeps_handled' [keeps_intros]: "keeps f m \<Longrightarrow> keeps f (handled h m)"
  unfolding handled_def by (intro keeps_intros)

lemma keeps_reads [keeps_intros]:
  "keeps f (DataSourceRepository_getById M i opts)" "keeps f (DataProviderRepository_getById M i opts)"
  "keeps f (SyncflowRepository_getById M i opts)"
  by (simp_all add: DataSourceRepository_getById_def DataProviderRepository_getById_def
      SyncflowRepository_getById_def keeps_intros)

lemma keeps_tokens [keeps_intros]:
  "keeps flow_obs (GoogleService_getAccessToken T r)"
  "keeps flow_obs (MicrosoftService_getAccessToken T r)"
  unfolding GoogleService_getAccessToken_def MicrosoftService_getAccessToken_def
  by (intro keeps_intros)+

lemma keeps_sources [keeps_intros]:
  "keeps f (sourceOfSyncflow M sf)" "keeps f (providerOrReject M i)"
  unfolding sourceOfSyncflow_def providerOrReject_def by (intro keeps_intros)+

lemma keeps_proxy [keeps_intros]:
  "keeps f m \<Longrightarrow> keeps f (proxy F m)" "keeps f m \<Longrightarrow> keeps f (proxyUnit F m)"
  "keeps f m' \<Longrightarrow> keeps f (proxyValue F m')"
  unfolding proxy_def proxyUnit_def proxyValue_def
  by (intro keeps_intros; simp)+ (auto intro!: keeps_intros split: sum.splits)

lemma proxy_ok: "m w = (Inr x, w') \<Longrightarrow> proxy F m w = (Inr x, w')"
  by (simp add: proxy_def io_simps)

lemma proxyUnit_ok: "m w = (Inr x, w') \<Longrightarrow> proxyUnit F m w = (Inr (), w')"
  by (simp add: proxyUnit_def proxy_def io_simps)

context mongo_driver begin

lemma keeps_provider_state:
  "keeps flow_obs (DataProviderRepository_updateState M i st no_options)"
  unfolding keeps_def
  by (auto simp: DataProviderRepository_updateState_def inSession_def runWithTransaction_def
      findLiveProvider_def updateProviderDoc_def reloadProvider_def io_simps
      split: option.splits)

lemma flow_state_setState: "map_option snd (flow_state j (w2\<lparr>w_db :=
    put_state i (setState M (no_update\<lparr>up_status := Some st\<rparr>)) (w_db w)\<rparr>))
  = map_option snd (flow_state j w)"
  by (cases "j = i") (simp_all add: flow_state_def live_syncflow_put_state no_update_def
      option.map_comp comp_def)

lemma check_keeps_versions:
  "keeps (\<lambda>w. (w_events w, map_option snd (flow_state j w)))
     (proxyUnit F (checkAndUpdateStatusBeforeStartSyncflow M i))"
proof -
  have "keeps (\<lambda>w. (w_events w, map_option snd (flow_state j w)))
      (SyncflowRepository_updateStatus M i RUNNING opts)" for opts
    by (simp add: keeps_def syncflow_updateStatus updateState_put flow_state_setState)
  then show ?thesis
    unfolding checkAndUpdateStatusBeforeStartSyncflow_def
      WorkflowService_checkAndUpdateStatusBeforeStartSyncflow_def
    by (intro keeps_intros)
qed

lemma worker_activities_implemented:
  "worker_activities (workerActivities M T P F) (setState M)"
proof
  fix i u w
  show "wp_updateSyncflowState (workerActivities M T P F) i u w =
      (Inr (), w\<lparr>w_db := put_state i (setState M u) (w_db w)\<rparr>)"
    by (simp add: workerActivities_def proxyUnit_def proxy_def updateSyncflowState_def
        activityWrapper_def WorkflowService_updateSyncflowState_def io_simps updateState_put)
next
  fix i st w
  show "wp_updateSyncflowStatus (workerActivities M T P F) i st w = (Inr (),
      w\<lparr>w_db := put_state i (setState M (no_update\<lparr>up_status := Some st\<rparr>)) (w_db w)\<rparr>)"
    by (simp add: workerActivities_def proxyUnit_def proxy_def updateSyncflowStatus_def
        activityWrapper_def WorkflowService_updateSyncflowStatus_def io_simps updateState_put
        syncflow_updateStatus)
next
  fix e w
  show "wp_emitEvent (workerActivities M T P F) e w =
      (Inr (), w\<lparr>w_events := w_events w @ [e]\<rparr>)"
    by (simp add: workerActivities_def proxy_def io_simps)
next
  fix i j
  show "keeps (\<lambda>w. (w_events w, map_option snd (flow_state j w)))
      (wp_checkAndUpdateStatusBeforeStartSyncflow (workerActivities M T P F) i)"
    by (simp add: workerActivities_def check_keeps_versions)
next
  fix p st
  show "keeps flow_obs (wp_updateProviderStateGoogleSheets (workerActivities M T P F) p st)"
    by (auto simp: workerActivities_def updateProviderStateGoogleSheets_def
        intro!: keeps_intros keeps_provider_state)
next
  fix d
  show "keeps flow_obs (wp_getDataSourceProviderGoogleSheets (workerActivities M T P F) d)"
    by (auto simp: workerActivities_def getDataSourceProviderGoogleSheets_def
        intro!: keeps_intros)
next
  fix sf
  show "keeps flow_obs (wp_getDownloadDataGoogleSheets (workerActivities M T P F) sf)"
    "keeps flow_obs (wp_getSyncDataGoogleSheets (workerActivities M T P F) sf)"
    "keeps flow_obs (wp_getSyncDataExcel (workerActivities M T P F) sf)"
    by (auto simp: workerActivities_def getDownloadDataGoogleSheets_def
        getSyncDataGoogleSheets_def getSyncDataExcel_def intro!: keeps_intros)
next
  fix p x y
  show "keeps flow_obs (wp_downloadGoogleSheets (workerActivities M T P F) p x y)"
    by (auto simp: workerActivities_def downloadGoogleSheets_def intro!: keeps_intros)
next
  fix sy v
  show "keeps flow_obs (wp_ingestGoogleSheets (workerActivities M T P F) sy v)"
    "keeps flow_obs (wp_downloadExcel (workerActivities M T P F) sy v)"
    by (auto simp: workerActivities_def ingestGoogleSheets_def downloadExcel_def
        intro!: keeps_intros)
next
  fix d v v'
  show "keeps flow_obs (wp_compareGoogleSheets (workerActivities M T P F) d v v')"
    "keeps flow_obs (wp_compareExcel (workerActivities M T P F) d v v')"
    by (auto simp: workerActivities_def compareGoogleSheets_def compareExcel_def
        intro!: keeps_intros)
next
  fix sy v v'
  show "keeps flow_obs (wp_loadGoogleSheets (workerActivities M T P F) sy v v')"
    "keeps flow_obs (wp_loadExcel (workerActivities M T P F) sy v v')"
    by (auto simp: workerActivities_def loadGoogleSheets_def loadExcel_def intro!: keeps_intros)
qed simp_all

end

section \<open>A concrete worker\<close>

definition good_services :: third_party where
  "good_services = example_services\<lparr>tp_googleScopes := [''drive'']\<rparr>"

definition good_processors :: processors where
  "good_processors = \<lparr>px_downloaderUrl = ''http://d'', px_comparerUrl = ''http://c'',
     px_loaderUrl = ''http://l'', px_post = (\<lambda>_. Inr ()),
     px_load = (\<lambda>_. Inr \<lparr>sx_addedRowsCount = 5, sx_deletedRowsCount = 2,
       sx_isSchemaChanged = False\<rparr>)\<rparr>"

definition internal_service_error :: js_error where
  "internal_service_error = ServiceFailure (example_service_error\<lparr>sv_response := Some
     \<lparr>er_status = 500, er_data = Some \<lparr>rb_type = Some ET_INTERNAL, rb_code = 7, rb_msg = ''oops'',
       rb_data = None, rb_error = None\<rparr>\<rparr>\<rparr>)"

definition failing_processors :: processors where
  "failing_processors = good_processors\<lparr>px_post := (\<lambda>_. Inl internal_service_error)\<rparr>"

fun temporalFailure :: "js_error \<Rightarrow> js_error" where
  "temporalFailure (ApplicationFailure nr m d) = ActivityFailure (ApplicationFailure nr m d)"
| "temporalFailure e = ActivityFailure (ApplicationFailure False (error_message e) None)"

lemma temporalFailure_ok: "temporal_ok temporalFailure"
proof -
  have "getActivityErrorDetail (temporalFailure e) = None"
    if "\<And>nr m d. e \<noteq> ApplicationFailure nr m d" for e
    using that by (cases e) (auto simp: getActivityErrorDetail_def)
  then show ?thesis by (simp add: temporal_ok_def)
qed

interpretation lw: worker_activities
  "workerActivities listMongo good_services good_processors temporalFailure" "setState listMongo"
  by (rule lm.worker_activities_implemented)

definition example_payload :: ScheduledPayload where
  "example_payload = \<lparr>sd_syncflow = example_syncflow, sd_version = 1\<rparr>"

lemmas worker_run_defs = workerActivities_def proxyUnit_def proxyValue_def proxy_def
  activityWrapper_def processorWrapper_def processorApiWrapper_def io_simps
  getSyncDataGoogleSheets_def sourceOfSyncflow_def providerOrReject_def lm.getById_live
  ingestGoogleSheets_def compareGoogleSheets_def loadGoogleSheets_def
  now_io_def updateSyncflowState_def
  WorkflowService_updateSyncflowState_def lm.updateState_put workflowWrapper_def

lemma example_live [simp]:
  "live_source ''d1'' example_db = Some example_source"
  "live_provider ''p1'' example_db = Some example_provider"
  "live_syncflow ''s1'' example_db = Some example_syncflow"
  "sf_sourceId example_syncflow = ''d1''" "ds_provider_id example_source = ''p1''"
  "sf_id example_syncflow = ''s1''" "w_db example_world = example_db"
  "w_tx example_world = None"
  by (simp_all add: live_defs example_defs)

lemma good_token [simp]: "GoogleService_getAccessToken good_services r w =
    (Inr ''at'', w\<lparr>w_calls := w_calls w @ [GoogleToken (show_opt r)]\<rparr>)"
  by (simp add: GoogleService_getAccessToken_def io_simps good_services_def example_services_def
      missingScopes_def intersection_def)

text \<open>The first sync of the example syncflow, all processors answering.\<close>

lemma example_proceed:
  "fst (googleSheetsProceedSync
     (workerActivities listMongo good_services good_processors temporalFailure)
     example_payload example_world) = Inr (Inl ())"
  by (simp add: googleSheetsProceedSync_def worker_run_defs example_payload_def
      good_processors_def Let_def)

section \<open>Properties of a sync run\<close>

text \<open>
  C4: every run of \<open>googleSheetsProceedSync\<close>, whatever the store, the remote services, the
  processors and Temporal's error conversion do, ends in one of four ways. It returns normally
  exactly when it announced one \<open>syncflow.succeed\<close> event for the scheduled version and left the
  syncflow idle with the next version and the scheduled version as previous one. Otherwise it
  announced \<open>dataSource.error\<close> and \<open>syncflow.failed\<close> (an external processor error) or only
  \<open>syncflow.failed\<close> (an internal one), leaving the syncflow idle with the next version so that
  the retry has a fresh workflow id and with its previous version untouched, or it announced
  nothing and changed neither status nor versions.
\<close>

theorem google_run_outcomes:
  assumes "mongo_ok M"
    and "googleSheetsProceedSync (workerActivities M T P F) data w = (r, w')"
  shows "(r = Inr (Inl ()) \<and> run_succeeded data w w') \<or> (r \<noteq> Inr (Inl ()) \<and>
    ((\<exists>ed. run_failed [dataSourceErrorPayload data ed, failedPayload data ET_EXTERNAL ed]
        (\<lambda>_. sd_version data + 1) data w w') \<or>
     (\<exists>ed. run_failed [failedPayload data ET_INTERNAL ed] (\<lambda>_. sd_version data + 1) data w w') \<or>
     (w_events w' = w_events w \<and>
      flow_state (sf_id (sd_syncflow data)) w' = flow_state (sf_id (sd_syncflow data)) w)))"
  using worker_activities.proceed_outcomes[OF
      mongo_driver.worker_activities_implemented[OF mongo_driverI[OF assms(1)]] assms(2)]
  by (simp only: prod.inject)

theorem google_run_outcomes_witness:
  "\<exists>w'. googleSheetsProceedSync
     (workerActivities listMongo good_services good_processors temporalFailure)
     example_payload example_world = (Inr (Inl ()), w') \<and>
   run_succeeded example_payload example_world w'"
proof -
  obtain w' where "googleSheetsProceedSync
     (workerActivities listMongo good_services good_processors temporalFailure)
     example_payload example_world = (Inr (Inl ()), w')"
    using example_proceed by (metis prod.collapse)
  then show ?thesis using google_run_outcomes [OF listMongo_ok] by blast
qed

text \<open>
  C27: every run of \<open>excelFullSync\<close> also ends in one of four ways, but not the same four. After a
  processor error the version stays what it was, and an internal processor error is announced
  and then swallowed: the workflow completes normally, exactly as after a successful run.
\<close>

theorem excel_run_outcomes:
  assumes "mongo_ok M" and "excelFullSync (workerActivities M T P F) data w = (r, w')"
  shows "(r = Inr (Inl ()) \<and> (run_succeeded data w w' \<or>
      (\<exists>ed. run_failed [failedPayload data ET_INTERNAL ed] (\<lambda>v. v) data w w'))) \<or>
    (r \<noteq> Inr (Inl ()) \<and>
      ((\<exists>ed. run_failed [dataSourceErrorPayload data ed, failedPayload data ET_EXTERNAL ed]
          (\<lambda>v. v) data w w') \<or>
       (w_events w' = w_events w \<and>
        map_option snd (flow_state (sf_id (sd_syncflow data)) w')
          = map_option snd (flow_state (sf_id (sd_syncflow data)) w))))"
  using worker_activities.excel_outcomes[OF
      mongo_driver.worker_activities_implemented[OF mongo_driverI[OF assms(1)]] assms(2)]
  by (simp only: prod.inject)

lemmas excel_run_defs = worker_run_defs getSyncDataExcel_def downloadExcel_def compareExcel_def
  loadExcel_def checkAndUpdateStatusBeforeStartSyncflow_def updateSyncflowStatus_def
  WorkflowService_checkAndUpdateStatusBeforeStartSyncflow_def
  WorkflowService_updateSyncflowStatus_def lm.syncflow_updateStatus

lemma microsoft_token [simp]: "MicrosoftService_getAccessToken good_services r w =
    (Inr ''mt'', w\<lparr>w_calls := w_calls w @ [MicrosoftToken (show_opt r)]\<rparr>)"
  by (simp add: MicrosoftService_getAccessToken_def io_simps good_services_def
      example_services_def)

lemma internal_response [simp]:
  "responseData internal_service_error = Some \<lparr>rb_type = Some ET_INTERNAL, rb_code = 7,
     rb_msg = ''oops'', rb_data = None, rb_error = None\<rparr>"
  by (simp add: responseData_def internal_service_error_def)

text \<open>A run whose downloader answers with an internal error.\<close>

lemma example_excel_internal:
  "fst (excelFullSync
     (workerActivities listMongo good_services failing_processors temporalFailure)
     example_payload example_world) = Inr (Inl ())"
  by (simp add: excelFullSync_def excel_run_defs example_payload_def failing_processors_def
      good_processors_def Let_def excelErrorHandler_def getActivityErrorDetail_def
      failureDetail_def example_syncflow_def defaultSyncflowState_def)

theorem excel_run_outcomes_witness:
  "\<exists>w'. excelFullSync
     (workerActivities listMongo good_services failing_processors temporalFailure)
     example_payload example_world = (Inr (Inl ()), w') \<and>
   (run_succeeded example_payload example_world w' \<or>
    (\<exists>ed. run_failed [failedPayload example_payload ET_INTERNAL ed] (\<lambda>v. v) example_payload
       example_world w'))"
proof -
  obtain w' where "excelFullSync
     (workerActivities listMongo good_services failing_processors temporalFailure)
     example_payload example_world = (Inr (Inl ()), w')"
    using example_excel_internal by (metis prod.collapse)
  then show ?thesis using excel_run_outcomes [OF listMongo_ok] by blast
qed

text \<open>
  The download step of a Google Sheets run is skipped exactly on the code's freshness test.
  If the provider already has a download that the syncflow has not ingested (or, before the first
  ingestion, one at most a minute old), no remote call is made: the syncflow takes over the
  provider's download time and the run proceeds.
\<close>

theorem fresh_download_is_reused:
  assumes "mongo_ok M" and "live_source (sf_sourceId (sd_syncflow data)) (w_db w) = Some ds"
    and "live_provider (ds_provider_id ds) (w_db w) = Some p"
    and "providerDownloadedAt p = Some t"
    and "case ss_ingestedAt (sf_state (sd_syncflow data)) of
           None \<Rightarrow> \<bar>w_now w - t\<bar> \<le> 60000 | Some i \<Rightarrow> i < t"
  shows "googleSheetsDownload (workerActivities M T P F) data w = (Inr (Inl ()), w\<lparr>
    w_db := put_state (sf_id (sd_syncflow data))
      (setState M (no_update\<lparr>up_downloadedAt := Some t\<rparr>)) (w_db w),
    w_events := w_events w @ [GoogleSheetsProceedSync data]\<rparr>)"
proof -
  note d = mongo_driverI[OF assms(1)]
  let ?d = "\<lparr>dd_dataSourceId = sf_sourceId (sd_syncflow data), dd_dataProviderId = ds_provider_id ds,
    dd_providerDownloadedAt = Some t, dd_downloadedAt = ss_downloadedAt (sf_state (sd_syncflow data)),
    dd_ingestedAt = ss_ingestedAt (sf_state (sd_syncflow data)),
    dd_spreadsheetId = cfg_spreadsheetId (ds_config ds), dd_sheetId = cfg_sheetId (ds_config ds),
    dd_refreshToken = cfg_auth (ds_config ds)\<rparr>"
  have get: "wp_getDownloadDataGoogleSheets (workerActivities M T P F) (sd_syncflow data) w
      = (Inr ?d, w)"
    using assms(2-4) by (simp add: workerActivities_def proxyValue_def proxy_def
        getDownloadDataGoogleSheets_def activityWrapper_def sourceOfSyncflow_def
        providerOrReject_def io_simps mongo_driver.getById_live[OF d])
  have fresh: "hasFreshDownload (w_now w) ?d"
    using assms(5) by (simp add: hasFreshDownload_def isWithinOneMinuteRange_def
        split: option.splits)
  show ?thesis
    using worker_activities.download_skipped[OF
      mongo_driver.worker_activities_implemented[OF d] get fresh] by simp
qed

definition fresh_world :: world where
  "fresh_world = example_world\<lparr>w_now := 100000, w_db := example_db\<lparr>db_providers :=
     [example_provider\<lparr>dp_state := Some \<lparr>ps_downloadedAt = Some 40000\<rparr>\<rparr>]\<rparr>\<rparr>"

theorem fresh_download_is_reused_witness:
  "w_calls (snd (googleSheetsDownload
     (workerActivities listMongo good_services good_processors temporalFailure)
     example_payload fresh_world)) = []"
  using fresh_download_is_reused [of listMongo example_payload fresh_world example_source
      "example_provider\<lparr>dp_state := Some \<lparr>ps_downloadedAt = Some 40000\<rparr>\<rparr>" 40000]
  by (simp add: fresh_world_def example_payload_def live_defs providerDownloadedAt_def
      example_defs defaultSyncflowState_def)

text \<open>
  Starting a run. The status check moves a live syncflow that is not running to \<open>RUNNING\<close>
  and returns it; a running one is left alone and returned as an acceptable result, so the
  workflow goes on; a missing or deleted syncflow makes the activity fail with a \<open>TypeError\<close>
  instead of the error that would not fail the workflow.
\<close>

theorem start_check:
  assumes "mongo_ok M"
  shows "checkAndUpdateStatusBeforeStartSyncflow M i w = (case live_syncflow i (w_db w) of
      None \<Rightarrow> (Inl TypeError, w)
    | Some sf \<Rightarrow>
        if ss_status (sf_state sf) = RUNNING then (Inr (Inr (AcceptSyncflow sf)), w)
        else (Inr (Inl (Some (sf\<lparr>sf_state := (sf_state sf)\<lparr>ss_status := RUNNING\<rparr>\<rparr>))),
          w\<lparr>w_db := put_state i (\<lambda>s. s\<lparr>ss_status := RUNNING\<rparr>) (w_db w)\<rparr>))"
proof -
  note d = mongo_driverI[OF assms]
  have set: "setState M (no_update\<lparr>up_status := Some RUNNING\<rparr>) = (\<lambda>s. s\<lparr>ss_status := RUNNING\<rparr>)"
    by (rule ext) (simp add: setState_def no_update_def)
  show ?thesis
    by (simp add: checkAndUpdateStatusBeforeStartSyncflow_def activityWrapper_def io_simps
        WorkflowService_checkAndUpdateStatusBeforeStartSyncflow_def
        mongo_driver.getById_live[OF d] mongo_driver.syncflow_updateStatus[OF d]
        mongo_driver.updateState_put[OF d] set live_syncflow_put_state split: option.splits)
qed

theorem start_check_witness:
  "fst (checkAndUpdateStatusBeforeStartSyncflow listMongo ''s1'' example_world)
    = Inr (Inl (Some (example_syncflow\<lparr>sf_state := (sf_state example_syncflow)
        \<lparr>ss_status := RUNNING\<rparr>\<rparr>)))"
  using start_check [OF listMongo_ok, of "''s1''" example_world]
  by (simp add: example_syncflow_def defaultSyncflowState_def)

section \<open>Workflow ids\<close>

lemma takeWhile_dash:
  "CHR ''-'' \<notin> set xs \<Longrightarrow> takeWhile (\<lambda>c. c \<noteq> CHR ''-'') (xs @ CHR ''-'' # ys) = xs"
  by (subst takeWhile_append2) auto

lemma takeWhile_no_dash:
  "CHR ''-'' \<notin> set xs \<Longrightarrow> takeWhile (\<lambda>c. c \<noteq> CHR ''-'') xs = xs"
  by (simp add: takeWhile_eq_all_conv) metis

lemma append_dash_cancel:
  assumes "CHR ''-'' \<notin> set xs" "CHR ''-'' \<notin> set ys" "xs @ CHR ''-'' # us = ys @ CHR ''-'' # vs"
  shows "xs = ys \<and> us = vs"
proof -
  have "xs = ys" using takeWhile_dash[OF assms(1), of us] takeWhile_dash[OF assms(2), of vs] assms(3)
    by simp
  with assms(3) show ?thesis by simp
qed

lemma workflow_suffix_cancel:
  assumes "s \<in> {[], ''-download'', ''-proceed''}" "t \<in> {[], ''-download'', ''-proceed''}"
    and "CHR ''-'' \<notin> set xs" "CHR ''-'' \<notin> set ys" "xs @ s = ys @ t"
  shows "xs = ys \<and> s = t"
proof -
  have dash: "\<And>us. CHR ''-'' \<in> set (us @ ''-download'')" "\<And>us. CHR ''-'' \<in> set (us @ ''-proceed'')"
    by simp_all
  consider "s = []" "t = []" | "s = []" "t \<noteq> []" | "s \<noteq> []" "t = []"
    | u v where "s = CHR ''-'' # u" "t = CHR ''-'' # v" using assms(1,2) by auto
  then show ?thesis
  proof cases
    case 2
    then have "CHR ''-'' \<in> set (ys @ t)" using assms(2) dash by auto
    then show ?thesis using assms(3,5) 2(1) by (metis append_Nil2)
  next
    case 3
    then have "CHR ''-'' \<in> set (xs @ s)" using assms(1) dash by auto
    then show ?thesis using assms(4,5) 3(2) by (metis append_Nil2)
  next
    case 4
    then show ?thesis using append_dash_cancel[OF assms(3,4), of u v] assms(5) by simp
  qed (use assms(5) in simp)
qed

text \<open>
  Workflow ids identify a step of a run. Syncflow ids being hexadecimal (no dash) and
  versions not negative, two payloads and steps get the same workflow id only if the syncflow,
  the version and the step are the same; so Temporal's rejection of a duplicate id rejects
  nothing else.
\<close>

theorem workflow_id_unique:
  assumes "CHR ''-'' \<notin> set (sf_id (sd_syncflow p))" "CHR ''-'' \<notin> set (sf_id (sd_syncflow q))"
    and "0 \<le> sd_version p" "0 \<le> sd_version q"
    and "s \<in> {[], ''-download'', ''-proceed''}" "t \<in> {[], ''-download'', ''-proceed''}"
    and "workflowIdOf p s = workflowIdOf q t"
  shows "sf_id (sd_syncflow p) = sf_id (sd_syncflow q) \<and> sd_version p = sd_version q \<and> s = t"
proof -
  have "sf_id (sd_syncflow p) = sf_id (sd_syncflow q) \<and>
      show_nat (nat (sd_version p)) @ s = show_nat (nat (sd_version q)) @ t"
    using append_dash_cancel[OF assms(1,2)] assms(3,4,7)
    by (simp add: workflowIdOf_def show_int_nonneg)
  moreover from this have "show_nat (nat (sd_version p)) = show_nat (nat (sd_version q)) \<and> s = t"
    using workflow_suffix_cancel[OF assms(5,6)] show_nat_no_dash by blast
  ultimately show ?thesis using show_nat_inj assms(3,4) by fastforce
qed

theorem workflow_id_unique_witness:
  "workflowIdOf example_payload ''-download''
     \<noteq> workflowIdOf (example_payload\<lparr>sd_version := 2\<rparr>) ''-download''"
  using workflow_id_unique [of example_payload "example_payload\<lparr>sd_version := 2\<rparr>"
      "''-download''" "''-download''"]
  by (auto simp: example_payload_def)

end
