(* ===== verification/CronTriggers.thy ===== *)
theory CronTriggers
  imports ConnectionService
begin

text \<open>
  The cron trigger application (\<open>apps/triggers/cron\<close>): repeatable jobs for the cron triggers of
  a sync connection, and the trigger event each firing sends.

  The queue is Bull's. Its requests are logged; its answer is the parameter
  \<open>Q :: ext_call list \<Rightarrow> js_error + unit\<close>. \<open>repeatKeys\<close> reads off a log which repeatable jobs
  have been added and not removed: Bull identifies one by its queue, its job id and its repeat
  options.
\<close>

section \<open>Template literals of stored values\<close>

text \<open>\<open>`${v}`\<close> of a stored value: arrays are joined with commas, \<open>null\<close> elements left out.\<close>

fun show_json :: "json \<Rightarrow> string" where
  "show_json JNull = ''null''"
| "show_json (JBool b) = (if b then ''true'' else ''false'')"
| "show_json (JNum n) = show_int n"
| "show_json (JStr s) = s"
| "show_json (JArr js) = joinWith '','' (map (\<lambda>j. if j = JNull then [] else show_json j) js)"
| "show_json (JObj _) = ''[object Object]''"

definition show_json_opt :: "json option \<Rightarrow> string" where
  "show_json_opt v = (case v of None \<Rightarrow> ''undefined'' | Some j \<Rightarrow> show_json j)"

section \<open>The trigger service\<close>

definition CRON_TRIGGER :: string where "CRON_TRIGGER = ''cron-trigger''"

definition cronRepeat :: "TriggerConfig \<Rightarrow> RepeatOptions" where
  "cronRepeat config = \<lparr>ro_cron = map_of config ''cron'', ro_every = None\<rparr>"

definition cronJob :: "Trigger \<Rightarrow> TriggerConfig \<Rightarrow> ext_call" where
  "cronJob trigger config = QueueAdd CRON_TRIGGER (JobTrigger trigger)
    \<lparr>jo_jobId = show_json_opt (map_of config ''jobId''), jo_repeat = Some (cronRepeat config),
     jo_timeout = None, jo_attempts = None, jo_exponentialDelay = None,
     jo_removeOnComplete = True, jo_removeOnFail = True\<rparr>"

definition cronJobRemoval :: "TriggerConfig \<Rightarrow> ext_call" where
  "cronJobRemoval config = QueueRemove CRON_TRIGGER (map_of config ''jobId'') (cronRepeat config)"

definition processTrigger :: "Trigger \<Rightarrow> unit act" where
  "processTrigger trigger = emitEvent (WorkflowTriggered trigger)"

text \<open>\<open>trigger.config as CronTriggerConfig\<close>: reading a property of a missing configuration throws.\<close>

definition configOf :: "Trigger \<Rightarrow> TriggerConfig act" where
  "configOf trigger = (case tr_config trigger of
     None \<Rightarrow> throw_io TypeError | Some config \<Rightarrow> return_io config)"

definition createCronTrigger ::
  "mongo \<Rightarrow> (ext_call list \<Rightarrow> js_error + unit) \<Rightarrow> EmbeddedSyncflow \<Rightarrow> unit act" where
  "createCronTrigger M Q syncflow =
    (if es_trigger_type syncflow = CRON then
       bind_io (TriggerRepository_getByWorkflowId M (es_id syncflow) no_options) (\<lambda>r. case r of
         None \<Rightarrow> return_io ()
       | Some trigger \<Rightarrow>
           bind_io (configOf trigger) (\<lambda>config.
           bind_io (callService Q (cronJob trigger config)) (\<lambda>_.
           processTrigger trigger)))
     else return_io ())"

definition Cron_createTriggerFromSyncConnection ::
  "mongo \<Rightarrow> (ext_call list \<Rightarrow> js_error + unit) \<Rightarrow> SyncConnection \<Rightarrow> unit act" where
  "Cron_createTriggerFromSyncConnection M Q syncConnection =
    for_io (sc_syncflows syncConnection) (createCronTrigger M Q)"

definition deleteCronTrigger ::
  "mongo \<Rightarrow> (ext_call list \<Rightarrow> js_error + unit) \<Rightarrow> EmbeddedSyncflow \<Rightarrow> unit act" where
  "deleteCronTrigger M Q syncflow =
    (if es_trigger_type syncflow = CRON then
       bind_io (TriggerRepository_getByWorkflowId M (es_id syncflow)
           (no_options\<lparr>qo_includeDeleted := True\<rparr>)) (\<lambda>r. case r of
         None \<Rightarrow> return_io ()
       | Some trigger \<Rightarrow>
           bind_io (configOf trigger) (\<lambda>config. callService Q (cronJobRemoval config)))
     else return_io ())"

definition Cron_deleteTriggerFromSyncConnection ::
  "mongo \<Rightarrow> (ext_call list \<Rightarrow> js_error + unit) \<Rightarrow> SyncConnection \<Rightarrow> unit act" where
  "Cron_deleteTriggerFromSyncConnection M Q syncConnection =
    for_io (sc_syncflows syncConnection) (deleteCronTrigger M Q)"

record DeleteTriggerDto =
  dt_jobId :: string
  dt_cron :: string

definition Cron_deleteTrigger ::
  "(ext_call list \<Rightarrow> js_error + unit) \<Rightarrow> DeleteTriggerDto \<Rightarrow> unit act" where
  "Cron_deleteTrigger Q data = callService Q (QueueRemove CRON_TRIGGER (Some (JStr (dt_jobId data)))
    \<lparr>ro_cron = Some (JStr (dt_cron data)), ro_every = None\<rparr>)"

section \<open>The job processor and the broker\<close>

text \<open>The job carries the trigger as it was when it was added; only its id is used.\<close>

definition CronTriggerProcessor_process :: "mongo \<Rightarrow> Trigger \<Rightarrow> unit act" where
  "CronTriggerProcessor_process M jobData =
    bind_io (TriggerRepository_getById M (tr_id jobData) no_options) (\<lambda>r. case r of
      None \<Rightarrow> return_io ()
    | Some trigger \<Rightarrow> processTrigger trigger)"

text \<open>A message without a payload is \<open>None\<close>: reading its \<open>syncflows\<close> throws.\<close>

definition Cron_onConnectionCreated ::
  "mongo \<Rightarrow> (ext_call list \<Rightarrow> js_error + unit) \<Rightarrow> SyncConnection option \<Rightarrow> unit act" where
  "Cron_onConnectionCreated M Q data = (case data of
     None \<Rightarrow> throw_io TypeError
   | Some c \<Rightarrow> Cron_createTriggerFromSyncConnection M Q c)"

definition Cron_onConnectionDeleted ::
  "mongo \<Rightarrow> (ext_call list \<Rightarrow> js_error + unit) \<Rightarrow> SyncConnection option \<Rightarrow> unit act" where
  "Cron_onConnectionDeleted M Q data = (case data of
     None \<Rightarrow> throw_io TypeError
   | Some c \<Rightarrow> Cron_deleteTriggerFromSyncConnection M Q c)"

section \<open>Repeatable jobs of a log\<close>

type_synonym repeat_key = "string \<times> json option \<times> RepeatOptions"

fun addRepeats :: "ext_call \<Rightarrow> repeat_key list \<Rightarrow> repeat_key list" where
  "addRepeats (QueueAdd q _ opts) ks = (case jo_repeat opts of
     None \<Rightarrow> ks | Some r \<Rightarrow> List.insert (q, Some (JStr (jo_jobId opts)), r) ks)"
| "addRepeats (QueueRemove q i r) ks = removeAll (q, i, r) ks"
| "addRepeats _ ks = ks"

definition repeatKeys :: "ext_call list \<Rightarrow> repeat_key list" where
  "repeatKeys calls = fold addRepeats calls []"

definition cronKey :: "TriggerConfig \<Rightarrow> repeat_key" where
  "cronKey config = (CRON_TRIGGER, map_of config ''jobId'', cronRepeat config)"

text \<open>The trigger that a lookup by syncflow finds.\<close>

definition triggerFor :: "bool \<Rightarrow> db \<Rightarrow> EmbeddedSyncflow \<Rightarrow> Trigger option" where
  "triggerFor inc d e = List.find (\<lambda>t. tr_workflow_id t = es_id e \<and> (inc \<or> \<not> tr_isDeleted t))
     (db_triggers d)"

definition cronSyncflows :: "SyncConnection \<Rightarrow> EmbeddedSyncflow list" where
  "cronSyncflows c = filter (\<lambda>e. es_trigger_type e = CRON) (sc_syncflows c)"

text \<open>The configuration of the trigger of a cron syncflow, when it has a job id.\<close>

definition cronConfig :: "bool \<Rightarrow> db \<Rightarrow> EmbeddedSyncflow \<Rightarrow> TriggerConfig option" where
  "cronConfig inc d e = Option.bind (triggerFor inc d e) (\<lambda>t. Option.bind (tr_config t)
     (\<lambda>config. case map_of config ''jobId'' of Some (JStr _) \<Rightarrow> Some config | _ \<Rightarrow> None))"

lemma cronConfigD:
  "cronConfig inc d e = Some config \<Longrightarrow> \<exists>t j. triggerFor inc d e = Some t \<and>
     tr_config t = Some config \<and> map_of config ''jobId'' = Some (JStr j)"
  unfolding cronConfig_def bind_eq_Some_conv
  by (elim exE conjE) (simp split: option.splits json.splits)

context mongo_driver begin

lemma getByWorkflowId_run:
  "TriggerRepository_getByWorkflowId M (es_id e) opts w
    = (Inr (triggerFor (qo_includeDeleted opts) (readDb (qo_session opts) w) e), w)"
  by (simp add: TriggerRepository_getByWorkflowId_def triggerFor_def)

lemma create_cron_run:
  assumes "\<forall>cs. Q cs = Inr ()"
    and "\<forall>e \<in> set es. es_trigger_type e = CRON \<longrightarrow> cronConfig False (w_db w) e \<noteq> None"
  shows "for_io es (createCronTrigger M Q) w = (Inr (), w\<lparr>
     w_calls := w_calls w @ map (\<lambda>e. cronJob (the (triggerFor False (w_db w) e))
       (the (cronConfig False (w_db w) e))) (filter (\<lambda>e. es_trigger_type e = CRON) es),
     w_events := w_events w @ map (\<lambda>e. WorkflowTriggered (the (triggerFor False (w_db w) e)))
       (filter (\<lambda>e. es_trigger_type e = CRON) es)\<rparr>)"
  using assms(2)
proof (induction es arbitrary: w)
  case (Cons e es)
  show ?case
  proof (cases "es_trigger_type e = CRON")
    case True
    then obtain config where c: "cronConfig False (w_db w) e = Some config"
      using Cons.prems by auto
    obtain t where t: "triggerFor False (w_db w) e = Some t" "tr_config t = Some config"
      using cronConfigD[OF c] by blast
    let ?w = "w\<lparr>w_calls := w_calls w @ [cronJob t config],
      w_events := w_events w @ [WorkflowTriggered t]\<rparr>"
    have "createCronTrigger M Q e w = (Inr (), ?w)"
      using True t assms(1) by (simp add: createCronTrigger_def bind_io_run getByWorkflowId_run
          configOf_def processTrigger_def)
    moreover have "\<forall>e \<in> set es. es_trigger_type e = CRON \<longrightarrow> cronConfig False (w_db ?w) e \<noteq> None"
      using Cons.prems by simp
    ultimately show ?thesis using Cons.IH[of ?w] True c t by (simp add: bind_io_run)
  next
    case False
    then show ?thesis using Cons by (simp add: createCronTrigger_def)
  qed
qed simp

lemma delete_cron_run:
  assumes "\<forall>cs. Q cs = Inr ()"
    and "\<forall>e \<in> set es. es_trigger_type e = CRON \<longrightarrow> cronConfig True (w_db w) e \<noteq> None"
  shows "for_io es (deleteCronTrigger M Q) w = (Inr (), w\<lparr>
     w_calls := w_calls w @ map (\<lambda>e. cronJobRemoval (the (cronConfig True (w_db w) e)))
       (filter (\<lambda>e. es_trigger_type e = CRON) es)\<rparr>)"
  using assms(2)
proof (induction es arbitrary: w)
  case (Cons e es)
  show ?case
  proof (cases "es_trigger_type e = CRON")
    case True
    then obtain config where c: "cronConfig True (w_db w) e = Some config"
      using Cons.prems by auto
    let ?w = "w\<lparr>w_calls := w_calls w @ [cronJobRemoval config]\<rparr>"
    obtain t where t: "triggerFor True (w_db w) e = Some t" "tr_config t = Some config"
      using cronConfigD[OF c] by blast
    then have "deleteCronTrigger M Q e w = (Inr (), ?w)"
      using True assms(1) by (simp add: deleteCronTrigger_def bind_io_run getByWorkflowId_run
          configOf_def)
    moreover have "\<forall>e \<in> set es. es_trigger_type e = CRON \<longrightarrow> cronConfig True (w_db ?w) e \<noteq> None"
      using Cons.prems by simp
    ultimately show ?thesis using Cons.IH[of ?w] True c by (simp add: bind_io_run)
  next
    case False
    then show ?thesis using Cons by (simp add: deleteCronTrigger_def)
  qed
qed simp

end

text \<open>Adding and removing the jobs of a list of configurations.\<close>

lemma fold_adds:
  assumes "\<forall>e \<in> set es. \<exists>j. map_of (f e) ''jobId'' = Some (JStr j)"
  shows "set (fold addRepeats (map (\<lambda>e. cronJob (t e) (f e)) es) ks)
    = set ks \<union> (\<lambda>e. cronKey (f e)) ` set es"
  using assms by (induction es arbitrary: ks)
    (auto simp: cronJob_def cronKey_def show_json_opt_def)

lemma fold_removals:
  "set (fold addRepeats (map (\<lambda>e. cronJobRemoval (f e)) es) ks)
    = set ks - (\<lambda>e. cronKey (f e)) ` set es"
  by (induction es arbitrary: ks) (auto simp: cronJobRemoval_def cronKey_def)

lemma cronConfig_cascade:
  assumes "distinct (map tr_workflow_id (db_triggers d))" and "cronConfig False d e \<noteq> None"
  shows "cronConfig True (cascade_connection c d) e = cronConfig False d e"
proof -
  obtain t where t: "triggerFor False d e = Some t"
    using assms(2) by (auto simp: cronConfig_def bind_eq_Some_conv)
  then have "t \<in> set (db_triggers d)" "tr_workflow_id t = es_id e"
    by (auto simp: triggerFor_def dest: find_SomeD)
  then have "find (\<lambda>t. tr_workflow_id t = es_id e) (db_triggers d) = Some t"
    using assms(1) by (simp add: find_key_unique)
  then have "\<exists>b. triggerFor True (cascade_connection c d) e = Some (t\<lparr>tr_isDeleted := b\<rparr>)"
    by (auto simp: triggerFor_def cascade_connection_def find_map_if intro: exI[of _ True]
        exI[of _ "tr_isDeleted t"])
  then show ?thesis using t by (auto simp: cronConfig_def)
qed


text \<open>An Excel connection with its cron trigger.\<close>

definition cron_connection :: SyncConnection where
  "cron_connection = example_connection\<lparr>sc_syncflows :=
     map (\<lambda>e. e\<lparr>es_trigger_type := CRON\<rparr>) (sc_syncflows example_connection)\<rparr>"

definition cron_world :: world where
  "cron_world = example_world\<lparr>w_db := example_db\<lparr>db_connections := [cron_connection],
     db_triggers := [example_trigger\<lparr>tr_type := CRON, tr_config := Some
       [(''cron'', JStr ''5 1/4 * * * *''), (''frequency'', JNum 4), (''jobId'', JStr ''u'')]\<rparr>]\<rparr>\<rparr>"

lemmas cron_example_defs = cron_connection_def cron_world_def example_defs


text \<open>
  The deletion workflow and the cron application together leave the repeatable job behind.
  After the deletion workflow of a live connection no job has been removed and no event sent that
  would make the cron application remove it; each later firing of the job of one of its triggers
  finds the trigger deleted and does nothing.
\<close>

theorem deleted_connection_cron_job:
  assumes "mongo_ok M" and "db_wf (w_db w)"
    and "live_connection_doc i (w_db w) = Some c"
    and "e \<in> set (sc_syncflows c)" and "t \<in> set (db_triggers (w_db w))"
    and "tr_workflow_id t = es_id e"
  shows "\<exists>w'. deleteSyncConnectionWf M F i w = (Inr \<lparr>dr_data = Some c, dr_isAlreadyDeleted = False\<rparr>, w')
    \<and> repeatKeys (w_calls w') = repeatKeys (w_calls w) \<and> w_events w' = w_events w
    \<and> (\<forall>job. tr_id job = tr_id t \<longrightarrow> CronTriggerProcessor_process M job w' = (Inr (), w'))"
proof -
  note d = mongo_driverI[OF assms(1)]
  let ?w = "w\<lparr>w_db := cascade_connection c (w_db w)\<rparr>"
  have wf: "deleteSyncConnectionWf M F i w
      = (Inr \<lparr>dr_data = Some c, dr_isAlreadyDeleted = False\<rparr>, ?w)"
    using mongo_driver.service_delete_live[OF d assms(2,3)]
    by (simp add: deleteSyncConnectionWf_def bind_io_run activity_def catch_io_run)
  have "distinct (map tr_id (db_triggers (w_db w)))"
    using assms(2) by (simp add: db_wf_def keys_distinct_def)
  then have "find (\<lambda>x. tr_id x = tr_id t \<and> \<not> tr_isDeleted x)
      (db_triggers (cascade_connection c (w_db w))) = None"
    using assms(4-6) by (auto simp: find_None_iff cascade_connection_def distinct_map inj_on_def)
  then have "CronTriggerProcessor_process M job ?w = (Inr (), ?w)" if "tr_id job = tr_id t" for job
    using that mongo_driver.trigger_getById[OF d]
    by (simp add: CronTriggerProcessor_process_def bind_io_run)
  then show ?thesis using wf by (intro exI[of _ ?w]) simp
qed

theorem deleted_connection_cron_job_witness:
  "\<exists>w'. snd (deleteSyncConnectionWf listMongo id ''c1'' cron_world) = w' \<and> w_events w' = [] \<and>
     CronTriggerProcessor_process listMongo
       (example_trigger\<lparr>tr_type := CRON\<rparr>) w' = (Inr (), w')"
proof -
  have "db_wf (w_db cron_world)" "live_connection_doc ''c1'' (w_db cron_world) = Some cron_connection"
    by (simp_all add: cron_example_defs db_wf_def keys_distinct_def embedded_present_def
        one_live_connection_def live_connection_doc_def)
  from deleted_connection_cron_job [OF listMongo_ok this, of "hd (sc_syncflows cron_connection)"
      "hd (db_triggers (w_db cron_world))" id]
  show ?thesis by (auto simp: cron_example_defs)
qed

end
