(* ===== verification/WebhookTriggers.thy ===== *)
theory WebhookTriggers
  imports CronTriggers ThirdParty
begin

text \<open>
  The webhook trigger application (\<open>apps/triggers/webhook\<close>): the Google Drive notification
  channel of a Google Sheets trigger, the repeatable job that renews it, and the endpoint Drive
  notifies.

  Parameters: the third-party answers \<open>T\<close>, the queue's answer \<open>Q\<close>, the configured base address
  and \<open>uuidv4\<close> (which, like an answer, may depend on everything logged so far).
\<close>

section \<open>Google Sheets channels\<close>

definition GOOGLE_SHEETS_WEBHOOK_EXPIRATION :: int where
  "GOOGLE_SHEETS_WEBHOOK_EXPIRATION = 86400"

definition GOOGLE_SHEETS_WEBHOOK_REFRESH :: string where
  "GOOGLE_SHEETS_WEBHOOK_REFRESH = ''google-sheets-webhook-refresh''"

record webhook_app =
  wa_services :: third_party
  wa_queue :: "ext_call list \<Rightarrow> js_error + unit"
  wa_baseUrl :: "string option"
  wa_uuid :: "ext_call list \<Rightarrow> string"

definition webhookUrlOf :: "webhook_app \<Rightarrow> Trigger \<Rightarrow> string" where
  "webhookUrlOf A trigger =
    show_opt (wa_baseUrl A) @ ''/triggers/google-sheets/'' @ tr_id trigger"

definition GoogleSheetsWebhook_create ::
  "mongo \<Rightarrow> webhook_app \<Rightarrow> Trigger \<Rightarrow> DataSource \<Rightarrow> unit act" where
  "GoogleSheetsWebhook_create M A trigger dataSource =
    bind_io (gets_io (\<lambda>w. wa_uuid A (w_calls w))) (\<lambda>webhookId.
    bind_io (GoogleSheetsService_registerFileChangeWebhook (wa_services A) webhookId
        (cfg_spreadsheetId (ds_config dataSource)) (webhookUrlOf A trigger)) (\<lambda>(channelId, resourceId).
    bind_io (TriggerRepository_updateConfig M (tr_id trigger)
        [(''webhookId'', JStr channelId), (''resourceId'', JStr resourceId)] no_options) (\<lambda>_.
    return_io ())))"

text \<open>The channel and resource ids are strings when \<open>create\<close> stored them; what is not there is sent
  as \<open>undefined\<close>.\<close>

definition GoogleSheetsWebhook_stop ::
  "webhook_app \<Rightarrow> Trigger \<Rightarrow> DataSource \<Rightarrow> unit act" where
  "GoogleSheetsWebhook_stop A trigger dataSource =
    bind_io (configOf trigger) (\<lambda>config.
    GoogleSheetsService_stopFileChangeWebhook (wa_services A)
      (show_json_opt (map_of config ''webhookId'')) (show_json_opt (map_of config ''resourceId'')))"

definition refreshmentJob :: "Trigger \<Rightarrow> int \<Rightarrow> ext_call" where
  "refreshmentJob trigger refreshInterval = QueueAdd GOOGLE_SHEETS_WEBHOOK_REFRESH
    (JobRefreshment (tr_id trigger))
    \<lparr>jo_jobId = tr_id trigger,
     jo_repeat = Some \<lparr>ro_cron = None, ro_every = Some (JNum refreshInterval)\<rparr>,
     jo_timeout = Some 10000, jo_attempts = Some 5, jo_exponentialDelay = Some 1000,
     jo_removeOnComplete = True, jo_removeOnFail = True\<rparr>"

definition refreshInterval :: int where
  "refreshInterval = (GOOGLE_SHEETS_WEBHOOK_EXPIRATION - 3600) * 1000"

definition GoogleSheetsWebhook_createWebhook ::
  "mongo \<Rightarrow> webhook_app \<Rightarrow> Trigger \<Rightarrow> DataSource \<Rightarrow> unit act" where
  "GoogleSheetsWebhook_createWebhook M A trigger dataSource =
    bind_io (GoogleSheetsWebhook_create M A trigger dataSource) (\<lambda>_.
    bind_io (callService (wa_queue A) (refreshmentJob trigger refreshInterval)) (\<lambda>_.
    bind_io (TriggerRepository_updateConfig M (tr_id trigger)
        [(''refreshInterval'', JNum refreshInterval)] no_options) (\<lambda>_.
    return_io ())))"

text \<open>A failure to stop the channel is logged and dropped; the configuration is read outside the
  \<open>try\<close>.\<close>

definition GoogleSheetsWebhook_stopWebhook ::
  "webhook_app \<Rightarrow> Trigger \<Rightarrow> DataSource \<Rightarrow> unit act" where
  "GoogleSheetsWebhook_stopWebhook A trigger dataSource =
    bind_io (catch_io (GoogleSheetsWebhook_stop A trigger dataSource) (\<lambda>_. return_io ())) (\<lambda>_.
    bind_io (configOf trigger) (\<lambda>config.
    callService (wa_queue A) (QueueRemove GOOGLE_SHEETS_WEBHOOK_REFRESH (Some (JStr (tr_id trigger)))
      \<lparr>ro_cron = None, ro_every = map_of config ''refreshInterval''\<rparr>)))"

text \<open>A data source that is gone is \<open>null\<close>: reading its configuration throws, inside each \<open>try\<close>.\<close>

definition GoogleSheetsWebhook_refreshWebhook ::
  "mongo \<Rightarrow> webhook_app \<Rightarrow> oid \<Rightarrow> unit act" where
  "GoogleSheetsWebhook_refreshWebhook M A triggerId =
    bind_io (TriggerRepository_getById M triggerId no_options) (\<lambda>r. case r of
      None \<Rightarrow> return_io ()
    | Some trigger \<Rightarrow>
        bind_io (DataSourceRepository_getById M (tr_sourceId trigger) no_options) (\<lambda>dataSource.
        bind_io (catch_io (case dataSource of None \<Rightarrow> throw_io TypeError
            | Some ds \<Rightarrow> GoogleSheetsWebhook_stop A trigger ds) (\<lambda>_. return_io ())) (\<lambda>_.
        catch_io (case dataSource of None \<Rightarrow> throw_io TypeError
            | Some ds \<Rightarrow> GoogleSheetsWebhook_create M A trigger ds) (\<lambda>_. return_io ()))))"

definition GoogleSheetsWebhookJobProcessor_process ::
  "mongo \<Rightarrow> webhook_app \<Rightarrow> oid \<Rightarrow> unit act" where
  "GoogleSheetsWebhookJobProcessor_process M A triggerId =
    GoogleSheetsWebhook_refreshWebhook M A triggerId"

section \<open>The trigger service\<close>

text \<open>\<open>WebhookServiceFactory.get\<close>: the only service is the Google Sheets one.\<close>

definition WebhookServiceFactory_get :: "string \<Rightarrow> unit act" where
  "WebhookServiceFactory_get triggerName =
    (if triggerName = TN_GOOGLE_SHEETS_WEBHOOK then return_io ()
     else throw_io (PlainError ''Unknown webhook''))"

definition createWebhookTrigger ::
  "mongo \<Rightarrow> webhook_app \<Rightarrow> oid \<Rightarrow> EmbeddedSyncflow \<Rightarrow> unit act" where
  "createWebhookTrigger M A sourceId syncflow =
    (if es_trigger_type syncflow = EVENT_WEBHOOK then
       bind_io (TriggerRepository_getByWorkflowId M (es_id syncflow) no_options) (\<lambda>t.
       bind_io (DataSourceRepository_getById M sourceId no_options) (\<lambda>s.
       case (t, s) of
         (Some trigger, Some dataSource) \<Rightarrow>
           bind_io (WebhookServiceFactory_get (tr_name trigger)) (\<lambda>_.
           bind_io (GoogleSheetsWebhook_createWebhook M A trigger dataSource) (\<lambda>_.
           processTrigger trigger))
       | _ \<Rightarrow> return_io ()))
     else return_io ())"

definition Webhook_createTriggerFromSyncConnection ::
  "mongo \<Rightarrow> webhook_app \<Rightarrow> SyncConnection \<Rightarrow> unit act" where
  "Webhook_createTriggerFromSyncConnection M A syncConnection =
    for_io (sc_syncflows syncConnection) (createWebhookTrigger M A (sc_sourceId syncConnection))"

definition deleteWebhookTrigger ::
  "mongo \<Rightarrow> webhook_app \<Rightarrow> oid \<Rightarrow> EmbeddedSyncflow \<Rightarrow> unit act" where
  "deleteWebhookTrigger M A sourceId syncflow =
    (if es_trigger_type syncflow = EVENT_WEBHOOK then
       bind_io (TriggerRepository_getByWorkflowId M (es_id syncflow)
           (no_options\<lparr>qo_includeDeleted := True\<rparr>)) (\<lambda>t.
       bind_io (DataSourceRepository_getById M sourceId
           (no_options\<lparr>qo_includeDeleted := True\<rparr>)) (\<lambda>s.
       case (t, s) of
         (Some trigger, Some dataSource) \<Rightarrow>
           bind_io (WebhookServiceFactory_get (tr_name trigger)) (\<lambda>_.
           GoogleSheetsWebhook_stopWebhook A trigger dataSource)
       | _ \<Rightarrow> return_io ()))
     else return_io ())"

definition Webhook_deleteTriggerFromSyncConnection ::
  "mongo \<Rightarrow> webhook_app \<Rightarrow> SyncConnection \<Rightarrow> unit act" where
  "Webhook_deleteTriggerFromSyncConnection M A syncConnection =
    for_io (sc_syncflows syncConnection) (deleteWebhookTrigger M A (sc_sourceId syncConnection))"

definition handleReceivedWebhook :: "mongo \<Rightarrow> oid \<Rightarrow> unit act" where
  "handleReceivedWebhook M triggerId =
    bind_io (TriggerRepository_getById M triggerId no_options) (\<lambda>r. case r of
      None \<Rightarrow> return_io ()
    | Some trigger \<Rightarrow> processTrigger trigger)"

text \<open>\<open>getByConfig({ webhookId })\<close>: the driver sends an \<open>undefined\<close> value as \<open>null\<close>.\<close>

definition getByWebhookId :: "mongo \<Rightarrow> string option \<Rightarrow> Trigger option act" where
  "getByWebhookId M webhookId = TriggerRepository_getByConfig M
    [(''webhookId'', case webhookId of None \<Rightarrow> JNull | Some i \<Rightarrow> JStr i)] no_options"

section \<open>The broker and the endpoint\<close>

text \<open>The handler's \<open>catch\<close>: an external error is reported for \<open>data.sourceId\<close>, which throws when
  the message has no payload; every other error is dropped.\<close>

definition reportExternal :: "SyncConnection option \<Rightarrow> js_error \<Rightarrow> unit act" where
  "reportExternal data error = (case error of
     ExternalError code message _ \<Rightarrow> (case data of
       None \<Rightarrow> throw_io TypeError
     | Some c \<Rightarrow> emitEvent (DataSourceError (sc_sourceId c) code message))
   | _ \<Rightarrow> return_io ())"

definition Webhook_onConnectionCreated ::
  "mongo \<Rightarrow> webhook_app \<Rightarrow> SyncConnection option \<Rightarrow> unit act" where
  "Webhook_onConnectionCreated M A data = catch_io (case data of
       None \<Rightarrow> throw_io TypeError
     | Some c \<Rightarrow> Webhook_createTriggerFromSyncConnection M A c)
     (reportExternal data)"

definition Webhook_onConnectionDeleted ::
  "mongo \<Rightarrow> webhook_app \<Rightarrow> SyncConnection option \<Rightarrow> unit act" where
  "Webhook_onConnectionDeleted M A data = catch_io (case data of
       None \<Rightarrow> throw_io TypeError
     | Some c \<Rightarrow> Webhook_deleteTriggerFromSyncConnection M A c)
     (reportExternal data)"

text \<open>\<open>s.includes(p)\<close>.\<close>

fun includesStr :: "string \<Rightarrow> string \<Rightarrow> bool" where
  "includesStr p [] = (p = [])"
| "includesStr p (c # cs) = (take (length p) (c # cs) = p \<or> includesStr p cs)"

text \<open>The notification endpoint: trigger id from the path, then the channel id, resource state
  and change headers, each absent when the request does not have it.\<close>

definition triggerWebhookGoogleSheets ::
  "mongo \<Rightarrow> oid \<Rightarrow> string option \<Rightarrow> string option \<Rightarrow> string option \<Rightarrow> unit act" where
  "triggerWebhookGoogleSheets M triggerId webhookId state changed =
    (if state \<noteq> Some ''update'' then return_io ()
     else (case changed of
       None \<Rightarrow> throw_io TypeError
     | Some ch \<Rightarrow>
         if \<not> includesStr ''content'' ch then return_io ()
         else bind_io (getByWebhookId M webhookId) (\<lambda>trigger. case trigger of
             None \<Rightarrow> return_io ()
           | Some _ \<Rightarrow> handleReceivedWebhook M triggerId)))"

section \<open>Facts\<close>

definition put_trigger_config :: "oid \<Rightarrow> TriggerConfig \<Rightarrow> db \<Rightarrow> db" where
  "put_trigger_config i data d = d\<lparr>db_triggers := update_first (\<lambda>t. tr_id t = i)
     (\<lambda>t. t\<lparr>tr_config := set_config data (tr_config t)\<rparr>) (db_triggers d)\<rparr>"

lemma put_trigger_other [simp]:
  "db_sources (put_trigger_config i data d) = db_sources d"
  "db_connections (put_trigger_config i data d) = db_connections d"
  by (simp_all add: put_trigger_config_def)

lemma triggerFor_put:
  assumes "distinct (map tr_id (db_triggers d))"
  shows "triggerFor inc (put_trigger_config i data d) e =
    map_option (\<lambda>t. if tr_id t = i then t\<lparr>tr_config := set_config data (tr_config t)\<rparr> else t)
      (triggerFor inc d e)"
  unfolding put_trigger_config_def triggerFor_def update_first_unique[OF assms]
  by (simp add: find_map_if)

lemma triggerFor_cascade:
  "triggerFor True (cascade_connection c d) e = map_option
     (\<lambda>t. if tr_workflow_id t \<in> es_id ` set (sc_syncflows c) then t\<lparr>tr_isDeleted := True\<rparr> else t)
     (triggerFor True d e)"
  by (simp add: triggerFor_def cascade_connection_def find_map_if)

lemma stopWebhook_run:
  assumes "tr_config t = Some config" and "\<forall>cs. wa_queue A cs = Inr ()"
  shows "GoogleSheetsWebhook_stopWebhook A t ds w = (Inr (), w\<lparr>w_calls := w_calls w @
    [DriveStop (show_json_opt (map_of config ''webhookId'')) (show_json_opt (map_of config ''resourceId'')),
     QueueRemove GOOGLE_SHEETS_WEBHOOK_REFRESH (Some (JStr (tr_id t)))
       \<lparr>ro_cron = None, ro_every = map_of config ''refreshInterval''\<rparr>]\<rparr>)"
proof -
  have "catch_io (GoogleSheetsWebhook_stop A t ds) (\<lambda>_. return_io () :: unit act) w
    = (Inr (), w\<lparr>w_calls := w_calls w @ [DriveStop (show_json_opt (map_of config ''webhookId''))
        (show_json_opt (map_of config ''resourceId''))]\<rparr>)"
    using assms by (simp add: GoogleSheetsWebhook_stop_def configOf_def handled_def catch_io_run
        GoogleSheetsService_stopFileChangeWebhook_def split: sum.split)
  then show ?thesis using assms
    by (simp add: GoogleSheetsWebhook_stopWebhook_def bind_io_run configOf_def)
qed

context mongo_driver begin

lemma updateConfig_run:
  assumes "find (\<lambda>d. tr_id d = i \<and> \<not> tr_isDeleted d) (db_triggers (w_db w)) = Some t"
  shows "TriggerRepository_updateConfig M i data no_options w
    = (Inr None, w\<lparr>w_db := put_trigger_config i data (w_db w)\<rparr>)"
  using assms find_SomeD[OF assms] by (simp add: TriggerRepository_updateConfig_def inSession_def
      runWithTransaction_def findLiveTrigger_def updateTriggerDoc_def bind_io_run
      put_trigger_config_def comp_def)

lemma live_trigger_put:
  assumes "distinct (map tr_id (db_triggers d))"
    and "find (\<lambda>d. tr_id d = i \<and> \<not> tr_isDeleted d) (db_triggers d) = Some t"
  shows "\<exists>t'. find (\<lambda>d. tr_id d = i \<and> \<not> tr_isDeleted d) (db_triggers (put_trigger_config j data d)) = Some t'"
  using assms(2) by (auto simp: put_trigger_config_def update_first_unique[OF assms(1)] find_map_if)

text \<open>A channel that Drive grants is stored, and its renewal is scheduled.\<close>

lemma createWebhook_run:
  assumes "distinct (map tr_id (db_triggers (w_db w)))"
    and "find (\<lambda>d. tr_id d = tr_id t \<and> \<not> tr_isDeleted d) (db_triggers (w_db w)) = Some t0"
    and "\<forall>cs. tp_driveWatch (wa_services A) cs = Inr (ch, res)" and "\<forall>cs. wa_queue A cs = Inr ()"
  shows "GoogleSheetsWebhook_createWebhook M A t ds w = (Inr (), w\<lparr>
    w_calls := w_calls w @ [DriveWatch (show_opt (cfg_spreadsheetId (ds_config ds)))
      (wa_uuid A (w_calls w)) (webhookUrlOf A t), refreshmentJob t refreshInterval],
    w_db := put_trigger_config (tr_id t) [(''refreshInterval'', JNum refreshInterval)]
      (put_trigger_config (tr_id t) [(''webhookId'', JStr ch), (''resourceId'', JStr res)] (w_db w))\<rparr>)"
proof -
  let ?c = "[(''webhookId'', JStr ch), (''resourceId'', JStr res)]"
  obtain t1 where t1: "find (\<lambda>d. tr_id d = tr_id t \<and> \<not> tr_isDeleted d)
      (db_triggers (put_trigger_config (tr_id t) ?c (w_db w))) = Some t1"
    using live_trigger_put[OF assms(1,2)] by blast
  let ?calls = "w_calls w @ [DriveWatch (show_opt (cfg_spreadsheetId (ds_config ds)))
      (wa_uuid A (w_calls w)) (webhookUrlOf A t)]"
  have "GoogleSheetsWebhook_create M A t ds w = (Inr (), w\<lparr>w_calls := ?calls,
      w_db := put_trigger_config (tr_id t) ?c (w_db w)\<rparr>)"
    using assms(2,3) by (simp add: GoogleSheetsWebhook_create_def bind_io_run handled_def catch_io_run
        GoogleSheetsService_registerFileChangeWebhook_def updateConfig_run)
  then show ?thesis using t1 assms(4)
    by (simp add: GoogleSheetsWebhook_createWebhook_def bind_io_run updateConfig_run)
qed

lemma source_getById:
  "DataSourceRepository_getById M i opts w = (Inr (List.find
     (\<lambda>d. ds_id d = i \<and> (qo_includeDeleted opts \<or> \<not> ds_isDeleted d))
     (db_sources (readDb (qo_session opts) w))), w)"
  by (simp add: DataSourceRepository_getById_def)

end

text \<open>The trigger's stored channel is the notification's; without a channel id in the request, a
  trigger without one matches.\<close>

definition channelMatches :: "string option \<Rightarrow> Trigger \<Rightarrow> bool" where
  "channelMatches webhookId u \<longleftrightarrow>
     (let stored = (case tr_config u of None \<Rightarrow> None | Some c \<Rightarrow> map_of c ''webhookId'')
      in case webhookId of None \<Rightarrow> stored = None \<or> stored = Some JNull
         | Some ch \<Rightarrow> stored = Some (JStr ch))"

lemma find_None_bex: "(find p xs = None) = (\<not> (\<exists>x \<in> set xs. p x))"
  by (auto simp: find_None_iff)



lemma refresh_config [simp]:
  "map_of (AList.update ''refreshInterval'' r (AList.update ''resourceId'' b (AList.update ''webhookId'' a c)))
    = (map_of c)(''webhookId'' \<mapsto> a, ''resourceId'' \<mapsto> b, ''refreshInterval'' \<mapsto> r)"
  by (simp add: update_conv')

text \<open>Opening the channel of a connection: what is stored, called and sent.\<close>

definition refreshKey :: "Trigger \<Rightarrow> repeat_key" where
  "refreshKey t = (GOOGLE_SHEETS_WEBHOOK_REFRESH, Some (JStr (tr_id t)),
     \<lparr>ro_cron = None, ro_every = Some (JNum refreshInterval)\<rparr>)"

definition channelOpened :: "string \<Rightarrow> string \<Rightarrow> oid \<Rightarrow> db \<Rightarrow> db" where
  "channelOpened ch res i d = put_trigger_config i [(''refreshInterval'', JNum refreshInterval)]
     (put_trigger_config i [(''webhookId'', JStr ch), (''resourceId'', JStr res)] d)"

lemma channel_opens:
  assumes "mongo_ok M" and "distinct (map tr_id (db_triggers (w_db w)))"
    and "sc_syncflows c = [e]" and "es_trigger_type e = EVENT_WEBHOOK"
    and "triggerFor False (w_db w) e = Some t" and "tr_name t = TN_GOOGLE_SHEETS_WEBHOOK"
    and "live_source (sc_sourceId c) (w_db w) = Some ds"
    and "\<forall>cs. tp_driveWatch (wa_services A) cs = Inr (ch, res)" and "\<forall>cs. wa_queue A cs = Inr ()"
  shows "Webhook_onConnectionCreated M A (Some c) w = (Inr (), w\<lparr>
     w_calls := w_calls w @ [DriveWatch (show_opt (cfg_spreadsheetId (ds_config ds)))
       (wa_uuid A (w_calls w)) (webhookUrlOf A t), refreshmentJob t refreshInterval],
     w_db := channelOpened ch res (tr_id t) (w_db w),
     w_events := w_events w @ [WorkflowTriggered t]\<rparr>)"
proof -
  note d = mongo_driverI[OF assms(1)]
  have "t \<in> set (db_triggers (w_db w))" "\<not> tr_isDeleted t"
    using assms(5) by (auto simp: triggerFor_def dest: find_SomeD)
  then obtain x where
    "find (\<lambda>d. tr_id d = tr_id t \<and> \<not> tr_isDeleted d) (db_triggers (w_db w)) = Some x"
    by (cases "find (\<lambda>d. tr_id d = tr_id t \<and> \<not> tr_isDeleted d) (db_triggers (w_db w))")
       (auto simp: find_None_bex)
  from mongo_driver.createWebhook_run[OF d assms(2) this assms(8,9)]
  have "createWebhookTrigger M A (sc_sourceId c) e w = (Inr (), w\<lparr>
     w_calls := w_calls w @ [DriveWatch (show_opt (cfg_spreadsheetId (ds_config ds)))
       (wa_uuid A (w_calls w)) (webhookUrlOf A t), refreshmentJob t refreshInterval],
     w_db := channelOpened ch res (tr_id t) (w_db w),
     w_events := w_events w @ [WorkflowTriggered t]\<rparr>)"
    using assms(4-7)
    by (auto simp: createWebhookTrigger_def bind_io_run mongo_driver.getByWorkflowId_run[OF d]
        mongo_driver.source_getById[OF d] live_source_def WebhookServiceFactory_get_def
        processTrigger_def channelOpened_def)
  then show ?thesis
    using assms(3) by (simp add: Webhook_onConnectionCreated_def catch_io_run bind_io_run
        Webhook_createTriggerFromSyncConnection_def)
qed

text \<open>Closing it, from the trigger as it is stored, deleted or not.\<close>

lemma channel_closes:
  assumes "mongo_ok M" and "sc_syncflows c = [e]" and "es_trigger_type e = EVENT_WEBHOOK"
    and "triggerFor True (w_db w) e = Some t" and "tr_name t = TN_GOOGLE_SHEETS_WEBHOOK"
    and "tr_config t = Some config" and "map_of config ''webhookId'' = Some (JStr ch)"
    and "map_of config ''resourceId'' = Some (JStr res)"
    and "map_of config ''refreshInterval'' = Some (JNum refreshInterval)"
    and "find (\<lambda>s. ds_id s = sc_sourceId c) (db_sources (w_db w)) \<noteq> None"
    and "\<forall>cs. wa_queue A cs = Inr ()"
  shows "Webhook_onConnectionDeleted M A (Some c) w = (Inr (), w\<lparr>w_calls := w_calls w @
    [DriveStop ch res, QueueRemove GOOGLE_SHEETS_WEBHOOK_REFRESH (Some (JStr (tr_id t)))
        \<lparr>ro_cron = None, ro_every = Some (JNum refreshInterval)\<rparr>]\<rparr>)"
proof -
  note d = mongo_driverI[OF assms(1)]
  have "deleteWebhookTrigger M A (sc_sourceId c) e w = (Inr (), w\<lparr>w_calls := w_calls w @
    [DriveStop ch res, QueueRemove GOOGLE_SHEETS_WEBHOOK_REFRESH (Some (JStr (tr_id t)))
        \<lparr>ro_cron = None, ro_every = Some (JNum refreshInterval)\<rparr>]\<rparr>)"
    using stopWebhook_run[OF assms(6,11)] assms(3-10)
    by (auto simp: deleteWebhookTrigger_def bind_io_run mongo_driver.getByWorkflowId_run[OF d]
        mongo_driver.source_getById[OF d] WebhookServiceFactory_get_def show_json_opt_def)
  then show ?thesis
    using assms(2) by (simp add: Webhook_onConnectionDeleted_def catch_io_run bind_io_run
        Webhook_deleteTriggerFromSyncConnection_def)
qed


text \<open>
  What becomes of a refused channel. If Drive refuses the notification channel of a new
  connection, the handler returns normally: an error classified as external is reported as a data
  source error, any other is dropped without a trace. In neither case is a trigger event sent, so
  the first run of the connection never starts.
\<close>

theorem webhook_creation_failure:
  assumes "mongo_ok M" and "sc_syncflows c = [e]" and "es_trigger_type e = EVENT_WEBHOOK"
    and "triggerFor False (w_db w) e = Some t" and "tr_name t = TN_GOOGLE_SHEETS_WEBHOOK"
    and "live_source (sc_sourceId c) (w_db w) = Some ds"
    and "\<forall>cs. tp_driveWatch (wa_services A) cs = Inl err"
  shows "\<exists>call. Webhook_onConnectionCreated M A (Some c) w = (Inr (), w\<lparr>w_calls := w_calls w @ [call],
     w_events := w_events w @ (case handleDriveFileError err of
       ExternalError code message _ \<Rightarrow> [DataSourceError (sc_sourceId c) code message]
     | _ \<Rightarrow> [])\<rparr>)"
proof -
  note d = mongo_driverI[OF assms(1)]
  let ?w = "w\<lparr>w_calls := w_calls w @ [DriveWatch (show_opt (cfg_spreadsheetId (ds_config ds)))
    (wa_uuid A (w_calls w)) (webhookUrlOf A t)]\<rparr>"
  have "createWebhookTrigger M A (sc_sourceId c) e w = (Inl (handleDriveFileError err), ?w)"
    using assms(3-7) by (simp add: createWebhookTrigger_def bind_io_run live_source_def
        mongo_driver.getByWorkflowId_run[OF d] mongo_driver.source_getById[OF d]
        WebhookServiceFactory_get_def GoogleSheetsWebhook_createWebhook_def catch_io_run
        GoogleSheetsWebhook_create_def GoogleSheetsService_registerFileChangeWebhook_def handled_def)
  then have "Webhook_createTriggerFromSyncConnection M A c w = (Inl (handleDriveFileError err), ?w)"
    using assms(2) by (simp add: Webhook_createTriggerFromSyncConnection_def bind_io_run)
  then show ?thesis
    by (simp add: Webhook_onConnectionCreated_def catch_io_run reportExternal_def
        split: js_error.split) blast
qed

definition example_webhook_app :: webhook_app where
  "example_webhook_app = \<lparr>wa_services = example_services, wa_queue = (\<lambda>_. Inr ()),
     wa_baseUrl = Some ''http://h'', wa_uuid = (\<lambda>_. ''uu'')\<rparr>"

lemma example_webhook_ready:
  "triggerFor False (w_db example_world) (hd (sc_syncflows example_connection)) = Some example_trigger"
  "sc_syncflows example_connection = [hd (sc_syncflows example_connection)]"
  "es_trigger_type (hd (sc_syncflows example_connection)) = EVENT_WEBHOOK"
  "live_source (sc_sourceId example_connection) (w_db example_world) = Some example_source"
  "tr_name example_trigger = TN_GOOGLE_SHEETS_WEBHOOK"
  by (simp_all add: triggerFor_def live_source_def example_defs)


definition refusing_webhook_app :: "js_error \<Rightarrow> webhook_app" where
  "refusing_webhook_app err = example_webhook_app\<lparr>wa_services :=
     example_services\<lparr>tp_driveWatch := (\<lambda>_. Inl err)\<rparr>\<rparr>"

theorem webhook_creation_failure_witness:
  "w_events (snd (Webhook_onConnectionCreated listMongo (refusing_webhook_app TypeError)
     (Some example_connection) example_world)) = []"
proof -
  have "w_events example_world = []" "handleDriveFileError TypeError = TypeError"
    by (simp_all add: example_defs handleDriveFileError_def errorResponse_def)
  moreover have "\<forall>cs. tp_driveWatch (wa_services (refusing_webhook_app TypeError)) cs = Inl TypeError"
    by (simp add: refusing_webhook_app_def)
  ultimately show ?thesis
    using webhook_creation_failure [OF listMongo_ok example_webhook_ready(2,3,1,5,4)] by fastforce
qed


end
