(* ===== verification/WebhookDispatch.thy ===== *)
theory WebhookDispatch
  imports CronTriggers PostProcessor
begin

text \<open>
  The webhook application (\<open>apps/webhook\<close>): from an event to the jobs of the webhooks that
  listen for it, and from a job to the signed request.

  Parameters: the queue's answer \<open>Q\<close>, the answer \<open>http\<close> of the subscriber's server, and
  \<open>sign\<close>, the RSA signature of the serialised payload.
\<close>

section \<open>From event to jobs\<close>

definition WEBHOOK_EXECUTION :: string where "WEBHOOK_EXECUTION = ''webhook-execution''"

definition isInitialSyncVersion :: "int option \<Rightarrow> bool" where
  "isInitialSyncVersion prevSyncVersion = (prevSyncVersion = Some 0)"

text \<open>
  The \<open>switch\<close>: webhook type, data source and body of an event. The completed and failed payloads
  that the other applications send have no \<open>prevSyncVersion\<close>. For a created connection the body
  needs the data source, which may be gone (\<open>Inr None\<close>).
\<close>

fun describeEvent ::
  "mongo \<Rightarrow> event \<Rightarrow> (WebhookType \<times> oid \<times> webhook_body) option act" where
  "describeEvent M (ConnectionCreated c) =
    bind_io (DataSourceRepository_getById M (sc_sourceId c) (no_options\<lparr>qo_includeDeleted := True\<rparr>))
      (\<lambda>r. return_io (case r of None \<Rightarrow> None
         | Some ds \<Rightarrow> Some (WT_SYNC_CONNECTION_CREATED, sc_sourceId c,
             SyncConnectionCreatedWebhookPayload (ds_provider_type ds) (sc_sourceId c) (ds_config ds))))"
| "describeEvent M (SyncflowScheduled p) = return_io (Some (WT_SYNCFLOW_SCHEDULED,
     sf_sourceId (sd_syncflow p),
     SyncflowScheduledWebhookPayload (sf_id (sd_syncflow p)) (sf_sourceId (sd_syncflow p))
       (ss_version (sf_state (sd_syncflow p)))
       (isInitialSyncVersion (Some (ss_prevVersion (sf_state (sd_syncflow p)))))))"
| "describeEvent M (SyncflowSucceed p) = return_io (Some (WT_SYNCFLOW_SUCCEED, sp_dataSourceId p,
     SyncflowSucceedWebhookPayload (sp_syncflowId p) (sp_dataSourceId p) (sp_syncVersion p)
       (isInitialSyncVersion (Some (sp_prevSyncVersion p))) (sp_statistics p)))"
| "describeEvent M (SyncflowCompleted p) = return_io (Some (WT_SYNCFLOW_COMPLETED, cp_dataSourceId p,
     SyncflowCompletedWebhookPayload (cp_syncflowId p) (cp_dataSourceId p) (cp_syncVersion p)
       (isInitialSyncVersion None) (cp_rowsNumber p)))"
| "describeEvent M (SyncflowFailed p) = return_io (Some (WT_SYNCFLOW_FAILED, fp_dataSourceId p,
     SyncflowFailedWebhookPayload (fp_syncflowId p) (fp_dataSourceId p) (fp_syncVersion p)
       (isInitialSyncVersion None) (fp_error_type p) (fp_error_code p) (fp_error_message p)))"
| "describeEvent M (DataSourceDeleted i connectionId) = return_io (Some (WT_DATA_SOURCE_DELETED, i,
     DataSourceDeletedWebhookPayload i connectionId))"
| "describeEvent M (DataSourceError i code message) = return_io (Some (WT_DATA_SOURCE_ERROR, i,
     DataSourceErrorWebhookPayload i code message))"
| "describeEvent M e = throw_io (PlainError (''Unsupported event: '' @ event_name e))"

definition webhookJob :: "bool \<Rightarrow> webhook_body \<Rightarrow> Webhook \<Rightarrow> job_data \<times> JobOptions" where
  "webhookJob assure body webhook =
    (JobWebhook (wh_id webhook) \<lparr>wp_body = body, wp_timestamp = None, wp_metadata = None\<rparr>,
     \<lparr>jo_jobId = wh_id webhook, jo_repeat = None, jo_timeout = Some 10000,
      jo_attempts = Some (if assure then 100000 else 5), jo_exponentialDelay = Some 1000,
      jo_removeOnComplete = True, jo_removeOnFail = True\<rparr>)"

definition addWebhookExecution ::
  "mongo \<Rightarrow> (ext_call list \<Rightarrow> js_error + unit) \<Rightarrow> event \<Rightarrow> bool \<Rightarrow> unit act" where
  "addWebhookExecution M Q e assure =
    bind_io (describeEvent M e) (\<lambda>described. case described of
      None \<Rightarrow> return_io ()
    | Some (webhookType, dataSourceId, webhookPayload) \<Rightarrow>
        bind_io (WebhookRepository_getActiveWebhooksByType M webhookType (Some SCOPE_GLOBAL) None
          no_options) (\<lambda>globalWebhooks.
        bind_io (WebhookRepository_getActiveWebhooksByType M webhookType (Some SCOPE_DATA_SOURCE)
          (Some dataSourceId) no_options) (\<lambda>dataSourceWebhooks.
        let webhooks = globalWebhooks @ dataSourceWebhooks in
        if webhooks = [] then return_io ()
        else callService Q (QueueAddBulk WEBHOOK_EXECUTION
               (map (webhookJob assure webhookPayload) webhooks)))))"

text \<open>The broker's event patterns: the events without one are not delivered to this application.\<close>

definition webhookBroker_handle ::
  "mongo \<Rightarrow> (ext_call list \<Rightarrow> js_error + unit) \<Rightarrow> event \<Rightarrow> unit act" where
  "webhookBroker_handle M Q e = (case e of
     DataSourceDeleted _ _ \<Rightarrow> addWebhookExecution M Q e False
   | DataSourceError _ _ _ \<Rightarrow> addWebhookExecution M Q e False
   | ConnectionCreated _ \<Rightarrow> addWebhookExecution M Q e False
   | SyncflowScheduled _ \<Rightarrow> addWebhookExecution M Q e False
   | SyncflowSucceed _ \<Rightarrow> addWebhookExecution M Q e False
   | SyncflowCompleted _ \<Rightarrow> addWebhookExecution M Q e False
   | SyncflowFailed _ \<Rightarrow> addWebhookExecution M Q e False
   | _ \<Rightarrow> return_io ())"

section \<open>From job to request\<close>

definition executeWebhook ::
  "mongo \<Rightarrow> (WebhookPayload \<Rightarrow> js_error + string) \<Rightarrow> (ext_call list \<Rightarrow> js_error + unit) \<Rightarrow>
   oid \<Rightarrow> WebhookPayload \<Rightarrow> unit act" where
  "executeWebhook M sign http webhookId payload =
    bind_io (WebhookRepository_getById M webhookId no_options) (\<lambda>r. case r of
      None \<Rightarrow> return_io ()
    | Some webhook \<Rightarrow>
        if wh_status webhook = WH_INACTIVE then return_io ()
        else
          bind_io (gets_io w_now) (\<lambda>now.
          let sent = payload\<lparr>wp_timestamp := Some now, wp_metadata :=
                (case wh_metadata webhook of None \<Rightarrow> wp_metadata payload | Some m \<Rightarrow> Some m)\<rparr> in
          bind_io (lift_io (sign sent)) (\<lambda>signature.
          callService http (SignedPost (wh_url webhook) sent signature))))"

definition WebhookProcessor_process ::
  "mongo \<Rightarrow> (WebhookPayload \<Rightarrow> js_error + string) \<Rightarrow> (ext_call list \<Rightarrow> js_error + unit) \<Rightarrow>
   job_data \<Rightarrow> unit act" where
  "WebhookProcessor_process M sign http data = (case data of
     JobWebhook webhookId payload \<Rightarrow> executeWebhook M sign http webhookId payload
   | _ \<Rightarrow> return_io ())"

section \<open>Properties\<close>

text \<open>The webhooks that listen for an event of a data source.\<close>

definition listens :: "WebhookType \<Rightarrow> oid \<Rightarrow> Webhook \<Rightarrow> bool" where
  "listens ty i h \<longleftrightarrow> \<not> wh_isDeleted h \<and> wh_status h = WH_ACTIVE \<and> wh_type h = ty \<and>
     (wh_scope h = SCOPE_GLOBAL \<or> wh_scope h = SCOPE_DATA_SOURCE \<and> wh_dataSourceId h = Some i)"

fun delivered_event :: "event \<Rightarrow> bool" where
  "delivered_event (DataProviderDeleted _ _) = False"
| "delivered_event (ConnectionDeleted _) = False"
| "delivered_event (WorkflowTriggered _) = False"
| "delivered_event (GoogleSheetsDownload _ _) = False"
| "delivered_event (GoogleSheetsProceedSync _) = False"
| "delivered_event _ = True"

lemma distinct_filters:
  assumes "distinct (map f xs)" and "\<And>x. P x \<Longrightarrow> \<not> Q x"
  shows "distinct (map f (filter P xs @ filter Q xs))"
proof -
  have "f ` set (filter P xs) \<inter> f ` set (filter Q xs) = {}"
    using assms by (auto simp: distinct_map inj_on_def)
  then show ?thesis using assms(1) by (simp add: distinct_map_filter)
qed

lemma handle_delivered:
  "delivered_event e \<Longrightarrow> webhookBroker_handle M Q e = addWebhookExecution M Q e False"
  by (cases e) (simp_all add: webhookBroker_handle_def)

lemma webhooks_queued:
  assumes "mongo_ok M" and "distinct (map wh_id (db_webhooks (w_db w)))"
    and "delivered_event e" and "describeEvent M e w = (Inr (Some (ty, i, body)), w)"
  shows "\<exists>hooks. distinct (map wh_id hooks) \<and>
     set hooks = {h \<in> set (db_webhooks (w_db w)). listens ty i h} \<and>
     webhookBroker_handle M Q e w = (if hooks = [] then (Inr (), w)
       else (let calls = w_calls w @ [QueueAddBulk WEBHOOK_EXECUTION (map (webhookJob False body) hooks)]
             in (Q calls, w\<lparr>w_calls := calls\<rparr>)))"
proof -
  note d = mongo_driverI[OF assms(1)]
  let ?p = "\<lambda>h. wh_type h = ty \<and> wh_status h = WH_ACTIVE \<and> \<not> wh_isDeleted h"
  let ?g = "filter (\<lambda>h. ?p h \<and> wh_scope h = SCOPE_GLOBAL) (db_webhooks (w_db w))"
  let ?s = "filter (\<lambda>h. ?p h \<and> wh_scope h = SCOPE_DATA_SOURCE \<and> wh_dataSourceId h = Some i)
    (db_webhooks (w_db w))"
  have "distinct (map wh_id (?g @ ?s))"
    by (rule distinct_filters[OF assms(2)]) simp
  moreover have "set (?g @ ?s) = {h \<in> set (db_webhooks (w_db w)). listens ty i h}"
    by (auto simp: listens_def)
  moreover have "webhookBroker_handle M Q e w = (if ?g @ ?s = [] then (Inr (), w)
       else (let calls = w_calls w @ [QueueAddBulk WEBHOOK_EXECUTION (map (webhookJob False body) (?g @ ?s))]
             in (Q calls, w\<lparr>w_calls := calls\<rparr>)))"
  proof -
    have "WebhookRepository_getActiveWebhooksByType M ty (Some SCOPE_GLOBAL) None no_options w
        = (Inr ?g, w)"
      "WebhookRepository_getActiveWebhooksByType M ty (Some SCOPE_DATA_SOURCE) (Some i) no_options w
        = (Inr ?s, w)"
      by (simp_all add: WebhookRepository_getActiveWebhooksByType_def conj_assoc
          mongo_driver.model_ops[OF d])
    then show ?thesis
      by (simp add: handle_delivered[OF assms(3)] addWebhookExecution_def bind_io_run assms(4) Let_def)
  qed
  ultimately show ?thesis by blast
qed

text \<open>
  Who is notified. For an event the application listens to, one bulk request is queued with
  exactly one job, all with the event's body and five attempts, for every live and active webhook
  of the event's type that is global or belongs to the event's data source; no request is made when
  there is none. A webhook's own \<open>assure\<close> flag plays no part.
\<close>

theorem webhooks_notified:
  assumes "mongo_ok M" and "distinct (map wh_id (db_webhooks (w_db w)))"
    and "delivered_event e" and "describeEvent M e w = (Inr (Some (ty, i, body)), w)"
  shows "\<exists>hooks. distinct (map wh_id hooks) \<and>
     set hooks = {h \<in> set (db_webhooks (w_db w)). listens ty i h} \<and>
     webhookBroker_handle M Q e w = (if hooks = [] then (Inr (), w)
       else (let calls = w_calls w @ [QueueAddBulk WEBHOOK_EXECUTION (map (webhookJob False body) hooks)]
             in (Q calls, w\<lparr>w_calls := calls\<rparr>)))"
  by (rule webhooks_queued[OF assms])

definition example_webhook :: Webhook where
  "example_webhook = \<lparr>wh_id = ''h1'', wh_status = WH_ACTIVE, wh_scope = SCOPE_DATA_SOURCE,
     wh_url = ''http://s'', wh_type = WT_DATA_SOURCE_ERROR, wh_assure = True,
     wh_dataSourceId = Some ''d1'', wh_metadata = None, wh_isDeleted = False\<rparr>"

definition webhook_world :: world where
  "webhook_world = example_world\<lparr>w_db := example_db\<lparr>db_webhooks := [example_webhook]\<rparr>\<rparr>"

theorem webhooks_notified_witness:
  "\<exists>hooks. set hooks = {example_webhook} \<and> fst (webhookBroker_handle listMongo (\<lambda>_. Inr ())
     (DataSourceError ''d1'' 1002 ''m'') webhook_world) = Inr ()"
proof -
  have hooks: "db_webhooks (w_db webhook_world) = [example_webhook]"
    by (simp add: webhook_world_def example_defs)
  have "listens WT_DATA_SOURCE_ERROR ''d1'' example_webhook"
    by (simp add: listens_def example_webhook_def)
  then show ?thesis
    using webhooks_notified [OF listMongo_ok, of webhook_world "DataSourceError ''d1'' 1002 ''m''"
        WT_DATA_SOURCE_ERROR "''d1''" "DataSourceErrorWebhookPayload ''d1'' 1002 ''m''" "\<lambda>_. Inr ()"]
    by (fastforce simp: hooks Let_def)
qed

text \<open>
  C35: what reaches a subscriber. Executing a queued job at any later time sends at most one request,
  and only if the webhook is then live and not inactive: to the address stored then, with the body of
  the event that queued it, the time of sending and the webhook's metadata, signed as sent. A failed
  signature or request is the job's failure, so the queue tries it again; a webhook that was deleted
  or deactivated in between makes the job succeed silently.
\<close>

theorem webhook_delivery:
  assumes "mongo_ok M" and "(data, opts) = webhookJob assure body h"
  shows "(case List.find (\<lambda>d. wh_id d = wh_id h \<and> \<not> wh_isDeleted d) (db_webhooks (w_db w)) of
      None \<Rightarrow> WebhookProcessor_process M sign http data w = (Inr (), w)
    | Some now \<Rightarrow>
        if wh_status now = WH_INACTIVE then WebhookProcessor_process M sign http data w = (Inr (), w)
        else let sent = \<lparr>wp_body = body, wp_timestamp = Some (w_now w), wp_metadata = wh_metadata now\<rparr>
          in WebhookProcessor_process M sign http data w = (case sign sent of
               Inl err \<Rightarrow> (Inl err, w)
             | Inr signature \<Rightarrow>
                 (let calls = w_calls w @ [SignedPost (wh_url now) sent signature]
                  in (http calls, w\<lparr>w_calls := calls\<rparr>))))"
  using assms(2) mongo_driver.model_ops[OF mongo_driverI[OF assms(1)]]
  by (auto simp: webhookJob_def WebhookProcessor_process_def executeWebhook_def bind_io_run
      WebhookRepository_getById_def Let_def split: option.split sum.split)

theorem webhook_delivery_witness:
  "w_calls (snd (WebhookProcessor_process listMongo (\<lambda>_. Inr ''sig'') (\<lambda>_. Inr ())
     (fst (webhookJob False (DataSourceErrorWebhookPayload ''d1'' 1002 ''m'') example_webhook))
     webhook_world))
   = [SignedPost ''http://s'' \<lparr>wp_body = DataSourceErrorWebhookPayload ''d1'' 1002 ''m'',
       wp_timestamp = Some 0, wp_metadata = None\<rparr> ''sig'']"
  using webhook_delivery [OF listMongo_ok, where w = webhook_world and assure = False
      and body = "DataSourceErrorWebhookPayload ''d1'' 1002 ''m''" and h = example_webhook
      and sign = "\<lambda>_. Inr ''sig''" and http = "\<lambda>_. Inr ()", OF surjective_pairing[symmetric]]
  by (simp add: webhook_world_def example_webhook_def example_defs Let_def)

text \<open>
  Subscribers are not told that a completed version is the first one. After the first successful
  run (previous version 0) of a Google Sheets or Excel syncflow, the body sent for the success event
  says that it is the initial version; the body sent for the completion event that the post-processor
  derives from it says that it is not.
\<close>

theorem initial_version_flag:
  assumes "mongo_ok M"
    and "find (\<lambda>s. sf_id s = sp_syncflowId p) (db_syncflows (w_db w)) = Some sf"
    and "find (\<lambda>s. ds_id s = sp_dataSourceId p) (db_sources (w_db w)) = Some ds"
    and "ds_provider_type ds \<noteq> AIR_TABLE" and "\<forall>cs. xs_delete X cs = Inr errs"
    and "sp_prevSyncVersion p = 0"
  shows "\<exists>ev w' n. postProcessor_handle M X (SyncflowSucceed p) w = (Inr (), w') \<and>
     w_events w' = w_events w @ [ev] \<and>
     describeEvent M (SyncflowSucceed p) w' = (Inr (Some (WT_SYNCFLOW_SUCCEED, sp_dataSourceId p,
       SyncflowSucceedWebhookPayload (sp_syncflowId p) (sp_dataSourceId p) (sp_syncVersion p) True
         (sp_statistics p))), w') \<and>
     describeEvent M ev w' = (Inr (Some (WT_SYNCFLOW_COMPLETED, sp_dataSourceId p,
       SyncflowCompletedWebhookPayload (sp_syncflowId p) (sp_dataSourceId p) (sp_syncVersion p) False n)), w')"
  using mongo_driver.succeed_run[OF mongo_driverI[OF assms(1)] assms(2-4), of X _ errs, OF _ refl refl] assms(5,6)
  by (simp add: postProcessor_handle_def isInitialSyncVersion_def Let_def)

theorem initial_version_flag_witness:
  "\<exists>ev. w_events (snd (postProcessor_handle listMongo example_storage
     (SyncflowSucceed (example_succeed 5 2)) example_world)) = [ev]"
  using initial_version_flag [OF listMongo_ok, of "example_succeed 5 2" example_world example_syncflow
      example_source example_storage "[]"] example_found
  by (fastforce simp: example_succeed_def example_storage_def example_world_def empty_world_def
      example_source_def)

end
