(* ===== verification/Frames.thy ===== *)
theory Frames
  imports SourceService PostProcessor Worker WebhookTriggers WebhookDispatch
begin

text \<open>
  Which operations leave the structure of the store alone. The frame of a store is the keys of its
  documents, the references between them and the deletion marks; the operations that update states,
  statistics, configurations or metadata keep it, in a caller's session as well as outside, and
  whether they return or throw.
\<close>

section \<open>Frames\<close>

type_synonym frame = "oid list \<times> oid list \<times> bool list \<times>
  (oid \<times> oid \<times> EmbeddedSyncflow list \<times> bool) list \<times> oid list \<times> bool list \<times>
  oid list \<times> oid list \<times> bool list"

definition frame_of :: "db \<Rightarrow> frame" where
  "frame_of d = (map dp_id (db_providers d), map ds_id (db_sources d),
     map ds_isDeleted (db_sources d),
     map (\<lambda>c. (sc_id c, sc_sourceId c, sc_syncflows c, sc_isDeleted c)) (db_connections d),
     map sf_id (db_syncflows d), map sf_isDeleted (db_syncflows d),
     map tr_id (db_triggers d), map tr_workflow_id (db_triggers d),
     map tr_isDeleted (db_triggers d))"

text \<open>The committed store has frame \<open>s\<close>, at least \<open>n\<close> object ids are used, and an open transaction has
  written nothing to the frame.\<close>

definition framed :: "frame \<Rightarrow> nat \<Rightarrow> bool \<Rightarrow> world \<Rightarrow> bool" where
  "framed s n open_tx w \<longleftrightarrow> frame_of (w_db w) = s \<and> n \<le> w_oids w \<and>
     (case w_tx w of None \<Rightarrow> \<not> open_tx
      | Some (_, g) \<Rightarrow> open_tx \<and> (\<forall>d. frame_of (g d) = frame_of d))"

abbreviation frames :: "'a act \<Rightarrow> bool" where
  "frames m \<equiv> \<forall>s n b. maintains (framed s n b) m"

lemma map_update_first: "(\<And>x. p x \<Longrightarrow> g (f x) = g x) \<Longrightarrow> map g (update_first p f xs) = map g xs"
  by (induction xs) simp_all

lemma maintains_write [maintains_intros]:
  assumes "\<And>d. frame_of (f d) = frame_of d"
  shows "maintains (framed s n b) (writeDb sess f)"
  using assms by (auto simp: maintains_def framed_def writeDb_def split: option.splits if_splits)

lemma maintains_world [maintains_intros]:
  "maintains (framed s n b) (newObjectId M)" "maintains (framed s n b) (allocObjectId M)"
  "maintains (framed s n b) (toObjectId h)" "maintains (framed s n b) (emitEvent e)"
  "maintains (framed s n b) (callService a c)" "maintains (framed s n b) (awaitAnswer a')"
  by (auto simp: maintains_def framed_def)

lemma frame_update:
  "(\<And>x. dp_id (p x) = dp_id x) \<Longrightarrow>
     frame_of (d\<lparr>db_providers := update_first q1 p (db_providers d)\<rparr>) = frame_of d"
  "(\<And>x. (ds_id (s x), ds_isDeleted (s x)) = (ds_id x, ds_isDeleted x)) \<Longrightarrow>
     frame_of (d\<lparr>db_sources := update_first q2 s (db_sources d)\<rparr>) = frame_of d"
  "(\<And>x. (sc_id (c x), sc_sourceId (c x), sc_syncflows (c x), sc_isDeleted (c x)) =
         (sc_id x, sc_sourceId x, sc_syncflows x, sc_isDeleted x)) \<Longrightarrow>
     frame_of (d\<lparr>db_connections := update_first q3 c (db_connections d)\<rparr>) = frame_of d"
  "(\<And>x. (sf_id (y x), sf_isDeleted (y x)) = (sf_id x, sf_isDeleted x)) \<Longrightarrow>
     frame_of (d\<lparr>db_syncflows := update_first q4 y (db_syncflows d)\<rparr>) = frame_of d"
  "(\<And>x. (tr_id (t x), tr_workflow_id (t x), tr_isDeleted (t x)) =
         (tr_id x, tr_workflow_id x, tr_isDeleted x)) \<Longrightarrow>
     frame_of (d\<lparr>db_triggers := update_first q5 t (db_triggers d)\<rparr>) = frame_of d"
  "frame_of (d\<lparr>db_webhooks := ws\<rparr>) = frame_of d" "frame_of (d\<lparr>db_operations := os\<rparr>) = frame_of d"
  by (simp_all add: frame_of_def map_update_first)

lemma maintains_json:
  "maintains Q a \<Longrightarrow> (\<And>x. maintains Q (b1 x)) \<Longrightarrow> (\<And>x. maintains Q (b2 x)) \<Longrightarrow> (\<And>x. maintains Q (b3 x)) \<Longrightarrow>
   (\<And>x. maintains Q (b4 x)) \<Longrightarrow> (\<And>x. maintains Q (b5 x)) \<Longrightarrow>
   maintains Q (case j of JNull \<Rightarrow> a | JBool x \<Rightarrow> b1 x | JNum x \<Rightarrow> b2 x | JStr x \<Rightarrow> b3 x
     | JArr x \<Rightarrow> b4 x | JObj x \<Rightarrow> b5 x)"
  by (cases j) simp_all

lemma maintains_enums:
  "maintains Q a \<Longrightarrow> (\<And>ty. maintains Q (b ty)) \<Longrightarrow>
     maintains Q (case wt of SYNCFLOW \<Rightarrow> a | OtherWorkflow ty \<Rightarrow> b ty)"
  "maintains Q g \<Longrightarrow> maintains Q x \<Longrightarrow> maintains Q y \<Longrightarrow>
     maintains Q (case pt of GOOGLE_SHEETS \<Rightarrow> g | MICROSOFT_EXCEL \<Rightarrow> x | AIR_TABLE \<Rightarrow> y)"
  by (auto split: WorkflowType.split ProviderType.split)

context mongo_driver begin

lemma maintains_tx [maintains_intros]:
  assumes "\<And>s n. maintains (framed s n True) m"
  shows "maintains (framed s n b) (runWithTransaction M m)"
  unfolding maintains_def
proof (intro allI impI)
  fix w assume w: "framed s n b w"
  let ?w = "w\<lparr>w_tx := Some (w_db w, id)\<rparr>"
  obtain r w' where m: "m ?w = (r, w')" by fastforce
  have "framed s n True ?w" using w by (simp add: framed_def)
  then have *: "framed s n True w'" using assms m by (blast dest: maintainsD)
  then show "framed s n b (snd (runWithTransaction M m w))"
    using w m by (auto simp: framed_def runWithTransaction_def split: sum.splits option.splits)
qed

lemma maintains_session [maintains_intros]:
  assumes "\<And>s n b. maintains (framed s n b) m"
  shows "maintains (framed s n b) (inSession M opts m)"
  using assms by (simp add: inSession_def maintains_tx)

section \<open>The repositories\<close>

lemma frames_reads [maintains_intros]:
  "maintains Q (SyncflowRepository_getById M i opts)"
  "maintains Q (SyncflowRepository_getByTriggerId M i opts)"
  "maintains Q (DataSourceRepository_getById M i opts)"
  "maintains Q (DataSourceRepository_getByProviderId M i opts)"
  "maintains Q (DataSourceRepository_getByExternalId M x opts)"
  "maintains Q (DataProviderRepository_getById M i opts)"
  "maintains Q (DataProviderRepository_getByExternalId M xo opts)"
  "maintains Q (SyncConnectionRepository_getById M i opts)"
  "maintains Q (SyncConnectionRepository_getByDataSourceId M i opts)"
  "maintains Q (TriggerRepository_getById M i opts)"
  "maintains Q (TriggerRepository_getByDataSourceId M i opts)"
  "maintains Q (TriggerRepository_getByWorkflowId M i opts)"
  "maintains Q (TriggerRepository_getByConfig M cfg opts)"
  "maintains Q (WebhookRepository_getById M i opts)"
  "maintains Q (WebhookRepository_getActiveWebhooksByType M ty sc dso opts)"
  by (simp_all add: maintains_basic SyncflowRepository_getById_def
      SyncflowRepository_getByTriggerId_def DataSourceRepository_getById_def
      DataSourceRepository_getByProviderId_def DataSourceRepository_getByExternalId_def
      DataProviderRepository_getById_def DataProviderRepository_getByExternalId_def
      SyncConnectionRepository_getById_def SyncConnectionRepository_getByDataSourceId_def
      TriggerRepository_getById_def TriggerRepository_getByDataSourceId_def
      TriggerRepository_getByWorkflowId_def TriggerRepository_getByConfig_def
      WebhookRepository_getById_def WebhookRepository_getActiveWebhooksByType_def)

lemma frames_helpers [maintains_intros]:
  "maintains Q (findConnection M i msg)" "maintains Q (reloadConnection M opts i)"
  "maintains Q (findSource M p)" "maintains Q (reloadSource M opts i)"
  "maintains Q (findLiveProvider M i msg)" "maintains Q (reloadProvider M opts i)"
  "maintains Q (findLiveTrigger M i)" "maintains Q (returnNewSyncflow M opts i)"
  unfolding findConnection_def reloadConnection_def findSource_def reloadSource_def
    findLiveProvider_def reloadProvider_def findLiveTrigger_def returnNewSyncflow_def
  by (intro maintains_intros)+

lemma frames_syncflow [maintains_intros]:
  "maintains (framed s n b) (SyncflowRepository_updateState M i u opts)"
  "maintains (framed s n b) (SyncflowRepository_updateStatus M i st opts)"
  "maintains (framed s n b) (SyncflowRepository_increaseVersion M i opts)"
  unfolding SyncflowRepository_updateState_def SyncflowRepository_updateStatus_def
    SyncflowRepository_increaseVersion_def updateLiveSyncflow_def
  by (rule maintains_intros | simp add: frame_update)+

lemma frames_updates [maintains_intros]:
  "maintains (framed s n b) (SyncConnectionRepository_update M i opts)"
  "maintains (framed s n b) (SyncConnectionRepository_updateState M csd opts)"
  "maintains (framed s n b) (DataSourceRepository_update M dsd opts)"
  "maintains (framed s n b) (DataSourceRepository_updateStatistics M i ssd opts)"
  "maintains (framed s n b) (DataProviderRepository_update M pd opts)"
  "maintains (framed s n b) (DataProviderRepository_updateState M i ps opts)"
  "maintains (framed s n b) (TriggerRepository_updateConfig M i cfg opts)"
  unfolding SyncConnectionRepository_update_def SyncConnectionRepository_updateState_def
    DataSourceRepository_update_def DataSourceRepository_updateStatistics_def
    DataProviderRepository_update_def DataProviderRepository_updateState_def
    TriggerRepository_updateConfig_def updateConnectionDoc_def updateSourceDoc_def
    updateProviderDoc_def updateTriggerDoc_def
  by (rule maintains_intros maintains_json | simp add: frame_update)+

section \<open>The applications\<close>

lemma maintains_obs:
  assumes "keeps store_obs m"
  shows "maintains (framed s n b) m"
  unfolding maintains_def
proof (intro allI impI)
  fix w assume "framed s n b w"
  moreover have "store_obs (snd (m w)) = store_obs w" using assms by (simp add: keeps_def)
  ultimately show "framed s n b (snd (m w))" by (simp add: store_obs_def framed_def)
qed

lemma maintains_wrappers [maintains_intros]:
  "maintains Q m \<Longrightarrow> maintains Q (activityWrapper m)"
  "maintains Q m \<Longrightarrow> maintains Q (processorWrapper x m)"
  "maintains Q m \<Longrightarrow> maintains Q (processorApiWrapper m)"
  "maintains Q m \<Longrightarrow> maintains Q (externalActivityWrapper m y)"
  "maintains Q m' \<Longrightarrow> maintains Q (workflowWrapper m')"
  "maintains Q m \<Longrightarrow> maintains Q (handled h m)"
  "maintains Q m \<Longrightarrow> maintains Q (activity F m)"
  "maintains Q m \<Longrightarrow> maintains Q (proxy F m)"
  unfolding activityWrapper_def processorWrapper_def processorApiWrapper_def
    externalActivityWrapper_def workflowWrapper_def handled_def activity_def proxy_def
  by (auto split: js_error.splits intro!: maintains_intros)

lemma maintains_services [maintains_intros]:
  "maintains (framed s n b) (MicrosoftService_getAccessToken T r)"
  "maintains (framed s n b) (GoogleService_getAccessToken T r)"
  "maintains (framed s n b) (MicrosoftGraphService_getWorkbookFileInfo T wb sel)"
  "maintains (framed s n b) (GoogleSheetsService_registerFileChangeWebhook T i f u)"
  "maintains (framed s n b) (GoogleSheetsService_stopFileChangeWebhook T i' r')"
  unfolding MicrosoftService_getAccessToken_def GoogleService_getAccessToken_def
    MicrosoftGraphService_getWorkbookFileInfo_def GoogleSheetsService_stopFileChangeWebhook_def
    GoogleSheetsService_registerFileChangeWebhook_def
  by (intro maintains_intros)+

text \<open>The controller: a trigger only changes the state of a syncflow.\<close>

lemma frames_triggered: "maintains (framed s n b) (handleWorkflowTriggered M T t)"
proof -
  have "maintains (framed s n b) (handleSyncflowTriggered M T t)" for s n b
    unfolding handleSyncflowTriggered_def runSyncflowController_def reject_def
      MicrosoftExcelSyncflowController_run_def GoogleSheetsSyncflowController_run_def
    by (intro maintains_intros maintains_enums)
  then have "maintains (framed s n b) (triggeredTransaction M T t)" for s n b
    unfolding triggeredTransaction_def checkWorkflowAlreadyScheduled_def reject_def
    by (intro maintains_intros maintains_enums)
  then show ?thesis unfolding handleWorkflowTriggered_def by (intro maintains_intros)
qed

text \<open>The worker: the activities and the three workflows.\<close>

lemma frames_activities [maintains_intros]:
  "maintains (framed s n b) (wp_checkAndUpdateStatusBeforeStartSyncflow (workerActivities M T P F) i)"
  "maintains (framed s n b) (wp_updateSyncflowState (workerActivities M T P F) i u)"
  "maintains (framed s n b) (wp_updateSyncflowStatus (workerActivities M T P F) i st)"
  "maintains (framed s n b) (wp_emitEvent (workerActivities M T P F) e)"
  "maintains (framed s n b) (wp_getDataSourceProviderGoogleSheets (workerActivities M T P F) i)"
  "maintains (framed s n b) (wp_getDownloadDataGoogleSheets (workerActivities M T P F) sf)"
  "maintains (framed s n b) (wp_downloadGoogleSheets (workerActivities M T P F) i x y)"
  "maintains (framed s n b) (wp_updateProviderStateGoogleSheets (workerActivities M T P F) i ps)"
  "maintains (framed s n b) (wp_getSyncDataGoogleSheets (workerActivities M T P F) sf)"
  "maintains (framed s n b) (wp_ingestGoogleSheets (workerActivities M T P F) sd v)"
  "maintains (framed s n b) (wp_compareGoogleSheets (workerActivities M T P F) i v v')"
  "maintains (framed s n b) (wp_loadGoogleSheets (workerActivities M T P F) sd v v')"
  "maintains (framed s n b) (wp_getSyncDataExcel (workerActivities M T P F) sf)"
  "maintains (framed s n b) (wp_downloadExcel (workerActivities M T P F) sd v)"
  "maintains (framed s n b) (wp_compareExcel (workerActivities M T P F) i v v')"
  "maintains (framed s n b) (wp_loadExcel (workerActivities M T P F) sd v v')"
  unfolding workerActivities_def worker_proxies.simps proxyUnit_def proxyValue_def
    checkAndUpdateStatusBeforeStartSyncflow_def updateSyncflowState_def updateSyncflowStatus_def
    WorkflowService_checkAndUpdateStatusBeforeStartSyncflow_def
    WorkflowService_updateSyncflowState_def WorkflowService_updateSyncflowStatus_def
    getDataSourceProviderGoogleSheets_def getDownloadDataGoogleSheets_def downloadGoogleSheets_def
    updateProviderStateGoogleSheets_def getSyncDataGoogleSheets_def ingestGoogleSheets_def
    compareGoogleSheets_def loadGoogleSheets_def getSyncDataExcel_def downloadExcel_def
    compareExcel_def loadExcel_def sourceOfSyncflow_def providerOrReject_def
  by (intro maintains_intros)+

lemma frames_workflows:
  "maintains (framed s n b) (googleSheetsFullSync (workerActivities M T P F) data)"
  "maintains (framed s n b) (googleSheetsDownload (workerActivities M T P F) data)"
  "maintains (framed s n b) (googleSheetsProceedSync (workerActivities M T P F) data)"
  "maintains (framed s n b) (excelFullSync (workerActivities M T P F) data)"
  unfolding googleSheetsFullSync_def googleSheetsDownload_def googleSheetsProceedSync_def
    excelFullSync_def GoogleSheetsFullSyncErrorHandler_def excelErrorHandler_def Let_def now_io_def
  by (intro maintains_intros)+

text \<open>The post-processor.\<close>

lemma maintains_bind_lift:
  "(\<And>x. r = Inr x \<Longrightarrow> maintains Q (f x)) \<Longrightarrow> maintains Q (bind_io (lift_io r) f)"
  by (cases r) (simp_all add: maintains_def bind_io_run)

lemma frames_cleaners:
  "getWorkflowCleaner X p = Inr c \<Longrightarrow> maintains (framed s n b) (c sf v v')"
  "getDataProviderCleaner X p = Inr c' \<Longrightarrow> maintains (framed s n b) (c' j)"
proof -
  have "maintains (framed s n b) (cleanDiffData X i v)" "maintains (framed s n b) (cleanSpreadsheetData X j)"
    for i v j unfolding cleanDiffData_def cleanSpreadsheetData_def by (intro maintains_intros)+
  note [simp] = this maintains_basic
  show "getWorkflowCleaner X p = Inr c \<Longrightarrow> maintains (framed s n b) (c sf v v')"
    by (cases p) (auto simp: getWorkflowCleaner_def GoogleSheetsWorkflowCleaner_run_def
        MicrosoftExcelWorkflowCleaner_run_def)
  show "getDataProviderCleaner X p = Inr c' \<Longrightarrow> maintains (framed s n b) (c' j)"
    by (cases p) (auto simp: getDataProviderCleaner_def GoogleSheetsDataProviderCleaner_run_def
        MicrosoftExcelDataProviderCleaner_run_def)
qed

lemma frames_cleaned:
  "(\<And>x. maintains (framed s n b) (k x)) \<Longrightarrow> maintains (framed s n b)
     (bind_io (lift_io (getWorkflowCleaner X p)) (\<lambda>c. bind_io (c sf v v') k))"
  "maintains (framed s n b) (bind_io (lift_io (getDataProviderCleaner X p)) (\<lambda>c. c j))"
  by (rule maintains_bind_lift, erule frames_cleaners maintains_bind[OF frames_cleaners(1)], assumption)
     (rule maintains_bind_lift, erule frames_cleaners)

lemma frames_post: "maintains (framed s n b) (postProcessor_handle M X e)"
proof -
  have "maintains (framed s n b) (stopSyncConnection M i)" for i
    unfolding stopSyncConnection_def by (intro maintains_intros)
  note [simp] = this
  have [simp]: "maintains (framed s n b) (handleSyncflowSucceed M X p)" for p
    unfolding handleSyncflowSucceed_def Let_def
    by (rule frames_cleaned maintains_intros)+
  have [simp]: "maintains (framed s n b) (handleProviderDeleted X i ty)" for i ty
    unfolding handleProviderDeleted_def by (rule frames_cleaned)
  show ?thesis
    by (cases e) (simp_all add: postProcessor_handle_def handleSyncflowFailed_def
        handleDataSourceError_def maintains_basic)
qed

text \<open>The trigger applications.\<close>

lemma maintains_processTrigger [maintains_intros]:
  "maintains (framed s n b) (processTrigger t)" "maintains (framed s n b) (configOf t)"
  unfolding processTrigger_def configOf_def by (intro maintains_intros)+

lemma frames_cron:
  "maintains (framed s n b) (Cron_onConnectionCreated M Q c)"
  "maintains (framed s n b) (Cron_onConnectionDeleted M Q c)"
  "maintains (framed s n b) (CronTriggerProcessor_process M t)"
  unfolding Cron_onConnectionCreated_def Cron_onConnectionDeleted_def
    CronTriggerProcessor_process_def Cron_createTriggerFromSyncConnection_def
    Cron_deleteTriggerFromSyncConnection_def createCronTrigger_def deleteCronTrigger_def
  by (intro maintains_intros)+

lemma frames_webhook:
  "maintains (framed s n b) (Webhook_onConnectionCreated M A c)"
  "maintains (framed s n b) (Webhook_onConnectionDeleted M A c)"
  "maintains (framed s n b) (GoogleSheetsWebhookJobProcessor_process M A i)"
  "maintains (framed s n b) (triggerWebhookGoogleSheets M i ho st ch)"
proof -
  have "maintains (framed s n b) (reportExternal c e)" for c e s n b
    unfolding reportExternal_def by (cases e) (simp_all, (intro maintains_intros)+)
  note [maintains_intros] = this
  show "maintains (framed s n b) (Webhook_onConnectionCreated M A c)"
    "maintains (framed s n b) (Webhook_onConnectionDeleted M A c)"
    "maintains (framed s n b) (GoogleSheetsWebhookJobProcessor_process M A i)"
    "maintains (framed s n b) (triggerWebhookGoogleSheets M i ho st ch)"
    unfolding Webhook_onConnectionCreated_def Webhook_onConnectionDeleted_def
      GoogleSheetsWebhookJobProcessor_process_def GoogleSheetsWebhook_refreshWebhook_def
      Webhook_createTriggerFromSyncConnection_def Webhook_deleteTriggerFromSyncConnection_def
      createWebhookTrigger_def deleteWebhookTrigger_def WebhookServiceFactory_get_def
      GoogleSheetsWebhook_createWebhook_def GoogleSheetsWebhook_stopWebhook_def
      GoogleSheetsWebhook_create_def GoogleSheetsWebhook_stop_def
      triggerWebhookGoogleSheets_def getByWebhookId_def handleReceivedWebhook_def
    by (intro maintains_intros)+
qed

text \<open>The webhook application and the updates of the configurator.\<close>

lemma frames_dispatch:
  "maintains (framed s n b) (webhookBroker_handle M Q e)"
  "maintains (framed s n b) (WebhookProcessor_process M sign http j)"
proof -
  have "maintains (framed s n b) (describeEvent M e)" for e
    by (cases e) (simp_all only: describeEvent.simps, (intro maintains_intros)+)
  then have "maintains (framed s n b) (addWebhookExecution M Q e a)" for e a
    unfolding addWebhookExecution_def Let_def by (intro maintains_intros)
  then show "maintains (framed s n b) (webhookBroker_handle M Q e)"
    by (cases e) (simp_all add: webhookBroker_handle_def maintains_basic)
  have "maintains (framed s n b) (executeWebhook M sign http i p)" for i p
    unfolding executeWebhook_def Let_def by (intro maintains_intros)
  then show "maintains (framed s n b) (WebhookProcessor_process M sign http j)"
    by (cases j) (simp_all add: WebhookProcessor_process_def maintains_basic)
qed

lemma frames_configurator:
  "maintains (framed s n b) (DataSourceService_update M i md)"
  "maintains (framed s n b) (DataProviderService_update M i au md)"
  "maintains (framed s n b) (DataSourceService_updateSyncConnection M i cs)"
  "maintains (framed s n b) (manualTrigger M i)"
  unfolding DataSourceService_update_def DataProviderService_update_def manualTrigger_def
    DataSourceService_updateSyncConnection_def updateStateWithDataSourceId_def
    DataSourceService_getById_def
  by (intro maintains_intros)+

end

end
