(* ===== verification/DestinationData.thy ===== *)
theory DestinationData
  imports SourceService
begin

text \<open>
  Reading the destination store: \<open>libs/modules/src/dest-database\<close> and the methods of the configurator's
  \<open>DataSourceService\<close> that use it. The service of PostgreSQL puts what it is given into the text of a
  query; the driver that runs the text is the parameter \<open>dst_query\<close>.
\<close>

section \<open>Destination database services\<close>

datatype DatabaseType = DB_MONGODB | DB_MYSQL | DB_POSTGRES | DB_MARIADB | DB_SQLITE | DB_MSSQL

datatype DestinationService = MongodbDestination | PostgresDestination

record destination =
  dst_service :: DestinationService
  dst_query :: "ext_call list \<Rightarrow> js_error + json list"

text \<open>\<open>DestinationDatabaseModule.register\<close>: only two of the types have a service.\<close>

definition DestinationDatabaseModule_register :: "DatabaseType \<Rightarrow> js_error + DestinationService" where
  "DestinationDatabaseModule_register databaseType = (case databaseType of
     DB_MONGODB \<Rightarrow> Inr MongodbDestination
   | DB_POSTGRES \<Rightarrow> Inr PostgresDestination
   | _ \<Rightarrow> Inl (PlainError ''Database type not supported''))"

text \<open>The queries of the PostgreSQL service.\<close>

definition schemaQuery :: "string \<Rightarrow> string" where
  "schemaQuery i = ''SELECT sf.hash_name as id, name, type, origin_type as originalType, nullable, enum, readonly, is_primary as primary FROM schema_fields sf JOIN schemas s ON sf.schema_id = s.id WHERE s.data_source_id = '' @
     [CHR 39] @ i @ [CHR 39]"

definition dataQuery :: "string \<Rightarrow> string" where
  "dataQuery dataTableName = ''SELECT data FROM '' @ [CHR 34] @ dataTableName @ [CHR 34]"

text \<open>\<open>r.data\<close> of a row; \<open>undefined\<close> is null in a reply.\<close>

fun rowData :: "json \<Rightarrow> json" where
  "rowData (JObj fs) = (case map_of fs ''data'' of None \<Rightarrow> JNull | Some v \<Rightarrow> v)"
| "rowData _ = JNull"

text \<open>The methods of the MongoDB service have empty bodies.\<close>

definition Destination_getSchema :: "destination \<Rightarrow> oid \<Rightarrow> json list option act" where
  "Destination_getSchema D i = (case dst_service D of
     MongodbDestination \<Rightarrow> return_io None
   | PostgresDestination \<Rightarrow> bind_io (callService (dst_query D) (SqlQuery (schemaQuery i)))
       (\<lambda>schema. return_io (Some schema)))"

definition Destination_getData :: "destination \<Rightarrow> string \<Rightarrow> json list option act" where
  "Destination_getData D dataTableName = (case dst_service D of
     MongodbDestination \<Rightarrow> return_io None
   | PostgresDestination \<Rightarrow> bind_io (callService (dst_query D) (SqlQuery (dataQuery dataTableName)))
       (\<lambda>res. return_io (Some (map rowData res))))"

section \<open>The data source service\<close>

definition DataSourceService_getSchema :: "destination \<Rightarrow> oid \<Rightarrow> json list option act" where
  "DataSourceService_getSchema D i = Destination_getSchema D i"

text \<open>\<open>dataSource.config.dest?.tableName || `_${dataSource.id}`\<close>.\<close>

definition dataTableName :: "DataSource \<Rightarrow> string" where
  "dataTableName dataSource = (if truthy_str (cfg_destTableName (ds_config dataSource))
     then the (cfg_destTableName (ds_config dataSource)) else CHR ''_'' # ds_id dataSource)"

definition DataSourceService_getData :: "mongo \<Rightarrow> destination \<Rightarrow> oid \<Rightarrow> json list option act" where
  "DataSourceService_getData M D i =
    bind_io (DataSourceService_getById M i) (\<lambda>dataSource.
      Destination_getData D (dataTableName dataSource))"

end
