(* ===== verification/ConfiguratorApi.thy ===== *)
theory ConfiguratorApi
  imports DestinationData
begin

text \<open>
  The HTTP interface of the configurator (\<open>apps/configurator/src\<close>): the controllers of
  \<open>modules\<close>, the guard, the error class and the exception filter of \<open>common\<close>. An endpoint throws
  what its service throws, or an \<open>ApiError\<close> of its own that may have a payload. Nest itself (routing,
  the reply to an exception that the filter hands on, the status of a successful reply) is not
  modelled. Workflows are executed by Temporal; an execution whose workflow the service starts and
  awaits runs the workflow of the configurator, and what the workflow throws is what the client
  gets (in a \<open>WorkflowFailedError\<close>, represented by its cause).
\<close>

section \<open>Errors and replies\<close>

definition HEALTH_CHECK_FAILED :: json where "HEALTH_CHECK_FAILED = JStr ''E3''"

datatype http_error =
    HttpApiError json json "json option"   \<comment> \<open>code, message, payload\<close>
  | OtherError js_error

fun ofService :: "js_error \<Rightarrow> http_error" where
  "ofService (ApiError code message) = HttpApiError code (JStr message) None"
| "ofService e = OtherError e"

text \<open>\<open>constructor(code: string | number, ...)\<close>.\<close>

definition apiErrorStatus :: "json \<Rightarrow> int" where
  "apiErrorStatus code = (case code of
     JNum n \<Rightarrow> n
   | _ \<Rightarrow> if code = INVALID_DATA then 400
         else if code = NO_DATA_EXISTS then 404
         else if code = HEALTH_CHECK_FAILED then 400
         else if code = ALREADY_EXISTS then 409
         else 500)"

record error_body =
  eb_type :: string
  eb_code :: json
  eb_message :: json
  eb_statusCode :: int
  eb_data :: "json option"

datatype 'a reply =
    Success 'a
  | ErrorReply error_body
  | FrameworkReply js_error       \<comment> \<open>\<open>super.catch\<close>\<close>
  | Forbidden                     \<comment> \<open>the guard refused\<close>

text \<open>\<open>exception.getResponse()\<close>: an undefined payload is not in the JSON text.\<close>

definition getResponse :: "json \<Rightarrow> json option \<Rightarrow> json" where
  "getResponse message payload = JObj ((''content'', message) #
     (case payload of None \<Rightarrow> [] | Some p \<Rightarrow> [(''payload'', p)]))"

fun AllExceptionFilter_catch :: "http_error \<Rightarrow> 'a reply" where
  "AllExceptionFilter_catch (HttpApiError code message payload) =
    (let status = (if apiErrorStatus code \<noteq> 0 then apiErrorStatus code else 500)
     in ErrorReply \<lparr>eb_type = ''internal'', eb_code = code,
          eb_message = getResponse message payload, eb_statusCode = status, eb_data = None\<rparr>)"
| "AllExceptionFilter_catch (OtherError (ExternalError code message data)) =
    ErrorReply \<lparr>eb_type = ''external'', eb_code = JNum code, eb_message = JStr message,
      eb_statusCode = 500, eb_data = data\<rparr>"
| "AllExceptionFilter_catch (OtherError e) = FrameworkReply e"

text \<open>The guard: the key is a listed one, and not the empty string.\<close>

definition Configurator_canActivate :: "string list \<Rightarrow> string option \<Rightarrow> bool" where
  "Configurator_canActivate apiKeys apiKeyHeader =
    (if \<not> truthy_str apiKeyHeader then False else the apiKeyHeader \<in> set apiKeys)"

section \<open>Validation errors\<close>

text \<open>\<open>ValidationError\<close> of \<open>class-validator\<close>: the texts of the broken constraints, and the errors of
  nested objects.\<close>

datatype ValidationError = ValidationError
  (ve_constraints: "(string \<times> string) list option") (ve_children: "ValidationError list option")

fun getErrorMessages :: "ValidationError list \<Rightarrow> string list" where
  "getErrorMessages [] = []"
| "getErrorMessages (ValidationError (Some constraints) children # errors) =
     map snd constraints @ getErrorMessages errors"
| "getErrorMessages (ValidationError None (Some children) # errors) =
     getErrorMessages children @ getErrorMessages errors"
| "getErrorMessages (ValidationError None None # errors) = getErrorMessages errors"

text \<open>\<open>Types.ObjectId\<close> and the built-in classes are not validated; \<open>DtoClass\<close> is a class of the program.\<close>

datatype metatype = StringClass | BooleanClass | NumberClass | ArrayClass | ObjectClass
  | ObjectIdClass | DtoClass string

definition toValidate :: "metatype \<Rightarrow> bool" where
  "toValidate m \<longleftrightarrow> m \<notin> {StringClass, BooleanClass, NumberClass, ArrayClass, ObjectClass,
     ObjectIdClass}"

text \<open>The pipe, over \<open>plainToClass\<close> and \<open>validate\<close>.\<close>

definition ValidationPipe_transform ::
  "(metatype \<Rightarrow> 'v \<Rightarrow> 'v) \<Rightarrow> ('v \<Rightarrow> ValidationError list) \<Rightarrow> 'v \<Rightarrow> metatype option \<Rightarrow> http_error + 'v"
  where
  "ValidationPipe_transform plainToClass validate v m = (case m of
     None \<Rightarrow> Inr v
   | Some mt \<Rightarrow> if \<not> toValidate mt then Inr v
       else (let object = plainToClass mt v; errors = validate object
             in if errors \<noteq> []
                then Inl (HttpApiError INVALID_DATA (JArr (map JStr (getErrorMessages errors))) None)
                else Inr object))"

section \<open>Executing a workflow\<close>

text \<open>\<open>OrchestratorService.executeWorkflow\<close> and the configurator's own \<open>WorkflowService.executeWorkflow\<close>,
  with the run that \<open>handle.result()\<close> awaits.\<close>

definition executeWorkflow_run ::
  "temporal \<Rightarrow> string \<Rightarrow> WorkflowOptions \<Rightarrow> 'a act \<Rightarrow> 'a option act" where
  "executeWorkflow_run S workflowName options run =
    catch_io
      (bind_io (callService (tm_start S) (StartWorkflow workflowName options)) (\<lambda>_.
       if wo_waitResult options then bind_io run (\<lambda>r. return_io (Some r)) else return_io None))
      (\<lambda>err. if err = WorkflowExecutionAlreadyStartedError \<and> \<not> wo_errorOnDuplicate options
             then return_io None else throw_io err)"

definition configurator_executeWorkflow_run ::
  "temporal \<Rightarrow> string \<Rightarrow> WorkflowOptions \<Rightarrow> 'a act \<Rightarrow> 'a option act" where
  "configurator_executeWorkflow_run S workflowName options run =
    catch_io
      (bind_io (callService (tm_start S) (StartWorkflow workflowName options)) (\<lambda>_.
       bind_io run (\<lambda>r. return_io (Some r))))
      (\<lambda>err. if err = WorkflowExecutionAlreadyStartedError then return_io None
             else throw_io err)"

lemma executeWorkflow_awaits:
  "OrchestratorService_executeWorkflow S n o' = executeWorkflow_run S n o' (awaitAnswer (tm_result S))"
  "configurator_executeWorkflow S n o' =
     configurator_executeWorkflow_run S n o' (awaitAnswer (tm_result S))"
  by (simp_all add: OrchestratorService_executeWorkflow_def executeWorkflow_run_def
      configurator_executeWorkflow_def configurator_executeWorkflow_run_def)

section \<open>Controllers\<close>

type_synonym 'a endpoint = "(world, http_error, 'a) io"

definition service :: "'a act \<Rightarrow> 'a endpoint" where
  "service m = catch_io m (\<lambda>e. throw_io (ofService e))"

definition typeError :: "'a endpoint" where
  "typeError = throw_io (OtherError TypeError)"

definition alreadyExists :: "string \<Rightarrow> json option \<Rightarrow> 'a endpoint" where
  "alreadyExists message payload = throw_io (HttpApiError ALREADY_EXISTS (JStr message) payload)"

definition idPayload :: "string \<Rightarrow> string \<Rightarrow> json option" where
  "idPayload key i = Some (JObj [(key, JStr i)])"

text \<open>What the configurator runs with.\<close>

record configurator =
  cf_mongo :: mongo
  cf_services :: third_party
  cf_temporal :: temporal
  cf_failure :: "js_error \<Rightarrow> js_error"
  cf_draws :: "nat \<Rightarrow> draws"
  cf_apiKeys :: "string list"
  cf_destination :: destination

definition DataProviderController_create ::
  "configurator \<Rightarrow> CreateDataProviderDto \<Rightarrow> DataProvider endpoint" where
  "DataProviderController_create A dto =
    bind_io (service (DataProviderService_create (cf_mongo A) dto)) (\<lambda>result.
      if cr_isAlreadyCreated result
      then alreadyExists ''Provider already exists'' (idPayload ''providerId'' (dp_id (cr_data result)))
      else return_io (cr_data result))"

text \<open>\<open>DataDiscovererService.getById\<close>.\<close>

definition DataDiscovererService_getById :: "mongo \<Rightarrow> oid \<Rightarrow> DataProvider act" where
  "DataDiscovererService_getById M i =
    bind_io (DataProviderRepository_getById M i no_options) (\<lambda>r. case r of
      None \<Rightarrow> throw_io (ApiError NO_DATA_EXISTS (''DataProvider with id '' @ i @ '' not found''))
    | Some p \<Rightarrow> return_io p)"

definition DataSourceController_create ::
  "configurator \<Rightarrow> CreateDataSourceDto \<Rightarrow> DataSource endpoint" where
  "DataSourceController_create A dto =
    bind_io (service (DataSourceService_create (cf_mongo A) (cf_services A) dto)) (\<lambda>result.
      if cr_isAlreadyCreated result
      then alreadyExists ''Data source already exists''
             (idPayload ''dataSourceId'' (ds_id (cr_data result)))
      else return_io (cr_data result))"

text \<open>Reading a property of an undefined result throws.\<close>

definition connectionCreated :: "SyncConnection CreationResult option \<Rightarrow> SyncConnection endpoint" where
  "connectionCreated result = (case result of
     None \<Rightarrow> typeError
   | Some r \<Rightarrow> if cr_isAlreadyCreated r
       then alreadyExists ''Sync connection for data source already exists''
              (idPayload ''syncConnectionId'' (sc_id (cr_data r)))
       else return_io (cr_data r))"

text \<open>The second parameter of \<open>createConnection\<close> has no decorator, so Nest passes \<open>undefined\<close> and
  \<open>{ ...data, sourceId: id }\<close> is only the id.\<close>

definition DataSourceController_createConnection ::
  "configurator \<Rightarrow> oid \<Rightarrow> SyncConnectionConfig option \<Rightarrow> SyncConnection endpoint" where
  "DataSourceController_createConnection A i body =
    (let data = \<lparr>cn_sourceId = i, cn_config = None\<rparr>
     in bind_io (service (configurator_executeWorkflow_run (cf_temporal A) ''createSyncConnectionWf''
         \<lparr>wo_workflowId = i, wo_args = [ArgConnection data], wo_workflowIdReusePolicy = None,
          wo_searchDataSourceId = Some i, wo_waitResult = False, wo_errorOnDuplicate = False\<rparr>
         (createSyncConnectionWf (cf_mongo A) loaded_registries (cf_draws A) (cf_failure A) data)))
       connectionCreated)"

definition SyncConnectionController_create ::
  "configurator \<Rightarrow> CreateSyncConnectionDto \<Rightarrow> SyncConnection endpoint" where
  "SyncConnectionController_create A data =
    bind_io (service (executeWorkflow_run (cf_temporal A) ''createSyncConnectionWf''
        \<lparr>wo_workflowId = cn_sourceId data, wo_args = [ArgConnection data],
         wo_workflowIdReusePolicy = None, wo_searchDataSourceId = Some (cn_sourceId data),
         wo_waitResult = True, wo_errorOnDuplicate = False\<rparr>
        (createSyncConnectionWf (cf_mongo A) loaded_registries (cf_draws A) (cf_failure A) data)))
      connectionCreated"

definition SyncConnectionController_delete ::
  "configurator \<Rightarrow> oid \<Rightarrow> SyncConnection option endpoint" where
  "SyncConnectionController_delete A i =
    bind_io (service (executeWorkflow_run (cf_temporal A) ''deleteSyncConnectionWf''
        \<lparr>wo_workflowId = i, wo_args = [ArgId i], wo_workflowIdReusePolicy = None,
         wo_searchDataSourceId = None, wo_waitResult = True, wo_errorOnDuplicate = False\<rparr>
        (deleteSyncConnectionWf (cf_mongo A) (cf_failure A) i))) (\<lambda>result. case result of
      None \<Rightarrow> typeError
    | Some r \<Rightarrow> if dr_isAlreadyDeleted r
        then alreadyExists ''Sync connection is already deleted'' None
        else return_io (dr_data r))"

definition DataSourceController_delete ::
  "configurator \<Rightarrow> oid \<Rightarrow> DeleteDataSourceResult option endpoint" where
  "DataSourceController_delete A i =
    bind_io (service (executeWorkflow_run (cf_temporal A) ''deleteDataSourceWf''
        \<lparr>wo_workflowId = i, wo_args = [ArgId i], wo_workflowIdReusePolicy = None,
         wo_searchDataSourceId = Some i, wo_waitResult = True, wo_errorOnDuplicate = False\<rparr>
        (deleteDataSourceWf (cf_mongo A) (cf_temporal A) (cf_failure A) i))) (\<lambda>result. case result of
      None \<Rightarrow> typeError
    | Some r \<Rightarrow> if dr_isAlreadyDeleted r
        then alreadyExists ''Data source is already deleted'' None
        else return_io (dr_data r))"

section \<open>Requests\<close>

text \<open>A request is a call of a controller method. What it answers with, on success, is one of
  \<open>api_data\<close>.\<close>

datatype request =
    GetHello
  | GetDataSource oid
  | PostDataSource CreateDataSourceDto
  | PutDataSource oid "Metadata option"
  | PatchConnection oid "SyncConnectionStatus option"
  | PostConnectionOf oid "SyncConnectionConfig option"
  | PostManualTriggerOf oid
  | DeleteDataSource oid
  | DiscoverProvider oid
  | GetProvider oid
  | PostProvider CreateDataProviderDto
  | PutProvider oid "string option option" "Metadata option"
  | GetConnection oid
  | PostConnection CreateSyncConnectionDto
  | DeleteConnection oid
  | PostManualTrigger oid
  | PostWebhook CreateWebhookDto
  | PostWebhooks "CreateWebhookDto list"
  | GetSchema oid
  | GetData oid

datatype api_data =
    AText string
  | ADataSource "DataSource option"
  | AProvider "DataProvider option"
  | AConnection "SyncConnection option"
  | ADeleted "DeleteDataSourceResult option"
  | ADiscovered "string list"
  | ARows "json list option"
  | ANothing

definition answer :: "('a \<Rightarrow> api_data) \<Rightarrow> 'a endpoint \<Rightarrow> api_data endpoint" where
  "answer f m = bind_io m (\<lambda>x. return_io (f x))"

fun endpoint_of :: "configurator \<Rightarrow> request \<Rightarrow> api_data endpoint" where
  "endpoint_of A GetHello = return_io (AText ''Hello World !'')"
| "endpoint_of A (GetDataSource i) =
    answer (ADataSource \<circ> Some) (service (DataSourceService_getById (cf_mongo A) i))"
| "endpoint_of A (PostDataSource dto) = answer (ADataSource \<circ> Some) (DataSourceController_create A dto)"
| "endpoint_of A (PutDataSource i metadata) =
    answer ADataSource (service (DataSourceService_update (cf_mongo A) i metadata))"
| "endpoint_of A (PatchConnection i status) =
    answer (\<lambda>_. ANothing) (service (DataSourceService_updateSyncConnection (cf_mongo A) i status))"
| "endpoint_of A (PostConnectionOf i body) =
    answer (AConnection \<circ> Some) (DataSourceController_createConnection A i body)"
| "endpoint_of A (PostManualTriggerOf i) =
    answer (\<lambda>_. ANothing) (service (triggerSyncConnection (cf_mongo A) i))"
| "endpoint_of A (DeleteDataSource i) = answer ADeleted (DataSourceController_delete A i)"
| "endpoint_of A (DiscoverProvider i) =
    answer ADiscovered (service (discoverProvider (cf_mongo A) (cf_services A) i))"
| "endpoint_of A (GetProvider i) =
    answer (AProvider \<circ> Some) (service (DataDiscovererService_getById (cf_mongo A) i))"
| "endpoint_of A (PostProvider dto) = answer (AProvider \<circ> Some) (DataProviderController_create A dto)"
| "endpoint_of A (PutProvider i auth metadata) =
    answer AProvider (service (DataProviderService_update (cf_mongo A) i auth metadata))"
| "endpoint_of A (GetConnection i) =
    answer (AConnection \<circ> Some) (service (SyncConnectionService_getById (cf_mongo A) i))"
| "endpoint_of A (PostConnection data) =
    answer (AConnection \<circ> Some) (SyncConnectionController_create A data)"
| "endpoint_of A (DeleteConnection i) = answer AConnection (SyncConnectionController_delete A i)"
| "endpoint_of A (PostManualTrigger i) =
    answer (\<lambda>_. ANothing) (service (manualTrigger (cf_mongo A) i))"
| "endpoint_of A (PostWebhook data) =
    answer (\<lambda>_. ANothing) (service (WebhookService_create (cf_mongo A) data))"
| "endpoint_of A (PostWebhooks webhooks) =
    answer (\<lambda>_. ANothing) (service (WebhookService_bulkCreate (cf_mongo A) webhooks))"
| "endpoint_of A (GetSchema i) =
    answer ARows (service (DataSourceService_getSchema (cf_destination A) i))"
| "endpoint_of A (GetData i) =
    answer ARows (service (DataSourceService_getData (cf_mongo A) (cf_destination A) i))"

definition handleRequest ::
  "configurator \<Rightarrow> string option \<Rightarrow> request \<Rightarrow> world \<Rightarrow> api_data reply \<times> world" where
  "handleRequest A apiKey req w =
    (if \<not> Configurator_canActivate (cf_apiKeys A) apiKey then (Forbidden, w)
     else case endpoint_of A req w of
       (Inr x, w') \<Rightarrow> (Success x, w')
     | (Inl e, w') \<Rightarrow> (AllExceptionFilter_catch e, w'))"

section \<open>Facts\<close>

definition createOptions :: "CreateSyncConnectionDto \<Rightarrow> bool \<Rightarrow> WorkflowOptions" where
  "createOptions data wait = \<lparr>wo_workflowId = cn_sourceId data, wo_args = [ArgConnection data],
     wo_workflowIdReusePolicy = None, wo_searchDataSourceId = Some (cn_sourceId data),
     wo_waitResult = wait, wo_errorOnDuplicate = False\<rparr>"

definition deleteOptions :: "oid \<Rightarrow> WorkflowOptions" where
  "deleteOptions i = \<lparr>wo_workflowId = i, wo_args = [ArgId i], wo_workflowIdReusePolicy = None,
     wo_searchDataSourceId = Some i, wo_waitResult = True, wo_errorOnDuplicate = False\<rparr>"

definition conflict :: "string \<Rightarrow> json option \<Rightarrow> error_body" where
  "conflict message payload = \<lparr>eb_type = ''internal'', eb_code = ALREADY_EXISTS,
     eb_message = getResponse (JStr message) payload, eb_statusCode = 409, eb_data = None\<rparr>"

text \<open>Execution of a workflow whose result is awaited and for which a duplicate is no error.\<close>

lemma awaited_execution:
  assumes "wo_waitResult o'" and "\<not> wo_errorOnDuplicate o'"
  shows "executeWorkflow_run S n o' m w = (case tm_start S (w_calls w @ [StartWorkflow n o']) of
      Inl e \<Rightarrow> (if e = WorkflowExecutionAlreadyStartedError then Inr None else Inl e,
        w\<lparr>w_calls := w_calls w @ [StartWorkflow n o']\<rparr>)
    | Inr _ \<Rightarrow> (case m (w\<lparr>w_calls := w_calls w @ [StartWorkflow n o']\<rparr>) of
        (Inl e, w') \<Rightarrow> (if e = WorkflowExecutionAlreadyStartedError then Inr None else Inl e, w')
      | (Inr r, w') \<Rightarrow> (Inr (Some r), w')))"
  using assms by (simp add: executeWorkflow_run_def io_simps catch_io_run bind_io_run
      split: sum.split prod.split)

text \<open>
  Nothing happens without an API key. A request whose \<open>x-api-key\<close> header is missing, empty or
  not one of the configured keys is refused by the guard and leaves the world as it was, whatever
  it asks for; a request with a configured key is never refused.
\<close>

theorem api_key_required:
  "if key = None \<or> key = Some [] \<or> the key \<notin> set (cf_apiKeys A)
   then handleRequest A key req w = (Forbidden, w)
   else fst (handleRequest A key req w) \<noteq> Forbidden"
proof -
  have "AllExceptionFilter_catch e \<noteq> Forbidden" for e
    by (cases e rule: AllExceptionFilter_catch.cases) (simp_all add: Let_def)
  moreover have "Configurator_canActivate (cf_apiKeys A) key \<longleftrightarrow>
      \<not> (key = None \<or> key = Some [] \<or> the key \<notin> set (cf_apiKeys A))"
    by (auto simp: Configurator_canActivate_def truthy_str_def split: option.splits)
  ultimately show ?thesis by (auto simp: handleRequest_def split: sum.split prod.split)
qed


definition example_configurator :: configurator where
  "example_configurator = \<lparr>cf_mongo = listMongo, cf_services = example_services,
     cf_temporal = example_temporal, cf_failure = ActivityFailure,
     cf_draws = (\<lambda>_. \<lparr>rn_seconds = 0, rn_minutes = 0, rn_uuid = ''uu''\<rparr>), cf_apiKeys = [''k''],
     cf_destination = \<lparr>dst_service = PostgresDestination, dst_query = (\<lambda>_. Inr [])\<rparr>\<rparr>"

lemma example_configurator_sel [simp]:
  "cf_mongo example_configurator = listMongo" "cf_temporal example_configurator = example_temporal"
  "cf_failure example_configurator = ActivityFailure"
  "Configurator_canActivate (cf_apiKeys example_configurator) (Some ''k'')"
  by (simp_all add: example_configurator_def Configurator_canActivate_def truthy_str_def)


text \<open>Requested through the data source, a connection is created without the configuration in the
  body.\<close>

lemma connection_of_source_unconfigured:
  assumes "mongo_ok (cf_mongo A)"
    and "Configurator_canActivate (cf_apiKeys A) key" and "\<forall>cs. tm_start (cf_temporal A) cs = Inr ()"
    and "live_connection i (w_db w) = None" and "live_source i (w_db w) = Some ds"
    and "ds_provider_type ds \<noteq> AIR_TABLE"
    and "handleRequest A key (PostConnectionOf i body) w = (r, w')"
  shows "\<exists>c. r = Success (AConnection (Some c)) \<and> sc_config c = None \<and>
    live_connection i (w_db w') = Some c"
proof -
  let ?data = "\<lparr>cn_sourceId = i, cn_config = None\<rparr>"
  let ?w = "w\<lparr>w_calls := w_calls w @
    [StartWorkflow ''createSyncConnectionWf'' (createOptions ?data False)]\<rparr>"
  let ?m = "createSyncConnectionWf (cf_mongo A) loaded_registries (cf_draws A) (cf_failure A) ?data"
  have ctl: "DataSourceController_createConnection A i body = bind_io (service
      (configurator_executeWorkflow_run (cf_temporal A) ''createSyncConnectionWf''
        (createOptions ?data False) ?m)) connectionCreated"
    by (simp add: DataSourceController_createConnection_def createOptions_def Let_def)
  have run: "configurator_executeWorkflow_run (cf_temporal A) ''createSyncConnectionWf''
      (createOptions ?data False) ?m w = (case ?m ?w of
        (Inl e, w') \<Rightarrow> (if e = WorkflowExecutionAlreadyStartedError then Inr None else Inl e, w')
      | (Inr r, w') \<Rightarrow> (Inr (Some r), w'))"
    using assms(3) by (simp add: configurator_executeWorkflow_run_def io_simps catch_io_run
        bind_io_run split: sum.split prod.split)
  have "live_connection (cn_sourceId ?data) (w_db ?w) = None"
    "live_source (cn_sourceId ?data) (w_db ?w) = Some ds"
    using assms(4,5) by simp_all
  note new = creation_workflow_new[where rnd = "cf_draws A", OF assms(1) this assms(6)]
  obtain w1 c where c: "?m ?w = (Inr \<lparr>cr_data = c, cr_isAlreadyCreated = False\<rparr>, w1)"
    "live_connection i (w_db w1) = Some c" "sc_config c = None"
    by (rule that[OF new(1)]) (use new(2,4) in simp_all)
  have "endpoint_of A (PostConnectionOf i body) w = (Inr (AConnection (Some c)), w1)"
    by (simp only: endpoint_of.simps answer_def bind_io_run ctl service_def catch_io_run run c(1)
        prod.case sum.case connectionCreated_def option.case CreationResult.select_convs if_False
        return_io_run comp_def)
  then have "(r, w') = (Success (AConnection (Some c)), w1)"
    using assms(2) unfolding assms(7)[symmetric] by (simp add: handleRequest_def del: endpoint_of.simps)
  then show ?thesis using c(2,3) by simp
qed

lemma find_map_None:
  assumes "\<And>x. P (f x) \<Longrightarrow> Q (f x)"
  shows "find (\<lambda>x. P x \<and> \<not> Q x) (map f xs) = None"
  using assms by (induction xs) auto

lemma live_source_deleted: "live_source i (delete_source_spec i p d) = None"
proof -
  let ?mark = "\<lambda>s. if ds_id s = i then s\<lparr>ds_isDeleted := True\<rparr> else s"
  let ?drop = "\<lambda>s. if ds_provider_id s = p then s\<lparr>ds_isDeleted := True\<rparr> else s"
  have "ds_id ((?drop \<circ> ?mark) s) = i \<Longrightarrow> ds_isDeleted ((?drop \<circ> ?mark) s)" for s
    by (cases "ds_id s = i"; cases "ds_provider_id s = p") simp_all
  note both = find_map_None[of "\<lambda>s. ds_id s = i" "?drop \<circ> ?mark" ds_isDeleted "db_sources d", OF this]
  have "find (\<lambda>s. ds_id s = i \<and> \<not> ds_isDeleted s) (map ?mark (db_sources d)) = None"
    by (rule find_map_None) (simp split: if_splits)
  then show ?thesis using both
    by (simp add: live_source_def delete_source_spec_def mark_provider_def)
qed

text \<open>What a deletion request does, by the outcomes of the deletion and of the terminations.\<close>

lemma delete_request_run:
  assumes "Configurator_canActivate (cf_apiKeys A) key"
    and "\<forall>e. \<exists>cause. cf_failure A e = ActivityFailure cause"
    and "\<forall>cs. tm_start (cf_temporal A) cs = Inr ()"
    and "DataSourceService_delete (cf_mongo A) i (w\<lparr>w_calls := w_calls w @
        [StartWorkflow ''deleteDataSourceWf'' (deleteOptions i)]\<rparr>) = (Inr result, w1)"
    and "dr_isAlreadyDeleted result \<longleftrightarrow> dr_data result = None"
    and "w_events w1 = w_events w"
    and "handleRequest A key (DeleteDataSource i) w = (r, w')"
  shows "w_db w' = w_db w1 \<and>
    ((\<exists>cause. r = FrameworkReply (ActivityFailure cause)) \<and> w_events w' = w_events w \<or>
     (case dr_data result of
        None \<Rightarrow> r = ErrorReply (conflict ''Data source is already deleted'' None) \<and>
          w_events w' = w_events w
      | Some d \<Rightarrow> r = Success (ADeleted (Some d)) \<and> w_events w' = w_events w @
          deletion_events i (dd_dataSource d) (dd_syncConnection d) (dd_isProviderDeleted d)))"
proof -
  have ctl: "executeWorkflow_run (cf_temporal A) ''deleteDataSourceWf'' (deleteOptions i) m w =
      (case m (w\<lparr>w_calls := w_calls w @ [StartWorkflow ''deleteDataSourceWf'' (deleteOptions i)]\<rparr>) of
        (Inl e, w') \<Rightarrow> (if e = WorkflowExecutionAlreadyStartedError then Inr None else Inl e, w')
      | (Inr r, w') \<Rightarrow> (Inr (Some r), w'))" for m :: "'a act"
    using awaited_execution[of "deleteOptions i" "cf_temporal A" _ m w] assms(3)
    by (simp add: deleteOptions_def)
  obtain t w2 where t: "terminateDataSourceWorkflows (cf_temporal A) i w1 = (t, w2)"
    by (cases "terminateDataSourceWorkflows (cf_temporal A) i w1")
  note wf = deletion_workflow_run[OF assms(4) t assms(5), of "cf_failure A"]
  note run = assms(7)[unfolded handleRequest_def endpoint_of.simps answer_def bind_io_run
      DataSourceController_delete_def service_def catch_io_run deleteOptions_def[symmetric] ctl]
  show ?thesis
  proof (cases t)
    case (Inl e)
    moreover obtain cause where "cf_failure A e = ActivityFailure cause" using assms(2) by blast
    ultimately show ?thesis
      using run wf assms(1,6) terminate_keeps[OF t] by auto
  next
    case (Inr u)
    show ?thesis
      using run wf assms(1,5,6) terminate_keeps[OF t] Inr
      by (cases "dr_data result")
         (auto simp: alreadyExists_def conflict_def apiErrorStatus_def ALREADY_EXISTS_def
          INVALID_DATA_def NO_DATA_EXISTS_def HEALTH_CHECK_FAILED_def)
  qed
qed

text \<open>
  C16: a data source is deleted by the first request and announced at most once. The first deletion
  request for a live data source, whose provider exists, commits the deletion; it answers with what
  it deleted and announces it, or, when its workflows cannot be terminated, answers with the
  framework's error and announces nothing. The second request changes nothing and announces
  nothing: it answers with status 409, or with the framework's error if the terminations fail
  again. So after a failed termination no request ever announces the deletion.
\<close>

theorem delete_source_requests:
  assumes "mongo_ok (cf_mongo A)" and "db_wf (w_db w)"
    and "Configurator_canActivate (cf_apiKeys A) key"
    and "\<forall>e. \<exists>cause. cf_failure A e = ActivityFailure cause"
    and "\<forall>cs. tm_start (cf_temporal A) cs = Inr ()"
    and "live_source i (w_db w) = Some s" and "live_provider (ds_provider_id s) (w_db w) \<noteq> None"
    and "handleRequest A key (DeleteDataSource i) w = (r1, w1)"
    and "handleRequest A key (DeleteDataSource i) w1 = (r2, w2)"
  shows "w_db w1 = delete_source_spec i (ds_provider_id s) (w_db w) \<and>
    live_source i (w_db w1) = None \<and>
    ((\<exists>cause. r1 = FrameworkReply (ActivityFailure cause)) \<and> w_events w1 = w_events w \<or>
     (\<exists>d. r1 = Success (ADeleted (Some d)) \<and> dd_dataSource d = s \<and>
        dd_syncConnection d = live_connection i (w_db w) \<and> w_events w1 = w_events w @
          deletion_events i s (live_connection i (w_db w)) (dd_isProviderDeleted d))) \<and>
    w_db w2 = w_db w1 \<and> w_events w2 = w_events w1 \<and>
    (r2 = ErrorReply (conflict ''Data source is already deleted'' None) \<or>
     (\<exists>cause. r2 = FrameworkReply (ActivityFailure cause)))"
proof -
  note d = mongo_driverI[OF assms(1)]
  let ?start = "\<lambda>w. w\<lparr>w_calls := w_calls w @ [StartWorkflow ''deleteDataSourceWf'' (deleteOptions i)]\<rparr>"
  have first: "DataSourceService_delete (cf_mongo A) i (?start w) =
      (Inr \<lparr>dr_data = Some \<lparr>dd_dataSource = s, dd_syncConnection = live_connection i (w_db w),
          dd_isProviderDeleted = last_of_provider i (ds_provider_id s) (w_db w)\<rparr>,
        dr_isAlreadyDeleted = False\<rparr>,
       (?start w)\<lparr>w_db := delete_source_spec i (ds_provider_id s) (w_db w)\<rparr>)"
    using mongo_driver.deletion_run[OF d, of "?start w" i s] assms(2,6,7) by simp
  have w1: "w_db w1 = delete_source_spec i (ds_provider_id s) (w_db w)"
    "(\<exists>cause. r1 = FrameworkReply (ActivityFailure cause)) \<and> w_events w1 = w_events w \<or>
     (\<exists>d. r1 = Success (ADeleted (Some d)) \<and> dd_dataSource d = s \<and>
        dd_syncConnection d = live_connection i (w_db w) \<and> w_events w1 = w_events w @
          deletion_events i s (live_connection i (w_db w)) (dd_isProviderDeleted d))"
    using delete_request_run[OF assms(3-5) first _ _ assms(8)] by auto
  then have none: "live_source i (w_db w1) = None" by (simp add: live_source_deleted)
  have "DataSourceService_delete (cf_mongo A) i (?start w1) =
      (Inr \<lparr>dr_data = None, dr_isAlreadyDeleted = True\<rparr>, ?start w1)"
    using mongo_driver.deletion_missing[OF d, of i "?start w1"] none by simp
  from delete_request_run[OF assms(3-5) this _ _ assms(9)] w1 none show ?thesis by auto
qed

theorem delete_source_requests_witness:
  "let del = handleRequest example_configurator (Some ''k'') (DeleteDataSource ''d1'');
       w1 = snd (del example_world)
   in live_source ''d1'' (w_db w1) = None \<and> w_db (snd (del w1)) = w_db w1 \<and>
     w_events (snd (del w1)) = w_events w1"
proof -
  let ?del = "handleRequest example_configurator (Some ''k'') (DeleteDataSource ''d1'')"
  obtain r1 w1 where 1: "?del example_world = (r1, w1)" by (cases "?del example_world")
  obtain r2 w2 where 2: "?del w1 = (r2, w2)" by (cases "?del w1")
  have "live_source ''d1'' (w_db example_world) = Some example_source"
    "live_provider (ds_provider_id example_source) (w_db example_world) \<noteq> None"
    by (simp_all add: live_defs example_defs)
  from delete_source_requests [of example_configurator example_world "Some ''k''" "''d1''",
      OF _ _ _ _ _ this 1 2] show ?thesis
    using listMongo_ok example_db_wf 1 2
    by (simp add: Let_def example_temporal_def live_source_deleted)
qed

end
