(* ===== verification/Lifecycle.thy ===== *)
theory Lifecycle
  imports Frames ConfiguratorApi
begin

text \<open>
  The applications together. A system state is a world; a step is one complete call of an entry
  point of some application (an HTTP request, an event handler, a workflow, a job), with any arguments
  and however it ends. What holds in every state that the system reaches is proved by rule
  induction over the steps.
\<close>

section \<open>Consistent worlds\<close>

definition keys_of :: "db \<Rightarrow> oid set" where
  "keys_of d = set (map dp_id (db_providers d)) \<union> set (map ds_id (db_sources d)) \<union>
     set (map sc_id (db_connections d)) \<union> set (map sf_id (db_syncflows d)) \<union>
     set (map tr_id (db_triggers d)) \<union> set (map tr_workflow_id (db_triggers d))"

text \<open>The ids of the live data sources, and of the live syncflows with a live trigger; every live
  connection belongs to a live data source and its syncflows and triggers are live; no syncflow is
  embedded twice.\<close>

definition alive :: "db \<Rightarrow> oid set" where
  "alive d = ds_id ` {s \<in> set (db_sources d). \<not> ds_isDeleted s}"

definition runnable :: "db \<Rightarrow> oid set" where
  "runnable d = sf_id ` {s \<in> set (db_syncflows d). \<not> sf_isDeleted s} \<inter>
     tr_workflow_id ` {t \<in> set (db_triggers d). \<not> tr_isDeleted t}"

definition embedded_of :: "SyncConnection \<Rightarrow> oid set" where
  "embedded_of c = es_id ` set (sc_syncflows c)"

definition anchored :: "db \<Rightarrow> bool" where
  "anchored d \<longleftrightarrow> (\<forall>c \<in> set (db_connections d). \<not> sc_isDeleted c \<longrightarrow>
     sc_sourceId c \<in> alive d \<and> embedded_of c \<subseteq> runnable d)"

definition embedded_apart :: "db \<Rightarrow> bool" where
  "embedded_apart d \<longleftrightarrow> (\<forall>c \<in> set (db_connections d). \<forall>c' \<in> set (db_connections d).
     sc_id c \<noteq> sc_id c' \<longrightarrow> embedded_of c \<inter> embedded_of c' = {})"

text \<open>Between the steps no transaction is open, the store is well formed and the object ids to come
  are not in use.\<close>

definition consistent :: "mongo \<Rightarrow> world \<Rightarrow> bool" where
  "consistent M w \<longleftrightarrow> db_wf (w_db w) \<and> anchored (w_db w) \<and> embedded_apart (w_db w) \<and> w_tx w = None \<and>
     mg_oid M ` {w_oids w..} \<inter> keys_of (w_db w) = {}"

text \<open>The data sources that are deleted.\<close>

definition gone :: "db \<Rightarrow> oid set" where
  "gone d = ds_id ` {s \<in> set (db_sources d). ds_isDeleted s}"

definition sound :: "mongo \<Rightarrow> oid set \<Rightarrow> world \<Rightarrow> bool" where
  "sound M D w \<longleftrightarrow> consistent M w \<and> D \<subseteq> gone (w_db w)"

text \<open>The frame of a store determines whether it is well formed, its keys and its deleted sources.\<close>

lemma frame_one_live:
  fixes xs :: "SyncConnection list"
  defines "t \<equiv> \<lambda>c. (sc_id c, sc_sourceId c, sc_syncflows c, sc_isDeleted c)"
  shows "map sc_sourceId (filter (\<lambda>c. \<not> sc_isDeleted c) xs) =
      map (\<lambda>(_, s, _). s) (filter (\<lambda>(_, _, _, b). \<not> b) (map t xs))"
    "map sc_id xs = map fst (map t xs)" "map sc_syncflows xs = map (\<lambda>(_, _, es, _). es) (map t xs)"
  by (simp_all add: t_def filter_map comp_def)

lemma gone_zip: "gone d = fst ` {p \<in> set (zip (map ds_id (db_sources d)) (map ds_isDeleted (db_sources d))). snd p}"
  by (force simp: gone_def zip_map_map zip_same_conv_map image_iff)

lemma marks_zip:
  "alive d = fst ` {p \<in> set (zip (map ds_id (db_sources d)) (map ds_isDeleted (db_sources d))). \<not> snd p}"
  "runnable d = fst ` {p \<in> set (zip (map sf_id (db_syncflows d)) (map sf_isDeleted (db_syncflows d))). \<not> snd p}
    \<inter> fst ` {p \<in> set (zip (map tr_workflow_id (db_triggers d)) (map tr_isDeleted (db_triggers d))). \<not> snd p}"
  by (force simp: alive_def runnable_def zip_map_map zip_same_conv_map image_iff)+

lemma anchored_tuples:
  fixes d :: db
  defines "t \<equiv> map (\<lambda>c. (sc_id c, sc_sourceId c, sc_syncflows c, sc_isDeleted c)) (db_connections d)"
  shows "anchored d = (\<forall>(i, s, es, b) \<in> set t. \<not> b \<longrightarrow> s \<in> alive d \<and> es_id ` set es \<subseteq> runnable d)"
    "embedded_apart d = (\<forall>(i, _, es, _) \<in> set t. \<forall>(i', _, es', _) \<in> set t. i \<noteq> i' \<longrightarrow>
       es_id ` set es \<inter> es_id ` set es' = {})"
  by (simp_all add: anchored_def embedded_apart_def embedded_of_def t_def)

lemma frame_determines:
  assumes "frame_of d = frame_of d'"
  shows "db_wf d = db_wf d'" "keys_of d = keys_of d'" "gone d = gone d'"
    "anchored d = anchored d'" "embedded_apart d = embedded_apart d'"
proof -
  note f = assms[unfolded frame_of_def prod.inject]
  have conn: "map sc_sourceId (filter (\<lambda>c. \<not> sc_isDeleted c) (db_connections d)) =
      map sc_sourceId (filter (\<lambda>c. \<not> sc_isDeleted c) (db_connections d'))"
    "map sc_id (db_connections d) = map sc_id (db_connections d')"
    "set (map sc_syncflows (db_connections d)) = set (map sc_syncflows (db_connections d'))"
    using f unfolding frame_one_live by simp_all
  have "embedded_present d = (\<forall>es \<in> set (map sc_syncflows (db_connections d)). \<forall>e \<in> set es.
      es_id e \<in> set (map sf_id (db_syncflows d)) \<and> es_id e \<in> set (map tr_workflow_id (db_triggers d)))"
    for d by (simp add: embedded_present_def)
  then have "embedded_present d = embedded_present d'" using f conn(3) by metis
  then show "db_wf d = db_wf d'"
    using f conn(1,2) by (simp add: db_wf_def keys_distinct_def one_live_connection_def)
  show "keys_of d = keys_of d'" using f conn(2) unfolding keys_of_def by simp
  show "gone d = gone d'" using f by (simp add: gone_zip)
  have "alive d = alive d'" "runnable d = runnable d'" using f unfolding marks_zip by simp_all
  then show "anchored d = anchored d'" "embedded_apart d = embedded_apart d'"
    using f unfolding anchored_tuples by simp_all
qed

lemma framed_sound:
  assumes "\<And>s n. maintains (framed s n False) m"
  shows "maintains (sound M D) m"
  unfolding maintains_def
proof (intro allI impI)
  fix w assume w: "sound M D w"
  have "framed (frame_of (w_db w)) (w_oids w) False w"
    using w by (simp add: framed_def sound_def consistent_def)
  then have f: "framed (frame_of (w_db w)) (w_oids w) False (snd (m w))"
    using assms by (simp add: maintains_def)
  then have "frame_of (w_db (snd (m w))) = frame_of (w_db w)" "w_tx (snd (m w)) = None"
    "w_oids w \<le> w_oids (snd (m w))"
    by (auto simp: framed_def split: option.splits)
  moreover from this(3) have "mg_oid M ` {w_oids (snd (m w))..} \<subseteq> mg_oid M ` {w_oids w..}"
    by (intro image_mono) auto
  ultimately show "sound M D (snd (m w))"
    using w frame_determines[of "w_db (snd (m w))" "w_db w"]
    by (simp add: sound_def consistent_def) (meson disjoint_iff subset_iff)
qed

lemmas framed_sounds [maintains_intros] = framed_sound[OF maintains_world(4)]
  framed_sound[OF maintains_world(5)]

section \<open>Creations and deletions\<close>

lemma embedded_presentD:
  "embedded_present d \<Longrightarrow> c \<in> set (db_connections d) \<Longrightarrow> e \<in> set (sc_syncflows c) \<Longrightarrow>
   es_id e \<in> set (map sf_id (db_syncflows d)) \<and> es_id e \<in> set (map tr_workflow_id (db_triggers d))"
  unfolding embedded_present_def by blast

lemma newTriggers_range:
  "set (map (tr_id \<circ> (snd \<circ> snd)) (newTriggers M s n ps)) \<subseteq> mg_oid M ` {n..<n + 2 * length ps}"
proof (induction ps arbitrary: n)
  case (Cons p ps)
  have "mg_oid M ` {Suc (Suc n)..<Suc (Suc n) + 2 * length ps} \<subseteq> mg_oid M ` {n..<n + 2 * length (p # ps)}"
    by (intro image_mono) auto
  then show ?case using Cons[of "Suc (Suc n)"] by (auto simp: newTrigger_def Let_def)
qed simp

lemma withConnection_new_keys:
  "keys_of (withConnection M R data n d) \<subseteq> keys_of d \<union> mg_oid M ` {n..<oidsAfter data n}"
proof -
  let ?k = "length (csc_syncflows data)"
  let ?sfs = "newSyncflows M R (csc_sourceId data) n (csc_syncflows data)"
  let ?new = "mg_oid M ` {n..<oidsAfter data n}"
  have sub: "mg_oid M ` {n..<n + ?k} \<subseteq> ?new" "mg_oid M ` {n + ?k..<n + ?k + 2 * ?k} \<subseteq> ?new"
    by (auto simp: oidsAfter_def intro!: imageI)
  have sf: "set (map (sf_id \<circ> snd) ?sfs) \<subseteq> ?new"
    using sub(1) by (simp only: newSyncflows_props(3)) auto
  have tr: "set (map (tr_id \<circ> (snd \<circ> snd)) (newTriggers M (csc_sourceId data) (n + ?k)
      (zip ?sfs (csc_syncflows data)))) \<subseteq> ?new"
    using newTriggers_range[of M "csc_sourceId data" "n + ?k" "zip ?sfs (csc_syncflows data)"] sub(2)
    by (simp add: newSyncflows_props(1))
  have ids: "set (map es_id (sc_syncflows (newConnection M R data n))) \<subseteq> ?new"
    using sf by (simp only: newConnection_ids)
  have "sc_id (newConnection M R data n) \<in> ?new"
    by (auto simp: newConnection_def Let_def oidsAfter_def)
  moreover have "set (map sf_id (db_syncflows (withConnection M R data n d))) \<subseteq> keys_of d \<union> ?new"
    "set (map tr_workflow_id (db_triggers (withConnection M R data n d))) \<subseteq> keys_of d \<union> ?new"
    using ids unfolding withConnection_keys by (auto simp: keys_of_def)
  moreover have "set (map tr_id (db_triggers (withConnection M R data n d))) \<subseteq> keys_of d \<union> ?new"
    using tr by (auto simp: withConnection_def Let_def keys_of_def comp_def)
  moreover have "db_providers (withConnection M R data n d) = db_providers d"
    "db_sources (withConnection M R data n d) = db_sources d"
    by (simp_all add: withConnection_def Let_def)
  ultimately show ?thesis
    unfolding keys_of_def[of "withConnection M R data n d"]
    by (simp del: set_map list.set_map) (simp add: keys_of_def, blast)
qed

text \<open>Documents added to the store keep the connections anchored.\<close>

lemma anchored_mono:
  assumes "anchored d" and "db_connections d' = db_connections d" and "alive d \<subseteq> alive d'"
    and "runnable d \<subseteq> runnable d'"
  shows "anchored d'"
  using assms unfolding anchored_def by (metis subset_iff)

lemma embedded_apart_cong: "db_connections d' = db_connections d \<Longrightarrow> embedded_apart d' = embedded_apart d"
  by (simp add: embedded_apart_def)

lemma anchored_add:
  "anchored d \<Longrightarrow> anchored (d\<lparr>db_providers := ps\<rparr>)"
  "anchored d \<Longrightarrow> anchored (d\<lparr>db_sources := db_sources d @ ss\<rparr>)"
  "embedded_apart (d\<lparr>db_providers := ps\<rparr>) = embedded_apart d"
  "embedded_apart (d\<lparr>db_sources := ss\<rparr>) = embedded_apart d"
proof -
  show "anchored d \<Longrightarrow> anchored (d\<lparr>db_providers := ps\<rparr>)"
    by (erule anchored_mono) (simp_all add: alive_def runnable_def)
  show "anchored d \<Longrightarrow> anchored (d\<lparr>db_sources := db_sources d @ ss\<rparr>)"
    by (erule anchored_mono) (auto simp: alive_def runnable_def)
qed (simp_all add: embedded_apart_def)

text \<open>A deleted connection takes its own syncflows and triggers with it, and no others.\<close>

lemma cascade_connection_marks:
  "db_sources (cascade_connection c d) = db_sources d"
  "runnable d - embedded_of c \<subseteq> runnable (cascade_connection c d)"
  "c' \<in> set (db_connections (cascade_connection c d)) \<Longrightarrow>
     \<exists>c0 \<in> set (db_connections d). sc_id c' = sc_id c0 \<and> sc_sourceId c' = sc_sourceId c0 \<and>
       embedded_of c' = embedded_of c0 \<and>
       (\<not> sc_isDeleted c' \<longrightarrow> \<not> sc_isDeleted c0 \<and> sc_id c0 \<noteq> sc_id c)"
proof -
  show "db_sources (cascade_connection c d) = db_sources d" by (simp add: cascade_connection_def)
  assume "c' \<in> set (db_connections (cascade_connection c d))"
  then obtain x where "x \<in> set (db_connections d)"
    "c' = (if sc_id x = sc_id c then x\<lparr>sc_isDeleted := True\<rparr> else x)"
    by (auto simp: cascade_connection_def)
  then show "\<exists>c0 \<in> set (db_connections d). sc_id c' = sc_id c0 \<and> sc_sourceId c' = sc_sourceId c0 \<and>
       embedded_of c' = embedded_of c0 \<and>
       (\<not> sc_isDeleted c' \<longrightarrow> \<not> sc_isDeleted c0 \<and> sc_id c0 \<noteq> sc_id c)"
    by (intro bexI[of _ x]) (auto simp: embedded_of_def)
next
  show "runnable d - embedded_of c \<subseteq> runnable (cascade_connection c d)"
    by (fastforce simp: runnable_def cascade_connection_def embedded_of_def image_iff)
qed

lemma embedded_apart_cascade_connection:
  assumes "embedded_apart d"
  shows "embedded_apart (cascade_connection c d)"
  unfolding embedded_apart_def
proof (intro ballI impI)
  fix x y assume "x \<in> set (db_connections (cascade_connection c d))"
    and "y \<in> set (db_connections (cascade_connection c d))" and "sc_id x \<noteq> sc_id y"
  then show "embedded_of x \<inter> embedded_of y = {}"
    using cascade_connection_marks(3) assms unfolding embedded_apart_def by metis
qed

lemma anchored_cascade_connection:
  assumes "\<And>x. x \<in> set (db_connections d) \<Longrightarrow> \<not> sc_isDeleted x \<Longrightarrow> sc_id x \<noteq> sc_id c \<Longrightarrow>
      sc_sourceId x \<in> alive d \<and> embedded_of x \<subseteq> runnable d"
    and "embedded_apart d" and "c \<in> set (db_connections d)"
  shows "anchored (cascade_connection c d)"
  unfolding anchored_def
proof (intro ballI impI)
  fix x assume "x \<in> set (db_connections (cascade_connection c d))" and "\<not> sc_isDeleted x"
  then obtain x0 where x0: "x0 \<in> set (db_connections d)" "\<not> sc_isDeleted x0" "sc_id x0 \<noteq> sc_id c"
    "sc_sourceId x = sc_sourceId x0" "embedded_of x = embedded_of x0"
    using cascade_connection_marks(3) by metis
  then have "embedded_of x \<inter> embedded_of c = {}"
    using assms(2,3) unfolding embedded_apart_def by metis
  moreover have "alive (cascade_connection c d) = alive d"
    by (simp add: alive_def cascade_connection_marks(1))
  ultimately show "sc_sourceId x \<in> alive (cascade_connection c d) \<and>
      embedded_of x \<subseteq> runnable (cascade_connection c d)"
    using assms(1)[OF x0(1-3)] x0(4,5) cascade_connection_marks(2)[of d c] by auto
qed

text \<open>The cascade of a data source: only its own connection refers to it.\<close>

lemma mark_source_marks:
  "db_connections (mark_source i d) = db_connections d" "runnable (mark_source i d) = runnable d"
  "alive d - {i} \<subseteq> alive (mark_source i d)"
  by (auto simp: mark_source_def runnable_def alive_def image_iff)

lemma anchored_cascade_source:
  assumes "anchored d" and "embedded_apart d" and "one_live_connection d"
  shows "anchored (cascade_source i d)" "embedded_apart (cascade_source i d)"
proof -
  have left: "sc_sourceId x \<in> alive (mark_source i d) \<and> embedded_of x \<subseteq> runnable (mark_source i d)"
    if "x \<in> set (db_connections d)" "\<not> sc_isDeleted x" "sc_sourceId x \<noteq> i" for x
    using assms(1) that mark_source_marks(3)[of d i] unfolding mark_source_marks(2) anchored_def by auto
  have apart: "embedded_apart (mark_source i d)"
    using assms(2) embedded_apart_cong[OF mark_source_marks(1)] by simp
  show "embedded_apart (cascade_source i d)"
    using apart by (simp add: cascade_source_def embedded_apart_cascade_connection split: option.split)
  show "anchored (cascade_source i d)"
  proof (cases "live_connection i d")
    case None
    then have "sc_sourceId x \<noteq> i" if "x \<in> set (db_connections d)" "\<not> sc_isDeleted x" for x
      using that by (auto simp: live_connection_def find_None_iff)
    then show ?thesis using left None
      by (simp add: cascade_source_def anchored_def mark_source_marks(1))
  next
    case (Some c)
    then have c: "c \<in> set (db_connections d)" "sc_sourceId c = i" "\<not> sc_isDeleted c"
      using live_connection_id[OF Some] by (auto simp: live_connection_def dest: find_SomeD)
    have "sc_sourceId x \<noteq> i"
      if x: "x \<in> set (db_connections d)" "\<not> sc_isDeleted x" "sc_id x \<noteq> sc_id c" for x
    proof
      assume "sc_sourceId x = i"
      then have "x = c"
        using assms(3) c x(1,2) unfolding one_live_connection_def distinct_map
        by (simp add: inj_on_def)
      then show False using x(3) by simp
    qed
    then have "anchored (cascade_connection c (mark_source i d))"
      using left c(1) apart by (intro anchored_cascade_connection) (simp_all add: mark_source_marks(1))
    then show ?thesis by (simp add: cascade_source_def Some)
  qed
qed

lemma anchored_mark_provider:
  assumes "last_of_provider i p d" and "anchored (cascade_source i d)"
    and "embedded_apart (cascade_source i d)"
  shows "anchored (mark_provider p (cascade_source i d))"
    "embedded_apart (mark_provider p (cascade_source i d))"
proof -
  let ?d = "cascade_source i d"
  have none: "ds_isDeleted s \<or> ds_provider_id s \<noteq> p" if "s \<in> set (db_sources ?d)" for s
    using that assms(1) unfolding sources_left[of p i d, symmetric] filter_empty_conv by blast
  have "alive ?d \<subseteq> alive (mark_provider p ?d)"
  proof
    fix j assume "j \<in> alive ?d"
    then obtain s where s: "s \<in> set (db_sources ?d)" "\<not> ds_isDeleted s" "j = ds_id s"
      unfolding alive_def by auto
    then have "s \<in> {s \<in> set (db_sources (mark_provider p ?d)). \<not> ds_isDeleted s}"
      using none[OF s(1)] by (simp only: mark_provider_def db.select_convs db.update_convs)
        (auto intro: image_eqI[of _ _ s] simp del: cascade_source_docs)
    then show "j \<in> alive (mark_provider p ?d)" unfolding alive_def s(3) by (rule imageI)
  qed
  then show "anchored (mark_provider p ?d)"
    using assms(2) by (elim anchored_mono) (simp_all add: mark_provider_def runnable_def)
  show "embedded_apart (mark_provider p ?d)"
    using assms(3) embedded_apart_cong[of "mark_provider p ?d" ?d] by (simp add: mark_provider_def)
qed

lemma live_source_alive: "live_source i d = Some s \<Longrightarrow> i \<in> alive d"
  by (auto simp: live_source_def alive_def find_Some_iff)

text \<open>A creation: the new syncflows and triggers are live, and their ids are new.\<close>

lemma withConnection_anchored:
  assumes "anchored d" and "embedded_apart d" and "embedded_present d"
    and "csc_sourceId data \<in> alive d" and fresh: "mg_oid M ` {n..} \<inter> keys_of d = {}"
  shows "anchored (withConnection M R data n d)" "embedded_apart (withConnection M R data n d)"
proof -
  let ?d = "withConnection M R data n d"
  let ?sfs = "newSyncflows M R (csc_sourceId data) n (csc_syncflows data)"
  let ?ts = "newTriggers M (csc_sourceId data) (n + length (csc_syncflows data))
    (zip ?sfs (csc_syncflows data))"
  let ?c = "newConnection M R data n"
  have ids: "embedded_of ?c = (sf_id \<circ> snd) ` set ?sfs"
    using newConnection_ids[of M R data n] unfolding embedded_of_def by (metis set_map)
  have "tr_workflow_id ` (snd \<circ> snd) ` set ?ts = embedded_of ?c"
    using trigger_workflow_ids[of ?sfs "csc_syncflows data" M] ids
    by (metis newSyncflows_props(1) set_map image_comp)
  moreover have "(snd \<circ> snd) ` set ?ts \<subseteq> {t \<in> set (db_triggers ?d). \<not> tr_isDeleted t}"
    by (auto simp: withConnection_def Let_def dest: newTriggers_props(3))
  ultimately have "embedded_of ?c \<subseteq> tr_workflow_id ` {t \<in> set (db_triggers ?d). \<not> tr_isDeleted t}"
    by blast
  moreover have "snd ` set ?sfs \<subseteq> {s \<in> set (db_syncflows ?d). \<not> sf_isDeleted s}"
    by (auto simp: withConnection_def Let_def dest: newSyncflows_props(4))
  ultimately have new: "embedded_of ?c \<subseteq> runnable ?d"
    unfolding runnable_def ids by (auto simp: image_comp[symmetric] simp del: image_comp)
  have old: "runnable d \<subseteq> runnable ?d" "alive ?d = alive d"
    by (auto simp: runnable_def alive_def withConnection_def Let_def)
  show "anchored ?d"
    using assms(1,4) new old unfolding anchored_def by auto
  have "embedded_of ?c \<subseteq> mg_oid M ` {n..}"
    unfolding ids using newSyncflows_ids(2)[of M R "csc_sourceId data" n "csc_syncflows data"] by simp
  moreover have "embedded_of c \<subseteq> keys_of d" if "c \<in> set (db_connections d)" for c
    using embedded_presentD[OF assms(3) that] by (auto simp: embedded_of_def keys_of_def)
  ultimately have "embedded_of c \<inter> embedded_of ?c = {}" if "c \<in> set (db_connections d)" for c
    using fresh that by (meson disjoint_iff subset_iff)
  then show "embedded_apart ?d"
    using assms(2) unfolding embedded_apart_def by (auto simp: Int_commute)
qed

text \<open>Deletions only mark documents.\<close>

lemma gone_marked:
  assumes "db_sources d' = map (\<lambda>s. if q s then s\<lparr>ds_isDeleted := True\<rparr> else s) (db_sources d)"
  shows "gone d \<subseteq> gone d'"
proof
  fix i assume "i \<in> gone d"
  then obtain s where s: "s \<in> set (db_sources d)" "ds_isDeleted s" "ds_id s = i"
    by (auto simp: gone_def)
  let ?s = "if q s then s\<lparr>ds_isDeleted := True\<rparr> else s"
  have "?s \<in> {s \<in> set (db_sources d'). ds_isDeleted s}" "i = ds_id ?s"
    using s unfolding assms by auto
  then show "i \<in> gone d'" unfolding gone_def by (rule rev_image_eqI)
qed

lemma marked_keys:
  "keys_of (cascade_connection c d) = keys_of d" "gone (cascade_connection c d) = gone d"
  "keys_of (cascade_source i d) = keys_of d" "gone d \<subseteq> gone (cascade_source i d)"
  "keys_of (mark_provider p d) = keys_of d" "gone d \<subseteq> gone (mark_provider p d)"
proof -
  show cc: "keys_of (cascade_connection c d) = keys_of d" "gone (cascade_connection c d) = gone d" for c d
    by (auto simp: keys_of_def cascade_connection_def gone_def)
  show "keys_of (mark_provider p d) = keys_of d"
    by (auto simp: keys_of_def mark_provider_def)
  show "gone d \<subseteq> gone (mark_provider p d)"
    by (rule gone_marked[where q = "\<lambda>s. ds_provider_id s = p"]) (simp add: mark_provider_def)
  have ms: "keys_of (mark_source i d) = keys_of d" "gone d \<subseteq> gone (mark_source i d)"
    by (auto simp: keys_of_def mark_source_def intro!: gone_marked[where q = "\<lambda>s. ds_id s = i"])
  then show "keys_of (cascade_source i d) = keys_of d" "gone d \<subseteq> gone (cascade_source i d)"
    by (auto simp: cascade_source_def cc split: option.split)
qed

context mongo_driver begin

lemma oid_fresh:
  assumes "consistent M w"
  shows "mg_oid M (w_oids w) \<notin> keys_of (w_db w)"
    "mg_oid M ` {Suc (w_oids w)..} \<inter> insert (mg_oid M (w_oids w)) (keys_of (w_db w)) = {}"
proof -
  have f: "mg_oid M ` {w_oids w..} \<inter> keys_of (w_db w) = {}"
    using assms by (simp add: consistent_def)
  then show "mg_oid M (w_oids w) \<notin> keys_of (w_db w)" by blast
  have "mg_oid M ` {Suc (w_oids w)..} \<subseteq> mg_oid M ` {w_oids w..}" by (intro image_mono) auto
  then have "mg_oid M ` {Suc (w_oids w)..} \<inter> keys_of (w_db w) = {}"
    using f by (meson disjoint_iff subset_iff)
  moreover have "mg_oid M (w_oids w) \<notin> mg_oid M ` {Suc (w_oids w)..}"
    using oid_inj by (auto dest: injD)
  ultimately show "mg_oid M ` {Suc (w_oids w)..} \<inter> insert (mg_oid M (w_oids w)) (keys_of (w_db w)) = {}"
    by simp
qed

lemma sound_provider_create [maintains_intros]:
  "maintains (sound M D) (DataProviderRepository_create M arg no_options)"
  unfolding maintains_def
proof (intro allI impI)
  fix w assume w: "sound M D w"
  obtain p where run: "snd (DataProviderRepository_create M arg no_options w) =
      w\<lparr>w_oids := Suc (w_oids w), w_db := (w_db w)\<lparr>db_providers := db_providers (w_db w) @ [p]\<rparr>\<rparr>"
    and p: "dp_id p = mg_oid M (w_oids w)"
    by (fastforce simp: DataProviderRepository_create_def bind_io_run Let_def)
  have "keys_of ((w_db w)\<lparr>db_providers := db_providers (w_db w) @ [p]\<rparr>)
      = insert (mg_oid M (w_oids w)) (keys_of (w_db w))"
    using p by (simp add: keys_of_def)
  moreover have "db_wf ((w_db w)\<lparr>db_providers := db_providers (w_db w) @ [p]\<rparr>)"
    using w p oid_fresh(1)[of w]
    by (simp add: sound_def consistent_def db_wf_def keys_distinct_def embedded_present_def
        one_live_connection_def keys_of_def)
  ultimately show "sound M D (snd (DataProviderRepository_create M arg no_options w))"
    using w oid_fresh(2)[of w] run by (simp add: sound_def consistent_def gone_def anchored_add)
qed

lemma sound_source_create [maintains_intros]:
  "maintains (sound M D) (DataSourceRepository_create M arg no_options)"
  unfolding maintains_def
proof (intro allI impI)
  fix w assume w: "sound M D w"
  obtain s where run: "snd (DataSourceRepository_create M arg no_options w) =
      w\<lparr>w_oids := Suc (w_oids w), w_db := (w_db w)\<lparr>db_sources := db_sources (w_db w) @ [s]\<rparr>\<rparr>"
    and s: "ds_id s = mg_oid M (w_oids w)"
    by (fastforce simp: DataSourceRepository_create_def bind_io_run Let_def)
  have "keys_of ((w_db w)\<lparr>db_sources := db_sources (w_db w) @ [s]\<rparr>)
      = insert (mg_oid M (w_oids w)) (keys_of (w_db w))"
    using s by (simp add: keys_of_def)
  moreover have "db_wf ((w_db w)\<lparr>db_sources := db_sources (w_db w) @ [s]\<rparr>)"
    using w s oid_fresh(1)[of w]
    by (simp add: sound_def consistent_def db_wf_def keys_distinct_def embedded_present_def
        one_live_connection_def keys_of_def)
  moreover have "gone (w_db w) \<subseteq> gone ((w_db w)\<lparr>db_sources := db_sources (w_db w) @ [s]\<rparr>)"
    by (auto simp: gone_def)
  ultimately show "sound M D (snd (DataSourceRepository_create M arg no_options w))"
    using w oid_fresh(2)[of w] run by (auto simp: sound_def consistent_def anchored_add)
qed

lemma sound_obs: "keeps store_obs m \<Longrightarrow> maintains (sound M D) m"
  by (intro framed_sound maintains_obs)

lemma sound_service_create [maintains_intros]:
  "maintains (sound M D) (DataProviderService_create M pdto)"
  "maintains (sound M D) (DataSourceService_create M T sdto)"
proof -
  show provider: "maintains (sound M D) (DataProviderService_create M pdto)" for pdto
    unfolding DataProviderService_create_def by (intro maintains_intros)
  show "maintains (sound M D) (DataSourceService_create M T sdto)"
    unfolding DataSourceService_create_def providerForSource_def
    by (intro provider sound_obs keeps_intros maintains_intros)
qed

lemma sound_connection_create [maintains_intros]:
  "maintains (sound M D) (SyncConnectionService_create M loaded_registries rnd data)"
  unfolding maintains_def
proof (intro allI impI)
  fix w assume w: "sound M D w"
  show "sound M D (snd (SyncConnectionService_create M loaded_registries rnd data w))"
  proof (cases "live_connection (cn_sourceId data) (w_db w)")
    case (Some c)
    then show ?thesis using w by (simp add: service_create_existing)
  next
    case none: None
    show ?thesis
    proof (cases "live_source (cn_sourceId data) (w_db w)")
      case None
      then show ?thesis using w none by (simp add: service_create_no_source)
    next
      case (Some ds)
      show ?thesis
      proof (cases "ds_provider_type ds = AIR_TABLE")
        case True
        then show ?thesis using w none Some by (simp add: service_create_airtable)
      next
        case False
        let ?cd = "creationData (rnd 0) (ds_provider_type ds) data"
        let ?d = "withConnection M loaded_registries ?cd (w_oids w) (w_db w)"
        have c: "consistent M w" using w by (simp add: sound_def)
        have "ids_fresh M (w_oids w) (w_db w)"
          using c by (auto simp: consistent_def ids_fresh_def keys_of_def)
        then have wf: "db_wf ?d"
          using c none by (intro db_wf_create oid_inj) (simp_all add: consistent_def creationData_def)
        have "csc_sourceId ?cd \<in> alive (w_db w)"
          using live_source_alive[OF Some] by (simp add: creationData_def)
        then have "anchored ?d" "embedded_apart ?d"
          using c by (auto intro!: withConnection_anchored simp: consistent_def db_wf_def)
        have le: "w_oids w \<le> oidsAfter ?cd (w_oids w)" by (simp add: oidsAfter_def)
        have "mg_oid M ` {oidsAfter ?cd (w_oids w)..} \<subseteq> mg_oid M ` {w_oids w..}"
          using le by (intro image_mono) auto
        then have "mg_oid M ` {oidsAfter ?cd (w_oids w)..} \<inter> keys_of (w_db w) = {}"
          using c unfolding consistent_def by (meson disjoint_iff subset_iff)
        moreover have "mg_oid M ` {oidsAfter ?cd (w_oids w)..} \<inter>
            mg_oid M ` {w_oids w..<oidsAfter ?cd (w_oids w)} = {}"
          using oid_inj by (auto dest: injD)
        ultimately have "mg_oid M ` {oidsAfter ?cd (w_oids w)..} \<inter> keys_of ?d = {}"
          using withConnection_new_keys[of M loaded_registries ?cd "w_oids w" "w_db w"] by blast
        moreover have "gone ?d = gone (w_db w)" by (simp add: gone_def withConnection_def Let_def)
        ultimately show ?thesis
          using w wf \<open>anchored ?d\<close> \<open>embedded_apart ?d\<close> service_create_new[OF none Some False, of rnd]
          by (simp add: sound_def consistent_def Let_def)
      qed
    qed
  qed
qed

lemma sound_connection_delete [maintains_intros]:
  "maintains (sound M D) (SyncConnectionService_delete M i)"
  unfolding maintains_def
proof (intro allI impI)
  fix w assume w: "sound M D w"
  then have wf: "db_wf (w_db w)" by (simp add: sound_def consistent_def)
  show "sound M D (snd (SyncConnectionService_delete M i w))"
  proof (cases "live_connection_doc i (w_db w)")
    case None
    then show ?thesis using w by (simp add: service_delete_missing)
  next
    case (Some c)
    then have "c \<in> set (db_connections (w_db w))"
      by (auto simp: live_connection_doc_def dest: find_SomeD)
    then have "anchored (cascade_connection c (w_db w))" "embedded_apart (cascade_connection c (w_db w))"
      using w by (simp_all add: sound_def consistent_def embedded_apart_cascade_connection)
        (intro anchored_cascade_connection; simp add: anchored_def)
    then show ?thesis using w Some db_wf_cascade_connection[OF wf]
      by (simp add: service_delete_live[OF wf Some] sound_def consistent_def marked_keys)
  qed
qed

lemma sound_source_delete [maintains_intros]:
  "maintains (sound M D) (DataSourceService_delete M i)"
  unfolding maintains_def
proof (intro allI impI)
  fix w assume w: "sound M D w"
  then have wf: "db_wf (w_db w)" by (simp add: sound_def consistent_def)
  show "sound M D (snd (DataSourceService_delete M i w))"
  proof (cases "live_source i (w_db w)")
    case None
    then show ?thesis using w by (simp add: deletion_missing)
  next
    case (Some s)
    let ?p = "ds_provider_id s"
    show ?thesis
    proof (cases "last_of_provider i ?p (w_db w) \<and> live_provider ?p (w_db w) = None")
      case True
      then show ?thesis using w deletion_fails[OF wf Some] by simp
    next
      case False
      have "keys_of (delete_source_spec i ?p (w_db w)) = keys_of (w_db w)"
        "gone (w_db w) \<subseteq> gone (delete_source_spec i ?p (w_db w))"
        using marked_keys(3-6) by (simp_all add: delete_source_spec_def) (meson subset_trans)
      moreover have "anchored (delete_source_spec i ?p (w_db w))"
        "embedded_apart (delete_source_spec i ?p (w_db w))"
        using w anchored_cascade_source[of "w_db w" i] anchored_mark_provider[of i ?p "w_db w"]
        by (simp_all add: delete_source_spec_def sound_def consistent_def db_wf_def)
      ultimately show ?thesis using w False deletion_run[OF wf Some] db_wf_delete_source[OF wf, of i ?p]
        by (auto simp: sound_def consistent_def)
    qed
  qed
qed

end

section \<open>The system\<close>

text \<open>What the applications are run with: the driver, the services they call and the error
  conversion of the workflow engine.\<close>

record system =
  ap_configurator :: configurator
  ap_services :: third_party
  ap_processors :: processors
  ap_storage :: storage
  ap_temporal :: temporal
  ap_queue :: "ext_call list \<Rightarrow> js_error + unit"
  ap_webhookApp :: webhook_app
  ap_sign :: "WebhookPayload \<Rightarrow> js_error + string"
  ap_http :: "ext_call list \<Rightarrow> js_error + unit"
  ap_failure :: "js_error \<Rightarrow> js_error"

text \<open>All applications use the configurator's store.\<close>

abbreviation ap_mongo :: "system \<Rightarrow> mongo" where
  "ap_mongo S \<equiv> cf_mongo (ap_configurator S)"

abbreviation activities_of :: "system \<Rightarrow> worker_proxies" where
  "activities_of S \<equiv> workerActivities (ap_mongo S) (ap_services S) (ap_processors S) (ap_failure S)"

text \<open>One step: a call of an entry point, with any arguments, seen from the world before to the world
  after; and time passing between the calls.\<close>

inductive step :: "system \<Rightarrow> world \<Rightarrow> world \<Rightarrow> bool" for S where
  time: "w_now w \<le> t \<Longrightarrow> step S w (w\<lparr>w_now := t\<rparr>)"
| request: "step S w (snd (handleRequest (ap_configurator S) key req w))"
| deleteSource: "step S w (snd (deleteDataSourceWf (ap_mongo S) (ap_temporal S) (ap_failure S) i w))"
| createConnection: "step S w
    (snd (createSyncConnectionWf (ap_mongo S) loaded_registries rnd (ap_failure S) cdto w))"
| deleteConnection: "step S w (snd (deleteSyncConnectionWf (ap_mongo S) (ap_failure S) i w))"
| triggered: "step S w (snd (handleWorkflowTriggered (ap_mongo S) (ap_services S) trigger w))"
| fullSync: "step S w (snd (googleSheetsFullSync (activities_of S) data w))"
| download: "step S w (snd (googleSheetsDownload (activities_of S) data w))"
| proceed: "step S w (snd (googleSheetsProceedSync (activities_of S) data w))"
| excel: "step S w (snd (excelFullSync (activities_of S) data w))"
| postProcess: "step S w (snd (postProcessor_handle (ap_mongo S) (ap_storage S) e w))"
| cronCreated: "step S w (snd (Cron_onConnectionCreated (ap_mongo S) (ap_queue S) c w))"
| cronDeleted: "step S w (snd (Cron_onConnectionDeleted (ap_mongo S) (ap_queue S) c w))"
| cronJob: "step S w (snd (CronTriggerProcessor_process (ap_mongo S) trigger w))"
| webhookCreated: "step S w (snd (Webhook_onConnectionCreated (ap_mongo S) (ap_webhookApp S) c w))"
| webhookDeleted: "step S w (snd (Webhook_onConnectionDeleted (ap_mongo S) (ap_webhookApp S) c w))"
| webhookRefresh: "step S w
    (snd (GoogleSheetsWebhookJobProcessor_process (ap_mongo S) (ap_webhookApp S) i w))"
| notification: "step S w (snd (triggerWebhookGoogleSheets (ap_mongo S) i channel state changed w))"
| dispatch: "step S w (snd (webhookBroker_handle (ap_mongo S) (ap_queue S) e w))"
| deliver: "step S w (snd (WebhookProcessor_process (ap_mongo S) (ap_sign S) (ap_http S) job w))"

inductive reach :: "system \<Rightarrow> world \<Rightarrow> world \<Rightarrow> bool" for S where
  reach_refl: "reach S w w"
| reach_step: "reach S w w' \<Longrightarrow> step S w' w'' \<Longrightarrow> reach S w w''"

inductive_cases reachE: "reach S w w'"

lemma reach_trans: "reach S w' w'' \<Longrightarrow> reach S w w' \<Longrightarrow> reach S w w''"
  by (induction rule: reach.induct) (auto intro: reach.intros)

context mongo_driver begin

lemma maintains_snd: "maintains Q m \<Longrightarrow> Q w \<Longrightarrow> Q (snd (m w))"
  by (simp add: maintains_def)

lemma sound_workflows:
  "maintains (sound M D) (deleteDataSourceWf M S F i)"
  "maintains (sound M D) (createSyncConnectionWf M loaded_registries rnd F data)"
  "maintains (sound M D) (deleteSyncConnectionWf M F i)"
  unfolding deleteDataSourceWf_def createSyncConnectionWf_def deleteSyncConnectionWf_def
    terminateDataSourceWorkflows_def terminateWorkflowsByQuery_def
  by (intro maintains_intros)+

lemma sound_execution [maintains_intros]:
  assumes "maintains (sound M D) m"
  shows "maintains (sound M D) (executeWorkflow_run T n opts m)"
    "maintains (sound M D) (configurator_executeWorkflow_run T n opts m)"
  unfolding executeWorkflow_run_def configurator_executeWorkflow_run_def
  by (intro maintains_intros assms)+

lemma sound_service [maintains_intros]:
  "maintains (sound M D) m \<Longrightarrow> maintains (sound M D) (service m)"
  unfolding service_def by (intro maintains_intros)

lemma sound_replies [maintains_intros]:
  "maintains (sound M D) (alreadyExists msg p)" "maintains (sound M D) typeError"
  "maintains (sound M D) (connectionCreated res)"
  unfolding alreadyExists_def typeError_def connectionCreated_def by (intro maintains_intros)+

lemma frames_webhooks [maintains_intros]:
  "maintains (framed s n b) (WebhookRepository_create M wd opts)"
  "maintains (framed s n b) (WebhookRepository_bulkCreate M ws opts)"
  unfolding WebhookRepository_create_def WebhookRepository_bulkCreate_def
  by (rule maintains_intros | simp add: frame_update)+

lemma frames_endpoints:
  "maintains (framed s n b) (DataSourceService_getById M i)"
  "maintains (framed s n b) (triggerSyncConnection M i)"
  "maintains (framed s n b) (discoverProvider M T i)"
  "maintains (framed s n b) (DataDiscovererService_getById M i)"
  "maintains (framed s n b) (SyncConnectionService_getById M i)"
  "maintains (framed s n b) (WebhookService_create M wd)"
  "maintains (framed s n b) (WebhookService_bulkCreate M ws)"
  "maintains (framed s n b) (DataSourceService_getSchema E i)"
  "maintains (framed s n b) (DataSourceService_getData M E i)"
proof -
  show "maintains (framed s n b) (discoverProvider M T i)"
    unfolding discoverProvider_def discoverProviderByConfig_def
      GoogleSheetsDiscoverer_discoverProvider_def MicrosoftExcelDiscoverer_discoverProvider_def
    by (intro maintains_intros maintains_enums maintains_obs keeps_intros)
  show "maintains (framed s n b) (DataSourceService_getById M i)"
    "maintains (framed s n b) (triggerSyncConnection M i)"
    "maintains (framed s n b) (DataDiscovererService_getById M i)"
    "maintains (framed s n b) (SyncConnectionService_getById M i)"
    "maintains (framed s n b) (WebhookService_create M wd)"
    "maintains (framed s n b) (WebhookService_bulkCreate M ws)"
    unfolding DataSourceService_getById_def triggerSyncConnection_def getTriggerOfDataSource_def
      DataDiscovererService_getById_def SyncConnectionService_getById_def WebhookService_create_def
      WebhookService_bulkCreate_def webhookScope_def manualTrigger_def Let_def
    by (intro maintains_intros)+
  have query: "maintains (framed s n b) (Destination_getSchema E i)"
    "maintains (framed s n b) (Destination_getData E i)" for i
    unfolding Destination_getSchema_def Destination_getData_def
    by (cases "dst_service E"; simp; intro maintains_intros maintains_obs keeps_intros)+
  then show "maintains (framed s n b) (DataSourceService_getSchema E i)"
    "maintains (framed s n b) (DataSourceService_getData M E i)"
    unfolding DataSourceService_getSchema_def DataSourceService_getData_def DataSourceService_getById_def
    by (intro maintains_intros query)+
qed

lemma sound_request:
  assumes "cf_mongo A = M" and "sound M D w"
  shows "sound M D (snd (handleRequest A key req w))"
proof -
  have "maintains (sound M D) (endpoint_of A req)"
    using assms(1) by (cases req; simp add: answer_def DataSourceController_create_def
        DataProviderController_create_def DataSourceController_createConnection_def
        SyncConnectionController_create_def SyncConnectionController_delete_def
        DataSourceController_delete_def Let_def;
        intro maintains_intros sound_workflows framed_sound frames_configurator frames_endpoints)
  then show ?thesis using assms(2)
    by (simp add: handleRequest_def maintains_def split: sum.split prod.split) (metis snd_conv)
qed

lemma step_sound:
  assumes "step S w w'" and "ap_mongo S = M" and "sound M D w"
  shows "sound M D w'"
  using assms
proof (cases rule: step.cases)
  case (time t)
  then show ?thesis using assms(3) by (simp add: sound_def consistent_def)
qed (simp_all add: assms maintains_snd framed_sound frames_triggered frames_workflows frames_post
    frames_cron frames_webhook frames_dispatch sound_workflows sound_request)

lemma reach_sound:
  assumes "reach S w w'" and "ap_mongo S = M" and "sound M D w"
  shows "sound M D w'"
  using assms
proof (induction rule: reach.induct)
  case (reach_step w w' w'')
  then show ?case by (intro step_sound[of S w' w''])
qed

end

text \<open>A deleted data source is not visible.\<close>

lemma gone_not_live:
  assumes "db_wf (w_db w)" and "i \<in> gone (w_db w)"
  shows "live_source i (w_db w) = None"
proof -
  obtain s where s: "s \<in> set (db_sources (w_db w))" "ds_isDeleted s" "ds_id s = i"
    using assms(2) by (auto simp: gone_def)
  have "distinct (map ds_id (db_sources (w_db w)))"
    using assms(1) by (simp add: db_wf_def keys_distinct_def)
  then have "t = s" if "t \<in> set (db_sources (w_db w))" "ds_id t = i" for t
    using that s by (metis distinct_map inj_onD)
  then show ?thesis using s(2) by (auto simp: live_source_def find_None_iff)
qed

lemma anchored_live:
  assumes "anchored d" and "c \<in> set (db_connections d)" and "\<not> sc_isDeleted c"
  shows "live_source (sc_sourceId c) d \<noteq> None"
    "e \<in> set (sc_syncflows c) \<Longrightarrow>
       (\<exists>s \<in> set (db_syncflows d). sf_id s = es_id e \<and> \<not> sf_isDeleted s) \<and>
       (\<exists>t \<in> set (db_triggers d). tr_workflow_id t = es_id e \<and> \<not> tr_isDeleted t)"
proof -
  have a: "sc_sourceId c \<in> alive d" "embedded_of c \<subseteq> runnable d"
    using assms by (simp_all add: anchored_def)
  show "live_source (sc_sourceId c) d \<noteq> None"
    using a(1) by (auto simp: alive_def live_source_def find_None_iff)
  assume "e \<in> set (sc_syncflows c)"
  then have "es_id e \<in> runnable d" using a(2) by (auto simp: embedded_of_def)
  then show "(\<exists>s \<in> set (db_syncflows d). sf_id s = es_id e \<and> \<not> sf_isDeleted s) \<and>
       (\<exists>t \<in> set (db_triggers d). tr_workflow_id t = es_id e \<and> \<not> tr_isDeleted t)"
    by (auto simp: runnable_def)
qed

lemma empty_consistent:
  assumes "w_db w = empty_db" and "w_tx w = None"
  shows "consistent M w"
  using assms by (simp add: consistent_def empty_db_def keys_of_def anchored_def embedded_apart_def
      db_wf_def keys_distinct_def embedded_present_def one_live_connection_def)

definition example_system :: system where
  "example_system = \<lparr>ap_configurator = example_configurator\<lparr>cf_failure := temporalFailure\<rparr>,
     ap_services = good_services, ap_processors = good_processors, ap_storage = example_storage,
     ap_temporal = example_temporal, ap_queue = \<lambda>_. Inr (), ap_webhookApp = example_webhook_app,
     ap_sign = \<lambda>_. Inr ''signature'', ap_http = \<lambda>_. Inr (), ap_failure = temporalFailure\<rparr>"

section \<open>What holds in every reachable state\<close>

text \<open>
  C9: the store stays well formed over every sequence of calls. From an empty store, after any
  number of complete calls of the configurator, the controller, the worker, the post-processor, the
  triggers and the webhook application, in any order, with any arguments, each ending with a result
  or an exception: keys are unique, no data source has two live sync connections, every live sync
  connection belongs to a live data source, each of its syncflows is live and has a live trigger,
  no transaction is left open and no object id to come is in use.
\<close>

theorem reachable_consistent:
  assumes "mongo_ok (ap_mongo S)" and "w_db w = empty_db" and "w_tx w = None" and "reach S w w'"
  shows "db_wf (w_db w') \<and> w_tx w' = None \<and>
    mg_oid (ap_mongo S) ` {w_oids w'..} \<inter> keys_of (w_db w') = {} \<and>
    (\<forall>c \<in> set (db_connections (w_db w')). \<not> sc_isDeleted c \<longrightarrow>
       live_source (sc_sourceId c) (w_db w') \<noteq> None \<and>
       (\<forall>e \<in> set (sc_syncflows c).
          (\<exists>s \<in> set (db_syncflows (w_db w')). sf_id s = es_id e \<and> \<not> sf_isDeleted s) \<and>
          (\<exists>t \<in> set (db_triggers (w_db w')). tr_workflow_id t = es_id e \<and> \<not> tr_isDeleted t)))"
proof -
  have "sound (ap_mongo S) {} w'"
    using mongo_driver.reach_sound[OF mongo_driverI[OF assms(1)] assms(4) refl, of "{}"]
      empty_consistent[OF assms(2,3)] by (simp add: sound_def)
  then show ?thesis using anchored_live[of "w_db w'"] by (simp add: sound_def consistent_def)
qed

definition example_provider_dto :: CreateDataProviderDto where
  "example_provider_dto = \<lparr>cpd_type = GOOGLE_SHEETS, cpd_config = example_config,
     cpd_metadata = None\<rparr>"

theorem reachable_consistent_witness:
  "db_wf (w_db (snd (handleRequest (ap_configurator example_system) (Some ''k'')
     (PostProvider example_provider_dto) (empty_world\<lparr>w_now := 5\<rparr>))))"
proof -
  have "reach example_system empty_world (empty_world\<lparr>w_now := 5\<rparr>)"
    by (rule reach_step[OF reach_refl time]) (simp add: empty_world_def)
  then have "reach example_system empty_world
      (snd (handleRequest (ap_configurator example_system) (Some ''k'')
        (PostProvider example_provider_dto) (empty_world\<lparr>w_now := 5\<rparr>)))"
    by (rule reach_step[OF _ request])
  then show ?thesis
    using reachable_consistent [of example_system empty_world] listMongo_ok
    by (simp add: example_system_def empty_world_def)
qed

text \<open>
  C10: a deleted data source stays deleted. From a consistent state in which the data source is
  deleted, no later call of any application makes it visible again, and no trigger of the data
  source changes anything when it is handled: nothing of it is ever scheduled again.
\<close>

theorem deleted_source_stays_deleted:
  assumes "mongo_ok (ap_mongo S)" and "consistent (ap_mongo S) w" and "i \<in> gone (w_db w)"
    and "reach S w w'" and "tr_sourceId t = i"
  shows "live_source i (w_db w') = None \<and>
    snd (handleWorkflowTriggered (ap_mongo S) (ap_services S) t w') = w'"
proof -
  note d = mongo_driverI[OF assms(1)]
  have "sound (ap_mongo S) {i} w'"
    using mongo_driver.reach_sound[OF d assms(4) refl, of "{i}"] assms(2,3) by (simp add: sound_def)
  then have none: "live_source i (w_db w') = None"
    by (simp add: gone_not_live sound_def consistent_def)
  then have "\<not> triggerable t (w_db w') sf ds sc" for sf ds sc
    using assms(5) by (simp add: triggerable_def)
  then show ?thesis using none mongo_driver.handle_not_triggerable[OF d] by simp
qed

definition deleted_world :: world where
  "deleted_world = example_world\<lparr>w_db := cascade_source ''d1'' example_db\<rparr>"

lemma deleted_world_ready:
  "consistent listMongo deleted_world" "''d1'' \<in> gone (w_db deleted_world)"
proof -
  have "anchored example_db" "embedded_apart example_db"
    by (auto simp: anchored_def embedded_apart_def alive_def runnable_def embedded_of_def example_defs
        image_iff)
  then have "anchored (cascade_source ''d1'' example_db)" "embedded_apart (cascade_source ''d1'' example_db)"
    using example_db_wf by (simp_all add: anchored_cascade_source db_wf_def)
  moreover have "mg_oid listMongo ` {0..} \<inter> keys_of example_db = {}"
    by (auto simp: keys_of_def example_defs oid_other)
  ultimately show "consistent listMongo deleted_world"
    using example_db_wf by (simp add: consistent_def deleted_world_def db_wf_cascade_source marked_keys
        example_world_def empty_world_def)
  show "''d1'' \<in> gone (w_db deleted_world)"
    by (force simp: deleted_world_def gone_def example_defs image_iff)
qed

theorem deleted_source_stays_deleted_witness:
  "let w = snd (deleteDataSourceWf listMongo example_temporal temporalFailure ''d1'' deleted_world)
   in snd (handleWorkflowTriggered listMongo good_services example_trigger w) = w"
proof -
  have "reach example_system deleted_world
      (snd (deleteDataSourceWf listMongo example_temporal temporalFailure ''d1'' deleted_world))"
    using step.deleteSource[of example_system] by (auto intro: reach.intros simp: example_system_def)
  then show ?thesis
    using deleted_source_stays_deleted [of example_system deleted_world "''d1''" _ example_trigger]
      listMongo_ok deleted_world_ready
    by (simp add: example_system_def example_trigger_def)
qed

end
