(* ===== verification/SyncCycle.thy ===== *)
theory SyncCycle
  imports Worker WebhookDispatch
begin

text \<open>
  Controller and worker together: what the end of a sync run means for the next trigger of the
  same syncflow. The controller schedules only idle syncflows, so a run that ends without making its
  syncflow idle is the last one.
\<close>

text \<open>What a trigger needs besides an idle syncflow.\<close>

definition trigger_ready :: "Trigger \<Rightarrow> db \<Rightarrow> DataSource \<Rightarrow> SyncConnection \<Rightarrow> bool" where
  "trigger_ready t d ds sc \<longleftrightarrow> live_trigger (tr_id t) d \<noteq> None \<and> tr_workflow_type t = SYNCFLOW \<and>
     live_source (tr_sourceId t) d = Some ds \<and> ds_provider_type ds = GOOGLE_SHEETS \<and>
     live_connection (tr_sourceId t) d = Some sc \<and> cs_status (sc_state sc) = SC_ACTIVE"

lemma run_failed_idle:
  assumes "run_failed evs (\<lambda>_. v') data w w'" and "flow_state (sf_id (sd_syncflow data)) w = Some (st, v, p)"
  shows "flow_state (sf_id (sd_syncflow data)) w' = Some (IDLING, v', p)"
    "w_events w' = w_events w @ evs"
  using assms by (simp_all add: run_failed_def)

lemma proceed_ends:
  assumes "mongo_ok M"
    and "googleSheetsProceedSync (workerActivities M T P F) data w = (r, w')"
    and "flow_state (sf_id (sd_syncflow data)) w = Some (st, v, p)"
  shows "w_events w' = w_events w \<and> flow_state (sf_id (sd_syncflow data)) w' = Some (st, v, p) \<or>
    w_events w' \<noteq> w_events w \<and>
      (\<exists>p'. flow_state (sf_id (sd_syncflow data)) w' = Some (IDLING, sd_version data + 1, p'))"
proof -
  let ?i = "sf_id (sd_syncflow data)"
  from worker_activities.proceed_outcomes[OF
      mongo_driver.worker_activities_implemented[OF mongo_driverI[OF assms(1)]] assms(2)]
  consider (succ) "run_succeeded data w w'"
    | (fail) evs where "evs \<noteq> []" "run_failed evs (\<lambda>_. sd_version data + 1) data w w'"
    | (none) "w_events w' = w_events w" "flow_state ?i w' = flow_state ?i w"
    by (simp only: prod.inject) blast
  then show ?thesis
  proof cases
    case succ
    then show ?thesis using assms(3) by (auto simp: run_succeeded_def)
  next
    case (fail evs)
    then show ?thesis using run_failed_idle[OF fail(2) assms(3)] by simp
  next
    case none
    then show ?thesis using assms(3) by simp
  qed
qed

text \<open>
  A run makes way for the next one exactly if it announces its end. Let \<open>googleSheetsProceedSync\<close>
  run for a live syncflow that is not idle. If the run sends an event, of success or of failure, then
  the syncflow is idle with the version after the scheduled one, and the next trigger that is
  ready schedules exactly that version. If it sends none (every error that is not a processor's
  external or internal error ends so), the syncflow keeps its status, and no trigger for it, in
  this or any later world in which it is as the run left it, is acted on.
\<close>

theorem run_makes_way:
  assumes "mongo_ok M"
    and "googleSheetsProceedSync (workerActivities M T P F) data w = (r, w')"
    and "flow_state (sf_id (sd_syncflow data)) w = Some (st, v, p)" and "st \<noteq> IDLING"
    and "flow_state (sf_id (sd_syncflow data)) w2 = flow_state (sf_id (sd_syncflow data)) w'"
    and "tr_workflow_id t = sf_id (sd_syncflow data)"
  shows "if w_events w' = w_events w
    then handleWorkflowTriggered M T' t w2 = (Inr (), w2)
    else (\<forall>ds sc. trigger_ready t (w_db w2) ds sc \<longrightarrow>
      (\<exists>sf w3. handleWorkflowTriggered M T' t w2 = (Inr (), w3) \<and> w_events w3 = w_events w2 @
        [SyncflowScheduled \<lparr>sd_syncflow = sf, sd_version = sd_version data + 1\<rparr>]))"
proof (cases "w_events w' = w_events w")
  case True
  then have "flow_state (sf_id (sd_syncflow data)) w2 = Some (st, v, p)"
    using proceed_ends[OF assms(1-3)] assms(5) by auto
  then obtain sf where "live_syncflow (tr_workflow_id t) (w_db w2) = Some sf"
    "ss_status (sf_state sf) \<noteq> IDLING"
    using assms(4,6) by (auto simp: flow_state_def)
  from mongo_driver.handle_not_idle[OF mongo_driverI[OF assms(1)] this] True show ?thesis by simp
next
  case False
  then obtain p' where "flow_state (sf_id (sd_syncflow data)) w2 = Some (IDLING, sd_version data + 1, p')"
    using proceed_ends[OF assms(1-3)] assms(5) by auto
  then obtain sf where sf: "live_syncflow (tr_workflow_id t) (w_db w2) = Some sf"
    "ss_status (sf_state sf) = IDLING" "ss_version (sf_state sf) = sd_version data + 1"
    using assms(6) by (auto simp: flow_state_def)
  have "\<exists>sf' w3. handleWorkflowTriggered M T' t w2 = (Inr (), w3) \<and> w_events w3 = w_events w2 @
      [SyncflowScheduled \<lparr>sd_syncflow = sf', sd_version = sd_version data + 1\<rparr>]"
    if ready: "trigger_ready t (w_db w2) ds sc" for ds sc
  proof -
    have "triggerable t (w_db w2) sf ds sc" "ds_provider_type ds = GOOGLE_SHEETS"
      using ready sf by (simp_all add: trigger_ready_def triggerable_def)
    from google_schedules[OF assms(1) this] sf(3) show ?thesis by auto
  qed
  then show ?thesis using False by simp
qed

text \<open>A scheduled syncflow in the example store.\<close>

definition scheduled_world :: world where
  "scheduled_world = example_world\<lparr>w_db := example_db\<lparr>db_syncflows := [example_syncflow\<lparr>sf_state :=
     defaultSyncflowState\<lparr>ss_status := SCHEDULED\<rparr>\<rparr>]\<rparr>\<rparr>"

theorem run_makes_way_witness:
  "\<exists>r w'. googleSheetsProceedSync
      (workerActivities listMongo good_services failing_processors temporalFailure)
      example_payload scheduled_world = (r, w') \<and>
    (w_events w' \<noteq> w_events scheduled_world \<or>
      handleWorkflowTriggered listMongo good_services example_trigger w' = (Inr (), w'))"
proof -
  obtain r w' where run: "googleSheetsProceedSync
      (workerActivities listMongo good_services failing_processors temporalFailure)
      example_payload scheduled_world = (r, w')" by fastforce
  have "flow_state (sf_id (sd_syncflow example_payload)) scheduled_world = Some (SCHEDULED,
      ss_version defaultSyncflowState, ss_prevVersion defaultSyncflowState)"
    "tr_workflow_id example_trigger = sf_id (sd_syncflow example_payload)"
    by (simp_all add: flow_state_def live_syncflow_def scheduled_world_def example_payload_def
        example_defs)
  from run_makes_way [OF listMongo_ok run this(1) _ refl this(2), of good_services] run
  show ?thesis by (auto split: if_splits)
qed

end
