(* ===== verification/SyncPipeline.thy ===== *)
theory SyncPipeline
  imports Worker PostProcessor
begin

text \<open>
  The sync pipeline: controller, worker and post-processor joined by the broker and by Temporal, the
  three applications through which a fired trigger becomes a finished sync. The broker hands every
  emitted event to the applications that subscribe to its topic, in the order of emission; Temporal runs
  each workflow whose start it accepted. What the broker makes of a payload on its way (dates
  arrive as strings) is the parameter \<open>pl_K\<close>.
\<close>

record pipeline =
  pl_M :: mongo
  pl_T :: third_party
  pl_P :: processors
  pl_F :: "js_error \<Rightarrow> js_error"
  pl_S :: temporal
  pl_X :: storage
  pl_K :: "ScheduledPayload \<Rightarrow> ScheduledPayload"

section \<open>Worker\<close>

text \<open>The workflows that \<open>apps/worker/src/workflows/index.ts\<close> exports to Temporal, by name
  (without the one used for tests).\<close>

definition workerWorkflows ::
  "worker_proxies \<Rightarrow> (string \<times> (ScheduledPayload \<Rightarrow> (unit + unit) act)) list" where
  "workerWorkflows A = [(''googleSheetsDownload'', googleSheetsDownload A),
     (''googleSheetsProceedSync'', googleSheetsProceedSync A),
     (''googleSheetsFullSync'', googleSheetsFullSync A), (''excelFullSync'', excelFullSync A)]"

text \<open>What becomes of an error of one consumer: the others do not see it.\<close>

definition swallow :: "'a act \<Rightarrow> unit act" where
  "swallow m = (\<lambda>w. (Inr (), snd (m w)))"

text \<open>The broker controller's handler asks Temporal to start a workflow; if that is accepted and the
  worker has a workflow of that name, it runs.\<close>

definition runAccepted ::
  "pipeline \<Rightarrow> json option act \<Rightarrow> string \<Rightarrow> ScheduledPayload \<Rightarrow> unit act" where
  "runAccepted E handler name p = bind_io (swallow handler) (\<lambda>_ w.
     case tm_start (pl_S E) (w_calls w) of
       Inl _ \<Rightarrow> (Inr (), w)
     | Inr _ \<Rightarrow> (case map_of (workerWorkflows (workerActivities (pl_M E) (pl_T E) (pl_P E) (pl_F E))) name of
         None \<Rightarrow> (Inr (), w)
       | Some workflow \<Rightarrow> swallow (workflow p) w))"

definition worker_handle :: "pipeline \<Rightarrow> event \<Rightarrow> unit act" where
  "worker_handle E e = (case e of
     SyncflowScheduled p \<Rightarrow> let q = pl_K E p in
       runAccepted E (handleSyncflowScheduledEvent (pl_S E) q) (sf_name (sd_syncflow q)) q
   | GoogleSheetsDownload _ p \<Rightarrow> let q = pl_K E p in
       runAccepted E (handleGoogleSheetsDownloadEvent (pl_S E) q) ''googleSheetsDownload'' q
   | GoogleSheetsProceedSync p \<Rightarrow> let q = pl_K E p in
       runAccepted E (handleGoogleSheetsProceedSyncEvent (pl_S E) q) ''googleSheetsProceedSync'' q
   | _ \<Rightarrow> return_io ())"

section \<open>The pipeline\<close>

definition controller_handle :: "pipeline \<Rightarrow> event \<Rightarrow> unit act" where
  "controller_handle E e = (case e of
     WorkflowTriggered t \<Rightarrow> handleWorkflowTriggered (pl_M E) (pl_T E) t
   | _ \<Rightarrow> return_io ())"

definition consume :: "pipeline \<Rightarrow> event \<Rightarrow> world \<Rightarrow> world" where
  "consume E e w = snd (bind_io (swallow (controller_handle E e)) (\<lambda>_.
     bind_io (worker_handle E e) (\<lambda>_. swallow (postProcessor_handle (pl_M E) (pl_X E) e))) w)"

text \<open>The broker: the events from position \<open>k\<close> on are delivered, those emitted meanwhile after them.
  The result is the position reached when no event is left, or when the fuel is used up.\<close>

fun pump :: "pipeline \<Rightarrow> nat \<Rightarrow> nat \<Rightarrow> world \<Rightarrow> nat \<times> world" where
  "pump E 0 k w = (k, w)"
| "pump E (Suc n) k w = (if k < length (w_events w)
     then pump E n (Suc k) (consume E (w_events w ! k) w) else (k, w))"

definition drained :: "nat \<times> world \<Rightarrow> bool" where
  "drained r \<longleftrightarrow> length (w_events (snd r)) \<le> fst r"

lemma swallow_run [simp]: "swallow m w = (Inr (), snd (m w))"
  by (simp add: swallow_def)

lemma consume_split:
  "consume E e w = (case e of
     WorkflowTriggered t \<Rightarrow> snd (handleWorkflowTriggered (pl_M E) (pl_T E) t w)
   | SyncflowScheduled _ \<Rightarrow> snd (worker_handle E e w)
   | GoogleSheetsDownload _ _ \<Rightarrow> snd (worker_handle E e w)
   | GoogleSheetsProceedSync _ \<Rightarrow> snd (worker_handle E e w)
   | _ \<Rightarrow> snd (postProcessor_handle (pl_M E) (pl_X E) e w))"
  by (cases e) (simp_all add: consume_def controller_handle_def worker_handle_def
      postProcessor_handle_def bind_io_run runAccepted_def Let_def split: sum.split option.split)

text \<open>The start of a workflow: one call, and the run if it is accepted.\<close>

lemma handler_calls:
  assumes "wo_waitResult opts = False"
  shows "snd (OrchestratorService_executeWorkflow S n opts w) = w\<lparr>w_calls := w_calls w @ [StartWorkflow n opts]\<rparr>"
  using assms by (simp add: OrchestratorService_executeWorkflow_def io_simps split: sum.split)


section \<open>How many events follow from one\<close>

text \<open>A bound on the events that the consumption of one can lead to, itself included.\<close>

fun weight :: "event \<Rightarrow> nat" where
  "weight (WorkflowTriggered _) = 6"
| "weight (SyncflowScheduled _) = 5"
| "weight (GoogleSheetsDownload _ _) = 4"
| "weight (GoogleSheetsProceedSync _) = 3"
| "weight (SyncflowSucceed _) = 2"
| "weight _ = 1"

definition weights :: "event list \<Rightarrow> nat" where
  "weights es = sum_list (map weight es)"

lemma weights_simps [simp]: "weights [] = 0" "weights (e # es) = weight e + weights es"
  "weights (es @ fs) = weights es + weights fs"
  by (simp_all add: weights_def)

lemma weight_pos: "0 < weight e" by (cases e) simp_all

text \<open>A computation that only appends events, of at most the given weight.\<close>

definition emits :: "nat \<Rightarrow> 'a act \<Rightarrow> bool" where
  "emits n m \<longleftrightarrow> (\<forall>w. \<exists>es. w_events (snd (m w)) = w_events w @ es \<and> weights es \<le> n)"

lemma emitsI: "(\<And>w r w'. m w = (r, w') \<Longrightarrow> \<exists>es. w_events w' = w_events w @ es \<and> weights es \<le> n) \<Longrightarrow> emits n m"
  unfolding emits_def by (metis prod.collapse)

lemma emits_keeps: "keeps w_events m \<Longrightarrow> emits n m"
  unfolding emits_def keeps_def by (metis append_Nil2 weights_simps(1) zero_le)

lemma emits_le: "emits n m \<Longrightarrow> n \<le> k \<Longrightarrow> emits k m"
  unfolding emits_def by (meson le_trans)

lemma emits_bind:
  assumes "emits n m" and "\<And>x. emits k (f x)"
  shows "emits (n + k) (bind_io m f)"
proof (rule emitsI)
  fix w r w' assume run: "bind_io m f w = (r, w')"
  obtain q w1 where m: "m w = (q, w1)" by (cases "m w")
  obtain es where es: "w_events w1 = w_events w @ es" "weights es \<le> n"
    using assms(1) m unfolding emits_def by (metis snd_conv)
  show "\<exists>es. w_events w' = w_events w @ es \<and> weights es \<le> n + k"
  proof (cases q)
    case (Inl e)
    then show ?thesis using run m es by (auto simp: bind_io_run)
  next
    case (Inr x)
    obtain fs where "w_events w' = w_events w1 @ fs" "weights fs \<le> k"
      using assms(2)[of x] run m Inr unfolding emits_def by (auto simp: bind_io_run) (metis snd_conv)
    then show ?thesis using es by (intro exI[of _ "es @ fs"]) simp
  qed
qed

lemma emits_swallow: "emits n m \<Longrightarrow> emits n (swallow m)"
  by (simp add: emits_def)

lemma workflowWrapper_world: "snd (workflowWrapper m w) = snd (m w)"
  by (auto simp: workflowWrapper_def io_simps split: sum.split option.split prod.split)

lemma emits_workflow: "emits n m \<Longrightarrow> emits n (workflowWrapper m)"
  by (simp add: emits_def workflowWrapper_world)

text \<open>Either nothing was emitted and the handler runs, or the last step emitted.\<close>

lemma emits_handled:
  assumes "\<And>w r w'. m w = (r, w') \<Longrightarrow> if isl r then w_events w' = w_events w
      else \<exists>es. w_events w' = w_events w @ es \<and> weights es \<le> n"
    and "\<And>e. emits n (h e)"
  shows "emits n (catch_io m h)"
proof (rule emitsI)
  fix w r w' assume run: "catch_io m h w = (r, w')"
  obtain q w1 where m: "m w = (q, w1)" by (cases "m w")
  show "\<exists>es. w_events w' = w_events w @ es \<and> weights es \<le> n"
  proof (cases q)
    case (Inl e)
    then have "w_events w1 = w_events w" "snd (h e w1) = w'"
      using assms(1)[OF m] run m by (simp_all add: catch_io_run)
    then show ?thesis using assms(2)[of e] unfolding emits_def by metis
  next
    case (Inr x)
    then show ?thesis using assms(1)[OF m] run m by (auto simp: catch_io_run)
  qed
qed


context worker_activities begin

lemma keeps_events:
  "keeps w_events (wp_checkAndUpdateStatusBeforeStartSyncflow A i)"
  "keeps w_events (wp_updateSyncflowState A i u)"
  "keeps w_events (wp_getDataSourceProviderGoogleSheets A d)"
  "keeps w_events (wp_getDownloadDataGoogleSheets A sf)"
  "keeps w_events (wp_downloadGoogleSheets A p x y)"
  "keeps w_events (wp_updateProviderStateGoogleSheets A p ps)"
  using check_keeps[of undefined i] data_keeps(1)[of d] data_keeps(2)[of sf] data_keeps(3)[of p x y]
    data_keeps(4)[of p ps]
  by (simp_all add: keeps_def update_state)

text \<open>A workflow that prepares, and then hands over to the next step.\<close>

lemma emits_last:
  assumes "keeps w_events m" and "\<And>x. weight (g x) \<le> n" and "2 \<le> n"
  shows "emits n (workflowWrapper (catch_io (bind_io m (\<lambda>x. wp_emitEvent A (g x)))
    (\<lambda>error. GoogleSheetsFullSyncErrorHandler A error data)))"
proof (intro emits_workflow emits_handled)
  fix w r w' assume run: "bind_io m (\<lambda>x. wp_emitEvent A (g x)) w = (r, w')"
  obtain q w1 where m: "m w = (q, w1)" by (cases "m w")
  then have "w_events w1 = w_events w" using keepsD[OF assms(1)] by blast
  then show "if isl r then w_events w' = w_events w
      else \<exists>es. w_events w' = w_events w @ es \<and> weights es \<le> n"
    using run m assms(2) by (cases q) (auto simp: bind_io_run emit)
next
  fix e show "emits n (GoogleSheetsFullSyncErrorHandler A e data)"
  proof (rule emitsI)
    fix w r w' assume "GoogleSheetsFullSyncErrorHandler A e data w = (r, w')"
    from handler_outcome[OF this] have "w_events w' = w_events w \<or>
        (\<exists>ed. w_events w' = w_events w @ [dataSourceErrorPayload data ed, failedPayload data ET_EXTERNAL ed]) \<or>
        (\<exists>ed. w_events w' = w_events w @ [failedPayload data ET_INTERNAL ed])"
      by (auto simp: run_failed_def)
    then show "\<exists>es. w_events w' = w_events w @ es \<and> weights es \<le> n"
      using assms(3) by (auto simp: dataSourceErrorPayload_def failedPayload_def)
  qed
qed

text \<open>The steps of the two workflows before they hand over.\<close>

definition download_prefix :: "ScheduledPayload \<Rightarrow> unit act" where
  "download_prefix data =
     bind_io (wp_getDownloadDataGoogleSheets A (sd_syncflow data)) (\<lambda>downloadData.
     bind_io now_io (\<lambda>now.
       if hasFreshDownload now downloadData then
          wp_updateSyncflowState A (sf_id (sd_syncflow data))
            (no_update\<lparr>up_downloadedAt := dd_providerDownloadedAt downloadData\<rparr>)
        else
          bind_io (wp_downloadGoogleSheets A (dd_dataProviderId downloadData)
            (dd_spreadsheetId downloadData) (dd_refreshToken downloadData)) (\<lambda>_.
          bind_io now_io (\<lambda>downloadedAt.
          bind_io (wp_updateProviderStateGoogleSheets A (dd_dataProviderId downloadData)
            \<lparr>ps_downloadedAt = Some downloadedAt\<rparr>) (\<lambda>_.
          wp_updateSyncflowState A (sf_id (sd_syncflow data))
            (no_update\<lparr>up_downloadedAt := Some downloadedAt\<rparr>))))))"

definition full_prefix :: "ScheduledPayload \<Rightarrow> (oid \<times> ProviderType) act" where
  "full_prefix data =
     bind_io (wp_checkAndUpdateStatusBeforeStartSyncflow A (sf_id (sd_syncflow data))) (\<lambda>_.
     wp_getDataSourceProviderGoogleSheets A (sf_sourceId (sd_syncflow data)))"

lemma handover_splits:
  "googleSheetsDownload A data = workflowWrapper (catch_io (bind_io (download_prefix data)
     (\<lambda>_. wp_emitEvent A (GoogleSheetsProceedSync data)))
     (\<lambda>error. GoogleSheetsFullSyncErrorHandler A error data))"
  "googleSheetsFullSync A data = workflowWrapper (catch_io (bind_io (full_prefix data)
     (\<lambda>p. wp_emitEvent A (GoogleSheetsDownload (fst p) data)))
     (\<lambda>error. GoogleSheetsFullSyncErrorHandler A error data))"
  by (simp_all add: googleSheetsDownload_def download_prefix_def googleSheetsFullSync_def full_prefix_def
      bind_io_assoc case_prod_unfold)

lemma keeps_prefixes: "keeps w_events (download_prefix data)" "keeps w_events (full_prefix data)"
  unfolding download_prefix_def full_prefix_def now_io_def by (auto intro!: keeps_intros keeps_events)

lemma download_emits: "emits 3 (googleSheetsDownload A data)"
  unfolding handover_splits by (rule emits_last[OF keeps_prefixes(1)]) simp_all

lemma full_emits: "emits 4 (googleSheetsFullSync A data)"
  unfolding handover_splits by (rule emits_last[OF keeps_prefixes(2)]) simp_all

lemma proceed_emits: "emits 2 (googleSheetsProceedSync A data)"
proof (rule emitsI)
  fix w r w' assume "googleSheetsProceedSync A data w = (r, w')"
  from proceed_outcomes[OF this] show "\<exists>es. w_events w' = w_events w @ es \<and> weights es \<le> 2"
    by (auto simp: run_succeeded_def run_failed_def dataSourceErrorPayload_def failedPayload_def)
qed

lemma excel_emits: "emits 2 (excelFullSync A data)"
proof (rule emitsI)
  fix w r w' assume "excelFullSync A data w = (r, w')"
  from excel_outcomes[OF this] show "\<exists>es. w_events w' = w_events w @ es \<and> weights es \<le> 2"
    by (auto simp: run_succeeded_def run_failed_def dataSourceErrorPayload_def failedPayload_def)
qed

lemma workflow_emits: "map_of (workerWorkflows A) n = Some f \<Longrightarrow> emits 4 (f p)"
  using full_emits emits_le[OF download_emits, of 4] emits_le[OF proceed_emits, of 4]
    emits_le[OF excel_emits, of 4]
  by (auto simp: workerWorkflows_def split: if_splits)

end


section \<open>The pipeline always comes to rest\<close>

lemma emits_accepted:
  assumes "emits 0 h" and "\<And>f. map_of (workerWorkflows (workerActivities (pl_M E) (pl_T E) (pl_P E)
    (pl_F E))) n = Some f \<Longrightarrow> emits k (f p)"
  shows "emits k (runAccepted E h n p)"
proof -
  have "emits (0 + k) (runAccepted E h n p)"
    unfolding runAccepted_def
  proof (intro emits_bind emits_swallow assms(1))
    fix x
    show "emits k (\<lambda>w. case tm_start (pl_S E) (w_calls w) of Inl _ \<Rightarrow> (Inr (), w)
      | Inr _ \<Rightarrow> (case map_of (workerWorkflows (workerActivities (pl_M E) (pl_T E) (pl_P E) (pl_F E))) n of
          None \<Rightarrow> (Inr (), w) | Some workflow \<Rightarrow> swallow (workflow p) w))"
      using assms(2) unfolding emits_def
      by (auto split: sum.split option.split)
  qed
  then show ?thesis by simp
qed

lemma handlers_emit:
  "emits 0 (handleSyncflowScheduledEvent S p)" "emits 0 (handleGoogleSheetsDownloadEvent S p)"
  "emits 0 (handleGoogleSheetsProceedSyncEvent S p)"
  unfolding handleSyncflowScheduledEvent_def handleGoogleSheetsDownloadEvent_def
    handleGoogleSheetsProceedSyncEvent_def
  by (intro emits_keeps; simp add: keeps_def OrchestratorService_executeWorkflow_def startOptions_def
      io_simps split: sum.split)+

lemma stop_emits: "emits 0 (stopSyncConnection M i)" if "mongo_ok M"
proof -
  have "keeps w_events (SyncConnectionRepository_updateState M u no_options)" for u
    unfolding keeps_def
    by (auto simp: SyncConnectionRepository_updateState_def inSession_def runWithTransaction_def
        reloadConnection_def findConnection_def updateConnectionDoc_def io_simps split: option.splits)
  then have "keeps w_events (stopSyncConnection M i)"
    unfolding stopSyncConnection_def by (auto intro!: keeps_intros split: option.split)
  then show ?thesis by (rule emits_keeps)
qed


lemma keeps_statistics: "keeps w_events (DataSourceRepository_updateStatistics M i u no_options)"
  unfolding keeps_def
  by (auto simp: DataSourceRepository_updateStatistics_def inSession_def runWithTransaction_def
      reloadSource_def findSource_def updateSourceDoc_def io_simps split: option.splits)

lemma keeps_cleaners:
  "getWorkflowCleaner X t = Inr f \<Longrightarrow> keeps w_events (f sf v pv)"
  "keeps w_events (handleProviderDeleted X i t)"
proof -
  show "getWorkflowCleaner X t = Inr f \<Longrightarrow> keeps w_events (f sf v pv)"
    by (cases t) (auto simp: getWorkflowCleaner_def GoogleSheetsWorkflowCleaner_run_def keeps_def
        MicrosoftExcelWorkflowCleaner_run_def cleanDiffData_def bind_io_run split: sum.split)
  show "keeps w_events (handleProviderDeleted X i t)"
    by (cases t) (auto simp: handleProviderDeleted_def getDataProviderCleaner_def keeps_def
        GoogleSheetsDataProviderCleaner_run_def cleanSpreadsheetData_def io_simps split: sum.split)
qed

lemma emits_emit: "weight e \<le> n \<Longrightarrow> emits n (emitEvent e)"
  by (simp add: emits_def)

lemma emits_intro_le: "emits 0 m \<Longrightarrow> (\<And>x. emits n (f x)) \<Longrightarrow> emits n (bind_io m f)"
  using emits_bind[of 0 m n f] by simp

lemma emits_none: "emits n (return_io x)" "emits n (throw_io e)"
  by (simp_all add: emits_def)

lemma succeed_emits: "emits 1 (handleSyncflowSucceed M X p)"
proof -
  have inner: "emits 1 (bind_io (lift_io (getWorkflowCleaner X t)) (\<lambda>cleaner.
      bind_io (cleaner sf v pv) (\<lambda>_. bind_io (DataSourceRepository_updateStatistics M i u no_options)
        (\<lambda>_. emitEvent (SyncflowCompleted c)))))" for t sf v pv i u c
  proof (cases "getWorkflowCleaner X t")
    case (Inl e)
    then show ?thesis by (simp add: emits_def bind_io_run)
  next
    case (Inr f)
    have "emits 1 (bind_io (f sf v pv) (\<lambda>_. bind_io
        (DataSourceRepository_updateStatistics M i u no_options) (\<lambda>_. emitEvent (SyncflowCompleted c))))"
      by (intro emits_intro_le emits_keeps keeps_cleaners(1)[OF Inr] keeps_statistics emits_emit) simp
    then show ?thesis using Inr by (simp add: emits_def bind_io_run)
  qed
  have "emits 1 (case sf of None \<Rightarrow> return_io () | Some syncflow \<Rightarrow> (case ds of None \<Rightarrow> return_io ()
      | Some dataSource \<Rightarrow> g syncflow dataSource))"
    if "\<And>a b. emits 1 (g a b)" for sf ds g
    using that by (auto simp: emits_none split: option.split)
  from this[OF inner] show ?thesis
    unfolding handleSyncflowSucceed_def Let_def
    by (intro emits_intro_le emits_keeps[OF keeps_reads(3)] emits_keeps[OF keeps_reads(1)])
qed

lemma postProcessor_emits:
  assumes "mongo_ok M"
  shows "emits (weight e - 1) (postProcessor_handle M X e)"
  using emits_keeps[OF keeps_cleaners(2)] stop_emits[OF assms] succeed_emits
  by (cases e) (simp_all add: postProcessor_handle_def handleSyncflowFailed_def
      handleDataSourceError_def emits_none)

lemma trigger_emits: "emits 5 (handleWorkflowTriggered M T t)" if "mongo_ok M"
proof (rule emitsI)
  fix w r w' assume "handleWorkflowTriggered M T t w = (r, w')"
  from handle_emits[OF that this] show "\<exists>es. w_events w' = w_events w @ es \<and> weights es \<le> 5"
    by (cases "w_events w' = w_events w") auto
qed

lemma worker_emits:
  assumes "mongo_ok (pl_M E)"
  shows "emits (weight e - 1) (worker_handle E e)"
proof -
  note act = mongo_driver.worker_activities_implemented[OF mongo_driverI[OF assms], of "pl_T E"
      "pl_P E" "pl_F E"]
  note wf = worker_activities.workflow_emits[OF act]
  have "emits 3 (f p)" if "map_of (workerWorkflows (workerActivities (pl_M E) (pl_T E) (pl_P E) (pl_F E)))
      ''googleSheetsDownload'' = Some f" for f p
    using that worker_activities.download_emits[OF act] by (auto simp: workerWorkflows_def)
  moreover have "emits 2 (f p)" if "map_of (workerWorkflows (workerActivities (pl_M E) (pl_T E) (pl_P E) (pl_F E)))
      ''googleSheetsProceedSync'' = Some f" for f p
    using that worker_activities.proceed_emits[OF act] by (auto simp: workerWorkflows_def)
  ultimately show ?thesis
    by (cases e) (auto simp: worker_handle_def Let_def emits_none intro!: emits_accepted handlers_emit wf)
qed

lemma consume_emits:
  assumes "mongo_ok (pl_M E)"
  shows "\<exists>es. w_events (consume E e w) = w_events w @ es \<and> weights es < weight e"
proof -
  have bound: "\<exists>es. w_events (snd (m w)) = w_events w @ es \<and> weights es < weight e"
    if "emits (weight e - 1) m" for m :: "unit act"
    using that weight_pos[of e] unfolding emits_def by (metis One_nat_def Suc_pred less_Suc_eq_le)
  show ?thesis
    using bound[OF worker_emits[OF assms]] bound[OF postProcessor_emits[OF assms]]
      trigger_emits[OF assms, of "pl_T E"]
    by (cases e) (simp_all add: consume_split emits_def less_Suc_eq_le[symmetric])
qed

lemma pump_drains:
  assumes "mongo_ok (pl_M E)" and "weights (drop k (w_events w)) \<le> n"
  shows "drained (pump E n k w) \<and> pump E (n + m) k w = pump E n k w \<and>
    (k \<le> length (w_events w) \<longrightarrow>
      length (w_events (snd (pump E n k w))) \<le> k + weights (drop k (w_events w)))"
  using assms(2)
proof (induction n arbitrary: k w)
  case 0
  have none: "length (w_events w) \<le> k"
  proof (rule ccontr)
    assume "\<not> ?thesis"
    then obtain e es where "drop k (w_events w) = e # es" by (cases "drop k (w_events w)") auto
    then show False using 0 weight_pos[of e] by simp
  qed
  then have "pump E m k w = (k, w)" by (cases m) simp_all
  then show ?case using none by (simp add: drained_def)
next
  case (Suc n)
  show ?case
  proof (cases "k < length (w_events w)")
    case True
    let ?e = "w_events w ! k" and ?w = "consume E (w_events w ! k) w"
    obtain es where es: "w_events ?w = w_events w @ es" "weights es < weight ?e"
      using consume_emits[OF assms(1)] by blast
    have split: "weights (drop k (w_events w)) = weight ?e + weights (drop (Suc k) (w_events w))"
      using True by (simp flip: Cons_nth_drop_Suc)
    then have less: "weights (drop (Suc k) (w_events ?w)) < weights (drop k (w_events w))"
      using es True by simp
    then have "weights (drop (Suc k) (w_events ?w)) \<le> n" using Suc.prems by simp
    from Suc.IH[OF this] show ?thesis using True less es(1) by (auto simp: Suc_le_eq)
  next
    case False
    then show ?thesis by (simp add: drained_def)
  qed
qed

section \<open>A sync that completes\<close>

text \<open>What the outside must do: the broker changes no field of a payload but dates, the workflow ids
  already used are the only ones Temporal refuses, and the services answer.\<close>

definition delivers :: "(ScheduledPayload \<Rightarrow> ScheduledPayload) \<Rightarrow> bool" where
  "delivers K \<longleftrightarrow> (\<forall>p. sd_version (K p) = sd_version p \<and> sf_id (sd_syncflow (K p)) = sf_id (sd_syncflow p) \<and>
     sf_name (sd_syncflow (K p)) = sf_name (sd_syncflow p) \<and>
     sf_sourceId (sd_syncflow (K p)) = sf_sourceId (sd_syncflow p) \<and>
     ss_version (sf_state (sd_syncflow (K p))) = ss_version (sf_state (sd_syncflow p)) \<and>
     ss_prevVersion (sf_state (sd_syncflow (K p))) = ss_prevVersion (sf_state (sd_syncflow p)))"

definition startedIds :: "ext_call list \<Rightarrow> string set" where
  "startedIds cs = {wo_workflowId opts |n opts. StartWorkflow n opts \<in> set cs}"

definition starts_new :: "temporal \<Rightarrow> bool" where
  "starts_new S \<longleftrightarrow> (\<forall>cs n opts. wo_workflowId opts \<notin> startedIds cs \<longrightarrow>
     tm_start S (cs @ [StartWorkflow n opts]) = Inr ())"

definition services_answer :: "pipeline \<Rightarrow> bool" where
  "services_answer E \<longleftrightarrow>
     (\<forall>cs. \<exists>tok. tp_googleToken (pl_T E) cs = Inr tok \<and> \<not> missingScopes (pl_T E) tok) \<and>
     (\<forall>cs. px_post (pl_P E) cs = Inr ()) \<and> (\<forall>cs. \<exists>st. px_load (pl_P E) cs = Inr st) \<and>
     (\<forall>cs. \<exists>errs. xs_delete (pl_X E) cs = Inr errs)"

lemma startedIds_simps [simp]:
  "startedIds (cs @ ds) = startedIds cs \<union> startedIds ds"
  "startedIds [] = {}" "startedIds (c # c' # cs) = startedIds [c] \<union> startedIds (c' # cs)"
  "startedIds [StartWorkflow n opts] = {wo_workflowId opts}"
  "startedIds [HttpPost u b] = {}" "startedIds [GoogleToken t] = {}" "startedIds [StorageDelete ks] = {}"
  by (auto simp: startedIds_def)

text \<open>What a step of the pipeline needs of the store, and what it keeps: the data sources and the
  providers that are live, and the workflow ids in use.\<close>

definition synced_source :: "ScheduledPayload \<Rightarrow> world \<Rightarrow> DataSource \<Rightarrow> bool" where
  "synced_source p w ds \<longleftrightarrow>
     find (\<lambda>s. ds_id s = sf_sourceId (sd_syncflow p)) (db_sources (w_db w)) = Some ds \<and>
     \<not> ds_isDeleted ds \<and> ds_provider_type ds = GOOGLE_SHEETS \<and>
     live_provider (ds_provider_id ds) (w_db w) \<noteq> None"

definition kept_obs :: "oid \<Rightarrow> world \<Rightarrow>
    DataSource list \<times> SyncConnection list \<times> Trigger list \<times> bool \<times> string set" where
  "kept_obs i w = (db_sources (w_db w), db_connections (w_db w), db_triggers (w_db w),
     live_provider i (w_db w) \<noteq> None, startedIds (w_calls w))"

lemma synced_live:
  assumes "synced_source p w ds"
  shows "live_source (sf_sourceId (sd_syncflow p)) (w_db w) = Some ds"
    "\<exists>dp. live_provider (ds_provider_id ds) (w_db w) = Some dp"
proof -
  have "find (\<lambda>s. ds_id s = i \<and> \<not> ds_isDeleted s) xs = Some ds"
    if "find (\<lambda>s. ds_id s = i) xs = Some ds" "\<not> ds_isDeleted ds" for i xs
    using that by (induction xs) (auto split: if_splits)
  then show "live_source (sf_sourceId (sd_syncflow p)) (w_db w) = Some ds"
    using assms by (simp add: synced_source_def live_source_def)
  show "\<exists>dp. live_provider (ds_provider_id ds) (w_db w) = Some dp"
    using assms by (auto simp: synced_source_def)
qed

lemma synced_kept:
  "synced_source p w ds \<Longrightarrow> kept_obs (ds_provider_id ds) w' = kept_obs (ds_provider_id ds) w \<Longrightarrow>
   synced_source p w' ds"
  by (simp add: synced_source_def kept_obs_def)

text \<open>The event that announces the end of a successful run.\<close>

abbreviation succeeded :: "ScheduledPayload \<Rightarrow> SyncStatistics \<Rightarrow> SyncflowSucceedPayload" where
  "succeeded p st \<equiv> \<lparr>sp_dataSourceId = sf_sourceId (sd_syncflow p), sp_syncflowId = sf_id (sd_syncflow p),
     sp_syncVersion = sd_version p, sp_prevSyncVersion = ss_prevVersion (sf_state (sd_syncflow p)),
     sp_statistics = st\<rparr>"

definition put_downloaded :: "oid \<Rightarrow> date \<Rightarrow> db \<Rightarrow> db" where
  "put_downloaded i t d = d\<lparr>db_providers := update_first (\<lambda>p. dp_id p = i)
     (\<lambda>p. p\<lparr>dp_state := Some \<lparr>ps_downloadedAt = Some t\<rparr>\<rparr>) (db_providers d)\<rparr>"

lemma live_put_downloaded:
  "(\<exists>p. live_provider j (put_downloaded i t d) = Some p) = (\<exists>p. live_provider j d = Some p)"
  "db_sources (put_downloaded i t d) = db_sources d" "db_syncflows (put_downloaded i t d) = db_syncflows d"
  "live_syncflow k (put_downloaded i t d) = live_syncflow k d"
  "db_connections (put_downloaded i t d) = db_connections d" "db_triggers (put_downloaded i t d) = db_triggers d"
proof -
  have "(find (\<lambda>p. dp_id p = j \<and> \<not> dp_isDeleted p) (update_first (\<lambda>p. dp_id p = i)
      (\<lambda>p. p\<lparr>dp_state := x\<rparr>) ps) = None) = (find (\<lambda>p. dp_id p = j \<and> \<not> dp_isDeleted p) ps = None)" for x ps
    by (induction ps) auto
  then show "(\<exists>p. live_provider j (put_downloaded i t d) = Some p) = (\<exists>p. live_provider j d = Some p)"
    by (simp add: live_provider_def put_downloaded_def flip: not_None_eq)
qed (simp_all add: put_downloaded_def live_syncflow_def)

context mongo_driver begin

lemma full_run:
  assumes "synced_source p w ds" and "live_syncflow (sf_id (sd_syncflow p)) (w_db w) = Some s"
    and "ss_status (sf_state s) \<noteq> RUNNING"
  shows "googleSheetsFullSync (workerActivities M T P F) p w = (Inr (Inl ()),
    w\<lparr>w_db := put_state (sf_id (sd_syncflow p)) (setState M (no_update\<lparr>up_status := Some RUNNING\<rparr>)) (w_db w),
      w_events := w_events w @ [GoogleSheetsDownload (ds_provider_id ds) p]\<rparr>)"
  using assms synced_live(1)[OF assms(1)]
  by (simp add: googleSheetsFullSync_def workerActivities_def proxyUnit_def proxyValue_def proxy_def
      activityWrapper_def workflowWrapper_def io_simps checkAndUpdateStatusBeforeStartSyncflow_def
      WorkflowService_checkAndUpdateStatusBeforeStartSyncflow_def getById_live syncflow_updateStatus
      updateState_put getDataSourceProviderGoogleSheets_def)

lemma provider_updateState:
  assumes "live_provider i (w_db w) = Some dp"
  shows "DataProviderRepository_updateState M i \<lparr>ps_downloadedAt = Some t\<rparr> no_options w
    = (Inr None, w\<lparr>w_db := put_downloaded i t (w_db w)\<rparr>)"
proof -
  let ?fn = "DataProviderRepository_updateState M i \<lparr>ps_downloadedAt = Some t\<rparr> sessionOnly"
  have id: "dp_id dp = i" using assms by (auto simp: live_provider_def dest: find_SomeD)
  have eq: "DataProviderRepository_updateState M i \<lparr>ps_downloadedAt = Some t\<rparr> no_options
      = runWithTransaction M ?fn"
    by (simp add: DataProviderRepository_updateState_def inSession_def reloadProvider_def)
  have find: "runs (findLiveProvider M i m) (w_db w) dp (w_db w)" for m
    using assms unfolding findLiveProvider_def live_provider_def
    by (intro runs_bind[OF runs_gets]) (simp add: runs_return)
  have upd: "runs (updateProviderDoc M i f) d () (d\<lparr>db_providers := update_first (\<lambda>c. dp_id c = i) f
      (db_providers d)\<rparr>)" for f d
    unfolding updateProviderDoc_def model_ops by (rule runs_write)
  have only: "session_only ?fn"
    unfolding DataProviderRepository_updateState_def inSession_def reloadProvider_def
    by (simp, intro conjI impI session_intros)
  have "runs ?fn (w_db w) None (put_downloaded i t (w_db w))"
    unfolding DataProviderRepository_updateState_def inSession_def reloadProvider_def put_downloaded_def
    by (auto simp: id intro!: runs_bind[OF find] runs_bind[OF upd] runs_return)
  from transaction_runs[OF only this] show ?thesis by (simp add: eq)
qed

lemma token_answers:
  assumes "\<forall>cs. \<exists>tok. tp_googleToken T cs = Inr tok \<and> \<not> missingScopes T tok"
  obtains at where "\<And>r w. GoogleService_getAccessToken T r w =
    (Inr (at (w_calls w @ [GoogleToken (show_opt r)])), w\<lparr>w_calls := w_calls w @ [GoogleToken (show_opt r)]\<rparr>)"
proof -
  from choice[OF assms] obtain tok where tok: "\<And>cs. tp_googleToken T cs = Inr (tok cs)"
    "\<And>cs. \<not> missingScopes T (tok cs)" by blast
  show thesis
    by (rule that[of "\<lambda>cs. gt_token (tok cs)"])
      (simp add: GoogleService_getAccessToken_def io_simps tok)
qed

lemma flow_state_keep:
  assumes "up_status u = None" and "up_version u = None" and "up_prevVersion u = None"
  shows "flow_state j (w2\<lparr>w_db := put_state i (setState M u) d\<rparr>) = flow_state j (w2\<lparr>w_db := d\<rparr>)"
  using assms by (cases "j = i") (simp_all add: flow_state_def live_syncflow_put_state option.map_comp comp_def)

lemma download_run:
  assumes "synced_source p w ds"
    and "\<forall>cs. \<exists>tok. tp_googleToken T cs = Inr tok \<and> \<not> missingScopes T tok"
    and "\<forall>cs. px_post P cs = Inr ()"
  shows "\<exists>w'. googleSheetsDownload (workerActivities M T P F) p w = (Inr (Inl ()), w') \<and>
    w_events w' = w_events w @ [GoogleSheetsProceedSync p] \<and>
    kept_obs (ds_provider_id ds) w' = kept_obs (ds_provider_id ds) w \<and>
    flow_state (sf_id (sd_syncflow p)) w' = flow_state (sf_id (sd_syncflow p)) w"
proof -
  obtain at where at: "\<And>r w. GoogleService_getAccessToken T r w =
      (Inr (at (w_calls w @ [GoogleToken (show_opt r)])), w\<lparr>w_calls := w_calls w @ [GoogleToken (show_opt r)]\<rparr>)"
    using token_answers[OF assms(2)] by blast
  obtain dp where live: "live_source (sf_sourceId (sd_syncflow p)) (w_db w) = Some ds"
    "live_provider (ds_provider_id ds) (w_db w) = Some dp" using synced_live[OF assms(1)] by blast
  define d where "d = \<lparr>dd_dataSourceId = sf_sourceId (sd_syncflow p),
       dd_dataProviderId = ds_provider_id ds,
       dd_providerDownloadedAt = providerDownloadedAt dp,
       dd_downloadedAt = ss_downloadedAt (sf_state (sd_syncflow p)),
       dd_ingestedAt = ss_ingestedAt (sf_state (sd_syncflow p)),
       dd_spreadsheetId = cfg_spreadsheetId (ds_config ds),
       dd_sheetId = cfg_sheetId (ds_config ds),
       dd_refreshToken = cfg_auth (ds_config ds)\<rparr>"
  have sel: "dd_dataProviderId d = ds_provider_id ds" by (simp add: d_def)
  show ?thesis
  proof (cases "hasFreshDownload (w_now w) d")
    case True
    then show ?thesis using live
      by (simp add: googleSheetsDownload_def worker_run_defs getDownloadDataGoogleSheets_def getById_live
          updateState_put d_def[symmetric] kept_obs_def flow_state_keep no_update_def)
  next
    case False
    then show ?thesis using live assms(3)
      by (simp add: googleSheetsDownload_def worker_run_defs getDownloadDataGoogleSheets_def getById_live
          updateState_put d_def[symmetric] kept_obs_def flow_state_keep no_update_def at
          downloadGoogleSheets_def updateProviderStateGoogleSheets_def provider_updateState
          live_put_downloaded sel) (simp add: flow_state_def live_put_downloaded)
  qed
qed

lemma proceed_run:
  assumes "synced_source p w ds"
    and "\<forall>cs. \<exists>tok. tp_googleToken T cs = Inr tok \<and> \<not> missingScopes T tok"
    and "\<forall>cs. px_post P cs = Inr ()" and "\<forall>cs. \<exists>st. px_load P cs = Inr st"
  shows "\<exists>w' st. googleSheetsProceedSync (workerActivities M T P F) p w = (Inr (Inl ()), w') \<and>
    w_events w' = w_events w @ [SyncflowSucceed (succeeded p st)] \<and>
    kept_obs (ds_provider_id ds) w' = kept_obs (ds_provider_id ds) w \<and>
    flow_state (sf_id (sd_syncflow p)) w' = map_option (\<lambda>_. (IDLING, sd_version p + 1, sd_version p))
      (flow_state (sf_id (sd_syncflow p)) w)"
proof -
  obtain at where at: "\<And>r w. GoogleService_getAccessToken T r w =
      (Inr (at (w_calls w @ [GoogleToken (show_opt r)])), w\<lparr>w_calls := w_calls w @ [GoogleToken (show_opt r)]\<rparr>)"
    using token_answers[OF assms(2)] by blast
  from choice[OF assms(4)] obtain ld where ld: "\<And>cs. px_load P cs = Inr (ld cs)" by blast
  obtain dp where live: "live_source (sf_sourceId (sd_syncflow p)) (w_db w) = Some ds"
    "live_provider (ds_provider_id ds) (w_db w) = Some dp" using synced_live[OF assms(1)] by blast
  have ds: "ds_id ds = sf_sourceId (sd_syncflow p)"
    using live(1) by (auto simp: live_source_def dest: find_SomeD)
  show ?thesis using live assms(3)
    by (simp add: googleSheetsProceedSync_def worker_run_defs getById_live updateState_put kept_obs_def
        at ld Let_def live_syncflow_put_state flow_state_def no_update_def option.map_comp comp_def)
qed

end

lemma accepted:
  assumes "starts_new (pl_S E)" and "workflowIdOf q sfx \<notin> startedIds (w_calls w)"
    and "map_of (workerWorkflows (workerActivities (pl_M E) (pl_T E) (pl_P E) (pl_F E))) n = Some f"
  shows "runAccepted E (OrchestratorService_executeWorkflow (pl_S E) n (startOptions q sfx)) n q w
    = (Inr (), snd (f q (w\<lparr>w_calls := w_calls w @ [StartWorkflow n (startOptions q sfx)]\<rparr>)))"
proof -
  have "tm_start (pl_S E) (w_calls w @ [StartWorkflow n (startOptions q sfx)]) = Inr ()"
    using assms(1,2) by (simp add: starts_new_def startOptions_def)
  then show ?thesis
    using assms(3) handler_calls[of "startOptions q sfx" "pl_S E" n w]
    by (simp add: runAccepted_def bind_io_run startOptions_def)
qed

lemma kept_call [simp]:
  "synced_source p (w\<lparr>w_calls := cs\<rparr>) ds = synced_source p w ds"
  "flow_state i (w\<lparr>w_calls := cs\<rparr>) = flow_state i w"
  "flow_state i (w\<lparr>w_db := d, w_events := es\<rparr>) = flow_state i (w\<lparr>w_db := d\<rparr>)"
  by (simp_all add: synced_source_def flow_state_def)

lemma delivered [simp]:
  assumes "delivers K"
  shows "sd_version (K p) = sd_version p" "sf_id (sd_syncflow (K p)) = sf_id (sd_syncflow p)"
    "sf_sourceId (sd_syncflow (K p)) = sf_sourceId (sd_syncflow p)"
    "sf_name (sd_syncflow (K p)) = sf_name (sd_syncflow p)"
    "ss_prevVersion (sf_state (sd_syncflow (K p))) = ss_prevVersion (sf_state (sd_syncflow p))"
    "workflowIdOf (K p) sfx = workflowIdOf p sfx" "synced_source (K p) w ds = synced_source p w ds"
  using assms by (simp_all add: delivers_def workflowIdOf_def synced_source_def)

lemma consume_scheduled:
  assumes "mongo_ok (pl_M E)" and "delivers (pl_K E)" and "starts_new (pl_S E)"
    and "workflowIdOf p [] \<notin> startedIds (w_calls w)" and "sf_name (sd_syncflow p) = ''googleSheetsFullSync''"
    and "synced_source p w ds" and "flow_state (sf_id (sd_syncflow p)) w = Some (SCHEDULED, v, pv)"
  shows "\<exists>w'. consume E (SyncflowScheduled p) w = w' \<and>
    w_events w' = w_events w @ [GoogleSheetsDownload (ds_provider_id ds) (pl_K E p)] \<and>
    kept_obs (ds_provider_id ds) w' = kept_obs (ds_provider_id ds)
      (w\<lparr>w_calls := w_calls w @ [StartWorkflow ''googleSheetsFullSync'' (startOptions (pl_K E p) [])]\<rparr>) \<and>
    flow_state (sf_id (sd_syncflow p)) w' = Some (RUNNING, v, pv)"
proof -
  note d = mongo_driverI[OF assms(1)]
  let ?q = "pl_K E p" and ?n = "''googleSheetsFullSync''"
  let ?w = "w\<lparr>w_calls := w_calls w @ [StartWorkflow ?n (startOptions ?q [])]\<rparr>"
  let ?A = "workerActivities (pl_M E) (pl_T E) (pl_P E) (pl_F E)"
  obtain s where s: "live_syncflow (sf_id (sd_syncflow p)) (w_db w) = Some s" "ss_status (sf_state s) = SCHEDULED"
    using assms(7) by (auto simp: flow_state_def)
  have run: "runAccepted E (handleSyncflowScheduledEvent (pl_S E) ?q) ?n ?q w
      = (Inr (), snd (googleSheetsFullSync ?A ?q ?w))"
    using accepted[OF assms(3), of ?q "[]" w ?n "googleSheetsFullSync ?A"] assms(2,4,5)
    by (simp add: handleSyncflowScheduledEvent_def workerWorkflows_def)
  have full: "googleSheetsFullSync ?A ?q ?w = (Inr (Inl ()), ?w\<lparr>
      w_db := put_state (sf_id (sd_syncflow p)) (setState (pl_M E) (no_update\<lparr>up_status := Some RUNNING\<rparr>)) (w_db w),
      w_events := w_events w @ [GoogleSheetsDownload (ds_provider_id ds) ?q]\<rparr>)"
    using mongo_driver.full_run[OF d, of ?q ?w ds s "pl_T E" "pl_P E" "pl_F E"] assms(2,6) s by simp
  show ?thesis
    using assms(2,5,7) run full
    by (simp add: consume_split worker_handle_def Let_def kept_obs_def flow_state_def
        live_syncflow_put_state no_update_def option.map_comp comp_def s(1))
qed

text \<open>The next two steps: a workflow that keeps the store but for what it announces.\<close>

lemma consume_download:
  assumes "mongo_ok (pl_M E)" and "delivers (pl_K E)" and "starts_new (pl_S E)" and "services_answer E"
    and "workflowIdOf p ''-download'' \<notin> startedIds (w_calls w)" and "synced_source p w ds"
  shows "\<exists>w'. consume E (GoogleSheetsDownload i p) w = w' \<and>
    w_events w' = w_events w @ [GoogleSheetsProceedSync (pl_K E p)] \<and>
    kept_obs (ds_provider_id ds) w' = kept_obs (ds_provider_id ds)
      (w\<lparr>w_calls := w_calls w @ [StartWorkflow ''googleSheetsDownload'' (startOptions (pl_K E p) ''-download'')]\<rparr>) \<and>
    flow_state (sf_id (sd_syncflow p)) w' = flow_state (sf_id (sd_syncflow p)) w"
proof -
  let ?q = "pl_K E p" and ?n = "''googleSheetsDownload''"
  let ?w = "w\<lparr>w_calls := w_calls w @ [StartWorkflow ?n (startOptions ?q ''-download'')]\<rparr>"
  let ?A = "workerActivities (pl_M E) (pl_T E) (pl_P E) (pl_F E)"
  have run: "runAccepted E (handleGoogleSheetsDownloadEvent (pl_S E) ?q) ?n ?q w
      = (Inr (), snd (googleSheetsDownload ?A ?q ?w))"
    using accepted[OF assms(3), of ?q "''-download''" w ?n "googleSheetsDownload ?A"] assms(2,5)
    by (simp add: handleGoogleSheetsDownloadEvent_def workerWorkflows_def)
  obtain w' where "googleSheetsDownload ?A ?q ?w = (Inr (Inl ()), w')"
    "w_events w' = w_events w @ [GoogleSheetsProceedSync ?q]"
    "kept_obs (ds_provider_id ds) w' = kept_obs (ds_provider_id ds) ?w"
    "flow_state (sf_id (sd_syncflow p)) w' = flow_state (sf_id (sd_syncflow p)) w"
    using mongo_driver.download_run[OF mongo_driverI[OF assms(1)], of ?q ?w ds "pl_T E" "pl_P E" "pl_F E"]
      assms(2,4,6) by (auto simp: services_answer_def)
  then show ?thesis using run by (simp add: consume_split worker_handle_def Let_def)
qed

lemma consume_proceed:
  assumes "mongo_ok (pl_M E)" and "delivers (pl_K E)" and "starts_new (pl_S E)" and "services_answer E"
    and "workflowIdOf p ''-proceed'' \<notin> startedIds (w_calls w)" and "synced_source p w ds"
  shows "\<exists>w' st. consume E (GoogleSheetsProceedSync p) w = w' \<and>
    w_events w' = w_events w @ [SyncflowSucceed (succeeded p st)] \<and>
    kept_obs (ds_provider_id ds) w' = kept_obs (ds_provider_id ds)
      (w\<lparr>w_calls := w_calls w @ [StartWorkflow ''googleSheetsProceedSync'' (startOptions (pl_K E p) ''-proceed'')]\<rparr>) \<and>
    flow_state (sf_id (sd_syncflow p)) w' = map_option (\<lambda>_. (IDLING, sd_version p + 1, sd_version p))
      (flow_state (sf_id (sd_syncflow p)) w)"
proof -
  let ?q = "pl_K E p" and ?n = "''googleSheetsProceedSync''"
  let ?w = "w\<lparr>w_calls := w_calls w @ [StartWorkflow ?n (startOptions ?q ''-proceed'')]\<rparr>"
  let ?A = "workerActivities (pl_M E) (pl_T E) (pl_P E) (pl_F E)"
  have run: "runAccepted E (handleGoogleSheetsProceedSyncEvent (pl_S E) ?q) ?n ?q w
      = (Inr (), snd (googleSheetsProceedSync ?A ?q ?w))"
    using accepted[OF assms(3), of ?q "''-proceed''" w ?n "googleSheetsProceedSync ?A"] assms(2,5)
    by (simp add: handleGoogleSheetsProceedSyncEvent_def workerWorkflows_def)
  from mongo_driver.proceed_run[OF mongo_driverI[OF assms(1)], of ?q ?w ds "pl_T E" "pl_P E" "pl_F E"]
  have "\<exists>w' st. googleSheetsProceedSync ?A ?q ?w = (Inr (Inl ()), w') \<and>
      w_events w' = w_events w @ [SyncflowSucceed (succeeded p st)] \<and>
      kept_obs (ds_provider_id ds) w' = kept_obs (ds_provider_id ds) ?w \<and>
      flow_state (sf_id (sd_syncflow p)) w' = map_option (\<lambda>_. (IDLING, sd_version p + 1, sd_version p))
        (flow_state (sf_id (sd_syncflow p)) w)"
    using assms(2,4,6) by (simp add: services_answer_def)
  then show ?thesis
    using run by (elim exE conjE) (auto simp: consume_split worker_handle_def Let_def)
qed

lemma consume_succeed:
  assumes "mongo_ok (pl_M E)" and "services_answer E" and "synced_source p w ds"
    and "flow_state (sf_id (sd_syncflow p)) w \<noteq> None"
  shows "\<exists>c. consume E (SyncflowSucceed (succeeded p st)) w = w\<lparr>w_calls := w_calls w @ [c],
      w_db := put_rows (sf_sourceId (sd_syncflow p))
        (st_rowsNumber (ds_statistics ds) + (sx_addedRowsCount st - sx_deletedRowsCount st)) (w_db w),
      w_events := w_events w @ [SyncflowCompleted \<lparr>cp_dataSourceId = sf_sourceId (sd_syncflow p),
        cp_syncflowId = sf_id (sd_syncflow p), cp_syncVersion = sd_version p,
        cp_rowsNumber = st_rowsNumber (ds_statistics ds) + (sx_addedRowsCount st - sx_deletedRowsCount st)\<rparr>]\<rparr>"
proof -
  let ?P = "succeeded p st"
  have "find (\<lambda>s. sf_id s = i) xs \<noteq> None" if "find (\<lambda>s. sf_id s = i \<and> \<not> sf_isDeleted s) xs \<noteq> None" for i xs
    using that by (induction xs) (auto split: if_splits)
  then obtain sf where sf: "find (\<lambda>s. sf_id s = sp_syncflowId ?P) (db_syncflows (w_db w)) = Some sf"
    using assms(4) by (fastforce simp: flow_state_def live_syncflow_def)
  define c where "c = StorageDelete (diffDataKeys (sf_sourceId sf) (sp_prevSyncVersion ?P))"
  obtain errs where errs: "xs_delete (pl_X E) (w_calls w @ [c]) = Inr errs"
    using assms(2) unfolding services_answer_def by blast
  have ds: "find (\<lambda>s. ds_id s = sp_dataSourceId ?P) (db_sources (w_db w)) = Some ds" "ds_provider_type ds \<noteq> AIR_TABLE"
    using assms(3) by (simp_all add: synced_source_def)
  from mongo_driver.succeed_run[OF mongo_driverI[OF assms(1)] sf ds errs c_def refl] show ?thesis
    by (simp add: consume_split postProcessor_handle_def rows_delta_def) blast
qed

lemma suffixes_differ:
  "workflowIdOf p [] \<noteq> workflowIdOf p ''-download''" "workflowIdOf p [] \<noteq> workflowIdOf p ''-proceed''"
  "workflowIdOf p ''-download'' \<noteq> workflowIdOf p ''-proceed''"
  by (simp_all add: workflowIdOf_def)

text \<open>The payload with which a syncflow is scheduled, and a trigger that may start a sync.\<close>

definition scheduledAs :: "Syncflow \<Rightarrow> ScheduledPayload" where
  "scheduledAs sf = \<lparr>sd_syncflow = sf\<lparr>sf_state := (sf_state sf)\<lparr>ss_status := SCHEDULED\<rparr>\<rparr>,
     sd_version = ss_version (sf_state sf)\<rparr>"

definition startable :: "Trigger \<Rightarrow> world \<Rightarrow> Syncflow \<Rightarrow> DataSource \<Rightarrow> SyncConnection \<Rightarrow> bool" where
  "startable t w sf ds sc \<longleftrightarrow> triggerable t (w_db w) sf ds sc \<and> tr_sourceId t = sf_sourceId sf \<and>
     sf_name sf = ''googleSheetsFullSync'' \<and> synced_source (scheduledAs sf) w ds \<and>
     (\<forall>sfx \<in> {[], ''-download'', ''-proceed''}. workflowIdOf (scheduledAs sf) sfx \<notin> startedIds (w_calls w))"

lemma scheduledAs_sel [simp]:
  "sf_id (sd_syncflow (scheduledAs sf)) = sf_id sf" "sd_version (scheduledAs sf) = ss_version (sf_state sf)"
  "sf_sourceId (sd_syncflow (scheduledAs sf)) = sf_sourceId sf" "sf_name (sd_syncflow (scheduledAs sf)) = sf_name sf"
  "ss_prevVersion (sf_state (sd_syncflow (scheduledAs sf))) = ss_prevVersion (sf_state sf)"
  by (simp_all add: scheduledAs_def)

text \<open>The steps from the scheduled syncflow to the completed one.\<close>

lemma download_completes:
  assumes "mongo_ok (pl_M E)" and "delivers (pl_K E)" and "starts_new (pl_S E)" and "services_answer E"
    and "w_events w = es @ [GoogleSheetsDownload (ds_provider_id ds) (pl_K E p)]"
    and "synced_source p w ds" and "flow_state (sf_id (sd_syncflow p)) w \<noteq> None"
    and "\<forall>sfx \<in> {''-download'', ''-proceed''}. workflowIdOf p sfx \<notin> startedIds (w_calls w)"
  shows "\<exists>w' st n. pump E 4 (length es) w = (length (w_events w'), w') \<and>
    n = st_rowsNumber (ds_statistics ds) + (sx_addedRowsCount st - sx_deletedRowsCount st) \<and>
    w_events w' = w_events w @ [GoogleSheetsProceedSync (pl_K E (pl_K E p)), SyncflowSucceed (succeeded p st),
      SyncflowCompleted \<lparr>cp_dataSourceId = sf_sourceId (sd_syncflow p), cp_syncflowId = sf_id (sd_syncflow p),
        cp_syncVersion = sd_version p, cp_rowsNumber = n\<rparr>] \<and>
    flow_state (sf_id (sd_syncflow p)) w' = Some (IDLING, sd_version p + 1, sd_version p) \<and>
    db_sources (w_db w') = db_sources (put_rows (sf_sourceId (sd_syncflow p)) n (w_db w)) \<and>
    db_connections (w_db w') = db_connections (w_db w) \<and> db_triggers (w_db w') = db_triggers (w_db w)"
proof -
  let ?K = "pl_K E" and ?i = "sf_id (sd_syncflow p)" and ?pr = "ds_provider_id ds"
  note ok = assms(1-4) and del = delivered[OF assms(2)]
  obtain w2 where w2: "consume E (GoogleSheetsDownload ?pr (?K p)) w = w2"
    "w_events w2 = w_events w @ [GoogleSheetsProceedSync (?K (?K p))]"
    "kept_obs ?pr w2 = kept_obs ?pr (w\<lparr>w_calls := w_calls w @
      [StartWorkflow ''googleSheetsDownload'' (startOptions (?K (?K p)) ''-download'')]\<rparr>)"
    "flow_state ?i w2 = flow_state ?i w"
    using consume_download[OF ok, of "?K p" w ds ?pr] assms(6,8) del by auto
  have s2: "synced_source p w2 ds"
    "startedIds (w_calls w2) = insert (workflowIdOf p ''-download'') (startedIds (w_calls w))"
    using w2(3) assms(6) del by (auto simp: kept_obs_def synced_source_def startOptions_def)
  obtain w3 st where w3: "consume E (GoogleSheetsProceedSync (?K (?K p))) w2 = w3"
    "w_events w3 = w_events w2 @ [SyncflowSucceed (succeeded p st)]"
    "kept_obs ?pr w3 = kept_obs ?pr (w2\<lparr>w_calls := w_calls w2 @
      [StartWorkflow ''googleSheetsProceedSync'' (startOptions (?K (?K (?K p))) ''-proceed'')]\<rparr>)"
    "flow_state ?i w3 = Some (IDLING, sd_version p + 1, sd_version p)"
    using consume_proceed[OF ok, of "?K (?K p)" w2 ds] s2 suffixes_differ[of p] assms(7,8) del w2(4) by auto
  have s3: "synced_source p w3 ds" using w3(3) s2 by (auto simp: kept_obs_def synced_source_def)
  define n where "n = st_rowsNumber (ds_statistics ds) + (sx_addedRowsCount st - sx_deletedRowsCount st)"
  obtain c where w4: "consume E (SyncflowSucceed (succeeded p st)) w3 = w3\<lparr>w_calls := w_calls w3 @ [c],
      w_db := put_rows (sf_sourceId (sd_syncflow p)) n (w_db w3),
      w_events := w_events w3 @ [SyncflowCompleted \<lparr>cp_dataSourceId = sf_sourceId (sd_syncflow p),
        cp_syncflowId = ?i, cp_syncVersion = sd_version p, cp_rowsNumber = n\<rparr>]\<rparr>" (is "_ = ?w4")
    using consume_succeed[OF ok(1,4) s3] w3(4) n_def by auto
  have c5: "consume E (SyncflowCompleted x) u = u" for x u
    by (simp add: consume_split postProcessor_handle_def)
  have "pump E 4 (length es) w = (length (w_events ?w4), ?w4)"
    using w2 w3 w4 assms(5) c5 by (simp add: eval_nat_numeral nth_append)
  moreover have "flow_state ?i ?w4 = flow_state ?i w3" "db_sources (w_db w3) = db_sources (w_db w)"
    "db_connections (w_db w3) = db_connections (w_db w)" "db_triggers (w_db w3) = db_triggers (w_db w)"
    using w2(3) w3(3) by (simp_all add: flow_state_def live_syncflow_def kept_obs_def)
  ultimately show ?thesis
    using w2(2) w3(2,4) assms(5)
    by (intro exI[of _ ?w4] exI[of _ st] exI[of _ n]) (simp add: n_def put_rows_def)
qed

lemma scheduled_completes:
  assumes "mongo_ok (pl_M E)" and "delivers (pl_K E)" and "starts_new (pl_S E)" and "services_answer E"
    and "w_events w = es @ [SyncflowScheduled p]" and "sf_name (sd_syncflow p) = ''googleSheetsFullSync''"
    and "synced_source p w ds" and "flow_state (sf_id (sd_syncflow p)) w = Some (SCHEDULED, v, pv)"
    and "\<forall>sfx \<in> {[], ''-download'', ''-proceed''}. workflowIdOf p sfx \<notin> startedIds (w_calls w)"
  shows "\<exists>w' st n. pump E 5 (length es) w = (length (w_events w'), w') \<and>
    n = st_rowsNumber (ds_statistics ds) + (sx_addedRowsCount st - sx_deletedRowsCount st) \<and>
    w_events w' = w_events w @ [GoogleSheetsDownload (ds_provider_id ds) (pl_K E p),
      GoogleSheetsProceedSync (pl_K E (pl_K E p)), SyncflowSucceed (succeeded p st),
      SyncflowCompleted \<lparr>cp_dataSourceId = sf_sourceId (sd_syncflow p), cp_syncflowId = sf_id (sd_syncflow p),
        cp_syncVersion = sd_version p, cp_rowsNumber = n\<rparr>] \<and>
    flow_state (sf_id (sd_syncflow p)) w' = Some (IDLING, sd_version p + 1, sd_version p) \<and>
    db_sources (w_db w') = db_sources (put_rows (sf_sourceId (sd_syncflow p)) n (w_db w)) \<and>
    db_connections (w_db w') = db_connections (w_db w) \<and> db_triggers (w_db w') = db_triggers (w_db w)"
proof -
  let ?K = "pl_K E" and ?i = "sf_id (sd_syncflow p)" and ?pr = "ds_provider_id ds"
  obtain w1 where w1: "consume E (SyncflowScheduled p) w = w1"
    "w_events w1 = (es @ [SyncflowScheduled p]) @ [GoogleSheetsDownload ?pr (?K p)]"
    "kept_obs ?pr w1 = kept_obs ?pr (w\<lparr>w_calls := w_calls w @
      [StartWorkflow ''googleSheetsFullSync'' (startOptions (?K p) [])]\<rparr>)"
    "flow_state ?i w1 = Some (RUNNING, v, pv)"
    using consume_scheduled[OF assms(1-3) _ assms(6-8)] assms(5,9) by auto
  have "synced_source p w1 ds" "startedIds (w_calls w1) = insert (workflowIdOf p []) (startedIds (w_calls w))"
    using w1(3) assms(7) delivered[OF assms(2)] by (auto simp: kept_obs_def synced_source_def startOptions_def)
  then obtain w' st n where w': "pump E 4 (length (es @ [SyncflowScheduled p])) w1 = (length (w_events w'), w')"
    "n = st_rowsNumber (ds_statistics ds) + (sx_addedRowsCount st - sx_deletedRowsCount st)"
    "w_events w' = w_events w1 @ [GoogleSheetsProceedSync (?K (?K p)), SyncflowSucceed (succeeded p st),
      SyncflowCompleted \<lparr>cp_dataSourceId = sf_sourceId (sd_syncflow p), cp_syncflowId = ?i,
        cp_syncVersion = sd_version p, cp_rowsNumber = n\<rparr>]"
    "flow_state ?i w' = Some (IDLING, sd_version p + 1, sd_version p)"
    "db_sources (w_db w') = db_sources (put_rows (sf_sourceId (sd_syncflow p)) n (w_db w1))"
    "db_connections (w_db w') = db_connections (w_db w1)" "db_triggers (w_db w') = db_triggers (w_db w1)"
    using download_completes[OF assms(1-4) w1(2)] w1(4) suffixes_differ[of p] assms(9) by auto
  have "pump E 5 (length es) w = (length (w_events w'), w')"
    using w'(1) w1(1) assms(5) by (simp add: eval_nat_numeral nth_append)
  then show ?thesis
    using w' w1(2,3) assms(5)
    by (intro exI[of _ w'] exI[of _ st] exI[of _ n]) (simp add: kept_obs_def put_rows_def)
qed

lemma rerun_ready:
  assumes "startable t w sf ds sc" and "flow_state (sf_id sf) w' = Some (IDLING, v, pv)"
    and "db_sources (w_db w') = db_sources (put_rows (sf_sourceId sf) n (w_db w))"
    and "db_connections (w_db w') = db_connections (w_db w)" and "db_triggers (w_db w') = db_triggers (w_db w)"
  shows "\<exists>sf' ds'. triggerable t (w_db w') sf' ds' sc \<and> ss_version (sf_state sf') = v"
proof -
  have tg: "triggerable t (w_db w) sf ds sc" and src: "tr_sourceId t = sf_sourceId sf"
    using assms(1) by (simp_all add: startable_def)
  obtain sf' where sf': "live_syncflow (sf_id sf) (w_db w') = Some sf'" "ss_status (sf_state sf') = IDLING"
    "ss_version (sf_state sf') = v"
    using assms(2) by (auto simp: flow_state_def)
  have "find (\<lambda>s. ds_id s = i \<and> \<not> ds_isDeleted s) (update_first (\<lambda>s. ds_id s = i)
      (\<lambda>s. s\<lparr>ds_statistics := f s\<rparr>) xs) \<noteq> None"
    if "find (\<lambda>s. ds_id s = i \<and> \<not> ds_isDeleted s) xs \<noteq> None" for i f xs
    using that by (induction xs) auto
  moreover have "find (\<lambda>s. ds_id s = sf_sourceId sf \<and> \<not> ds_isDeleted s) (db_sources (w_db w)) \<noteq> None"
    using tg src by (simp add: triggerable_def live_source_def)
  ultimately obtain ds' where "live_source (sf_sourceId sf) (w_db w') = Some ds'"
    using assms(3) by (fastforce simp: live_source_def put_rows_def)
  then show ?thesis
    using tg src sf' assms(4,5) triggerable_id[OF tg]
    by (intro exI[of _ sf'] exI[of _ ds'])
      (simp add: triggerable_def live_trigger_def live_connection_def)
qed

lemma trigger_completes:
  assumes "mongo_ok (pl_M E)" and "delivers (pl_K E)" and "starts_new (pl_S E)" and "services_answer E"
    and "startable t w sf ds sc" and "w_events w = es @ [WorkflowTriggered t]"
  shows "\<exists>w' p st n sf' ds'. pump E 6 (length es) w = (length (w_events w'), w') \<and>
    p = scheduledAs sf \<and>
    n = st_rowsNumber (ds_statistics ds) + (sx_addedRowsCount st - sx_deletedRowsCount st) \<and>
    w_events w' = w_events w @ [SyncflowScheduled p, GoogleSheetsDownload (ds_provider_id ds) (pl_K E p),
      GoogleSheetsProceedSync (pl_K E (pl_K E p)), SyncflowSucceed (succeeded p st),
      SyncflowCompleted \<lparr>cp_dataSourceId = sf_sourceId sf, cp_syncflowId = sf_id sf,
        cp_syncVersion = ss_version (sf_state sf), cp_rowsNumber = n\<rparr>] \<and>
    flow_state (sf_id sf) w' = Some (IDLING, ss_version (sf_state sf) + 1, ss_version (sf_state sf)) \<and>
    rows_of (sf_sourceId sf) (w_db w') = Some n \<and>
    triggerable t (w_db w') sf' ds' sc \<and> ss_version (sf_state sf') = ss_version (sf_state sf) + 1"
proof -
  let ?p = "scheduledAs sf"
  have tg: "triggerable t (w_db w) sf ds sc" and name: "sf_name sf = ''googleSheetsFullSync''"
    and sync: "synced_source ?p w ds"
    and new: "\<forall>sfx \<in> {[], ''-download'', ''-proceed''}. workflowIdOf ?p sfx \<notin> startedIds (w_calls w)"
    using assms(5) by (simp_all add: startable_def)
  let ?w = "w\<lparr>w_db := put_state (tr_workflow_id t) (setState (pl_M E) (no_update\<lparr>up_status := Some SCHEDULED\<rparr>))
      (w_db w), w_events := w_events w @ [SyncflowScheduled ?p]\<rparr>"
  have "ds_provider_type ds = GOOGLE_SHEETS" using sync by (simp add: synced_source_def)
  from google_schedules[OF assms(1) tg this]
  have first: "consume E (WorkflowTriggered t) w = ?w" by (simp add: consume_split scheduledAs_def)
  have w: "synced_source ?p ?w ds"
    "flow_state (sf_id sf) ?w = Some (SCHEDULED, ss_version (sf_state sf), ss_prevVersion (sf_state sf))"
    using sync tg triggerable_id[OF tg]
    by (simp_all add: synced_source_def flow_state_def live_syncflow_put_state triggerable_def no_update_def)
  from scheduled_completes[OF assms(1-4), of ?w "es @ [WorkflowTriggered t]" ?p ds] name w new assms(6)
  obtain w' st n where w': "pump E 5 (length (es @ [WorkflowTriggered t])) ?w = (length (w_events w'), w')"
    "n = st_rowsNumber (ds_statistics ds) + (sx_addedRowsCount st - sx_deletedRowsCount st)"
    "w_events w' = w_events ?w @ [GoogleSheetsDownload (ds_provider_id ds) (pl_K E ?p),
      GoogleSheetsProceedSync (pl_K E (pl_K E ?p)), SyncflowSucceed (succeeded ?p st),
      SyncflowCompleted \<lparr>cp_dataSourceId = sf_sourceId sf, cp_syncflowId = sf_id sf,
        cp_syncVersion = ss_version (sf_state sf), cp_rowsNumber = n\<rparr>]"
    "flow_state (sf_id sf) w' = Some (IDLING, ss_version (sf_state sf) + 1, ss_version (sf_state sf))"
    "db_sources (w_db w') = db_sources (put_rows (sf_sourceId sf) n (w_db w))"
    "db_connections (w_db w') = db_connections (w_db w)" "db_triggers (w_db w') = db_triggers (w_db w)"
    by (auto simp: put_rows_def)
  have "rows_of (sf_sourceId sf) (w_db w') = Some n"
    using w'(5) sync rows_put_rows[of "sf_sourceId sf" "sf_sourceId sf" n "w_db w"]
    by (simp add: rows_of_def synced_source_def)
  moreover have "pump E 6 (length es) w = (length (w_events w'), w')"
    using w'(1) assms(6) first by (simp add: eval_nat_numeral)
  ultimately show ?thesis
    using w' rerun_ready[OF assms(5) w'(4-7)] by auto
qed

section \<open>Properties\<close>

text \<open>
  C2: a fired trigger leads to a finished sync. Let the last event be a trigger of a Google Sheets
  syncflow that may start (it is idle, everything it needs is live, its workflow ids are unused), let the
  services and processors answer, the broker deliver and Temporal start new workflows. Then controller,
  worker and post-processor together come to rest after exactly six deliveries. They emitted, in this
  order, the schedule, download and proceed events, one success event for the scheduled version and one
  completion event; the syncflow is idle again, one version further, with the version just synced
  as its previous one; the row count of the data source has changed by what the loader reported; and
  the trigger finds everything ready for the next version.
\<close>

theorem pipeline_completes:
  assumes "mongo_ok (pl_M E)" and "delivers (pl_K E)" and "starts_new (pl_S E)" and "services_answer E"
    and "startable t w sf ds sc" and "w_events w = es @ [WorkflowTriggered t]"
  shows "\<exists>w' p st n sf' ds'. pump E 6 (length es) w = (length (w_events w'), w') \<and>
    p = scheduledAs sf \<and>
    n = st_rowsNumber (ds_statistics ds) + (sx_addedRowsCount st - sx_deletedRowsCount st) \<and>
    w_events w' = w_events w @ [SyncflowScheduled p, GoogleSheetsDownload (ds_provider_id ds) (pl_K E p),
      GoogleSheetsProceedSync (pl_K E (pl_K E p)), SyncflowSucceed (succeeded p st),
      SyncflowCompleted \<lparr>cp_dataSourceId = sf_sourceId sf, cp_syncflowId = sf_id sf,
        cp_syncVersion = ss_version (sf_state sf), cp_rowsNumber = n\<rparr>] \<and>
    flow_state (sf_id sf) w' = Some (IDLING, ss_version (sf_state sf) + 1, ss_version (sf_state sf)) \<and>
    rows_of (sf_sourceId sf) (w_db w') = Some n \<and>
    triggerable t (w_db w') sf' ds' sc \<and> ss_version (sf_state sf') = ss_version (sf_state sf) + 1"
  by (rule trigger_completes[OF assms])

text \<open>The example applications, joined.\<close>

definition example_pipeline :: pipeline where
  "example_pipeline = \<lparr>pl_M = listMongo, pl_T = good_services, pl_P = good_processors,
     pl_F = temporalFailure, pl_S = \<lparr>tm_start = (\<lambda>_. Inr ()), tm_result = (\<lambda>_. Inr JNull),
       tm_list = (\<lambda>_. Inr []), tm_terminate = (\<lambda>_. Inr ())\<rparr>,
     pl_X = example_storage, pl_K = (\<lambda>p. p)\<rparr>"

definition fired_world :: world where
  "fired_world = example_world\<lparr>w_events := [WorkflowTriggered example_trigger]\<rparr>"

lemma example_pipeline_answers:
  "mongo_ok (pl_M example_pipeline)" "delivers (pl_K example_pipeline)" "starts_new (pl_S example_pipeline)"
  "services_answer example_pipeline"
  using listMongo_ok by (simp_all add: example_pipeline_def delivers_def starts_new_def services_answer_def
      good_services_def example_services_def good_processors_def example_storage_def missingScopes_def
      intersection_def)

lemma example_startable: "startable example_trigger fired_world example_syncflow example_source example_connection"
  by (simp add: startable_def triggerable_def synced_source_def fired_world_def startedIds_def
      live_defs example_defs defaultSyncflowState_def defaultSyncConnectionState_def scheduledAs_def
      SN_GOOGLE_SHEETS_FULL_def)

theorem pipeline_completes_witness:
  "\<exists>w'. pump example_pipeline 6 0 fired_world = (length (w_events w'), w') \<and>
     flow_state ''s1'' w' = Some (IDLING, 2, 1)"
proof -
  have "w_events fired_world = [] @ [WorkflowTriggered example_trigger]"
    "sf_id example_syncflow = ''s1''" "ss_version (sf_state example_syncflow) = 1"
    by (simp_all add: fired_world_def example_syncflow_def defaultSyncflowState_def)
  from pipeline_completes [OF example_pipeline_answers example_startable this(1)] this(2,3)
  show ?thesis by auto
qed

text \<open>
  C11: the pipeline always comes to rest. Whatever the store, the services, the processors, the object
  storage, Temporal and the broker do, and whatever events are pending: delivering them, and those
  emitted meanwhile, ends. The deliveries it takes are bounded by the weights of the pending events (6
  for a trigger), more fuel changes nothing, and no more events follow than that bound allows. So no
  failure makes the applications send each other events for ever.
\<close>

theorem pipeline_terminates:
  assumes "mongo_ok (pl_M E)"
  shows "drained (pump E (weights (drop k (w_events w))) k w) \<and>
    pump E (weights (drop k (w_events w)) + m) k w = pump E (weights (drop k (w_events w))) k w \<and>
    (k \<le> length (w_events w) \<longrightarrow>
      length (w_events (snd (pump E (weights (drop k (w_events w))) k w)))
        \<le> k + weights (drop k (w_events w)))"
  by (rule pump_drains[OF assms order_refl])

theorem pipeline_terminates_witness:
  "drained (pump example_pipeline 6 0 fired_world)"
  using pipeline_terminates [OF example_pipeline_answers(1), of 0 fired_world 0]
  by (simp add: fired_world_def)

end
