(* ===== verification/FirstSync.thy ===== *)
theory FirstSync
  imports SyncPipeline ConfiguratorApi
begin

text \<open>
  All the way from the client to the finished sync: two requests to the configurator, which create a sync
  connection for a Google Sheets data source and fire its trigger by hand, and the sync pipeline that
  takes it from there.
\<close>

text \<open>The syncflow and the trigger that the creation of a Google Sheets connection stores.\<close>

definition firstSyncflow :: "mongo \<Rightarrow> oid \<Rightarrow> nat \<Rightarrow> Syncflow" where
  "firstSyncflow M i n = \<lparr>sf_id = mg_oid M n, sf_name = SN_GOOGLE_SHEETS_FULL,
     sf_attributes = sdf_attributes (hd GoogleSheetsSyncflowDefinitions), sf_sourceId = i,
     sf_state = defaultSyncflowState, sf_config = None, sf_trigger_id = None,
     sf_trigger_name = TN_GOOGLE_SHEETS_WEBHOOK, sf_trigger_type = EVENT_WEBHOOK, sf_isDeleted = False\<rparr>"

definition firstTrigger :: "mongo \<Rightarrow> oid \<Rightarrow> nat \<Rightarrow> Trigger" where
  "firstTrigger M i n = \<lparr>tr_id = mg_oid M (n + 2), tr_name = TN_GOOGLE_SHEETS_WEBHOOK,
     tr_type = EVENT_WEBHOOK, tr_workflow_id = mg_oid M n, tr_workflow_name = SN_GOOGLE_SHEETS_FULL,
     tr_workflow_type = SYNCFLOW, tr_sourceId = i, tr_config = None, tr_isDeleted = False\<rparr>"

abbreviation googleData :: "configurator \<Rightarrow> CreateSyncConnectionDto \<Rightarrow> CreateSyncConnectionData" where
  "googleData A data \<equiv> creationData (cf_draws A 0) GOOGLE_SHEETS data"

lemma google_documents:
  "db_syncflows (withConnection M loaded_registries (googleData A data) n d) =
     db_syncflows d @ [firstSyncflow M (cn_sourceId data) n]"
  "db_triggers (withConnection M loaded_registries (googleData A data) n d) =
     db_triggers d @ [firstTrigger M (cn_sourceId data) n]"
  "db_sources (withConnection M loaded_registries (googleData A data) n d) = db_sources d"
  "db_providers (withConnection M loaded_registries (googleData A data) n d) = db_providers d"
  by (simp_all add: withConnection_def creationData_def providerSyncflow_def newSyncflow_def newTrigger_def
      firstSyncflow_def firstTrigger_def Let_def)

lemma google_created:
  fixes A data n d
  defines "d' \<equiv> withConnection (cf_mongo A) loaded_registries (googleData A data) n d"
  assumes "ids_fresh (cf_mongo A) n d"
  shows "live_syncflow (mg_oid (cf_mongo A) n) d' = Some (firstSyncflow (cf_mongo A) (cn_sourceId data) n)"
    "live_trigger (mg_oid (cf_mongo A) (n + 2)) d' = Some (firstTrigger (cf_mongo A) (cn_sourceId data) n)"
    "live_source i d' = live_source i d" "live_provider i d' = live_provider i d"
proof -
  have "mg_oid (cf_mongo A) n \<notin> set (map sf_id (db_syncflows d))"
    "mg_oid (cf_mongo A) (n + 2) \<notin> set (map tr_id (db_triggers d))"
    using assms(2) imageI[of n "{n..}" "mg_oid (cf_mongo A)"] imageI[of "n + 2" "{n..}" "mg_oid (cf_mongo A)"]
    unfolding ids_fresh_def by (simp_all add: disjoint_iff)
  then have "find (\<lambda>s. sf_id s = mg_oid (cf_mongo A) n \<and> \<not> sf_isDeleted s) (db_syncflows d) = None"
    "find (\<lambda>t. tr_id t = mg_oid (cf_mongo A) (n + 2) \<and> \<not> tr_isDeleted t) (db_triggers d) = None"
    by (auto simp: find_None_iff) (metis imageI)+
  then show "live_syncflow (mg_oid (cf_mongo A) n) d' = Some (firstSyncflow (cf_mongo A) (cn_sourceId data) n)"
    "live_trigger (mg_oid (cf_mongo A) (n + 2)) d' = Some (firstTrigger (cf_mongo A) (cn_sourceId data) n)"
    by (simp_all add: d'_def live_syncflow_def live_trigger_def google_documents find_append
        firstSyncflow_def firstTrigger_def)
  show "live_source i d' = live_source i d" "live_provider i d' = live_provider i d"
    by (simp_all add: d'_def live_source_def live_provider_def google_documents)
qed

text \<open>The two requests.\<close>

lemma connection_posted:
  assumes "mongo_ok (cf_mongo A)" and "Configurator_canActivate (cf_apiKeys A) key"
    and "tm_start (cf_temporal A) (w_calls w @ [StartWorkflow ''createSyncConnectionWf'' (createOptions data True)]) = Inr ()"
    and "live_connection (cn_sourceId data) (w_db w) = None"
    and "live_source (cn_sourceId data) (w_db w) = Some ds" and "ds_provider_type ds = GOOGLE_SHEETS"
  shows "\<exists>c. live_connection (cn_sourceId data) (withConnection (cf_mongo A) loaded_registries
        (googleData A data) (w_oids w) (w_db w)) = Some c \<and> sc_state c = defaultSyncConnectionState \<and>
    handleRequest A key (PostConnection data) w = (Success (AConnection (Some c)),
      w\<lparr>w_calls := w_calls w @ [StartWorkflow ''createSyncConnectionWf'' (createOptions data True)],
        w_db := withConnection (cf_mongo A) loaded_registries (googleData A data) (w_oids w) (w_db w),
        w_oids := oidsAfter (googleData A data) (w_oids w), w_events := w_events w @ [ConnectionCreated c]\<rparr>)"
proof -
  let ?o = "createOptions data True"
  let ?w = "w\<lparr>w_calls := w_calls w @ [StartWorkflow ''createSyncConnectionWf'' ?o]\<rparr>"
  have ctl: "SyncConnectionController_create A data = bind_io (service (executeWorkflow_run
      (cf_temporal A) ''createSyncConnectionWf'' ?o (createSyncConnectionWf (cf_mongo A)
        loaded_registries (cf_draws A) (cf_failure A) data))) connectionCreated"
    by (simp add: SyncConnectionController_create_def createOptions_def)
  have o: "wo_waitResult ?o" "\<not> wo_errorOnDuplicate ?o" by (simp_all add: createOptions_def)
  have "live_connection (cn_sourceId data) (w_db ?w) = None" "live_source (cn_sourceId data) (w_db ?w) = Some ds"
    "ds_provider_type ds \<noteq> AIR_TABLE"
    using assms(4-6) by simp_all
  note new = creation_workflow_new[where rnd = "cf_draws A", OF assms(1) this]
  let ?c = "newConnection (cf_mongo A) loaded_registries (googleData A data) (w_oids w)"
  have "handleRequest A key (PostConnection data) w = (Success (AConnection (Some ?c)), ?w\<lparr>
        w_db := withConnection (cf_mongo A) loaded_registries (googleData A data) (w_oids w) (w_db w),
        w_oids := oidsAfter (googleData A data) (w_oids w), w_events := w_events w @ [ConnectionCreated ?c]\<rparr>)"
    using assms(2,3,6) new(1)
    by (simp add: handleRequest_def answer_def bind_io_run ctl service_def catch_io_run
        awaited_execution[OF o] connectionCreated_def)
  moreover have "sc_state ?c = defaultSyncConnectionState" by (simp add: newConnection_def Let_def)
  ultimately show ?thesis using new(2) assms(6) by (intro exI[of _ ?c]) simp
qed

lemma manual_trigger_fired:
  assumes "mongo_ok (cf_mongo A)" and "Configurator_canActivate (cf_apiKeys A) key"
    and "live_source i (w_db w) = Some ds" and "ds_provider_type ds = GOOGLE_SHEETS"
    and "filter (\<lambda>t. tr_sourceId t = i \<and> \<not> tr_isDeleted t) (db_triggers (w_db w)) = t # ts"
    and "live_trigger (tr_id t) (w_db w) = Some t" and "tr_type t = EVENT_WEBHOOK"
  shows "handleRequest A key (PostManualTriggerOf i) w =
    (Success ANothing, w\<lparr>w_events := w_events w @ [WorkflowTriggered t]\<rparr>)"
proof -
  have find: "m_find (mg_triggers (cf_mongo A)) = filter"
    using mongo_driver.model_ops[OF mongo_driverI[OF assms(1)]] by simp
  have "ds_id ds = i" using assms(3) by (auto simp: live_source_def dest: find_SomeD)
  then show ?thesis
    using assms(2-7) mongo_driver.getById_live[OF mongo_driverI[OF assms(1)]]
    by (simp add: handleRequest_def answer_def service_def io_simps triggerSyncConnection_def
        DataSourceService_getById_def getTriggerOfDataSource_def TriggerRepository_getByDataSourceId_def
        find manualTrigger_def)
qed

text \<open>What the creation leaves can be started.\<close>

definition connectable :: "configurator \<Rightarrow> CreateSyncConnectionDto \<Rightarrow> world \<Rightarrow> DataSource \<Rightarrow> bool" where
  "connectable A data w ds \<longleftrightarrow> ids_fresh (cf_mongo A) (w_oids w) (w_db w) \<and>
     live_connection (cn_sourceId data) (w_db w) = None \<and>
     find (\<lambda>s. ds_id s = cn_sourceId data) (db_sources (w_db w)) = Some ds \<and> \<not> ds_isDeleted ds \<and>
     ds_provider_type ds = GOOGLE_SHEETS \<and> live_provider (ds_provider_id ds) (w_db w) \<noteq> None \<and>
     (\<forall>t \<in> set (db_triggers (w_db w)). tr_sourceId t = cn_sourceId data \<longrightarrow> tr_isDeleted t) \<and>
     (\<forall>x. mg_oid (cf_mongo A) (w_oids w) @ ''-'' @ x \<notin> insert (cn_sourceId data) (startedIds (w_calls w)))"

lemma connectable_source:
  assumes "connectable A data w ds"
  shows "live_source (cn_sourceId data) (w_db w) = Some ds" "ds_provider_type ds = GOOGLE_SHEETS"
  using assms find_and[of "\<lambda>s. ds_id s = cn_sourceId data" "db_sources (w_db w)" ds "\<lambda>s. \<not> ds_isDeleted s"]
  by (simp_all add: connectable_def live_source_def)

lemma created_startable:
  fixes A data w
  defines "sf \<equiv> firstSyncflow (cf_mongo A) (cn_sourceId data) (w_oids w)"
    and "t \<equiv> firstTrigger (cf_mongo A) (cn_sourceId data) (w_oids w)"
    and "d' \<equiv> withConnection (cf_mongo A) loaded_registries (googleData A data) (w_oids w) (w_db w)"
  assumes "connectable A data w ds" and "w_db w' = d'"
    and "live_connection (cn_sourceId data) d' = Some c" and "sc_state c = defaultSyncConnectionState"
    and "startedIds (w_calls w') = insert (cn_sourceId data) (startedIds (w_calls w))"
  shows "startable t w' sf ds c"
proof -
  have fresh: "ids_fresh (cf_mongo A) (w_oids w) (w_db w)" using assms(4) by (simp add: connectable_def)
  note made = google_created[where data = data, OF this, folded d'_def]
  have "triggerable t (w_db w') sf ds c"
    using made connectable_source[OF assms(4)] assms(5-7)
    by (simp add: triggerable_def t_def sf_def firstTrigger_def firstSyncflow_def defaultSyncflowState_def
        defaultSyncConnectionState_def)
  moreover have "synced_source (scheduledAs sf) w' ds"
    using assms(4,5) made(4)
    by (simp add: connectable_def synced_source_def d'_def google_documents sf_def firstSyncflow_def)
  moreover have "workflowIdOf (scheduledAs sf) sfx \<notin> startedIds (w_calls w')" for sfx
    using assms(4,8) by (simp add: connectable_def workflowIdOf_def sf_def firstSyncflow_def)
  ultimately show ?thesis
    by (simp add: startable_def t_def sf_def firstTrigger_def firstSyncflow_def SN_GOOGLE_SHEETS_FULL_def)
qed

lemma trigger_outcome:
  assumes "mongo_ok (pl_M E)" and "delivers (pl_K E)" and "starts_new (pl_S E)" and "services_answer E"
    and "startable t w sf ds sc" and "w_events w = es @ [WorkflowTriggered t]"
  shows "\<exists>w' xs st n. pump E 6 (length es) w = (length (w_events w'), w') \<and>
    w_events w' = xs @ [SyncflowSucceed (succeeded (scheduledAs sf) st),
      SyncflowCompleted \<lparr>cp_dataSourceId = sf_sourceId sf, cp_syncflowId = sf_id sf,
        cp_syncVersion = ss_version (sf_state sf), cp_rowsNumber = n\<rparr>] \<and>
    flow_state (sf_id sf) w' = Some (IDLING, ss_version (sf_state sf) + 1, ss_version (sf_state sf)) \<and>
    rows_of (sf_sourceId sf) (w_db w') = Some n"
  using trigger_completes[OF assms]
  by (elim exE conjE, intro exI conjI) (assumption | simp)+

section \<open>Properties\<close>

text \<open>
  C1: from a request to a finished sync. For a live Google Sheets data source without a connection, a
  client with a valid API key posts a sync connection and then fires its trigger by hand. Both
  requests succeed. With services that answer, the events they emitted, the creation and the
  trigger, then lead the applications, after seven deliveries, to rest, and the first sync is done: the
  success event of version 1 and the completion event are out, and the connection's syncflow, which the
  creation stored, is idle at version 2 with 1 as its previous version.
\<close>

theorem first_sync:
  assumes "mongo_ok (pl_M E)" and "delivers (pl_K E)" and "starts_new (pl_S E)" and "services_answer E"
    and "cf_mongo A = pl_M E" and "cf_temporal A = pl_S E" and "Configurator_canActivate (cf_apiKeys A) key"
    and "connectable A data w ds" and "cn_sourceId data \<notin> startedIds (w_calls w)"
  shows "\<exists>c w1 w2 w3 t n st. handleRequest A key (PostConnection data) w = (Success (AConnection (Some c)), w1) \<and>
    handleRequest A key (PostManualTriggerOf (cn_sourceId data)) w1 = (Success ANothing, w2) \<and>
    w_events w2 = w_events w @ [ConnectionCreated c, WorkflowTriggered t] \<and>
    pump E 7 (length (w_events w)) w2 = (length (w_events w3), w3) \<and>
    SyncflowSucceed \<lparr>sp_dataSourceId = cn_sourceId data, sp_syncflowId = mg_oid (pl_M E) (w_oids w),
      sp_syncVersion = 1, sp_prevSyncVersion = 0, sp_statistics = st\<rparr> \<in> set (w_events w3) \<and>
    last (w_events w3) = SyncflowCompleted \<lparr>cp_dataSourceId = cn_sourceId data,
      cp_syncflowId = mg_oid (pl_M E) (w_oids w), cp_syncVersion = 1, cp_rowsNumber = n\<rparr> \<and>
    rows_of (cn_sourceId data) (w_db w3) = Some n \<and>
    flow_state (mg_oid (pl_M E) (w_oids w)) w3 = Some (IDLING, 2, 1)"
proof -
  let ?i = "cn_sourceId data" and ?M = "cf_mongo A" and ?sf = "firstSyncflow (cf_mongo A) (cn_sourceId data) (w_oids w)"
    and ?t = "firstTrigger (cf_mongo A) (cn_sourceId data) (w_oids w)"
    and ?d = "withConnection (cf_mongo A) loaded_registries (googleData A data) (w_oids w) (w_db w)"
  note src = connectable_source[OF assms(8)]
  have M: "mongo_ok ?M" using assms(1,5) by simp
  have start: "tm_start (cf_temporal A) (w_calls w @ [StartWorkflow ''createSyncConnectionWf'' (createOptions data True)]) = Inr ()"
    using assms(3,6,9) by (simp add: starts_new_def createOptions_def)
  have new: "live_connection ?i (w_db w) = None" using assms(8) by (simp add: connectable_def)
  obtain c w1 where c: "live_connection ?i ?d = Some c" "sc_state c = defaultSyncConnectionState"
    "handleRequest A key (PostConnection data) w = (Success (AConnection (Some c)), w1)"
    "w_db w1 = ?d" "startedIds (w_calls w1) = insert ?i (startedIds (w_calls w))"
    "w_events w1 = w_events w @ [ConnectionCreated c]"
    using connection_posted[OF M assms(7) start new src] by (auto simp: createOptions_def)
  have fresh: "ids_fresh ?M (w_oids w) (w_db w)" using assms(8) by (simp add: connectable_def)
  note made = google_created[where data = data, OF this, folded c(4)]
  have "filter (\<lambda>t. tr_sourceId t = ?i \<and> \<not> tr_isDeleted t) (db_triggers (w_db w)) = []"
    using assms(8) by (auto simp: connectable_def filter_empty_conv)
  then have trig: "filter (\<lambda>t. tr_sourceId t = ?i \<and> \<not> tr_isDeleted t) (db_triggers (w_db w1)) = [?t]"
    by (simp add: c(4) google_documents firstTrigger_def)
  let ?w2 = "w1\<lparr>w_events := w_events w1 @ [WorkflowTriggered ?t]\<rparr>"
  have fired: "handleRequest A key (PostManualTriggerOf ?i) w1 = (Success ANothing, ?w2)"
    using manual_trigger_fired[OF M assms(7), of ?i w1 ds ?t "[]"] made src trig
    by (simp add: firstTrigger_def)
  have "startable ?t ?w2 ?sf ds c"
    using created_startable[OF assms(8) _ c(1,2), of ?w2] c(4,5) by simp
  from trigger_outcome[OF assms(1-4) this, of "w_events w1"]
  obtain w3 xs st n where w3: "pump E 6 (length (w_events w1)) ?w2 = (length (w_events w3), w3)"
    "w_events w3 = xs @ [SyncflowSucceed (succeeded (scheduledAs ?sf) st),
      SyncflowCompleted \<lparr>cp_dataSourceId = sf_sourceId ?sf, cp_syncflowId = sf_id ?sf,
        cp_syncVersion = ss_version (sf_state ?sf), cp_rowsNumber = n\<rparr>]"
    "flow_state (sf_id ?sf) w3 = Some (IDLING, ss_version (sf_state ?sf) + 1, ss_version (sf_state ?sf))"
    "rows_of (sf_sourceId ?sf) (w_db w3) = Some n"
    by auto
  have "consume E (ConnectionCreated c) ?w2 = ?w2"
    by (simp add: consume_split postProcessor_handle_def)
  then have "pump E 7 (length (w_events w)) ?w2 = (length (w_events w3), w3)"
    using w3(1) c(6) by (simp add: eval_nat_numeral nth_append)
  then show ?thesis
    using c(3,6) fired w3(2-4) assms(5) by (simp add: firstSyncflow_def defaultSyncflowState_def) blast
qed

definition joined_configurator :: configurator where
  "joined_configurator = example_configurator\<lparr>cf_temporal := pl_S example_pipeline\<rparr>"

lemma example_connectable:
  "connectable joined_configurator \<lparr>cn_sourceId = ''d2'', cn_config = None\<rparr> unconnected_world
     (example_source\<lparr>ds_id := ''d2''\<rparr>)"
  "startedIds (w_calls unconnected_world) = {}"
proof -
  have "mg_oid listMongo n @ ''-'' @ x \<noteq> ''d2''" for n x
  proof
    assume "mg_oid listMongo n @ ''-'' @ x = ''d2''"
    then have "CHR ''-'' \<in> set ''d2''" by (metis in_set_conv_decomp append_Cons append_Nil)
    then show False by simp
  qed
  moreover show "startedIds (w_calls unconnected_world) = {}"
    by (simp add: unconnected_world_def example_world_def empty_world_def startedIds_def)
  ultimately show "connectable joined_configurator \<lparr>cn_sourceId = ''d2'', cn_config = None\<rparr> unconnected_world
     (example_source\<lparr>ds_id := ''d2''\<rparr>)"
    using unconnected_ready
    by (simp add: connectable_def joined_configurator_def) (simp add: unconnected_world_def live_defs example_defs)
qed

theorem first_sync_witness:
  "\<exists>w2 w3. snd (handleRequest joined_configurator (Some ''k'') (PostManualTriggerOf ''d2'')
      (snd (handleRequest joined_configurator (Some ''k'')
        (PostConnection \<lparr>cn_sourceId = ''d2'', cn_config = None\<rparr>) unconnected_world))) = w2 \<and>
    pump example_pipeline 7 0 w2 = (length (w_events w3), w3) \<and>
    flow_state (mg_oid listMongo 0) w3 = Some (IDLING, 2, 1)"
proof -
  have "cf_mongo joined_configurator = pl_M example_pipeline" "pl_M example_pipeline = listMongo"
    "cf_temporal joined_configurator = pl_S example_pipeline" "w_events unconnected_world = []"
    "w_oids unconnected_world = 0" "Configurator_canActivate (cf_apiKeys joined_configurator) (Some ''k'')"
    by (simp_all add: joined_configurator_def example_pipeline_def unconnected_world_def example_world_def
        empty_world_def example_configurator_def Configurator_canActivate_def)
  with first_sync [OF example_pipeline_answers, of joined_configurator "Some ''k''"
      "\<lparr>cn_sourceId = ''d2'', cn_config = None\<rparr>" unconnected_world] example_connectable
  show ?thesis by fastforce
qed

end
