(* ===== verification/PipelineOutcomes.thy ===== *)
theory PipelineOutcomes
  imports SyncPipeline Frames
begin

text \<open>
  What can become of a trigger when nothing is assumed of the services, the processors, the object
  storage and Temporal. One sync passes through phases; every delivery leads from a phase to a
  phase, and where the pipeline comes to rest only three of them are left.
\<close>

section \<open>How the workflows end\<close>

definition run_fails :: "ScheduledPayload \<Rightarrow> world \<Rightarrow> world \<Rightarrow> bool" where
  "run_fails data w w' \<longleftrightarrow>
     (\<exists>ed. run_failed [dataSourceErrorPayload data ed, failedPayload data ET_EXTERNAL ed]
        (\<lambda>_. sd_version data + 1) data w w') \<or>
     (\<exists>ed. run_failed [failedPayload data ET_INTERNAL ed] (\<lambda>_. sd_version data + 1) data w w')"

context worker_activities begin

text \<open>A workflow that prepares, and then hands over to the next one.\<close>

lemma handover_outcomes:
  assumes "keeps w_events m" and "snd (m w) = w1"
    and "workflowWrapper (catch_io (bind_io m (\<lambda>x. wp_emitEvent A (g x)))
      (\<lambda>error. GoogleSheetsFullSyncErrorHandler A error data)) w = (r, w')"
  shows "(\<exists>x. w' = w1\<lparr>w_events := w_events w1 @ [g x]\<rparr>) \<or> run_fails data w1 w' \<or> w' = w1"
proof -
  obtain r0 where run: "catch_io (bind_io m (\<lambda>x. wp_emitEvent A (g x)))
      (\<lambda>error. GoogleSheetsFullSyncErrorHandler A error data) w = (r0, w')"
    using workflowWrapper_result[OF assms(3)] by blast
  obtain q where m: "m w = (q, w1)" using assms(2) by (cases "m w") simp
  show ?thesis
  proof (cases q)
    case (Inl e)
    then have "GoogleSheetsFullSyncErrorHandler A e data w1 = (r0, w')" using run m by (simp add: io_simps)
    from handler_outcome[OF this] show ?thesis unfolding run_fails_def by blast
  next
    case (Inr x)
    then show ?thesis using run m by (auto simp: io_simps emit)
  qed
qed

lemma download_outcomes:
  assumes "googleSheetsDownload A data w = (r, w')"
  defines "i \<equiv> sf_id (sd_syncflow data)"
  shows "(w_events w' = w_events w @ [GoogleSheetsProceedSync data] \<and> flow_state i w' = flow_state i w) \<or>
    run_fails data w w' \<or> (w_events w' = w_events w \<and> flow_state i w' = flow_state i w)"
proof -
  have keep: "keeps (full_obs j) (wp_updateSyncflowState A j (no_update\<lparr>up_downloadedAt := t\<rparr>))" for j t
    using flow_state_put[of U j "no_update\<lparr>up_downloadedAt := t\<rparr>", OF U_fields]
    by (simp add: keeps_def update_state no_update_def option.map_ident case_prod_unfold)
  have k: "keeps (full_obs i) (download_prefix data)"
    unfolding download_prefix_def now_io_def i_def by (auto intro!: keeps_intros data_full keep)
  obtain q w1 where m: "download_prefix data w = (q, w1)" by (cases "download_prefix data w")
  have same: "w_events w1 = w_events w" "flow_state i w1 = flow_state i w" using keepsD[OF k m] by simp_all
  from handover_outcomes[OF keeps_prefixes(1) _ assms(1)[unfolded handover_splits]] m
  show ?thesis using same by (auto simp: run_fails_def run_failed_def i_def)
qed

end

context mongo_driver begin

lemma check_status:
  assumes "proxyUnit F (checkAndUpdateStatusBeforeStartSyncflow M i) w = (r, w')"
    and "flow_state i w = Some (st, v, pv)" and "st \<noteq> IDLING"
  shows "\<exists>st'. flow_state i w' = Some (st', v, pv) \<and> st' \<noteq> IDLING"
proof -
  obtain q w1 where c: "checkAndUpdateStatusBeforeStartSyncflow M i w = (q, w1)"
    by (cases "checkAndUpdateStatusBeforeStartSyncflow M i w")
  then have "w' = w1" using assms(1) by (auto simp: proxyUnit_def proxy_def io_simps split: sum.splits)
  then show ?thesis
    using c assms(2,3) by (auto simp: checkAndUpdateStatusBeforeStartSyncflow_def activityWrapper_def
        WorkflowService_checkAndUpdateStatusBeforeStartSyncflow_def getById_live syncflow_updateStatus
        updateState_put live_syncflow_put_state flow_state_def io_simps no_update_def
        split: if_splits option.splits)
qed

lemma full_outcomes:
  assumes "googleSheetsFullSync (workerActivities M T P F) data w = (r, w')"
    and "flow_state (sf_id (sd_syncflow data)) w = Some (st, v, pv)" and "st \<noteq> IDLING"
  shows "\<exists>w1 st'. w_events w1 = w_events w \<and> st' \<noteq> IDLING \<and>
    flow_state (sf_id (sd_syncflow data)) w1 = Some (st', v, pv) \<and>
    ((\<exists>i. w' = w1\<lparr>w_events := w_events w1 @ [GoogleSheetsDownload i data]\<rparr>) \<or>
     run_fails data w1 w' \<or> w' = w1)"
proof -
  let ?A = "workerActivities M T P F" and ?i = "sf_id (sd_syncflow data)"
  note act = worker_activities_implemented[of T P F]
  let ?m = "worker_activities.full_prefix ?A data"
  have m: "?m = bind_io (wp_checkAndUpdateStatusBeforeStartSyncflow ?A ?i) (\<lambda>_.
      wp_getDataSourceProviderGoogleSheets ?A (sf_sourceId (sd_syncflow data)))"
    using worker_activities.full_prefix_def[OF act] by simp
  obtain q w1 where w1: "?m w = (q, w1)" by (cases "?m w")
  obtain c w0 where w0: "wp_checkAndUpdateStatusBeforeStartSyncflow ?A ?i w = (c, w0)"
    by (cases "wp_checkAndUpdateStatusBeforeStartSyncflow ?A ?i w")
  have "keeps (\<lambda>w. (w_events w, flow_state ?i w)) (wp_getDataSourceProviderGoogleSheets ?A s)" for s
    by (rule worker_activities.data_full(1)[OF act])
  then have "flow_state ?i w1 = flow_state ?i w0"
    using w0 w1 unfolding m by (auto simp: bind_io_run dest: keepsD split: sum.splits)
  moreover obtain st' where "flow_state ?i w0 = Some (st', v, pv)" "st' \<noteq> IDLING"
    using check_status[OF w0[unfolded workerActivities_def, simplified] assms(2,3)] by blast
  moreover have "w_events w1 = w_events w"
    using keepsD[OF worker_activities.keeps_prefixes(2)[OF act] w1] .
  moreover have "snd (?m w) = w1" by (simp add: w1)
  note worker_activities.handover_outcomes[OF act worker_activities.keeps_prefixes(2)[OF act] this
      assms(1)[unfolded worker_activities.handover_splits(2)[OF act]]]
  ultimately show ?thesis by (intro exI[of _ w1] exI[of _ st']) auto
qed

end

section \<open>Phases of a sync\<close>

text \<open>An event that asks the worker to go on with the run of \<open>p\<close>, and events that do not announce its
  end.\<close>

definition continues :: "ScheduledPayload \<Rightarrow> event \<Rightarrow> bool" where
  "continues p e \<longleftrightarrow> (\<exists>q j. sf_id (sd_syncflow q) = sf_id (sd_syncflow p) \<and> sd_version q = sd_version p \<and>
     sf_sourceId (sd_syncflow q) = sf_sourceId (sd_syncflow p) \<and>
     sf_name (sd_syncflow q) = ''googleSheetsFullSync'' \<and>
     (e = SyncflowScheduled q \<or> e = GoogleSheetsDownload j q \<or> e = GoogleSheetsProceedSync q))"

fun announces_end :: "event \<Rightarrow> bool" where
  "announces_end (SyncflowSucceed _) = True"
| "announces_end (SyncflowFailed _) = True"
| "announces_end _ = False"

definition succeeds :: "ScheduledPayload \<Rightarrow> event \<Rightarrow> bool" where
  "succeeds p e \<longleftrightarrow> (\<exists>q. e = SyncflowSucceed q \<and> sp_syncflowId q = sf_id (sd_syncflow p) \<and>
     sp_syncVersion q = sd_version p)"

definition announces_failure :: "ScheduledPayload \<Rightarrow> event \<Rightarrow> bool" where
  "announces_failure p e \<longleftrightarrow> (\<exists>q. e = SyncflowFailed q \<and> fp_syncflowId q = sf_id (sd_syncflow p) \<and>
     fp_syncVersion q = sd_version p \<and> fp_dataSourceId q = sf_sourceId (sd_syncflow p))"

definition stopped :: "oid \<Rightarrow> mongo \<Rightarrow> world \<Rightarrow> bool" where
  "stopped i M w \<longleftrightarrow>
     (\<forall>c. live_connection i (w_db w) = Some c \<longrightarrow> cs_status (sc_state c) = SC_INACTIVE) \<and>
     (\<forall>T t. tr_sourceId t = i \<longrightarrow> snd (handleWorkflowTriggered M T t w) = w)"

text \<open>The phases of the run of \<open>p\<close>, by what was delivered (\<open>ns\<close>), what is still to be delivered (\<open>ps\<close>), and the
  status and versions of the syncflow, whose previous version was \<open>pv\<close>.\<close>

inductive phase :: "mongo \<Rightarrow> ScheduledPayload \<Rightarrow> int \<Rightarrow> event list \<Rightarrow> event list \<Rightarrow> world \<Rightarrow> bool"
  for M p pv where
  running: "continues p e \<Longrightarrow> st \<noteq> IDLING \<Longrightarrow>
    flow_state (sf_id (sd_syncflow p)) w = Some (st, sd_version p, pv) \<Longrightarrow>
    \<not> (\<exists>e \<in> set ns. announces_end e) \<Longrightarrow> phase M p pv ns [e] w"
| stuck: "st \<noteq> IDLING \<Longrightarrow> flow_state (sf_id (sd_syncflow p)) w = Some (st, sd_version p, pv) \<Longrightarrow>
    \<not> (\<exists>e \<in> set ns. announces_end e) \<Longrightarrow> phase M p pv ns [] w"
| succeeding: "succeeds p e \<Longrightarrow>
    flow_state (sf_id (sd_syncflow p)) w = Some (IDLING, sd_version p + 1, sd_version p) \<Longrightarrow>
    phase M p pv ns [e] w"
| completing: "e \<in> set ns \<Longrightarrow> succeeds p e \<Longrightarrow>
    flow_state (sf_id (sd_syncflow p)) w = Some (IDLING, sd_version p + 1, sd_version p) \<Longrightarrow>
    ps = [] \<or> (\<exists>c. ps = [SyncflowCompleted c]) \<Longrightarrow> phase M p pv ns ps w"
| failing: "announces_failure p e \<Longrightarrow>
    flow_state (sf_id (sd_syncflow p)) w = Some (IDLING, sd_version p + 1, pv) \<Longrightarrow>
    ps = [e] \<or> (\<exists>c m. ps = [DataSourceError (sf_sourceId (sd_syncflow p)) c m, e]) \<Longrightarrow>
    phase M p pv ns ps w"
| failed: "e \<in> set ns \<Longrightarrow> announces_failure p e \<Longrightarrow>
    flow_state (sf_id (sd_syncflow p)) w = Some (IDLING, sd_version p + 1, pv) \<Longrightarrow>
    stopped (sf_sourceId (sd_syncflow p)) M w \<Longrightarrow> phase M p pv ns [] w"

inductive_cases phase_nilE: "phase M p pv ns [] w"
inductive_cases phase_consE: "phase M p pv ns (e # ps) w"

lemma run_fails_phase:
  assumes "run_fails q w w'" and "flow_state (sf_id (sd_syncflow p)) w = Some (st, v, pv)"
    and "sf_id (sd_syncflow q) = sf_id (sd_syncflow p)" "sd_version q = sd_version p"
    "sf_sourceId (sd_syncflow q) = sf_sourceId (sd_syncflow p)"
  shows "\<exists>ps. w_events w' = w_events w @ ps \<and> phase M p pv ns ps w'"
proof -
  have fl: "flow_state (sf_id (sd_syncflow p)) w' = Some (IDLING, sd_version p + 1, pv)"
    using assms by (auto simp: run_fails_def run_failed_def)
  have an: "announces_failure p (failedPayload q t ed)" for t ed
    using assms(3-5) by (simp add: announces_failure_def failedPayload_def)
  from assms(1) consider ed where "w_events w' = w_events w @
      [DataSourceError (sf_sourceId (sd_syncflow p)) (ed_code ed) (ed_message ed), failedPayload q ET_EXTERNAL ed]"
    | ed where "w_events w' = w_events w @ [failedPayload q ET_INTERNAL ed]"
    using assms(5) by (auto simp: run_fails_def run_failed_def dataSourceErrorPayload_def)
  then show ?thesis
    by cases (use phase.failing[OF an fl] in blast)+
qed

section \<open>Every delivery leads to a phase\<close>

lemma started:
  assumes "map_of (workerWorkflows (workerActivities (pl_M E) (pl_T E) (pl_P E) (pl_F E))) n = Some f"
    and "w0 = w\<lparr>w_calls := w_calls w @ [StartWorkflow n (startOptions q sfx)]\<rparr>"
  shows "snd (runAccepted E (OrchestratorService_executeWorkflow (pl_S E) n (startOptions q sfx)) n q w) =
    (if isl (tm_start (pl_S E) (w_calls w0)) then w0 else snd (f q w0))"
  using assms(1) handler_calls[of "startOptions q sfx" "pl_S E" n w]
  by (simp add: runAccepted_def bind_io_run startOptions_def assms(2) split: sum.split)

lemma worker_step:
  assumes "mongo_ok (pl_M E)" and "delivers (pl_K E)" and "continues p e"
    and "flow_state (sf_id (sd_syncflow p)) w = Some (st, sd_version p, pv)" and "st \<noteq> IDLING"
    and "\<not> (\<exists>e \<in> set ns. announces_end e)"
  shows "\<exists>ps. w_events (consume E e w) = w_events w @ ps \<and> phase (pl_M E) p pv (ns @ [e]) ps (consume E e w)"
proof -
  note d = mongo_driverI[OF assms(1)]
  let ?A = "workerActivities (pl_M E) (pl_T E) (pl_P E) (pl_F E)" and ?i = "sf_id (sd_syncflow p)"
  note act = mongo_driver.worker_activities_implemented[OF d, of "pl_T E" "pl_P E" "pl_F E"]
  obtain q0 j where q0: "sf_id (sd_syncflow q0) = ?i" "sd_version q0 = sd_version p"
    "sf_sourceId (sd_syncflow q0) = sf_sourceId (sd_syncflow p)" "sf_name (sd_syncflow q0) = ''googleSheetsFullSync''"
    "e = SyncflowScheduled q0 \<or> e = GoogleSheetsDownload j q0 \<or> e = GoogleSheetsProceedSync q0"
    using assms(3) unfolding continues_def by blast
  define q where "q = pl_K E q0"
  have q: "sf_id (sd_syncflow q) = ?i" "sd_version q = sd_version p"
    "sf_sourceId (sd_syncflow q) = sf_sourceId (sd_syncflow p)" "sf_name (sd_syncflow q) = ''googleSheetsFullSync''"
    using delivered[OF assms(2), of q0] q0 by (simp_all add: q_def)
  have quiet: "\<not> (\<exists>e \<in> set (ns @ [e]). announces_end e)" using assms(6) q0(5) by auto
  have idle: "\<exists>ps. w_events w' = w_events w @ ps \<and> phase (pl_M E) p pv (ns @ [e]) ps w'"
    if "w_events w' = w_events w" "flow_state ?i w' = Some (st', sd_version p, pv)" "st' \<noteq> IDLING" for w' st'
    using phase.stuck[OF that(3,2) quiet] that(1) by auto
  have next_: "\<exists>ps. w_events w' = w_events w @ ps \<and> phase (pl_M E) p pv (ns @ [e]) ps w'"
    if "w_events w' = w_events w @ [e']" "continues p e'" "flow_state ?i w' = Some (st', sd_version p, pv)"
      "st' \<noteq> IDLING" for w' e' st'
    using phase.running[OF that(2,4,3) quiet] that(1) by auto
  have fail: "\<exists>ps. w_events w' = w_events w @ ps \<and> phase (pl_M E) p pv (ns @ [e]) ps w'"
    if "run_fails q w1 w'" "w_events w1 = w_events w" "flow_state ?i w1 = Some (st', sd_version p, pv)" for w1 w' st'
    using run_fails_phase[OF that(1,3) q(1-3), of "pl_M E" "ns @ [e]"] that(2) by auto
  have cont: "continues p (SyncflowScheduled q)" "continues p (GoogleSheetsDownload i q)"
    "continues p (GoogleSheetsProceedSync q)" for i
    using q unfolding continues_def by blast+
  let ?goal = "\<lambda>w'. \<exists>ps. w_events w' = w_events w @ ps \<and> phase (pl_M E) p pv (ns @ [e]) ps w'"
  have "?goal (snd (googleSheetsFullSync ?A q w0))" if "w_events w0 = w_events w" "w_db w0 = w_db w" for w0
  proof -
    obtain r w' where run: "googleSheetsFullSync ?A q w0 = (r, w')" by fastforce
    have "flow_state ?i w0 = Some (st, sd_version p, pv)" using assms(4) that(2) by (simp add: flow_state_def)
    from mongo_driver.full_outcomes[OF d run, unfolded q, OF this assms(5)] obtain w1 st' where
      w1: "w_events w1 = w_events w0" "st' \<noteq> IDLING" "flow_state ?i w1 = Some (st', sd_version p, pv)"
      "(\<exists>i. w' = w1\<lparr>w_events := w_events w1 @ [GoogleSheetsDownload i q]\<rparr>) \<or> run_fails q w1 w' \<or> w' = w1"
      by blast
    from w1(4) show ?thesis
    proof (elim disjE exE)
      fix i assume "w' = w1\<lparr>w_events := w_events w1 @ [GoogleSheetsDownload i q]\<rparr>"
      then show ?thesis using next_[of w' "GoogleSheetsDownload i q" st'] w1 cont that run by simp
    qed (use fail[of w1 w' st'] idle[of w' st'] w1 that run in simp_all)
  qed
  moreover have "?goal (snd (googleSheetsDownload ?A q w0))" if "w_events w0 = w_events w" "w_db w0 = w_db w" for w0
  proof -
    obtain r w' where run: "googleSheetsDownload ?A q w0 = (r, w')" by fastforce
    have "flow_state ?i w0 = Some (st, sd_version p, pv)" using assms(4) that(2) by (simp add: flow_state_def)
    with worker_activities.download_outcomes[OF act run] q(1)
    show ?thesis using next_[of w' "GoogleSheetsProceedSync q" st] fail[of w0 w' st] idle[of w' st]
        cont that run assms(5) by auto
  qed
  moreover have "?goal (snd (googleSheetsProceedSync ?A q w0))" if "w_events w0 = w_events w" "w_db w0 = w_db w" for w0
  proof -
    obtain r w' where run: "googleSheetsProceedSync ?A q w0 = (r, w')" by fastforce
    have fl: "flow_state ?i w0 = Some (st, sd_version p, pv)" using assms(4) that(2) by (simp add: flow_state_def)
    have "?goal w'" if "run_succeeded q w0 w'"
    proof -
      obtain x where x: "w_events w' = w_events w0 @ [SyncflowSucceed x]" "succeeds p (SyncflowSucceed x)"
        "flow_state ?i w' = Some (IDLING, sd_version p + 1, sd_version p)"
        using \<open>run_succeeded q w0 w'\<close> fl q by (fastforce simp: run_succeeded_def succeeds_def)
      show ?thesis using phase.succeeding[OF x(2,3)] x(1) \<open>w_events w0 = w_events w\<close> by auto
    qed
    moreover have "?goal w'" if "w_events w' = w_events w0" "flow_state ?i w' = flow_state ?i w0"
      using idle[of w' st] that fl assms(5) \<open>w_events w0 = w_events w\<close> by simp
    moreover have "?goal w'" if "run_fails q w0 w'" using fail[OF that _ fl] \<open>w_events w0 = w_events w\<close> by simp
    ultimately show ?thesis
      using worker_activities.proceed_outcomes[OF act run] q(1) run by (auto simp: run_fails_def)
  qed
  moreover have "?goal (w\<lparr>w_calls := cs\<rparr>)" for cs using idle[of "w\<lparr>w_calls := cs\<rparr>" st] assms(4,5) by simp
  ultimately show ?thesis
    using q0(5) started[of E "''googleSheetsFullSync''"] started[of E "''googleSheetsDownload''"]
      started[of E "''googleSheetsProceedSync''"] q(4)
    by (auto simp: consume_split worker_handle_def Let_def workerWorkflows_def q_def[symmetric]
        handleSyncflowScheduledEvent_def handleGoogleSheetsDownloadEvent_def
        handleGoogleSheetsProceedSyncEvent_def)
qed

text \<open>The post-processor announces at most the completion, and leaves the syncflows alone.\<close>

definition completes :: "'a act \<Rightarrow> bool" where
  "completes m \<longleftrightarrow> (\<forall>w. \<exists>ps. w_events (snd (m w)) = w_events w @ ps \<and>
     (ps = [] \<or> (\<exists>c. ps = [SyncflowCompleted c])) \<and>
     db_syncflows (w_db (snd (m w))) = db_syncflows (w_db w))"

lemma completes_keeps: "keeps flow_obs m \<Longrightarrow> completes m"
  by (simp add: completes_def keeps_def)

lemma completes_bind:
  assumes "keeps flow_obs m" and "\<And>x. completes (f x)"
  shows "completes (bind_io m f)"
  unfolding completes_def
proof
  fix w
  obtain q w1 where m: "m w = (q, w1)" by (cases "m w")
  have same: "w_events w1 = w_events w" "db_syncflows (w_db w1) = db_syncflows (w_db w)"
    using keepsD[OF assms(1) m] by simp_all
  show "\<exists>ps. w_events (snd (bind_io m f w)) = w_events w @ ps \<and> (ps = [] \<or> (\<exists>c. ps = [SyncflowCompleted c])) \<and>
      db_syncflows (w_db (snd (bind_io m f w))) = db_syncflows (w_db w)"
    using assms(2)[unfolded completes_def, rule_format, of _ w1] m same
    by (cases q) (simp_all add: bind_io_run)
qed

lemma flow_cleaners: "getWorkflowCleaner X t = Inr f \<Longrightarrow> keeps flow_obs (f sf v pv')"
  by (cases t) (auto simp: getWorkflowCleaner_def GoogleSheetsWorkflowCleaner_run_def keeps_def
      MicrosoftExcelWorkflowCleaner_run_def cleanDiffData_def bind_io_run split: sum.split)

context mongo_driver begin

lemma flow_statistics: "keeps flow_obs (DataSourceRepository_updateStatistics M i u no_options)"
  unfolding keeps_def
  by (auto simp: DataSourceRepository_updateStatistics_def inSession_def runWithTransaction_def
      reloadSource_def findSource_def updateSourceDoc_def io_simps split: option.splits)

end

lemma succeed_completes:
  assumes "mongo_ok M"
  shows "completes (handleSyncflowSucceed M X p)"
proof -
  note flow_statistics = mongo_driver.flow_statistics[OF mongo_driverI[OF assms]]
  have inner: "completes (bind_io (lift_io (getWorkflowCleaner X t)) (\<lambda>cleaner.
      bind_io (cleaner sf v pv) (\<lambda>_. bind_io (DataSourceRepository_updateStatistics M i u no_options)
        (\<lambda>_. emitEvent (SyncflowCompleted c)))))" for t sf v pv i u c
  proof (cases "getWorkflowCleaner X t")
    case (Inr f)
    have "completes (bind_io (f sf v pv) (\<lambda>_. bind_io
        (DataSourceRepository_updateStatistics M i u no_options) (\<lambda>_. emitEvent (SyncflowCompleted c))))"
      by (intro completes_bind flow_cleaners[OF Inr] flow_statistics) (simp add: completes_def)
    then show ?thesis using Inr by (simp add: completes_def bind_io_run)
  qed (simp add: completes_def bind_io_run)
  have "completes (case sf of None \<Rightarrow> return_io () | Some syncflow \<Rightarrow> (case ds of None \<Rightarrow> return_io ()
      | Some dataSource \<Rightarrow> g syncflow dataSource))" if "\<And>a b. completes (g a b)" for sf ds g
    using that by (auto simp: completes_def split: option.split)
  from this[OF inner] show ?thesis
    unfolding handleSyncflowSucceed_def Let_def
    by (intro completes_bind keeps_reads(3) keeps_reads(1))
qed

lemma post_step:
  assumes "mongo_ok (pl_M E)" and "distinct (map sc_id (db_connections (w_db w)))"
    and "phase (pl_M E) p pv ns (e # ps) w" and "\<not> continues p e"
  shows "\<exists>ps'. w_events (consume E e w) = w_events w @ ps' \<and>
    phase (pl_M E) p pv (ns @ [e]) (ps @ ps') (consume E e w)"
proof -
  let ?fl = "flow_state (sf_id (sd_syncflow p)) w" and ?i = "sf_sourceId (sd_syncflow p)"
  let ?goal = "\<exists>ps'. w_events (consume E e w) = w_events w @ ps' \<and>
    phase (pl_M E) p pv (ns @ [e]) (ps @ ps') (consume E e w)"
  consider (succeeding) "succeeds p e" "?fl = Some (IDLING, sd_version p + 1, sd_version p)" "ps = []"
    | (completing) e' c where "e' \<in> set ns" "succeeds p e'" "?fl = Some (IDLING, sd_version p + 1, sd_version p)"
      "e = SyncflowCompleted c" "ps = []"
    | (failing) e' where "announces_failure p e'" "?fl = Some (IDLING, sd_version p + 1, pv)"
      "e = e' \<and> ps = [] \<or> (\<exists>c m. e = DataSourceError ?i c m \<and> ps = [e'])"
    using assms(3,4) by (elim phase_consE) auto
  then show ?goal
  proof cases
    case (succeeding)
    then obtain x where x: "e = SyncflowSucceed x" by (auto simp: succeeds_def)
    obtain ps' where ps': "w_events (consume E e w) = w_events w @ ps'" "ps' = [] \<or> (\<exists>c. ps' = [SyncflowCompleted c])"
      "db_syncflows (w_db (consume E e w)) = db_syncflows (w_db w)"
      using succeed_completes[OF assms(1), of "pl_X E" x] unfolding completes_def
      by (auto simp: x consume_split postProcessor_handle_def)
    then have "flow_state (sf_id (sd_syncflow p)) (consume E e w) = Some (IDLING, sd_version p + 1, sd_version p)"
      using succeeding by (simp add: flow_state_def live_syncflow_def)
    from phase.completing[OF _ succeeding(1) this ps'(2), of "ns @ [e]"] show ?thesis using ps'(1) succeeding by auto
  next
    case (completing e' c)
    then have "consume E e w = w" by (simp add: consume_split postProcessor_handle_def)
    then show ?thesis using completing phase.completing[of e' "ns @ [e]" p w "[]"] by auto
  next
    case (failing e')
    have ev: "(\<exists>q. e = SyncflowFailed q \<and> ?i = fp_dataSourceId q) \<or> (\<exists>c m. e = DataSourceError ?i c m)"
      using failing by (auto simp: announces_failure_def)
    obtain r where run: "postProcessor_handle (pl_M E) (pl_X E) e w = (r, consume E e w)"
      using ev by (cases "postProcessor_handle (pl_M E) (pl_X E) e w") (auto simp: consume_split)
    have f: "w_events (consume E e w) = w_events w \<and> db_syncflows (w_db (consume E e w)) = db_syncflows (w_db w) \<and>
        stopped ?i (pl_M E) (consume E e w)"
      using ev failure_stops[OF assms(1,2) _ run, of _ ?i] unfolding stopped_def by (elim disjE exE) blast+
    then have fl: "flow_state (sf_id (sd_syncflow p)) (consume E e w) = Some (IDLING, sd_version p + 1, pv)"
      using failing by (simp add: flow_state_def live_syncflow_def)
    show ?thesis using failing f
        phase.failed[OF _ failing(1) fl, of "ns @ [e]"] phase.failing[OF failing(1) fl, of "[e']"] by auto
  qed
qed

section \<open>The phases as an invariant\<close>

lemma consume_framed:
  assumes "mongo_ok (pl_M E)" and "framed s n b w"
  shows "framed s n b (consume E e w)"
proof -
  note d = mongo_driverI[OF assms(1)]
  let ?A = "workerActivities (pl_M E) (pl_T E) (pl_P E) (pl_F E)"
  have calls: "framed s n b (v\<lparr>w_calls := cs\<rparr>) = framed s n b v" for v cs by (simp add: framed_def)
  have snd_: "framed s n b (snd (m v))" if "maintains (framed s n b) m" "framed s n b v" for m :: "'x act" and v
    using that by (simp add: maintains_def)
  have run: "framed s n b (snd (runAccepted E (OrchestratorService_executeWorkflow (pl_S E) name
      (startOptions q sfx)) name q w))" for name q sfx
  proof (cases "map_of (workerWorkflows ?A) name")
    case None
    then show ?thesis
      using handler_calls[of "startOptions q sfx" "pl_S E" name w] assms(2)
      by (simp add: runAccepted_def bind_io_run startOptions_def calls split: sum.split)
  next
    case (Some f)
    then have "maintains (framed s n b) (f q)"
      using mongo_driver.frames_workflows[OF d, of s n b "pl_T E" "pl_P E" "pl_F E" q]
      by (auto simp: workerWorkflows_def split: if_splits)
    then show ?thesis using started[OF Some refl, where w = w and q = q and sfx = sfx] assms(2) calls
        snd_[of "f q" "w\<lparr>w_calls := w_calls w @ [StartWorkflow name (startOptions q sfx)]\<rparr>"] by simp
  qed
  show ?thesis
    using assms(2) run snd_[OF mongo_driver.frames_triggered[OF d]] snd_[OF mongo_driver.frames_post[OF d]]
    by (cases e) (simp_all add: consume_split worker_handle_def Let_def handleSyncflowScheduledEvent_def
        handleGoogleSheetsDownloadEvent_def handleGoogleSheetsProceedSyncEvent_def)
qed

lemma framed_connections:
  "framed (frame_of d) n b w \<Longrightarrow> map sc_id (db_connections (w_db w)) = map sc_id (db_connections d)"
proof -
  assume "framed (frame_of d) n b w"
  then have "map (\<lambda>c. (sc_id c, sc_sourceId c, sc_syncflows c, sc_isDeleted c)) (db_connections (w_db w)) =
      map (\<lambda>c. (sc_id c, sc_sourceId c, sc_syncflows c, sc_isDeleted c)) (db_connections d)"
    by (simp add: framed_def frame_of_def)
  then have "map (fst \<circ> (\<lambda>c. (sc_id c, sc_sourceId c, sc_syncflows c, sc_isDeleted c))) (db_connections (w_db w)) =
      map (fst \<circ> (\<lambda>c. (sc_id c, sc_sourceId c, sc_syncflows c, sc_isDeleted c))) (db_connections d)"
    by (simp only: flip: map_map)
  then show ?thesis by (simp add: comp_def)
qed

lemma phase_step:
  assumes "mongo_ok (pl_M E)" and "delivers (pl_K E)" and "distinct (map sc_id (db_connections (w_db w)))"
    and "phase (pl_M E) p pv ns (e # ps) w"
  shows "\<exists>ps'. w_events (consume E e w) = w_events w @ ps' \<and>
    phase (pl_M E) p pv (ns @ [e]) (ps @ ps') (consume E e w)"
proof (cases "continues p e")
  case True
  then have "\<exists>st. ps = [] \<and> st \<noteq> IDLING \<and> flow_state (sf_id (sd_syncflow p)) w = Some (st, sd_version p, pv) \<and>
      \<not> (\<exists>e \<in> set ns. announces_end e)"
    using assms(4) by (elim phase_consE) (auto simp: continues_def succeeds_def announces_failure_def)
  then show ?thesis using worker_step[OF assms(1,2) True] by auto
qed (use post_step[OF assms(1,3,4)] in simp)

lemma pump_phase:
  assumes "mongo_ok (pl_M E)" and "delivers (pl_K E)" and "distinct (map sc_id (db_connections d))"
    and "w_events w = es @ ns @ ps" and "phase (pl_M E) p pv ns ps w" and "framed (frame_of d) 0 b w"
  shows "\<exists>ns' ps' w'. pump E n (length (es @ ns)) w = (length (es @ ns'), w') \<and>
    w_events w' = es @ ns' @ ps' \<and> phase (pl_M E) p pv ns' ps' w'"
  using assms(4-6)
proof (induction n arbitrary: ns ps w)
  case (Suc n)
  show ?case
  proof (cases ps)
    case (Cons e ps1)
    have dist: "distinct (map sc_id (db_connections (w_db w)))"
      using framed_connections[OF Suc.prems(3)] assms(3) by simp
    obtain ps' where ps': "w_events (consume E e w) = w_events w @ ps'"
      "phase (pl_M E) p pv (ns @ [e]) (ps1 @ ps') (consume E e w)"
      using phase_step[OF assms(1,2) dist Suc.prems(2)[unfolded Cons]] by blast
    have "w_events w ! length (es @ ns) = e" using Suc.prems(1) Cons by (simp add: nth_append)
    moreover have "w_events (consume E e w) = es @ (ns @ [e]) @ ps1 @ ps'"
      using ps'(1) Suc.prems(1) Cons by simp
    ultimately show ?thesis
      using Suc.IH[OF _ ps'(2) consume_framed[OF assms(1) Suc.prems(3)]] Suc.prems(1) Cons by simp
  qed (use Suc.prems in auto)
qed auto

section \<open>Properties\<close>

text \<open>
  C3: what can become of a trigger. Let the last event be a trigger of an idle Google Sheets syncflow
  that may start, and let services, processors, object storage and Temporal answer as they like. After
  at most six deliveries controller, worker and post-processor are at rest, in one of three ways. The
  success of the scheduled version was announced, and the syncflow is idle, one version further.
  Or its failure was announced: the syncflow is idle, one version further with its
  previous version kept, and the connection is stopped, so that no trigger of the data source does
  anything. Or no end was announced: the syncflow is not idle, and no trigger for it does
  anything.
\<close>

theorem trigger_outcomes:
  assumes "mongo_ok (pl_M E)" and "delivers (pl_K E)" and "triggerable t (w_db w) sf ds sc"
    and "ds_provider_type ds = GOOGLE_SHEETS" and "sf_name sf = ''googleSheetsFullSync''"
    and "keys_distinct (w_db w)" and "w_tx w = None" and "w_events w = es @ [WorkflowTriggered t]"
  defines "p \<equiv> scheduledAs sf" and "v \<equiv> ss_version (sf_state sf)" and "pv \<equiv> ss_prevVersion (sf_state sf)"
  shows "\<exists>ns w'. pump E 6 (length es) w = (length (w_events w'), w') \<and> w_events w' = w_events w @ ns \<and>
    ((\<exists>e \<in> set ns. succeeds p e) \<and> flow_state (sf_id sf) w' = Some (IDLING, v + 1, v) \<or>
     (\<exists>e \<in> set ns. announces_failure p e) \<and> flow_state (sf_id sf) w' = Some (IDLING, v + 1, pv) \<and>
       stopped (sf_sourceId sf) (pl_M E) w' \<or>
     \<not> (\<exists>e \<in> set ns. announces_end e) \<and> (\<exists>st. st \<noteq> IDLING \<and> flow_state (sf_id sf) w' = Some (st, v, pv)) \<and>
       (\<forall>T t'. tr_workflow_id t' = sf_id sf \<longrightarrow> handleWorkflowTriggered (pl_M E) T t' w' = (Inr (), w')))"
proof -
  let ?es = "es @ [WorkflowTriggered t]" and ?w = "consume E (WorkflowTriggered t) w"
  have w1: "?w = w\<lparr>w_db := put_state (tr_workflow_id t) (setState (pl_M E) (no_update\<lparr>up_status := Some SCHEDULED\<rparr>))
      (w_db w), w_events := ?es @ [SyncflowScheduled p]\<rparr>"
    using google_schedules[OF assms(1,3,4), of "pl_T E"] assms(8) by (simp add: consume_split p_def scheduledAs_def)
  then have "flow_state (sf_id sf) ?w = Some (SCHEDULED, v, pv)"
    using assms(3) triggerable_id[OF assms(3)]
    by (simp add: flow_state_def live_syncflow_put_state triggerable_def no_update_def v_def pv_def)
  moreover have "continues p (SyncflowScheduled p)" using assms(5) unfolding continues_def by (auto simp: p_def)
  ultimately have ph: "phase (pl_M E) p pv [] [SyncflowScheduled p] ?w"
    using phase.running[of p _ SCHEDULED] by (simp add: p_def v_def)
  have fr: "framed (frame_of (w_db w)) 0 False ?w"
    by (rule consume_framed[OF assms(1)]) (simp add: framed_def assms(7))
  obtain ns ps w' where run: "pump E 5 (length ?es) ?w = (length (?es @ ns), w')"
    "w_events w' = ?es @ ns @ ps" "phase (pl_M E) p pv ns ps w'"
    using pump_phase[OF assms(1,2) _ _ ph fr, of ?es 5] assms(6) w1 by (auto simp: keys_distinct_def)
  have six: "pump E 6 (length es) w = (length (?es @ ns), w')"
    using run(1) assms(8) by (simp add: eval_nat_numeral)
  moreover have "weights (drop (length es) (w_events w)) = 6" using assms(8) by simp
  ultimately have "drained (length (?es @ ns), w')" using pump_drains[OF assms(1), of "length es" w 6] by simp
  then have [simp]: "ps = []" using run(2) by (simp add: drained_def)
  have stuck: "handleWorkflowTriggered (pl_M E) T t' w' = (Inr (), w')"
    if fl: "flow_state (sf_id sf) w' = Some (st, v, pv)" "st \<noteq> IDLING" "tr_workflow_id t' = sf_id sf" for st T t'
  proof -
    obtain s where "live_syncflow (tr_workflow_id t') (w_db w') = Some s" "ss_status (sf_state s) \<noteq> IDLING"
      using fl by (auto simp: flow_state_def)
    then show ?thesis by (rule mongo_driver.handle_not_idle[OF mongo_driverI[OF assms(1)]])
  qed
  from run(3)[simplified] show ?thesis
    using six run(2) assms(8) stuck
    by (intro exI[of _ ns] exI[of _ w']) (elim phase_nilE; auto simp: p_def v_def)
qed

theorem trigger_outcomes_witness:
  "\<exists>w'. pump (example_pipeline\<lparr>pl_P := failing_processors\<rparr>) 6 0 fired_world = (length (w_events w'), w') \<and>
     (\<exists>st v pv. flow_state ''s1'' w' = Some (st, v, pv) \<and>
       (st = IDLING \<longrightarrow> v = 2 \<and> (pv = 1 \<or> stopped ''d1'' listMongo w')))"
proof -
  let ?E = "example_pipeline\<lparr>pl_P := failing_processors\<rparr>"
  have "mongo_ok (pl_M ?E)" "delivers (pl_K ?E)" "pl_M ?E = listMongo"
    using example_pipeline_answers(1,2) by (simp_all add: example_pipeline_def)
  moreover have "triggerable example_trigger (w_db fired_world) example_syncflow example_source example_connection"
    "ds_provider_type example_source = GOOGLE_SHEETS" "sf_name example_syncflow = ''googleSheetsFullSync''"
    using example_startable by (simp_all add: startable_def synced_source_def)
  moreover have "keys_distinct (w_db fired_world)" "w_tx fired_world = None"
    "w_events fired_world = [] @ [WorkflowTriggered example_trigger]"
    by (simp_all add: keys_distinct_def fired_world_def example_defs)
  moreover have "sf_id example_syncflow = ''s1''" "sf_sourceId example_syncflow = ''d1''"
    "ss_version (sf_state example_syncflow) = 1"
    by (simp_all add: example_syncflow_def defaultSyncflowState_def)
  ultimately show ?thesis
    using trigger_outcomes [of ?E example_trigger fired_world example_syncflow example_source
      example_connection "[]"] by fastforce
qed

end
