(* ===== verification/Redelivery.thy ===== *)
theory Redelivery
  imports SyncPipeline
begin

text \<open>
  Brokers deliver at least once. The theory follows a trigger through the pipeline when every event
  is delivered twice in a row: what guards the applications have against it, and where one is missing.
\<close>

section \<open>Every event twice\<close>

fun repump :: "pipeline \<Rightarrow> nat \<Rightarrow> nat \<Rightarrow> world \<Rightarrow> nat \<times> world" where
  "repump E 0 k w = (k, w)"
| "repump E (Suc n) k w = (if k < length (w_events w)
     then repump E n (Suc k) (consume E (w_events w ! k) (consume E (w_events w ! k) w)) else (k, w))"

text \<open>The workflow id reuse policy that the applications ask for: Temporal refuses the id of a run that
  is under way or has completed.\<close>

definition refuses_used :: "temporal \<Rightarrow> bool" where
  "refuses_used S \<longleftrightarrow> (\<forall>cs n opts. wo_workflowId opts \<in> startedIds cs \<longrightarrow>
     isl (tm_start S (cs @ [StartWorkflow n opts])))"

lemma refused:
  assumes "refuses_used (pl_S E)" and "workflowIdOf q sfx \<in> startedIds (w_calls w)"
  shows "runAccepted E (OrchestratorService_executeWorkflow (pl_S E) n (startOptions q sfx)) n q w
    = (Inr (), w\<lparr>w_calls := w_calls w @ [StartWorkflow n (startOptions q sfx)]\<rparr>)"
proof -
  have "isl (tm_start (pl_S E) (w_calls w @ [StartWorkflow n (startOptions q sfx)]))"
    using assms by (simp add: refuses_used_def startOptions_def)
  then show ?thesis
    using handler_calls[of "startOptions q sfx" "pl_S E" n w]
    by (auto simp: runAccepted_def bind_io_run startOptions_def split: sum.split)
qed

lemma consume_again:
  assumes "refuses_used (pl_S E)" and "delivers (pl_K E)"
    and "sf_name (sd_syncflow p) = ''googleSheetsFullSync''"
    and "e = SyncflowScheduled p \<and> sfx = [] \<or> e = GoogleSheetsDownload i p \<and> sfx = ''-download'' \<or>
      e = GoogleSheetsProceedSync p \<and> sfx = ''-proceed''"
    and "workflowIdOf p sfx \<in> startedIds (w_calls w)"
  shows "\<exists>cs. consume E e w = w\<lparr>w_calls := cs\<rparr> \<and> startedIds cs = startedIds (w_calls w)"
proof -
  have id: "workflowIdOf (pl_K E p) sfx \<in> startedIds (w_calls w)" using assms(2,5) by simp
  then have "insert (workflowIdOf (pl_K E p) sfx) (startedIds (w_calls w)) = startedIds (w_calls w)" by blast
  then have "startedIds (w_calls w @ [StartWorkflow n (startOptions (pl_K E p) sfx)]) = startedIds (w_calls w)" for n
    using assms(2) by (simp add: startOptions_def insert_absorb)
  then have used: "\<exists>cs. w\<lparr>w_calls := w_calls w @ [StartWorkflow n (startOptions (pl_K E p) sfx)]\<rparr> = w\<lparr>w_calls := cs\<rparr> \<and>
      startedIds cs = startedIds (w_calls w)" for n by blast
  note run = refused[OF assms(1) id] and name = delivered(4)[OF assms(2), of p]
  from assms(4) show ?thesis
  proof (elim disjE conjE)
    assume e: "e = SyncflowScheduled p" "sfx = []"
    show ?thesis
      using used[of "''googleSheetsFullSync''"]
      by (simp add: e consume_split worker_handle_def Let_def handleSyncflowScheduledEvent_def name assms(3)
          run[unfolded e])
  next
    assume e: "e = GoogleSheetsDownload i p" "sfx = ''-download''"
    show ?thesis
      using used[of "''googleSheetsDownload''"]
      by (simp add: e consume_split worker_handle_def Let_def handleGoogleSheetsDownloadEvent_def run[unfolded e])
  next
    assume e: "e = GoogleSheetsProceedSync p" "sfx = ''-proceed''"
    show ?thesis
      using used[of "''googleSheetsProceedSync''"]
      by (simp add: e consume_split worker_handle_def Let_def handleGoogleSheetsProceedSyncEvent_def run[unfolded e])
  qed
qed

text \<open>So the second delivery changes nothing that the pipeline looks at.\<close>

definition same_run :: "world \<Rightarrow> world \<Rightarrow> bool" where
  "same_run w w' \<longleftrightarrow> w_events w' = w_events w \<and> w_db w' = w_db w \<and> startedIds (w_calls w') = startedIds (w_calls w)"

lemma same_runD:
  assumes "same_run w w'"
  shows "w_events w' = w_events w" "kept_obs i w' = kept_obs i w" "flow_state j w' = flow_state j w"
    "synced_source p w' ds = synced_source p w ds" "startedIds (w_calls w') = startedIds (w_calls w)"
    "w_db w' = w_db w"
  using assms by (simp_all add: same_run_def kept_obs_def flow_state_def synced_source_def)

lemma second_delivery:
  assumes "refuses_used (pl_S E)" and "delivers (pl_K E)"
    and "sf_name (sd_syncflow p) = ''googleSheetsFullSync''"
    and "e = SyncflowScheduled p \<and> sfx = [] \<or> e = GoogleSheetsDownload i p \<and> sfx = ''-download'' \<or>
      e = GoogleSheetsProceedSync p \<and> sfx = ''-proceed''"
    and "kept_obs j (consume E e w) = kept_obs j (w\<lparr>w_calls := w_calls w @ [StartWorkflow n (startOptions (pl_K E p) sfx)]\<rparr>)"
  shows "same_run (consume E e w) (consume E e (consume E e w))"
proof -
  have "workflowIdOf p sfx \<in> startedIds (w_calls (consume E e w))"
    using assms(2,5) by (simp add: kept_obs_def startOptions_def)
  from consume_again[OF assms(1-4) this] obtain cs where
    cs: "consume E e (consume E e w) = (consume E e w)\<lparr>w_calls := cs\<rparr>"
    "startedIds cs = startedIds (w_calls (consume E e w))" by blast
  show ?thesis unfolding cs(1) same_run_def by (simp add: cs(2))
qed

section \<open>A sync with every event twice\<close>

lemma run_delivered_twice:
  assumes "mongo_ok (pl_M E)" and "delivers (pl_K E)" and "starts_new (pl_S E)" and "services_answer E"
    and "refuses_used (pl_S E)" and "startable t w sf ds sc" and "w_events w = es @ [WorkflowTriggered t]"
  defines "p \<equiv> scheduledAs sf"
  shows "\<exists>w' st. repump E 4 (length es) w = (length es + 4, w') \<and> synced_source p w' ds \<and>
    w_events w' = w_events w @ [SyncflowScheduled p, GoogleSheetsDownload (ds_provider_id ds) (pl_K E p),
      GoogleSheetsProceedSync (pl_K E (pl_K E p)), SyncflowSucceed (succeeded p st)] \<and>
    flow_state (sf_id sf) w' = Some (IDLING, ss_version (sf_state sf) + 1, ss_version (sf_state sf))"
proof -
  let ?K = "pl_K E" and ?i = "sf_id sf" and ?pr = "ds_provider_id ds"
  note ok = assms(1-4) and del = delivered[OF assms(2)] and twice = second_delivery[OF assms(5,2)]
  have tg: "triggerable t (w_db w) sf ds sc" and name: "sf_name sf = ''googleSheetsFullSync''"
    and sync: "synced_source p w ds"
    and new: "\<forall>sfx \<in> {[], ''-download'', ''-proceed''}. workflowIdOf p sfx \<notin> startedIds (w_calls w)"
    using assms(6) by (simp_all add: startable_def p_def)
  have p: "sf_id (sd_syncflow p) = ?i" "sf_name (sd_syncflow p) = ''googleSheetsFullSync''"
    "sd_version p = ss_version (sf_state sf)" "sf_sourceId (sd_syncflow p) = sf_sourceId sf"
    by (simp_all add: p_def name)
  \<comment> \<open>the trigger: the syncflow is no longer idle\<close>
  define w1 where "w1 = w\<lparr>w_db := put_state (tr_workflow_id t) (setState (pl_M E) (no_update\<lparr>up_status := Some SCHEDULED\<rparr>))
      (w_db w), w_events := w_events w @ [SyncflowScheduled p]\<rparr>"
  have "ds_provider_type ds = GOOGLE_SHEETS" using sync by (simp add: synced_source_def)
  from google_schedules[OF assms(1) tg this]
  have c1: "consume E (WorkflowTriggered t) w = w1" by (simp add: consume_split scheduledAs_def p_def w1_def)
  have s1: "synced_source p w1 ds" "startedIds (w_calls w1) = startedIds (w_calls w)"
    "flow_state ?i w1 = Some (SCHEDULED, ss_version (sf_state sf), ss_prevVersion (sf_state sf))"
    using sync tg triggerable_id[OF tg]
    by (simp_all add: synced_source_def flow_state_def live_syncflow_put_state triggerable_def no_update_def w1_def)
  have d1: "consume E (WorkflowTriggered t) w1 = w1"
  proof -
    obtain s where "live_syncflow (tr_workflow_id t) (w_db w1) = Some s" "ss_status (sf_state s) \<noteq> IDLING"
      using s1(3) triggerable_id[OF tg] by (auto simp: flow_state_def)
    from mongo_driver.handle_not_idle[OF mongo_driverI[OF assms(1)] this] show ?thesis by (simp add: consume_split)
  qed
  \<comment> \<open>the three workflows: their ids are used\<close>
  obtain w2 where c2: "consume E (SyncflowScheduled p) w1 = w2"
    "w_events w2 = w_events w1 @ [GoogleSheetsDownload ?pr (?K p)]"
    "kept_obs ?pr w2 = kept_obs ?pr (w1\<lparr>w_calls := w_calls w1 @
      [StartWorkflow ''googleSheetsFullSync'' (startOptions (?K p) [])]\<rparr>)"
    "flow_state ?i w2 = Some (RUNNING, ss_version (sf_state sf), ss_prevVersion (sf_state sf))"
    using consume_scheduled[OF ok(1-3) _ p(2) s1(1)] s1(2,3) new p by auto
  obtain w2' where d2: "consume E (SyncflowScheduled p) w2 = w2'" "same_run w2 w2'"
    using twice[OF p(2), of _ "[]" _ ?pr w1] c2(1,3) by blast
  have s2: "synced_source p w2' ds" "startedIds (w_calls w2') = insert (workflowIdOf p []) (startedIds (w_calls w))"
    using same_runD[OF d2(2)] c2(3) s1 del by (auto simp: kept_obs_def synced_source_def startOptions_def)
  obtain w3 where c3: "consume E (GoogleSheetsDownload ?pr (?K p)) w2' = w3"
    "w_events w3 = w_events w2' @ [GoogleSheetsProceedSync (?K (?K p))]"
    "kept_obs ?pr w3 = kept_obs ?pr (w2'\<lparr>w_calls := w_calls w2' @
      [StartWorkflow ''googleSheetsDownload'' (startOptions (?K (?K p)) ''-download'')]\<rparr>)"
    "flow_state ?i w3 = flow_state ?i w2'"
    using consume_download[OF ok, of "?K p" w2' ds ?pr] s2 suffixes_differ[of p] new del p(1) by auto
  obtain w3' where d3: "consume E (GoogleSheetsDownload ?pr (?K p)) w3 = w3'" "same_run w3 w3'"
    using twice[of "?K p" _ "''-download''" ?pr ?pr w2'] c3(1,3) del p(2) by fastforce
  have s3: "synced_source p w3' ds" "startedIds (w_calls w3') =
      {workflowIdOf p ''-download'', workflowIdOf p []} \<union> startedIds (w_calls w)"
    using same_runD[OF d3(2)] c3(3) s2 del by (auto simp: kept_obs_def synced_source_def startOptions_def)
  obtain w4 st where c4: "consume E (GoogleSheetsProceedSync (?K (?K p))) w3' = w4"
    "w_events w4 = w_events w3' @ [SyncflowSucceed (succeeded p st)]"
    "kept_obs ?pr w4 = kept_obs ?pr (w3'\<lparr>w_calls := w_calls w3' @
      [StartWorkflow ''googleSheetsProceedSync'' (startOptions (?K (?K (?K p))) ''-proceed'')]\<rparr>)"
    "flow_state ?i w4 = Some (IDLING, sd_version p + 1, sd_version p)"
    using consume_proceed[OF ok, of "?K (?K p)" w3' ds] s3 suffixes_differ[of p] new del
      same_runD(3)[OF d3(2)] c3(4) same_runD(3)[OF d2(2)] c2(4) p(1) by auto
  obtain w4' where d4: "consume E (GoogleSheetsProceedSync (?K (?K p))) w4 = w4'" "same_run w4 w4'"
    using twice[of "?K (?K p)" _ "''-proceed''" _ ?pr w3'] c4(1,3) del p(2) by fastforce
  have "repump E 4 (length es) w = (length es + 4, w4')"
    using assms(7) c1 d1 c2 d2 c3 d3 c4 d4 same_runD(1)[OF d2(2)] same_runD(1)[OF d3(2)] same_runD(1)[OF d4(2)]
    by (simp add: eval_nat_numeral nth_append w1_def)
  moreover have "synced_source p w4' ds"
    using same_runD(4)[OF d4(2)] c4(3) s3 by (auto simp: kept_obs_def synced_source_def)
  ultimately show ?thesis
    using same_runD(1)[OF d2(2)] same_runD(1)[OF d3(2)] same_runD(1,3)[OF d4(2)] c2(2) c3(2) c4(2,4)
    by (intro exI[of _ w4'] exI[of _ st]) (simp add: w1_def p)
qed

text \<open>The post-processor has no guard: what it adds to the row count it adds again.\<close>

lemma synced_put_rows:
  assumes "synced_source p w ds"
  shows "synced_source p (w\<lparr>w_db := put_rows (sf_sourceId (sd_syncflow p)) n (w_db w)\<rparr>)
    (ds\<lparr>ds_statistics := (ds_statistics ds)\<lparr>st_rowsNumber := n\<rparr>\<rparr>)"
  using assms by (auto simp: synced_source_def put_rows_def live_provider_def find_update_first_same)

abbreviation completed_with :: "ScheduledPayload \<Rightarrow> int \<Rightarrow> event" where
  "completed_with p n \<equiv> SyncflowCompleted \<lparr>cp_dataSourceId = sf_sourceId (sd_syncflow p),
     cp_syncflowId = sf_id (sd_syncflow p), cp_syncVersion = sd_version p, cp_rowsNumber = n\<rparr>"

lemma success_delivered_twice:
  fixes st :: SyncStatistics
  assumes "mongo_ok (pl_M E)" and "services_answer E" and "synced_source p w ds"
    and "flow_state (sf_id (sd_syncflow p)) w \<noteq> None"
  defines "e \<equiv> SyncflowSucceed (succeeded p st)" and "i \<equiv> sf_sourceId (sd_syncflow p)"
    and "n \<equiv> st_rowsNumber (ds_statistics ds) + (sx_addedRowsCount st - sx_deletedRowsCount st)"
    and "m \<equiv> st_rowsNumber (ds_statistics ds) + 2 * (sx_addedRowsCount st - sx_deletedRowsCount st)"
  shows "\<exists>cs. consume E e (consume E e w) = w\<lparr>w_calls := cs, w_db := put_rows i m (put_rows i n (w_db w)),
    w_events := w_events w @ [completed_with p n, completed_with p m]\<rparr>"
proof -
  obtain c where c: "consume E e w = w\<lparr>w_calls := w_calls w @ [c], w_db := put_rows i n (w_db w),
      w_events := w_events w @ [completed_with p n]\<rparr>" (is "_ = ?w")
    using consume_succeed[OF assms(1-4), of st] by (auto simp: e_def i_def n_def)
  have synced: "synced_source p ?w (ds\<lparr>ds_statistics := (ds_statistics ds)\<lparr>st_rowsNumber := n\<rparr>\<rparr>)"
    using synced_put_rows[OF assms(3), of n] by (simp add: synced_source_def i_def)
  have "flow_state (sf_id (sd_syncflow p)) ?w \<noteq> None"
    using assms(4) by (simp add: flow_state_def live_syncflow_def put_rows_def)
  moreover have m: "n + (sx_addedRowsCount st - sx_deletedRowsCount st) = m" by (simp add: n_def m_def)
  ultimately show ?thesis
    using consume_succeed[OF assms(1,2) synced, of st] unfolding c by (auto simp: e_def i_def m)
qed

lemma repump_split: "repump E (k + j) l w = (case repump E k l w of (l', w') \<Rightarrow> repump E j l' w')"
  by (induction k arbitrary: l w) (simp, cases j, auto)

lemma repump_completed:
  assumes "w_events w = es @ [SyncflowCompleted x, SyncflowCompleted y]" and "k = length es"
  shows "repump E 2 k w = (length (w_events w), w)"
proof -
  have "consume E (SyncflowCompleted z) u = u" for z u
    by (simp add: consume_split postProcessor_handle_def)
  then show ?thesis using assms by (simp add: numeral_2_eq_2 nth_append)
qed

lemma trigger_delivered_twice:
  assumes "mongo_ok (pl_M E)" and "delivers (pl_K E)" and "starts_new (pl_S E)" and "services_answer E"
    and "refuses_used (pl_S E)" and "startable t w sf ds sc" and "w_events w = es @ [WorkflowTriggered t]"
  defines "p \<equiv> scheduledAs sf"
  shows "\<exists>w' st n m. repump E 7 (length es) w = (length (w_events w'), w') \<and>
    n = st_rowsNumber (ds_statistics ds) + (sx_addedRowsCount st - sx_deletedRowsCount st) \<and>
    m = n + (sx_addedRowsCount st - sx_deletedRowsCount st) \<and>
    w_events w' = w_events w @ [SyncflowScheduled p, GoogleSheetsDownload (ds_provider_id ds) (pl_K E p),
      GoogleSheetsProceedSync (pl_K E (pl_K E p)), SyncflowSucceed (succeeded p st),
      SyncflowCompleted \<lparr>cp_dataSourceId = sf_sourceId sf, cp_syncflowId = sf_id sf,
        cp_syncVersion = ss_version (sf_state sf), cp_rowsNumber = n\<rparr>,
      SyncflowCompleted \<lparr>cp_dataSourceId = sf_sourceId sf, cp_syncflowId = sf_id sf,
        cp_syncVersion = ss_version (sf_state sf), cp_rowsNumber = m\<rparr>] \<and>
    flow_state (sf_id sf) w' = Some (IDLING, ss_version (sf_state sf) + 1, ss_version (sf_state sf)) \<and>
    rows_of (sf_sourceId sf) (w_db w') = Some m"
proof -
  obtain w4 st where w4: "repump E 4 (length es) w = (length es + 4, w4)" "synced_source p w4 ds"
    "w_events w4 = w_events w @ [SyncflowScheduled p, GoogleSheetsDownload (ds_provider_id ds) (pl_K E p),
      GoogleSheetsProceedSync (pl_K E (pl_K E p)), SyncflowSucceed (succeeded p st)]"
    "flow_state (sf_id sf) w4 = Some (IDLING, ss_version (sf_state sf) + 1, ss_version (sf_state sf))"
    using run_delivered_twice[OF assms(1-7)] unfolding p_def by blast
  let ?e = "SyncflowSucceed (succeeded p st)" and ?i = "sf_sourceId sf"
  let ?d = "sx_addedRowsCount st - sx_deletedRowsCount st" and ?r = "st_rowsNumber (ds_statistics ds)"
  have p: "sf_id (sd_syncflow p) = sf_id sf" "sf_sourceId (sd_syncflow p) = ?i" "sd_version p = ss_version (sf_state sf)"
    by (simp_all add: p_def)
  define w6 where "w6 = consume E ?e (consume E ?e w4)"
  have "flow_state (sf_id (sd_syncflow p)) w4 \<noteq> None" using w4(4) p by simp
  from success_delivered_twice[OF assms(1,4) w4(2) this, of st] obtain cs where
    w6: "w6 = w4\<lparr>w_calls := cs, w_db := put_rows ?i (?r + 2 * ?d) (put_rows ?i (?r + ?d) (w_db w4)),
      w_events := w_events w4 @ [completed_with p (?r + ?d), completed_with p (?r + 2 * ?d)]\<rparr>"
    unfolding w6_def p(2) by blast
  have ev: "w_events w6 = w_events w4 @ [completed_with p (?r + ?d), completed_with p (?r + 2 * ?d)]"
    by (simp add: w6)
  have fl: "flow_state (sf_id sf) w6 = flow_state (sf_id sf) w4"
    by (simp add: w6 flow_state_def live_syncflow_def put_rows_def)
  have rows: "rows_of ?i (w_db w6) = Some (?r + 2 * ?d)"
    using w4(2) p(2) by (simp add: w6 rows_of_def synced_source_def rows_put_rows)
  have "repump E 1 (length es + 4) w4 = (length es + 5, w6)"
    using w4(3) assms(7) by (simp add: nth_append w6_def)
  moreover have "repump E 2 (length es + 5) w6 = (length (w_events w6), w6)"
    by (rule repump_completed[OF ev]) (simp add: w4(3) assms(7))
  ultimately have run: "repump E 7 (length es) w = (length (w_events w6), w6)"
    using repump_split[of E 4 3 "length es" w] repump_split[of E 1 2 "length es + 4" w4] w4(1)
    by (simp del: repump.simps One_nat_def)
  show ?thesis
    using run w4(3,4) ev rows fl p
    by (intro exI[of _ w6] exI[of _ st] exI[of _ "?r + ?d"] exI[of _ "?r + 2 * ?d"]) simp
qed

section \<open>Properties\<close>

text \<open>
  C5: a sync whose events are all delivered twice. Under the conditions of a sync that completes, with
  Temporal refusing used workflow ids, the trigger schedules, downloads, loads and announces success once:
  the second delivery finds the syncflow not idle, or its workflow id used. But the success event is
  handled twice. The change that the loader reported is added to the row count both times, and the
  completion is announced twice, first with the right count and then with the wrong one, which stays.
\<close>

theorem delivered_twice:
  assumes "mongo_ok (pl_M E)" and "delivers (pl_K E)" and "starts_new (pl_S E)" and "services_answer E"
    and "refuses_used (pl_S E)" and "startable t w sf ds sc" and "w_events w = es @ [WorkflowTriggered t]"
  defines "p \<equiv> scheduledAs sf"
  shows "\<exists>w' st n m. repump E 7 (length es) w = (length (w_events w'), w') \<and>
    n = st_rowsNumber (ds_statistics ds) + (sx_addedRowsCount st - sx_deletedRowsCount st) \<and>
    m = n + (sx_addedRowsCount st - sx_deletedRowsCount st) \<and>
    w_events w' = w_events w @ [SyncflowScheduled p, GoogleSheetsDownload (ds_provider_id ds) (pl_K E p),
      GoogleSheetsProceedSync (pl_K E (pl_K E p)), SyncflowSucceed (succeeded p st),
      SyncflowCompleted \<lparr>cp_dataSourceId = sf_sourceId sf, cp_syncflowId = sf_id sf,
        cp_syncVersion = ss_version (sf_state sf), cp_rowsNumber = n\<rparr>,
      SyncflowCompleted \<lparr>cp_dataSourceId = sf_sourceId sf, cp_syncflowId = sf_id sf,
        cp_syncVersion = ss_version (sf_state sf), cp_rowsNumber = m\<rparr>] \<and>
    flow_state (sf_id sf) w' = Some (IDLING, ss_version (sf_state sf) + 1, ss_version (sf_state sf)) \<and>
    rows_of (sf_sourceId sf) (w_db w') = Some m"
  unfolding p_def by (rule trigger_delivered_twice[OF assms(1-7)])

text \<open>A Temporal that knows the ids it was given.\<close>

definition remembering_temporal :: temporal where
  "remembering_temporal = \<lparr>tm_start = (\<lambda>cs. case last cs of
       StartWorkflow n opts \<Rightarrow> (if wo_workflowId opts \<in> startedIds (butlast cs) then Inl TypeError else Inr ())
     | _ \<Rightarrow> Inr ()), tm_result = (\<lambda>_. Inr JNull), tm_list = (\<lambda>_. Inr []), tm_terminate = (\<lambda>_. Inr ())\<rparr>"

theorem delivered_twice_witness:
  "\<exists>w' n. repump (example_pipeline\<lparr>pl_S := remembering_temporal\<rparr>) 7 0 fired_world = (length (w_events w'), w') \<and>
     flow_state ''s1'' w' = Some (IDLING, 2, 1) \<and> rows_of ''d1'' (w_db w') = Some n"
proof -
  let ?E = "example_pipeline\<lparr>pl_S := remembering_temporal\<rparr>"
  have "mongo_ok (pl_M ?E)" "delivers (pl_K ?E)" "services_answer ?E"
    using example_pipeline_answers by (simp_all add: services_answer_def)
  moreover have "starts_new (pl_S ?E)" "refuses_used (pl_S ?E)"
    by (simp_all add: starts_new_def refuses_used_def remembering_temporal_def)
  moreover have "w_events fired_world = [] @ [WorkflowTriggered example_trigger]" by (simp add: fired_world_def)
  moreover have "sf_id example_syncflow = ''s1''" "sf_sourceId example_syncflow = ''d1''"
    "ss_version (sf_state example_syncflow) = 1"
    by (simp_all add: example_syncflow_def defaultSyncflowState_def)
  ultimately show ?thesis
    using delivered_twice [of ?E, OF _ _ _ _ _ example_startable, of "[]"] by auto
qed

end
