(* ===== verification/Processes.thy ===== *)
theory Processes
  imports Store
begin

text \<open>
  Asynchronous functions that can be interrupted. An \<open>act\<close> is a whole call; a process is the same call
  cut at its awaits, so that the steps of several calls can be interleaved. Running a process to its
  end without a break is the call it was cut from.
\<close>

section \<open>Processes\<close>

datatype (dead 's, dead 'e, 'a) proc = Done "'e + 'a" | Await "'s \<Rightarrow> ('s, 'e, 'a) proc \<times> 's"

primrec run_proc :: "('s, 'e, 'a) proc \<Rightarrow> ('s, 'e, 'a) io" where
  "run_proc (Done r) = lift_io r"
| "run_proc (Await f) = (\<lambda>s. case map_prod run_proc id (f s) of (m, s') \<Rightarrow> m s')"

text \<open>An awaited operation that nothing interrupts, such as one request to the database.\<close>

definition atomic :: "('s, 'e, 'a) io \<Rightarrow> ('s, 'e, 'a) proc" where
  "atomic m = Await (\<lambda>s. case m s of (r, s') \<Rightarrow> (Done r, s'))"

primrec bind_proc :: "('s, 'e, 'a) proc \<Rightarrow> ('a \<Rightarrow> ('s, 'e, 'b) proc) \<Rightarrow> ('s, 'e, 'b) proc" where
  "bind_proc (Done r) k = (case r of Inl e \<Rightarrow> Done (Inl e) | Inr x \<Rightarrow> k x)"
| "bind_proc (Await f) k = Await (\<lambda>s. map_prod (\<lambda>p. bind_proc p k) id (f s))"

primrec catch_proc :: "('s, 'e, 'a) proc \<Rightarrow> ('e \<Rightarrow> ('s, 'e, 'a) proc) \<Rightarrow> ('s, 'e, 'a) proc" where
  "catch_proc (Done r) h = (case r of Inl e \<Rightarrow> h e | Inr x \<Rightarrow> Done (Inr x))"
| "catch_proc (Await f) h = Await (\<lambda>s. map_prod (\<lambda>p. catch_proc p h) id (f s))"

fun for_proc :: "'a list \<Rightarrow> ('a \<Rightarrow> ('s, 'e, unit) proc) \<Rightarrow> ('s, 'e, unit) proc" where
  "for_proc [] f = Done (Inr ())"
| "for_proc (x # xs) f = bind_proc (f x) (\<lambda>_. for_proc xs f)"

named_theorems run_proc_simps \<open>what the parts of a process run as\<close>

lemma run_Done [run_proc_simps]:
  "run_proc (Done (Inr x)) = return_io x" "run_proc (Done (Inl e)) = throw_io e"
  by (simp_all add: lift_io_def return_io_def throw_io_def)

lemma run_atomic [run_proc_simps]: "run_proc (atomic m) = m"
  by (rule ext) (simp add: atomic_def split: prod.split)

lemma run_bind [run_proc_simps]: "run_proc (bind_proc p k) = bind_io (run_proc p) (\<lambda>x. run_proc (k x))"
proof (induction p)
  case (Await f)
  show ?case
  proof (rule ext)
    fix s
    obtain p' s' where f: "f s = (p', s')" by (cases "f s")
    then have "run_proc (bind_proc p' k) = bind_io (run_proc p') (\<lambda>x. run_proc (k x))"
      using Await.IH[OF rangeI, of p' s] by (simp add: fsts.simps)
    then show "run_proc (bind_proc (Await f) k) s = bind_io (run_proc (Await f)) (\<lambda>x. run_proc (k x)) s"
      by (simp add: f bind_io_run)
  qed
qed (auto simp: bind_io_run split: sum.split)

lemma run_catch [run_proc_simps]: "run_proc (catch_proc p h) = catch_io (run_proc p) (\<lambda>e. run_proc (h e))"
proof (induction p)
  case (Await f)
  show ?case
  proof (rule ext)
    fix s
    obtain p' s' where f: "f s = (p', s')" by (cases "f s")
    then have "run_proc (catch_proc p' h) = catch_io (run_proc p') (\<lambda>e. run_proc (h e))"
      using Await.IH[OF rangeI, of p' s] by (simp add: fsts.simps)
    then show "run_proc (catch_proc (Await f) h) s = catch_io (run_proc (Await f)) (\<lambda>e. run_proc (h e)) s"
      by (simp add: f catch_io_run)
  qed
qed (auto simp: catch_io_run split: sum.split)

lemma run_for [run_proc_simps]: "run_proc (for_proc xs f) = for_io xs (\<lambda>x. run_proc (f x))"
  by (induction xs) (simp_all add: run_proc_simps del: run_proc.simps)

lemma run_option [run_proc_simps]:
  "run_proc (case x of None \<Rightarrow> p | Some y \<Rightarrow> q y) = (case x of None \<Rightarrow> run_proc p | Some y \<Rightarrow> run_proc (q y))"
  by (simp split: option.split)

lemma run_if [run_proc_simps]: "run_proc (if b then p else q) = (if b then run_proc p else run_proc q)"
  by simp

lemma bind_proc_assoc: "bind_proc (bind_proc p f) g = bind_proc p (\<lambda>x. bind_proc (f x) g)"
proof (induction p)
  case (Await h)
  have "map_prod (\<lambda>p. bind_proc p g) id (map_prod (\<lambda>p. bind_proc p f) id (h s))
      = map_prod (\<lambda>p. bind_proc p (\<lambda>x. bind_proc (f x) g)) id (h s)" for s
    using Await.IH[OF rangeI, of _ s] by (cases "h s") (simp add: fsts.simps)
  then show ?case by simp
qed (auto split: sum.split)

section \<open>Sessions\<close>

text \<open>\<open>runWithTransaction\<close>, whose start, commit and abort are steps of their own.\<close>

definition startTransaction :: "unit act" where
  "startTransaction = modify_io (\<lambda>w. w\<lparr>w_tx := Some (w_db w, id)\<rparr>)"

definition endTransaction :: "((db \<Rightarrow> db) \<Rightarrow> db \<Rightarrow> db) \<Rightarrow> unit act" where
  "endTransaction f = modify_io (\<lambda>w. w\<lparr>w_tx := None,
     w_db := (case w_tx w of None \<Rightarrow> w_db w | Some (_, g) \<Rightarrow> f g (w_db w))\<rparr>)"

definition transaction_proc :: "mongo \<Rightarrow> (world, js_error, 'a) proc \<Rightarrow> (world, js_error, 'a) proc" where
  "transaction_proc M p = bind_proc (atomic startTransaction) (\<lambda>_.
     bind_proc (catch_proc p (\<lambda>e. bind_proc (atomic (endTransaction (mg_abort M))) (\<lambda>_. Done (Inl e)))) (\<lambda>x.
     bind_proc (atomic (endTransaction (mg_commit M))) (\<lambda>_. Done (Inr x))))"

lemma run_transaction:
  "w_tx w = None \<Longrightarrow> run_proc (transaction_proc M p) w = runWithTransaction M (run_proc p) w"
  by (simp add: transaction_proc_def run_proc_simps runWithTransaction_def startTransaction_def
      endTransaction_def io_simps del: run_proc.simps split: prod.split sum.split)

section \<open>Interleaving\<close>

text \<open>A thread is a process with its own session. A turn is one step of one thread: it acts on the shared
  world, in which the session of the thread is the open one.\<close>

type_synonym 'a thread = "(db \<times> (db \<Rightarrow> db)) option \<times> (world, js_error, 'a) proc"

fun turn :: "'a thread \<Rightarrow> world \<Rightarrow> 'a thread \<times> world" where
  "turn (tx, Done r) w = ((tx, Done r), w)"
| "turn (tx, Await f) w = (case f (w\<lparr>w_tx := tx\<rparr>) of (p, w') \<Rightarrow> ((w_tx w', p), w'\<lparr>w_tx := w_tx w\<rparr>))"

inductive interleaved :: "'a thread list \<Rightarrow> world \<Rightarrow> 'a thread list \<Rightarrow> world \<Rightarrow> bool"
  for ts :: "'a thread list" and w :: world where
  start: "interleaved ts w ts w"
| step: "interleaved ts w ts' w' \<Longrightarrow> i < length ts' \<Longrightarrow> turn (ts' ! i) w' = (t, w'') \<Longrightarrow>
    interleaved ts w (ts'[i := t]) w''"

inductive_cases interleavedE: "interleaved ts w ts' w'"

definition settledThreads :: "'a thread list \<Rightarrow> bool" where
  "settledThreads ts \<longleftrightarrow> (\<forall>t \<in> set ts. \<exists>r. snd t = Done r)"

text \<open>The same by a schedule, which names the thread of each turn.\<close>

fun scheduled :: "nat list \<Rightarrow> 'a thread list \<Rightarrow> world \<Rightarrow> 'a thread list \<times> world" where
  "scheduled [] ts w = (ts, w)"
| "scheduled (i # is) ts w = (if i < length ts
     then (case turn (ts ! i) w of (t, w') \<Rightarrow> scheduled is (ts[i := t]) w') else scheduled is ts w)"

lemma interleaved_trans:
  assumes "interleaved ts' w' ts'' w''" and "interleaved ts w ts' w'"
  shows "interleaved ts w ts'' w''"
  using assms by (induction rule: interleaved.induct) (auto intro: interleaved.step)

lemma interleaved_scheduled:
  "scheduled is ts w = (ts', w') \<Longrightarrow> interleaved ts w ts' w'"
proof (induction "is" ts w rule: scheduled.induct)
  case (2 i "is" ts w)
  show ?case
  proof (cases "i < length ts")
    case True
    obtain t u where t: "turn (ts ! i) w = (t, u)" by (cases "turn (ts ! i) w")
    then have "interleaved (ts[i := t]) u ts' w'" using 2 True by simp
    then show ?thesis by (rule interleaved_trans) (rule interleaved.step[OF interleaved.start True t])
  qed (use 2 in simp)
qed (simp add: interleaved.start)

lemma scheduled_interleaved:
  "interleaved ts w ts' w' \<Longrightarrow> \<exists>is. scheduled is ts w = (ts', w')"
proof (induction rule: interleaved.induct)
  case start
  then show ?case by (intro exI[of _ "[]"]) simp
next
  case (step ts' w' i t w'')
  then obtain "is" where "scheduled is ts w = (ts', w')" by blast
  moreover have "scheduled (is @ js) ts w = (case scheduled is ts w of (ts', w') \<Rightarrow> scheduled js ts' w')" for js
    by (induction "is" ts w rule: scheduled.induct) (auto split: prod.split)
  ultimately have "scheduled (is @ [i]) ts w = (ts'[i := t], w'')" using step.hyps by simp
  then show ?case by blast
qed

text \<open>A thread on its own: its turns lead to the result of the whole call, and to nothing else.\<close>

lemma no_session: "w_tx w = None \<Longrightarrow> w\<lparr>w_tx := None\<rparr> = w"
  by (cases w) simp

lemma turn_run:
  assumes "turn (tx, p) w = ((tx', p'), w')" and "w_tx w = None"
  shows "run_proc p' (w'\<lparr>w_tx := tx'\<rparr>) = run_proc p (w\<lparr>w_tx := tx\<rparr>) \<and> w_tx w' = None"
proof (cases p)
  case (Await f)
  then show ?thesis using assms by (auto split: prod.splits)
qed (use assms in auto)

lemma run_alone:
  fixes p :: "(world, js_error, 'a) proc"
  assumes "w_tx w = None"
  shows "\<exists>is r u. scheduled is [(tx, p)] w = ([(w_tx u, Done r)], u\<lparr>w_tx := None\<rparr>) \<and>
    run_proc p (w\<lparr>w_tx := tx\<rparr>) = (r, u)"
  using assms
proof (induction p arbitrary: tx w)
  case (Done r)
  then show ?case
    by (intro exI[of _ "[]"] exI[of _ r] exI[of _ "w\<lparr>w_tx := tx\<rparr>"]) simp
next
  case (Await f)
  obtain p' u where f: "f (w\<lparr>w_tx := tx\<rparr>) = (p', u)" by (cases "f (w\<lparr>w_tx := tx\<rparr>)")
  have "\<exists>is r v. scheduled is [(w_tx u, p')] (u\<lparr>w_tx := None\<rparr>) = ([(w_tx v, Done r)], v\<lparr>w_tx := None\<rparr>) \<and>
      run_proc p' (u\<lparr>w_tx := None, w_tx := w_tx u\<rparr>) = (r, v)"
    using Await.IH[OF rangeI, of p' "w\<lparr>w_tx := tx\<rparr>" "u\<lparr>w_tx := None\<rparr>" "w_tx u"] f by (simp add: fsts.simps)
  then obtain "is" r v where "scheduled is [(w_tx u, p')] (u\<lparr>w_tx := None\<rparr>) = ([(w_tx v, Done r)], v\<lparr>w_tx := None\<rparr>)"
    "run_proc p' u = (r, v)" by auto
  then show ?case
    using f Await.prems by (intro exI[of _ "0 # is"] exI[of _ r] exI[of _ v]) simp
qed

lemma interleaved_alone:
  assumes "w_tx w = None"
  shows "(\<exists>tx. interleaved [(None, p)] w [(tx, Done r)] w') \<longleftrightarrow>
    (\<exists>tx. run_proc p w = (r, w'\<lparr>w_tx := tx\<rparr>)) \<and> w_tx w' = None"
proof
  assume "\<exists>tx. interleaved [(None, p)] w [(tx, Done r)] w'"
  then obtain tx where il: "interleaved [(None, p)] w [(tx, Done r)] w'" by blast
  have inv: "\<exists>tx' p'. ts' = [(tx', p')] \<and> run_proc p' (w'\<lparr>w_tx := tx'\<rparr>) = run_proc p w \<and> w_tx w' = None"
    if "interleaved [(None, p)] w ts' w'" for ts' w'
    using that
  proof (induction rule: interleaved.induct)
    case start
    then show ?case using assms by (simp add: no_session)
  next
    case (step ts' w' i t w'')
    then obtain tx1 p1 where ts': "ts' = [(tx1, p1)]" "run_proc p1 (w'\<lparr>w_tx := tx1\<rparr>) = run_proc p w" "w_tx w' = None"
      by blast
    obtain tx2 p2 where t: "t = (tx2, p2)" by (cases t)
    then show ?case using turn_run[of tx1 p1 w' tx2 p2 w''] step.hyps ts' by simp
  qed
  from inv[OF il] have "run_proc p w = (r, w'\<lparr>w_tx := tx\<rparr>)" "w_tx w' = None" by simp_all
  then show "(\<exists>tx. run_proc p w = (r, w'\<lparr>w_tx := tx\<rparr>)) \<and> w_tx w' = None" by blast
next
  assume "(\<exists>tx. run_proc p w = (r, w'\<lparr>w_tx := tx\<rparr>)) \<and> w_tx w' = None"
  then obtain tx where r: "run_proc p w = (r, w'\<lparr>w_tx := tx\<rparr>)" "w_tx w' = None" by blast
  obtain "is" where "scheduled is [(None, p)] w = ([(tx, Done r)], w')"
    using run_alone[OF assms, of None p] r no_session[OF assms] no_session[OF r(2)] by auto
  then show "\<exists>tx. interleaved [(None, p)] w [(tx, Done r)] w'" using interleaved_scheduled by blast
qed

text \<open>What one thread does alone it can do among others.\<close>

lemma scheduled_among:
  assumes "scheduled is [t] w = ([t'], w')"
  shows "interleaved (xs @ t # ys) w (xs @ t' # ys) w'"
  using assms
proof (induction "is" arbitrary: t w)
  case Nil
  then show ?case by (simp add: interleaved.start)
next
  case (Cons i "is")
  show ?case
  proof (cases "i = 0")
    case True
    obtain t1 w1 where t1: "turn t w = (t1, w1)" by (cases "turn t w")
    have "interleaved (xs @ t # ys) w ((xs @ t # ys)[length xs := t1]) w1"
      by (rule interleaved.step[OF interleaved.start]) (simp_all add: t1)
    moreover have "interleaved (xs @ t1 # ys) w1 (xs @ t' # ys) w'" using Cons True t1 by simp
    ultimately show ?thesis using interleaved_trans by simp
  qed (use Cons in simp)
qed

end
