(* ===== verification/Interleaving.thy ===== *)
theory Interleaving
  imports Processes Redelivery
begin

text \<open>
  Triggers that fire at the same time. The controller reads and marks a syncflow in a transaction, but
  \<open>SyncflowRepository.updateState\<close> ignores the session it is given, so the transaction protects
  nothing. The theory cuts \<open>handleWorkflowTriggered\<close> at its awaits and determines what any number of
  concurrent calls can do; then it lets the worker handle what they announce.
\<close>

section \<open>The controller, cut at its awaits\<close>

definition updateState_proc ::
  "mongo \<Rightarrow> oid \<Rightarrow> SyncflowStateUpdate \<Rightarrow> QueryOptions \<Rightarrow> (world, js_error, Syncflow option) proc" where
  "updateState_proc M i state opts = bind_proc (atomic (updateLiveSyncflow M i (setState M state))) (\<lambda>_.
     if qo_new opts then atomic (SyncflowRepository_getById M i no_options) else Done (Inr None))"

definition MicrosoftExcelSyncflowController_proc ::
  "mongo \<Rightarrow> third_party \<Rightarrow> Syncflow \<Rightarrow> DataSource \<Rightarrow> (world, js_error, unit) proc" where
  "MicrosoftExcelSyncflowController_proc M T syncflow dataSource =
    bind_proc (atomic (MicrosoftService_getAccessToken T (cfg_auth (ds_config dataSource)))) (\<lambda>accessToken.
    bind_proc (atomic (externalActivityWrapper
        (MicrosoftGraphService_getWorkbookFileInfo T (cfg_workbookId (ds_config dataSource)) [''cTag''])
        (Some ''getWorkbookFileInfo''))) (\<lambda>ctag.
      if Some ctag = ss_ctag (sf_state syncflow)
      then Done (Inl (UnacceptableActivityError
        (''Syncflow '' @ sf_id syncflow @ '' with ds not changed, skipping'') (workflowFail False)))
      else bind_proc (updateState_proc M (sf_id syncflow) (no_update\<lparr>up_ctag := Some (Some ctag)\<rparr>) no_options)
        (\<lambda>_. Done (Inr ()))))"

definition runSyncflowController_proc ::
  "mongo \<Rightarrow> third_party \<Rightarrow> Syncflow \<Rightarrow> DataSource \<Rightarrow> (world, js_error, unit) proc" where
  "runSyncflowController_proc M T syncflow dataSource = (case ds_provider_type dataSource of
     GOOGLE_SHEETS \<Rightarrow> Done (Inr ())
   | MICROSOFT_EXCEL \<Rightarrow> MicrosoftExcelSyncflowController_proc M T syncflow dataSource
   | AIR_TABLE \<Rightarrow> Done (Inl (PlainError ''Unknown provider type'')))"

definition rejected :: "string \<Rightarrow> (world, js_error, 'a) proc" where
  "rejected msg = Done (Inl (UnacceptableActivityError msg (workflowFail False)))"

definition decideTriggered_proc :: "mongo \<Rightarrow> third_party \<Rightarrow> Trigger \<Rightarrow> Syncflow option \<Rightarrow> DataSource option \<Rightarrow>
    SyncConnection option \<Rightarrow> (world, js_error, Syncflow option) proc" where
  "decideTriggered_proc M T trigger syncflow dataSource syncConnection =
     (case dataSource of
       None \<Rightarrow> (case syncflow of
           None \<Rightarrow> Done (Inl TypeError)
         | Some sf \<Rightarrow> rejected (''DataSource not found: '' @ sf_sourceId sf))
     | Some ds \<Rightarrow>
     (case syncConnection of
       None \<Rightarrow> rejected (''SyncConnection not found: '' @ tr_sourceId trigger)
     | Some sc \<Rightarrow>
     (case syncflow of
       None \<Rightarrow> rejected (''Syncflow not found: '' @ tr_workflow_id trigger)
     | Some sf \<Rightarrow>
       if cs_status (sc_state sc) \<noteq> SC_ACTIVE
       then rejected (''Sync connection is not active: '' @ sc_id sc)
       else if ss_status (sf_state sf) = SCHEDULED
       then Done (Inl (AcceptableActivityError
              (''Syncflow status is already scheduled: '' @ sf_id sf) (AcceptSyncflow sf)))
       else bind_proc (runSyncflowController_proc M T sf ds) (\<lambda>_.
            updateState_proc M (sf_id sf) (no_update\<lparr>up_status := Some SCHEDULED\<rparr>)
              (sessionOnly\<lparr>qo_new := True\<rparr>)))))"

definition handleSyncflowTriggered_proc ::
  "mongo \<Rightarrow> third_party \<Rightarrow> Trigger \<Rightarrow> (world, js_error, Syncflow option) proc" where
  "handleSyncflowTriggered_proc M T trigger =
    bind_proc (atomic (SyncflowRepository_getById M (tr_workflow_id trigger) sessionOnly)) (\<lambda>syncflow.
    bind_proc (atomic (DataSourceRepository_getById M (tr_sourceId trigger) sessionOnly)) (\<lambda>dataSource.
    bind_proc (atomic (SyncConnectionRepository_getByDataSourceId M (tr_sourceId trigger) sessionOnly))
      (\<lambda>syncConnection. decideTriggered_proc M T trigger syncflow dataSource syncConnection)))"

definition scheduledEvents :: "Syncflow option \<Rightarrow> (world, js_error, event list) proc" where
  "scheduledEvents syncflow = (case syncflow of
     None \<Rightarrow> Done (Inl TypeError)
   | Some sf \<Rightarrow> Done (Inr [SyncflowScheduled \<lparr>sd_syncflow = sf, sd_version = ss_version (sf_state sf)\<rparr>]))"

definition checkedTrigger_proc ::
  "mongo \<Rightarrow> third_party \<Rightarrow> Trigger \<Rightarrow> Trigger option \<Rightarrow> (world, js_error, event list) proc" where
  "checkedTrigger_proc M T trigger triggerFromDb = (case triggerFromDb of
     None \<Rightarrow> rejected (''Trigger not found: '' @ tr_id trigger)
   | Some _ \<Rightarrow>
       (case tr_workflow_type trigger of
          SYNCFLOW \<Rightarrow> bind_proc (handleSyncflowTriggered_proc M T trigger) scheduledEvents
        | OtherWorkflow ty \<Rightarrow>
            Done (Inl (UnacceptableActivityError (''Unknown workflow type: '' @ ty) (workflowFail True)))))"

definition triggeredBody_proc :: "mongo \<Rightarrow> third_party \<Rightarrow> Trigger \<Rightarrow> (world, js_error, event list) proc" where
  "triggeredBody_proc M T trigger =
    bind_proc (atomic (checkWorkflowAlreadyScheduled M trigger sessionOnly)) (\<lambda>_.
    bind_proc (atomic (TriggerRepository_getById M (tr_id trigger) no_options)) (checkedTrigger_proc M T trigger))"

definition activityCaught :: "js_error \<Rightarrow> (world, js_error, event list) proc" where
  "activityCaught error = (if isActivityError error then Done (Inr []) else Done (Inl error))"

definition handleWorkflowTriggered_proc :: "mongo \<Rightarrow> third_party \<Rightarrow> Trigger \<Rightarrow> (world, js_error, unit) proc" where
  "handleWorkflowTriggered_proc M T trigger =
    bind_proc (transaction_proc M (catch_proc (triggeredBody_proc M T trigger) activityCaught))
      (\<lambda>events. for_proc events (\<lambda>e. atomic (emitEvent e)))"

text \<open>Without interruptions it is the handler of theory \<open>Controller\<close>.\<close>

lemma run_rejected [run_proc_simps]: "run_proc (rejected m) = reject m"
  by (simp add: rejected_def reject_def run_proc_simps del: run_proc.simps cong: if_cong option.case_cong)

lemma run_updateState [run_proc_simps]:
  "run_proc (updateState_proc M i u opts) = SyncflowRepository_updateState M i u opts"
  by (simp add: updateState_proc_def SyncflowRepository_updateState_def returnNewSyncflow_def run_proc_simps
      del: run_proc.simps cong: if_cong option.case_cong)

lemma run_controller [run_proc_simps]:
  "run_proc (runSyncflowController_proc M T sf ds) = runSyncflowController M T sf ds"
  by (cases "ds_provider_type ds")
    (simp_all add: runSyncflowController_proc_def runSyncflowController_def run_proc_simps
      MicrosoftExcelSyncflowController_proc_def MicrosoftExcelSyncflowController_run_def
      GoogleSheetsSyncflowController_run_def del: run_proc.simps cong: if_cong option.case_cong)

lemma run_handleSyncflow [run_proc_simps]:
  "run_proc (handleSyncflowTriggered_proc M T t) = handleSyncflowTriggered M T t"
  by (simp add: handleSyncflowTriggered_proc_def handleSyncflowTriggered_def decideTriggered_proc_def
      run_proc_simps del: run_proc.simps cong: if_cong option.case_cong)

lemma run_body:
  "run_proc (catch_proc (triggeredBody_proc M T t) activityCaught) = triggeredTransaction M T t"
  by (cases "tr_workflow_type t")
    (simp_all add: triggeredBody_proc_def checkedTrigger_proc_def scheduledEvents_def triggeredTransaction_def activityCaught_def run_proc_simps
      del: run_proc.simps cong: if_cong option.case_cong)

lemma run_handler:
  "w_tx w = None \<Longrightarrow> run_proc (handleWorkflowTriggered_proc M T t) w = handleWorkflowTriggered M T t w"
  by (simp add: handleWorkflowTriggered_proc_def handleWorkflowTriggered_def run_bind run_for run_atomic
      bind_io_run run_transaction run_body)

section \<open>The stages of a call\<close>

text \<open>What surrounds the body of the transaction.\<close>

definition inTransaction :: "mongo \<Rightarrow> (world, js_error, event list) proc \<Rightarrow> (world, js_error, unit) proc" where
  "inTransaction M p = bind_proc (bind_proc (catch_proc (catch_proc p activityCaught)
       (\<lambda>e. bind_proc (atomic (endTransaction (mg_abort M))) (\<lambda>_. Done (Inl e))))
     (\<lambda>x. bind_proc (atomic (endTransaction (mg_commit M))) (\<lambda>_. Done (Inr x))))
     (\<lambda>events. for_proc events (\<lambda>e. atomic (emitEvent e)))"

lemma handler_starts:
  "turn (tx, handleWorkflowTriggered_proc M T t) w =
     ((Some (w_db w, id), inTransaction M (triggeredBody_proc M T t)), w)"
  by (simp add: handleWorkflowTriggered_proc_def transaction_proc_def inTransaction_def atomic_def
      startTransaction_def)

lemma body_turn:
  "turn (tx, inTransaction M (bind_proc (atomic m) k)) w = (case m (w\<lparr>w_tx := tx\<rparr>) of (r, u) \<Rightarrow>
     ((w_tx u, inTransaction M (case r of Inl e \<Rightarrow> Done (Inl e) | Inr x \<Rightarrow> k x)), u\<lparr>w_tx := w_tx w\<rparr>))"
  by (simp add: inTransaction_def atomic_def split: prod.split)

lemma caught: "isActivityError e \<Longrightarrow> inTransaction M (Done (Inl e)) = inTransaction M (Done (Inr []))"
  by (simp add: inTransaction_def activityCaught_def)

lemma commit_turn:
  "turn (Some (d, g), inTransaction M (Done (Inr es))) w =
     ((None, for_proc es (\<lambda>e. atomic (emitEvent e))), w\<lparr>w_db := mg_commit M g (w_db w)\<rparr>)"
  by (simp add: inTransaction_def atomic_def endTransaction_def)

lemma emit_turn:
  "turn (tx, for_proc [e] (\<lambda>e. atomic (emitEvent e))) w = ((tx, Done (Inr ())), w\<lparr>w_events := w_events w @ [e]\<rparr>)"
  by (simp add: atomic_def)

text \<open>How far a call for a trigger has come, while nothing but such calls changes the store \<open>d\<close>, in which
  the syncflow is idle. Until it has written it waits; one that starts after another has written comes late.\<close>

datatype progress = Waiting | Written | Announced | Late

inductive firing :: "mongo \<Rightarrow> third_party \<Rightarrow> Trigger \<Rightarrow> Syncflow \<Rightarrow> DataSource \<Rightarrow> db \<Rightarrow> db \<Rightarrow> unit thread \<Rightarrow> progress \<Rightarrow> bool"
  for M T t sf ds d d' where
  first: "firing M T t sf ds d d' (None, handleWorkflowTriggered_proc M T t) Waiting"
| body: "firing M T t sf ds d d' (Some (d, id), inTransaction M (triggeredBody_proc M T t)) Waiting"
| checked: "firing M T t sf ds d d' (Some (d, id), inTransaction M
    (bind_proc (atomic (TriggerRepository_getById M (tr_id t) no_options)) (checkedTrigger_proc M T t))) Waiting"
| found: "firing M T t sf ds d d' (Some (d, id), inTransaction M
    (bind_proc (handleSyncflowTriggered_proc M T t) scheduledEvents)) Waiting"
| flow: "firing M T t sf ds d d' (Some (d, id), inTransaction M
    (bind_proc (atomic (DataSourceRepository_getById M (tr_sourceId t) sessionOnly)) (\<lambda>dataSource.
     bind_proc (bind_proc (atomic (SyncConnectionRepository_getByDataSourceId M (tr_sourceId t) sessionOnly))
       (\<lambda>syncConnection. decideTriggered_proc M T t (Some sf) dataSource syncConnection)) scheduledEvents))) Waiting"
| source: "firing M T t sf ds d d' (Some (d, id), inTransaction M
    (bind_proc (atomic (SyncConnectionRepository_getByDataSourceId M (tr_sourceId t) sessionOnly)) (\<lambda>syncConnection.
     bind_proc (decideTriggered_proc M T t (Some sf) (Some ds) syncConnection) scheduledEvents))) Waiting"
| decided: "firing M T t sf ds d d' (Some (d, id), inTransaction M
    (bind_proc (updateState_proc M (sf_id sf) (no_update\<lparr>up_status := Some SCHEDULED\<rparr>)
       (sessionOnly\<lparr>qo_new := True\<rparr>)) scheduledEvents)) Waiting"
| wrote: "firing M T t sf ds d d' (Some (d, id), inTransaction M
    (bind_proc (atomic (SyncflowRepository_getById M (sf_id sf) no_options)) scheduledEvents)) Written"
| reread: "firing M T t sf ds d d'
    (Some (d, id), inTransaction M (Done (Inr [SyncflowScheduled (scheduledAs sf)]))) Written"
| committed: "firing M T t sf ds d d'
    (None, for_proc [SyncflowScheduled (scheduledAs sf)] (\<lambda>e. atomic (emitEvent e))) Written"
| announced: "firing M T t sf ds d d' (None, Done (Inr ())) Announced"
| late: "firing M T t sf ds d d' (Some (d', id), inTransaction M (triggeredBody_proc M T t)) Late"
| refused: "firing M T t sf ds d d' (Some (d', id), inTransaction M (Done (Inr []))) Late"
| ended: "firing M T t sf ds d d' (None, Done (Inr ())) Late"

text \<open>What a turn does to the progress of a call and to the world.\<close>

abbreviation advances :: "bool \<Rightarrow> progress \<Rightarrow> progress \<Rightarrow> bool" where
  "advances b x y \<equiv> y = x \<or> x = Waiting \<and> (y = Written \<or> y = Late \<and> b) \<or> x = Written \<and> y = Announced"

abbreviation put_scheduled :: "mongo \<Rightarrow> oid \<Rightarrow> db \<Rightarrow> db" where
  "put_scheduled M i \<equiv> put_state i (setState M (no_update\<lparr>up_status := Some SCHEDULED\<rparr>))"

context mongo_driver begin

lemma put_scheduled_twice: "put_scheduled M i (put_scheduled M i d) = put_scheduled M i d"
proof -
  let ?f = "setState M (no_update\<lparr>up_status := Some SCHEDULED\<rparr>)" and ?p = "\<lambda>s :: Syncflow. sf_id s = i \<and> \<not> sf_isDeleted s"
  have "?f (?f s) = ?f s" for s by (simp add: setState_def no_update_def)
  then have "update_first ?p (\<lambda>s. s\<lparr>sf_state := ?f (sf_state s)\<rparr>) (update_first ?p (\<lambda>s. s\<lparr>sf_state := ?f (sf_state s)\<rparr>) xs)
     = update_first ?p (\<lambda>s. s\<lparr>sf_state := ?f (sf_state s)\<rparr>) xs" for xs :: "Syncflow list"
    by (induction xs) auto
  then show ?thesis by (simp add: put_state_def)
qed

lemma updateLive_put: "updateLiveSyncflow M i f w = (Inr (), w\<lparr>w_db := put_state i f (w_db w)\<rparr>)"
  by (simp add: updateLiveSyncflow_def put_state_def)

lemma firing_turn:
  assumes tg: "triggerable t d sf ds sc" and gs: "ds_provider_type ds = GOOGLE_SHEETS"
    and d': "d' = put_scheduled M (sf_id sf) d"
    and "firing M T t sf ds d d' th x" and w: "w_tx w = None" "w_db w = (if b then d' else d)"
    and "x \<noteq> Waiting \<longrightarrow> b" and "turn th w = (th', w')"
  shows "\<exists>y. firing M T t sf ds d d' th' y \<and> advances b x y \<and>
    w' = w\<lparr>w_db := (if b \<or> y = Written then d' else d),
      w_events := w_events w @ (if x = Written \<and> y = Announced then [SyncflowScheduled (scheduledAs sf)] else [])\<rparr>"
proof -
  note id = triggerable_id[OF tg]
  have live: "live_syncflow (sf_id sf) d = Some sf" "ss_status (sf_state sf) = IDLING" "live_trigger (tr_id t) d \<noteq> None"
    "tr_workflow_type t = SYNCFLOW" "live_source (tr_sourceId t) d = Some ds"
    "live_connection (tr_sourceId t) d = Some sc" "cs_status (sc_state sc) = SC_ACTIVE"
    using tg id by (simp_all add: triggerable_def)
  have put: "put_scheduled M (sf_id sf) d = d'" "put_scheduled M (sf_id sf) d' = d'"
    by (simp_all add: d' put_scheduled_twice)
  have live': "live_syncflow (sf_id sf) d' = Some (sd_syncflow (scheduledAs sf))" "live_trigger (tr_id t) d' \<noteq> None"
    "ss_status (sf_state (sd_syncflow (scheduledAs sf))) = SCHEDULED"
    "\<lparr>sd_syncflow = sd_syncflow (scheduledAs sf), sd_version = ss_version (sf_state (sd_syncflow (scheduledAs sf)))\<rparr> = scheduledAs sf"
    using live by (simp_all add: d' live_syncflow_put_state scheduledAs_def setState_def no_update_def)
  have same: "w\<lparr>w_db := (if b then d' else d)\<rparr> = w" "w\<lparr>w_tx := None\<rparr> = w" using w by simp_all
  have reads: ?thesis
    if "turn th w = (u, w)" "firing M T t sf ds d d' u y" "y = x \<or> x = Waiting \<and> y = Late \<and> b" for u y
    using that assms(7,8) same(1) by (intro exI[of _ y]) auto
  note run = id[symmetric] live live' body_turn checkWorkflowAlreadyScheduled_def reject_def io_simps repo_simps
    checkedTrigger_proc_def same(2)
  show ?thesis
    using assms(4)
  proof cases
    case first
    then have turn: "turn th w = ((Some (if b then d' else d, id), inTransaction M (triggeredBody_proc M T t)), w)"
      using w(2) by (simp add: handler_starts del: turn.simps)
    show ?thesis
    proof (cases b)
      case True
      then show ?thesis using turn first by (intro reads[of _ Late]) (auto intro: firing.late)
    next
      case False
      then show ?thesis using turn first by (intro reads[of _ Waiting]) (auto intro: firing.body)
    qed
  next
    case body
    then show ?thesis
      by (intro reads[OF _ firing.checked]) (simp_all add: run triggeredBody_proc_def del: turn.simps)
  next
    case checked
    then show ?thesis
      by (intro reads[OF _ firing.found]) (simp_all add: run w split: option.split del: turn.simps)
  next
    case found
    then show ?thesis
      by (intro reads[OF _ firing.flow])
        (simp_all add: run handleSyncflowTriggered_proc_def bind_proc_assoc del: turn.simps)
  next
    case flow
    then show ?thesis
      by (intro reads[OF _ firing.source]) (simp_all add: run bind_proc_assoc del: turn.simps)
  next
    case source
    then show ?thesis
      by (intro reads[OF _ firing.decided])
        (simp_all add: run decideTriggered_proc_def runSyncflowController_proc_def gs del: turn.simps)
  next
    case decided
    then have "th' = (Some (d, id), inTransaction M (bind_proc (atomic (SyncflowRepository_getById M (sf_id sf)
        no_options)) scheduledEvents))" "w' = w\<lparr>w_db := d'\<rparr>"
      using assms(8) w put
      by (auto simp: body_turn updateState_proc_def bind_proc_assoc updateLive_put simp del: turn.simps)
    then show ?thesis using decided firing.wrote by (intro exI[of _ Written]) auto
  next
    case wrote
    then show ?thesis
      using assms(7) by (intro reads[OF _ firing.reread]) (simp_all add: run w scheduledEvents_def del: turn.simps)
  next
    case reread
    then show ?thesis
      by (intro reads[OF _ firing.committed]) (simp_all add: commit_turn del: turn.simps for_proc.simps)
  next
    case committed
    then have "th' = (None, Done (Inr ()))" "w' = w\<lparr>w_events := w_events w @ [SyncflowScheduled (scheduledAs sf)]\<rparr>"
      using assms(8) by (auto simp: emit_turn simp del: turn.simps for_proc.simps)
    then show ?thesis using committed assms(7) w firing.announced by (intro exI[of _ Announced]) auto
  next
    case announced
    then show ?thesis by (intro reads[OF _ firing.announced]) simp_all
  next
    case late
    then show ?thesis
      by (intro reads[OF _ firing.refused]) (simp_all add: run caught triggeredBody_proc_def del: turn.simps)
  next
    case refused
    then show ?thesis by (intro reads[OF _ firing.ended]) (simp_all add: commit_turn del: turn.simps)
  next
    case ended
    then show ?thesis by (intro reads[OF _ firing.ended]) simp_all
  qed
qed

end

section \<open>Any number of concurrent calls\<close>

definition started :: "progress list \<Rightarrow> bool" where
  "started xs \<longleftrightarrow> Written \<in> set xs \<or> Announced \<in> set xs"

lemma count_list_update:
  "i < length xs \<Longrightarrow> count_list (xs[i := y]) a + of_bool (xs ! i = a) = count_list xs a + of_bool (y = a)"
proof -
  assume i: "i < length xs"
  have "count_list xs a = count_list (take i xs @ xs ! i # drop (Suc i) xs) a"
    by (rule arg_cong[OF id_take_nth_drop[OF i]])
  moreover have "count_list (xs[i := y]) a = count_list (take i xs @ y # drop (Suc i) xs) a"
    by (rule arg_cong[OF upd_conv_take_nth_drop[OF i]])
  ultimately show ?thesis by simp
qed

lemma set_update_ne: "i < length xs \<Longrightarrow> x \<in> set xs \<Longrightarrow> xs ! i \<noteq> x \<Longrightarrow> x \<in> set (xs[i := y])"
  by (metis in_set_conv_nth length_list_update nth_list_update_neq)

lemma started_update:
  assumes "i < length xs" and "advances (started xs) (xs ! i) y"
  shows "started (xs[i := y]) \<longleftrightarrow> started xs \<or> y = Written"
proof -
  have kept: "x \<in> set (xs[i := y])" if "x \<in> set xs" "x \<noteq> xs ! i" for x
    using set_update_ne[OF assms(1) that(1)] that(2) by blast
  have "xs ! i \<in> set xs" "y \<in> set (xs[i := y])" "set (xs[i := y]) \<subseteq> insert y (set xs)"
    using assms(1) by (simp_all add: set_update_memI set_update_subset_insert)
  then show ?thesis
    using assms(2) kept[of Written] kept[of Announced]
    by (cases "xs ! i"; cases y) (auto simp: started_def simp del: nth_mem)
qed

definition scheduledTimes :: "mongo \<Rightarrow> Syncflow \<Rightarrow> nat \<Rightarrow> world \<Rightarrow> world" where
  "scheduledTimes M sf k w = w\<lparr>
     w_db := put_state (sf_id sf) (setState M (no_update\<lparr>up_status := Some SCHEDULED\<rparr>)) (w_db w),
     w_events := w_events w @ replicate k (SyncflowScheduled (scheduledAs sf))\<rparr>"

context mongo_driver begin

lemma interleaved_firing:
  fixes w :: world
  assumes tg: "triggerable t (w_db w) sf ds sc" and gs: "ds_provider_type ds = GOOGLE_SHEETS" and "w_tx w = None"
    and "interleaved (replicate n (None, handleWorkflowTriggered_proc M T t)) w ts w'"
  defines "d' \<equiv> put_scheduled M (sf_id sf) (w_db w)"
  shows "\<exists>xs. list_all2 (firing M T t sf ds (w_db w) d') ts xs \<and> length xs = n \<and>
    (Late \<in> set xs \<longrightarrow> started xs) \<and> w' = w\<lparr>w_db := (if started xs then d' else w_db w),
      w_events := w_events w @ replicate (count_list xs Announced) (SyncflowScheduled (scheduledAs sf))\<rparr>"
  using assms(4)
proof (induction rule: interleaved.induct)
  case start
  show ?case
    by (intro exI[of _ "replicate n Waiting"])
      (auto simp: list_all2_conv_all_nth started_def count_list_0_iff intro: firing.first)
next
  case (step ts' w' i th w'')
  then obtain xs where xs: "list_all2 (firing M T t sf ds (w_db w) d') ts' xs" "length xs = n"
    "Late \<in> set xs \<longrightarrow> started xs" "w' = w\<lparr>w_db := (if started xs then d' else w_db w),
      w_events := w_events w @ replicate (count_list xs Announced) (SyncflowScheduled (scheduledAs sf))\<rparr>"
    by blast
  have i: "i < length xs" using step.hyps(2) xs(1) by (simp add: list_all2_lengthD)
  have b: "xs ! i \<noteq> Waiting \<longrightarrow> started xs"
  proof -
    obtain x where "xs ! i = x" "x \<in> set xs" using nth_mem[OF i] by blast
    then show ?thesis using xs(3) by (cases x) (simp_all add: started_def)
  qed
  have "firing M T t sf ds (w_db w) d' (ts' ! i) (xs ! i)" using xs(1) i by (simp add: list_all2_nthD2)
  from firing_turn[OF tg gs d'_def[THEN meta_eq_to_obj_eq] this _ _ b step.hyps(3)] xs(4) assms(3)
  obtain y where y: "firing M T t sf ds (w_db w) d' th y" "advances (started xs) (xs ! i) y"
    "w'' = w'\<lparr>w_db := (if started xs \<or> y = Written then d' else w_db w), w_events := w_events w' @
      (if xs ! i = Written \<and> y = Announced then [SyncflowScheduled (scheduledAs sf)] else [])\<rparr>"
    by auto
  have "count_list (xs[i := y]) Announced
      = count_list xs Announced + of_bool (xs ! i = Written \<and> y = Announced)"
    using count_list_update[OF i, of y Announced] y(2) by (cases "y = Announced") auto
  moreover have "Late \<in> set (xs[i := y]) \<longrightarrow> started (xs[i := y])"
    using xs(3) y(2) set_update_subset_insert[of xs i y] nth_mem[OF i] started_update[OF i y(2)] by auto
  ultimately show ?case
    using xs y started_update[OF i y(2)]
    by (intro exI[of _ "xs[i := y]"]) (simp add: list_all2_update_cong replicate_add[symmetric] replicate_append_same)
qed

text \<open>A call that has returned has announced or come late.\<close>

lemma awaiting: "inTransaction M (bind_proc (atomic m) k) \<noteq> Done r" "inTransaction M (Done (Inr es)) \<noteq> Done r"
  by (simp_all add: inTransaction_def atomic_def)

lemma firing_done:
  assumes "firing M T t sf ds d d' (tx, Done r) x"
  shows "x = Announced \<or> x = Late"
  using assms
proof cases
  case first
  then show ?thesis by (simp add: handleWorkflowTriggered_proc_def transaction_proc_def atomic_def)
next
  case found
  then show ?thesis by (simp add: handleSyncflowTriggered_proc_def bind_proc_assoc awaiting[THEN not_sym])
next
  case decided
  then show ?thesis by (simp add: updateState_proc_def bind_proc_assoc awaiting[THEN not_sym])
next
  case committed
  then show ?thesis by (simp add: atomic_def)
qed (simp_all add: triggeredBody_proc_def awaiting[THEN not_sym])

lemma concurrent_bound:
  assumes tg: "triggerable t (w_db w) sf ds sc" and gs: "ds_provider_type ds = GOOGLE_SHEETS" and "w_tx w = None"
    and "0 < n" and "interleaved (replicate n (None, handleWorkflowTriggered_proc M T t)) w ts w'" and "settledThreads ts"
  shows "\<exists>k \<in> {1..n}. w' = scheduledTimes M sf k w"
proof -
  obtain xs where xs: "list_all2 (firing M T t sf ds (w_db w) (put_scheduled M (sf_id sf) (w_db w))) ts xs"
    "length xs = n" "Late \<in> set xs \<longrightarrow> started xs"
    "w' = w\<lparr>w_db := (if started xs then put_scheduled M (sf_id sf) (w_db w) else w_db w),
      w_events := w_events w @ replicate (count_list xs Announced) (SyncflowScheduled (scheduledAs sf))\<rparr>"
    using interleaved_firing[OF tg gs assms(3,5)] by blast
  have "x = Announced \<or> x = Late" if x: "x \<in> set xs" for x
  proof -
    obtain i where i: "i < length xs" "x = xs ! i" using x by (auto simp: in_set_conv_nth)
    then have th: "firing M T t sf ds (w_db w) (put_scheduled M (sf_id sf) (w_db w)) (ts ! i) x" "i < length ts"
      using xs(1) by (simp_all add: list_all2_conv_all_nth)
    obtain tx r where "ts ! i = (tx, Done r)"
      using assms(6) nth_mem[OF th(2)] unfolding settledThreads_def by (metis prod.collapse)
    then show ?thesis using firing_done th(1) by simp
  qed
  moreover have "xs \<noteq> []" using xs(2) assms(4) by auto
  ultimately have "Announced \<in> set xs" using xs(3) by (cases xs) (auto simp: started_def)
  then have "1 \<le> count_list xs Announced" "started xs"
    by (simp_all add: started_def Suc_le_eq count_list_0_iff)
       (metis count_list_0_iff neq0_conv)
  moreover have "count_list xs Announced \<le> n" using count_le_length xs(2) by metis
  ultimately show ?thesis
    using xs(4) by (intro bexI[of _ "count_list xs Announced"]) (simp_all add: scheduledTimes_def)
qed

text \<open>Every number is reached: some calls take their snapshots, write one after the other, and the rest
  come late.\<close>

lemma run_among:
  assumes "w_tx w = None" and "run_proc p (w\<lparr>w_tx := tx\<rparr>) = (r, w'\<lparr>w_tx := None\<rparr>)"
  shows "interleaved (xs @ (tx, p) # ys) w (xs @ (None, Done r) # ys) (w'\<lparr>w_tx := None\<rparr>)"
  using run_alone[OF assms(1), of tx p] assms(2) by (auto dest: scheduled_among)

lemma snapshot_run:
  assumes tg: "triggerable t d sf ds sc" and gs: "ds_provider_type ds = GOOGLE_SHEETS"
    and "w_db w = d \<or> w_db w = put_scheduled M (sf_id sf) d"
  shows "run_proc (inTransaction M (triggeredBody_proc M T t)) (w\<lparr>w_tx := Some (d, id)\<rparr>) =
    (Inr (), w\<lparr>w_tx := None, w_db := put_scheduled M (sf_id sf) d,
       w_events := w_events w @ [SyncflowScheduled (scheduledAs sf)]\<rparr>)"
proof -
  let ?d = "put_scheduled M (sf_id sf) d" and ?w = "w\<lparr>w_tx := Some (d, id)\<rparr>"
  note id = triggerable_id[OF tg]
  have live: "live_syncflow (sf_id sf) d = Some sf" "ss_status (sf_state sf) = IDLING" "tr_workflow_type t = SYNCFLOW"
    "live_source (tr_sourceId t) d = Some ds" "live_connection (tr_sourceId t) d = Some sc"
    "cs_status (sc_state sc) = SC_ACTIVE" and tr: "live_trigger (tr_id t) (w_db w) \<noteq> None"
    using tg id assms(3) by (auto simp: triggerable_def)
  have put: "put_scheduled M (sf_id sf) (w_db w) = ?d"
    using assms(3) by (auto simp: put_scheduled_twice)
  have live': "live_syncflow (sf_id sf) ?d = Some (sd_syncflow (scheduledAs sf))"
    "\<lparr>sd_syncflow = sd_syncflow (scheduledAs sf), sd_version = ss_version (sf_state (sd_syncflow (scheduledAs sf)))\<rparr> = scheduledAs sf"
    using live by (simp_all add: live_syncflow_put_state scheduledAs_def setState_def no_update_def)
  have "triggeredTransaction M T t ?w = (Inr [SyncflowScheduled (scheduledAs sf)], ?w\<lparr>w_db := ?d\<rparr>)"
    using live live' tr put
    by (auto simp: id[symmetric] triggeredTransaction_def checkWorkflowAlreadyScheduled_def handleSyncflowTriggered_def
        runSyncflowController_def gs GoogleSheetsSyncflowController_run_def io_simps repo_simps)
  then show ?thesis
    by (simp add: inTransaction_def run_bind run_for run_atomic run_catch[of "catch_proc q h" for q h] run_body
        run_Done endTransaction_def io_simps del: run_proc.simps for_proc.simps)
qed

lemma concurrent_reached:
  fixes t :: Trigger
  assumes tg: "triggerable t (w_db w) sf ds sc" and gs: "ds_provider_type ds = GOOGLE_SHEETS" and tx: "w_tx w = None"
    and k: "0 < k" "k \<le> n"
  shows "interleaved (replicate n (None, handleWorkflowTriggered_proc M T t)) w
    (replicate n (None, Done (Inr ()))) (scheduledTimes M sf k w)"
proof -
  define P :: "unit thread" where "P = (None, handleWorkflowTriggered_proc M T t)"
  define D :: "unit thread" where "D = (None, Done (Inr ()))"
  define Q :: "unit thread" where "Q = (Some (w_db w, id), inTransaction M (triggeredBody_proc M T t))"
  let ?w = "\<lambda>m. if m = 0 then w else scheduledTimes M sf m w" and ?u = "scheduledTimes M sf k w"
  have split: "replicate (a - j) x @ ys = x # replicate (a - Suc j) x @ ys" if "j < a" for a j and x :: "unit thread" and ys
    using that by (metis Suc_diff_Suc replicate_Suc append_Cons)
  have join: "replicate (Suc a) x @ ys = replicate a x @ x # ys" for a and x :: "unit thread" and ys
    by (simp add: replicate_app_Cons_same)
  have snapshots: "interleaved (replicate n P) w (replicate j Q @ replicate (n - j) P) w" if "j \<le> n" for j
    using that
  proof (induction j)
    case (Suc j)
    then have "interleaved (replicate n P) w (replicate j Q @ P # replicate (n - Suc j) P) w"
      using split[of j n P "[]"] by simp
    moreover have "turn P w = (Q, w)" by (simp add: P_def Q_def handler_starts del: turn.simps)
    ultimately have "interleaved (replicate n P) w ((replicate j Q @ P # replicate (n - Suc j) P)[j := Q]) w"
      using interleaved.step by (metis length_append length_replicate less_add_same_cancel1 list.size(4) nth_append_length zero_less_Suc add_Suc_right)
    moreover have "(replicate j Q @ P # replicate (n - Suc j) P)[j := Q] = replicate j Q @ Q # replicate (n - Suc j) P"
      by (simp add: list_update_append)
    ultimately show ?case by (simp only: join)
  qed (simp add: interleaved.start)
  have one: "interleaved (xs @ Q # ys) (?w m) (xs @ D # ys) (?w (Suc m))" for m xs ys
  proof -
    have w: "w_tx (?w m) = None" "w_db (?w m) = w_db w \<or> w_db (?w m) = put_scheduled M (sf_id sf) (w_db w)"
      using tx by (simp_all add: scheduledTimes_def)
    have "(?w m)\<lparr>w_tx := None, w_db := put_scheduled M (sf_id sf) (w_db w),
        w_events := w_events (?w m) @ [SyncflowScheduled (scheduledAs sf)]\<rparr> = (?w (Suc m))\<lparr>w_tx := None\<rparr>"
      by (simp add: scheduledTimes_def replicate_append_same)
    moreover have "(?w (Suc m))\<lparr>w_tx := None\<rparr> = ?w (Suc m)" using tx by (simp add: scheduledTimes_def)
    ultimately show ?thesis
      using run_among[OF w(1), of "inTransaction M (triggeredBody_proc M T t)" "Some (w_db w, id)" "Inr ()" "?w (Suc m)" xs ys]
        snapshot_run[OF tg gs w(2), of T] by (simp add: Q_def D_def)
  qed
  have announced: "interleaved (replicate n P) w (replicate m D @ replicate (k - m) Q @ replicate (n - k) P) (?w m)"
    if "m \<le> k" for m
    using that
  proof (induction m)
    case 0
    then show ?case using snapshots[OF k(2)] by simp
  next
    case (Suc m)
    then have "interleaved (replicate n P) w (replicate m D @ Q # replicate (k - Suc m) Q @ replicate (n - k) P) (?w m)"
      using split[of m k Q "replicate (n - k) P"] by simp
    from interleaved_trans[OF one this] show ?case by (simp only: join)
  qed
  have late: "interleaved (xs @ P # ys) ?u (xs @ D # ys) ?u" for xs ys
  proof -
    have "live_syncflow (tr_workflow_id t) (w_db ?u) = Some (sd_syncflow (scheduledAs sf))"
      using tg triggerable_id[OF tg] by (simp add: scheduledTimes_def triggerable_def live_syncflow_put_state
          scheduledAs_def setState_def no_update_def)
    then have "handleWorkflowTriggered M T t ?u = (Inr (), ?u)"
      by (rule handle_not_idle) (simp add: scheduledAs_def)
    moreover have u: "w_tx ?u = None" "?u\<lparr>w_tx := None\<rparr> = ?u" using tx by (simp_all add: scheduledTimes_def)
    ultimately show ?thesis
      using run_among[OF u(1), of "handleWorkflowTriggered_proc M T t" None "Inr ()" ?u xs ys, unfolded u(2)]
        run_handler[OF u(1), of M T t]
      by (simp add: P_def D_def)
  qed
  have "interleaved (replicate n P) w (replicate (k + j) D @ replicate (n - k - j) P) ?u" if "j \<le> n - k" for j
    using that
  proof (induction j)
    case 0
    then show ?case using announced[of k] k(1) by simp
  next
    case (Suc j)
    then have "interleaved (replicate n P) w (replicate (k + j) D @ P # replicate (n - k - Suc j) P) ?u"
      using split[of j "n - k" P "[]"] by simp
    from interleaved_trans[OF late this] show ?case by (simp only: add_Suc_right join)
  qed
  from this[of "n - k"] show ?thesis using k(2) by (simp add: P_def D_def)
qed

end

section \<open>The worker on what they announce\<close>

lemma put_scheduled_kept:
  fixes M :: mongo and k :: nat
  assumes "startable t w sf ds sc"
  defines "u \<equiv> scheduledTimes M sf k w"
  shows "synced_source (scheduledAs sf) u ds" "startedIds (w_calls u) = startedIds (w_calls w)"
    "flow_state (sf_id sf) u = Some (SCHEDULED, ss_version (sf_state sf), ss_prevVersion (sf_state sf))"
    "db_sources (w_db u) = db_sources (w_db w)"
  using assms(1) triggerable_id[of t "w_db w" sf ds sc]
  by (auto simp: startable_def synced_source_def u_def scheduledTimes_def flow_state_def live_syncflow_put_state
      triggerable_def no_update_def)

lemma further_schedules:
  assumes "refuses_used (pl_S E)" and "delivers (pl_K E)" and "sf_name (sd_syncflow p) = ''googleSheetsFullSync''"
    and "w_events w = es @ replicate j (SyncflowScheduled p) @ fs" and "workflowIdOf p [] \<in> startedIds (w_calls w)"
  shows "\<exists>cs. pump E (j + n) (length es) w = pump E n (length es + j) (w\<lparr>w_calls := cs\<rparr>) \<and>
    startedIds cs = startedIds (w_calls w)"
  using assms(4,5)
proof (induction j arbitrary: es w)
  case 0
  show ?case by (intro exI[of _ "w_calls w"]) simp
next
  case (Suc j)
  obtain cs where cs: "consume E (SyncflowScheduled p) w = w\<lparr>w_calls := cs\<rparr>" "startedIds cs = startedIds (w_calls w)"
    using consume_again[OF assms(1-3) _ Suc.prems(2), of "SyncflowScheduled p"] by blast
  have ev: "w_events (w\<lparr>w_calls := cs\<rparr>) = (es @ [SyncflowScheduled p]) @ replicate j (SyncflowScheduled p) @ fs"
    using Suc.prems(1) by simp
  from Suc.IH[OF this] cs(2) Suc.prems(2) obtain cs' where
    "pump E (j + n) (length (es @ [SyncflowScheduled p])) (w\<lparr>w_calls := cs\<rparr>)
      = pump E n (length (es @ [SyncflowScheduled p]) + j) (w\<lparr>w_calls := cs'\<rparr>)" "startedIds cs' = startedIds cs"
    by auto
  moreover have "pump E (Suc j + n) (length es) w = pump E (j + n) (Suc (length es)) (w\<lparr>w_calls := cs\<rparr>)"
    using Suc.prems(1) cs(1) by (simp add: nth_append)
  ultimately show ?case using cs(2) by (intro exI[of _ cs']) simp
qed

lemma announcements_sync_once:
  assumes "mongo_ok (pl_M E)" and "delivers (pl_K E)" and "starts_new (pl_S E)" and "services_answer E"
    and "refuses_used (pl_S E)" and "startable t w sf ds sc" and "0 < k"
  defines "p \<equiv> scheduledAs sf"
  shows "\<exists>w' st r. pump E (k + 4) (length (w_events w)) (scheduledTimes (pl_M E) sf k w) = (length (w_events w'), w') \<and>
    r = st_rowsNumber (ds_statistics ds) + (sx_addedRowsCount st - sx_deletedRowsCount st) \<and>
    w_events w' = w_events w @ replicate k (SyncflowScheduled p) @ [GoogleSheetsDownload (ds_provider_id ds) (pl_K E p),
      GoogleSheetsProceedSync (pl_K E (pl_K E p)), SyncflowSucceed (succeeded p st),
      SyncflowCompleted \<lparr>cp_dataSourceId = sf_sourceId sf, cp_syncflowId = sf_id sf,
        cp_syncVersion = ss_version (sf_state sf), cp_rowsNumber = r\<rparr>] \<and>
    flow_state (sf_id sf) w' = Some (IDLING, ss_version (sf_state sf) + 1, ss_version (sf_state sf)) \<and>
    rows_of (sf_sourceId sf) (w_db w') = Some r"
proof -
  let ?u = "scheduledTimes (pl_M E) sf k w" and ?K = "pl_K E" and ?pr = "ds_provider_id ds"
  obtain j where j: "k = Suc j" using assms(7) by (cases k) auto
  have name: "sf_name (sd_syncflow p) = ''googleSheetsFullSync''"
    and new: "\<forall>sfx \<in> {[], ''-download'', ''-proceed''}. workflowIdOf p sfx \<notin> startedIds (w_calls w)"
    using assms(6) by (simp_all add: startable_def p_def)
  note u = put_scheduled_kept[OF assms(6), of "pl_M E" k, folded p_def]
  have evs: "w_events ?u = w_events w @ replicate k (SyncflowScheduled p)" by (simp add: scheduledTimes_def p_def)
  have "flow_state (sf_id (sd_syncflow p)) ?u = Some (SCHEDULED, ss_version (sf_state sf), ss_prevVersion (sf_state sf))"
    using u(3) by (simp add: p_def)
  then obtain w1 where w1: "consume E (SyncflowScheduled p) ?u = w1"
    "w_events w1 = w_events ?u @ [GoogleSheetsDownload ?pr (?K p)]"
    "kept_obs ?pr w1 = kept_obs ?pr (?u\<lparr>w_calls := w_calls ?u @
      [StartWorkflow ''googleSheetsFullSync'' (startOptions (?K p) [])]\<rparr>)"
    "flow_state (sf_id (sd_syncflow p)) w1 = Some (RUNNING, ss_version (sf_state sf), ss_prevVersion (sf_state sf))"
    using consume_scheduled[OF assms(1-3) _ name u(1)] new u(2) by auto
  have s1: "synced_source p w1 ds" "startedIds (w_calls w1) = insert (workflowIdOf p []) (startedIds (w_calls w))"
    "db_sources (w_db w1) = db_sources (w_db w)"
    using w1(3) u(1,2,4) delivered[OF assms(2)] by (auto simp: kept_obs_def synced_source_def startOptions_def)
  have "w_events w1 = (w_events w @ [SyncflowScheduled p]) @ replicate j (SyncflowScheduled p) @
      [GoogleSheetsDownload ?pr (?K p)]"
    using w1(2) evs j by simp
  from further_schedules[OF assms(5,2) name this, of 4] s1(2) obtain cs where
    cs: "pump E (j + 4) (length (w_events w @ [SyncflowScheduled p])) w1 =
      pump E 4 (length (w_events w @ [SyncflowScheduled p]) + j) (w1\<lparr>w_calls := cs\<rparr>)"
    "startedIds cs = startedIds (w_calls w1)" by auto
  have w2: "w_events (w1\<lparr>w_calls := cs\<rparr>) = (w_events w @ replicate k (SyncflowScheduled p)) @ [GoogleSheetsDownload ?pr (?K p)]"
    "synced_source p (w1\<lparr>w_calls := cs\<rparr>) ds" "flow_state (sf_id (sd_syncflow p)) (w1\<lparr>w_calls := cs\<rparr>) \<noteq> None"
    using w1(2,4) evs s1(1) by (auto simp: synced_source_def flow_state_def)
  have ids: "\<forall>sfx \<in> {''-download'', ''-proceed''}. workflowIdOf p sfx \<notin> startedIds (w_calls (w1\<lparr>w_calls := cs\<rparr>))"
    using cs(2) s1(2) new suffixes_differ[of p] by simp
  obtain w' st r where w': "pump E 4 (length (w_events w @ replicate k (SyncflowScheduled p))) (w1\<lparr>w_calls := cs\<rparr>)
      = (length (w_events w'), w')"
    "r = st_rowsNumber (ds_statistics ds) + (sx_addedRowsCount st - sx_deletedRowsCount st)"
    "w_events w' = w_events (w1\<lparr>w_calls := cs\<rparr>) @ [GoogleSheetsProceedSync (?K (?K p)), SyncflowSucceed (succeeded p st),
      SyncflowCompleted \<lparr>cp_dataSourceId = sf_sourceId (sd_syncflow p), cp_syncflowId = sf_id (sd_syncflow p),
        cp_syncVersion = sd_version p, cp_rowsNumber = r\<rparr>]"
    "flow_state (sf_id (sd_syncflow p)) w' = Some (IDLING, sd_version p + 1, sd_version p)"
    "db_sources (w_db w') = db_sources (put_rows (sf_sourceId (sd_syncflow p)) r (w_db (w1\<lparr>w_calls := cs\<rparr>)))"
    using download_completes[OF assms(1-4) w2 ids] by blast
  have "pump E (Suc (j + 4)) (length (w_events w)) ?u = pump E (j + 4) (Suc (length (w_events w))) w1"
    unfolding pump.simps using w1(1) evs j by (simp add: nth_append)
  then have "pump E (k + 4) (length (w_events w)) ?u = (length (w_events w'), w')"
    using w'(1) cs(1) j by simp
  moreover have "rows_of (sf_sourceId sf) (w_db w') = Some r"
    using w'(5) s1(1) rows_put_rows[of "sf_sourceId sf" "sf_sourceId sf" r "w_db w1"]
    by (simp add: rows_of_def synced_source_def p_def)
  ultimately show ?thesis
    using w'(2-4) w2(1) by (intro exI[of _ w'] exI[of _ st] exI[of _ r]) (simp add: p_def)
qed

lemma keeps_session: "keeps w_tx (handleWorkflowTriggered M T t)"
proof -
  have "keeps w_tx (runWithTransaction M m)" for m :: "event list act"
    by (simp add: keeps_def runWithTransaction_def split: prod.split sum.split)
  then show ?thesis
    unfolding handleWorkflowTriggered_def by (intro keeps_intros) (simp_all add: keeps_def)
qed

section \<open>Properties\<close>

text \<open>
  C15: the controller, cut at its awaits, is the controller. A thread that handles a trigger and is never
  interrupted ends in exactly the result and the world of \<open>handleWorkflowTriggered\<close>, for every
  provider type and all answers of the services.
\<close>

theorem uninterrupted_handler:
  assumes "w_tx w = None"
  shows "(\<exists>tx. interleaved [(None, handleWorkflowTriggered_proc M T t)] w [(tx, Done r)] w') \<longleftrightarrow>
    handleWorkflowTriggered M T t w = (r, w')"
proof -
  have tx: "w_tx (snd (handleWorkflowTriggered M T t w)) = None"
    using keeps_session[of M T t] assms by (simp add: keeps_def)
  show ?thesis
    unfolding interleaved_alone[OF assms] run_handler[OF assms]
    using tx by (auto simp: no_session intro!: exI[of _ None])
qed

theorem uninterrupted_handler_witness:
  "\<exists>w' tx. interleaved [(None, handleWorkflowTriggered_proc listMongo example_services example_trigger)] example_world
     [(tx, Done (fst (handleWorkflowTriggered listMongo example_services example_trigger example_world)))] w'"
  using uninterrupted_handler [of example_world listMongo example_services example_trigger
      "fst (handleWorkflowTriggered listMongo example_services example_trigger example_world)"
      "snd (handleWorkflowTriggered listMongo example_services example_trigger example_world)"]
  by (auto simp: example_defs)

text \<open>
  C6: one trigger, fired \<open>n\<close> times at once. For the trigger of an idle Google Sheets syncflow that may start,
  the worlds in which \<open>n\<close> interleaved calls of the controller can end are exactly these: the store is
  the one that a single call leaves, and the schedule event of that version was emitted \<open>k\<close> times, for
  some \<open>k\<close> between 1 and \<open>n\<close>. The transaction does not keep two calls apart, because the
  update does not use its session; but no call schedules another version, and none is lost.
\<close>

theorem concurrent_triggers:
  assumes "mongo_ok M" and "triggerable t (w_db w) sf ds sc" and "ds_provider_type ds = GOOGLE_SHEETS"
    and "w_tx w = None" and "0 < n"
  shows "(\<exists>ts. interleaved (replicate n (None, handleWorkflowTriggered_proc M T t)) w ts w' \<and> settledThreads ts) \<longleftrightarrow>
    (\<exists>k \<in> {1..n}. w' = scheduledTimes M sf k w)"
proof
  assume "\<exists>ts. interleaved (replicate n (None, handleWorkflowTriggered_proc M T t)) w ts w' \<and> settledThreads ts"
  then show "\<exists>k \<in> {1..n}. w' = scheduledTimes M sf k w"
    using mongo_driver.concurrent_bound[OF mongo_driverI[OF assms(1)] assms(2-5)] by blast
next
  assume "\<exists>k \<in> {1..n}. w' = scheduledTimes M sf k w"
  then obtain k where "1 \<le> k" "k \<le> n" "w' = scheduledTimes M sf k w" by auto
  then show "\<exists>ts. interleaved (replicate n (None, handleWorkflowTriggered_proc M T t)) w ts w' \<and> settledThreads ts"
    using mongo_driver.concurrent_reached[OF mongo_driverI[OF assms(1)] assms(2-4), of k n T]
    by (intro exI[of _ "replicate n (None, Done (Inr ()))"]) (simp add: settledThreads_def Suc_le_eq)
qed

text \<open>Two calls that emit the event twice.\<close>

theorem concurrent_triggers_witness:
  "\<exists>ts w'. interleaved (replicate 2 (None, handleWorkflowTriggered_proc listMongo example_services example_trigger))
     example_world ts w' \<and> settledThreads ts \<and> length (w_events w') = length (w_events example_world) + 2"
proof -
  have "triggerable example_trigger (w_db example_world) example_syncflow example_source example_connection"
    by (simp add: triggerable_def live_defs example_defs defaultSyncflowState_def defaultSyncConnectionState_def)
  moreover have "ds_provider_type example_source = GOOGLE_SHEETS" "w_tx example_world = None" "0 < (2 :: nat)"
    by (simp_all add: example_defs)
  moreover have "\<exists>k \<in> {1..2}. scheduledTimes listMongo example_syncflow 2 example_world
      = scheduledTimes listMongo example_syncflow k example_world"
    by (rule bexI[of _ 2]) simp_all
  ultimately obtain ts where "interleaved (replicate 2 (None, handleWorkflowTriggered_proc listMongo example_services example_trigger))
      example_world ts (scheduledTimes listMongo example_syncflow 2 example_world)" "settledThreads ts"
    using concurrent_triggers [OF listMongo_ok, THEN iffD2] by blast
  then show ?thesis by (intro exI[of _ ts] exI) (auto simp: scheduledTimes_def)
qed

text \<open>
  C7: and still one sync. Whatever way \<open>n\<close> simultaneous firings of a trigger are interleaved, when the worker
  and the post-processor have handled the events that result, exactly one run has taken place: one download, one
  success, one completion with the right number of rows, and the syncflow is idle, one
  version further. It is Temporal that refuses the workflow id of the second schedule event.
\<close>

theorem concurrent_triggers_sync_once:
  assumes "mongo_ok (pl_M E)" and "delivers (pl_K E)" and "starts_new (pl_S E)" and "services_answer E"
    and "refuses_used (pl_S E)" and "startable t w sf ds sc" and "w_tx w = None" and "0 < n"
    and "interleaved (replicate n (None, handleWorkflowTriggered_proc (pl_M E) T t)) w ts u" and "settledThreads ts"
  defines "p \<equiv> scheduledAs sf"
  shows "\<exists>w' k st r. pump E (k + 4) (length (w_events w)) u = (length (w_events w'), w') \<and> 1 \<le> k \<and> k \<le> n \<and>
    r = st_rowsNumber (ds_statistics ds) + (sx_addedRowsCount st - sx_deletedRowsCount st) \<and>
    w_events w' = w_events w @ replicate k (SyncflowScheduled p) @ [GoogleSheetsDownload (ds_provider_id ds) (pl_K E p),
      GoogleSheetsProceedSync (pl_K E (pl_K E p)), SyncflowSucceed (succeeded p st),
      SyncflowCompleted \<lparr>cp_dataSourceId = sf_sourceId sf, cp_syncflowId = sf_id sf,
        cp_syncVersion = ss_version (sf_state sf), cp_rowsNumber = r\<rparr>] \<and>
    flow_state (sf_id sf) w' = Some (IDLING, ss_version (sf_state sf) + 1, ss_version (sf_state sf)) \<and>
    rows_of (sf_sourceId sf) (w_db w') = Some r"
proof -
  have "triggerable t (w_db w) sf ds sc" "ds_provider_type ds = GOOGLE_SHEETS"
    using assms(6) by (simp_all add: startable_def synced_source_def)
  from mongo_driver.concurrent_bound[OF mongo_driverI[OF assms(1)] this assms(7-10)]
  obtain k where k: "0 < k" "1 \<le> k" "k \<le> n" "u = scheduledTimes (pl_M E) sf k w" by auto
  show ?thesis
    using announcements_sync_once[OF assms(1-6) k(1)] k(2,3) unfolding p_def k(4) by blast
qed

theorem concurrent_triggers_sync_once_witness:
  "\<exists>w' k. pump (example_pipeline\<lparr>pl_S := remembering_temporal\<rparr>) (k + 4) 0
       (scheduledTimes listMongo example_syncflow 3 (fired_world\<lparr>w_events := []\<rparr>)) = (length (w_events w'), w') \<and>
     flow_state ''s1'' w' = Some (IDLING, 2, 1)"
proof -
  let ?E = "example_pipeline\<lparr>pl_S := remembering_temporal\<rparr>" and ?w = "fired_world\<lparr>w_events := []\<rparr>"
  have E: "mongo_ok (pl_M ?E)" "delivers (pl_K ?E)" "services_answer ?E" "starts_new (pl_S ?E)" "refuses_used (pl_S ?E)"
    using example_pipeline_answers
    by (simp_all add: services_answer_def starts_new_def refuses_used_def remembering_temporal_def)
  have st: "startable example_trigger ?w example_syncflow example_source example_connection"
    using example_startable by (simp add: startable_def synced_source_def)
  have w: "w_tx ?w = None" by (simp add: fired_world_def example_defs)
  have "triggerable example_trigger (w_db ?w) example_syncflow example_source example_connection"
    "ds_provider_type example_source = GOOGLE_SHEETS"
    using st by (simp_all add: startable_def synced_source_def)
  from mongo_driver.concurrent_reached[OF mongo_driverI[OF E(1)] this w, of 3 3 good_services]
  have il: "interleaved (replicate 3 (None, handleWorkflowTriggered_proc (pl_M ?E) good_services example_trigger)) ?w
      (replicate 3 (None, Done (Inr ()))) (scheduledTimes (pl_M ?E) example_syncflow 3 ?w)" by simp
  have se: "settledThreads (replicate 3 (None, Done (Inr ())) :: unit thread list)" by (simp add: settledThreads_def)
  have "sf_id example_syncflow = ''s1''" "ss_version (sf_state example_syncflow) = 1" "pl_M ?E = listMongo" "0 < (3 :: nat)"
    by (simp_all add: example_syncflow_def defaultSyncflowState_def example_pipeline_def)
  then show ?thesis
    using concurrent_triggers_sync_once [OF E(1,2,4,3,5) st w _ il se] by auto
qed

end
