(* ===== verification/LostUpdates.thy ===== *)
theory LostUpdates
  imports Processes PostProcessor
begin

text \<open>
  Success events of one data source that are handled at the same time. The post-processor reads the row
  count, deletes objects of the storage, and then stores the count it has computed. Instances of the
  application that share a consumer group handle the events of different partitions at once. The theory cuts
  \<open>handleSyncflowSucceed\<close> at its awaits and determines which counts can result.
\<close>

section \<open>The handler, cut at its awaits\<close>

text \<open>\<open>updateStatistics\<close> runs in a transaction of its own, which MongoDB isolates: it is one step.\<close>

definition completeSucceed_proc :: "mongo \<Rightarrow> SyncflowSucceedPayload \<Rightarrow> int \<Rightarrow> (world, js_error, unit) proc" where
  "completeSucceed_proc M data rowsNumber =
    bind_proc (atomic (DataSourceRepository_updateStatistics M (sp_dataSourceId data)
      \<lparr>uss_rowsNumber = Some rowsNumber, uss_storageUsage = None\<rparr> no_options)) (\<lambda>_.
    atomic (emitEvent (SyncflowCompleted \<lparr>cp_dataSourceId = sp_dataSourceId data,
      cp_syncflowId = sp_syncflowId data, cp_syncVersion = sp_syncVersion data, cp_rowsNumber = rowsNumber\<rparr>)))"

definition countSucceed_proc :: "mongo \<Rightarrow> storage \<Rightarrow> SyncflowSucceedPayload \<Rightarrow> Syncflow option \<Rightarrow> DataSource option \<Rightarrow>
    (world, js_error, unit) proc" where
  "countSucceed_proc M X data sf ds = (case sf of None \<Rightarrow> Done (Inr ())
    | Some syncflow \<Rightarrow> (case ds of None \<Rightarrow> Done (Inr ())
    | Some dataSource \<Rightarrow>
        bind_proc (Done (getWorkflowCleaner X (ds_provider_type dataSource))) (\<lambda>cleaner.
        bind_proc (atomic (cleaner syncflow (sp_syncVersion data) (sp_prevSyncVersion data))) (\<lambda>_.
        completeSucceed_proc M data (st_rowsNumber (ds_statistics dataSource) +
          (sx_addedRowsCount (sp_statistics data) - sx_deletedRowsCount (sp_statistics data)))))))"

definition handleSyncflowSucceed_proc ::
  "mongo \<Rightarrow> storage \<Rightarrow> SyncflowSucceedPayload \<Rightarrow> (world, js_error, unit) proc" where
  "handleSyncflowSucceed_proc M X data =
    bind_proc (atomic (SyncflowRepository_getById M (sp_syncflowId data) includeDeletedOnly)) (\<lambda>sf.
    bind_proc (atomic (DataSourceRepository_getById M (sp_dataSourceId data) includeDeletedOnly)) (\<lambda>ds.
    countSucceed_proc M X data sf ds))"

lemma run_lift: "run_proc (Done r) = lift_io r"
  by simp

lemma run_succeed: "run_proc (handleSyncflowSucceed_proc M X p) = handleSyncflowSucceed M X p"
  by (simp add: handleSyncflowSucceed_proc_def countSucceed_proc_def completeSucceed_proc_def
      handleSyncflowSucceed_def run_bind run_atomic run_option run_lift Let_def lift_io_def return_io_def
      del: run_proc.simps bind_proc.simps cong: option.case_cong)

section \<open>The stages of a call\<close>

text \<open>The difference that the \<open>i\<close>-th event carries, and the count when those of a set are added.\<close>

definition counted :: "SyncflowSucceedPayload list \<Rightarrow> int \<Rightarrow> nat set \<Rightarrow> int" where
  "counted ps r I = r + (\<Sum>i \<in> I. rows_delta (ps ! i))"

datatype counting = Unread | ReadCount "nat set" | WroteCount

inductive succeeding :: "mongo \<Rightarrow> storage \<Rightarrow> SyncflowSucceedPayload list \<Rightarrow> int \<Rightarrow> Syncflow \<Rightarrow> nat \<Rightarrow> unit thread \<Rightarrow>
    counting \<Rightarrow> bool" for M X ps r sf i where
  first: "succeeding M X ps r sf i (None, handleSyncflowSucceed_proc M X (ps ! i)) Unread"
| flow: "succeeding M X ps r sf i (None, bind_proc (atomic (DataSourceRepository_getById M (sp_dataSourceId (ps ! i))
    includeDeletedOnly)) (\<lambda>ds. countSucceed_proc M X (ps ! i) (Some sf) ds)) Unread"
| source: "succeeding M X ps r sf i (None, bind_proc (atomic (cleanDiffData X (sf_sourceId sf) (sp_prevSyncVersion (ps ! i))))
    (\<lambda>_. completeSucceed_proc M (ps ! i) (counted ps r J + rows_delta (ps ! i)))) (ReadCount J)"
| cleaned: "succeeding M X ps r sf i
    (None, completeSucceed_proc M (ps ! i) (counted ps r J + rows_delta (ps ! i))) (ReadCount J)"
| wrote: "succeeding M X ps r sf i (None, atomic (emitEvent e)) WroteCount"
| ended: "succeeding M X ps r sf i (None, Done (Inr ())) WroteCount"

lemma atomic_turn: "turn (tx, bind_proc (atomic m) k) w = (case m (w\<lparr>w_tx := tx\<rparr>) of (r, u) \<Rightarrow>
     ((w_tx u, (case r of Inl e \<Rightarrow> Done (Inl e) | Inr x \<Rightarrow> k x)), u\<lparr>w_tx := w_tx w\<rparr>))"
  by (simp add: atomic_def split: prod.split)

text \<open>The stored count, and the part of the store that the handlers look at.\<close>

definition countWorld :: "SyncflowSucceedPayload \<Rightarrow> Syncflow \<Rightarrow> DataSource \<Rightarrow> int \<Rightarrow> world \<Rightarrow> bool" where
  "countWorld p sf ds v w \<longleftrightarrow> w_tx w = None \<and>
     find (\<lambda>s. sf_id s = sp_syncflowId p) (db_syncflows (w_db w)) = Some sf \<and>
     find (\<lambda>s. ds_id s = sp_dataSourceId p) (db_sources (w_db w)) =
       Some (ds\<lparr>ds_statistics := (ds_statistics ds)\<lparr>st_rowsNumber := v\<rparr>\<rparr>) \<and> ds_provider_type ds \<noteq> AIR_TABLE"

context mongo_driver begin

lemma succeeding_turn:
  assumes "succeeding M X ps r sf i th x" and w: "countWorld (ps ! i) sf ds v w" and v: "v = counted ps r I"
    and del: "\<forall>cs. \<exists>errs. xs_delete X cs = Inr errs" and "turn th w = (th', w')"
  shows "\<exists>y. succeeding M X ps r sf i th' y \<and>
    ((y = x \<or> x = Unread \<and> y = ReadCount I) \<and> countWorld (ps ! i) sf ds v w' \<and> w_db w' = w_db w \<or>
     (\<exists>J. x = ReadCount J \<and> y = WroteCount \<and>
       w_db w' = put_rows (sp_dataSourceId (ps ! i)) (counted ps r J + rows_delta (ps ! i)) (w_db w) \<and> w_tx w' = None))"
proof -
  let ?p = "ps ! i"
  have w': "w_tx w = None" "w\<lparr>w_tx := None\<rparr> = w"
    "find (\<lambda>s. sf_id s = sp_syncflowId ?p) (db_syncflows (w_db w)) = Some sf"
    "find (\<lambda>s. ds_id s = sp_dataSourceId ?p) (db_sources (w_db w)) =
       Some (ds\<lparr>ds_statistics := (ds_statistics ds)\<lparr>st_rowsNumber := v\<rparr>\<rparr>)" "ds_provider_type ds \<noteq> AIR_TABLE"
    using w by (simp_all add: countWorld_def)
  have reads: ?thesis if "turn th w = (u, w)" "succeeding M X ps r sf i u y" "y = x \<or> x = Unread \<and> y = ReadCount I" for u y
    using that assms(2,5) by (intro exI[of _ y]) auto
  show ?thesis
    using assms(1)
  proof cases
    case first
    then show ?thesis
      by (intro reads[OF _ succeeding.flow])
        (simp_all add: handleSyncflowSucceed_proc_def atomic_turn w' SyncflowRepository_getById_def io_simps del: turn.simps)
  next
    case flow
    have "turn th w = ((None, bind_proc (atomic (cleanDiffData X (sf_sourceId sf) (sp_prevSyncVersion ?p)))
        (\<lambda>_. completeSucceed_proc M ?p (counted ps r I + rows_delta ?p))), w)"
      using flow w'(5) by (cases "ds_provider_type ds")
        (simp_all add: atomic_turn w' DataSourceRepository_getById_def countSucceed_proc_def getWorkflowCleaner_def
          MicrosoftExcelWorkflowCleaner_run_def GoogleSheetsWorkflowCleaner_run_def rows_delta_def v io_simps del: turn.simps)
    then show ?thesis using flow by (intro reads[OF _ succeeding.source]) simp_all
  next
    case (source J)
    obtain errs where "xs_delete X (w_calls w @ [StorageDelete (diffDataKeys (sf_sourceId sf) (sp_prevSyncVersion ?p))]) = Inr errs"
      using del by blast
    then have "th' = (None, completeSucceed_proc M ?p (counted ps r J + rows_delta ?p))"
      "w_db w' = w_db w" "w_tx w' = None"
      using source assms(5) by (auto simp: atomic_turn w' cleanDiffData_def io_simps simp del: turn.simps)
    then show ?thesis using source w by (auto simp: countWorld_def intro!: exI[of _ "ReadCount J"] succeeding.cleaned)
  next
    case (cleaned J)
    have "th' = (None, atomic (emitEvent (SyncflowCompleted \<lparr>cp_dataSourceId = sp_dataSourceId ?p,
        cp_syncflowId = sp_syncflowId ?p, cp_syncVersion = sp_syncVersion ?p,
        cp_rowsNumber = counted ps r J + rows_delta ?p\<rparr>)))"
      "w' = w\<lparr>w_db := put_rows (sp_dataSourceId ?p) (counted ps r J + rows_delta ?p) (w_db w)\<rparr>"
      using cleaned assms(5)
      by (auto simp: completeSucceed_proc_def atomic_turn w' updateStatistics_rows[OF w'(4)] simp del: turn.simps)
    then show ?thesis using cleaned w'(1) by (intro exI[of _ WroteCount]) (simp add: succeeding.wrote)
  next
    case (wrote e)
    then have "th' = (None, Done (Inr ()))" "w_db w' = w_db w" "w_tx w' = None"
      using assms(5) by (auto simp: atomic_def w')
    then show ?thesis using wrote w by (auto simp: countWorld_def intro!: exI[of _ WroteCount] succeeding.ended)
  next
    case ended
    then show ?thesis by (intro reads[OF _ succeeding.ended]) simp_all
  qed
qed

end

lemma succeeding_done: "succeeding M X ps r sf i (tx, Done res) x \<Longrightarrow> x = WroteCount"
  by (erule succeeding.cases)
    (simp_all add: handleSyncflowSucceed_proc_def completeSucceed_proc_def atomic_def)

section \<open>Any number of concurrent calls\<close>

definition succeedThreads :: "mongo \<Rightarrow> storage \<Rightarrow> SyncflowSucceedPayload list \<Rightarrow> unit thread list" where
  "succeedThreads M X ps = map (\<lambda>p. (None, handleSyncflowSucceed_proc M X p)) ps"

definition same_source :: "SyncflowSucceedPayload list \<Rightarrow> oid \<Rightarrow> oid \<Rightarrow> bool" where
  "same_source ps i j \<longleftrightarrow> (\<forall>p \<in> set ps. sp_dataSourceId p = i \<and> sp_syncflowId p = j)"

text \<open>Between the calls: which counts have been read, and which the stored one is made of.\<close>

definition countingState :: "SyncflowSucceedPayload list \<Rightarrow> counting list \<Rightarrow> nat set \<Rightarrow> bool" where
  "countingState ps xs I \<longleftrightarrow> length xs = length ps \<and> I \<subseteq> {i. i < length ps \<and> xs ! i = WroteCount} \<and>
     (I = {} \<longrightarrow> WroteCount \<notin> set xs) \<and>
     (\<forall>i J. i < length ps \<longrightarrow> xs ! i = ReadCount J \<longrightarrow> J \<subseteq> {i. i < length ps \<and> xs ! i = WroteCount})"

lemma countingState_read:
  assumes "countingState ps xs I" and "i < length ps" and "y = xs ! i \<or> xs ! i = Unread \<and> y = ReadCount I"
  shows "countingState ps (xs[i := y]) I"
proof (cases "y = xs ! i")
  case False
  then have y: "xs ! i = Unread" "y = ReadCount I" using assms(3) by auto
  have "{j. j < length ps \<and> xs[i := y] ! j = WroteCount} = {j. j < length ps \<and> xs ! j = WroteCount}"
    using y assms(1,2) by (auto simp: countingState_def nth_list_update)
  moreover have "WroteCount \<in> set (xs[i := y]) \<longrightarrow> WroteCount \<in> set xs"
    using set_update_subset_insert[of xs i y] y(2) by auto
  ultimately show ?thesis using assms(1,2) y by (auto simp: countingState_def nth_list_update split: if_splits)
qed (use assms(1) in simp)

lemma countingState_write:
  assumes "countingState ps xs I" and "i < length ps" and "xs ! i = ReadCount J"
  shows "countingState ps (xs[i := WroteCount]) (insert i J)" "i \<notin> J" "finite J"
proof -
  have J: "J \<subseteq> {j. j < length ps \<and> xs ! j = WroteCount}" "length xs = length ps"
    using assms by (auto simp: countingState_def)
  then show "i \<notin> J" "finite J" using assms(3) by (auto intro: finite_subset)
  have "{k. k < length ps \<and> xs[i := WroteCount] ! k = WroteCount} = insert i {k. k < length ps \<and> xs ! k = WroteCount}"
    using assms(2) J(2) by (auto simp: nth_list_update)
  moreover have "length (xs[i := WroteCount]) = length ps" using J(2) by simp
  moreover have "K \<subseteq> {k. k < length ps \<and> xs ! k = WroteCount}"
    if "k < length ps" "xs[i := WroteCount] ! k = ReadCount K" for k K
    using that assms(1) J(2) by (cases "k = i") (auto simp: countingState_def)
  ultimately show "countingState ps (xs[i := WroteCount]) (insert i J)"
    using J unfolding countingState_def by blast
qed

context mongo_driver begin

lemma countWorld_same:
  "same_source ps i j \<Longrightarrow> p \<in> set ps \<Longrightarrow> q \<in> set ps \<Longrightarrow> countWorld p sf ds v w = countWorld q sf ds v w"
  by (simp add: countWorld_def same_source_def)

lemma countWorld_put:
  assumes "countWorld p sf ds v w" and "w_db w' = put_rows (sp_dataSourceId p) n (w_db w)" and "w_tx w' = None"
  shows "countWorld p sf ds n w'"
  using assms by (auto simp: countWorld_def rows_put_rows)

lemma counting_interleaved:
  assumes same: "same_source ps i j" and "q \<in> set ps" and w: "countWorld q sf ds r w"
    and del: "\<forall>cs. \<exists>errs. xs_delete X cs = Inr errs" and "interleaved (succeedThreads M X ps) w ts w'"
  shows "\<exists>xs I. length ts = length ps \<and> (\<forall>i < length ps. succeeding M X ps r sf i (ts ! i) (xs ! i)) \<and>
    countingState ps xs I \<and> countWorld q sf ds (counted ps r I) w'"
  using assms(5)
proof (induction rule: interleaved.induct)
  case start
  show ?case
    by (intro exI[of _ "replicate (length ps) Unread"] exI[of _ "{}"])
      (auto simp: succeedThreads_def countingState_def counted_def w intro: succeeding.first)
next
  case (step ts' w' i th w'')
  then obtain xs I where x: "length ts' = length ps" "\<forall>i < length ps. succeeding M X ps r sf i (ts' ! i) (xs ! i)"
    "countingState ps xs I" "countWorld q sf ds (counted ps r I) w'" by blast
  have i: "i < length ps" "ps ! i \<in> set ps" "i < length xs" using step.hyps(2) x(1,3) by (simp_all add: countingState_def)
  have cw: "countWorld (ps ! i) sf ds v u = countWorld q sf ds v u" for v u by (rule countWorld_same[OF same i(2) assms(2)])
  have upd: "\<forall>k < length ps. succeeding M X ps r sf k (ts'[i := th] ! k) (xs[i := y] ! k)"
    if "succeeding M X ps r sf i th y" for y
    using that x(1,2) i by (simp add: nth_list_update)
  from succeeding_turn[OF x(2)[rule_format, OF i(1)] x(4)[folded cw] refl del step.hyps(3)]
  obtain y where y: "succeeding M X ps r sf i th y"
    "(y = xs ! i \<or> xs ! i = Unread \<and> y = ReadCount I) \<and> countWorld (ps ! i) sf ds (counted ps r I) w'' \<or>
     (\<exists>J. xs ! i = ReadCount J \<and> y = WroteCount \<and>
       w_db w'' = put_rows (sp_dataSourceId (ps ! i)) (counted ps r J + rows_delta (ps ! i)) (w_db w') \<and> w_tx w'' = None)"
    by blast
  from y(2) show ?case
  proof (elim disjE[of "_ \<and> _"] exE conjE)
    assume "y = xs ! i \<or> xs ! i = Unread \<and> y = ReadCount I" "countWorld (ps ! i) sf ds (counted ps r I) w''"
    then show ?case
      using upd[OF y(1)] x(1) countingState_read[OF x(3) i(1)] cw
      by (intro exI[of _ "xs[i := y]"] exI[of _ I]) simp
  next
    fix J
    assume J: "xs ! i = ReadCount J" "y = WroteCount"
      "w_db w'' = put_rows (sp_dataSourceId (ps ! i)) (counted ps r J + rows_delta (ps ! i)) (w_db w')" "w_tx w'' = None"
    note c = countingState_write[OF x(3) i(1) J(1)]
    have "counted ps r J + rows_delta (ps ! i) = counted ps r (insert i J)" using c(2,3) by (simp add: counted_def)
    then have "countWorld q sf ds (counted ps r (insert i J)) w''"
      using countWorld_put[OF x(4)[folded cw] J(3,4)] cw by simp
    then show ?case
      using upd[OF y(1)] x(1) c(1) J(2) by (intro exI[of _ "xs[i := y]"] exI[of _ "insert i J"]) simp
  qed
qed

lemma counting_bound:
  assumes same: "same_source ps i j" and "q \<in> set ps" and w: "countWorld q sf ds r w"
    and del: "\<forall>cs. \<exists>errs. xs_delete X cs = Inr errs" and "interleaved (succeedThreads M X ps) w ts w'"
    and "settledThreads ts"
  shows "\<exists>I. I \<noteq> {} \<and> I \<subseteq> {..<length ps} \<and> countWorld q sf ds (counted ps r I) w'"
proof -
  obtain xs I where x: "length ts = length ps" "\<forall>k < length ps. succeeding M X ps r sf k (ts ! k) (xs ! k)"
    "countingState ps xs I" "countWorld q sf ds (counted ps r I) w'"
    using counting_interleaved[OF assms(1-5)] by blast
  have "xs ! 0 = WroteCount" "xs ! 0 \<in> set xs"
  proof -
    have n: "0 < length ps" using assms(2) by (cases ps) auto
    obtain tx res where "ts ! 0 = (tx, Done res)"
      using assms(6) nth_mem[of 0 ts] n x(1) unfolding settledThreads_def by (metis prod.collapse)
    then show "xs ! 0 = WroteCount" using x(2) n succeeding_done by metis
    show "xs ! 0 \<in> set xs" using n x(3) by (auto simp: countingState_def)
  qed
  then show ?thesis using x(3,4) by (intro exI[of _ I]) (auto simp: countingState_def)
qed

end

text \<open>Threads that run one after the other, each undisturbed, named by their indices.\<close>

lemma run_indices:
  fixes g h :: "nat \<Rightarrow> unit thread"
  assumes "finite B" and "B \<subseteq> {..<n}" and "Q {} w"
    and run: "\<And>i D u. i \<in> B \<Longrightarrow> D \<subseteq> B \<Longrightarrow> i \<notin> D \<Longrightarrow> Q D u \<Longrightarrow>
      \<exists>is u'. scheduled is [g i] u = ([h i], u') \<and> Q (insert i D) u'"
  shows "\<exists>w'. interleaved (map g [0..<n]) w (map (\<lambda>i. if i \<in> B then h i else g i) [0..<n]) w' \<and> Q B w'"
  using assms(1,2) run
proof (induction B)
  case empty
  show ?case using assms(3) by (auto intro: interleaved.start)
next
  case (insert i D)
  let ?g = "\<lambda>k. if k \<in> D then h k else g k"
  have i: "i < n" "i \<notin> D" using insert.prems(1) insert.hyps(2) by auto
  have "D \<subseteq> {..<n}" using insert.prems(1) by simp
  moreover have "\<exists>is u'. scheduled is [g k] u = ([h k], u') \<and> Q (insert k C) u'"
    if "k \<in> D" "C \<subseteq> D" "k \<notin> C" "Q C u" for k C u
    using insert.prems(2)[of k C u] that by blast
  ultimately obtain u where u: "interleaved (map g [0..<n]) w (map ?g [0..<n]) u" "Q D u"
    using insert.IH by blast
  obtain "is" u' where u': "scheduled is [g i] u = ([h i], u')" "Q (insert i D) u'"
    using insert.prems(2)[of i D u] i(2) u(2) by auto
  have split: "map f [0..<n] = map f [0..<i] @ f i # map f [Suc i..<n]" for f :: "nat \<Rightarrow> unit thread"
  proof -
    have "[0..<n] = [0..<i] @ [i..<n]" using upt_add_eq_append[of 0 i "n - i"] i(1) by simp
    then show ?thesis using upt_conv_Cons[OF i(1)] by simp
  qed
  let ?h = "\<lambda>k. if k \<in> insert i D then h k else g k"
  have "map ?g [0..<n] = map ?g [0..<i] @ g i # map ?g [Suc i..<n]"
    using split[of ?g] i(2) by (simp only: if_False)
  moreover have "map ?h [0..<i] = map ?g [0..<i]" "map ?h [Suc i..<n] = map ?g [Suc i..<n]"
    by (rule map_cong[OF refl], simp)+
  then have "map ?h [0..<n] = map ?g [0..<i] @ h i # map ?g [Suc i..<n]"
    using split[of ?h] by (simp only: insertI1 if_True)
  ultimately have "interleaved (map ?g [0..<n]) u (map ?h [0..<n]) u'"
    using scheduled_among[OF u'(1), of "map ?g [0..<i]" "map ?g [Suc i..<n]"] by (simp only:)
  from interleaved_trans[OF this u(1)] u'(2) show ?case by blast
qed

text \<open>A call that has not begun, one that has read the count \<open>r\<close>, and one that has returned.\<close>

definition callThread :: "mongo \<Rightarrow> storage \<Rightarrow> SyncflowSucceedPayload \<Rightarrow> unit thread" where
  "callThread M X p = (None, handleSyncflowSucceed_proc M X p)"

definition readThread :: "mongo \<Rightarrow> storage \<Rightarrow> Syncflow \<Rightarrow> SyncflowSucceedPayload \<Rightarrow> int \<Rightarrow> unit thread" where
  "readThread M X sf p r = (None, bind_proc (atomic (cleanDiffData X (sf_sourceId sf) (sp_prevSyncVersion p)))
     (\<lambda>_. completeSucceed_proc M p (r + rows_delta p)))"

definition doneThread :: "unit thread" where
  "doneThread = (None, Done (Inr ()))"

lemma map_callThread: "map (\<lambda>k. callThread M X (ps ! k)) [0..<length ps] = succeedThreads M X ps"
  by (rule nth_equalityI) (simp_all add: succeedThreads_def callThread_def)

context mongo_driver begin

lemma scheduled_run:
  assumes "w_tx w = None" and "run_proc p w = (r, w')" and "w_tx w' = None"
  shows "\<exists>is. scheduled is [(None, p)] w = ([(None, Done r)], w')"
  using run_alone[OF assms(1), of None p] assms no_session[OF assms(1)] no_session[OF assms(3)] by auto

lemma count_run:
  assumes "countWorld p sf ds v w" and del: "\<forall>cs. \<exists>errs. xs_delete X cs = Inr errs"
  shows "\<exists>is w'. scheduled is [readThread M X sf p r] w = ([doneThread], w') \<and> countWorld p sf ds (r + rows_delta p) w'"
proof -
  let ?n = "r + rows_delta p"
  let ?c = "StorageDelete (diffDataKeys (sf_sourceId sf) (sp_prevSyncVersion p))"
  let ?e = "SyncflowCompleted \<lparr>cp_dataSourceId = sp_dataSourceId p, cp_syncflowId = sp_syncflowId p,
      cp_syncVersion = sp_syncVersion p, cp_rowsNumber = ?n\<rparr>"
  let ?w = "w\<lparr>w_calls := w_calls w @ [?c], w_db := put_rows (sp_dataSourceId p) ?n (w_db w),
      w_events := w_events w @ [?e]\<rparr>"
  obtain errs where "xs_delete X (w_calls w @ [?c]) = Inr errs" using del by blast
  moreover have "find (\<lambda>s. ds_id s = sp_dataSourceId p) (db_sources (w_db (w\<lparr>w_calls := w_calls w @ [?c]\<rparr>))) =
      Some (ds\<lparr>ds_statistics := (ds_statistics ds)\<lparr>st_rowsNumber := v\<rparr>\<rparr>)"
    using assms(1) by (simp add: countWorld_def)
  ultimately have run: "run_proc (bind_proc (atomic (cleanDiffData X (sf_sourceId sf) (sp_prevSyncVersion p)))
      (\<lambda>_. completeSucceed_proc M p (r + rows_delta p))) w = (Inr (), ?w)"
    by (simp add: run_bind run_atomic completeSucceed_proc_def cleanDiffData_def io_simps updateStatistics_rows
        del: bind_proc.simps)
  have w: "w_tx w = None" "w_tx ?w = None" "countWorld p sf ds ?n ?w"
    using assms(1) by (auto simp: countWorld_def rows_put_rows)
  from scheduled_run[OF w(1) run w(2)] w(3) show ?thesis unfolding readThread_def doneThread_def by blast
qed

lemma whole_run:
  assumes "countWorld p sf ds v w" and del: "\<forall>cs. \<exists>errs. xs_delete X cs = Inr errs"
  shows "\<exists>is w'. scheduled is [callThread M X p] w = ([doneThread], w') \<and>
    countWorld p sf ds (v + rows_delta p) w'"
proof -
  define c where "c = StorageDelete (diffDataKeys (sf_sourceId sf) (sp_prevSyncVersion p))"
  let ?d = "ds\<lparr>ds_statistics := (ds_statistics ds)\<lparr>st_rowsNumber := v\<rparr>\<rparr>"
  obtain errs where errs: "xs_delete X (w_calls w @ [c]) = Inr errs" using del by blast
  have w: "w_tx w = None" "find (\<lambda>s. sf_id s = sp_syncflowId p) (db_syncflows (w_db w)) = Some sf"
    "find (\<lambda>s. ds_id s = sp_dataSourceId p) (db_sources (w_db w)) = Some ?d" "ds_provider_type ?d \<noteq> AIR_TABLE"
    using assms(1) by (simp_all add: countWorld_def)
  from succeed_run[OF w(2-4) errs c_def refl] obtain w' where
    w': "handleSyncflowSucceed M X p w = (Inr (), w')" "w_db w' = put_rows (sp_dataSourceId p) (v + rows_delta p) (w_db w)"
      "w_tx w' = None"
    using w(1) by simp
  from countWorld_put[OF assms(1) w'(2,3)] scheduled_run[OF w(1) _ w'(3), of "handleSyncflowSucceed_proc M X p" "Inr ()"]
  show ?thesis using w'(1) unfolding run_succeed callThread_def doneThread_def by blast
qed

lemma read_turns:
  assumes "countWorld p sf ds v w"
  shows "scheduled [0, 0] [callThread M X p] w = ([readThread M X sf p v], w)"
proof -
  have w: "w_tx w = None" "w\<lparr>w_tx := None\<rparr> = w"
    "find (\<lambda>s. sf_id s = sp_syncflowId p) (db_syncflows (w_db w)) = Some sf"
    "find (\<lambda>s. ds_id s = sp_dataSourceId p) (db_sources (w_db w)) =
       Some (ds\<lparr>ds_statistics := (ds_statistics ds)\<lparr>st_rowsNumber := v\<rparr>\<rparr>)" "ds_provider_type ds \<noteq> AIR_TABLE"
    using assms by (simp_all add: countWorld_def)
  then show ?thesis
    by (cases "ds_provider_type ds")
      (simp_all add: callThread_def readThread_def handleSyncflowSucceed_proc_def atomic_turn SyncflowRepository_getById_def
        DataSourceRepository_getById_def countSucceed_proc_def getWorkflowCleaner_def MicrosoftExcelWorkflowCleaner_run_def
        GoogleSheetsWorkflowCleaner_run_def rows_delta_def io_simps del: turn.simps)
qed

lemma some_read:
  assumes same: "same_source ps i j" and q: "q \<in> set ps" and w: "countWorld q sf ds r w" and A: "A \<subseteq> {..<length ps}"
  shows "interleaved (succeedThreads M X ps) w
    (map (\<lambda>k. if k \<in> A then readThread M X sf (ps ! k) r else callThread M X (ps ! k)) [0..<length ps]) w"
proof -
  let ?h = "\<lambda>k. if k \<in> A then readThread M X sf (ps ! k) r else callThread M X (ps ! k)"
  have "\<exists>u. interleaved (map (\<lambda>k. callThread M X (ps ! k)) [0..<length ps]) w (map ?h [0..<length ps]) u \<and> u = w"
  proof (rule run_indices[where Q = "\<lambda>_ u. u = w"])
    fix k D u assume k: "k \<in> A" "u = w"
    then have "ps ! k \<in> set ps" using A by auto
    note cw = countWorld_same[OF same this q]
    show "\<exists>is u'. scheduled is [callThread M X (ps ! k)] u = ([readThread M X sf (ps ! k) r], u') \<and> u' = w"
      using read_turns[of "ps ! k" sf ds r w X] cw w k(2) by blast
  qed (use A finite_subset in auto)
  then show ?thesis by (simp only: map_callThread) blast
qed

lemma stale_count:
  assumes same: "same_source ps i j" and q: "q \<in> set ps" and w: "countWorld q sf ds r w"
    and del: "\<forall>cs. \<exists>errs. xs_delete X cs = Inr errs" and a: "a \<in> I" "a < length ps"
  shows "\<exists>w'. interleaved (succeedThreads M X ps) w
      (map (\<lambda>k. if k \<in> I - {a} then callThread M X (ps ! k) else doneThread) [0..<length ps]) w' \<and>
    countWorld q sf ds (counted ps r {a}) w'"
proof -
  let ?n = "length ps"
  let ?g0 = "\<lambda>k. callThread M X (ps ! k)"
  let ?g1 = "\<lambda>k. readThread M X sf (ps ! k) r"
  let ?A = "insert a ({..<?n} - I)"
  let ?h1 = "\<lambda>k. if k \<in> ?A then ?g1 k else ?g0 k"
  let ?h2 = "\<lambda>k. if k \<in> {..<?n} - I then doneThread else ?h1 k"
  let ?h3 = "\<lambda>k. if k \<in> {a} then doneThread else ?h2 k"
  have cw: "countWorld (ps ! k) sf ds v u = countWorld q sf ds v u" if "k < ?n" for k v u
    using countWorld_same[OF same nth_mem[OF that] q] .
  have g1: "\<exists>is u'. scheduled is [?g1 k] u = ([doneThread], u') \<and> countWorld q sf ds (r + rows_delta (ps ! k)) u'"
    if "k < ?n" "countWorld q sf ds v u" for k v u
    using count_run[OF _ del, of "ps ! k" sf ds v u r] that by (simp add: cw)
  have 1: "interleaved (succeedThreads M X ps) w (map ?h1 [0..<?n]) w"
    using some_read[OF same q w, of ?A X] a by simp
  have "\<exists>w2. interleaved (map ?h1 [0..<?n]) w (map ?h2 [0..<?n]) w2 \<and> (\<exists>v. countWorld q sf ds v w2)"
  proof (rule run_indices[where Q = "\<lambda>_ u. \<exists>v. countWorld q sf ds v u"])
    fix k D u assume k: "k \<in> {..<?n} - I" "\<exists>v. countWorld q sf ds v u"
    then have "?h1 k = ?g1 k" "k < ?n" by auto
    then show "\<exists>is u'. scheduled is [?h1 k] u = ([doneThread], u') \<and> (\<exists>v. countWorld q sf ds v u')"
      using g1[OF \<open>k < ?n\<close>] k(2) by (simp only:) blast
  qed (use w in auto)
  then obtain w2 where 2: "interleaved (map ?h1 [0..<?n]) w (map ?h2 [0..<?n]) w2" "\<exists>v. countWorld q sf ds v w2"
    by blast
  have "\<exists>w3. interleaved (map ?h2 [0..<?n]) w2 (map ?h3 [0..<?n]) w3 \<and>
      (\<exists>v. countWorld q sf ds v w3 \<and> ({a} = {} \<or> v = r + rows_delta (ps ! a)))"
  proof (rule run_indices[where Q = "\<lambda>D u. \<exists>v. countWorld q sf ds v u \<and> (D = {} \<or> v = r + rows_delta (ps ! a))"])
    fix k u and D :: "nat set"
    assume k: "k \<in> {a}" "\<exists>v. countWorld q sf ds v u \<and> (D = {} \<or> v = r + rows_delta (ps ! a))"
    then have "?h2 k = ?g1 a" using a(1) by simp
    with k show "\<exists>is u'. scheduled is [?h2 k] u = ([doneThread], u') \<and>
        (\<exists>v. countWorld q sf ds v u' \<and> (insert k D = {} \<or> v = r + rows_delta (ps ! a)))"
      using g1[OF a(2)] k by (simp only: insert_not_empty) blast
  qed (use 2(2) a in auto)
  then obtain w3 where 3: "interleaved (map ?h2 [0..<?n]) w2 (map ?h3 [0..<?n]) w3"
    "countWorld q sf ds (counted ps r {a}) w3"
    by (auto simp: counted_def)
  have "map ?h3 [0..<?n] = map (\<lambda>k. if k \<in> I - {a} then ?g0 k else doneThread) [0..<?n]"
    by (rule map_cong[OF refl]) auto
  then show ?thesis using interleaved_trans[OF 3(1) interleaved_trans[OF 2(1) 1]] 3(2) by (simp only:) blast
qed

lemma fresh_counts:
  assumes same: "same_source ps i j" and q: "q \<in> set ps" and w: "countWorld q sf ds (counted ps r {a}) w"
    and del: "\<forall>cs. \<exists>errs. xs_delete X cs = Inr errs" and I: "a \<in> I" "I \<subseteq> {..<length ps}"
  shows "\<exists>w'. interleaved (map (\<lambda>k. if k \<in> I - {a} then callThread M X (ps ! k) else doneThread) [0..<length ps]) w
      (map (\<lambda>_. doneThread) [0..<length ps]) w' \<and> countWorld q sf ds (counted ps r I) w'"
proof -
  let ?n = "length ps"
  let ?g = "\<lambda>k. if k \<in> I - {a} then callThread M X (ps ! k) else doneThread"
  let ?h = "\<lambda>k. if k \<in> I - {a} then doneThread else ?g k"
  have fin: "finite I" using I(2) finite_subset by blast
  have "\<exists>w'. interleaved (map ?g [0..<?n]) w (map ?h [0..<?n]) w' \<and>
      countWorld q sf ds (counted ps r (insert a (I - {a}))) w'"
  proof (rule run_indices[where Q = "\<lambda>D u. countWorld q sf ds (counted ps r (insert a D)) u"])
    fix k D u assume k: "k \<in> I - {a}" "D \<subseteq> I - {a}" "k \<notin> D" "countWorld q sf ds (counted ps r (insert a D)) u"
    have "ps ! k \<in> set ps" using k(1) I(2) by auto
    note cw = countWorld_same[OF same this q]
    have "finite (insert a D)" "k \<notin> insert a D" using k fin finite_subset by auto
    then have "counted ps r (insert a (insert k D)) = counted ps r (insert a D) + rows_delta (ps ! k)"
      by (simp add: counted_def insert_commute[of a k])
    then show "\<exists>is u'. scheduled is [?g k] u = ([doneThread], u') \<and> countWorld q sf ds (counted ps r (insert a (insert k D))) u'"
      using whole_run[OF _ del, of "ps ! k" sf ds "counted ps r (insert a D)" u] k cw by auto
  qed (use w fin I(2) in auto)
  moreover have "map ?h [0..<?n] = map (\<lambda>_. doneThread) [0..<?n]"
    by (rule map_cong[OF refl]) auto
  moreover have "insert a (I - {a}) = I" using I(1) by auto
  ultimately show ?thesis by (simp only:)
qed

end

text \<open>
  C8: concurrent success events of one data source can lose row counts. When success events of one
  syncflow of a Google Sheets or Excel data source are handled at the same time, and the storage
  answers, the row count that is stored when all calls have returned is the initial one plus what
  the runs of some non-empty subset of the events changed; and every non-empty subset is the result of some
  order of the awaits. Only the full subset is the count that the handling of the events one after
  the other leaves.
\<close>

theorem statistics_lost_updates:
  assumes "mongo_ok M" and "ps \<noteq> []" and "same_source ps i j" and "w_tx w = None"
    and "find (\<lambda>s. sf_id s = j) (db_syncflows (w_db w)) = Some sf"
    and "find (\<lambda>s. ds_id s = i) (db_sources (w_db w)) = Some ds"
    and "ds_provider_type ds \<noteq> AIR_TABLE" and "\<forall>cs. \<exists>errs. xs_delete X cs = Inr errs"
  shows "(\<exists>ts w'. interleaved (succeedThreads M X ps) w ts w' \<and> settledThreads ts \<and> rows_of i (w_db w') = Some v) \<longleftrightarrow>
    (\<exists>I. I \<noteq> {} \<and> I \<subseteq> {..<length ps} \<and> v = counted ps (st_rowsNumber (ds_statistics ds)) I)"
proof -
  note D = mongo_driverI[OF assms(1)]
  let ?r = "st_rowsNumber (ds_statistics ds)"
  obtain q where q: "q \<in> set ps" using assms(2) by (cases ps) auto
  then have ids: "sp_dataSourceId q = i" "sp_syncflowId q = j" using assms(3) by (auto simp: same_source_def)
  then have w: "countWorld q sf ds ?r w" using assms(4-7) by (simp add: countWorld_def)
  have rows: "rows_of i (w_db u) = Some n" if "countWorld q sf ds n u" for n u
    using that ids(1) by (simp add: countWorld_def rows_of_def)
  show ?thesis
  proof
    assume "\<exists>ts w'. interleaved (succeedThreads M X ps) w ts w' \<and> settledThreads ts \<and> rows_of i (w_db w') = Some v"
    then show "\<exists>I. I \<noteq> {} \<and> I \<subseteq> {..<length ps} \<and> v = counted ps ?r I"
      using mongo_driver.counting_bound[OF D assms(3) q w assms(8)] rows by (metis option.inject)
  next
    assume "\<exists>I. I \<noteq> {} \<and> I \<subseteq> {..<length ps} \<and> v = counted ps ?r I"
    then obtain I a where I: "a \<in> I" "I \<subseteq> {..<length ps}" "v = counted ps ?r I" by blast
    then have "a < length ps" by auto
    from mongo_driver.stale_count[OF D assms(3) q w assms(8) I(1) this]
    obtain u where u: "interleaved (succeedThreads M X ps) w
        (map (\<lambda>k. if k \<in> I - {a} then callThread M X (ps ! k) else doneThread) [0..<length ps]) u"
      "countWorld q sf ds (counted ps ?r {a}) u" by blast
    from mongo_driver.fresh_counts[OF D assms(3) q u(2) assms(8) I(1,2)] obtain w' where
      w': "interleaved (succeedThreads M X ps) w (map (\<lambda>_. doneThread) [0..<length ps]) w'"
        "countWorld q sf ds v w'" using interleaved_trans[OF _ u(1)] I(3) by blast
    have "settledThreads (map (\<lambda>_. doneThread) [0..<length ps])" by (auto simp: settledThreads_def doneThread_def)
    with w' rows show "\<exists>ts w'. interleaved (succeedThreads M X ps) w ts w' \<and> settledThreads ts \<and> rows_of i (w_db w') = Some v"
      by blast
  qed
qed

text \<open>Five rows added and two removed, ten added and one removed: the count can end at 3, at 9 or at 12.\<close>

theorem statistics_lost_updates_witness:
  "{v. \<exists>ts w'. interleaved (succeedThreads listMongo example_storage [example_succeed 5 2, example_succeed 10 1])
      example_world ts w' \<and> settledThreads ts \<and> rows_of ''d1'' (w_db w') = Some v} = {3, 9, 12}" (is "?V = _")
proof (rule set_eqI)
  fix v
  let ?ps = "[example_succeed 5 2, example_succeed 10 1]"
  have "v \<in> ?V \<longleftrightarrow> (\<exists>I. I \<noteq> {} \<and> I \<subseteq> {..<length ?ps} \<and> v = counted ?ps (st_rowsNumber (ds_statistics example_source)) I)"
    unfolding mem_Collect_eq by (rule statistics_lost_updates [OF listMongo_ok, where j = "''s1''"])
      (use example_found in \<open>simp_all add: same_source_def example_succeed_def example_storage_def example_world_def empty_world_def example_source_def\<close>)
  also have "\<dots> \<longleftrightarrow> (\<exists>I \<in> {I. I \<noteq> {} \<and> I \<subseteq> {..<length ?ps}}. v = counted ?ps (st_rowsNumber (ds_statistics example_source)) I)"
    by (simp only: Bex_def mem_Collect_eq conj_assoc)
  also have "{I. I \<noteq> {} \<and> I \<subseteq> {..<length ?ps}} = {{0}, {1}, {0, 1::nat}}"
  proof -
    have "{..<length ?ps} = {0, 1::nat}" by auto
    then have "{I. I \<noteq> {} \<and> I \<subseteq> {..<length ?ps}} = Pow {0, 1::nat} - {{}}" by auto
    also have "\<dots> = {{0}, {1}, {0, 1}}" by (simp only: Pow_insert Pow_empty image_insert image_empty) blast
    finally show ?thesis .
  qed
  also have "(\<exists>I \<in> {{0}, {1}, {0, 1::nat}}. v = counted ?ps (st_rowsNumber (ds_statistics example_source)) I) \<longleftrightarrow> v \<in> {3, 9, 12}"
    by (simp add: counted_def example_succeed_def example_source_def rows_delta_def defaultDataSourceStatistics_def)
  finally show "v \<in> ?V \<longleftrightarrow> v \<in> {3, 9, 12}" .
qed

end
