(* ===== verification/Workers.thy ===== *)
theory Workers
  imports SyncPipeline
begin

text \<open>
  What the Temporal workers are set up with: the activities that the worker application registers
  (\<open>apps/worker/src/modules/worker/worker.provider.ts\<close>), those its workflows have proxies of, the AirTable
  module of \<open>libs/core\<close>, and the converter of the payloads that travel between client, server and
  worker (\<open>libs/modules/src/orchestrator/payload-converter\<close>).
\<close>

section \<open>Registered activities\<close>

text \<open>The keys of \<open>activities\<close>, the object that \<open>Worker.create\<close> is given.\<close>

definition workerActivityNames :: "string list" where
  "workerActivityNames =
    [''greeting'', ''testGreeting'', ''testSaveDb'', ''emitEvent'',
     ''checkAndUpdateStatusBeforeStartSyncflow'', ''updateSyncflowStatus'', ''updateSyncflowState'',
     ''getSyncDataExcel'', ''downloadExcel'', ''compareExcel'', ''loadExcel'',
     ''getDataStateGoogleSheets'', ''getDownloadDataGoogleSheets'', ''getSpreadSheetDataGoogleSheets'',
     ''getDataSourceProviderGoogleSheets'', ''getSyncDataGoogleSheets'',
     ''updateProviderStateGoogleSheets'', ''downloadGoogleSheets'', ''ingestGoogleSheets'',
     ''compareGoogleSheets'', ''loadGoogleSheets'']"

text \<open>The names destructured from \<open>proxyActivities\<close> in the two workflow modules.\<close>

definition googleSheetsProxies :: "string list" where
  "googleSheetsProxies =
    [''checkAndUpdateStatusBeforeStartSyncflow'', ''updateSyncflowState'', ''downloadGoogleSheets'',
     ''ingestGoogleSheets'', ''compareGoogleSheets'', ''loadGoogleSheets'', ''getSyncDataGoogleSheets'',
     ''getDownloadDataGoogleSheets'', ''getDataSourceProviderGoogleSheets'',
     ''updateProviderStateGoogleSheets'', ''emitEvent'']"

definition excelProxies :: "string list" where
  "excelProxies =
    [''checkAndUpdateStatusBeforeStartSyncflow'', ''updateSyncflowStatus'', ''updateSyncflowState'',
     ''downloadExcel'', ''compareExcel'', ''loadExcel'', ''getSyncDataExcel'', ''emitEvent'']"

definition proxiesOf :: "string \<Rightarrow> string list" where
  "proxiesOf workflow = (if workflow = ''excelFullSync'' then excelProxies else googleSheetsProxies)"

text \<open>The worker of the configurator: its activities, and the proxies of its two workflow modules.\<close>

definition configuratorActivityNames :: "string list" where
  "configuratorActivityNames = [''emitEvent'', ''deleteDataSource'', ''terminateDataSourceWorkflows'',
     ''createSyncConnection'', ''deleteSyncConnection'', ''unregisterTrigger'']"

definition dataSourceProxies :: "string list" where
  "dataSourceProxies = [''deleteDataSource'', ''terminateDataSourceWorkflows'', ''emitEvent'']"

definition syncConnectionProxies :: "string list" where
  "syncConnectionProxies = [''createSyncConnection'', ''deleteSyncConnection'', ''emitEvent'']"

lemma configurator_proxies_registered:
  "set (dataSourceProxies @ syncConnectionProxies) \<subseteq> set configuratorActivityNames"
  by (simp add: dataSourceProxies_def syncConnectionProxies_def configuratorActivityNames_def)

section \<open>The AirTable module\<close>

definition AirTableSyncflowDefinitions :: "SyncflowDefinition list" where
  "AirTableSyncflowDefinitions =
    [\<lparr>sdf_name = SN_AIR_TABLE_INITIAL,
      sdf_attributes = setSyncType TY_FULL (setSyncTarget TG_FULL (setSyncMethod SM_FULL
        (setProviderType AIR_TABLE (setSyncMode REFRESH (setDirection FORWARD builder_reset))))),
      sdf_trigger_name = TN_MANUAL, sdf_trigger_type = MANUAL\<rparr>,
     \<lparr>sdf_name = SN_AIR_TABLE_INCREMENTAL,
      sdf_attributes = setSyncType TY_FULL_PARTIAL (setSyncTarget TG_FULL (setSyncMethod SM_PARTIAL
        (setProviderType AIR_TABLE (setSyncMode INCREMENTAL (setDirection FORWARD builder_reset))))),
      sdf_trigger_name = TN_AIR_TABLE_WEBHOOK, sdf_trigger_type = EVENT_WEBHOOK\<rparr>]"

section \<open>Payloads\<close>

text \<open>The packages \<open>ejson2\<close> and \<open>@temporalio/common\<close> are the parameter: how a value is printed and
  read, and text as bytes. A printer may throw a string, an error or something else.\<close>

datatype thrown = ThrownString string | ThrownError js_error | ThrownOther

record 'v ejson =
  ej_stringify :: "'v \<Rightarrow> thrown + string"
  ej_parse :: "string \<Rightarrow> 'v"
  ej_encode :: "string \<Rightarrow> nat list"
  ej_decode :: "nat list \<Rightarrow> string"
  ej_show :: "'v \<Rightarrow> string"   \<comment> \<open>in a template\<close>

definition ejson_ok :: "'v ejson \<Rightarrow> bool" where
  "ejson_ok C \<longleftrightarrow> (\<forall>v s. ej_stringify C v = Inr s \<longrightarrow> ej_parse C s = v) \<and> (\<forall>s. ej_decode C (ej_encode C s) = s)"

record payload =
  py_encoding :: "nat list"
  py_format :: "nat list"
  py_data :: "nat list option"

definition errorMessage :: "thrown \<Rightarrow> string option" where
  "errorMessage e = (case e of ThrownString s \<Rightarrow> Some s | ThrownError err \<Rightarrow> Some (error_message err)
     | ThrownOther \<Rightarrow> None)"

text \<open>\<open>EjsonPayloadConverter\<close>; \<open>None\<close> is \<open>undefined\<close>. The error is the message of the
  \<open>UnsupportedEjsonTypeError\<close> with its cause.\<close>

definition toPayload :: "'v ejson \<Rightarrow> 'v option \<Rightarrow> (string \<times> thrown) + payload option" where
  "toPayload C value = (case value of None \<Rightarrow> Inr None
   | Some v \<Rightarrow> (case ej_stringify C v of
       Inl e \<Rightarrow> Inl (''Can't run EJSON.stringify on this value: '' @ ej_show C v @ ''. Either convert it (or its properties) to EJSON-serializable values (see https://docs.meteor.com/api/ejson.html ), or create a custom data converter. EJSON.stringify error message: '' @
           (case errorMessage e of None \<Rightarrow> ''undefined'' | Some m \<Rightarrow> m), e)
     | Inr ejson \<Rightarrow> Inr (Some \<lparr>py_encoding = ej_encode C ''json/plain'',
         py_format = ej_encode C ''extended'', py_data = Some (ej_encode C ejson)\<rparr>)))"

definition fromPayload :: "'v ejson \<Rightarrow> payload \<Rightarrow> 'v option" where
  "fromPayload C content = (case py_data content of None \<Rightarrow> None
   | Some bytes \<Rightarrow> Some (ej_parse C (ej_decode C bytes)))"

section \<open>Properties\<close>

text \<open>
  Every syncflow a connection can have can be run. Each name that the loaded registries give for a
  provider is the name of a workflow that the worker exports, and every activity that the module of
  this workflow has a proxy of is registered. The AirTable module, which is not loaded, could not
  be used: it defines two syncflows with the type of provider AirTable, and for neither does the worker
  have a workflow.
\<close>

theorem registered_syncflows_runnable:
  "(\<forall>t names. \<forall>n \<in> set names. ProviderSyncflowsRegistry_get loaded_registries t = Some names \<longrightarrow>
      map_of (workerWorkflows A) n \<noteq> None \<and> set (proxiesOf n) \<subseteq> set workerActivityNames) \<and>
   (\<forall>d \<in> set AirTableSyncflowDefinitions. at_providerType (sdf_attributes d) = Some AIR_TABLE \<and>
      map_of (workerWorkflows A) (sdf_name d) = None)"
proof -
  have "ProviderSyncflowsRegistry_get loaded_registries t = Some names \<Longrightarrow> n \<in> set names \<Longrightarrow>
      n \<in> {''googleSheetsFullSync'', ''excelFullSync''}" for t names n
    by (cases t) (auto simp: registry_names)
  moreover have "map_of (workerWorkflows A) n \<noteq> None \<and> set (proxiesOf n) \<subseteq> set workerActivityNames"
    if "n \<in> {''googleSheetsFullSync'', ''excelFullSync''}" for n
    using that by (auto simp: workerWorkflows_def proxiesOf_def excelProxies_def googleSheetsProxies_def
        workerActivityNames_def)
  moreover have "\<forall>d \<in> set AirTableSyncflowDefinitions. at_providerType (sdf_attributes d) = Some AIR_TABLE \<and>
      map_of (workerWorkflows A) (sdf_name d) = None"
    by (simp add: AirTableSyncflowDefinitions_def workerWorkflows_def SN_AIR_TABLE_INITIAL_def
        SN_AIR_TABLE_INCREMENTAL_def setSyncType_def setSyncTarget_def setSyncMethod_def setProviderType_def
        setSyncMode_def setDirection_def builder_reset_def)
  ultimately show ?thesis by blast
qed

theorem registered_syncflows_runnable_witness:
  "map_of (workerWorkflows (workerActivities listMongo good_services good_processors temporalFailure))
     SN_GOOGLE_SHEETS_FULL \<noteq> None"
  using registered_syncflows_runnable [of "workerActivities listMongo good_services good_processors temporalFailure"]
    get_provider_syncflows(1)
  by (metis list.set_intros(1))

text \<open>
  Payloads survive the way through Temporal. For an EJSON package that reads back what it prints and
  a text encoding that can be undone, a value is converted to a payload that converts back to it, and
  to none exactly if it is undefined; it is refused, with the printer's complaint as cause, exactly
  if it cannot be printed.
\<close>

theorem payload_roundtrip:
  assumes "ejson_ok C"
  shows "case toPayload C v of
      Inr None \<Rightarrow> v = None
    | Inr (Some p) \<Rightarrow> fromPayload C p = v \<and> v \<noteq> None \<and> ej_decode C (py_encoding p) = ''json/plain''
    | Inl (m, e) \<Rightarrow> \<exists>x. v = Some x \<and> ej_stringify C x = Inl e"
  using assms by (auto simp: toPayload_def fromPayload_def ejson_ok_def split: option.split sum.split)

theorem payload_roundtrip_witness:
  "\<exists>p. toPayload \<lparr>ej_stringify = Inr, ej_parse = id, ej_encode = map of_char, ej_decode = map char_of, ej_show = id\<rparr>
      (Some ''v'') = Inr (Some p) \<and>
    fromPayload \<lparr>ej_stringify = Inr, ej_parse = id, ej_encode = map of_char, ej_decode = map char_of, ej_show = id\<rparr> p
      = Some ''v''"
  using payload_roundtrip [of "\<lparr>ej_stringify = Inr, ej_parse = id, ej_encode = map of_char,
      ej_decode = map char_of, ej_show = id\<rparr>" "Some ''v''"]
  by (auto simp: ejson_ok_def comp_def toPayload_def split: sum.splits option.splits)

end
