(* ===== verification/ControllerWorkflows.thy ===== *)
theory ControllerWorkflows
  imports Worker Controller
begin

text \<open>
  The Temporal side of the controller (\<open>apps/controller/src/workflows\<close>, \<open>modules/activities\<close>): the
  workflow \<open>handleWorkflowTriggeredWf\<close> and the activities it calls. Since the broker calls the
  workflow service itself (\<open>handleWorkflowTriggered\<close> of \<open>Controller\<close>) no code starts it, but the
  controller's worker registers it.
\<close>

section \<open>Activities\<close>

definition checkWorkflowAlreadyScheduled_activity ::
  "mongo \<Rightarrow> Trigger \<Rightarrow> (unit + AcceptableData) act" where
  "checkWorkflowAlreadyScheduled_activity M arg =
    activityWrapper (checkWorkflowAlreadyScheduled M arg no_options)"

definition handleWorkflowTriggered_activity ::
  "mongo \<Rightarrow> third_party \<Rightarrow> Trigger \<Rightarrow> (unit + AcceptableData) act" where
  "handleWorkflowTriggered_activity M T arg = activityWrapper (handleWorkflowTriggered M T arg)"

definition checkDataSourceLimitation_activity :: "DataSource \<Rightarrow> (unit + AcceptableData) act" where
  "checkDataSourceLimitation_activity arg = activityWrapper (lift_io (checkLimitation arg))"

record controller_proxies =
  cp_checkWorkflowAlreadyScheduled :: "Trigger \<Rightarrow> (unit + AcceptableData) act"
  cp_handleWorkflowTriggered :: "Trigger \<Rightarrow> (unit + AcceptableData) act"
  cp_emitEvent :: "event \<Rightarrow> unit act"

definition controllerActivities ::
  "mongo \<Rightarrow> third_party \<Rightarrow> (js_error \<Rightarrow> js_error) \<Rightarrow> controller_proxies" where
  "controllerActivities M T F = \<lparr>
     cp_checkWorkflowAlreadyScheduled = (\<lambda>t. proxy F (checkWorkflowAlreadyScheduled_activity M t)),
     cp_handleWorkflowTriggered = (\<lambda>t. proxy F (handleWorkflowTriggered_activity M T t)),
     cp_emitEvent = (\<lambda>e. proxy F (emitEvent e))\<rparr>"

section \<open>The workflow\<close>

text \<open>\<open>(syncflow as Syncflow).state.version\<close>: reading a property of the state of nothing throws.\<close>

definition scheduledPayloadOf :: "unit + AcceptableData \<Rightarrow> js_error + ScheduledPayload" where
  "scheduledPayloadOf syncflow = (case syncflow of
     Inr (AcceptSyncflow sf) \<Rightarrow> Inr \<lparr>sd_syncflow = sf, sd_version = ss_version (sf_state sf)\<rparr>
   | _ \<Rightarrow> Inl TypeError)"

definition handleWorkflowTriggeredWf :: "controller_proxies \<Rightarrow> Trigger \<Rightarrow> (unit + unit) act" where
  "handleWorkflowTriggeredWf A data = workflowWrapper
    (bind_io (cp_checkWorkflowAlreadyScheduled A data) (\<lambda>_.
     catch_io
       (bind_io (cp_handleWorkflowTriggered A data) (\<lambda>syncflow.
        if tr_workflow_type data = SYNCFLOW
        then bind_io (lift_io (scheduledPayloadOf syncflow)) (\<lambda>p. cp_emitEvent A (SyncflowScheduled p))
        else return_io ()))
       (\<lambda>error. case getActivityErrorDetail error of
          None \<Rightarrow> throw_io TypeError
        | Some errorDetail \<Rightarrow> (case fd_errorData errorDetail of
            Some ed \<Rightarrow> if ed_type ed = Some ET_EXTERNAL
              then bind_io (cp_emitEvent A (DataSourceError (tr_sourceId data) (ed_code ed) (ed_message ed)))
                (\<lambda>_. throw_io error)
              else throw_io error
          | None \<Rightarrow> throw_io error))))"

section \<open>What a run does\<close>

text \<open>The service swallows the errors of activities, so what it throws has no detail.\<close>

lemma for_emit_returns: "fst (for_io es emitEvent w) = Inr ()"
  by (induction es arbitrary: w) (simp_all add: bind_io_run)

lemma service_throws:
  assumes "handleWorkflowTriggered M T t w = (Inl e, w')"
  shows "\<not> isActivityError e"
proof -
  have "\<exists>w1. runWithTransaction M (triggeredTransaction M T t) w = (Inl e, w1)"
    using assms for_emit_returns
    by (auto simp: handleWorkflowTriggered_def bind_io_run split: prod.splits sum.splits)
      (metis Inl_Inr_False fst_conv)
  then obtain w1 w2 where "triggeredTransaction M T t w1 = (Inl e, w2)"
    by (auto simp: runWithTransaction_def split: prod.splits sum.splits)
  then show ?thesis
    by (auto simp: triggeredTransaction_def catch_io_run split: prod.splits sum.splits if_splits)
qed

lemma not_found_or_busy:
  "checkWorkflowAlreadyScheduled_activity M t w = (case live_syncflow (tr_workflow_id t) (w_db w) of
     Some sf \<Rightarrow> if ss_status (sf_state sf) = IDLING then (Inr (Inl ()), w)
       else (Inl (ApplicationFailure True (''Workflow status is already scheduled or running: '' @ sf_id sf)
         (Some (failureDetail (workflowFail False)))), w)
   | None \<Rightarrow> (Inl (ApplicationFailure True (''Workflow not found: '' @ tr_workflow_id t)
         (Some (failureDetail (workflowFail False)))), w))"
  if "mongo_ok M"
  using mongo_driver.getById_live[OF mongo_driverI[OF that]]
  by (auto simp: checkWorkflowAlreadyScheduled_activity_def checkWorkflowAlreadyScheduled_def
      activityWrapper_def io_simps reject_def workflowFail_def split: option.split)

text \<open>
  The workflow of the controller does what the service does, and then fails. For a syncflow
  that is idle it has exactly the effects of \<open>handleWorkflowTriggered\<close>, which emits the schedule event
  itself; as that returns nothing, the workflow throws a \<open>TypeError\<close> when it reads the state of the
  result, and another in its own error handler. So no run for an idle syncflow ever completes or emits
  an event of its own. For a syncflow that is missing or not idle it ends without an effect.
\<close>

theorem triggered_workflow_fails:
  assumes "mongo_ok M" and "temporal_ok F" and "tr_workflow_type t = SYNCFLOW"
    and "handleWorkflowTriggered M T t w = (r, w')"
    and "\<And>nonRetryable m d. r \<noteq> Inl (ApplicationFailure nonRetryable m d)"
  shows "handleWorkflowTriggeredWf (controllerActivities M T F) t w =
    (case live_syncflow (tr_workflow_id t) (w_db w) of
       Some sf \<Rightarrow> if ss_status (sf_state sf) = IDLING then (Inl TypeError, w') else (Inr (Inr ()), w)
     | None \<Rightarrow> (Inr (Inr ()), w))"
proof -
  have app: "F (ApplicationFailure n m d) = ActivityFailure (ApplicationFailure n m d)" for n m d
    using assms(2) by (simp add: temporal_ok_def)
  have none: "getActivityErrorDetail TypeError = None" by (simp add: getActivityErrorDetail_def)
  have "getActivityErrorDetail (F e) = None" if "r = Inl e" for e
    using that assms(2,5) by (auto simp: temporal_ok_def)
  moreover have "handleWorkflowTriggered_activity M T t w = (case r of Inr _ \<Rightarrow> (Inr (Inl ()), w') | Inl e \<Rightarrow> (Inl e, w'))"
    using assms(4) service_throws[of M T t w _ w']
    by (auto simp: handleWorkflowTriggered_activity_def activityWrapper_def io_simps isActivityError_def
        split: sum.split js_error.splits)
  ultimately show ?thesis
    using assms(3) none
    by (auto simp: handleWorkflowTriggeredWf_def controllerActivities_def proxy_def workflowWrapper_def
        io_simps not_found_or_busy[OF assms(1)] app scheduledPayloadOf_def getActivityErrorDetail_def[of "ActivityFailure _"]
        failureDetail_def workflowFail_def split: sum.splits option.split)
qed

theorem triggered_workflow_fails_witness:
  "\<exists>w'. handleWorkflowTriggeredWf (controllerActivities listMongo good_services temporalFailure)
     example_trigger example_world = (Inl TypeError, w') \<and> length (w_events w') = 1"
proof -
  have live: "live_syncflow (tr_workflow_id example_trigger) (w_db example_world) = Some example_syncflow"
    "ss_status (sf_state example_syncflow) = IDLING" "tr_workflow_type example_trigger = SYNCFLOW"
    by (simp_all add: live_defs example_defs defaultSyncflowState_def)
  have "triggerable example_trigger (w_db example_world) example_syncflow example_source
      example_connection"
    by (simp add: triggerable_def live_defs example_defs defaultSyncflowState_def
        defaultSyncConnectionState_def)
  from google_schedules[OF listMongo_ok this, of good_services]
  obtain w' where run: "handleWorkflowTriggered listMongo good_services example_trigger example_world = (Inr (), w')"
    "length (w_events w') = 1"
    by (simp add: example_source_def) (simp add: example_defs)
  from triggered_workflow_fails [OF listMongo_ok temporalFailure_ok live(3) run(1)] live run(2)
  show ?thesis by simp
qed

end
