(* ===== verification/Validation.thy ===== *)
theory Validation
  imports ConfiguratorApi
begin

text \<open>
  The data transfer objects of HTTP request bodies (\<open>dto\<close> directories of \<open>apps/configurator\<close>). Of
  each property a class declares a TypeScript type and the decorators by which \<open>class-validator\<close>
  checks a body at run time. The theory has both: what the decorators accept, what the types
  promise, and a checker that decides for a class whether the one implies the other. The
  packages \<open>class-validator\<close> and \<open>class-transformer\<close> are not part of the program: the locale
  \<open>class_validator\<close> has the documented meaning of the decorators that are used.
\<close>

section \<open>Classes, decorators and types\<close>

text \<open>\<open>ValidateNested C\<close> is \<open>@ValidateNested({ each: true })\<close> with \<open>@Type(() => C)\<close>.\<close>

datatype ts_type = TString | TNumber | TBoolean | TAny | TEnum "string list" | TRecord ts_type
  | TClass dto | TArray dto
and decorator = IsOptional | IsNotEmpty | IsString | IsNumber | IsBoolean | IsObject
  | IsEnum "string list" | ValidateNested dto
and dto = Dto string "dto_prop list"
and dto_prop = Property string ts_type "decorator list"

primrec dto_name :: "dto \<Rightarrow> string" where
  "dto_name (Dto n ps) = n"

primrec dto_props :: "dto \<Rightarrow> dto_prop list" where
  "dto_props (Dto n ps) = ps"

primrec prop_name :: "dto_prop \<Rightarrow> string" where
  "prop_name (Property n t ds) = n"

text \<open>\<open>OmitType\<close>.\<close>

definition omitType :: "dto \<Rightarrow> string list \<Rightarrow> dto_prop list" where
  "omitType C ns = [p \<leftarrow> dto_props C. prop_name p \<notin> set ns]"

section \<open>What the decorators accept\<close>

text \<open>A property that is missing has no value.\<close>

definition absent :: "json option \<Rightarrow> bool" where
  "absent v \<longleftrightarrow> v = None \<or> v = Some JNull"

text \<open>An array is checked element by element, also below an array; a missing value is not checked;
  anything else that is not an object is an error.\<close>

fun nested :: "(json \<Rightarrow> bool) \<Rightarrow> json \<Rightarrow> bool" where
  "nested P JNull \<longleftrightarrow> True"
| "nested P (JArr vs) \<longleftrightarrow> (\<forall>v\<in>set vs. nested P v)"
| "nested P (JObj fs) \<longleftrightarrow> P (JObj fs)"
| "nested P v \<longleftrightarrow> False"

fun property_of :: "json \<Rightarrow> string \<Rightarrow> json option" where
  "property_of (JObj fs) n = map_of fs n"
| "property_of v n = None"

fun accepts :: "dto \<Rightarrow> json \<Rightarrow> bool"
and prop_accepts :: "dto_prop \<Rightarrow> json \<Rightarrow> bool"
and dec_accepts :: "decorator \<Rightarrow> json option \<Rightarrow> bool" where
  "accepts (Dto n ps) v \<longleftrightarrow> (\<forall>p\<in>set ps. prop_accepts p v)"
| "prop_accepts (Property n t ds) v \<longleftrightarrow>
     IsOptional \<in> set ds \<and> absent (property_of v n) \<or> (\<forall>d\<in>set ds. dec_accepts d (property_of v n))"
| "dec_accepts IsOptional v \<longleftrightarrow> True"
| "dec_accepts IsNotEmpty v \<longleftrightarrow> \<not> absent v \<and> v \<noteq> Some (JStr [])"
| "dec_accepts IsString v \<longleftrightarrow> (\<exists>s. v = Some (JStr s))"
| "dec_accepts IsNumber v \<longleftrightarrow> (\<exists>n. v = Some (JNum n))"
| "dec_accepts IsBoolean v \<longleftrightarrow> (\<exists>b. v = Some (JBool b))"
| "dec_accepts IsObject v \<longleftrightarrow> (\<exists>fs. v = Some (JObj fs))"
| "dec_accepts (IsEnum es) v \<longleftrightarrow> (\<exists>s\<in>set es. v = Some (JStr s))"
| "dec_accepts (ValidateNested C) v \<longleftrightarrow> (case v of None \<Rightarrow> True | Some j \<Rightarrow> nested (accepts C) j)"

text \<open>The documented behaviour of \<open>validate\<close> on an instance of a class: no error exactly if every
  decorator is met. A list of errors is empty or not; what is in it is not relied upon.\<close>

locale class_validator =
  fixes validate :: "dto \<Rightarrow> json \<Rightarrow> ValidationError list"
  assumes validate_iff: "validate C (JObj fs) = [] \<longleftrightarrow> accepts C (JObj fs)"

text \<open>A validator that reports the properties that are not accepted.\<close>

definition validateDto :: "dto \<Rightarrow> json \<Rightarrow> ValidationError list" where
  "validateDto C v = map (\<lambda>p. ValidationError (Some [(prop_name p, prop_name p @ '' is not valid'')]) None)
     [p \<leftarrow> dto_props C. \<not> prop_accepts p v]"

lemma validateDto_iff: "validateDto C v = [] \<longleftrightarrow> accepts C v"
  by (cases C) (simp add: validateDto_def filter_empty_conv)

interpretation dto: class_validator validateDto
  by unfold_locales (rule validateDto_iff)

section \<open>What the types promise\<close>

text \<open>The compiler runs without \<open>strictNullChecks\<close>: \<open>null\<close> and \<open>undefined\<close> belong to every type.\<close>

fun inhabits :: "ts_type \<Rightarrow> json option \<Rightarrow> bool"
and prop_inhabited :: "dto_prop \<Rightarrow> json \<Rightarrow> bool" where
  "inhabits TString v \<longleftrightarrow> absent v \<or> (\<exists>s. v = Some (JStr s))"
| "inhabits TNumber v \<longleftrightarrow> absent v \<or> (\<exists>n. v = Some (JNum n))"
| "inhabits TBoolean v \<longleftrightarrow> absent v \<or> (\<exists>b. v = Some (JBool b))"
| "inhabits TAny v \<longleftrightarrow> True"
| "inhabits (TEnum es) v \<longleftrightarrow> absent v \<or> (\<exists>s\<in>set es. v = Some (JStr s))"
| "inhabits (TRecord t) v \<longleftrightarrow> absent v \<or> (\<exists>fs. v = Some (JObj fs) \<and> (\<forall>x\<in>snd ` set fs. inhabits t (Some x)))"
| "inhabits (TClass (Dto n ps)) v \<longleftrightarrow>
     absent v \<or> (\<exists>fs. v = Some (JObj fs) \<and> (\<forall>p\<in>set ps. prop_inhabited p (JObj fs)))"
| "inhabits (TArray (Dto n ps)) v \<longleftrightarrow>
     absent v \<or> (\<exists>vs. v = Some (JArr vs) \<and> (\<forall>x\<in>set vs. x = JNull \<or> (\<exists>fs. x = JObj fs \<and>
       (\<forall>p\<in>set ps. prop_inhabited p x))))"
| "prop_inhabited (Property n t ds) v \<longleftrightarrow> inhabits t (property_of v n)"

section \<open>The checker\<close>

text \<open>A class is enforced if the decorators of each of its properties imply the type of the
  property. No decorator that is used looks at the values of a record, and \<open>ValidateNested\<close> by
  itself admits an array in place of an object and an object in place of an array.\<close>

fun enforces :: "decorator list \<Rightarrow> ts_type \<Rightarrow> bool"
and prop_enforced :: "dto_prop \<Rightarrow> bool" where
  "enforces ds TString \<longleftrightarrow> IsString \<in> set ds"
| "enforces ds TNumber \<longleftrightarrow> IsNumber \<in> set ds"
| "enforces ds TBoolean \<longleftrightarrow> IsBoolean \<in> set ds"
| "enforces ds TAny \<longleftrightarrow> True"
| "enforces ds (TEnum es) \<longleftrightarrow> (\<exists>es'. IsEnum es' \<in> set ds \<and> set es' \<subseteq> set es)"
| "enforces ds (TRecord t) \<longleftrightarrow> IsObject \<in> set ds \<and> t = TAny"
| "enforces ds (TClass (Dto n ps)) \<longleftrightarrow> IsObject \<in> set ds \<and> ValidateNested (Dto n ps) \<in> set ds \<and>
     (\<forall>p\<in>set ps. prop_enforced p)"
| "enforces ds (TArray C) \<longleftrightarrow> False"
| "prop_enforced (Property n t ds) \<longleftrightarrow> enforces ds t"

definition enforced :: "dto \<Rightarrow> bool" where
  "enforced C \<longleftrightarrow> (\<forall>p\<in>set (dto_props C). prop_enforced p)"

lemma inhabits_absent [intro]: "absent v \<Longrightarrow> inhabits t v"
  by (cases t; cases "case t of TClass C \<Rightarrow> C | TArray C \<Rightarrow> C | _ \<Rightarrow> Dto [] []") auto

lemma decorators_sound:
  "enforces ds t \<Longrightarrow> \<forall>d\<in>set ds. dec_accepts d v \<Longrightarrow> inhabits t v"
  "prop_enforced p \<Longrightarrow> prop_accepts p j \<Longrightarrow> prop_inhabited p j"
proof (induction ds t and p arbitrary: v and j rule: enforces_prop_enforced.induct)
  case (7 ds n ps)
  then obtain fs where v: "v = Some (JObj fs)" by fastforce
  then have "accepts (Dto n ps) (JObj fs)" using 7 by fastforce
  then show ?case using 7 v by auto
next
  case (9 n t ds)
  show ?case
  proof (cases "absent (property_of j n)")
    case True
    then show ?thesis by auto
  next
    case False
    then show ?thesis using 9 by auto
  qed
qed fastforce+

context class_validator
begin

lemma enforced_typed:
  assumes "enforced C" and "validate C (JObj fs) = []"
  shows "inhabits (TClass C) (Some (JObj fs))"
proof (cases C)
  case (Dto n ps)
  then have "prop_inhabited p (JObj fs)" if "p \<in> set ps" for p
    using assms that decorators_sound(2) by (auto simp: validate_iff enforced_def)
  then show ?thesis using Dto by simp
qed

lemma rejected:
  assumes "\<not> accepts C (JObj fs)" and "toValidate m"
  shows "ValidationPipe_transform (\<lambda>_ v. v) (validate C) (JObj fs) (Some m) =
    Inl (HttpApiError INVALID_DATA
      (JArr (map JStr (getErrorMessages (validate C (JObj fs))))) None)"
  using assms by (simp add: ValidationPipe_transform_def Let_def validate_iff)

lemma passed:
  assumes "accepts C (JObj fs)"
  shows "ValidationPipe_transform (\<lambda>_ v. v) (validate C) (JObj fs) m = Inr (JObj fs)"
  using assms by (simp add: ValidationPipe_transform_def Let_def validate_iff split: option.split)

end

section \<open>The classes of the configurator\<close>

definition providerTypes :: "string list" where
  "providerTypes = map showProviderType [GOOGLE_SHEETS, MICROSOFT_EXCEL, AIR_TABLE]"

definition optionalString :: "string \<Rightarrow> dto_prop" where
  "optionalString n = Property n TString [IsOptional, IsString]"

definition metadataProp :: dto_prop where
  "metadataProp = Property ''metadata'' (TRecord TString) [IsOptional, IsObject]"

definition dto_ProviderAuthConfig :: dto where
  "dto_ProviderAuthConfig = Dto ''ProviderAuthConfigDto'' [optionalString ''refreshToken'']"

definition dto_ProviderConfig :: dto where
  "dto_ProviderConfig = Dto ''ProviderConfigDto''
    [optionalString ''spreadsheetId'', optionalString ''workbookId'', optionalString ''driveId'',
     optionalString ''timezone'',
     Property ''auth'' (TClass dto_ProviderAuthConfig) [IsNotEmpty, ValidateNested dto_ProviderAuthConfig]]"

definition dto_CreateDataProvider :: dto where
  "dto_CreateDataProvider = Dto ''CreateDataProviderDto''
    [Property ''type'' (TEnum providerTypes) [IsNotEmpty, IsEnum providerTypes],
     Property ''config'' (TClass dto_ProviderConfig) [IsNotEmpty, ValidateNested dto_ProviderConfig],
     metadataProp]"

definition dto_UpdateDataProvider :: dto where
  "dto_UpdateDataProvider = Dto ''UpdateDataProviderDto''
    [Property ''auth'' (TClass dto_ProviderAuthConfig) [IsOptional, ValidateNested dto_ProviderAuthConfig],
     metadataProp]"

definition dto_DataSourceConfig :: dto where
  "dto_DataSourceConfig = Dto ''DataSourceConfigDto''
    (dto_props dto_ProviderConfig @ [optionalString ''worksheetId''])"

definition dto_CreateDataSource :: dto where
  "dto_CreateDataSource = Dto ''CreateDataSourceDto''
    [Property ''type'' (TEnum providerTypes) [IsNotEmpty, IsEnum providerTypes],
     Property ''config'' (TClass dto_DataSourceConfig) [IsNotEmpty, ValidateNested dto_DataSourceConfig],
     metadataProp]"

definition dto_UpdateSyncConnection :: dto where
  "dto_UpdateSyncConnection = Dto ''UpdateSyncConnectionDto''
    [Property ''status'' (TEnum [''active'', ''inactive'']) [IsOptional, IsEnum [''active'', ''inactive'']]]"

definition dto_CreateSyncConnectionAuthConfig :: dto where
  "dto_CreateSyncConnectionAuthConfig = Dto ''CreateSyncConnectionAuthConfigDto''
    (dto_props dto_ProviderAuthConfig)"

definition dto_CreateSyncConnectionTriggerConfig :: dto where
  "dto_CreateSyncConnectionTriggerConfig = Dto ''CreateSyncConnectionTriggerConfigDto''
    [Property ''frequency'' TNumber [IsOptional, IsNumber]]"

definition dto_CreateSyncConnectionConfig :: dto where
  "dto_CreateSyncConnectionConfig = Dto ''CreateSyncConnectionConfigDto''
    [Property ''auth'' (TClass dto_CreateSyncConnectionAuthConfig)
       [IsOptional, IsObject, ValidateNested dto_CreateSyncConnectionAuthConfig],
     Property ''trigger'' (TClass dto_CreateSyncConnectionTriggerConfig)
       [IsOptional, IsObject, ValidateNested dto_CreateSyncConnectionTriggerConfig]]"

definition dto_CreateSyncConnection :: dto where
  "dto_CreateSyncConnection = Dto ''CreateSyncConnectionDto''
    [Property ''sourceId'' TString [IsNotEmpty, IsString],
     Property ''config'' (TClass dto_CreateSyncConnectionConfig)
       [IsOptional, IsObject, ValidateNested dto_CreateSyncConnectionConfig]]"

definition dto_CreateSyncConnectionFromDataSource :: dto where
  "dto_CreateSyncConnectionFromDataSource = Dto ''CreateSyncConnectionFromDataSourceDto''
    (omitType dto_CreateSyncConnection [''sourceId''])"

definition webhookTypes :: "string list" where
  "webhookTypes = [''data-source-deleted'', ''data-source-error'', ''sync-connection-created'',
     ''syncflow-scheduled'', ''syncflow-succeed'', ''syncflow-completed'', ''syncflow-failed'']"

definition dto_CreateWebhook :: dto where
  "dto_CreateWebhook = Dto ''CreateWebhookDto''
    [Property ''type'' (TEnum webhookTypes) [IsNotEmpty, IsEnum webhookTypes],
     Property ''url'' TString [IsNotEmpty, IsString],
     Property ''assure'' TBoolean [IsOptional, IsBoolean],
     optionalString ''dataSourceId'',
     Property ''metadata'' (TRecord TAny) [IsOptional]]"

definition dto_CreateWebhooks :: dto where
  "dto_CreateWebhooks = Dto ''CreateWebhooksDto''
    [Property ''webhooks'' (TArray dto_CreateWebhook) [IsNotEmpty, ValidateNested dto_CreateWebhook]]"

text \<open>The classes whose decorators do not imply their types, each with a body that shows it: an
  array where an object is meant, a value of the wrong type in a record, a number for a record,
  an object for an array.\<close>

definition configurator_dtos :: "dto list" where
  "configurator_dtos = [dto_ProviderAuthConfig, dto_ProviderConfig, dto_CreateDataProvider,
     dto_UpdateDataProvider, dto_DataSourceConfig, dto_CreateDataSource, dto_UpdateSyncConnection,
     dto_CreateSyncConnectionAuthConfig, dto_CreateSyncConnectionTriggerConfig,
     dto_CreateSyncConnectionConfig, dto_CreateSyncConnection,
     dto_CreateSyncConnectionFromDataSource, dto_CreateWebhook, dto_CreateWebhooks]"

definition loose_bodies :: "(dto \<times> (string \<times> json) list) list" where
  "loose_bodies =
    [(dto_ProviderConfig, [(''auth'', JArr [])]),
     (dto_CreateDataProvider, [(''type'', JStr ''google-sheets''), (''config'', JArr [])]),
     (dto_UpdateDataProvider, [(''metadata'', JObj [(''key'', JNum 1)])]),
     (dto_DataSourceConfig, [(''auth'', JArr [])]),
     (dto_CreateDataSource, [(''type'', JStr ''google-sheets''), (''config'', JArr [])]),
     (dto_CreateWebhook, [(''type'', JStr ''syncflow-failed''), (''url'', JStr ''http://h''),
        (''metadata'', JNum 1)]),
     (dto_CreateWebhooks, [(''webhooks'', JObj [(''type'', JStr ''syncflow-failed''),
        (''url'', JStr ''http://h'')])])]"

lemmas dto_defs = dto_ProviderAuthConfig_def dto_ProviderConfig_def dto_CreateDataProvider_def
  dto_UpdateDataProvider_def dto_DataSourceConfig_def dto_CreateDataSource_def
  dto_UpdateSyncConnection_def dto_CreateSyncConnectionAuthConfig_def
  dto_CreateSyncConnectionTriggerConfig_def dto_CreateSyncConnectionConfig_def
  dto_CreateSyncConnection_def dto_CreateSyncConnectionFromDataSource_def dto_CreateWebhook_def
  dto_CreateWebhooks_def optionalString_def metadataProp_def omitType_def providerTypes_def
  webhookTypes_def

lemma loose_bodies_accepted:
  "list_all (\<lambda>(C, fs). accepts C (JObj fs) \<and> \<not> inhabits (TClass C) (Some (JObj fs))) loose_bodies"
  unfolding loose_bodies_def by (simp add: dto_defs absent_def)

lemma enforced_dtos:
  "list_all (\<lambda>C. enforced C \<or> C \<in> fst ` set loose_bodies) configurator_dtos"
  unfolding configurator_dtos_def loose_bodies_def by (simp add: enforced_def dto_defs)



end
