(* ===== verification/RequestBodies.thy ===== *)
theory RequestBodies
  imports Validation "HOL-Library.Monad_Syntax"
begin

text \<open>
  Requests with a JSON body (\<open>apps/configurator\<close>): Nest runs the guard, then the validation pipe with
  the class that the controller method declares for its \<open>@Body()\<close>, then the method. What the
  controllers and services of the model take are records; the readers of this theory find the
  fields of these records in a body, and have no result where the body is not of the types that
  the fields have.
\<close>

section \<open>Reading a body\<close>

fun asStr :: "json \<Rightarrow> string option" where
  "asStr (JStr s) = Some s" | "asStr _ = None"

fun asNum :: "json \<Rightarrow> int option" where
  "asNum (JNum n) = Some n" | "asNum _ = None"

fun asBool :: "json \<Rightarrow> bool option" where
  "asBool (JBool b) = Some b" | "asBool _ = None"

fun asObj :: "json \<Rightarrow> (string \<times> json) list option" where
  "asObj (JObj fs) = Some fs" | "asObj _ = None"

fun asArr :: "json \<Rightarrow> json list option" where
  "asArr (JArr vs) = Some vs" | "asArr _ = None"

text \<open>A field that may be absent.\<close>

definition reads :: "(json \<Rightarrow> 'a option) \<Rightarrow> json option \<Rightarrow> 'a option option" where
  "reads f v = (if absent v then Some None else map_option Some (f (the v)))"

text \<open>A field that must be there.\<close>

definition required :: "(json \<Rightarrow> 'a option) \<Rightarrow> json option \<Rightarrow> 'a option" where
  "required f v = Option.bind v f"

fun readAll :: "(json \<Rightarrow> 'a option) \<Rightarrow> json list \<Rightarrow> 'a list option" where
  "readAll f [] = Some []"
| "readAll f (v # vs) = do { x \<leftarrow> f v; xs \<leftarrow> readAll f vs; Some (x # xs) }"

fun readEntries :: "(string \<times> json) list \<Rightarrow> Metadata option" where
  "readEntries [] = Some []"
| "readEntries ((k, v) # fs) = do { s \<leftarrow> asStr v; m \<leftarrow> readEntries fs; Some ((k, s) # m) }"

definition readMetadata :: "json \<Rightarrow> Metadata option" where
  "readMetadata v = Option.bind (asObj v) readEntries"

definition readEnum :: "(string \<times> 'a) list \<Rightarrow> json \<Rightarrow> 'a option" where
  "readEnum es v = Option.bind (asStr v) (map_of es)"

definition providerTypeNames :: "(string \<times> ProviderType) list" where
  "providerTypeNames = map (\<lambda>t. (showProviderType t, t)) [GOOGLE_SHEETS, MICROSOFT_EXCEL, AIR_TABLE]"

definition webhookTypeNames :: "(string \<times> WebhookType) list" where
  "webhookTypeNames = zip webhookTypes [WT_DATA_SOURCE_DELETED, WT_DATA_SOURCE_ERROR,
     WT_SYNC_CONNECTION_CREATED, WT_SYNCFLOW_SCHEDULED, WT_SYNCFLOW_SUCCEED, WT_SYNCFLOW_COMPLETED,
     WT_SYNCFLOW_FAILED]"

definition statusNames :: "(string \<times> SyncConnectionStatus) list" where
  "statusNames = [(''active'', SC_ACTIVE), (''inactive'', SC_INACTIVE)]"

text \<open>\<open>auth.refreshToken\<close> and the other fields of a configuration; \<open>sheetId\<close>, \<open>userId\<close>,
  \<open>worksheetName\<close> and \<open>dest\<close> are declared by no class but used by the services.\<close>

definition readAuth :: "json \<Rightarrow> string option option" where
  "readAuth v = do { fs \<leftarrow> asObj v; reads asStr (map_of fs ''refreshToken'') }"

definition readDest :: "json \<Rightarrow> string option option" where
  "readDest v = do { fs \<leftarrow> asObj v; reads asStr (map_of fs ''tableName'') }"

definition readConfig :: "json \<Rightarrow> DataSourceConfig option" where
  "readConfig v = do {
     fs \<leftarrow> asObj v;
     spreadsheetId \<leftarrow> reads asStr (map_of fs ''spreadsheetId'');
     sheetId \<leftarrow> reads asStr (map_of fs ''sheetId'');
     userId \<leftarrow> reads asStr (map_of fs ''userId'');
     driveId \<leftarrow> reads asStr (map_of fs ''driveId'');
     workbookId \<leftarrow> reads asStr (map_of fs ''workbookId'');
     worksheetId \<leftarrow> reads asStr (map_of fs ''worksheetId'');
     worksheetName \<leftarrow> reads asStr (map_of fs ''worksheetName'');
     timezone \<leftarrow> reads asStr (map_of fs ''timezone'');
     auth \<leftarrow> required readAuth (map_of fs ''auth'');
     dest \<leftarrow> reads readDest (map_of fs ''dest'');
     Some \<lparr>cfg_spreadsheetId = spreadsheetId, cfg_sheetId = sheetId, cfg_userId = userId,
       cfg_driveId = driveId, cfg_workbookId = workbookId, cfg_worksheetId = worksheetId,
       cfg_worksheetName = worksheetName, cfg_timezone = timezone, cfg_auth = auth,
       cfg_destTableName = Option.bind dest id\<rparr> }"

definition readTrigger :: "json \<Rightarrow> TriggerConfig option" where
  "readTrigger v = do {
     fs \<leftarrow> asObj v;
     _ \<leftarrow> reads asNum (map_of fs ''frequency'');
     Some fs }"

definition readConnectionAuth :: "json \<Rightarrow> json option" where
  "readConnectionAuth v = do { _ \<leftarrow> readAuth v; Some v }"

definition readConnectionConfig :: "json \<Rightarrow> SyncConnectionConfig option" where
  "readConnectionConfig v = do {
     fs \<leftarrow> asObj v;
     auth \<leftarrow> reads readConnectionAuth (map_of fs ''auth'');
     trigger \<leftarrow> reads readTrigger (map_of fs ''trigger'');
     Some \<lparr>cc_auth = auth, cc_trigger = trigger\<rparr> }"

definition readWebhook :: "json \<Rightarrow> CreateWebhookDto option" where
  "readWebhook v = do {
     fs \<leftarrow> asObj v;
     type \<leftarrow> required (readEnum webhookTypeNames) (map_of fs ''type'');
     url \<leftarrow> required asStr (map_of fs ''url'');
     assure \<leftarrow> reads asBool (map_of fs ''assure'');
     dataSourceId \<leftarrow> reads asStr (map_of fs ''dataSourceId'');
     metadata \<leftarrow> reads asObj (map_of fs ''metadata'');
     Some \<lparr>cwd_type = type, cwd_url = url, cwd_assure = assure, cwd_dataSourceId = dataSourceId,
       cwd_metadata = metadata\<rparr> }"

section \<open>Routes\<close>

datatype bodyRoute = RPostDataSource | RPatchConnection oid | RPostProvider | RPutProvider oid
  | RPostConnection | RPostWebhook | RPostWebhooks

primrec route_dto :: "bodyRoute \<Rightarrow> dto" where
  "route_dto RPostDataSource = dto_CreateDataSource"
| "route_dto (RPatchConnection i) = dto_UpdateSyncConnection"
| "route_dto RPostProvider = dto_CreateDataProvider"
| "route_dto (RPutProvider i) = dto_UpdateDataProvider"
| "route_dto RPostConnection = dto_CreateSyncConnection"
| "route_dto RPostWebhook = dto_CreateWebhook"
| "route_dto RPostWebhooks = dto_CreateWebhooks"

primrec readRequest :: "bodyRoute \<Rightarrow> (string \<times> json) list \<Rightarrow> request option" where
  "readRequest RPostDataSource fs = do {
     type \<leftarrow> required (readEnum providerTypeNames) (map_of fs ''type'');
     config \<leftarrow> required readConfig (map_of fs ''config'');
     metadata \<leftarrow> reads readMetadata (map_of fs ''metadata'');
     Some (PostDataSource \<lparr>cdd_type = type, cdd_config = config, cdd_metadata = metadata\<rparr>) }"
| "readRequest (RPatchConnection i) fs = do {
     status \<leftarrow> reads (readEnum statusNames) (map_of fs ''status'');
     Some (PatchConnection i status) }"
| "readRequest RPostProvider fs = do {
     type \<leftarrow> required (readEnum providerTypeNames) (map_of fs ''type'');
     config \<leftarrow> required readConfig (map_of fs ''config'');
     metadata \<leftarrow> reads readMetadata (map_of fs ''metadata'');
     Some (PostProvider \<lparr>cpd_type = type, cpd_config = config, cpd_metadata = metadata\<rparr>) }"
| "readRequest (RPutProvider i) fs = do {
     auth \<leftarrow> reads readAuth (map_of fs ''auth'');
     metadata \<leftarrow> reads readMetadata (map_of fs ''metadata'');
     Some (PutProvider i auth metadata) }"
| "readRequest RPostConnection fs = do {
     sourceId \<leftarrow> required asStr (map_of fs ''sourceId'');
     config \<leftarrow> reads readConnectionConfig (map_of fs ''config'');
     Some (PostConnection \<lparr>cn_sourceId = sourceId, cn_config = config\<rparr>) }"
| "readRequest RPostWebhook fs = map_option PostWebhook (readWebhook (JObj fs))"
| "readRequest RPostWebhooks fs = do {
     vs \<leftarrow> required asArr (map_of fs ''webhooks'');
     webhooks \<leftarrow> readAll readWebhook vs;
     Some (PostWebhooks webhooks) }"

text \<open>A request with a body. Where the pipe passes a body that has not the declared types, the
  handler runs on a value that the typed interface does not describe: \<open>None\<close>.\<close>

definition handleBody ::
  "configurator \<Rightarrow> (dto \<Rightarrow> json \<Rightarrow> ValidationError list) \<Rightarrow> string option \<Rightarrow> bodyRoute \<Rightarrow>
   (string \<times> json) list \<Rightarrow> world \<Rightarrow> (api_data reply \<times> world) option" where
  "handleBody A validate apiKey r fs w =
    (if \<not> Configurator_canActivate (cf_apiKeys A) apiKey then Some (Forbidden, w)
     else case ValidationPipe_transform (\<lambda>_ v. v) (validate (route_dto r)) (JObj fs)
         (Some (DtoClass (dto_name (route_dto r)))) of
       Inl e \<Rightarrow> Some (AllExceptionFilter_catch e, w)
     | Inr _ \<Rightarrow> map_option (\<lambda>req. handleRequest A apiKey req w) (readRequest r fs))"

section \<open>Bodies of the declared types can be read\<close>

lemma bind_not_None: "(\<exists>y. Option.bind m f = Some y) \<longleftrightarrow> (\<exists>x. m = Some x \<and> (\<exists>y. f x = Some y))"
  by (cases m) auto

lemma map_of_exists: "(\<exists>y. map_of es k = Some y) \<longleftrightarrow> k \<in> fst ` set es"
  by (force simp: dom_map_of_conv_image_fst[symmetric])

lemma readEnum_exists:
  "(\<exists>y. readEnum es v = Some y) \<longleftrightarrow> (\<exists>s\<in>fst ` set es. v = JStr s)"
  by (cases v) (auto simp: readEnum_def map_of_exists)

lemma as_exists:
  "(\<exists>y. asStr v = Some y) \<longleftrightarrow> (\<exists>s. v = JStr s)"
  "(\<exists>y. asNum v = Some y) \<longleftrightarrow> (\<exists>n. v = JNum n)"
  "(\<exists>y. asBool v = Some y) \<longleftrightarrow> (\<exists>b. v = JBool b)"
  "(\<exists>y. asObj v = Some y) \<longleftrightarrow> (\<exists>fs. v = JObj fs)"
  by (cases v; simp)+

lemma reads_exists:
  "(\<exists>y. reads f v = Some y) \<longleftrightarrow> absent v \<or> (\<exists>j y. v = Some j \<and> f j = Some y)"
  by (cases v) (auto simp: reads_def absent_def)

lemma required_exists: "(\<exists>y. required f v = Some y) \<longleftrightarrow> (\<exists>j y. v = Some j \<and> f j = Some y)"
  by (cases v) (auto simp: required_def)

text \<open>Accepted bodies of sync connections can be read.\<close>

lemma auth_readable:
  assumes "accepts dto_CreateSyncConnectionAuthConfig (JObj fs)"
  shows "\<exists>y. readConnectionAuth (JObj fs) = Some y"
  using assms by (auto simp: readConnectionAuth_def readAuth_def bind_not_None reads_exists as_exists dto_defs)

lemma trigger_readable:
  assumes "accepts dto_CreateSyncConnectionTriggerConfig (JObj fs)"
  shows "\<exists>y. readTrigger (JObj fs) = Some y"
  using assms by (auto simp: readTrigger_def bind_not_None reads_exists as_exists dto_defs)

lemma config_readable:
  assumes "accepts dto_CreateSyncConnectionConfig (JObj fs)"
  shows "\<exists>y. readConnectionConfig (JObj fs) = Some y"
  using assms auth_readable trigger_readable
  by (fastforce simp: readConnectionConfig_def bind_not_None reads_exists
      dto_CreateSyncConnectionConfig_def)

lemma connection_readable:
  assumes "accepts dto_CreateSyncConnection (JObj fs)"
  shows "\<exists>y. readRequest RPostConnection fs = Some y"
  using assms config_readable
  by (fastforce simp: bind_not_None reads_exists required_exists as_exists
      dto_CreateSyncConnection_def)

lemma status_readable:
  assumes "accepts dto_UpdateSyncConnection (JObj fs)"
  shows "\<exists>y. readRequest (RPatchConnection i) fs = Some y"
  using assms by (auto simp: bind_not_None reads_exists readEnum_exists statusNames_def
      dto_UpdateSyncConnection_def)

lemma webhookTypeNames_fst: "fst ` set webhookTypeNames = set webhookTypes"
  by (simp add: webhookTypeNames_def webhookTypes_def)

lemma webhook_readable:
  assumes "accepts dto_CreateWebhook (JObj fs)" and "inhabits (TClass dto_CreateWebhook) (Some (JObj fs))"
  shows "\<exists>y. readRequest RPostWebhook fs = Some y"
proof -
  have "\<exists>y. reads asObj (map_of fs ''metadata'') = Some y"
    using assms(2) by (auto simp: reads_exists as_exists dto_CreateWebhook_def absent_def)
  then show ?thesis
    using assms(1) by (auto simp: readWebhook_def bind_not_None reads_exists required_exists
        readEnum_exists as_exists webhookTypeNames_fst dto_CreateWebhook_def optionalString_def)
qed

text \<open>The frequency that reaches the cron expression is a number.\<close>

definition numeric_frequency :: "CreateSyncConnectionDto \<Rightarrow> bool" where
  "numeric_frequency d \<longleftrightarrow> (\<forall>t. Option.bind (cn_config d) cc_trigger = Some t \<longrightarrow>
     absent (map_of t ''frequency'') \<or> (\<exists>n. map_of t ''frequency'' = Some (JNum n)))"

lemma reads_asNum: "reads asNum v = Some x \<Longrightarrow> absent v \<or> (\<exists>n. v = Some (JNum n))"
  by (cases v; cases "the v") (simp_all add: reads_def absent_def)

lemma readTrigger_frequency:
  assumes "readTrigger v = Some t"
  shows "absent (map_of t ''frequency'') \<or> (\<exists>n. map_of t ''frequency'' = Some (JNum n))"
  using assms by (auto simp: readTrigger_def bind_eq_Some_conv dest: reads_asNum)

lemma read_connection_frequency:
  assumes "readRequest RPostConnection fs = Some req"
  obtains d where "req = PostConnection d" "numeric_frequency d"
proof -
  from assms obtain i c where d: "req = PostConnection \<lparr>cn_sourceId = i, cn_config = c\<rparr>"
    "reads readConnectionConfig (map_of fs ''config'') = Some c"
    by (auto simp: bind_eq_Some_conv)
  have "numeric_frequency \<lparr>cn_sourceId = i, cn_config = c\<rparr>"
    using d(2) readTrigger_frequency
    by (fastforce simp: numeric_frequency_def reads_def readConnectionConfig_def bind_eq_Some_conv
        split: if_splits)
  then show ?thesis using that d(1) by blast
qed

section \<open>The interface on bodies is the typed interface\<close>


text \<open>A frequency that is a text is refused, one that is a number is read.\<close>

definition connection_body :: "json \<Rightarrow> (string \<times> json) list" where
  "connection_body frequency = [(''sourceId'', JStr ''d2''),
     (''config'', JObj [(''trigger'', JObj [(''frequency'', frequency)])])]"


end
