(* ===== verification/DestinationApi.thy ===== *)
theory DestinationApi
  imports RequestBodies WorkerActivities
begin

text \<open>
  The data that the configurator reads back from the destination store: that it is the table which the
  worker has the loader fill, and what the text of the queries is for a table name or id chosen by
  the client.
\<close>

lemma dataTableName_worker: "dataTableName ds = destTableName ds"
  by (simp add: dataTableName_def destTableName_def)

context mongo_driver begin

lemma getData_run:
  assumes "dst_service D = PostgresDestination"
  shows "DataSourceService_getData M D i w = (case live_source i (w_db w) of
      None \<Rightarrow> (Inl (ApiError NO_DATA_EXISTS ''Data source not found''), w)
    | Some ds \<Rightarrow> let c = SqlQuery (dataQuery (dataTableName ds)) in
        (case dst_query D (w_calls w @ [c]) of Inl e \<Rightarrow> Inl e | Inr rows \<Rightarrow> Inr (Some (map rowData rows)),
         w\<lparr>w_calls := w_calls w @ [c]\<rparr>))"
  using assms by (simp add: DataSourceService_getData_def DataSourceService_getById_def
      Destination_getData_def io_simps repo_simps Let_def split: option.split sum.split)

lemma synced_table:
  assumes "fst (getSyncDataGoogleSheets M sf w) = Inr (Inl sd)"
  shows "\<exists>ds. live_source (sf_sourceId sf) (w_db w) = Some ds \<and> sy_destTableName sd = dataTableName ds"
  using assms by (auto simp: getSyncDataGoogleSheets_def activityWrapper_def sourceOfSyncflow_def
      providerOrReject_def io_simps repo_simps dataTableName_worker split: option.splits if_splits)

end

lemma not_found: "apiErrorStatus NO_DATA_EXISTS = 404"
  by (simp add: apiErrorStatus_def NO_DATA_EXISTS_def INVALID_DATA_def)

section \<open>Properties\<close>


text \<open>A reading configurator: the source of the example store, with a table name of its own.\<close>

definition tabled_world :: "string option \<Rightarrow> world" where
  "tabled_world t = example_world\<lparr>w_db := example_db\<lparr>db_sources := [example_source\<lparr>ds_config :=
     (ds_config example_source)\<lparr>cfg_destTableName := t\<rparr>\<rparr>]\<rparr>\<rparr>"


text \<open>
  C21: what the client names goes into the queries as it is. For every name \<open>a\<close> and fragment \<open>s\<close> of SQL there is a
  body that the validation pipe accepts for the creation of a data source, such that the query for the
  data of any source with its configuration is the query for the table \<open>a\<close> followed by \<open>s\<close>, with the
  closing quote in a comment. And the id of a schema request, which no guard or pipe inspects and no
  data source needs to have, reaches the store in the same way.
\<close>

theorem client_text_in_queries:
  assumes "Configurator_canActivate (cf_apiKeys A) key" and "dst_service (cf_destination A) = PostgresDestination"
  shows "(\<exists>fs dto. accepts dto_CreateDataSource (JObj fs) \<and>
      readRequest RPostDataSource fs = Some (PostDataSource dto) \<and>
      (\<forall>ds. ds_config ds = cdd_config dto \<longrightarrow> dataQuery (dataTableName ds) =
        dataQuery a @ ''; '' @ s @ '' --'' @ [CHR 34])) \<and>
    snd (handleRequest A key (GetSchema (a @ [CHR 39] @ ''; '' @ s @ '' --'')) w) =
      w\<lparr>w_calls := w_calls w @ [SqlQuery (schemaQuery a @ ''; '' @ s @ '' --'' @ [CHR 39])]\<rparr>"
proof -
  let ?t = "a @ [CHR 34] @ ''; '' @ s @ '' --''"
  let ?fs = "[(''type'', JStr ''google-sheets''), (''config'', JObj [(''auth'', JObj [(''refreshToken'', JStr ''rt'')]),
      (''spreadsheetId'', JStr ''sp''), (''dest'', JObj [(''tableName'', JStr ?t)])])]"
  have "accepts dto_CreateDataSource (JObj ?fs)" by (simp add: dto_defs absent_def)
  moreover have "\<exists>dto. readRequest RPostDataSource ?fs = Some (PostDataSource dto) \<and>
      cfg_destTableName (cdd_config dto) = Some ?t"
    by (simp add: required_def reads_def absent_def readEnum_def providerTypeNames_def readConfig_def
        readAuth_def readDest_def)
  ultimately have "\<exists>dto. accepts dto_CreateDataSource (JObj ?fs) \<and>
      readRequest RPostDataSource ?fs = Some (PostDataSource dto) \<and>
      (\<forall>ds. ds_config ds = cdd_config dto \<longrightarrow> dataQuery (dataTableName ds) =
        dataQuery a @ ''; '' @ s @ '' --'' @ [CHR 34])"
    by (auto simp: dataTableName_def dataQuery_def)
  moreover have "snd (handleRequest A key (GetSchema (a @ [CHR 39] @ ''; '' @ s @ '' --'')) w) =
      w\<lparr>w_calls := w_calls w @ [SqlQuery (schemaQuery a @ ''; '' @ s @ '' --'' @ [CHR 39])]\<rparr>"
    using assms by (simp add: handleRequest_def service_def answer_def io_simps
        DataSourceService_getSchema_def Destination_getSchema_def schemaQuery_def split: sum.split)
  ultimately show ?thesis by blast
qed

theorem client_text_in_queries_witness:
  "snd (handleRequest example_configurator (Some ''k'')
      (GetSchema (''x'' @ [CHR 39] @ ''; '' @ ''DROP TABLE t'' @ '' --'')) example_world) =
    example_world\<lparr>w_calls := w_calls example_world @
      [SqlQuery (schemaQuery ''x'' @ ''; '' @ ''DROP TABLE t'' @ '' --'' @ [CHR 39])]\<rparr>"
  using client_text_in_queries [of example_configurator "Some ''k''" "''x''" "''DROP TABLE t''" example_world]
  by (simp add: example_configurator_def Configurator_canActivate_def)

end
