(* ===== verification/FormSyncUtils.thy ===== *)
theory FormSyncUtils
  imports CoreEntities "HOL-Library.AList"
begin

text \<open>
  The pure parts of the form-sync application (\<open>form-sync/main/src\<close>): its \<open>Utils\<close> class, the
  header table of a sheet and the conversion of a record to cells.

  \<open>md5\<close> is a parameter. Header cells are text. A date cell is an exact rational number of days;
  the rounding of the floating point computation is not modelled.
\<close>

section \<open>Field names\<close>

text \<open>The digits of the hash become letters, which some of its characters already are.\<close>

definition numberReplacer :: "char \<Rightarrow> char" where
  "numberReplacer c =
    (if c = CHR ''1'' then CHR ''a'' else if c = CHR ''2'' then CHR ''b''
     else if c = CHR ''3'' then CHR ''c'' else if c = CHR ''4'' then CHR ''d''
     else if c = CHR ''5'' then CHR ''e'' else if c = CHR ''6'' then CHR ''f''
     else if c = CHR ''7'' then CHR ''g'' else if c = CHR ''8'' then CHR ''h''
     else if c = CHR ''9'' then CHR ''i'' else if c = CHR ''0'' then CHR ''j'' else c)"

definition hashFieldName :: "(string \<Rightarrow> string) \<Rightarrow> string \<Rightarrow> string" where
  "hashFieldName md5 fieldName = map numberReplacer (''f_'' @ md5 fieldName)"

section \<open>Column names\<close>

text \<open>The \<open>while\<close> loop of \<open>convertToExcelColumnName\<close> with its two variables.\<close>

function columnLoop :: "int \<Rightarrow> string \<Rightarrow> string" where
  "columnLoop columnNumber columnName =
    (if 0 \<le> columnNumber
     then columnLoop (columnNumber div 26 - 1) (char_of (nat (columnNumber mod 26) + 65) # columnName)
     else columnName)"
  by pat_completeness auto
termination by (relation "measure (\<lambda>(n, _). nat (n + 1))") auto

declare columnLoop.simps [simp del]

definition convertToExcelColumnName :: "int \<Rightarrow> string" where
  "convertToExcelColumnName columnNumber = columnLoop columnNumber []"

text \<open>Reading a column name back.\<close>

definition columnValue :: "string \<Rightarrow> int" where
  "columnValue s = foldl (\<lambda>v c. v * 26 + (of_char c - 64)) 0 s"

lemma columnLoop_value:
  assumes "-1 \<le> n"
  shows "columnValue (columnLoop n acc) = foldl (\<lambda>v c. v * 26 + (of_char c - 64)) (n + 1) acc"
  using assms
proof (induction n acc rule: columnLoop.induct)
  case (1 n acc)
  show ?case
  proof (cases "0 \<le> n")
    case True
    let ?c = "char_of (nat (n mod 26) + 65) :: char"
    have "of_char ?c = nat (n mod 26) + 65" using True by (simp add: nat_less_iff)
    moreover have "(of_char ?c :: int) = int (of_char ?c)" by (simp only: of_nat_of_char)
    ultimately have c: "(of_char ?c :: int) = n mod 26 + 65" by simp
    have "columnValue (columnLoop n acc)
        = foldl (\<lambda>v c. v * 26 + (of_char c - 64)) (n div 26) (?c # acc)"
      using 1 True by (subst columnLoop.simps) simp
    then show ?thesis using c by simp
  next
    case False
    then have "n = -1" using "1.prems" by simp
    then show ?thesis by (simp add: columnLoop.simps columnValue_def)
  qed
qed

lemma columnLoop_letters:
  assumes "set acc \<subseteq> {c. 65 \<le> (of_char c :: nat) \<and> (of_char c :: nat) \<le> 90}"
  shows "set (columnLoop n acc) \<subseteq> {c. 65 \<le> (of_char c :: nat) \<and> (of_char c :: nat) \<le> 90}"
  using assms
proof (induction n acc rule: columnLoop.induct)
  case (1 n acc)
  show ?case
  proof (cases "0 \<le> n")
    case True
    have "nat (n mod 26) \<le> 25" using True by (simp add: nat_le_iff)
    then have "65 \<le> (of_char (char_of (nat (n mod 26) + 65) :: char) :: nat)
        \<and> (of_char (char_of (nat (n mod 26) + 65) :: char) :: nat) \<le> 90" by simp
    then show ?thesis using 1 True by (subst columnLoop.simps) auto
  next
    case False
    then show ?thesis using "1.prems" by (simp add: columnLoop.simps)
  qed
qed

text \<open>
  C37: the columns of a sheet have distinct names. For every column index from 0 the conversion
  ends, with a word over A to Z that reads back, in base 26 with digits 1 to 26, as the column's
  ordinal; it is the empty word exactly when there is no column (a negative index).
\<close>

theorem column_name_roundtrip:
  "columnValue (convertToExcelColumnName n) = max 0 (n + 1) \<and>
   (\<forall>c \<in> set (convertToExcelColumnName n). 65 \<le> (of_char c :: nat) \<and> (of_char c :: nat) \<le> 90) \<and>
   (convertToExcelColumnName n = [] \<longleftrightarrow> n < 0)"
proof (intro conjI)
  have neg: "convertToExcelColumnName n = []" if "n < 0"
    using that by (simp add: convertToExcelColumnName_def columnLoop.simps)
  show v: "columnValue (convertToExcelColumnName n) = max 0 (n + 1)"
    using columnLoop_value[of n "[]"] neg
    by (cases "n < 0") (simp_all add: convertToExcelColumnName_def columnValue_def)
  show "convertToExcelColumnName n = [] \<longleftrightarrow> n < 0"
    using v neg by (cases "n < 0") (auto simp: columnValue_def)
  show "\<forall>c \<in> set (convertToExcelColumnName n). 65 \<le> (of_char c :: nat) \<and> (of_char c :: nat) \<le> 90"
    using columnLoop_letters[of "[]" n] by (auto simp: convertToExcelColumnName_def)
qed

theorem column_name_roundtrip_witness:
  "columnValue (convertToExcelColumnName 27) = 28 \<and> convertToExcelColumnName 27 \<noteq> []"
  using column_name_roundtrip [of 27] by simp

section \<open>The header table\<close>

text \<open>
  \<open>while (headerNameSet.has(postfixedHeader)) postfix++\<close>: the tested name is a constant of the loop.
  A loop that does not end is \<open>None\<close>.
\<close>

partial_function (option) postfixLoop :: "string list \<Rightarrow> string \<Rightarrow> nat \<Rightarrow> nat option" where
  "postfixLoop headerNameSet postfixedHeader postfix =
    (if List.member headerNameSet postfixedHeader
     then postfixLoop headerNameSet postfixedHeader (postfix + 1)
     else Some postfix)"

text \<open>\<open>`${header} (${postfix})`\<close> with the initial postfix 1.\<close>

definition postfixed :: "string \<Rightarrow> string" where
  "postfixed header = header @ '' (1)''"

text \<open>
  The \<open>forEach\<close> over the header cells. \<open>counts\<close> says which headers are entered, \<open>keyOf\<close> under
  which name a duplicate is; the table keeps the insertion order of its keys.
\<close>

fun headerLoop ::
  "(string \<Rightarrow> string) \<Rightarrow> (string \<Rightarrow> string \<Rightarrow> string) \<Rightarrow> (string \<Rightarrow> bool) \<Rightarrow> string list \<Rightarrow> nat \<Rightarrow>
   string list \<Rightarrow> (string \<times> nat) list \<Rightarrow> (string \<times> nat) list option" where
  "headerLoop hash keyOf counts [] index headerNameSet headers = Some headers"
| "headerLoop hash keyOf counts (header # rest) index headerNameSet headers =
    (if \<not> counts header
     then headerLoop hash keyOf counts rest (index + 1) headerNameSet headers
     else if \<not> List.member headerNameSet header
     then headerLoop hash keyOf counts rest (index + 1) (header # headerNameSet)
            (AList.update (hash header) index headers)
     else
       (let postfixedHeader = postfixed header
        in Option.bind (postfixLoop headerNameSet postfixedHeader 1) (\<lambda>_.
          headerLoop hash keyOf counts rest (index + 1) (postfixedHeader # headerNameSet)
            (AList.update (hash (keyOf header postfixedHeader)) index headers))))"

definition PRIMARY_ID_NAME :: string where "PRIMARY_ID_NAME = ''__StarionId''"
definition HASHED_PRIMARY_ID :: string where
  "HASHED_PRIMARY_ID = ''f_gfbbfabeggejigfgbfhdcdbecifcjhdd''"

definition headerCounts :: "bool \<Rightarrow> string \<Rightarrow> bool" where
  "headerCounts includeHeader header \<longleftrightarrow> header \<noteq> [] \<and> (includeHeader \<or> header \<noteq> PRIMARY_ID_NAME)"

text \<open>A duplicated Google Sheets header is entered under its postfixed name, an Excel one under the
  name it duplicates, so that its position replaces the first one's.\<close>

definition hashedHeaders_google ::
  "(string \<Rightarrow> string) \<Rightarrow> bool \<Rightarrow> string list \<Rightarrow> (string \<times> nat) list option" where
  "hashedHeaders_google md5 includeHeader headerValues =
    headerLoop (hashFieldName md5) (\<lambda>header postfixedHeader. postfixedHeader) (headerCounts includeHeader)
      headerValues 0 [] []"

definition hashedHeaders_excel ::
  "(string \<Rightarrow> string) \<Rightarrow> bool \<Rightarrow> string list \<Rightarrow> (string \<times> nat) list option" where
  "hashedHeaders_excel md5 includeHeader headerValues =
    headerLoop (hashFieldName md5) (\<lambda>header postfixedHeader. header) (headerCounts includeHeader)
      headerValues 0 [] []"

lemma postfixLoop_stuck:
  assumes "postfixLoop names h k = Some r"
  shows "h \<notin> set names"
  using assms
  by (rule postfixLoop.raw_induct[where P = "\<lambda>names h k r. h \<notin> set names", rotated])
     (auto split: if_splits)

lemma postfixLoop_eq:
  "postfixLoop names h k = (if h \<in> set names then None else Some k)"
proof (cases "h \<in> set names")
  case True
  then show ?thesis using postfixLoop_stuck[of names h k]
    by (cases "postfixLoop names h k") auto
next
  case False
  then show ?thesis by (subst postfixLoop.simps) simp
qed

text \<open>Two header tables of the same cells differ only in their keys.\<close>

lemma headerLoop_None_iff:
  "headerLoop f1 k1 counts hs i names t1 = None \<longleftrightarrow> headerLoop f2 k2 counts hs i names t2 = None"
proof (induction hs arbitrary: i names t1 t2)
  case (Cons h hs)
  show ?case
    by (simp add: Let_def postfixLoop_eq)
       (intro conjI impI; rule Cons.IH)
qed simp

lemma headerLoop_third:
  "counts h \<Longrightarrow> h \<in> set names \<Longrightarrow> postfixed h \<in> set names \<Longrightarrow> h \<in> set hs \<Longrightarrow>
    headerLoop hash k counts hs i names t = None"
proof (induction hs arbitrary: i names t)
  case (Cons x hs)
  show ?case
  proof (cases "x = h")
    case True
    then show ?thesis using Cons.prems by (simp add: Let_def postfixLoop_eq)
  next
    case False
    then show ?thesis using Cons by (simp add: Let_def postfixLoop_eq)
  qed
qed simp

lemma headerLoop_second:
  "counts h \<Longrightarrow> h \<in> set names \<Longrightarrow> 2 \<le> count_list hs h \<Longrightarrow>
    headerLoop hash k counts hs i names t = None"
proof (induction hs arbitrary: i names t)
  case (Cons x hs)
  show ?case
  proof (cases "x = h")
    case True
    then have "count_list hs h \<noteq> 0" using Cons.prems(3) by simp
    then have "h \<in> set hs" by (simp add: count_list_0_iff)
    then show ?thesis using True Cons.prems
      by (simp add: Let_def postfixLoop_eq headerLoop_third)
  next
    case False
    then show ?thesis using Cons by (simp add: Let_def postfixLoop_eq)
  qed
qed simp

lemma headerLoop_first:
  "counts h \<Longrightarrow> 3 \<le> count_list hs h \<Longrightarrow> headerLoop hash k counts hs i names t = None"
proof (induction hs arbitrary: i names t)
  case (Cons x hs)
  show ?case
  proof (cases "x = h")
    case True
    then have "2 \<le> count_list hs h" using Cons.prems by simp
    then show ?thesis using True Cons.prems
      by (simp add: Let_def postfixLoop_eq headerLoop_third headerLoop_second)
  next
    case False
    then show ?thesis using Cons by (simp add: Let_def postfixLoop_eq)
  qed
qed simp

text \<open>
  Headers that the loop can name: none occurs three times, none ends in the postfix.
\<close>

definition nameable :: "(string \<Rightarrow> bool) \<Rightarrow> string list \<Rightarrow> bool" where
  "nameable counts hs \<longleftrightarrow> (\<forall>h \<in> set hs. counts h \<longrightarrow> count_list hs h \<le> 2 \<and> (\<forall>g. h \<noteq> postfixed g))"

text \<open>The name under which the i-th header is entered, and the names in use after a prefix.\<close>

definition headerKey :: "string list \<Rightarrow> nat \<Rightarrow> string" where
  "headerKey hs i = (if hs ! i \<in> set (take i hs) then postfixed (hs ! i) else hs ! i)"

definition namesAfter :: "(string \<Rightarrow> bool) \<Rightarrow> string list \<Rightarrow> string set" where
  "namesAfter counts pre = {h \<in> set pre. counts h} \<union>
     {postfixed h |h. counts h \<and> 2 \<le> count_list pre h}"

lemma postfixed_inj [simp]: "postfixed g = postfixed h \<longleftrightarrow> g = h" "postfixed h \<noteq> h" "h \<noteq> postfixed h"
  by (simp_all add: postfixed_def)

lemma namesAfter_snoc:
  assumes "counts h"
  shows "namesAfter counts (pre @ [h]) = namesAfter counts pre \<union> {h} \<union>
    (if count_list pre h = 1 then {postfixed h} else {})"
proof -
  have "2 \<le> count_list (pre @ [h]) g \<longleftrightarrow>
      2 \<le> count_list pre g \<or> g = h \<and> count_list pre h = 1" for g
    by (cases "g = h") (simp_all add: le_Suc_eq, linarith)
  then show ?thesis using assms unfolding namesAfter_def by (simp add: set_eq_iff) blast
qed

lemma namesAfter_mono: "namesAfter counts xs \<subseteq> namesAfter counts (xs @ ys)"
  by (rule subsetI) (simp add: namesAfter_def, blast intro: trans_le_add1)

lemma namesAfter_skip: "\<not> counts h \<Longrightarrow> namesAfter counts (pre @ [h]) = namesAfter counts pre"
  by (auto simp: namesAfter_def)

lemma table_update:
  assumes "\<forall>j<n. counts (hv ! j) \<longrightarrow> headerKey hv j \<in> N \<and> map_of t (hash (headerKey hv j)) = Some j"
    and "k \<notin> N" and "inj_on hash (insert k N)" and "headerKey hv n = k"
  shows "\<forall>j<Suc n. counts (hv ! j) \<longrightarrow> headerKey hv j \<in> insert k N \<and>
    map_of (AList.update (hash k) n t) (hash (headerKey hv j)) = Some j"
proof (intro allI impI)
  fix j assume j: "j < Suc n" "counts (hv ! j)"
  show "headerKey hv j \<in> insert k N \<and>
    map_of (AList.update (hash k) n t) (hash (headerKey hv j)) = Some j"
  proof (cases "j = n")
    case True
    then show ?thesis using assms(4) by (simp add: update_conv')
  next
    case False
    then have "headerKey hv j \<in> N" "map_of t (hash (headerKey hv j)) = Some j"
      using j assms(1) by auto
    moreover from this have "hash (headerKey hv j) \<noteq> hash k"
      using assms(2,3) by (auto simp: inj_on_def)
    ultimately show ?thesis by (simp add: update_conv')
  qed
qed

lemma headerLoop_table:
  assumes "nameable counts hv" and "hv = pre @ rest" and "set names = namesAfter counts pre"
    and "inj_on hash (namesAfter counts hv)"
    and "\<forall>j<length pre. counts (hv ! j) \<longrightarrow>
      headerKey hv j \<in> set names \<and> map_of t (hash (headerKey hv j)) = Some j"
  shows "\<exists>t'. headerLoop hash (\<lambda>h p. p) counts rest (length pre) names t = Some t' \<and>
    (\<forall>j<length hv. counts (hv ! j) \<longrightarrow> map_of t' (hash (headerKey hv j)) = Some j)"
  using assms(2,3,5)
proof (induction rest arbitrary: pre names t)
  case Nil
  then show ?case by simp
next
  case (Cons h rest)
  let ?n = "length pre"
  have at: "hv ! ?n = h" "take ?n hv = pre" "h \<in> set hv" using Cons.prems(1) by simp_all
  have next_: "hv = (pre @ [h]) @ rest" using Cons.prems(1) by simp
  have sub: "namesAfter counts (pre @ [h]) \<subseteq> namesAfter counts hv"
    unfolding next_ by (rule namesAfter_mono)
  show ?case
  proof (cases "counts h")
    case False
    have "\<forall>j<length (pre @ [h]). counts (hv ! j) \<longrightarrow>
        headerKey hv j \<in> set names \<and> map_of t (hash (headerKey hv j)) = Some j"
      using Cons.prems(3) False at(1) by (auto simp: less_Suc_eq)
    from Cons.IH[OF next_ _ this] show ?thesis
      using False Cons.prems(2) by (simp add: namesAfter_skip)
  next
    case True
    have nam: "count_list hv h \<le> 2" "\<And>g. h \<noteq> postfixed g"
      using assms(1) at(3) True by (auto simp: nameable_def)
    have mem: "h \<in> set names \<longleftrightarrow> h \<in> set pre"
      using Cons.prems(2) True nam(2) by (auto simp: namesAfter_def)
    show ?thesis
    proof (cases "h \<in> set pre")
      case False
      have names: "set (h # names) = namesAfter counts (pre @ [h])"
        using Cons.prems(2) False namesAfter_snoc[of counts h pre, OF True] by (simp add: count_list_0_iff)
      have "headerKey hv ?n = h" using at False by (simp add: headerKey_def)
      then have "\<forall>j<Suc ?n. counts (hv ! j) \<longrightarrow> headerKey hv j \<in> insert h (set names) \<and>
          map_of (AList.update (hash h) ?n t) (hash (headerKey hv j)) = Some j"
        using Cons.prems(3) False mem inj_on_subset[OF assms(4) sub] names
        by (intro table_update) auto
      then show ?thesis
        using Cons.IH[OF next_ names, of "AList.update (hash h) ?n t"] True False mem by simp
    next
      case in_pre: True
      have "count_list pre h = 1"
        using nam(1) in_pre Cons.prems(1) count_list_0_iff[of pre h] by simp
      then have names: "set (postfixed h # names) = namesAfter counts (pre @ [h])"
        using Cons.prems(2) in_pre True namesAfter_snoc[of counts h pre, OF True]
        by (auto simp: namesAfter_def)
      have fresh: "postfixed h \<notin> set names"
        using Cons.prems(1,2) \<open>count_list pre h = 1\<close> assms(1)
        by (auto simp: namesAfter_def nameable_def)
      have "headerKey hv ?n = postfixed h" using at in_pre by (simp add: headerKey_def)
      then have "\<forall>j<Suc ?n. counts (hv ! j) \<longrightarrow> headerKey hv j \<in> insert (postfixed h) (set names) \<and>
          map_of (AList.update (hash (postfixed h)) ?n t) (hash (headerKey hv j)) = Some j"
        using Cons.prems(3) fresh inj_on_subset[OF assms(4) sub] names
        by (intro table_update) auto
      then show ?thesis
        using Cons.IH[OF next_ names, of "AList.update (hash (postfixed h)) ?n t"] True in_pre mem
          fresh by (simp add: Let_def postfixLoop_eq)
    qed
  qed
qed

text \<open>
  C38: when building the header table ends. With a counted header that occurs three times the
  \<open>while\<close> loop of the third occurrence never ends, for Google Sheets and for Excel; when no counted
  header occurs more than twice or looks like a postfixed name, both tables are built.
\<close>

theorem header_table_termination:
  "(\<forall>h. headerCounts inc h \<and> 3 \<le> count_list hv h \<longrightarrow>
      hashedHeaders_google md5 inc hv = None \<and> hashedHeaders_excel md5 inc hv = None) \<and>
   (nameable (headerCounts inc) hv \<longrightarrow>
      hashedHeaders_google md5 inc hv \<noteq> None \<and> hashedHeaders_excel md5 inc hv \<noteq> None)"
proof (intro conjI allI impI)
  fix h assume "headerCounts inc h \<and> 3 \<le> count_list hv h"
  then show "hashedHeaders_google md5 inc hv = None" "hashedHeaders_excel md5 inc hv = None"
    by (auto simp: hashedHeaders_google_def hashedHeaders_excel_def intro: headerLoop_first)
next
  assume "nameable (headerCounts inc) hv"
  from headerLoop_table[OF this, of "[]" hv "[]" id "[]"]
  have "headerLoop id (\<lambda>h p. p) (headerCounts inc) hv 0 [] [] \<noteq> None"
    by (auto simp: namesAfter_def)
  then show "hashedHeaders_google md5 inc hv \<noteq> None" "hashedHeaders_excel md5 inc hv \<noteq> None"
    unfolding hashedHeaders_google_def hashedHeaders_excel_def
    by (metis headerLoop_None_iff)+
qed

theorem header_table_termination_witness:
  "hashedHeaders_google id False [''p'', ''p'', ''p''] = None \<and>
   hashedHeaders_excel id False [''p'', ''q''] \<noteq> None"
proof -
  have "nameable (headerCounts False) [''p'', ''q'']"
    by (auto simp: nameable_def postfixed_def Cons_eq_append_conv)
  moreover have "headerCounts False ''p'' \<and> 3 \<le> count_list [''p'', ''p'', ''p''] ''p''"
    by (simp add: headerCounts_def PRIMARY_ID_NAME_def)
  ultimately show ?thesis
    using header_table_termination [of False "[''p'', ''p'', ''p'']" id]
      header_table_termination [of False "[''p'', ''q'']" id] by blast
qed

text \<open>
  The Google Sheets header table is complete. When the headers can be named and their hashes
  differ, every counted column has an entry of its own that gives its position: under the hash of
  the header where it first occurs, under the hash of the postfixed header where it occurs again.
\<close>

theorem header_table_columns:
  assumes "nameable (headerCounts inc) hv"
    and "inj_on (hashFieldName md5) (namesAfter (headerCounts inc) hv)"
  shows "\<exists>t. hashedHeaders_google md5 inc hv = Some t \<and>
    (\<forall>j<length hv. headerCounts inc (hv ! j) \<longrightarrow>
       map_of t (hashFieldName md5 (headerKey hv j)) = Some j)"
  using headerLoop_table[OF assms(1), of "[]" hv "[]" "hashFieldName md5" "[]"] assms(2)
  by (simp add: hashedHeaders_google_def namesAfter_def)

theorem header_table_columns_witness:
  "\<exists>t. hashedHeaders_google id False [''p'', ''q'', ''p''] = Some t \<and>
     map_of t (hashFieldName id (postfixed ''p'')) = Some 2"
proof -
  have names: "namesAfter (headerCounts False) [''p'', ''q'', ''p''] \<subseteq> {''p'', ''q'', postfixed ''p''}"
    by (auto simp: namesAfter_def split: if_splits)
  have "inj_on (hashFieldName id) {''p'', ''q'', postfixed ''p''}"
    by (simp add: hashFieldName_def postfixed_def numberReplacer_def)
  then have "inj_on (hashFieldName id) (namesAfter (headerCounts False) [''p'', ''q'', ''p''])"
    by (rule inj_on_subset[OF _ names])
  moreover have "nameable (headerCounts False) [''p'', ''q'', ''p'']"
    by (auto simp: nameable_def postfixed_def Cons_eq_append_conv)
  ultimately have "\<exists>t. hashedHeaders_google id False [''p'', ''q'', ''p''] = Some t \<and>
      (\<forall>j<length [''p'', ''q'', ''p'']. headerCounts False ([''p'', ''q'', ''p''] ! j) \<longrightarrow>
         map_of t (hashFieldName id (headerKey [''p'', ''q'', ''p''] j)) = Some j)"
    by (intro header_table_columns)
  then show ?thesis
    by (auto simp: headerKey_def headerCounts_def PRIMARY_ID_NAME_def dest: spec[of _ 2])
qed

end
