(* ===== verification/FormSyncStore.thy ===== *)
theory FormSyncStore
  imports Complex_Main FormSyncUtils Store
begin

text \<open>
  The state of the form-sync application: its relational entities (\<open>entities/\<close>), the metadata
  collections, the cache, and the log of external calls; and the operations on them that the
  services use (\<open>metadata.service.ts\<close>, \<open>common.service.ts\<close>).

  TypeORM, mongoose, the cache manager, \<open>md5\<close>, the date library and \<open>uuid\<close> are fields of the
  parameter \<open>E :: fs_env\<close>; \<open>fs_env_ok\<close> states the documented behaviour the code relies on. The
  foreign keys that the entities declare with \<open>onDelete: 'CASCADE'\<close> are part of the operations.
\<close>

section \<open>Errors and functions that do not return\<close>

text \<open>\<open>Hangs\<close> is the outcome of a function that never returns: no \<open>catch\<close> sees it and nothing after
  it runs.\<close>

datatype fs_error = FsTypeError | FsRangeError | FsError string | FsApiError json string
  | MetadataDoesNotExistError | MetadataDoesNotMatchError | CanNotBeDoneError

fun isMetadataError :: "fs_error \<Rightarrow> bool" where
  "isMetadataError MetadataDoesNotExistError = True"
| "isMetadataError MetadataDoesNotMatchError = True"
| "isMetadataError _ = False"

datatype fs_exn = Throws fs_error | Hangs

section \<open>Entities\<close>

datatype FsProviderType = MicrosoftExcel | GoogleSheets

datatype NativeDataType = NT_String | NT_Number | NT_Boolean | NT_Date | NT_List | NT_Object

record SchemaField =
  fld_id :: string
  fld_name :: string
  fld_type :: NativeDataType

type_synonym DataSourceSchema = "(string \<times> SchemaField) list"

record FsDataSource =
  fd_id :: string
  fd_provider :: FsProviderType
  fd_schema :: "DataSourceSchema option"

record MetadataJob =
  mj_jobId :: string
  mj_cron :: string

record ExcelDataSource =
  xd_id :: string
  xd_workbookId :: string
  xd_worksheetId :: string
  xd_refreshToken :: string
  xd_timezone :: string
  xd_metadataJob :: MetadataJob
  xd_metadataSyncedAt :: "date option"

record GoogleSheetsDataSource =
  gd_id :: string
  gd_spreadsheetId :: string
  gd_sheetId :: string
  gd_refreshToken :: string
  gd_metadataJob :: MetadataJob
  gd_metadataSyncedAt :: "date option"

datatype FormSyncType = FS_INSERT | FS_UPDATE | FS_DELETE

record FormSyncPayload =
  pl_recordId :: "string option"
  pl_data :: "(string \<times> json) list option"

record FormSync =
  fm_id :: string
  fm_dataSourceId :: string
  fm_type :: FormSyncType
  fm_payload :: FormSyncPayload

record CommonMetadata =
  cm_dataSourceId :: string
  cm_rowCount :: "int option"
  cm_cTag :: "string option"

record RowMetadata =
  rm_id :: string
  rm_dataSourceId :: string
  rm_pos :: "int option"

section \<open>Calls\<close>

text \<open>A cell as it is sent: a value, a serial date, or the \<open>NaN\<close> of an invalid date.\<close>

datatype cell = Cell json | SerialNumber rat | InvalidDate

datatype graph_body = NoBody | PersistChanges bool | Shift string | Values "cell list list"

datatype fs_job = UpdateMetadataJob string | DelayedFormsyncJob string

datatype fs_call =
    SpreadsheetsGet string "string list"                 \<comment> \<open>spreadsheet, fields\<close>
  | ValuesGet string string                              \<comment> \<open>spreadsheet, range\<close>
  | ValuesUpdate string string "cell list list"
  | InsertDimension string string int                    \<comment> \<open>spreadsheet, sheet, startIndex\<close>
  | DeleteDimension string string int
  | GoogleAccessToken string
  | MicrosoftAccessToken string
  | GraphRequest string string "string option" graph_body \<comment> \<open>method, url, session, body\<close>
  | PostTo string "(string \<times> string) list"
  | GetFrom string
  | FsQueueAdd string fs_job string "string option"      \<comment> \<open>queue, data, job id, repeat.cron\<close>
  | FsQueueRemove string string string                   \<comment> \<open>queue, job id, cron\<close>

section \<open>The environment\<close>

record 'd repository =
  rp_findOne :: "('d \<Rightarrow> bool) \<Rightarrow> 'd list \<Rightarrow> 'd option"
  rp_find :: "('d \<Rightarrow> bool) \<Rightarrow> 'd list \<Rightarrow> 'd list"
  rp_save :: "'d \<Rightarrow> 'd list \<Rightarrow> 'd list"
  rp_update :: "('d \<Rightarrow> bool) \<Rightarrow> ('d \<Rightarrow> 'd) \<Rightarrow> 'd list \<Rightarrow> 'd list"
  rp_delete :: "('d \<Rightarrow> bool) \<Rightarrow> 'd list \<Rightarrow> 'd list"

text \<open>A \<open>set\<close> of the cache: key, value, expiry.\<close>

type_synonym cache = "(string \<times> string \<times> date) list"

record fs_env =
  fe_dataSources :: "FsDataSource repository"
  fe_excel :: "ExcelDataSource repository"
  fe_google :: "GoogleSheetsDataSource repository"
  fe_formsyncs :: "FormSync repository"
  fe_delayed :: "string repository"
  fe_common :: "CommonMetadata model"
  fe_rows :: "RowMetadata model"
  fe_cacheGet :: "date \<Rightarrow> string \<Rightarrow> cache \<Rightarrow> string option"
  fe_md5 :: "string \<Rightarrow> string"
  fe_parseDate :: "json \<Rightarrow> date option"
  fe_utcOffset :: "string \<Rightarrow> date \<Rightarrow> int"       \<comment> \<open>zone, instant; in minutes\<close>
  fe_uuid :: "nat \<Rightarrow> string"
  fe_metadataUrl :: string
  fe_starionUrl :: string
  fe_sheets :: "fs_call list \<Rightarrow> fs_error + (int \<times> string) list"
  fe_timeZone :: "fs_call list \<Rightarrow> fs_error + string"
  fe_values :: "fs_call list \<Rightarrow> fs_error + string list list option"
  fe_write :: "fs_call list \<Rightarrow> fs_error + unit"
  fe_accessToken :: "fs_call list \<Rightarrow> fs_error + string"
  fe_session :: "fs_call list \<Rightarrow> fs_error + string"
  fe_rowValues :: "fs_call list \<Rightarrow> fs_error + string list list"
  fe_cell :: "fs_call list \<Rightarrow> fs_error + json list list"
  fe_cTag :: "fs_call list \<Rightarrow> fs_error + string"
  fe_http :: "fs_call list \<Rightarrow> fs_error + unit"
  fe_schemaFields :: "fs_call list \<Rightarrow> fs_error + SchemaField list option"
  fe_queue :: "fs_call list \<Rightarrow> fs_error + unit"

definition repository_ok :: "('d \<Rightarrow> string) \<Rightarrow> 'd repository \<Rightarrow> bool" where
  "repository_ok key r \<longleftrightarrow> rp_findOne r = List.find \<and> rp_find r = filter \<and>
     rp_save r = (\<lambda>d ds. if List.member (map key ds) (key d)
       then map (\<lambda>e. if key e = key d then d else e) ds else ds @ [d]) \<and>
     rp_update r = update_all \<and> rp_delete r = (\<lambda>p. filter (\<lambda>d. \<not> p d))"

definition listRepository :: "('d \<Rightarrow> string) \<Rightarrow> 'd repository" where
  "listRepository key = \<lparr>rp_findOne = List.find, rp_find = filter,
     rp_save = (\<lambda>d ds. if List.member (map key ds) (key d)
       then map (\<lambda>e. if key e = key d then d else e) ds else ds @ [d]),
     rp_update = update_all, rp_delete = (\<lambda>p. filter (\<lambda>d. \<not> p d))\<rparr>"

lemma listRepository_ok [simp]: "repository_ok key (listRepository key)"
  by (simp add: repository_ok_def listRepository_def)

text \<open>A cache returns the value last set under the key, or nothing; never one that has expired.\<close>

definition cache_ok :: "(date \<Rightarrow> string \<Rightarrow> cache \<Rightarrow> string option) \<Rightarrow> bool" where
  "cache_ok get \<longleftrightarrow> (\<forall>now k c v. get now k c = Some v \<longrightarrow>
     (\<exists>expiry. now < expiry \<and> map_of (rev c) k = Some (v, expiry)))"

definition fs_env_ok :: "fs_env \<Rightarrow> bool" where
  "fs_env_ok E \<longleftrightarrow> repository_ok fd_id (fe_dataSources E) \<and> repository_ok xd_id (fe_excel E) \<and>
     repository_ok gd_id (fe_google E) \<and> repository_ok fm_id (fe_formsyncs E) \<and>
     repository_ok id (fe_delayed E) \<and> model_ok (fe_common E) \<and> model_ok (fe_rows E) \<and>
     cache_ok (fe_cacheGet E) \<and> inj (fe_uuid E)"

record fs_world =
  fw_dataSources :: "FsDataSource list"
  fw_excel :: "ExcelDataSource list"
  fw_google :: "GoogleSheetsDataSource list"
  fw_formsyncs :: "FormSync list"
  fw_delayed :: "string list"
  fw_excelCommon :: "CommonMetadata list"
  fw_excelRows :: "RowMetadata list"
  fw_googleCommon :: "CommonMetadata list"
  fw_googleRows :: "RowMetadata list"
  fw_cache :: cache
  fw_ids :: nat
  fw_now :: date
  fw_calls :: "fs_call list"

type_synonym 'a fs_act = "(fs_world, fs_exn, 'a) io"

definition fs_throw :: "fs_error \<Rightarrow> 'a fs_act" where
  "fs_throw e = throw_io (Throws e)"

definition fs_catch :: "'a fs_act \<Rightarrow> (fs_error \<Rightarrow> 'a fs_act) \<Rightarrow> 'a fs_act" where
  "fs_catch m h = catch_io m (\<lambda>x. case x of Hangs \<Rightarrow> throw_io Hangs | Throws e \<Rightarrow> h e)"

definition fs_lift :: "fs_error + 'a \<Rightarrow> 'a fs_act" where
  "fs_lift r = (case r of Inl e \<Rightarrow> fs_throw e | Inr x \<Rightarrow> return_io x)"

definition fs_request :: "(fs_call list \<Rightarrow> fs_error + 'a) \<Rightarrow> fs_call \<Rightarrow> 'a fs_act" where
  "fs_request answer c =
    bind_io (modify_io (\<lambda>w. w\<lparr>fw_calls := fw_calls w @ [c]\<rparr>)) (\<lambda>_.
    bind_io (gets_io (\<lambda>w. answer (fw_calls w))) fs_lift)"

definition newUuid :: "fs_env \<Rightarrow> string fs_act" where
  "newUuid E = (\<lambda>w. (Inr (fe_uuid E (fw_ids w)), w\<lparr>fw_ids := Suc (fw_ids w)\<rparr>))"

section \<open>Repositories\<close>

definition findExcelSource :: "fs_env \<Rightarrow> string \<Rightarrow> ExcelDataSource option fs_act" where
  "findExcelSource E i = gets_io (\<lambda>w. rp_findOne (fe_excel E) (\<lambda>d. xd_id d = i) (fw_excel w))"

definition findGoogleSource :: "fs_env \<Rightarrow> string \<Rightarrow> GoogleSheetsDataSource option fs_act" where
  "findGoogleSource E i = gets_io (\<lambda>w. rp_findOne (fe_google E) (\<lambda>d. gd_id d = i) (fw_google w))"

definition findFsSource :: "fs_env \<Rightarrow> string \<Rightarrow> FsDataSource option fs_act" where
  "findFsSource E i =
    gets_io (\<lambda>w. rp_findOne (fe_dataSources E) (\<lambda>d. fd_id d = i) (fw_dataSources w))"

text \<open>\<open>DelayedFormSync\<close> refers to \<open>FormSync\<close> with a cascading foreign key.\<close>

definition deleteFormSync :: "fs_env \<Rightarrow> string \<Rightarrow> unit fs_act" where
  "deleteFormSync E i = modify_io (\<lambda>w. w\<lparr>
     fw_formsyncs := rp_delete (fe_formsyncs E) (\<lambda>f. fm_id f = i) (fw_formsyncs w),
     fw_delayed := rp_delete (fe_delayed E) (\<lambda>d. d = i) (fw_delayed w)\<rparr>)"

definition saveDelayed :: "fs_env \<Rightarrow> string \<Rightarrow> unit fs_act" where
  "saveDelayed E i = modify_io (\<lambda>w. w\<lparr>fw_delayed := rp_save (fe_delayed E) i (fw_delayed w)\<rparr>)"

text \<open>The provider rows refer to the common row with a cascading foreign key.\<close>

definition deleteFsSource :: "fs_env \<Rightarrow> string \<Rightarrow> unit fs_act" where
  "deleteFsSource E i = modify_io (\<lambda>w. w\<lparr>
     fw_dataSources := rp_delete (fe_dataSources E) (\<lambda>d. fd_id d = i) (fw_dataSources w),
     fw_excel := rp_delete (fe_excel E) (\<lambda>d. xd_id d = i) (fw_excel w),
     fw_google := rp_delete (fe_google E) (\<lambda>d. gd_id d = i) (fw_google w)\<rparr>)"

definition getDataSourceSchema :: "fs_env \<Rightarrow> string \<Rightarrow> DataSourceSchema option fs_act" where
  "getDataSourceSchema E i = bind_io (findFsSource E i) (\<lambda>d. return_io (Option.bind d fd_schema))"

section \<open>Metadata service\<close>

definition getExcelCommonMetadata :: "fs_env \<Rightarrow> string \<Rightarrow> CommonMetadata option fs_act" where
  "getExcelCommonMetadata E i =
    gets_io (\<lambda>w. m_findOne (fe_common E) (\<lambda>m. cm_dataSourceId m = i) (fw_excelCommon w))"

definition getExcelRowCount :: "fs_env \<Rightarrow> string \<Rightarrow> int option fs_act" where
  "getExcelRowCount E i =
    bind_io (getExcelCommonMetadata E i) (\<lambda>m. return_io (Option.bind m cm_rowCount))"

text \<open>\<open>$inc\<close> sets a missing field to the increment.\<close>

definition incRowCount :: "CommonMetadata \<Rightarrow> CommonMetadata" where
  "incRowCount m = m\<lparr>cm_rowCount := Some (case cm_rowCount m of None \<Rightarrow> 1 | Some n \<Rightarrow> n + 1)\<rparr>"

definition increaseExcelRowCount :: "fs_env \<Rightarrow> string \<Rightarrow> unit fs_act" where
  "increaseExcelRowCount E i = modify_io (\<lambda>w. w\<lparr>fw_excelCommon :=
     m_updateOne (fe_common E) (\<lambda>m. cm_dataSourceId m = i) incRowCount (fw_excelCommon w)\<rparr>)"

text \<open>A query for \<open>_id: undefined\<close> finds nothing.\<close>

definition getExcelRowPos :: "fs_env \<Rightarrow> string option \<Rightarrow> int option fs_act" where
  "getExcelRowPos E rowId = gets_io (\<lambda>w. Option.bind rowId (\<lambda>i.
     Option.bind (m_findOne (fe_rows E) (\<lambda>m. rm_id m = i) (fw_excelRows w)) rm_pos))"

definition getExcelCTag :: "fs_env \<Rightarrow> string \<Rightarrow> string option fs_act" where
  "getExcelCTag E i =
    bind_io (getExcelCommonMetadata E i) (\<lambda>m. return_io (Option.bind m cm_cTag))"

definition updateExcelCTag :: "fs_env \<Rightarrow> string \<Rightarrow> string \<Rightarrow> unit fs_act" where
  "updateExcelCTag E i cTag = modify_io (\<lambda>w. w\<lparr>fw_excelCommon :=
     m_updateOne (fe_common E) (\<lambda>m. cm_dataSourceId m = i) (\<lambda>m. m\<lparr>cm_cTag := Some cTag\<rparr>)
       (fw_excelCommon w)\<rparr>)"

definition getGoogleSheetsCommonMetadata :: "fs_env \<Rightarrow> string \<Rightarrow> CommonMetadata option fs_act" where
  "getGoogleSheetsCommonMetadata E i =
    gets_io (\<lambda>w. m_findOne (fe_common E) (\<lambda>m. cm_dataSourceId m = i) (fw_googleCommon w))"

definition getGoogleSheetsRowCount :: "fs_env \<Rightarrow> string \<Rightarrow> int option fs_act" where
  "getGoogleSheetsRowCount E i =
    bind_io (getGoogleSheetsCommonMetadata E i) (\<lambda>m. return_io (Option.bind m cm_rowCount))"

definition increaseGoogleSheetsRowCount :: "fs_env \<Rightarrow> string \<Rightarrow> unit fs_act" where
  "increaseGoogleSheetsRowCount E i = modify_io (\<lambda>w. w\<lparr>fw_googleCommon :=
     m_updateOne (fe_common E) (\<lambda>m. cm_dataSourceId m = i) incRowCount (fw_googleCommon w)\<rparr>)"

definition getGoogleSheetsRowPos :: "fs_env \<Rightarrow> string option \<Rightarrow> int option fs_act" where
  "getGoogleSheetsRowPos E rowId = gets_io (\<lambda>w. Option.bind rowId (\<lambda>i.
     Option.bind (m_findOne (fe_rows E) (\<lambda>m. rm_id m = i) (fw_googleRows w)) rm_pos))"

section \<open>Cache\<close>

definition cacheGet :: "fs_env \<Rightarrow> string \<Rightarrow> string option fs_act" where
  "cacheGet E k = gets_io (\<lambda>w. fe_cacheGet E (fw_now w) k (fw_cache w))"

definition cacheSet :: "string \<Rightarrow> string \<Rightarrow> int \<Rightarrow> unit fs_act" where
  "cacheSet k v ttl = modify_io (\<lambda>w. w\<lparr>fw_cache := fw_cache w @ [(k, v, fw_now w + ttl)]\<rparr>)"

definition ExcelAccessToken_TTL :: int where "ExcelAccessToken_TTL = 50 * 60 * 1000"
definition ExcelAccessToken_Key :: "string \<Rightarrow> string" where
  "ExcelAccessToken_Key alias = ''excel_access_token:'' @ alias"
definition ExcelSessionId_TTL :: int where "ExcelSessionId_TTL = 4 * 60 * 1000"
definition ExcelSessionId_Key :: "string \<Rightarrow> string \<Rightarrow> string" where
  "ExcelSessionId_Key workbookId alias = ''excel_session_id:'' @ workbookId @ '':'' @ alias"
definition RecordLocalIdMapping_TTL :: int where "RecordLocalIdMapping_TTL = 10 * 60 * 1000"
definition RecordLocalIdMapping_Key :: "string \<Rightarrow> string" where
  "RecordLocalIdMapping_Key recordId = ''formsync:record_local_id:'' @ recordId"

end
