(* ===== verification/FormSyncServices.thy ===== *)
theory FormSyncServices
  imports FormSyncStore ThirdParty
begin

text \<open>
  The third-party services of the form-sync application (\<open>modules/third-party\<close>) and the
  conversion of a record to a row of cells, which the two form-sync services share.

  A response with a status other than 200, like any failed request, is an error of the answer.
  The Graph requests do not carry the \<open>$select\<close> parameter that the code builds: \<open>url.concat\<close>
  returns a new string, which is dropped.
\<close>

section \<open>Google Sheets\<close>

definition GoogleService_accessToken :: "fs_env \<Rightarrow> string \<Rightarrow> string fs_act" where
  "GoogleService_accessToken E refreshToken =
    fs_request (fe_accessToken E) (GoogleAccessToken refreshToken)"

definition Fs_getSheets :: "fs_env \<Rightarrow> string \<Rightarrow> string list \<Rightarrow> (int \<times> string) list fs_act" where
  "Fs_getSheets E spreadsheetId fieldList =
    fs_request (fe_sheets E) (SpreadsheetsGet spreadsheetId fieldList)"

definition Fs_updateRangeValue ::
  "fs_env \<Rightarrow> string \<Rightarrow> string \<Rightarrow> cell list list \<Rightarrow> unit fs_act" where
  "Fs_updateRangeValue E spreadsheetId a1 vs =
    fs_request (fe_write E) (ValuesUpdate spreadsheetId a1 vs)"

definition Fs_getRangeValue ::
  "fs_env \<Rightarrow> string \<Rightarrow> string \<Rightarrow> string list list option fs_act" where
  "Fs_getRangeValue E spreadsheetId a1 = fs_request (fe_values E) (ValuesGet spreadsheetId a1)"

definition r1c1 :: "string \<Rightarrow> int \<Rightarrow> int \<Rightarrow> int \<Rightarrow> int \<Rightarrow> string" where
  "r1c1 sheetName r1 c1 r2 c2 = formatSheetNameInRange sheetName @ ''!R'' @ show_int r1 @ ''C'' @
     show_int c1 @ '':R'' @ show_int r2 @ ''C'' @ show_int c2"

text \<open>An empty answer is \<open>null\<close>, the first cell of an empty row \<open>undefined\<close>.\<close>

definition Fs_getCellValue ::
  "fs_env \<Rightarrow> string \<Rightarrow> string \<Rightarrow> int \<Rightarrow> int \<Rightarrow> string option fs_act" where
  "Fs_getCellValue E spreadsheetId sheetName rowPos colPos =
    bind_io (Fs_getRangeValue E spreadsheetId (r1c1 sheetName rowPos colPos rowPos colPos))
      (\<lambda>v. return_io (case v of Some ((c # _) # _) \<Rightarrow> Some c | _ \<Rightarrow> None))"

definition Fs_addEmptyRow :: "fs_env \<Rightarrow> string \<Rightarrow> string \<Rightarrow> int \<Rightarrow> unit fs_act" where
  "Fs_addEmptyRow E spreadsheetId sheetId position =
    fs_request (fe_write E) (InsertDimension spreadsheetId sheetId (position - 1))"

definition Fs_deleteRow :: "fs_env \<Rightarrow> string \<Rightarrow> string \<Rightarrow> int \<Rightarrow> unit fs_act" where
  "Fs_deleteRow E spreadsheetId sheetId position =
    fs_request (fe_write E) (DeleteDimension spreadsheetId sheetId (position - 1))"

section \<open>Microsoft\<close>

definition Fs_getAccessToken :: "fs_env \<Rightarrow> string \<Rightarrow> string fs_act" where
  "Fs_getAccessToken E refreshToken =
    fs_request (fe_accessToken E) (MicrosoftAccessToken refreshToken)"

text \<open>A cached empty string is a miss.\<close>

definition Fs_getAccessTokenWithCache :: "fs_env \<Rightarrow> string \<Rightarrow> string \<Rightarrow> string fs_act" where
  "Fs_getAccessTokenWithCache E refreshToken alias =
    bind_io (cacheGet E (ExcelAccessToken_Key alias)) (\<lambda>cached.
    if truthy_str cached then return_io (the cached)
    else bind_io (Fs_getAccessToken E refreshToken) (\<lambda>accessToken.
         bind_io (cacheSet (ExcelAccessToken_Key alias) accessToken ExcelAccessToken_TTL) (\<lambda>_.
         return_io accessToken)))"

definition Fs_createWorkbookSession :: "fs_env \<Rightarrow> string \<Rightarrow> bool option \<Rightarrow> string fs_act" where
  "Fs_createWorkbookSession E workbookId persist = fs_request (fe_session E)
    (GraphRequest ''POST'' (''/me/drive/items/'' @ workbookId @ ''/workbook/createSession'') None
      (PersistChanges (persist = Some True)))"

definition Fs_getWorkbookSessionIdWithCache ::
  "fs_env \<Rightarrow> string \<Rightarrow> bool option \<Rightarrow> string \<Rightarrow> string fs_act" where
  "Fs_getWorkbookSessionIdWithCache E workbookId persist alias =
    bind_io (cacheGet E (ExcelSessionId_Key workbookId alias)) (\<lambda>cached.
    if truthy_str cached then return_io (the cached)
    else bind_io (Fs_createWorkbookSession E workbookId persist) (\<lambda>result.
         bind_io (cacheSet (ExcelSessionId_Key workbookId alias) result ExcelSessionId_TTL) (\<lambda>_.
         return_io result)))"

definition graphUrl :: "string \<Rightarrow> string \<Rightarrow> string \<Rightarrow> string" where
  "graphUrl workbookId worksheetId rest =
    ''/me/drive/items/'' @ workbookId @ ''/workbook/worksheets/'' @ worksheetId @ rest"

text \<open>\<open>if (workbookSessionId) api = api.header(...)\<close>.\<close>

definition sessionHeader :: "string option \<Rightarrow> string option" where
  "sessionHeader workbookSessionId =
    (if truthy_str workbookSessionId then workbookSessionId else None)"

definition Fs_getWorkbookFileInfo :: "fs_env \<Rightarrow> string \<Rightarrow> string option \<Rightarrow> string fs_act" where
  "Fs_getWorkbookFileInfo E workbookId session = fs_request (fe_cTag E)
    (GraphRequest ''GET'' (''/me/drive/items/'' @ workbookId) (sessionHeader session) NoBody)"

definition Fs_getWorksheetRow ::
  "fs_env \<Rightarrow> string \<Rightarrow> string \<Rightarrow> int \<Rightarrow> string option \<Rightarrow> string list list fs_act" where
  "Fs_getWorksheetRow E workbookId worksheetId row session = fs_request (fe_rowValues E)
    (GraphRequest ''GET'' (graphUrl workbookId worksheetId
       (''/range/usedRange/row(row='' @ show_int row @ '')'')) (sessionHeader session) NoBody)"

text \<open>\<open>res.values[0]\<close>, \<open>undefined\<close> if there is none.\<close>

definition Fs_getWorksheetRowValues ::
  "fs_env \<Rightarrow> string \<Rightarrow> string \<Rightarrow> int \<Rightarrow> string option \<Rightarrow> string list option fs_act" where
  "Fs_getWorksheetRowValues E workbookId worksheetId row session =
    bind_io (Fs_getWorksheetRow E workbookId worksheetId row session)
      (\<lambda>vs. return_io (case vs of [] \<Rightarrow> None | v # _ \<Rightarrow> Some v))"

definition Fs_getWorksheetCell ::
  "fs_env \<Rightarrow> string \<Rightarrow> string \<Rightarrow> int \<Rightarrow> int \<Rightarrow> string option \<Rightarrow> json list list fs_act" where
  "Fs_getWorksheetCell E workbookId worksheetId row col session = fs_request (fe_cell E)
    (GraphRequest ''GET'' (graphUrl workbookId worksheetId
       (''/cell(row='' @ show_int row @ '',column='' @ show_int col @ '')''))
       (sessionHeader session) NoBody)"

text \<open>\<open>res.values[0][0]\<close>.\<close>

definition Fs_getWorksheetCellValue ::
  "fs_env \<Rightarrow> string \<Rightarrow> string \<Rightarrow> int \<Rightarrow> int \<Rightarrow> string option \<Rightarrow> json option fs_act" where
  "Fs_getWorksheetCellValue E workbookId worksheetId row col session =
    bind_io (Fs_getWorksheetCell E workbookId worksheetId row col session)
      (\<lambda>vs. case vs of [] \<Rightarrow> fs_throw FsTypeError
         | [] # _ \<Rightarrow> return_io None | (v # _) # _ \<Rightarrow> return_io (Some v))"

definition rangeUrl :: "string \<Rightarrow> string \<Rightarrow> string \<Rightarrow> string \<Rightarrow> string" where
  "rangeUrl workbookId worksheetId rangeAddress rest =
    graphUrl workbookId worksheetId (''/range(address='' @ [CHR 0x27] @ rangeAddress @ [CHR 0x27] @ '')'' @ rest)"

definition Fs_insertWorksheetRange ::
  "fs_env \<Rightarrow> string \<Rightarrow> string \<Rightarrow> string option \<Rightarrow> string \<Rightarrow> unit fs_act" where
  "Fs_insertWorksheetRange E workbookId worksheetId session rangeAddress = fs_request (fe_write E)
    (GraphRequest ''POST'' (rangeUrl workbookId worksheetId rangeAddress ''/insert'')
      (sessionHeader session) (Shift ''Down''))"

definition Fs_updateWorksheetRange ::
  "fs_env \<Rightarrow> string \<Rightarrow> string \<Rightarrow> string option \<Rightarrow> string \<Rightarrow> cell list list \<Rightarrow> unit fs_act" where
  "Fs_updateWorksheetRange E workbookId worksheetId session rangeAddress vs =
    fs_request (fe_write E)
      (GraphRequest ''PATCH'' (rangeUrl workbookId worksheetId rangeAddress [])
        (sessionHeader session) (Values vs))"

definition Fs_deleteWorksheetRange ::
  "fs_env \<Rightarrow> string \<Rightarrow> string \<Rightarrow> string option \<Rightarrow> string \<Rightarrow> unit fs_act" where
  "Fs_deleteWorksheetRange E workbookId worksheetId session rangeAddress = fs_request (fe_write E)
    (GraphRequest ''POST'' (rangeUrl workbookId worksheetId rangeAddress ''/delete'')
      (sessionHeader session) (Shift ''Up''))"

text \<open>The rest of the service, which the form syncs do not use. A worksheet of the answer is an object,
  of which \<open>pick\<close> keeps four fields; its list and the answer to a session are parameters.\<close>

definition pickFields :: "string list \<Rightarrow> (string \<times> json) list \<Rightarrow> (string \<times> json) list" where
  "pickFields ks fs = concat (map (\<lambda>k. case map_of fs k of None \<Rightarrow> [] | Some v \<Rightarrow> [(k, v)]) ks)"

definition Fs_listWorksheets ::
  "(fs_call list \<Rightarrow> fs_error + (string \<times> json) list list) \<Rightarrow> string \<Rightarrow> string option \<Rightarrow>
   (string \<times> json) list list fs_act" where
  "Fs_listWorksheets answer workbookId session = bind_io (fs_request answer
    (GraphRequest ''GET'' (''/me/drive/items/'' @ workbookId @ ''/workbook/worksheets'')
      (sessionHeader session) NoBody))
    (\<lambda>worksheets. return_io (map (pickFields [''id'', ''name'', ''position'', ''visibility'']) worksheets))"

definition Fs_getWorksheetColumn ::
  "fs_env \<Rightarrow> string \<Rightarrow> string \<Rightarrow> int \<Rightarrow> string option \<Rightarrow> string list list fs_act" where
  "Fs_getWorksheetColumn E workbookId worksheetId col session = fs_request (fe_rowValues E)
    (GraphRequest ''GET'' (graphUrl workbookId worksheetId
       (''/range/usedRange/column(column='' @ show_int col @ '')'')) (sessionHeader session) NoBody)"

text \<open>\<open>res.values.map((v) => v[0])\<close>; \<open>None\<close> is \<open>undefined\<close>.\<close>

definition Fs_getWorksheetColumnValues ::
  "fs_env \<Rightarrow> string \<Rightarrow> string \<Rightarrow> int \<Rightarrow> string option \<Rightarrow> string option list fs_act" where
  "Fs_getWorksheetColumnValues E workbookId worksheetId col session =
    bind_io (Fs_getWorksheetColumn E workbookId worksheetId col session)
      (\<lambda>vs. return_io (map (\<lambda>v. case v of [] \<Rightarrow> None | c # _ \<Rightarrow> Some c) vs))"

definition Fs_getWorksheetUsedRange ::
  "fs_env \<Rightarrow> string \<Rightarrow> string \<Rightarrow> string option \<Rightarrow> string list list fs_act" where
  "Fs_getWorksheetUsedRange E workbookId worksheetId session = fs_request (fe_rowValues E)
    (GraphRequest ''GET'' (graphUrl workbookId worksheetId ''/range/usedRange'') (sessionHeader session) NoBody)"

text \<open>The two requests that end and prolong a session have an empty body.\<close>

definition sessionRequest :: "fs_env \<Rightarrow> string \<Rightarrow> string \<Rightarrow> string \<Rightarrow> unit fs_act" where
  "sessionRequest E operation workbookId workbookSessionId = fs_request (fe_write E)
    (GraphRequest ''POST'' (''/me/drive/items/'' @ workbookId @ ''/workbook/'' @ operation)
      (Some workbookSessionId) NoBody)"

definition Fs_closeWorkbookSession :: "fs_env \<Rightarrow> string \<Rightarrow> string \<Rightarrow> unit fs_act" where
  "Fs_closeWorkbookSession E = sessionRequest E ''closeSession''"

definition Fs_refreshWorkbookSession :: "fs_env \<Rightarrow> string \<Rightarrow> string \<Rightarrow> unit fs_act" where
  "Fs_refreshWorkbookSession E = sessionRequest E ''refreshSession''"

section \<open>Cells\<close>

text \<open>\<open>moment.tz(timezone).utcOffset()\<close> is the offset of the zone now, not on the converted date.\<close>

definition convertDateToSerialNumber :: "fs_env \<Rightarrow> date \<Rightarrow> date \<Rightarrow> string \<Rightarrow> rat" where
  "convertDateToSerialNumber E now t timezone =
    25569 + of_int (t + fe_utcOffset E timezone now * 60 * 1000) / of_int (1000 * 60 * 60 * 24)"

definition convertField :: "fs_env \<Rightarrow> date \<Rightarrow> string \<Rightarrow> SchemaField \<Rightarrow> json \<Rightarrow> cell" where
  "convertField E now timezone field v =
    (if fld_type field = NT_Date
     then (case fe_parseDate E v of
             None \<Rightarrow> InvalidDate
           | Some t \<Rightarrow> SerialNumber (convertDateToSerialNumber E now t timezone))
     else Cell v)"

text \<open>\<open>Object.entries(undefined)\<close> throws, and so does reading a field of a missing schema.\<close>

definition convertData ::
  "fs_env \<Rightarrow> date \<Rightarrow> (string \<times> json) list option \<Rightarrow> DataSourceSchema option \<Rightarrow> string option \<Rightarrow>
   fs_error + (string \<times> cell) list" where
  "convertData E now data schema configTimezone =
    (let timezone = (if truthy_str configTimezone then the configTimezone else ''UTC'') in
     case (data, schema) of
       (None, _) \<Rightarrow> Inl FsTypeError
     | (Some kvs, None) \<Rightarrow> if kvs = [] then Inr [] else Inl FsTypeError
     | (Some kvs, Some fs) \<Rightarrow> Inr (fold (\<lambda>(k, v) result. case map_of fs k of
           None \<Rightarrow> result
         | Some field \<Rightarrow> AList.update k (convertField E now timezone field v) result) kvs []))"

fun truthy_cell :: "cell \<Rightarrow> bool" where
  "truthy_cell (Cell JNull) = False"
| "truthy_cell (Cell (JBool b)) = b"
| "truthy_cell (Cell (JNum n)) = (n \<noteq> 0)"
| "truthy_cell (Cell (JStr s)) = (s \<noteq> [])"
| "truthy_cell (Cell (JArr _)) = True"
| "truthy_cell (Cell (JObj _)) = True"
| "truthy_cell (SerialNumber r) = (r \<noteq> 0)"
| "truthy_cell InvalidDate = False"

text \<open>\<open>Math.max(...Object.values(headers))\<close>, \<open>None\<close> for the \<open>-Infinity\<close> of an empty table.\<close>

fun lastColumn :: "(string \<times> nat) list \<Rightarrow> nat option" where
  "lastColumn [] = None"
| "lastColumn ((_, pos) # hs) = Some (case lastColumn hs of None \<Rightarrow> pos | Some m \<Rightarrow> max pos m)"

text \<open>\<open>new Array(lastColIndex + 1).fill(null)\<close> and the \<open>forEach\<close> that fills and counts it.\<close>

definition emptyRow :: "nat option \<Rightarrow> fs_error + cell list" where
  "emptyRow lastColIndex = (case lastColIndex of
     None \<Rightarrow> Inl FsRangeError | Some m \<Rightarrow> Inr (replicate (m + 1) (Cell JNull)))"

fun placeValues ::
  "(string \<Rightarrow> cell option) \<Rightarrow> (string \<times> nat) list \<Rightarrow> cell list \<Rightarrow> nat \<Rightarrow> cell list \<times> nat" where
  "placeValues f [] vs count = (vs, count)"
| "placeValues f ((header, pos) # hs) vs count = (case f header of
     None \<Rightarrow> placeValues f hs vs count
   | Some c \<Rightarrow> placeValues f hs (vs[pos := c]) (count + 1))"

definition updatable :: "(string \<times> cell) list \<Rightarrow> string \<Rightarrow> cell option" where
  "updatable formatedData header = (case map_of formatedData header of
     None \<Rightarrow> None
   | Some c \<Rightarrow> if truthy_cell c \<and> header \<noteq> HASHED_PRIMARY_ID then Some c else None)"

end
