(* ===== verification/FormSyncGoogle.thy ===== *)
theory FormSyncGoogle
  imports FormSyncServices
begin

text \<open>
  The Google Sheets form-sync service (\<open>modules/formsync/google-sheets\<close>): inserting, deleting and
  updating one row of a sheet, the two drivers that decide what becomes of the form sync, and the
  jobs that retry it. The reads of a \<open>Promise.all\<close> are made in array order.
\<close>

section \<open>Reading the sheet\<close>

definition Google_getSheetName :: "fs_env \<Rightarrow> string \<Rightarrow> string \<Rightarrow> string option fs_act" where
  "Google_getSheetName E spreadsheetId sheetId =
    bind_io (Fs_getSheets E spreadsheetId [''sheets.properties.sheetId'', ''sheets.properties.title''])
      (\<lambda>sheets. return_io (map_option snd (List.find (\<lambda>s. show_int (fst s) = sheetId) sheets)))"

definition Google_getHashedHeaders ::
  "fs_env \<Rightarrow> string \<Rightarrow> string option \<Rightarrow> bool \<Rightarrow> (string \<times> nat) list fs_act" where
  "Google_getHashedHeaders E spreadsheetId sheetName includeHeader = (case sheetName of
     None \<Rightarrow> fs_throw FsTypeError
   | Some name \<Rightarrow>
       bind_io (Fs_getRangeValue E spreadsheetId (formatSheetNameInRange name @ ''!A1:Z1'')) (\<lambda>v.
       case v of
         Some (headerValues # _) \<Rightarrow> (case hashedHeaders_google (fe_md5 E) includeHeader headerValues of
             None \<Rightarrow> throw_io Hangs
           | Some headers \<Rightarrow> return_io headers)
       | _ \<Rightarrow> fs_throw FsTypeError))"

definition getSpreadsheetsTimezone :: "fs_env \<Rightarrow> string \<Rightarrow> string fs_act" where
  "getSpreadsheetsTimezone E spreadsheetId =
    fs_request (fe_timeZone E) (SpreadsheetsGet spreadsheetId [''properties.timeZone''])"

section \<open>The three operations\<close>

text \<open>\<open>!rowCount\<close>, \<open>!rowPos\<close> and \<open>!idColPos\<close> hold for a missing value and for 0.\<close>

definition missing :: "int option \<Rightarrow> bool" where
  "missing v \<longleftrightarrow> \<not> truthy_num v"

definition idColumn :: "(string \<times> nat) list \<Rightarrow> int option" where
  "idColumn headers = map_option int (map_of headers HASHED_PRIMARY_ID)"

definition Google_handleInsert ::
  "fs_env \<Rightarrow> GoogleSheetsDataSource \<Rightarrow> string option \<Rightarrow> (string \<times> json) list option \<Rightarrow> unit fs_act" where
  "Google_handleInsert E ds recordId data =
    bind_io (Google_getSheetName E (gd_spreadsheetId ds) (gd_sheetId ds)) (\<lambda>sheetName.
    bind_io (Google_getHashedHeaders E (gd_spreadsheetId ds) sheetName (truthy_str recordId)) (\<lambda>headers.
    bind_io (getGoogleSheetsRowCount E (gd_id ds)) (\<lambda>rowCount.
    bind_io (getDataSourceSchema E (gd_id ds)) (\<lambda>dataSourceSchema.
    bind_io (getSpreadsheetsTimezone E (gd_spreadsheetId ds)) (\<lambda>timezone.
    if missing rowCount then fs_throw MetadataDoesNotExistError
    else
      bind_io (gets_io fw_now) (\<lambda>now.
      bind_io (fs_lift (convertData E now data dataSourceSchema (Some timezone))) (\<lambda>converted.
      bind_io (fs_lift (emptyRow (lastColumn headers))) (\<lambda>row.
      let formatedData = (if truthy_str recordId
            then AList.update HASHED_PRIMARY_ID (Cell (JStr (the recordId))) converted else converted);
          (valuesInsert, insertCount) = placeValues (map_of formatedData) headers row 0;
          newRange = r1c1 (the sheetName) (the rowCount + 1) 1 (the rowCount + 1) (int (length row))
      in if insertCount = 0 then fs_throw CanNotBeDoneError
         else
           bind_io (Fs_addEmptyRow E (gd_spreadsheetId ds) (gd_sheetId ds) (the rowCount + 1)) (\<lambda>_.
           bind_io (Fs_updateRangeValue E (gd_spreadsheetId ds) newRange [valuesInsert]) (\<lambda>_.
           increaseGoogleSheetsRowCount E (gd_id ds)))))))))))"

text \<open>Up to the comparison of the id cell, deleting and updating a row are the same code.\<close>

definition Google_checkRow ::
  "fs_env \<Rightarrow> GoogleSheetsDataSource \<Rightarrow> string option \<Rightarrow> string \<Rightarrow> (string \<times> nat) list \<Rightarrow> int option \<Rightarrow>
   unit fs_act" where
  "Google_checkRow E ds rowId sheetName headers rowPos =
    (if missing rowPos then fs_throw MetadataDoesNotExistError
     else if missing (idColumn headers) then fs_throw CanNotBeDoneError
     else bind_io (Fs_getCellValue E (gd_spreadsheetId ds) sheetName (the rowPos + 1)
            (the (idColumn headers) + 1)) (\<lambda>curValueInIdCell.
          if curValueInIdCell = rowId then return_io () else fs_throw MetadataDoesNotMatchError))"

definition Google_handleDelete ::
  "fs_env \<Rightarrow> GoogleSheetsDataSource \<Rightarrow> string option \<Rightarrow> unit fs_act" where
  "Google_handleDelete E ds rowId =
    bind_io (Google_getSheetName E (gd_spreadsheetId ds) (gd_sheetId ds)) (\<lambda>sheetName.
    bind_io (Google_getHashedHeaders E (gd_spreadsheetId ds) sheetName True) (\<lambda>headers.
    bind_io (getGoogleSheetsRowPos E rowId) (\<lambda>rowPos.
    bind_io (Google_checkRow E ds rowId (the sheetName) headers rowPos) (\<lambda>_.
    Fs_deleteRow E (gd_spreadsheetId ds) (gd_sheetId ds) (the rowPos + 1)))))"

definition Google_handleUpdate ::
  "fs_env \<Rightarrow> GoogleSheetsDataSource \<Rightarrow> string option \<Rightarrow> (string \<times> json) list option \<Rightarrow> unit fs_act" where
  "Google_handleUpdate E ds rowId data =
    bind_io (Google_getSheetName E (gd_spreadsheetId ds) (gd_sheetId ds)) (\<lambda>sheetName.
    bind_io (Google_getHashedHeaders E (gd_spreadsheetId ds) sheetName True) (\<lambda>headers.
    bind_io (getGoogleSheetsRowPos E rowId) (\<lambda>rowPos.
    bind_io (getDataSourceSchema E (gd_id ds)) (\<lambda>dataSourceSchema.
    bind_io (getSpreadsheetsTimezone E (gd_spreadsheetId ds)) (\<lambda>timezone.
    bind_io (Google_checkRow E ds rowId (the sheetName) headers rowPos) (\<lambda>_.
    bind_io (gets_io fw_now) (\<lambda>now.
    bind_io (fs_lift (convertData E now data dataSourceSchema (Some timezone))) (\<lambda>formatedData.
    bind_io (fs_lift (emptyRow (lastColumn headers))) (\<lambda>row.
    let (valuesUpdate, updateCount) = placeValues (updatable formatedData) headers row 0;
        a1 = r1c1 (the sheetName) (the rowPos + 1) 1 (the rowPos + 1) (int (length row))
    in if updateCount = 0 then fs_throw CanNotBeDoneError
       else Fs_updateRangeValue E (gd_spreadsheetId ds) a1 [valuesUpdate])))))))))"

section \<open>The drivers\<close>

definition Google_dispatch ::
  "fs_env \<Rightarrow> GoogleSheetsDataSource \<Rightarrow> FormSync \<Rightarrow> unit fs_act" where
  "Google_dispatch E ds formsync = (let payload = fm_payload formsync in
    case fm_type formsync of
      FS_INSERT \<Rightarrow> Google_handleInsert E ds (pl_recordId payload) (pl_data payload)
    | FS_DELETE \<Rightarrow> Google_handleDelete E ds (pl_recordId payload)
    | FS_UPDATE \<Rightarrow> Google_handleUpdate E ds (pl_recordId payload) (pl_data payload))"

definition NO_DATA_EXISTS_CODE :: json where "NO_DATA_EXISTS_CODE = JStr ''E1''"

definition Google_run :: "fs_env \<Rightarrow> FormSync \<Rightarrow> unit fs_act" where
  "Google_run E formsync =
    bind_io (findGoogleSource E (fm_dataSourceId formsync)) (\<lambda>r. case r of
      None \<Rightarrow> fs_throw (FsApiError NO_DATA_EXISTS_CODE ''Data source does not exist'')
    | Some ds \<Rightarrow> fs_catch
        (bind_io (Google_dispatch E ds formsync) (\<lambda>_. deleteFormSync E (fm_id formsync)))
        (\<lambda>error.
           if error = CanNotBeDoneError then deleteFormSync E (fm_id formsync)
           else if isMetadataError error then saveDelayed E (fm_id formsync)
           else fs_throw error))"

definition Google_runRespectMetadata :: "fs_env \<Rightarrow> FormSync \<Rightarrow> unit fs_act" where
  "Google_runRespectMetadata E formsync =
    bind_io (findGoogleSource E (fm_dataSourceId formsync)) (\<lambda>r. case r of
      None \<Rightarrow> fs_throw CanNotBeDoneError
    | Some ds \<Rightarrow> fs_catch
        (bind_io (Google_dispatch E ds formsync) (\<lambda>_. deleteFormSync E (fm_id formsync)))
        (\<lambda>error.
           if error = CanNotBeDoneError then deleteFormSync E (fm_id formsync)
           else if isMetadataError error then deleteFormSync E (fm_id formsync)
           else fs_throw error))"

definition Google_updateMetadata :: "fs_env \<Rightarrow> string \<Rightarrow> unit fs_act" where
  "Google_updateMetadata E dataSourceId =
    bind_io (gets_io fw_now) (\<lambda>time.
    bind_io (findGoogleSource E dataSourceId) (\<lambda>r. case r of
      None \<Rightarrow> return_io ()
    | Some ds \<Rightarrow>
        bind_io (GoogleService_accessToken E (gd_refreshToken ds)) (\<lambda>accessToken.
        bind_io (fs_catch (fs_request (fe_http E)
             (PostTo (fe_metadataUrl E @ ''/api/v1/google-sheets/update'')
               [(''dataSourceId'', dataSourceId), (''accessToken'', accessToken),
                (''spreadsheetId'', gd_spreadsheetId ds), (''sheetId'', gd_sheetId ds)]))
           (\<lambda>_. return_io ())) (\<lambda>_.
        modify_io (\<lambda>w. w\<lparr>fw_google := rp_update (fe_google E) (\<lambda>d. gd_id d = dataSourceId)
          (\<lambda>d. d\<lparr>gd_metadataSyncedAt := Some time\<rparr>) (fw_google w)\<rparr>)))))"

section \<open>The jobs\<close>

definition Q_GOOGLE_UPDATE_METADATA :: string where
  "Q_GOOGLE_UPDATE_METADATA = ''google_sheets_update_metadata''"
definition Q_GOOGLE_RESPECT_METADATA :: string where
  "Q_GOOGLE_RESPECT_METADATA = ''google_sheets_form_sync_respect_metadata''"

text \<open>The delayed form syncs of a data source, joined with their form syncs.\<close>

definition delayedOf :: "fs_env \<Rightarrow> string \<Rightarrow> FormSync list fs_act" where
  "delayedOf E dataSourceId = gets_io (\<lambda>w. List.map_filter (\<lambda>i.
     rp_findOne (fe_formsyncs E) (\<lambda>f. fm_id f = i \<and> fm_dataSourceId f = dataSourceId)
       (fw_formsyncs w)) (rp_find (fe_delayed E) (\<lambda>_. True) (fw_delayed w)))"

definition Google_updateMetadataJob :: "fs_env \<Rightarrow> string \<Rightarrow> unit fs_act" where
  "Google_updateMetadataJob E dataSourceId =
    bind_io (Google_updateMetadata E dataSourceId) (\<lambda>_.
    bind_io (delayedOf E dataSourceId) (\<lambda>delayedFormsyncs.
    for_io delayedFormsyncs (\<lambda>f. fs_request (fe_queue E)
      (FsQueueAdd Q_GOOGLE_RESPECT_METADATA (DelayedFormsyncJob (fm_id f)) (fm_id f) None))))"

text \<open>A form sync that is gone is \<open>null\<close>, which \<open>runRespectMetadata\<close> destructures.\<close>

definition Google_respectMetadataJob :: "fs_env \<Rightarrow> string \<Rightarrow> unit fs_act" where
  "Google_respectMetadataJob E formsyncId =
    bind_io (gets_io (\<lambda>w. rp_findOne (fe_formsyncs E) (\<lambda>f. fm_id f = formsyncId) (fw_formsyncs w)))
      (\<lambda>r. case r of None \<Rightarrow> fs_throw FsTypeError | Some f \<Rightarrow> Google_runRespectMetadata E f)"

end
