(* ===== verification/FormSyncExcel.thy ===== *)
theory FormSyncExcel
  imports FormSyncGoogle
begin

text \<open>
  The Excel form-sync service (\<open>modules/formsync/excel\<close>). It differs from the Google Sheets one in
  the session and token it takes from the cache, in the place of the row insertion, which comes
  before the check that there is something to insert, and in the change tag that guards the refresh
  of the metadata.
\<close>

section \<open>Reading the worksheet\<close>

definition Excel_getWorksheetHashedHeaders ::
  "fs_env \<Rightarrow> ExcelDataSource \<Rightarrow> string \<Rightarrow> bool \<Rightarrow> (string \<times> nat) list fs_act" where
  "Excel_getWorksheetHashedHeaders E ds sessionId includeHeader =
    bind_io (Fs_getWorksheetRowValues E (xd_workbookId ds) (xd_worksheetId ds) 0 (Some sessionId)) (\<lambda>v.
    case v of
      None \<Rightarrow> fs_throw FsTypeError
    | Some headerValues \<Rightarrow> (case hashedHeaders_excel (fe_md5 E) includeHeader headerValues of
          None \<Rightarrow> throw_io Hangs
        | Some headers \<Rightarrow> return_io headers))"

definition getDataSourceTimezone :: "fs_env \<Rightarrow> string \<Rightarrow> string fs_act" where
  "getDataSourceTimezone E dataSourceId = bind_io (findExcelSource E dataSourceId) (\<lambda>r. case r of
     None \<Rightarrow> fs_throw FsTypeError | Some d \<Rightarrow> return_io (xd_timezone d))"

text \<open>\<open>`A${row}:${column}${row}`\<close>; there is no column for \<open>-Infinity\<close>.\<close>

definition rowRange :: "int \<Rightarrow> nat option \<Rightarrow> string" where
  "rowRange row lastColIndex = ''A'' @ show_int row @ '':'' @
     convertToExcelColumnName (case lastColIndex of None \<Rightarrow> -1 | Some m \<Rightarrow> int m) @ show_int row"

section \<open>The three operations\<close>

definition Excel_handleInsert ::
  "fs_env \<Rightarrow> ExcelDataSource \<Rightarrow> string option \<Rightarrow> (string \<times> json) list option \<Rightarrow> string \<Rightarrow>
   unit fs_act" where
  "Excel_handleInsert E ds recordId data sessionId =
    bind_io (Excel_getWorksheetHashedHeaders E ds sessionId (truthy_str recordId)) (\<lambda>headers.
    bind_io (getExcelRowCount E (xd_id ds)) (\<lambda>rowCount.
    bind_io (getDataSourceSchema E (xd_id ds)) (\<lambda>dataSourceSchema.
    bind_io (getDataSourceTimezone E (xd_id ds)) (\<lambda>timezone.
    if missing rowCount then fs_throw MetadataDoesNotExistError
    else
      let newRange = rowRange (the rowCount + 1) (lastColumn headers) in
      bind_io (Fs_insertWorksheetRange E (xd_workbookId ds) (xd_worksheetId ds) (Some sessionId)
        newRange) (\<lambda>_.
      bind_io (gets_io fw_now) (\<lambda>now.
      bind_io (fs_lift (convertData E now data dataSourceSchema (Some timezone))) (\<lambda>converted.
      bind_io (fs_lift (emptyRow (lastColumn headers))) (\<lambda>row.
      let formatedData = (if truthy_str recordId
            then AList.update HASHED_PRIMARY_ID (Cell (JStr (the recordId))) converted else converted);
          (valuesInsert, insertCount) = placeValues (map_of formatedData) headers row 0
      in if insertCount = 0 then fs_throw CanNotBeDoneError
         else
           bind_io (Fs_updateWorksheetRange E (xd_workbookId ds) (xd_worksheetId ds) (Some sessionId)
             newRange [valuesInsert]) (\<lambda>_.
           increaseExcelRowCount E (xd_id ds))))))))))"

definition Excel_checkRow ::
  "fs_env \<Rightarrow> ExcelDataSource \<Rightarrow> string option \<Rightarrow> string \<Rightarrow> (string \<times> nat) list \<Rightarrow> int option \<Rightarrow>
   unit fs_act" where
  "Excel_checkRow E ds rowId sessionId headers rowPos =
    (if missing rowPos then fs_throw MetadataDoesNotExistError
     else if missing (idColumn headers) then fs_throw CanNotBeDoneError
     else bind_io (Fs_getWorksheetCellValue E (xd_workbookId ds) (xd_worksheetId ds) (the rowPos)
            (the (idColumn headers)) (Some sessionId)) (\<lambda>curValueInIdCell.
          if curValueInIdCell = map_option JStr rowId then return_io ()
          else fs_throw MetadataDoesNotMatchError))"

definition Excel_handleDelete ::
  "fs_env \<Rightarrow> ExcelDataSource \<Rightarrow> string option \<Rightarrow> string \<Rightarrow> unit fs_act" where
  "Excel_handleDelete E ds rowId sessionId =
    bind_io (Excel_getWorksheetHashedHeaders E ds sessionId True) (\<lambda>headers.
    bind_io (getExcelRowPos E rowId) (\<lambda>rowPos.
    bind_io (Excel_checkRow E ds rowId sessionId headers rowPos) (\<lambda>_.
    Fs_deleteWorksheetRange E (xd_workbookId ds) (xd_worksheetId ds) (Some sessionId)
      (rowRange (the rowPos + 1) (lastColumn headers)))))"

definition Excel_handleUpdate ::
  "fs_env \<Rightarrow> ExcelDataSource \<Rightarrow> string option \<Rightarrow> (string \<times> json) list option \<Rightarrow> string \<Rightarrow>
   unit fs_act" where
  "Excel_handleUpdate E ds rowId data sessionId =
    bind_io (Excel_getWorksheetHashedHeaders E ds sessionId True) (\<lambda>headers.
    bind_io (getExcelRowPos E rowId) (\<lambda>rowPos.
    bind_io (getDataSourceSchema E (xd_id ds)) (\<lambda>dataSourceSchema.
    bind_io (getDataSourceTimezone E (xd_id ds)) (\<lambda>timezone.
    bind_io (Excel_checkRow E ds rowId sessionId headers rowPos) (\<lambda>_.
    bind_io (gets_io fw_now) (\<lambda>now.
    bind_io (fs_lift (convertData E now data dataSourceSchema (Some timezone))) (\<lambda>formatedData.
    bind_io (fs_lift (emptyRow (lastColumn headers))) (\<lambda>row.
    let (valuesUpdate, updateCount) = placeValues (updatable formatedData) headers row 0
    in if updateCount = 0 then fs_throw CanNotBeDoneError
       else Fs_updateWorksheetRange E (xd_workbookId ds) (xd_worksheetId ds) (Some sessionId)
              (rowRange (the rowPos + 1) (lastColumn headers)) [valuesUpdate]))))))))"

section \<open>The drivers\<close>

text \<open>The token and the session are obtained outside the \<open>try\<close>.\<close>

definition Excel_session :: "fs_env \<Rightarrow> ExcelDataSource \<Rightarrow> string fs_act" where
  "Excel_session E ds =
    bind_io (Fs_getAccessTokenWithCache E (xd_refreshToken ds) (xd_id ds)) (\<lambda>_.
    Fs_getWorkbookSessionIdWithCache E (xd_workbookId ds) (Some True) (xd_id ds))"

definition Excel_dispatch ::
  "fs_env \<Rightarrow> ExcelDataSource \<Rightarrow> FormSync \<Rightarrow> string \<Rightarrow> unit fs_act" where
  "Excel_dispatch E ds formsync sessionId = (let payload = fm_payload formsync in
    case fm_type formsync of
      FS_INSERT \<Rightarrow> Excel_handleInsert E ds (pl_recordId payload) (pl_data payload) sessionId
    | FS_DELETE \<Rightarrow> Excel_handleDelete E ds (pl_recordId payload) sessionId
    | FS_UPDATE \<Rightarrow> Excel_handleUpdate E ds (pl_recordId payload) (pl_data payload) sessionId)"

definition Excel_run :: "fs_env \<Rightarrow> FormSync \<Rightarrow> unit fs_act" where
  "Excel_run E formsync =
    bind_io (findExcelSource E (fm_dataSourceId formsync)) (\<lambda>r. case r of
      None \<Rightarrow> fs_throw (FsApiError NO_DATA_EXISTS_CODE ''Data source does not exist'')
    | Some ds \<Rightarrow> bind_io (Excel_session E ds) (\<lambda>sessionId. fs_catch
        (bind_io (Excel_dispatch E ds formsync sessionId) (\<lambda>_. deleteFormSync E (fm_id formsync)))
        (\<lambda>error.
           if error = CanNotBeDoneError then deleteFormSync E (fm_id formsync)
           else if isMetadataError error then saveDelayed E (fm_id formsync)
           else fs_throw error)))"

definition Excel_runRespectMetadata :: "fs_env \<Rightarrow> FormSync \<Rightarrow> unit fs_act" where
  "Excel_runRespectMetadata E formsync =
    bind_io (findExcelSource E (fm_dataSourceId formsync)) (\<lambda>r. case r of
      None \<Rightarrow> fs_throw CanNotBeDoneError
    | Some ds \<Rightarrow> bind_io (Excel_session E ds) (\<lambda>sessionId. fs_catch
        (bind_io (Excel_dispatch E ds formsync sessionId) (\<lambda>_. deleteFormSync E (fm_id formsync)))
        (\<lambda>error.
           if error = CanNotBeDoneError then deleteFormSync E (fm_id formsync)
           else if isMetadataError error then deleteFormSync E (fm_id formsync)
           else fs_throw error)))"

definition Excel_updateMetadata :: "fs_env \<Rightarrow> string \<Rightarrow> unit fs_act" where
  "Excel_updateMetadata E dataSourceId =
    bind_io (gets_io fw_now) (\<lambda>time.
    bind_io (findExcelSource E dataSourceId) (\<lambda>r. case r of
      None \<Rightarrow> return_io ()
    | Some ds \<Rightarrow>
        bind_io (Fs_getAccessToken E (xd_refreshToken ds)) (\<lambda>accessToken.
        bind_io (Fs_getWorkbookFileInfo E (xd_workbookId ds) None) (\<lambda>cTag.
        bind_io (getExcelCTag E dataSourceId) (\<lambda>metadataCTag.
        if metadataCTag = Some cTag then return_io ()
        else
          bind_io (fs_catch (fs_request (fe_http E)
               (PostTo (fe_metadataUrl E @ ''/api/v1/excel/update'')
                 [(''dataSourceId'', dataSourceId), (''workbookId'', xd_workbookId ds),
                  (''worksheetId'', xd_worksheetId ds), (''accessToken'', accessToken)]))
             (\<lambda>_. return_io ())) (\<lambda>_.
          bind_io (modify_io (\<lambda>w. w\<lparr>fw_excel := rp_update (fe_excel E) (\<lambda>d. xd_id d = dataSourceId)
              (\<lambda>d. d\<lparr>xd_metadataSyncedAt := Some time\<rparr>) (fw_excel w)\<rparr>)) (\<lambda>_.
          updateExcelCTag E dataSourceId cTag)))))))"

section \<open>The jobs\<close>

definition Q_EXCEL_UPDATE_METADATA :: string where
  "Q_EXCEL_UPDATE_METADATA = ''excel_update_metadata''"
definition Q_EXCEL_RESPECT_METADATA :: string where
  "Q_EXCEL_RESPECT_METADATA = ''excel_form_sync_respect_metadata''"

definition Excel_updateMetadataJob :: "fs_env \<Rightarrow> string \<Rightarrow> unit fs_act" where
  "Excel_updateMetadataJob E dataSourceId =
    bind_io (Excel_updateMetadata E dataSourceId) (\<lambda>_.
    bind_io (delayedOf E dataSourceId) (\<lambda>delayedFormsyncs.
    for_io delayedFormsyncs (\<lambda>f. fs_request (fe_queue E)
      (FsQueueAdd Q_EXCEL_RESPECT_METADATA (DelayedFormsyncJob (fm_id f)) (fm_id f) None))))"

definition Excel_respectMetadataJob :: "fs_env \<Rightarrow> string \<Rightarrow> unit fs_act" where
  "Excel_respectMetadataJob E formsyncId =
    bind_io (gets_io (\<lambda>w. rp_findOne (fe_formsyncs E) (\<lambda>f. fm_id f = formsyncId) (fw_formsyncs w)))
      (\<lambda>r. case r of None \<Rightarrow> fs_throw FsTypeError | Some f \<Rightarrow> Excel_runRespectMetadata E f)"

end
