(* ===== verification/FormSyncService.thy ===== *)
theory FormSyncService
  imports FormSyncExcel ConnectionService
begin

text \<open>
  The entry points of the form-sync application: running a form sync
  (\<open>modules/formsync/formsync.service.ts\<close>), its data sources and cleaners
  (\<open>modules/datasource\<close>, \<open>modules/cleaner\<close>) and the webhooks it receives (\<open>modules/webhook\<close>).
  \<open>draws\<close> are the random numbers and the uuid of a new metadata job.
\<close>

section \<open>Running a form sync\<close>

record FormSyncDto =
  fo_type :: FormSyncType
  fo_dataSourceId :: string
  fo_payload :: FormSyncPayload
  fo_localId :: "string option"        \<comment> \<open>\<open>metadata?.localId\<close>\<close>

definition FormSyncFactory_get :: "fs_env \<Rightarrow> FsProviderType \<Rightarrow> FormSync \<Rightarrow> unit fs_act" where
  "FormSyncFactory_get E providerType = (case providerType of
     MicrosoftExcel \<Rightarrow> Excel_run E | GoogleSheets \<Rightarrow> Google_run E)"

text \<open>An insert gets a record id of its own; its local id, if any, is remembered for ten minutes.\<close>

definition withRecordId :: "fs_env \<Rightarrow> FormSyncDto \<Rightarrow> FormSyncPayload fs_act" where
  "withRecordId E data =
    (if fo_type data = FS_INSERT then
       bind_io (newUuid E) (\<lambda>recordId.
       bind_io (if truthy_str (fo_localId data)
          then cacheSet (RecordLocalIdMapping_Key recordId) (the (fo_localId data))
                 RecordLocalIdMapping_TTL
          else return_io ()) (\<lambda>_.
       return_io ((fo_payload data)\<lparr>pl_recordId := Some recordId\<rparr>)))
     else return_io (fo_payload data))"

definition FormSyncService_run :: "fs_env \<Rightarrow> FormSyncDto \<Rightarrow> unit fs_act" where
  "FormSyncService_run E data =
    bind_io (findFsSource E (fo_dataSourceId data)) (\<lambda>r. case r of
      None \<Rightarrow> fs_throw (FsApiError (JNum 404) ''data source not found'')
    | Some dataSource \<Rightarrow>
        bind_io (withRecordId E data) (\<lambda>payload.
        bind_io (newUuid E) (\<lambda>i.
        let formSync = \<lparr>fm_id = i, fm_dataSourceId = fo_dataSourceId data, fm_type = fo_type data,
              fm_payload = payload\<rparr> in
        bind_io (modify_io (\<lambda>w. w\<lparr>fw_formsyncs :=
          rp_save (fe_formsyncs E) formSync (fw_formsyncs w)\<rparr>)) (\<lambda>_.
        FormSyncFactory_get E (fd_provider dataSource) formSync))))"

section \<open>Data sources\<close>

definition METADATA_FREQUENCY :: int where "METADATA_FREQUENCY = 4"

definition newMetadataJob :: "draws \<Rightarrow> MetadataJob" where
  "newMetadataJob r = \<lparr>mj_jobId = rn_uuid r,
     mj_cron = createCronExpressionFromFrequency r METADATA_FREQUENCY\<rparr>"

record CreateExcelDataSourceDto =
  ce_dataSourceId :: string
  ce_refreshToken :: string
  ce_workbookId :: string
  ce_worksheetId :: string
  ce_timezone :: string

record CreateGoogleSheetsDataSourceDto =
  cg_dataSourceId :: string
  cg_refreshToken :: string
  cg_spreadsheetId :: string
  cg_sheetId :: string

text \<open>Both rows are saved in one transaction; \<open>save\<close> of an existing row keeps the columns that the
  new entity does not set.\<close>

definition saveCommon :: "fs_env \<Rightarrow> string \<Rightarrow> FsProviderType \<Rightarrow> fs_world \<Rightarrow> fs_world" where
  "saveCommon E i p w = w\<lparr>fw_dataSources := rp_save (fe_dataSources E)
     \<lparr>fd_id = i, fd_provider = p, fd_schema =
        Option.bind (rp_findOne (fe_dataSources E) (\<lambda>d. fd_id d = i) (fw_dataSources w)) fd_schema\<rparr>
     (fw_dataSources w)\<rparr>"

definition createExcelDataSource :: "fs_env \<Rightarrow> draws \<Rightarrow> CreateExcelDataSourceDto \<Rightarrow> unit fs_act" where
  "createExcelDataSource E r data =
    (let metadataJob = newMetadataJob r; i = ce_dataSourceId data in
     bind_io (modify_io (\<lambda>w. (saveCommon E i MicrosoftExcel w)\<lparr>fw_excel := rp_save (fe_excel E)
       \<lparr>xd_id = i, xd_workbookId = ce_workbookId data, xd_worksheetId = ce_worksheetId data,
        xd_refreshToken = ce_refreshToken data, xd_timezone = ce_timezone data,
        xd_metadataJob = metadataJob, xd_metadataSyncedAt = Option.bind
          (rp_findOne (fe_excel E) (\<lambda>d. xd_id d = i) (fw_excel w)) xd_metadataSyncedAt\<rparr>
       (fw_excel w)\<rparr>)) (\<lambda>_.
     fs_request (fe_queue E) (FsQueueAdd Q_EXCEL_UPDATE_METADATA (UpdateMetadataJob i)
       (mj_jobId metadataJob) (Some (mj_cron metadataJob)))))"

definition createGoogleSheetsDataSource ::
  "fs_env \<Rightarrow> draws \<Rightarrow> CreateGoogleSheetsDataSourceDto \<Rightarrow> unit fs_act" where
  "createGoogleSheetsDataSource E r data =
    (let metadataJob = newMetadataJob r; i = cg_dataSourceId data in
     bind_io (modify_io (\<lambda>w. (saveCommon E i GoogleSheets w)\<lparr>fw_google := rp_save (fe_google E)
       \<lparr>gd_id = i, gd_spreadsheetId = cg_spreadsheetId data, gd_sheetId = cg_sheetId data,
        gd_refreshToken = cg_refreshToken data, gd_metadataJob = metadataJob,
        gd_metadataSyncedAt = Option.bind
          (rp_findOne (fe_google E) (\<lambda>d. gd_id d = i) (fw_google w)) gd_metadataSyncedAt\<rparr>
       (fw_google w)\<rparr>)) (\<lambda>_.
     fs_request (fe_queue E) (FsQueueAdd Q_GOOGLE_UPDATE_METADATA (UpdateMetadataJob i)
       (mj_jobId metadataJob) (Some (mj_cron metadataJob)))))"

definition ExcelCleanerService_run :: "fs_env \<Rightarrow> string \<Rightarrow> unit fs_act" where
  "ExcelCleanerService_run E i = bind_io (findExcelSource E i) (\<lambda>r. case r of
     None \<Rightarrow> return_io ()
   | Some d \<Rightarrow> fs_request (fe_queue E) (FsQueueRemove Q_EXCEL_UPDATE_METADATA
       (mj_jobId (xd_metadataJob d)) (mj_cron (xd_metadataJob d))))"

definition GoogleSheetsCleanerService_run :: "fs_env \<Rightarrow> string \<Rightarrow> unit fs_act" where
  "GoogleSheetsCleanerService_run E i = bind_io (findGoogleSource E i) (\<lambda>r. case r of
     None \<Rightarrow> return_io ()
   | Some d \<Rightarrow> fs_request (fe_queue E) (FsQueueRemove Q_GOOGLE_UPDATE_METADATA
       (mj_jobId (gd_metadataJob d)) (mj_cron (gd_metadataJob d))))"

definition CleanerFactory_get :: "fs_env \<Rightarrow> FsProviderType \<Rightarrow> string \<Rightarrow> unit fs_act" where
  "CleanerFactory_get E providerType = (case providerType of
     MicrosoftExcel \<Rightarrow> ExcelCleanerService_run E
   | GoogleSheets \<Rightarrow> GoogleSheetsCleanerService_run E)"

definition deleteDataSource :: "fs_env \<Rightarrow> string \<Rightarrow> unit fs_act" where
  "deleteDataSource E dataSourceId = bind_io (findFsSource E dataSourceId) (\<lambda>r. case r of
     None \<Rightarrow> return_io ()
   | Some dataSource \<Rightarrow>
       bind_io (CleanerFactory_get E (fd_provider dataSource) dataSourceId) (\<lambda>_.
       deleteFsSource E dataSourceId))"

definition FsDataSourceService_getSchema :: "fs_env \<Rightarrow> string \<Rightarrow> DataSourceSchema option fs_act" where
  "FsDataSourceService_getSchema E dataSourceId = getDataSourceSchema E dataSourceId"

section \<open>Received webhooks\<close>

text \<open>\<open>verify\<close> is the RSA check of the signature over the serialised body.\<close>

definition FORBIDDEN :: json where "FORBIDDEN = JStr ''E5''"

definition verifySignature :: "('b \<Rightarrow> string \<Rightarrow> bool) \<Rightarrow> 'b \<Rightarrow> string \<Rightarrow> unit fs_act" where
  "verifySignature verify body signature =
    (if verify body signature then return_io ()
     else fs_throw (FsApiError FORBIDDEN ''signature verification failed''))"

datatype DataSourceCreatedDto =
    ExcelCreated CreateExcelDataSourceDto
  | GoogleSheetsCreated CreateGoogleSheetsDataSourceDto
  | UnsupportedCreated

definition handleDataSourceCreated :: "fs_env \<Rightarrow> draws \<Rightarrow> DataSourceCreatedDto \<Rightarrow> unit fs_act" where
  "handleDataSourceCreated E r data = (case data of
     ExcelCreated d \<Rightarrow> createExcelDataSource E r d
   | GoogleSheetsCreated d \<Rightarrow> createGoogleSheetsDataSource E r d
   | UnsupportedCreated \<Rightarrow> fs_throw (FsError ''unsupported data source type''))"

record SyncflowSucceedDto =
  sy_dataSourceId :: string
  sy_syncVersion :: int
  sy_isSchemaChanged :: bool

text \<open>The schema is written into the SQL text between quotes without escaping: a quote in an id or a
  name ends the literal early, which is taken to make the statement fail.\<close>

definition hasQuote :: "SchemaField \<Rightarrow> bool" where
  "hasQuote f = List.member (fld_id f @ fld_name f) (CHR 0x27)"

definition Fs_handleSyncflowSucceed :: "fs_env \<Rightarrow> SyncflowSucceedDto \<Rightarrow> unit fs_act" where
  "Fs_handleSyncflowSucceed E data =
    (if sy_syncVersion data \<le> 1 \<or> sy_isSchemaChanged data then
       bind_io (fs_request (fe_schemaFields E)
         (GetFrom (fe_starionUrl E @ ''/datasources/'' @ sy_dataSourceId data @ ''/schema''))) (\<lambda>r.
       case r of
         None \<Rightarrow> fs_throw FsTypeError
       | Some schemaFields \<Rightarrow>
           let schema = fold (\<lambda>f. AList.update (fld_id f) f) schemaFields [] in
           if schemaFields = [] then return_io ()
           else if list_ex hasQuote schemaFields then fs_throw (FsError ''syntax error'')
           else modify_io (\<lambda>w. w\<lparr>fw_dataSources := rp_update (fe_dataSources E)
             (\<lambda>d. fd_id d = sy_dataSourceId data) (\<lambda>d. d\<lparr>fd_schema := Some schema\<rparr>)
             (fw_dataSources w)\<rparr>))
     else return_io ())"

definition dataSourceCreated ::
  "fs_env \<Rightarrow> draws \<Rightarrow> (DataSourceCreatedDto \<Rightarrow> string \<Rightarrow> bool) \<Rightarrow> DataSourceCreatedDto \<Rightarrow> string \<Rightarrow>
   unit fs_act" where
  "dataSourceCreated E r verify data signature =
    bind_io (verifySignature verify data signature) (\<lambda>_. handleDataSourceCreated E r data)"

definition syncflowSucceed ::
  "fs_env \<Rightarrow> (SyncflowSucceedDto \<Rightarrow> string \<Rightarrow> bool) \<Rightarrow> SyncflowSucceedDto \<Rightarrow> string \<Rightarrow> unit fs_act" where
  "syncflowSucceed E verify data signature =
    bind_io (verifySignature verify data signature) (\<lambda>_. Fs_handleSyncflowSucceed E data)"

definition dataSourceDeleted ::
  "fs_env \<Rightarrow> (string \<Rightarrow> string \<Rightarrow> bool) \<Rightarrow> string \<Rightarrow> string \<Rightarrow> unit fs_act" where
  "dataSourceDeleted E verify dataSourceId signature =
    bind_io (verifySignature verify dataSourceId signature) (\<lambda>_. deleteDataSource E dataSourceId)"

text \<open>\<open>ApiKeyGuard.canActivate\<close>.\<close>

definition ApiKeyGuard_canActivate :: "string list \<Rightarrow> string option \<Rightarrow> bool" where
  "ApiKeyGuard_canActivate apiKeys apiKeyHeader =
    (truthy_str apiKeyHeader \<and> List.member apiKeys (the apiKeyHeader))"

end
