(* ===== verification/FormSyncProperties.thy ===== *)
theory FormSyncProperties
  imports FormSyncService
begin

text \<open>
  What the form-sync services do to the records of pending form syncs, proved once for the
  interface \<open>IFormSyncService\<close> and interpreted for the Google Sheets and the Excel service; and the
  properties of the operations on the sheets and of the metadata jobs.
\<close>

section \<open>The pending form syncs\<close>

definition fs_docs :: "fs_world \<Rightarrow> FormSync list \<times> string list" where
  "fs_docs w = (fw_formsyncs w, fw_delayed w)"

lemma fs_docs_update [simp]:
  "fs_docs (w\<lparr>fw_calls := c\<rparr>) = fs_docs w" "fs_docs (w\<lparr>fw_cache := k\<rparr>) = fs_docs w"
  "fs_docs (w\<lparr>fw_googleCommon := m\<rparr>) = fs_docs w" "fs_docs (w\<lparr>fw_excelCommon := m\<rparr>) = fs_docs w"
  "fs_docs (w\<lparr>fw_google := g\<rparr>) = fs_docs w" "fs_docs (w\<lparr>fw_excel := x\<rparr>) = fs_docs w"
  by (simp_all add: fs_docs_def)

lemma keeps_prod [keeps_intros]:
  "(\<And>a b. keeps f (g a b)) \<Longrightarrow> keeps f (case p of (a, b) \<Rightarrow> g a b)"
  by (cases p) simp

lemma keeps_list [keeps_intros]:
  "keeps f a \<Longrightarrow> (\<And>x xs. keeps f (g x xs)) \<Longrightarrow> keeps f (case v of [] \<Rightarrow> a | x # xs \<Rightarrow> g x xs)"
  by (cases v) simp_all

lemma keeps_fs_throw [keeps_intros]: "keeps f (fs_throw e)"
  by (simp add: fs_throw_def keeps_intros)

lemma keeps_fs_lift [keeps_intros]: "keeps f (fs_lift r)"
  by (cases r) (simp_all add: fs_lift_def keeps_intros)

lemma keeps_fs_catch [keeps_intros]:
  "keeps f m \<Longrightarrow> (\<And>e. keeps f (h e)) \<Longrightarrow> keeps f (fs_catch m h)"
  unfolding fs_catch_def by (rule keeps_catch) (auto split: fs_exn.split intro: keeps_intros)

lemma keeps_modify: "(\<And>w. f (g w) = f w) \<Longrightarrow> keeps f (modify_io g)"
  by (simp add: keeps_def)

lemma keeps_request [keeps_intros]: "keeps fs_docs (fs_request a c)"
  unfolding fs_request_def by (intro keeps_intros keeps_modify) simp

lemma keeps_stores [keeps_intros]:
  "keeps fs_docs (findExcelSource E i)" "keeps fs_docs (findGoogleSource E i)"
  "keeps fs_docs (findFsSource E i)" "keeps fs_docs (getDataSourceSchema E i)"
  "keeps fs_docs (getExcelRowCount E i)" "keeps fs_docs (getExcelRowPos E v)"
  "keeps fs_docs (getExcelCTag E i)" "keeps fs_docs (getGoogleSheetsRowCount E i)"
  "keeps fs_docs (getGoogleSheetsRowPos E v)" "keeps fs_docs (cacheGet E k)"
  "keeps fs_docs (increaseExcelRowCount E i)" "keeps fs_docs (increaseGoogleSheetsRowCount E i)"
  "keeps fs_docs (updateExcelCTag E i t)" "keeps fs_docs (cacheSet k k2 ttl)"
  unfolding findExcelSource_def findGoogleSource_def findFsSource_def getDataSourceSchema_def
    getExcelRowCount_def getExcelCommonMetadata_def getExcelRowPos_def getExcelCTag_def
    getGoogleSheetsRowCount_def getGoogleSheetsCommonMetadata_def getGoogleSheetsRowPos_def
    cacheGet_def increaseExcelRowCount_def increaseGoogleSheetsRowCount_def updateExcelCTag_def
    cacheSet_def
  by (intro keeps_intros keeps_modify, simp?)+

lemmas google_calls_defs = Fs_getSheets_def Fs_getRangeValue_def Fs_getCellValue_def
  Fs_addEmptyRow_def Fs_deleteRow_def Fs_updateRangeValue_def getSpreadsheetsTimezone_def
  Google_getSheetName_def Google_getHashedHeaders_def Google_checkRow_def

lemmas excel_calls_defs = Fs_getAccessTokenWithCache_def Fs_getAccessToken_def
  Fs_createWorkbookSession_def Fs_getWorkbookSessionIdWithCache_def Fs_getWorksheetRow_def
  Fs_getWorksheetRowValues_def Fs_getWorksheetCell_def Fs_getWorksheetCellValue_def
  Fs_insertWorksheetRange_def Fs_updateWorksheetRange_def Fs_deleteWorksheetRange_def
  Excel_getWorksheetHashedHeaders_def getDataSourceTimezone_def Excel_checkRow_def
  Excel_session_def

lemma keeps_google_steps [keeps_intros]:
  "keeps fs_docs (Google_getSheetName E i s)" "keeps fs_docs (Google_getHashedHeaders E i n b)"
  "keeps fs_docs (getSpreadsheetsTimezone E i)" "keeps fs_docs (Google_checkRow E ds r nm h p)"
  "keeps fs_docs (Fs_addEmptyRow E i s pos)" "keeps fs_docs (Fs_deleteRow E i s pos)"
  "keeps fs_docs (Fs_updateRangeValue E i a vs)"
  unfolding google_calls_defs by (intro keeps_intros)+

lemma keeps_excel_steps [keeps_intros]:
  "keeps fs_docs (Excel_getWorksheetHashedHeaders E ds s b)" "keeps fs_docs (getDataSourceTimezone E i)"
  "keeps fs_docs (Excel_checkRow E ds r s h p)" "keeps fs_docs (Excel_session E ds)"
  "keeps fs_docs (Fs_insertWorksheetRange E i j so a)" "keeps fs_docs (Fs_deleteWorksheetRange E i j so a)"
  "keeps fs_docs (Fs_updateWorksheetRange E i j so a vs)"
  unfolding excel_calls_defs by (intro keeps_intros)+

lemma keeps_google_dispatch: "keeps fs_docs (Google_dispatch E ds f)"
  unfolding Google_dispatch_def Google_handleInsert_def Google_handleDelete_def
    Google_handleUpdate_def Let_def
  by (cases "fm_type f") (simp_all only: FormSyncType.case, (intro keeps_intros)+)

lemma keeps_excel_dispatch: "keeps fs_docs (Excel_dispatch E ds f s)"
  unfolding Excel_dispatch_def Excel_handleInsert_def Excel_handleDelete_def
    Excel_handleUpdate_def Let_def
  by (cases "fm_type f") (simp_all only: FormSyncType.case, (intro keeps_intros)+)

section \<open>The interface of the form-sync services\<close>

text \<open>
  A provider prepares a form sync (finds the data source, opens a session) and hands back the attempt
  to carry it out, or nothing when there is no data source. What becomes of the form sync depends only
  on the outcome of the attempt.
\<close>

definition settle :: "fs_env \<Rightarrow> (string \<Rightarrow> unit fs_act) \<Rightarrow> FormSync \<Rightarrow> unit fs_act \<Rightarrow> unit fs_act" where
  "settle E onMetadataError f attempt = fs_catch
     (bind_io attempt (\<lambda>_. deleteFormSync E (fm_id f)))
     (\<lambda>error. if error = CanNotBeDoneError then deleteFormSync E (fm_id f)
        else if isMetadataError error then onMetadataError (fm_id f) else fs_throw error)"

text \<open>Form syncs have distinct ids, and every delayed one is recorded.\<close>

definition pending_wf :: "fs_world \<Rightarrow> bool" where
  "pending_wf w \<longleftrightarrow> distinct (map fm_id (fw_formsyncs w)) \<and> distinct (fw_delayed w) \<and>
     set (fw_delayed w) \<subseteq> fm_id ` set (fw_formsyncs w)"

lemma pending_wf_docs: "fs_docs w = fs_docs w' \<Longrightarrow> pending_wf w = pending_wf w'"
  by (simp add: pending_wf_def fs_docs_def)

lemma env_repositories:
  assumes "fs_env_ok E"
  shows "rp_delete (fe_formsyncs E) = (\<lambda>p. filter (\<lambda>d. \<not> p d))"
    "rp_delete (fe_delayed E) = (\<lambda>p. filter (\<lambda>d. \<not> p d))"
    "rp_save (fe_delayed E) = (\<lambda>d ds. if List.member ds d then ds else ds @ [d])"
    "rp_findOne (fe_formsyncs E) = List.find" "rp_find (fe_delayed E) = filter"
  using assms by (auto simp: fs_env_ok_def repository_ok_def fun_eq_iff map_idI)

lemma deleteFormSync_run:
  assumes "fs_env_ok E" and "deleteFormSync E i w = (r, w')"
  shows "r = Inr () \<and> fs_docs w' = (filter (\<lambda>f. fm_id f \<noteq> i) (fw_formsyncs w),
    filter (\<lambda>d. d \<noteq> i) (fw_delayed w))"
  using assms(2) by (auto simp: deleteFormSync_def fs_docs_def env_repositories[OF assms(1)])

lemma saveDelayed_run:
  assumes "fs_env_ok E" and "saveDelayed E i w = (r, w')"
  shows "r = Inr () \<and> fs_docs w' = (fw_formsyncs w,
    if i \<in> set (fw_delayed w) then fw_delayed w else fw_delayed w @ [i])"
  using assms(2) by (auto simp: saveDelayed_def fs_docs_def env_repositories[OF assms(1)])

lemma pending_wf_delete:
  "pending_wf w \<Longrightarrow> fs_docs w' = (filter (\<lambda>f. fm_id f \<noteq> i) (fw_formsyncs w),
    filter (\<lambda>d. d \<noteq> i) (fw_delayed w)) \<Longrightarrow> pending_wf w'"
  by (auto simp: pending_wf_def fs_docs_def distinct_map_filter)

lemma pending_wf_save:
  "pending_wf w \<Longrightarrow> i \<in> fm_id ` set (fw_formsyncs w) \<Longrightarrow> fs_docs w' = (fw_formsyncs w,
    if i \<in> set (fw_delayed w) then fw_delayed w else fw_delayed w @ [i]) \<Longrightarrow> pending_wf w'"
  by (auto simp: pending_wf_def fs_docs_def)

locale form_sync_service =
  fixes E :: fs_env
    and prepare :: "FormSync \<Rightarrow> unit fs_act option fs_act"
    and run :: "FormSync \<Rightarrow> unit fs_act"
    and respect :: "FormSync \<Rightarrow> unit fs_act"
    and noSource :: "fs_error \<times> fs_error"
  assumes prepare_keeps: "keeps fs_docs (prepare f)"
    and attempt_keeps: "prepare f w = (Inr (Some act), w') \<Longrightarrow> keeps fs_docs act"
    and run_eq: "run f = bind_io (prepare f) (\<lambda>r. case r of
        None \<Rightarrow> fs_throw (fst noSource) | Some act \<Rightarrow> settle E (saveDelayed E) f act)"
    and respect_eq: "respect f = bind_io (prepare f) (\<lambda>r. case r of
        None \<Rightarrow> fs_throw (snd noSource) | Some act \<Rightarrow> settle E (deleteFormSync E) f act)"
begin

text \<open>Every way in which running a form sync can end.\<close>

lemma outcome:
  assumes "program = bind_io (prepare f) (\<lambda>r. case r of
      None \<Rightarrow> fs_throw e0 | Some act \<Rightarrow> settle E onMeta f act)"
    and "program w = (r, w')"
  shows "(\<exists>e. r = Inl e \<and> fs_docs w' = fs_docs w) \<or>
    (\<exists>w1. fs_docs w1 = fs_docs w \<and> (deleteFormSync E (fm_id f) w1 = (r, w') \<or> onMeta (fm_id f) w1 = (r, w')))"
proof -
  obtain p w1 where p: "prepare f w = (p, w1)" "fs_docs w1 = fs_docs w"
    using prepare_keeps[of f] by (metis keepsD surj_pair)
  show ?thesis
  proof (cases p)
    case (Inl e)
    then show ?thesis using assms p by (auto simp: bind_io_run)
  next
    case (Inr a)
    show ?thesis
    proof (cases a)
      case None
      then show ?thesis using assms p Inr by (auto simp: bind_io_run fs_throw_def)
    next
      case (Some act)
      obtain q w2 where q: "act w1 = (q, w2)" "fs_docs w2 = fs_docs w"
        using attempt_keeps[of f w act w1] p Inr Some by (metis keepsD surj_pair)
      then show ?thesis using assms p Inr Some
        by (auto simp: bind_io_run settle_def fs_catch_def catch_io_run fs_throw_def deleteFormSync_def
            split: sum.splits fs_exn.splits if_splits)
    qed
  qed
qed

lemma run_wf:
  assumes "fs_env_ok E" and "pending_wf w" and "fm_id f \<in> fm_id ` set (fw_formsyncs w)"
    and "run f w = (r, w')"
  shows "pending_wf w'"
  using outcome[OF run_eq assms(4)]
proof (elim disjE exE conjE)
  fix e assume "fs_docs w' = fs_docs w"
  then show ?thesis using assms(2) pending_wf_docs by blast
next
  fix w1 assume d: "fs_docs w1 = fs_docs w" "deleteFormSync E (fm_id f) w1 = (r, w')"
  have "pending_wf w1" using assms(2) pending_wf_docs[OF d(1)] by simp
  then show ?thesis using deleteFormSync_run[OF assms(1) d(2)] pending_wf_delete by blast
next
  fix w1 assume d: "fs_docs w1 = fs_docs w" "saveDelayed E (fm_id f) w1 = (r, w')"
  have "pending_wf w1" using assms(2) pending_wf_docs[OF d(1)] by simp
  moreover have "fm_id f \<in> fm_id ` set (fw_formsyncs w1)" using assms(3) d(1) by (simp add: fs_docs_def)
  ultimately show ?thesis using saveDelayed_run[OF assms(1) d(2)] pending_wf_save by blast
qed

text \<open>The retry either fails with an error that the code does not classify or settles the form sync:
  its records are gone and no other record is touched.\<close>

lemma respect_outcome:
  assumes "fs_env_ok E" and "respect f w = (r, w')"
  shows "(\<exists>e. r = Inl e) \<and> fs_docs w' = fs_docs w \<or>
    r = Inr () \<and> fs_docs w' = (filter (\<lambda>g. fm_id g \<noteq> fm_id f) (fw_formsyncs w),
      filter (\<lambda>d. d \<noteq> fm_id f) (fw_delayed w))"
  using outcome[OF respect_eq assms(2)] deleteFormSync_run[OF assms(1)]
  by (auto simp: fs_docs_def)

lemma respect_wf:
  assumes "fs_env_ok E" and "pending_wf w" and "respect f w = (r, w')"
  shows "pending_wf w'"
  using respect_outcome[OF assms(1,3)] assms(2) pending_wf_docs pending_wf_delete by blast

end

section \<open>The two services\<close>

definition google_prepare :: "fs_env \<Rightarrow> FormSync \<Rightarrow> unit fs_act option fs_act" where
  "google_prepare E f = bind_io (findGoogleSource E (fm_dataSourceId f)) (\<lambda>r. return_io
     (map_option (\<lambda>ds. Google_dispatch E ds f) r))"

definition excel_prepare :: "fs_env \<Rightarrow> FormSync \<Rightarrow> unit fs_act option fs_act" where
  "excel_prepare E f = bind_io (findExcelSource E (fm_dataSourceId f)) (\<lambda>r. case r of
     None \<Rightarrow> return_io None
   | Some ds \<Rightarrow> bind_io (Excel_session E ds) (\<lambda>s. return_io (Some (Excel_dispatch E ds f s))))"

definition noSourceErrors :: "fs_error \<times> fs_error" where
  "noSourceErrors = (FsApiError NO_DATA_EXISTS_CODE ''Data source does not exist'', CanNotBeDoneError)"

lemma bind_find: "bind_io (gets_io g) k w = k (g w) w"
  by simp

interpretation gs: form_sync_service E "google_prepare E" "Google_run E"
    "Google_runRespectMetadata E" noSourceErrors for E
proof
  show "keeps fs_docs (google_prepare E f)" for f
    unfolding google_prepare_def by (intro keeps_intros)
  show "keeps fs_docs act" if "google_prepare E f w = (Inr (Some act), w')" for f w act w'
    using that by (auto simp: google_prepare_def findGoogleSource_def keeps_google_dispatch)
  show "Google_run E f = bind_io (google_prepare E f) (\<lambda>r. case r of
      None \<Rightarrow> fs_throw (fst noSourceErrors) | Some act \<Rightarrow> settle E (saveDelayed E) f act)" for f
    unfolding Google_run_def google_prepare_def settle_def noSourceErrors_def findGoogleSource_def
    by (rule ext) (simp add: bind_io_assoc split: option.split)
  show "Google_runRespectMetadata E f = bind_io (google_prepare E f) (\<lambda>r. case r of
      None \<Rightarrow> fs_throw (snd noSourceErrors) | Some act \<Rightarrow> settle E (deleteFormSync E) f act)" for f
    unfolding Google_runRespectMetadata_def google_prepare_def settle_def noSourceErrors_def
      findGoogleSource_def
    by (rule ext) (simp add: bind_io_assoc split: option.split)
qed

interpretation xl: form_sync_service E "excel_prepare E" "Excel_run E"
    "Excel_runRespectMetadata E" noSourceErrors for E
proof
  show "keeps fs_docs (excel_prepare E f)" for f
    unfolding excel_prepare_def by (intro keeps_intros)
  show "keeps fs_docs act" if "excel_prepare E f w = (Inr (Some act), w')" for f w act w'
    using that by (auto simp: excel_prepare_def findExcelSource_def keeps_excel_dispatch bind_io_run
        split: option.splits prod.splits sum.splits)
  show "Excel_run E f = bind_io (excel_prepare E f) (\<lambda>r. case r of
      None \<Rightarrow> fs_throw (fst noSourceErrors) | Some act \<Rightarrow> settle E (saveDelayed E) f act)" for f
    unfolding Excel_run_def excel_prepare_def settle_def noSourceErrors_def findExcelSource_def
    by (rule ext) (simp add: bind_io_assoc split: option.split)
  show "Excel_runRespectMetadata E f = bind_io (excel_prepare E f) (\<lambda>r. case r of
      None \<Rightarrow> fs_throw (snd noSourceErrors) | Some act \<Rightarrow> settle E (deleteFormSync E) f act)" for f
    unfolding Excel_runRespectMetadata_def excel_prepare_def settle_def noSourceErrors_def
      findExcelSource_def
    by (rule ext) (simp add: bind_io_assoc split: option.split)
qed

section \<open>Integrity and retry of pending form syncs\<close>

lemma withRecordId_docs: "keeps fs_docs (withRecordId E data)"
proof -
  have "keeps fs_docs (newUuid E)" by (simp add: keeps_def newUuid_def fs_docs_def)
  then show ?thesis unfolding withRecordId_def by (intro keeps_intros)
qed

lemma withRecordId_ids:
  assumes "withRecordId E data w = (r, w')"
  shows "fw_ids w \<le> fw_ids w' \<and> (\<exists>p. r = Inr p)"
  using assms by (auto simp: withRecordId_def newUuid_def cacheSet_def bind_io_run split: if_splits)

lemma saveFormSync_wf:
  assumes "fs_env_ok E" and "pending_wf w" and "fm_id f \<notin> fm_id ` set (fw_formsyncs w)"
  shows "pending_wf (w\<lparr>fw_formsyncs := rp_save (fe_formsyncs E) f (fw_formsyncs w)\<rparr>) \<and>
    f \<in> set (rp_save (fe_formsyncs E) f (fw_formsyncs w))"
proof -
  have "rp_save (fe_formsyncs E) f (fw_formsyncs w) = fw_formsyncs w @ [f]"
    using assms(1,3) by (simp add: fs_env_ok_def repository_ok_def)
  then show ?thesis using assms(2,3) by (auto simp: pending_wf_def)
qed

lemma job_wf:
  assumes "fs_env_ok E" and "pending_wf w"
  shows "pending_wf (snd (Google_respectMetadataJob E i w))"
    "pending_wf (snd (Excel_respectMetadataJob E i w))"
proof -
  have "pending_wf (snd (Google_runRespectMetadata E f w))"
    "pending_wf (snd (Excel_runRespectMetadata E f w))" for f
    using gs.respect_wf[OF assms, of f] xl.respect_wf[OF assms, of f] by (metis surj_pair snd_conv)+
  then show "pending_wf (snd (Google_respectMetadataJob E i w))"
    "pending_wf (snd (Excel_respectMetadataJob E i w))"
    using assms(2) by (simp_all add: Google_respectMetadataJob_def Excel_respectMetadataJob_def
        fs_throw_def split: option.split)
qed

lemma service_wf:
  assumes "fs_env_ok E" and "pending_wf w" and "\<forall>n \<ge> fw_ids w. fe_uuid E n \<notin> fm_id ` set (fw_formsyncs w)"
  shows "pending_wf (snd (FormSyncService_run E data w))"
proof (cases "rp_findOne (fe_dataSources E) (\<lambda>d. fd_id d = fo_dataSourceId data) (fw_dataSources w)")
  case None
  then show ?thesis using assms(2) by (simp add: FormSyncService_run_def findFsSource_def fs_throw_def)
next
  case (Some d)
  obtain payload w1 where p: "withRecordId E data w = (Inr payload, w1)" "fs_docs w1 = fs_docs w"
    "fw_ids w \<le> fw_ids w1"
    using withRecordId_ids[of E data w] keepsD[OF withRecordId_docs] by (metis surj_pair)
  let ?f = "\<lparr>fm_id = fe_uuid E (fw_ids w1), fm_dataSourceId = fo_dataSourceId data,
    fm_type = fo_type data, fm_payload = payload\<rparr>"
  let ?w = "w1\<lparr>fw_ids := Suc (fw_ids w1),
    fw_formsyncs := rp_save (fe_formsyncs E) ?f (fw_formsyncs w1)\<rparr>"
  have same: "fw_formsyncs w1 = fw_formsyncs w" "pending_wf w1"
    using p(2) assms(2) pending_wf_docs[OF p(2)] by (simp_all add: fs_docs_def)
  have "pending_wf ?w \<and> ?f \<in> set (fw_formsyncs ?w)"
    using saveFormSync_wf[OF assms(1), of "w1\<lparr>fw_ids := Suc (fw_ids w1)\<rparr>" ?f] same assms(3) p(3)
    by (simp add: pending_wf_def)
  then have ok: "pending_wf ?w" "fm_id ?f \<in> fm_id ` set (fw_formsyncs ?w)"
    by (blast, blast intro: imageI)
  have run: "FormSyncService_run E data w = FormSyncFactory_get E (fd_provider d) ?f ?w"
    using Some p(1) by (simp add: FormSyncService_run_def findFsSource_def bind_io_run newUuid_def Let_def)
  obtain r w' where r: "FormSyncFactory_get E (fd_provider d) ?f ?w = (r, w')" by fastforce
  then have "pending_wf w'"
    using gs.run_wf[OF assms(1) ok, of r w'] xl.run_wf[OF assms(1) ok, of r w']
    by (cases "fd_provider d") (simp_all add: FormSyncFactory_get_def)
  then show ?thesis using run r by simp
qed

text \<open>
  C39: no retry without its form sync. Every delayed form sync refers to a recorded one, and ids stay
  unique: accepting a new form sync (whose generated ids are fresh) and each retry job, of both
  providers and however they end, keep this.
\<close>

theorem pending_integrity:
  assumes "fs_env_ok E" and "pending_wf w"
    and "\<forall>n \<ge> fw_ids w. fe_uuid E n \<notin> fm_id ` set (fw_formsyncs w)"
  shows "pending_wf (snd (FormSyncService_run E data w)) \<and>
    pending_wf (snd (Google_respectMetadataJob E i w)) \<and>
    pending_wf (snd (Excel_respectMetadataJob E i w))"
  using service_wf[OF assms] job_wf[OF assms(1,2)] by blast

section \<open>The retry\<close>

lemma updateMetadata_returns:
  assumes "\<forall>cs. \<exists>t. fe_accessToken E cs = Inr t"
  shows "\<exists>w'. Google_updateMetadata E i w = (Inr (), w') \<and> fs_docs w' = fs_docs w"
proof (cases "rp_findOne (fe_google E) (\<lambda>d. gd_id d = i) (fw_google w)")
  case None
  then show ?thesis by (simp add: Google_updateMetadata_def findGoogleSource_def)
next
  case (Some ds)
  obtain t where t: "fe_accessToken E (fw_calls w @ [GoogleAccessToken (gd_refreshToken ds)]) = Inr t"
    using assms by blast
  have http: "\<exists>w'. fs_catch (fs_request (fe_http E) c) (\<lambda>_. return_io ()) w = (Inr (), w')
      \<and> fs_docs w' = fs_docs w" for c w
    by (auto simp: fs_catch_def fs_request_def fs_lift_def bind_io_run catch_io_run fs_throw_def
        split: sum.split)
  let ?post = "PostTo (fe_metadataUrl E @ ''/api/v1/google-sheets/update'')
    [(''dataSourceId'', i), (''accessToken'', t), (''spreadsheetId'', gd_spreadsheetId ds),
     (''sheetId'', gd_sheetId ds)]"
  obtain w2 where w2: "fs_catch (fs_request (fe_http E) ?post) (\<lambda>_. return_io ())
      (w\<lparr>fw_calls := fw_calls w @ [GoogleAccessToken (gd_refreshToken ds)]\<rparr>) = (Inr (), w2)"
    "fs_docs w2 = fs_docs w"
    using http by force
  show ?thesis
    using Some t w2
    by (simp add: Google_updateMetadata_def findGoogleSource_def bind_io_run fs_lift_def
        GoogleService_accessToken_def fs_request_def)
qed

text \<open>Queueing a job for each form sync of a list.\<close>

lemma queue_all:
  assumes "\<forall>cs. fe_queue E cs = Inr ()"
  shows "for_io fs (\<lambda>f. fs_request (fe_queue E) (c f)) w
    = (Inr (), w\<lparr>fw_calls := fw_calls w @ map c fs\<rparr>)"
  using assms by (induction fs arbitrary: w) (simp_all add: bind_io_run fs_request_def fs_lift_def)

lemma delayedOf_run:
  assumes "fs_env_ok E" and "pending_wf w" and "f \<in> set (fw_formsyncs w)"
    and "fm_id f \<in> set (fw_delayed w)"
  shows "\<exists>fs. delayedOf E (fm_dataSourceId f) w = (Inr fs, w) \<and> f \<in> set fs"
proof -
  have "List.find (\<lambda>g. fm_id g = fm_id f \<and> fm_dataSourceId g = fm_dataSourceId f) (fw_formsyncs w)
      = Some f"
    using assms(2,3) find_key_unique[of fm_id "fw_formsyncs w" f "fm_id f"]
    by (smt (verit) find_Some_iff2 find_cong_list pending_wf_def find_key_unique)
  then show ?thesis using assms(4)
    by (force simp: delayedOf_def env_repositories[OF assms(1)] map_filter_def image_iff)
qed

text \<open>
  C40: a delayed form sync is retried, and its retry settles it. When tokens are granted and the queue
  works, the metadata job of a Google Sheets data source returns, whatever the metadata service
  answers, and queues a retry for each delayed form sync of the data source. A retry that returns
  leaves no record of its form sync and touches no other; one that fails leaves all records as they
  were, so that the next metadata job queues it again.
\<close>

theorem delayed_form_sync_retried:
  assumes "fs_env_ok E" and "pending_wf w" and "f \<in> set (fw_formsyncs w)"
    and "fm_id f \<in> set (fw_delayed w)"
    and "\<forall>cs. \<exists>t. fe_accessToken E cs = Inr t" and "\<forall>cs. fe_queue E cs = Inr ()"
  shows "\<exists>w1. Google_updateMetadataJob E (fm_dataSourceId f) w = (Inr (), w1) \<and>
    fs_docs w1 = fs_docs w \<and>
    FsQueueAdd Q_GOOGLE_RESPECT_METADATA (DelayedFormsyncJob (fm_id f)) (fm_id f) None
      \<in> set (fw_calls w1) \<and>
    (\<exists>r w2. Google_respectMetadataJob E (fm_id f) w1 = (r, w2) \<and>
       (if r = Inr ()
        then fs_docs w2 = (filter (\<lambda>g. fm_id g \<noteq> fm_id f) (fw_formsyncs w),
               filter (\<lambda>d. d \<noteq> fm_id f) (fw_delayed w))
        else fs_docs w2 = fs_docs w))"
proof -
  obtain w0 where w0: "Google_updateMetadata E (fm_dataSourceId f) w = (Inr (), w0)"
    "fs_docs w0 = fs_docs w"
    using updateMetadata_returns[OF assms(5)] by blast
  have same: "fw_formsyncs w0 = fw_formsyncs w" "fw_delayed w0 = fw_delayed w"
    using w0(2) by (simp_all add: fs_docs_def)
  obtain fs where fs: "delayedOf E (fm_dataSourceId f) w0 = (Inr fs, w0)" "f \<in> set fs"
    using delayedOf_run[OF assms(1), of w0 f] assms(2-4) same pending_wf_docs[OF w0(2)] by auto
  let ?c = "\<lambda>f. FsQueueAdd Q_GOOGLE_RESPECT_METADATA (DelayedFormsyncJob (fm_id f)) (fm_id f) None"
  let ?w1 = "w0\<lparr>fw_calls := fw_calls w0 @ map ?c fs\<rparr>"
  have job: "Google_updateMetadataJob E (fm_dataSourceId f) w = (Inr (), ?w1)"
    using w0(1) fs(1) queue_all[OF assms(6), of fs ?c w0]
    by (simp add: Google_updateMetadataJob_def bind_io_run)
  have found: "List.find (\<lambda>g. fm_id g = fm_id f) (fw_formsyncs ?w1) = Some f"
    using assms(2,3) same by (simp add: find_key_unique pending_wf_def)
  obtain r w2 where r: "Google_runRespectMetadata E f ?w1 = (r, w2)" by fastforce
  then have "Google_respectMetadataJob E (fm_id f) ?w1 = (r, w2)"
    using found by (simp add: Google_respectMetadataJob_def env_repositories[OF assms(1)])
  then show ?thesis
    using job fs(2) w0(2) gs.respect_outcome[OF assms(1) r] same
    by (intro exI[of _ ?w1]) (auto simp: fs_docs_def)
qed

section \<open>What an update writes\<close>

lemma maintains_fs [maintains_intros]:
  "maintains Q (fs_throw e)" "maintains Q (fs_lift r)"
  by (simp_all add: maintains_def fs_throw_def fs_lift_def split: sum.split)

text \<open>A cell that an update may write: left alone, or a value that is truthy.\<close>

definition updateCell :: "cell \<Rightarrow> bool" where
  "updateCell c \<longleftrightarrow> c = Cell JNull \<or> truthy_cell c"

fun harmless :: "fs_call \<Rightarrow> bool" where
  "harmless (ValuesUpdate _ _ vs) = (\<forall>row \<in> set vs. \<forall>c \<in> set row. updateCell c)"
| "harmless (GraphRequest _ _ _ (Values vs)) = (\<forall>row \<in> set vs. \<forall>c \<in> set row. updateCell c)"
| "harmless (InsertDimension _ _ _) = False"
| "harmless (DeleteDimension _ _ _) = False"
| "harmless (GraphRequest _ _ _ (Shift _)) = False"
| "harmless _ = True"

definition harmlessSince :: "fs_call list \<Rightarrow> fs_world \<Rightarrow> bool" where
  "harmlessSince old w \<longleftrightarrow> (\<forall>c \<in> set (fw_calls w). c \<in> set old \<or> harmless c)"

lemma maintains_request [maintains_intros]:
  "harmless c \<Longrightarrow> maintains (harmlessSince old) (fs_request a c)"
  by (simp add: maintains_def harmlessSince_def fs_request_def fs_lift_def fs_throw_def split: sum.split)

lemma maintains_reads [maintains_intros]:
  "maintains (harmlessSince old) (Google_getSheetName E i s)"
  "maintains (harmlessSince old) (Google_getHashedHeaders E i n b)"
  "maintains (harmlessSince old) (getGoogleSheetsRowPos E v)"
  "maintains (harmlessSince old) (getDataSourceSchema E d)"
  "maintains (harmlessSince old) (getSpreadsheetsTimezone E i)"
  "maintains (harmlessSince old) (Google_checkRow E gd r nm h p)"
  "maintains (harmlessSince old) (Excel_getWorksheetHashedHeaders E xd ses b)"
  "maintains (harmlessSince old) (getExcelRowPos E v)"
  "maintains (harmlessSince old) (getDataSourceTimezone E d)"
  "maintains (harmlessSince old) (Excel_checkRow E xd r ses h p)"
  unfolding google_calls_defs excel_calls_defs getGoogleSheetsRowPos_def getExcelRowPos_def
    getDataSourceSchema_def findFsSource_def findExcelSource_def
  by (rule maintains_intros | simp only: harmless.simps simp_thms)+

lemma placeValues_cells:
  assumes "\<And>h c. f h = Some c \<Longrightarrow> P c" and "\<forall>c \<in> set vs. P c"
  shows "\<forall>c \<in> set (fst (placeValues f hs vs n)). P c"
  using assms(2)
proof (induction hs arbitrary: vs n)
  case (Cons x hs)
  obtain h pos where x: "x = (h, pos)" by fastforce
  show ?case
  proof (cases "f h")
    case None
    then show ?thesis using Cons x by simp
  next
    case (Some c)
    have "\<forall>c \<in> set (vs[pos := c]). P c"
      using Cons.prems assms(1)[OF Some] set_update_subset_insert by fastforce
    then show ?thesis using Cons.IH x Some by simp
  qed
qed simp

lemma updatable_cells:
  assumes "emptyRow m = Inr row"
  shows "\<forall>c \<in> set (fst (placeValues (updatable d) hs row n)). updateCell c"
  using assms
  by (intro placeValues_cells)
     (auto simp: updatable_def updateCell_def emptyRow_def split: option.splits if_splits)

lemma maintains_fs_write:
  assumes "\<And>row. emptyRow m = Inr row \<Longrightarrow>
    maintains Q (g row (fst (placeValues (updatable d) hs row 0)) (snd (placeValues (updatable d) hs row 0)))"
  shows "maintains Q (bind_io (fs_lift (emptyRow m)) (\<lambda>row.
    case placeValues (updatable d) hs row 0 of (vs, count) \<Rightarrow> g row vs count))"
  using assms by (cases "emptyRow m")
    (simp_all add: maintains_def bind_io_run fs_lift_def fs_throw_def case_prod_beta)

text \<open>
  What a form update can change. Whatever record it is given and however it ends, an update of
  a Google Sheets or an Excel row adds and deletes no row, and every cell it writes is left alone
  (\<open>null\<close>) or receives a truthy value: a form cannot set a field to 0, false or the empty text, nor
  clear it.
\<close>

theorem update_writes_truthy:
  "(\<forall>c \<in> set (fw_calls (snd (Google_handleUpdate E gd rowId data w))).
      c \<in> set (fw_calls w) \<or> harmless c) \<and>
   (\<forall>c \<in> set (fw_calls (snd (Excel_handleUpdate E xd rowId data sessionId w))).
      c \<in> set (fw_calls w) \<or> harmless c)"
proof -
  have "harmlessSince (fw_calls w) w" by (simp add: harmlessSince_def)
  moreover have "maintains (harmlessSince old) (Google_handleUpdate E gd rowId data)" for old
    unfolding Google_handleUpdate_def Let_def Fs_updateRangeValue_def
    by (rule maintains_fs_write maintains_intros | simp add: updatable_cells)+
  moreover have "maintains (harmlessSince old) (Excel_handleUpdate E xd rowId data sessionId)" for old
    unfolding Excel_handleUpdate_def Let_def Fs_updateWorksheetRange_def
    by (rule maintains_fs_write maintains_intros | simp add: updatable_cells)+
  ultimately show ?thesis unfolding maintains_def harmlessSince_def by blast
qed

section \<open>An environment for the examples\<close>

definition example_env :: fs_env where
  "example_env = \<lparr>fe_dataSources = listRepository fd_id, fe_excel = listRepository xd_id,
     fe_google = listRepository gd_id, fe_formsyncs = listRepository fm_id,
     fe_delayed = listRepository id, fe_common = listModel, fe_rows = listModel,
     fe_cacheGet = (\<lambda>_ _ _. None), fe_md5 = id, fe_parseDate = (\<lambda>_. None),
     fe_utcOffset = (\<lambda>_ _. 0), fe_uuid = (\<lambda>n. replicate n (CHR ''f'') @ ''u''),
     fe_metadataUrl = ''http://m'', fe_starionUrl = ''http://s'',
     fe_sheets = (\<lambda>_. Inr [(7, ''S'')]), fe_timeZone = (\<lambda>_. Inr ''UTC''),
     fe_values = (\<lambda>_. Inr (Some [[''a'']])), fe_write = (\<lambda>_. Inr ()),
     fe_accessToken = (\<lambda>_. Inr ''t''), fe_session = (\<lambda>_. Inr ''ses''),
     fe_rowValues = (\<lambda>_. Inr [[''a'']]), fe_cell = (\<lambda>_. Inr [[JNull]]),
     fe_cTag = (\<lambda>_. Inr ''tag''), fe_http = (\<lambda>_. Inl FsTypeError),
     fe_schemaFields = (\<lambda>_. Inr None), fe_queue = (\<lambda>_. Inr ())\<rparr>"

lemma example_env_ok: "fs_env_ok example_env"
proof -
  have "inj (\<lambda>n. replicate n (CHR ''f'') @ ''u'')"
    by (rule injI) (metis add_right_cancel length_append length_replicate)
  then show ?thesis by (simp add: fs_env_ok_def example_env_def cache_ok_def)
qed

lemma example_env_answers:
  "\<forall>cs. \<exists>t. fe_accessToken example_env cs = Inr t" "\<forall>cs. fe_queue example_env cs = Inr ()"
  "\<forall>cs. fe_http example_env cs = Inl FsTypeError" "\<forall>cs. fe_cTag example_env cs = Inr ''tag''"
  by (simp_all add: example_env_def)

definition example_job :: MetadataJob where
  "example_job = \<lparr>mj_jobId = ''j'', mj_cron = ''1 1/4 * * * *''\<rparr>"

definition example_google_source :: GoogleSheetsDataSource where
  "example_google_source = \<lparr>gd_id = ''d1'', gd_spreadsheetId = ''spr'', gd_sheetId = ''7'',
     gd_refreshToken = ''rt'', gd_metadataJob = example_job, gd_metadataSyncedAt = None\<rparr>"

definition example_excel_source :: ExcelDataSource where
  "example_excel_source = \<lparr>xd_id = ''d2'', xd_workbookId = ''wb'', xd_worksheetId = ''ws'',
     xd_refreshToken = ''rt'', xd_timezone = ''UTC'', xd_metadataJob = example_job,
     xd_metadataSyncedAt = None\<rparr>"

definition example_formsync :: FormSync where
  "example_formsync = \<lparr>fm_id = ''f1'', fm_dataSourceId = ''d1'', fm_type = FS_DELETE,
     fm_payload = \<lparr>pl_recordId = Some ''r1'', pl_data = None\<rparr>\<rparr>"

definition example_fs_world :: fs_world where
  "example_fs_world = \<lparr>fw_dataSources = [\<lparr>fd_id = ''d1'', fd_provider = GoogleSheets, fd_schema = None\<rparr>],
     fw_excel = [example_excel_source], fw_google = [example_google_source],
     fw_formsyncs = [example_formsync], fw_delayed = [''f1''],
     fw_excelCommon = [\<lparr>cm_dataSourceId = ''d2'', cm_rowCount = Some 3, cm_cTag = None\<rparr>],
     fw_excelRows = [],
     fw_googleCommon = [], fw_googleRows = [\<lparr>rm_id = ''r1'', rm_dataSourceId = ''d1'', rm_pos = Some 2\<rparr>],
     fw_cache = [], fw_ids = 0, fw_now = 0, fw_calls = []\<rparr>"

lemmas fs_example_defs = example_fs_world_def example_formsync_def example_google_source_def
  example_excel_source_def example_job_def

lemma example_pending: "pending_wf example_fs_world"
  by (simp add: pending_wf_def fs_example_defs)

theorem pending_integrity_witness:
  "pending_wf (snd (FormSyncService_run example_env \<lparr>fo_type = FS_INSERT, fo_dataSourceId = ''d1'',
     fo_payload = \<lparr>pl_recordId = None, pl_data = None\<rparr>, fo_localId = None\<rparr> example_fs_world))"
proof -
  have "fe_uuid example_env n \<noteq> ''f1''" for n
    by (cases n) (simp_all add: example_env_def)
  then show ?thesis
    using pending_integrity [OF example_env_ok example_pending] by (simp add: fs_example_defs)
qed

theorem delayed_form_sync_retried_witness:
  "\<exists>w1. Google_updateMetadataJob example_env ''d1'' example_fs_world = (Inr (), w1) \<and>
     FsQueueAdd Q_GOOGLE_RESPECT_METADATA (DelayedFormsyncJob ''f1'') ''f1'' None \<in> set (fw_calls w1)"
proof -
  have "example_formsync \<in> set (fw_formsyncs example_fs_world)"
    "fm_id example_formsync \<in> set (fw_delayed example_fs_world)"
    "fm_dataSourceId example_formsync = ''d1''" "fm_id example_formsync = ''f1''"
    by (simp_all add: fs_example_defs)
  then show ?thesis
    using delayed_form_sync_retried [OF example_env_ok example_pending _ _ example_env_answers(1,2),
        of example_formsync] by auto
qed

theorem update_writes_truthy_witness:
  "harmlessSince [] (snd (Google_handleUpdate example_env example_google_source (Some ''r1'') (Some [])
     example_fs_world))"
proof -
  have "fw_calls example_fs_world = []" by (simp add: fs_example_defs)
  then show ?thesis
    using update_writes_truthy [of example_env example_google_source "Some ''r1''" "Some []"
        example_fs_world] by (simp add: harmlessSince_def)
qed

section \<open>The id column and the metadata jobs\<close>

text \<open>
  Rows whose id column is the first cannot be deleted. When the record's row is known and the id
  column of the sheet is column 0, a delete form sync is dropped: it returns normally, no request is
  made after the header row was read, the row stays, and the form sync's records are removed.
\<close>

theorem id_column_first_lost:
  assumes "fs_env_ok E" and "fm_type f = FS_DELETE" and "pl_recordId (fm_payload f) = Some i"
    and "find (\<lambda>d. gd_id d = fm_dataSourceId f) (fw_google w) = Some ds"
    and "Google_getSheetName E (gd_spreadsheetId ds) (gd_sheetId ds) w = (Inr (Some name), w1)"
    and "Google_getHashedHeaders E (gd_spreadsheetId ds) (Some name) True w1 = (Inr hs, w2)"
    and "map_of hs HASHED_PRIMARY_ID = Some 0"
    and "find (\<lambda>m. rm_id m = i) (fw_googleRows w2) = Some m" and "rm_pos m = Some p" and "p \<noteq> 0"
  shows "\<exists>w3. Google_run E f w = (Inr (), w3) \<and> fw_calls w3 = fw_calls w2 \<and>
    fs_docs w3 = (filter (\<lambda>g. fm_id g \<noteq> fm_id f) (fw_formsyncs w), filter (\<lambda>d. d \<noteq> fm_id f) (fw_delayed w))"
proof -
  have models: "rp_findOne (fe_google E) = List.find" "m_findOne (fe_rows E) = List.find"
    using assms(1) by (simp_all add: fs_env_ok_def repository_ok_def model_ok_def)
  have docs: "fs_docs w2 = fs_docs w"
    using keepsD[OF keeps_google_steps(1) assms(5)] keepsD[OF keeps_google_steps(2) assms(6)] by simp
  have "Google_dispatch E ds f w = (Inl (Throws CanNotBeDoneError), w2)"
    using assms(2,3,5-10) by (simp add: Google_dispatch_def Google_handleDelete_def bind_io_run Let_def
        getGoogleSheetsRowPos_def models Google_checkRow_def missing_def idColumn_def fs_throw_def)
  then show ?thesis
    using assms(4) docs by (simp add: Google_run_def findGoogleSource_def models fs_catch_def
        catch_io_run bind_io_run deleteFormSync_def env_repositories[OF assms(1)] fs_docs_def)
qed

definition id_first_env :: fs_env where
  "id_first_env = example_env\<lparr>fe_values := (\<lambda>_. Inr (Some [[''x'']])),
     fe_md5 := (\<lambda>_. drop 2 HASHED_PRIMARY_ID)\<rparr>"

lemma show_seven: "show_int 7 = ''7''"
  by code_simp

theorem id_column_first_lost_witness:
  "\<exists>w3. Google_run id_first_env example_formsync example_fs_world = (Inr (), w3)
    \<and> fw_formsyncs w3 = []"
proof -
  have ok: "fs_env_ok id_first_env"
    using example_env_ok by (simp add: fs_env_ok_def id_first_env_def)
  have "hashFieldName (\<lambda>_. drop 2 HASHED_PRIMARY_ID) ''x'' = HASHED_PRIMARY_ID"
    by (simp add: hashFieldName_def HASHED_PRIMARY_ID_def numberReplacer_def)
  then have hs: "hashedHeaders_google (\<lambda>_. drop 2 HASHED_PRIMARY_ID) True [''x'']
      = Some [(HASHED_PRIMARY_ID, 0)]"
    by (simp add: hashedHeaders_google_def headerCounts_def)
  obtain w1 where w1: "Google_getSheetName id_first_env ''spr'' ''7'' example_fs_world = (Inr (Some ''S''), w1)"
    "fw_googleRows w1 = fw_googleRows example_fs_world"
    using show_seven by (simp add: Google_getSheetName_def Fs_getSheets_def fs_request_def fs_lift_def
        bind_io_run id_first_env_def example_env_def)
  obtain w2 where w2: "Google_getHashedHeaders id_first_env ''spr'' (Some ''S'') True w1
      = (Inr [(HASHED_PRIMARY_ID, 0)], w2)" "fw_googleRows w2 = fw_googleRows w1"
    using hs by (simp add: Google_getHashedHeaders_def Fs_getRangeValue_def fs_request_def fs_lift_def
        bind_io_run id_first_env_def example_env_def)
  show ?thesis
    using id_column_first_lost [OF ok, of example_formsync "''r1''" example_fs_world
        example_google_source "''S''" w1 "[(HASHED_PRIMARY_ID, 0)]" w2
        "\<lparr>rm_id = ''r1'', rm_dataSourceId = ''d1'', rm_pos = Some 2\<rparr>" 2] w1 w2
    by (auto simp: fs_example_defs fs_docs_def)
qed

text \<open>
  A failed metadata update of a workbook is not repeated. If the metadata service fails, the
  update still records the workbook's change tag as processed and returns normally; until the workbook
  changes again, the next update sees the same tag and does not call the service.
\<close>

theorem excel_metadata_failure_sticks:
  assumes "fs_env_ok E" and "find (\<lambda>d. xd_id d = i) (fw_excel w) = Some ds"
    and "find (\<lambda>m. cm_dataSourceId m = i) (fw_excelCommon w) = Some m" and "cm_cTag m \<noteq> Some tag"
    and "\<forall>cs. \<exists>t. fe_accessToken E cs = Inr t" and "\<forall>cs. fe_cTag E cs = Inr tag"
    and "\<forall>cs. fe_http E cs = Inl err"
  shows "\<exists>w1 post. Excel_updateMetadata E i w = (Inr (), w1) \<and>
    PostTo (fe_metadataUrl E @ ''/api/v1/excel/update'') post \<in> set (fw_calls w1) \<and>
    (\<exists>w2 c1 c2. Excel_updateMetadata E i w1 = (Inr (), w2) \<and> fw_calls w2 = fw_calls w1 @ [c1, c2] \<and>
       c1 = MicrosoftAccessToken (xd_refreshToken ds) \<and> (\<exists>url. c2 = GraphRequest ''GET'' url None NoBody))"
proof -
  have models: "rp_findOne (fe_excel E) = List.find" "rp_update (fe_excel E) = update_all"
    "m_findOne (fe_common E) = List.find" "m_updateOne (fe_common E) = update_first"
    using assms(1) by (simp_all add: fs_env_ok_def repository_ok_def model_ok_def)
  let ?url = "''/me/drive/items/'' @ xd_workbookId ds"
  obtain t where t: "fe_accessToken E (fw_calls w @ [MicrosoftAccessToken (xd_refreshToken ds)]) = Inr t"
    using assms(5) by blast
  let ?post = "[(''dataSourceId'', i), (''workbookId'', xd_workbookId ds),
    (''worksheetId'', xd_worksheetId ds), (''accessToken'', t)]"
  let ?w1 = "w\<lparr>fw_calls := fw_calls w @ [MicrosoftAccessToken (xd_refreshToken ds),
      GraphRequest ''GET'' ?url None NoBody, PostTo (fe_metadataUrl E @ ''/api/v1/excel/update'') ?post],
    fw_excel := update_all (\<lambda>d. xd_id d = i) (\<lambda>d. d\<lparr>xd_metadataSyncedAt := Some (fw_now w)\<rparr>) (fw_excel w),
    fw_excelCommon := update_first (\<lambda>m. cm_dataSourceId m = i) (\<lambda>m. m\<lparr>cm_cTag := Some tag\<rparr>)
      (fw_excelCommon w)\<rparr>"
  have first: "Excel_updateMetadata E i w = (Inr (), ?w1)"
    using assms(2-4,6,7) t by (simp add: Excel_updateMetadata_def bind_io_run findExcelSource_def models
        Fs_getAccessToken_def Fs_getWorkbookFileInfo_def sessionHeader_def fs_request_def fs_lift_def
        getExcelCTag_def getExcelCommonMetadata_def fs_catch_def catch_io_run fs_throw_def
        updateExcelCTag_def)
  have src: "\<exists>ds'. find (\<lambda>d. xd_id d = i) (fw_excel ?w1) = Some ds' \<and>
      xd_refreshToken ds' = xd_refreshToken ds \<and> xd_workbookId ds' = xd_workbookId ds"
    using assms(2) find_SomeD[OF assms(2)] by (simp add: update_all_def find_map_if)
  have tag: "find (\<lambda>m. cm_dataSourceId m = i) (fw_excelCommon ?w1) = Some (m\<lparr>cm_cTag := Some tag\<rparr>)"
    using assms(3) by (simp add: find_update_first_same)
  obtain t2 where t2: "fe_accessToken E (fw_calls ?w1 @ [MicrosoftAccessToken (xd_refreshToken ds)]) = Inr t2"
    using assms(5) by blast
  have "Excel_updateMetadata E i ?w1 = (Inr (), ?w1\<lparr>fw_calls := fw_calls ?w1 @
      [MicrosoftAccessToken (xd_refreshToken ds), GraphRequest ''GET'' ?url None NoBody]\<rparr>)"
    using src tag t2 assms(6) by (auto simp: Excel_updateMetadata_def bind_io_run findExcelSource_def models
        Fs_getAccessToken_def Fs_getWorkbookFileInfo_def sessionHeader_def fs_request_def fs_lift_def
        getExcelCTag_def getExcelCommonMetadata_def)
  then show ?thesis using first by (intro exI[of _ ?w1] exI[of _ ?post]) simp
qed

theorem excel_metadata_failure_sticks_witness:
  "\<exists>w1. Excel_updateMetadata example_env ''d2'' example_fs_world = (Inr (), w1) \<and> fw_calls w1 \<noteq> []"
  using excel_metadata_failure_sticks [OF example_env_ok, of "''d2''" example_fs_world
      example_excel_source "\<lparr>cm_dataSourceId = ''d2'', cm_rowCount = Some 3, cm_cTag = None\<rparr>" "''tag''"
      FsTypeError] example_env_answers
  by (auto simp: fs_example_defs)

lemma create_delete_source:
  assumes "fs_env_ok E" and "\<forall>cs. fe_queue E cs = Inr ()"
    and "i = cg_dataSourceId data"
    and "\<forall>d \<in> set (fw_dataSources w). fd_id d \<noteq> i" and "\<forall>d \<in> set (fw_google w). gd_id d \<noteq> i"
    and "\<forall>d \<in> set (fw_excel w). xd_id d \<noteq> i"
  shows "\<exists>w1 w2. createGoogleSheetsDataSource E r data w = (Inr (), w1) \<and>
      deleteDataSource E i w1 = (Inr (), w2) \<and>
      fw_dataSources w2 = fw_dataSources w \<and> fw_google w2 = fw_google w \<and> fw_excel w2 = fw_excel w \<and>
      fw_calls w2 = fw_calls w @
        [FsQueueAdd Q_GOOGLE_UPDATE_METADATA (UpdateMetadataJob i) (mj_jobId (newMetadataJob r))
           (Some (mj_cron (newMetadataJob r))),
         FsQueueRemove Q_GOOGLE_UPDATE_METADATA (mj_jobId (newMetadataJob r)) (mj_cron (newMetadataJob r))] \<and>
      (\<exists>w3 w4. createGoogleSheetsDataSource E r2 data w1 = (Inr (), w3) \<and>
         deleteDataSource E i w3 = (Inr (), w4) \<and>
         fw_calls w4 = fw_calls w @
           [FsQueueAdd Q_GOOGLE_UPDATE_METADATA (UpdateMetadataJob i) (mj_jobId (newMetadataJob r))
              (Some (mj_cron (newMetadataJob r))),
            FsQueueAdd Q_GOOGLE_UPDATE_METADATA (UpdateMetadataJob i) (mj_jobId (newMetadataJob r2))
              (Some (mj_cron (newMetadataJob r2))),
            FsQueueRemove Q_GOOGLE_UPDATE_METADATA (mj_jobId (newMetadataJob r2))
              (mj_cron (newMetadataJob r2))])"
proof -
  have ds: "rp_findOne (fe_dataSources E) = List.find" "rp_delete (fe_dataSources E) = (\<lambda>p. filter (\<lambda>d. \<not> p d))"
    "rp_findOne (fe_google E) = List.find" "rp_delete (fe_google E) = (\<lambda>p. filter (\<lambda>d. \<not> p d))"
    "rp_delete (fe_excel E) = (\<lambda>p. filter (\<lambda>d. \<not> p d))"
    and save: "\<And>d ds. rp_save (fe_dataSources E) d ds = (if fd_id d \<in> fd_id ` set ds
      then map (\<lambda>e. if fd_id e = fd_id d then d else e) ds else ds @ [d])"
    "\<And>d ds. rp_save (fe_google E) d ds = (if gd_id d \<in> gd_id ` set ds
      then map (\<lambda>e. if gd_id e = gd_id d then d else e) ds else ds @ [d])"
    using assms(1) by (simp_all add: fs_env_ok_def repository_ok_def)
  have new: "fd_id d \<noteq> i" if "d \<in> set (fw_dataSources w)" for d using that assms(4) by blast
  have find: "find (\<lambda>d. fd_id d = i) (fw_dataSources w) = None" "find (\<lambda>d. gd_id d = i) (fw_google w) = None"
    "i \<notin> fd_id ` set (fw_dataSources w)" "i \<notin> gd_id ` set (fw_google w)"
    using assms(4,5) by (auto simp: find_None_iff)
  have keep: "filter (\<lambda>d. fd_id d \<noteq> i) (fw_dataSources w) = fw_dataSources w"
    "filter (\<lambda>d. gd_id d \<noteq> i) (fw_google w) = fw_google w"
    "filter (\<lambda>d. xd_id d \<noteq> i) (fw_excel w) = fw_excel w"
    "map (\<lambda>e. if fd_id e = i then x else e) (fw_dataSources w) = fw_dataSources w"
    "map (\<lambda>e. if gd_id e = i then y else e) (fw_google w) = fw_google w" for x y
    using assms(4-6) by (simp_all add: filter_id_conv map_idI)
  note steps = createGoogleSheetsDataSource_def deleteDataSource_def saveCommon_def Let_def
    fs_request_def fs_lift_def bind_io_run findFsSource_def CleanerFactory_get_def
    GoogleSheetsCleanerService_run_def findGoogleSource_def deleteFsSource_def
  show ?thesis
    using assms(2) find keep by (simp add: steps ds save find_append flip: assms(3))
qed

text \<open>
  The metadata job of a data source. Creating a Google Sheets data source that is not yet known
  and deleting it restores the tables and removes exactly the job that was added. But the creation is
  not idempotent: when the notification is delivered twice, the second replaces the stored job, the
  deletion removes only that one, and the first job stays in the queue.
\<close>

theorem metadata_job_roundtrip:
  assumes "fs_env_ok E" and "\<forall>cs. fe_queue E cs = Inr ()"
    and "i = cg_dataSourceId data"
    and "\<forall>d \<in> set (fw_dataSources w). fd_id d \<noteq> i" and "\<forall>d \<in> set (fw_google w). gd_id d \<noteq> i"
    and "\<forall>d \<in> set (fw_excel w). xd_id d \<noteq> i"
  shows "\<exists>w1 w2. createGoogleSheetsDataSource E r data w = (Inr (), w1) \<and>
      deleteDataSource E i w1 = (Inr (), w2) \<and>
      fw_dataSources w2 = fw_dataSources w \<and> fw_google w2 = fw_google w \<and> fw_excel w2 = fw_excel w \<and>
      fw_calls w2 = fw_calls w @
        [FsQueueAdd Q_GOOGLE_UPDATE_METADATA (UpdateMetadataJob i) (mj_jobId (newMetadataJob r))
           (Some (mj_cron (newMetadataJob r))),
         FsQueueRemove Q_GOOGLE_UPDATE_METADATA (mj_jobId (newMetadataJob r)) (mj_cron (newMetadataJob r))] \<and>
      (\<exists>w3 w4. createGoogleSheetsDataSource E r2 data w1 = (Inr (), w3) \<and>
         deleteDataSource E i w3 = (Inr (), w4) \<and>
         fw_calls w4 = fw_calls w @
           [FsQueueAdd Q_GOOGLE_UPDATE_METADATA (UpdateMetadataJob i) (mj_jobId (newMetadataJob r))
              (Some (mj_cron (newMetadataJob r))),
            FsQueueAdd Q_GOOGLE_UPDATE_METADATA (UpdateMetadataJob i) (mj_jobId (newMetadataJob r2))
              (Some (mj_cron (newMetadataJob r2))),
            FsQueueRemove Q_GOOGLE_UPDATE_METADATA (mj_jobId (newMetadataJob r2))
              (mj_cron (newMetadataJob r2))])"
  by (rule create_delete_source[OF assms])

definition example_creation :: CreateGoogleSheetsDataSourceDto where
  "example_creation = \<lparr>cg_dataSourceId = ''d9'', cg_refreshToken = ''rt'', cg_spreadsheetId = ''spr'',
     cg_sheetId = ''7''\<rparr>"

definition example_draws :: draws where
  "example_draws = \<lparr>rn_seconds = 0, rn_minutes = 0, rn_uuid = ''a''\<rparr>"

theorem metadata_job_roundtrip_witness:
  "\<exists>w1 w2. createGoogleSheetsDataSource example_env example_draws example_creation example_fs_world
       = (Inr (), w1) \<and> deleteDataSource example_env ''d9'' w1 = (Inr (), w2) \<and>
     fw_google w2 = [example_google_source]"
proof -
  have "''d9'' = cg_dataSourceId example_creation" by (simp add: example_creation_def)
  moreover have "\<forall>d \<in> set (fw_dataSources example_fs_world). fd_id d \<noteq> ''d9''"
    "\<forall>d \<in> set (fw_google example_fs_world). gd_id d \<noteq> ''d9''"
    "\<forall>d \<in> set (fw_excel example_fs_world). xd_id d \<noteq> ''d9''"
    by (simp_all add: fs_example_defs)
  moreover have "fw_google example_fs_world = [example_google_source]"
    by (simp add: fs_example_defs)
  ultimately show ?thesis
    using metadata_job_roundtrip [OF example_env_ok example_env_answers(2),
        of "''d9''" example_creation example_fs_world example_draws example_draws] by auto
qed

end
