(* ===== verification/FormSyncApi.thy ===== *)
theory FormSyncApi
  imports FormSyncProperties RequestBodies
begin

text \<open>
  The HTTP interface of the form-sync application (\<open>form-sync/main/src\<close>): the controllers of
  \<open>modules/formsync\<close>, \<open>modules/datasource\<close> and \<open>modules/webhook\<close>, their data transfer objects, the
  guard, the pipe, the error class and the exception filter. Only the form-sync controller has the
  guard; the webhooks check a signature of the body; the data source routes check nothing.
\<close>

section \<open>Errors and replies\<close>

definition fs_apiErrorStatus :: "json \<Rightarrow> int" where
  "fs_apiErrorStatus code = (case code of
     JNum n \<Rightarrow> n
   | _ \<Rightarrow> if code = JStr ''E0'' then 400
         else if code = JStr ''E1'' then 404
         else if code = JStr ''E3'' then 400
         else if code = JStr ''E4'' then 409
         else 500)"

record fs_error_body =
  fb_code :: json
  fb_message :: json
  fb_statusCode :: int

text \<open>A handler that does not return sends no reply.\<close>

datatype fs_reply = FsSuccess | FsErrorReply fs_error_body | FsFrameworkReply fs_error
  | FsForbidden | FsNoReply

definition fs_errorReply :: "json \<Rightarrow> json \<Rightarrow> fs_reply" where
  "fs_errorReply code message = FsErrorReply \<lparr>fb_code = code, fb_message = getResponse message None,
     fb_statusCode = fs_apiErrorStatus code\<rparr>"

fun Fs_AllExceptionFilter_catch :: "fs_exn \<Rightarrow> fs_reply" where
  "Fs_AllExceptionFilter_catch (Throws (FsApiError code message)) = fs_errorReply code (JStr message)"
| "Fs_AllExceptionFilter_catch (Throws e) = FsFrameworkReply e"
| "Fs_AllExceptionFilter_catch Hangs = FsNoReply"

section \<open>Data transfer objects\<close>

definition requiredString :: "string \<Rightarrow> dto_prop" where
  "requiredString n = Property n TString [IsNotEmpty, IsString]"

definition formSyncTypes :: "string list" where
  "formSyncTypes = [''insert'', ''update'', ''delete'']"

definition dto_FormSyncConfig :: dto where
  "dto_FormSyncConfig = Dto ''FormSyncConfigDto''
    [requiredString ''dataSourceId'', optionalString ''refreshToken'', optionalString ''workbookId'',
     optionalString ''worksheetId'', optionalString ''spreadsheetId'', optionalString ''sheetId'']"

definition dto_FormSyncMetadata :: dto where
  "dto_FormSyncMetadata = Dto ''FormSyncMetadataDto'' [optionalString ''localId'']"

definition dto_FormSyncPayload :: dto where
  "dto_FormSyncPayload = Dto ''FormSyncPayloadDto''
    [optionalString ''recordId'', Property ''data'' (TRecord TAny) [IsOptional, IsObject]]"

definition dto_FormSync :: dto where
  "dto_FormSync = Dto ''FormSyncDto''
    [Property ''type'' (TEnum formSyncTypes) [IsNotEmpty, IsString, IsEnum formSyncTypes],
     Property ''config'' (TClass dto_FormSyncConfig) [IsNotEmpty, ValidateNested dto_FormSyncConfig],
     Property ''payload'' (TClass dto_FormSyncPayload)
       [IsNotEmpty, IsObject, ValidateNested dto_FormSyncPayload],
     Property ''metadata'' (TClass dto_FormSyncMetadata)
       [IsOptional, IsObject, ValidateNested dto_FormSyncMetadata]]"

definition dto_CreateExcelDataSource :: dto where
  "dto_CreateExcelDataSource = Dto ''CreateExcelDataSourceDto''
    [requiredString ''dataSourceId'', requiredString ''refreshToken'', requiredString ''workbookId'',
     requiredString ''worksheetId'', requiredString ''timezone'']"

definition dto_CreateGoogleSheetsDataSource :: dto where
  "dto_CreateGoogleSheetsDataSource = Dto ''CreateGoogleSheetsDataSourceDto''
    [requiredString ''dataSourceId'', requiredString ''refreshToken'', requiredString ''spreadsheetId'',
     requiredString ''sheetId'']"

definition dto_DataSourceCreated :: dto where
  "dto_DataSourceCreated = Dto ''DataSourceCreatedDto''
    [Property ''dataProvider'' (TEnum [''microsoft-excel'', ''google-sheets'']) [IsNotEmpty],
     Property ''dataSourceId'' TString [IsNotEmpty],
     Property ''dataSourceConfig'' TAny [IsNotEmpty]]"

definition dto_DataSourceDeleted :: dto where
  "dto_DataSourceDeleted = Dto ''DataSourceDeletedDto''
    [Property ''dataSourceId'' TString [IsNotEmpty], Property ''syncConnectionId'' TString [IsOptional]]"

definition dto_SyncflowSucceed :: dto where
  "dto_SyncflowSucceed = Dto ''SyncflowSucceedDto''
    [Property ''dataSourceId'' TString [IsNotEmpty], Property ''syncflowId'' TString [IsNotEmpty],
     Property ''syncVersion'' TNumber [IsNotEmpty],
     Property ''statistics''
       (TClass (Dto ''statistics'' [Property ''addedRowsCount'' TNumber [],
          Property ''deletedRowsCount'' TNumber [], Property ''isSchemaChanged'' TBoolean []]))
       [IsNotEmpty]]"

lemmas fs_dto_defs = dto_FormSyncConfig_def dto_FormSyncMetadata_def dto_FormSyncPayload_def
  dto_FormSync_def dto_CreateExcelDataSource_def dto_CreateGoogleSheetsDataSource_def
  dto_DataSourceCreated_def dto_DataSourceDeleted_def dto_SyncflowSucceed_def
  requiredString_def optionalString_def formSyncTypes_def

section \<open>Reading a body\<close>

definition formSyncTypeNames :: "(string \<times> FormSyncType) list" where
  "formSyncTypeNames = [(''insert'', FS_INSERT), (''update'', FS_UPDATE), (''delete'', FS_DELETE)]"

definition readPayload :: "json \<Rightarrow> FormSyncPayload option" where
  "readPayload v = do {
     fs \<leftarrow> asObj v;
     recordId \<leftarrow> reads asStr (map_of fs ''recordId'');
     data \<leftarrow> reads asObj (map_of fs ''data'');
     Some \<lparr>pl_recordId = recordId, pl_data = data\<rparr> }"

definition readLocalId :: "json \<Rightarrow> string option option" where
  "readLocalId v = do { fs \<leftarrow> asObj v; reads asStr (map_of fs ''localId'') }"

definition readConfigId :: "json \<Rightarrow> string option" where
  "readConfigId v = do { fs \<leftarrow> asObj v; required asStr (map_of fs ''dataSourceId'') }"

definition readFormSync :: "(string \<times> json) list \<Rightarrow> FormSyncDto option" where
  "readFormSync fs = do {
     type \<leftarrow> required (readEnum formSyncTypeNames) (map_of fs ''type'');
     dataSourceId \<leftarrow> required readConfigId (map_of fs ''config'');
     payload \<leftarrow> required readPayload (map_of fs ''payload'');
     localId \<leftarrow> reads readLocalId (map_of fs ''metadata'');
     Some \<lparr>fo_type = type, fo_dataSourceId = dataSourceId, fo_payload = payload,
       fo_localId = Option.bind localId id\<rparr> }"

definition readExcelSource :: "(string \<times> json) list \<Rightarrow> CreateExcelDataSourceDto option" where
  "readExcelSource fs = do {
     dataSourceId \<leftarrow> required asStr (map_of fs ''dataSourceId'');
     refreshToken \<leftarrow> required asStr (map_of fs ''refreshToken'');
     workbookId \<leftarrow> required asStr (map_of fs ''workbookId'');
     worksheetId \<leftarrow> required asStr (map_of fs ''worksheetId'');
     timezone \<leftarrow> required asStr (map_of fs ''timezone'');
     Some \<lparr>ce_dataSourceId = dataSourceId, ce_refreshToken = refreshToken, ce_workbookId = workbookId,
       ce_worksheetId = worksheetId, ce_timezone = timezone\<rparr> }"

definition readGoogleSource :: "(string \<times> json) list \<Rightarrow> CreateGoogleSheetsDataSourceDto option" where
  "readGoogleSource fs = do {
     dataSourceId \<leftarrow> required asStr (map_of fs ''dataSourceId'');
     refreshToken \<leftarrow> required asStr (map_of fs ''refreshToken'');
     spreadsheetId \<leftarrow> required asStr (map_of fs ''spreadsheetId'');
     sheetId \<leftarrow> required asStr (map_of fs ''sheetId'');
     Some \<lparr>cg_dataSourceId = dataSourceId, cg_refreshToken = refreshToken,
       cg_spreadsheetId = spreadsheetId, cg_sheetId = sheetId\<rparr> }"

text \<open>The configuration that \<open>handleDataSourceCreated\<close> reads, with the token of its \<open>auth\<close>.\<close>

definition flatConfig :: "string \<Rightarrow> json \<Rightarrow> (string \<times> json) list option" where
  "flatConfig dataSourceId v = do {
     fs \<leftarrow> asObj v;
     auth \<leftarrow> required asObj (map_of fs ''auth'');
     refreshToken \<leftarrow> required asStr (map_of auth ''refreshToken'');
     Some ((''dataSourceId'', JStr dataSourceId) # (''refreshToken'', JStr refreshToken) # fs) }"

definition readCreated :: "(string \<times> json) list \<Rightarrow> DataSourceCreatedDto option" where
  "readCreated fs = do {
     dataProvider \<leftarrow> required asStr (map_of fs ''dataProvider'');
     dataSourceId \<leftarrow> required asStr (map_of fs ''dataSourceId'');
     config \<leftarrow> map_of fs ''dataSourceConfig'';
     if dataProvider = ''microsoft-excel'' then
       do { c \<leftarrow> flatConfig dataSourceId config; d \<leftarrow> readExcelSource c; Some (ExcelCreated d) }
     else if dataProvider = ''google-sheets'' then
       do { c \<leftarrow> flatConfig dataSourceId config; d \<leftarrow> readGoogleSource c; Some (GoogleSheetsCreated d) }
     else Some UnsupportedCreated }"

definition readSucceed :: "(string \<times> json) list \<Rightarrow> SyncflowSucceedDto option" where
  "readSucceed fs = do {
     dataSourceId \<leftarrow> required asStr (map_of fs ''dataSourceId'');
     syncVersion \<leftarrow> required asNum (map_of fs ''syncVersion'');
     statistics \<leftarrow> required asObj (map_of fs ''statistics'');
     isSchemaChanged \<leftarrow> reads asBool (map_of statistics ''isSchemaChanged'');
     Some \<lparr>sy_dataSourceId = dataSourceId, sy_syncVersion = syncVersion,
       sy_isSchemaChanged = (isSchemaChanged = Some True)\<rparr> }"

section \<open>Routes\<close>

datatype fs_route = FormSyncRoute | FormSyncTestRoute | ExcelRoute | ExcelMetadataRoute string
  | GoogleRoute | GoogleMetadataRoute string | CreatedRoute | SucceedRoute | DeletedRoute

primrec fs_dto :: "fs_route \<Rightarrow> dto option" where
  "fs_dto FormSyncRoute = Some dto_FormSync"
| "fs_dto FormSyncTestRoute = None"
| "fs_dto ExcelRoute = Some dto_CreateExcelDataSource"
| "fs_dto (ExcelMetadataRoute i) = None"
| "fs_dto GoogleRoute = Some dto_CreateGoogleSheetsDataSource"
| "fs_dto (GoogleMetadataRoute i) = None"
| "fs_dto CreatedRoute = Some dto_DataSourceCreated"
| "fs_dto SucceedRoute = Some dto_SyncflowSucceed"
| "fs_dto DeletedRoute = Some dto_DataSourceDeleted"

definition guarded :: "fs_route \<Rightarrow> bool" where
  "guarded r \<longleftrightarrow> r = FormSyncRoute \<or> r = FormSyncTestRoute"

definition signed :: "fs_route \<Rightarrow> bool" where
  "signed r \<longleftrightarrow> r = CreatedRoute \<or> r = SucceedRoute \<or> r = DeletedRoute"

text \<open>What the application runs with; \<open>fa_verify\<close> checks a signature over the text of a body.\<close>

record fs_app =
  fa_env :: fs_env
  fa_draws :: draws
  fa_apiKeys :: "string list"
  fa_validate :: "dto \<Rightarrow> json \<Rightarrow> ValidationError list"
  fa_verify :: "json \<Rightarrow> string \<Rightarrow> bool"

definition FormSyncService_test :: "unit fs_act" where
  "FormSyncService_test = cacheSet ''test'' ''test'' 10000"

text \<open>\<open>verifier.verify(publicKey, undefined, 'base64')\<close> throws.\<close>

definition withSignature :: "string option \<Rightarrow> (string \<Rightarrow> unit fs_act) \<Rightarrow> unit fs_act" where
  "withSignature signature handler = (case signature of
     None \<Rightarrow> fs_throw FsTypeError
   | Some s \<Rightarrow> handler s)"

primrec fs_endpoint ::
  "fs_app \<Rightarrow> fs_route \<Rightarrow> string option \<Rightarrow> (string \<times> json) list \<Rightarrow> unit fs_act option" where
  "fs_endpoint A FormSyncRoute sig fs = map_option (FormSyncService_run (fa_env A)) (readFormSync fs)"
| "fs_endpoint A FormSyncTestRoute sig fs = Some FormSyncService_test"
| "fs_endpoint A ExcelRoute sig fs =
    map_option (createExcelDataSource (fa_env A) (fa_draws A)) (readExcelSource fs)"
| "fs_endpoint A (ExcelMetadataRoute i) sig fs = Some (Excel_updateMetadata (fa_env A) i)"
| "fs_endpoint A GoogleRoute sig fs =
    map_option (createGoogleSheetsDataSource (fa_env A) (fa_draws A)) (readGoogleSource fs)"
| "fs_endpoint A (GoogleMetadataRoute i) sig fs = Some (Google_updateMetadata (fa_env A) i)"
| "fs_endpoint A CreatedRoute sig fs = map_option
    (\<lambda>d. withSignature sig
       (dataSourceCreated (fa_env A) (fa_draws A) (\<lambda>_. fa_verify A (JObj fs)) d))
    (readCreated fs)"
| "fs_endpoint A SucceedRoute sig fs = map_option
    (\<lambda>d. withSignature sig (syncflowSucceed (fa_env A) (\<lambda>_. fa_verify A (JObj fs)) d))
    (readSucceed fs)"
| "fs_endpoint A DeletedRoute sig fs = map_option
    (\<lambda>i. withSignature sig (dataSourceDeleted (fa_env A) (\<lambda>_. fa_verify A (JObj fs)) i))
    (required asStr (map_of fs ''dataSourceId''))"

text \<open>Guard, pipe, handler, filter. \<open>None\<close>: the handler runs on a body without the declared types.\<close>

definition fs_reply_of :: "unit fs_act \<Rightarrow> fs_world \<Rightarrow> fs_reply \<times> fs_world" where
  "fs_reply_of m w = (case m w of
     (Inr _, w') \<Rightarrow> (FsSuccess, w')
   | (Inl e, w') \<Rightarrow> (Fs_AllExceptionFilter_catch e, w'))"

text \<open>The pipe; its error has the code of invalid data and the messages.\<close>

definition Fs_toValidate :: "metatype \<Rightarrow> bool" where
  "Fs_toValidate m \<longleftrightarrow> m \<notin> {StringClass, BooleanClass, NumberClass, ArrayClass, ObjectClass}"

definition Fs_ValidationPipe_transform ::
  "(metatype \<Rightarrow> 'v \<Rightarrow> 'v) \<Rightarrow> ('v \<Rightarrow> ValidationError list) \<Rightarrow> 'v \<Rightarrow> metatype option \<Rightarrow>
   (json \<times> string list) + 'v" where
  "Fs_ValidationPipe_transform plainToClass validate v m = (case m of
     None \<Rightarrow> Inr v
   | Some mt \<Rightarrow> if \<not> Fs_toValidate mt then Inr v
       else (let object = plainToClass mt v; errors = validate object
             in if errors \<noteq> [] then Inl (JStr ''E0'', getErrorMessages errors) else Inr object))"

definition fs_handle ::
  "fs_app \<Rightarrow> fs_route \<Rightarrow> string option \<Rightarrow> string option \<Rightarrow> (string \<times> json) list \<Rightarrow> fs_world \<Rightarrow>
   (fs_reply \<times> fs_world) option" where
  "fs_handle A r apiKey sig fs w =
    (if guarded r \<and> \<not> ApiKeyGuard_canActivate (fa_apiKeys A) apiKey then Some (FsForbidden, w)
     else case (case fs_dto r of None \<Rightarrow> Inr (JObj fs)
         | Some C \<Rightarrow> Fs_ValidationPipe_transform (\<lambda>_ v. v) (fa_validate A C) (JObj fs)
             (Some (DtoClass (dto_name C)))) of
       Inl (code, messages) \<Rightarrow> Some (fs_errorReply code (JArr (map JStr messages)), w)
     | Inr _ \<Rightarrow> map_option (\<lambda>m. fs_reply_of m w) (fs_endpoint A r sig fs))"

section \<open>Who can change what\<close>

text \<open>A route with a signature: without one that fits the body nothing is done, and the sender is
  told of an internal error.\<close>

lemma endpoint_refused:
  assumes "signed r" and "\<And>s. sig = Some s \<Longrightarrow> \<not> fa_verify A (JObj fs) s"
    and "fs_endpoint A r sig fs = Some m"
  shows "fs_reply_of m w = ((case sig of None \<Rightarrow> FsFrameworkReply FsTypeError
      | Some s \<Rightarrow> fs_errorReply FORBIDDEN (JStr ''signature verification failed'')), w)"
  using assms
  by (cases sig) (auto simp: signed_def withSignature_def dataSourceCreated_def syncflowSucceed_def
      dataSourceDeleted_def verifySignature_def fs_reply_of_def bind_io_run fs_throw_def)

lemma fs_handle_accepted:
  assumes "class_validator (fa_validate A)" and "fs_dto r = Some C" and "accepts C (JObj fs)"
    and "guarded r \<Longrightarrow> ApiKeyGuard_canActivate (fa_apiKeys A) apiKey"
  shows "fs_handle A r apiKey sig fs w = map_option (\<lambda>m. fs_reply_of m w) (fs_endpoint A r sig fs)"
proof -
  have "\<not> (guarded r \<and> \<not> ApiKeyGuard_canActivate (fa_apiKeys A) apiKey)" using assms(4) by blast
  then show ?thesis
    using assms(2,3) class_validator.validate_iff[OF assms(1)]
    by (auto simp: fs_handle_def Fs_ValidationPipe_transform_def Let_def)
qed

text \<open>
  C18: who can change the store of the form-sync application. A request that changes anything, in the
  store or by a call of a service, has a valid API key (form syncs), or a signature that fits its
  body (webhooks), or is one of the four data source requests. Those look at neither: without key
  and signature they are handled in the same way. A webhook that is refused for its signature is
  answered with status 500.
\<close>

theorem form_sync_protected:
  assumes "fs_handle A r apiKey sig fs w = Some (reply, w')"
  shows "(w' \<noteq> w \<longrightarrow>
      guarded r \<and> truthy_str apiKey \<and> the apiKey \<in> set (fa_apiKeys A) \<or>
      signed r \<and> (\<exists>s. sig = Some s \<and> fa_verify A (JObj fs) s) \<or>
      \<not> guarded r \<and> \<not> signed r) \<and>
    (\<not> guarded r \<and> \<not> signed r \<longrightarrow> fs_handle A r None None fs w = Some (reply, w')) \<and>
    (signed r \<and> accepts (the (fs_dto r)) (JObj fs) \<and> class_validator (fa_validate A) \<and>
      sig = Some s \<and> \<not> fa_verify A (JObj fs) s \<longrightarrow>
      (\<exists>b. reply = FsErrorReply b \<and> fb_code b = FORBIDDEN \<and> fb_statusCode b = 500))"
proof (intro conjI impI)
  assume change: "w' \<noteq> w"
  show "guarded r \<and> truthy_str apiKey \<and> the apiKey \<in> set (fa_apiKeys A) \<or>
      signed r \<and> (\<exists>s. sig = Some s \<and> fa_verify A (JObj fs) s) \<or> \<not> guarded r \<and> \<not> signed r"
  proof (rule ccontr)
    assume no: "\<not> ?thesis"
    have "signed r" "\<not> guarded r"
      using assms change no by (auto simp: fs_handle_def ApiKeyGuard_canActivate_def split: if_splits)
    then show False
      using assms change no endpoint_refused[of r sig A fs]
      by (auto simp: fs_handle_def split: sum.splits prod.splits option.splits)
  qed
next
  assume "\<not> guarded r \<and> \<not> signed r"
  then have "fs_endpoint A r None fs = fs_endpoint A r sig fs" "\<not> guarded r"
    by (cases r; simp add: guarded_def signed_def)+
  then show "fs_handle A r None None fs w = Some (reply, w')" using assms by (simp add: fs_handle_def cong: sum.case_cong)
next
  assume "signed r \<and> accepts (the (fs_dto r)) (JObj fs) \<and> class_validator (fa_validate A) \<and>
      sig = Some s \<and> \<not> fa_verify A (JObj fs) s"
  then have refused: "signed r" "accepts (the (fs_dto r)) (JObj fs)"
    "class_validator (fa_validate A)" "sig = Some s" "\<not> fa_verify A (JObj fs) s"
    by simp_all
  then have "\<not> guarded r" "fs_dto r = Some (the (fs_dto r))"
    by (auto simp: signed_def guarded_def)
  then have "map_option (\<lambda>m. fs_reply_of m w) (fs_endpoint A r sig fs) = Some (reply, w')"
    using assms fs_handle_accepted[OF refused(3) _ refused(2), of r apiKey sig w] by metis
  then obtain m where "fs_endpoint A r sig fs = Some m" "fs_reply_of m w = (reply, w')" by auto
  then have "reply = fs_errorReply FORBIDDEN (JStr ''signature verification failed'')"
    using endpoint_refused[OF refused(1), of sig A fs m w] refused(4,5) by simp
  then show "\<exists>b. reply = FsErrorReply b \<and> fb_code b = FORBIDDEN \<and> fb_statusCode b = 500"
    by (simp add: fs_errorReply_def fs_apiErrorStatus_def FORBIDDEN_def)
qed

text \<open>Without key and signature: a form sync is refused, a webhook is answered with status 500.\<close>

definition deletion_body :: "(string \<times> json) list" where
  "deletion_body = [(''dataSourceId'', JStr ''d1'')]"

theorem form_sync_protected_witness:
  "\<exists>b. fs_handle \<lparr>fa_env = example_env, fa_draws = example_draws, fa_apiKeys = [''k''], fa_validate = validateDto,
       fa_verify = (\<lambda>_ s. s = ''good'')\<rparr> DeletedRoute None (Some ''bad'') deletion_body example_fs_world
     = Some (FsErrorReply b, example_fs_world) \<and> fb_statusCode b = 500"
proof -
  let ?A = "\<lparr>fa_env = example_env, fa_draws = example_draws, fa_apiKeys = [''k''], fa_validate = validateDto,
       fa_verify = (\<lambda>_ s. s = ''good'')\<rparr>"
  have ok: "accepts (the (fs_dto DeletedRoute)) (JObj deletion_body)"
    by (simp add: deletion_body_def fs_dto_defs absent_def)
  then have "\<exists>reply w'. fs_handle ?A DeletedRoute None (Some ''bad'') deletion_body example_fs_world = Some (reply, w')"
    using fs_handle_accepted[of ?A DeletedRoute dto_DataSourceDeleted deletion_body None] dto.class_validator_axioms
    by (simp add: guarded_def deletion_body_def required_def)
  then obtain reply w' where "fs_handle ?A DeletedRoute None (Some ''bad'') deletion_body example_fs_world = Some (reply, w')"
    by blast
  from this form_sync_protected [OF this] ok dto.class_validator_axioms show ?thesis
    by (auto simp: signed_def guarded_def)
qed

end
