(* ===== verification/RateLimiter.thy ===== *)
theory RateLimiter
  imports CoreEntities
begin

text \<open>
  The rate limiter (\<open>harmonies/rate-limiter/src\<close>): a Fastify server in front of the limiters of
  \<open>rate-limiter-flexible\<close>, which keep their counts in Redis. A limiter is a parameter: a function
  that consumes points of a key. Of Fastify the model has what the code relies on: the first reply
  that is sent stands, and a handler does not run once a hook has replied.
\<close>

section \<open>Limiters\<close>

text \<open>\<open>consume\<close> rejects with an \<open>Error\<close>, or with the result that says how long to wait.\<close>

datatype rejection = RejectError string | RejectResult

type_synonym 's limiter = "string \<Rightarrow> json \<Rightarrow> ('s, rejection, unit) io"

record 's limiters =
  lm_global :: "'s limiter"      \<comment> \<open>\<open>GoogleSheetLimiter\<close>\<close>
  lm_perUser :: "'s limiter"     \<comment> \<open>\<open>GoogleSheetPerUserLimiter\<close>\<close>

record limiter_options =
  lo_points :: int
  lo_duration :: int
  lo_keyPrefix :: string

definition GoogleSheetLimiter :: limiter_options where
  "GoogleSheetLimiter = \<lparr>lo_points = 300, lo_duration = 60, lo_keyPrefix = ''ggsheet_global''\<rparr>"

definition GoogleSheetPerUserLimiter :: limiter_options where
  "GoogleSheetPerUserLimiter = \<lparr>lo_points = 30, lo_duration = 60, lo_keyPrefix = ''ggsheet_user''\<rparr>"

definition MicrosoftGraphLimiter :: limiter_options where
  "MicrosoftGraphLimiter = \<lparr>lo_points = 1500, lo_duration = 1, lo_keyPrefix = ''microsoft_global''\<rparr>"

definition consumeRateLimiter :: "'s limiter \<Rightarrow> string \<Rightarrow> json \<Rightarrow> ('s, string, bool) io" where
  "consumeRateLimiter rateLimiter key points =
    catch_io (bind_io (rateLimiter key points) (\<lambda>_. return_io True))
      (\<lambda>rejRes. case rejRes of
         RejectError message \<Rightarrow> throw_io message
       | RejectResult \<Rightarrow> return_io False)"

section \<open>Requests\<close>

record reply_state =
  rp_code :: nat
  rp_sent :: "(nat \<times> json option) option"

definition reply_code :: "nat \<Rightarrow> reply_state \<Rightarrow> reply_state" where
  "reply_code c r = r\<lparr>rp_code := c\<rparr>"

definition reply_send :: "json option \<Rightarrow> reply_state \<Rightarrow> reply_state" where
  "reply_send body r = (case rp_sent r of
     None \<Rightarrow> r\<lparr>rp_sent := Some (rp_code r, body)\<rparr>
   | Some _ \<Rightarrow> r)"

fun truthy_json :: "json \<Rightarrow> bool" where
  "truthy_json JNull = False"
| "truthy_json (JBool b) = b"
| "truthy_json (JNum n) = (n \<noteq> 0)"
| "truthy_json (JStr s) = (s \<noteq> [])"
| "truthy_json (JArr _) = True"
| "truthy_json (JObj _) = True"

text \<open>\<open>request.body?.point || 1\<close>.\<close>

definition pointOf :: "json option \<Rightarrow> json" where
  "pointOf body = (case body of
     Some (JObj xs) \<Rightarrow> (case map_of xs ''point'' of
         Some p \<Rightarrow> if truthy_json p then p else JNum 1
       | None \<Rightarrow> JNum 1)
   | _ \<Rightarrow> JNum 1)"

fun splitComma :: "string \<Rightarrow> string list" where
  "splitComma [] = [[]]"
| "splitComma (c # cs) =
    (if c = CHR '','' then [] # splitComma cs
     else (case splitComma cs of [] \<Rightarrow> [[c]] | x # xs \<Rightarrow> (c # x) # xs))"

text \<open>\<open>process.env.API_KEYS?.split(',') || ['api-key']\<close>.\<close>

definition apiKeysOf :: "string option \<Rightarrow> string list" where
  "apiKeysOf env = (case env of None \<Rightarrow> [''api-key''] | Some s \<Rightarrow> splitComma s)"

text \<open>There is no return after the reply to a missing key.\<close>

definition apiKeyMiddleware :: "string list \<Rightarrow> string option \<Rightarrow> reply_state \<Rightarrow> reply_state" where
  "apiKeyMiddleware apiKeys apiKey reply =
    (let invalid = Some (JObj [(''error'', JStr ''Invalid API key'')]);
         r1 = (if \<not> truthy_str apiKey then reply_send invalid (reply_code 401 reply) else reply)
     in if (case apiKey of None \<Rightarrow> True | Some k \<Rightarrow> k \<notin> set apiKeys)
        then reply_send invalid (reply_code 403 r1) else r1)"

definition replyPermitted :: "bool \<Rightarrow> reply_state \<Rightarrow> reply_state" where
  "replyPermitted isPermitted reply = reply_send None (reply_code (if isPermitted then 200 else 429) reply)"

definition GoogleSheetPerUserHandler ::
  "'s limiters \<Rightarrow> string \<Rightarrow> json option \<Rightarrow> reply_state \<Rightarrow> ('s, string, reply_state) io" where
  "GoogleSheetPerUserHandler L userId body reply =
    bind_io (consumeRateLimiter (lm_perUser L) userId (pointOf body))
      (\<lambda>isPermitted. return_io (replyPermitted isPermitted reply))"

definition GoogleSheetGlobalHandler ::
  "'s limiters \<Rightarrow> json option \<Rightarrow> reply_state \<Rightarrow> ('s, string, reply_state) io" where
  "GoogleSheetGlobalHandler L body reply =
    bind_io (consumeRateLimiter (lm_global L) ''starion'' (pointOf body))
      (\<lambda>isPermitted. return_io (replyPermitted isPermitted reply))"

text \<open>The routes. The global handler is registered on none.\<close>

datatype route = Ping | Root | GoogleSheets string

definition handler_of ::
  "'s limiters \<Rightarrow> route \<Rightarrow> json option \<Rightarrow> reply_state \<Rightarrow> ('s, string, reply_state) io" where
  "handler_of L r body reply = (case r of
     Ping \<Rightarrow> return_io (reply_send (Some (JObj [(''pong'', JStr ''it worked!'')])) reply)
   | Root \<Rightarrow> return_io (reply_send (Some (JObj [(''hello'', JStr ''world'')])) reply)
   | GoogleSheets userId \<Rightarrow> GoogleSheetPerUserHandler L userId body reply)"

text \<open>The reply to a request: its status. A thrown error is a 500.\<close>

record LimitRequest =
  rq_apiKey :: "string option"
  rq_route :: route
  rq_body :: "json option"

definition serve :: "'s limiters \<Rightarrow> string list \<Rightarrow> LimitRequest \<Rightarrow> 's \<Rightarrow> nat \<times> 's" where
  "serve L apiKeys q s =
    (let r = apiKeyMiddleware apiKeys (rq_apiKey q) \<lparr>rp_code = 200, rp_sent = None\<rparr>
     in case rp_sent r of
          Some (status, _) \<Rightarrow> (status, s)
        | None \<Rightarrow> (case handler_of L (rq_route q) (rq_body q) r s of
            (Inl _, s') \<Rightarrow> (500, s')
          | (Inr r', s') \<Rightarrow> ((case rp_sent r' of Some (status, _) \<Rightarrow> status | None \<Rightarrow> rp_code r'), s')))"

fun serve_all :: "'s limiters \<Rightarrow> string list \<Rightarrow> LimitRequest list \<Rightarrow> 's \<Rightarrow> nat list \<times> 's" where
  "serve_all L apiKeys [] s = ([], s)"
| "serve_all L apiKeys (q # qs) s =
    (case serve L apiKeys q s of (status, s') \<Rightarrow>
     (case serve_all L apiKeys qs s' of (statuses, s'') \<Rightarrow> (status # statuses, s'')))"

section \<open>What the limiter promises\<close>

text \<open>Within one window: the points are added to those of the key, and the call is accepted exactly if
  the sum is within the limit. An error (a connection that is lost) may or may not have counted.\<close>

definition limiter_ok :: "'s limiter \<Rightarrow> int \<Rightarrow> ('s \<Rightarrow> string \<Rightarrow> int) \<Rightarrow> bool" where
  "limiter_ok lim limit used \<longleftrightarrow> (\<forall>k n s r s'. lim k (JNum n) s = (r, s') \<longrightarrow>
     (let counted = (used s)(k := used s k + n)
      in case r of
           Inr _ \<Rightarrow> used s' = counted \<and> used s' k \<le> limit
         | Inl RejectResult \<Rightarrow> used s' = counted \<and> limit < used s' k
         | Inl (RejectError _) \<Rightarrow> used s' \<in> {used s, counted}))"

text \<open>The points that a user's accepted requests asked for.\<close>

fun pointsGranted :: "string \<Rightarrow> (LimitRequest \<times> nat) list \<Rightarrow> int" where
  "pointsGranted u [] = 0"
| "pointsGranted u ((q, status) # rest) =
    (if rq_route q = GoogleSheets u \<and> status = 200
     then (case pointOf (rq_body q) of JNum n \<Rightarrow> n | _ \<Rightarrow> 0) else 0) + pointsGranted u rest"

text \<open>A request that asks for a positive number of points, if it consumes any.\<close>

definition charges :: "LimitRequest \<Rightarrow> bool" where
  "charges q \<longleftrightarrow> (\<exists>u. rq_route q = GoogleSheets u) \<longrightarrow> (\<exists>n>0. pointOf (rq_body q) = JNum n)"

section \<open>The quota of a user\<close>

lemma serve_refused:
  assumes "rp_sent (apiKeyMiddleware apiKeys (rq_apiKey q) \<lparr>rp_code = 200, rp_sent = None\<rparr>) \<noteq> None"
    and "serve L apiKeys q s = (status, s')"
  shows "status \<in> {401, 403} \<and> s' = s"
  using assms
  by (auto simp: serve_def apiKeyMiddleware_def reply_send_def reply_code_def Let_def
      split: if_splits option.splits)

lemma serve_user:
  assumes "rp_sent (apiKeyMiddleware apiKeys (rq_apiKey q) \<lparr>rp_code = 200, rp_sent = None\<rparr>) = None"
    and "rq_route q = GoogleSheets u" and "lm_perUser L u (pointOf (rq_body q)) s = (r, s1)"
    and "serve L apiKeys q s = (status, s')"
  shows "s' = s1 \<and> status = (case r of Inr _ \<Rightarrow> 200 | Inl RejectResult \<Rightarrow> 429 | Inl (RejectError _) \<Rightarrow> 500)"
proof -
  have "apiKeyMiddleware apiKeys (rq_apiKey q) \<lparr>rp_code = 200, rp_sent = None\<rparr>
      = \<lparr>rp_code = 200, rp_sent = None\<rparr>"
    using assms(1)
    by (auto simp: apiKeyMiddleware_def reply_send_def reply_code_def Let_def
        split: if_splits option.splits)
  then show ?thesis using assms(2-4)
    by (auto simp: serve_def handler_of_def GoogleSheetPerUserHandler_def consumeRateLimiter_def
        bind_io_run catch_io_run replyPermitted_def reply_send_def reply_code_def
        split: sum.splits rejection.splits)
qed

lemma serve_other:
  "\<forall>u. rq_route q \<noteq> GoogleSheets u \<Longrightarrow> serve L apiKeys q s = (status, s') \<Longrightarrow> s' = s"
  by (cases "rq_route q")
     (auto simp: serve_def handler_of_def Let_def split: option.splits)

text \<open>One request: a user's count never falls, and an accepted request is counted within the limit.\<close>

lemma serve_counts:
  assumes "limiter_ok (lm_perUser L) limit used" and "charges q"
    and "serve L apiKeys q s = (status, s')"
  shows "used s u \<le> used s' u"
    "rq_route q = GoogleSheets u \<Longrightarrow> status = 200 \<Longrightarrow>
       \<exists>n>0. pointOf (rq_body q) = JNum n \<and> used s' u = used s u + n \<and> used s' u \<le> limit"
proof -
  have "used s u \<le> used s' u \<and> (rq_route q = GoogleSheets u \<longrightarrow> status = 200 \<longrightarrow>
      (\<exists>n>0. pointOf (rq_body q) = JNum n \<and> used s' u = used s u + n \<and> used s' u \<le> limit))"
  proof (cases "rp_sent (apiKeyMiddleware apiKeys (rq_apiKey q) \<lparr>rp_code = 200, rp_sent = None\<rparr>) = None")
    case False
    then show ?thesis using serve_refused[OF _ assms(3)] by auto
  next
    case True
    show ?thesis
    proof (cases "rq_route q")
      case (GoogleSheets v)
      obtain n where n: "0 < n" "pointOf (rq_body q) = JNum n"
        using assms(2) GoogleSheets by (auto simp: charges_def)
      obtain r s1 where r: "lm_perUser L v (JNum n) s = (r, s1)" by fastforce
      then have s': "s' = s1"
        "status = (case r of Inr _ \<Rightarrow> 200 | Inl RejectResult \<Rightarrow> 429 | Inl (RejectError _) \<Rightarrow> 500)"
        using serve_user[OF True GoogleSheets _ assms(3), of r s1] n(2) by simp_all
      have "case r of
           Inr _ \<Rightarrow> used s1 = (used s)(v := used s v + n) \<and> used s1 v \<le> limit
         | Inl RejectResult \<Rightarrow> used s1 = (used s)(v := used s v + n) \<and> limit < used s1 v
         | Inl (RejectError _) \<Rightarrow> used s1 \<in> {used s, (used s)(v := used s v + n)}"
        using assms(1) r by (simp add: limiter_ok_def Let_def)
      then show ?thesis using s' n GoogleSheets
        by (auto split: sum.splits rejection.splits)
    qed (use serve_other[OF _ assms(3)] in auto)
  qed
  then show "used s u \<le> used s' u"
    "rq_route q = GoogleSheets u \<Longrightarrow> status = 200 \<Longrightarrow>
       \<exists>n>0. pointOf (rq_body q) = JNum n \<and> used s' u = used s u + n \<and> used s' u \<le> limit"
    by auto
qed

lemma granted_within:
  assumes "limiter_ok (lm_perUser L) limit used" and "\<forall>q \<in> set qs. charges q"
    and "serve_all L apiKeys qs s = (statuses, s')"
  shows "pointsGranted u (zip qs statuses) \<le> 0 \<or> used s u + pointsGranted u (zip qs statuses) \<le> limit"
  using assms(2,3)
proof (induction qs arbitrary: s statuses)
  case (Cons q qs)
  obtain st s1 where 1: "serve L apiKeys q s = (st, s1)" by fastforce
  obtain sts where 2: "serve_all L apiKeys qs s1 = (sts, s')" "statuses = st # sts"
    using Cons.prems(2) 1 by (auto split: prod.splits)
  note IH = Cons.IH[OF _ 2(1)]
  note count = serve_counts[OF assms(1) _ 1, of u]
  show ?case
  proof (cases "rq_route q = GoogleSheets u \<and> st = 200")
    case True
    then obtain n where "0 < n" "pointOf (rq_body q) = JNum n" "used s1 u = used s u + n" "used s1 u \<le> limit"
      using count(2) Cons.prems(1) by auto
    then show ?thesis using IH Cons.prems(1) True 2(2) by auto
  next
    case False
    then show ?thesis using IH count(1) Cons.prems(1) 2(2) by auto
  qed
qed simp


text \<open>A limiter as promised: a counter per key.\<close>

definition counting_limiter :: "int \<Rightarrow> (string \<Rightarrow> int) limiter" where
  "counting_limiter limit k p s = (case p of
     JNum n \<Rightarrow> (if s k + n \<le> limit then Inr () else Inl RejectResult, s(k := s k + n))
   | _ \<Rightarrow> (Inl (RejectError ''ERR value is not an integer''), s))"

lemma counting_limiter_ok: "limiter_ok (counting_limiter limit) limit (\<lambda>s. s)"
  by (auto simp: limiter_ok_def counting_limiter_def Let_def split: if_splits)

definition counting_limiters :: "(string \<Rightarrow> int) limiters" where
  "counting_limiters = \<lparr>lm_global = counting_limiter 300, lm_perUser = counting_limiter 30\<rparr>"

definition ask :: "int \<Rightarrow> LimitRequest" where
  "ask n = \<lparr>rq_apiKey = Some ''k'', rq_route = GoogleSheets ''u'',
     rq_body = Some (JObj [(''point'', JNum n)])\<rparr>"

lemma serve_ask:
  "n \<noteq> 0 \<Longrightarrow> serve counting_limiters [''k''] (ask n) s =
    (if s ''u'' + n \<le> 30 then 200 else 429, s(''u'' := s ''u'' + n))"
  by (simp add: serve_def ask_def apiKeyMiddleware_def Let_def handler_of_def
      GoogleSheetPerUserHandler_def consumeRateLimiter_def counting_limiters_def counting_limiter_def
      pointOf_def bind_io_run catch_io_run replyPermitted_def reply_send_def reply_code_def)


text \<open>The number of points is not checked: a negative one gives points back.\<close>

lemma negative_points_refund:
  "fst (serve_all counting_limiters [''k''] [ask 30, ask (- 30), ask 30] (\<lambda>_. 0)) = [200, 200, 200]"
  by (simp add: serve_ask)

end
