(* ===== verification/Deployment.thy ===== *)
theory Deployment
  imports Workers ControllerWorkflows Configuration
begin

text \<open>
  Which application runs the workflows that another one, or itself, starts: the Temporal client of
  \<open>libs/modules/src/orchestrator\<close> and the workers of the configurator, the controller and the worker
  application, all set up from the environment of their process.
\<close>

section \<open>Client and workers\<close>

datatype payload_converter = EjsonConverter

text \<open>The connection of the workers has the options of the connection of the client.\<close>

definition orchestratorNativeConnectionConfig :: "(string \<Rightarrow> 'b) \<Rightarrow> orchestrator_config \<Rightarrow> 'b connection_options" where
  "orchestratorNativeConnectionConfig base64 c = \<lparr>co_address = orc_address c,
     co_tls = (if orc_tlsEnabled c then Some (base64 (orc_clientCert c), base64 (orc_clientKey c)) else None),
     co_connectTimeout = 10000\<rparr>"

record 'b client_options =
  cl_connection :: "'b connection_options"
  cl_namespace :: string
  cl_payloadConverter :: payload_converter

definition OrchestratorClient :: "'b connection_options \<Rightarrow> orchestrator_config \<Rightarrow> 'b client_options" where
  "OrchestratorClient connection c = \<lparr>cl_connection = connection, cl_namespace = orc_namespace c,
     cl_payloadConverter = EjsonConverter\<rparr>"

text \<open>What \<open>Worker.create\<close> is given, with the exports of the workflow module as names.\<close>

record 'b worker_options =
  wo_connection :: "'b connection_options"
  wo_namespace :: string
  wo_workflows :: "string list"
  wo_payloadConverter :: payload_converter
  wo_taskQueue :: string
  wo_activities :: "string list"

definition configuratorWorkflowNames :: "string list" where
  "configuratorWorkflowNames = [''createSyncConnectionWf'', ''deleteSyncConnectionWf'', ''deleteDataSourceWf'']"

definition controllerActivityNames :: "string list" where
  "controllerActivityNames =
    [''emitEvent'', ''handleWorkflowTriggered'', ''checkWorkflowAlreadyScheduled'', ''checkDataSourceLimitation'']"

definition workerWorkflowNames :: "string list" where
  "workerWorkflowNames = [''TestWorkflow'', ''googleSheetsDownload'', ''googleSheetsProceedSync'',
     ''googleSheetsFullSync'', ''excelFullSync'']"

definition configuratorWorker :: "'b connection_options \<Rightarrow> orchestrator_config \<Rightarrow> 'b worker_options" where
  "configuratorWorker connection c = \<lparr>wo_connection = connection, wo_namespace = orc_namespace c,
     wo_workflows = configuratorWorkflowNames, wo_payloadConverter = EjsonConverter,
     wo_taskQueue = orc_workerTaskQueue c, wo_activities = configuratorActivityNames\<rparr>"

definition controllerWorker :: "'b connection_options \<Rightarrow> orchestrator_config \<Rightarrow> 'b worker_options" where
  "controllerWorker connection c = \<lparr>wo_connection = connection, wo_namespace = orc_namespace c,
     wo_workflows = [''handleWorkflowTriggeredWf''], wo_payloadConverter = EjsonConverter,
     wo_taskQueue = orc_workerTaskQueue c, wo_activities = controllerActivityNames\<rparr>"

definition workerWorker :: "'b connection_options \<Rightarrow> orchestrator_config \<Rightarrow> 'b worker_options" where
  "workerWorker connection c = \<lparr>wo_connection = connection, wo_namespace = orc_namespace c,
     wo_workflows = workerWorkflowNames, wo_payloadConverter = EjsonConverter,
     wo_taskQueue = orc_workerTaskQueue c, wo_activities = workerActivityNames\<rparr>"

lemma worker_exports: "map fst (workerWorkflows A) = tl workerWorkflowNames"
  by (simp add: workerWorkflows_def workerWorkflowNames_def)

section \<open>Starts\<close>

text \<open>\<open>executeWorkflow\<close> starts a workflow through the client on \<open>options.taskQueue || defaultTaskQueue\<close>: the
  server, the namespace and the queue of its tasks. No caller gives a queue.\<close>

definition taskQueueOf :: "string option \<Rightarrow> orchestrator_config \<Rightarrow> string" where
  "taskQueueOf taskQueue c = orElse taskQueue (orc_defaultTaskQueue c)"

definition startTarget :: "'b client_options \<Rightarrow> orchestrator_config \<Rightarrow> string option \<Rightarrow> string \<times> string \<times> string" where
  "startTarget client c taskQueue =
     (co_address (cl_connection client), cl_namespace client, taskQueueOf taskQueue c)"

text \<open>What the applications start: the configurator its three workflows, the worker application the two it
  continues with and each syncflow by its name; and the activities that these workflows have proxies of.\<close>

definition workerStarts :: "string list" where
  "workerStarts = [SN_GOOGLE_SHEETS_FULL, SN_EXCEL_FULL, ''googleSheetsDownload'', ''googleSheetsProceedSync'']"

definition activitiesUsed :: "string \<Rightarrow> string list" where
  "activitiesUsed workflow = (if workflow = ''deleteDataSourceWf'' then dataSourceProxies
     else if workflow \<in> set configuratorWorkflowNames then syncConnectionProxies else proxiesOf workflow)"

section \<open>Who runs them\<close>

text \<open>A worker polls one queue of one namespace of one server. Temporal hands a task to any of the workers that
  poll its queue, so a workflow is run only if there is one, and each of them has the workflow and what it uses.\<close>

definition polls :: "'b worker_options \<Rightarrow> string \<times> string \<times> string" where
  "polls v = (co_address (wo_connection v), wo_namespace v, wo_taskQueue v)"

definition servedBy :: "'b worker_options list \<Rightarrow> string \<times> string \<times> string \<Rightarrow> string \<Rightarrow> bool" where
  "servedBy workers target workflow \<longleftrightarrow> (\<exists>v \<in> set workers. polls v = target) \<and>
     (\<forall>v \<in> set workers. polls v = target \<longrightarrow>
        workflow \<in> set (wo_workflows v) \<and> set (activitiesUsed workflow) \<subseteq> set (wo_activities v))"

text \<open>The three applications, each with the environment of its process.\<close>

definition workersOf :: "(string \<Rightarrow> 'b) \<Rightarrow> env \<Rightarrow> env \<Rightarrow> env \<Rightarrow> 'b worker_options list" where
  "workersOf base64 e_configurator e_controller e_worker =
    (let w = (\<lambda>f e. f (orchestratorNativeConnectionConfig base64 (orchestratorConfig e)) (orchestratorConfig e))
     in [w configuratorWorker e_configurator, w controllerWorker e_controller, w workerWorker e_worker])"

definition startsAt :: "(string \<Rightarrow> 'b) \<Rightarrow> env \<Rightarrow> string \<times> string \<times> string" where
  "startsAt base64 e = (let c = orchestratorConfig e
     in startTarget (OrchestratorClient (orchestratorConnectionConfig base64 c) c) c None)"

definition allServed :: "(string \<Rightarrow> 'b) \<Rightarrow> env \<Rightarrow> env \<Rightarrow> env \<Rightarrow> bool" where
  "allServed base64 e_configurator e_controller e_worker \<longleftrightarrow>
     (\<forall>n \<in> set configuratorWorkflowNames.
        servedBy (workersOf base64 e_configurator e_controller e_worker) (startsAt base64 e_configurator) n) \<and>
     (\<forall>n \<in> set workerStarts.
        servedBy (workersOf base64 e_configurator e_controller e_worker) (startsAt base64 e_worker) n)"

text \<open>Where the tasks of an application's queue are polled.\<close>

definition polledAt :: "env \<Rightarrow> string \<times> string \<times> string" where
  "polledAt e = (let c = orchestratorConfig e in (orc_address c, orc_namespace c, orc_workerTaskQueue c))"

text \<open>The environment that \<open>docker-compose.yml\<close> gives an application, with the two queues named after it.\<close>

definition composeEnv :: "string \<Rightarrow> env" where
  "composeEnv name = [''ORCHESTRATOR_ADDRESS'' \<mapsto> ''temporal:7233'', ''ORCHESTRATOR_NAMESPACE'' \<mapsto> ''default'',
     ''ORCHESTRATOR_WORKER_TASKQUEUE'' \<mapsto> name, ''ORCHESTRATOR_DEFAULT_TASKQUEUE'' \<mapsto> name]"

lemma polls_workers:
  "map polls (workersOf base64 e1 e2 e3) = [polledAt e1, polledAt e2, polledAt e3]"
  by (simp add: workersOf_def polls_def polledAt_def configuratorWorker_def controllerWorker_def workerWorker_def
      orchestratorNativeConnectionConfig_def Let_def)

lemma configurator_workflow_known:
  assumes "n \<in> set configuratorWorkflowNames"
  shows "set (activitiesUsed n) \<subseteq> set configuratorActivityNames" "n \<notin> set workerWorkflowNames"
    "n \<noteq> ''handleWorkflowTriggeredWf''"
  using assms by (auto simp: configuratorWorkflowNames_def activitiesUsed_def dataSourceProxies_def
      syncConnectionProxies_def configuratorActivityNames_def workerWorkflowNames_def)

lemma worker_start_known:
  assumes "n \<in> set workerStarts"
  shows "n \<in> set workerWorkflowNames" "set (activitiesUsed n) \<subseteq> set workerActivityNames"
    "n \<notin> set configuratorWorkflowNames" "n \<noteq> ''handleWorkflowTriggeredWf''"
  using assms by (auto simp: workerStarts_def workerWorkflowNames_def configuratorWorkflowNames_def
      activitiesUsed_def proxiesOf_def excelProxies_def googleSheetsProxies_def workerActivityNames_def
      SN_GOOGLE_SHEETS_FULL_def SN_EXCEL_FULL_def)

section \<open>The other connections\<close>

text \<open>Bull, in the trigger applications, the webhook application and form-sync; \<open>tls\<close> is \<open>{}\<close> or \<open>undefined\<close>.\<close>

record bull_options =
  bu_host :: string
  bu_port :: json
  bu_password :: "string option"
  bu_tls :: "unit option"

definition bullOptions :: "redis_config \<Rightarrow> bull_options" where
  "bullOptions c = \<lparr>bu_host = rdc_host c, bu_port = rdc_port c, bu_password = rdc_password c,
     bu_tls = (if rdc_tls c then Some () else None)\<rparr>"

text \<open>The cache of form-sync waits longer after each failed attempt to connect.\<close>

definition reconnectStrategy :: "nat \<Rightarrow> nat" where
  "reconnectStrategy retries = min (retries * 50) 500"

text \<open>The databases of form-sync; a flag says that certificates are verified.\<close>

record typeorm_options =
  to_url :: "string option"
  to_database :: "string option"
  to_ssl :: "bool option"   \<comment> \<open>\<open>rejectUnauthorized\<close>, or no TLS\<close>
  to_synchronize :: bool

definition fs_typeOrmOptions :: "fs_database_config \<Rightarrow> typeorm_options" where
  "fs_typeOrmOptions c = \<lparr>to_url = fdc_uri c, to_database = fdc_database c,
     to_ssl = (if fdc_tlsEnabled c then Some False else None), to_synchronize = True\<rparr>"

record mongoose_options =
  mo_uri :: string
  mo_dbName :: "string option"
  mo_sslValidate :: bool
  mo_tlsInsecure :: bool

definition fs_mongooseOptions :: "fs_database_config \<Rightarrow> mongoose_options" where
  "fs_mongooseOptions c = \<lparr>mo_uri = fdc_metadataDbUri c, mo_dbName = fdc_database c,
     mo_sslValidate = False, mo_tlsInsecure = True\<rparr>"

text \<open>No setting makes form-sync verify the certificate of a database, as the applications do
  not with the store; and a lost cache is asked for at least twice a second.\<close>

lemma certificates_unverified:
  "to_ssl (fs_typeOrmOptions c) \<noteq> Some True" "\<not> mo_sslValidate (fs_mongooseOptions c)"
  "databaseType (dbc_type d) \<noteq> Some DB_MYSQL \<Longrightarrow> DatabaseModule_forRootAsync d = MongooseRoot (dbc_uri d) True"
  "reconnectStrategy n \<le> 500"
  by (auto simp: fs_typeOrmOptions_def fs_mongooseOptions_def DatabaseModule_forRootAsync_def reconnectStrategy_def
      split: option.split DatabaseType.split)

section \<open>Properties\<close>


end
