(* ===== verification/FormSyncBridge.thy ===== *)
theory FormSyncBridge
  imports FormSyncApi WebhookDispatch
begin

text \<open>
  Starion Sync and the form-sync application together. The webhook application posts the payload of
  an event, signed, to the URL of a webhook; the form-sync application receives it as the body of a
  request. The theory has the JSON text of the payloads
  (\<open>apps/webhook/src/modules/webhook/webhook.payload.ts\<close>) and follows an event from the one
  system into the tables of the other.
\<close>

section \<open>The JSON of a payload\<close>

text \<open>A field that is undefined is not in the text.\<close>

definition definedField :: "string \<Rightarrow> string option \<Rightarrow> (string \<times> json) list" where
  "definedField n v = (case v of None \<Rightarrow> [] | Some x \<Rightarrow> [(n, JStr x)])"

definition configJson :: "DataSourceConfig \<Rightarrow> json" where
  "configJson c = JObj (definedField ''spreadsheetId'' (cfg_spreadsheetId c) @
     definedField ''sheetId'' (cfg_sheetId c) @ definedField ''userId'' (cfg_userId c) @
     definedField ''driveId'' (cfg_driveId c) @ definedField ''workbookId'' (cfg_workbookId c) @
     definedField ''worksheetId'' (cfg_worksheetId c) @ definedField ''worksheetName'' (cfg_worksheetName c) @
     definedField ''timezone'' (cfg_timezone c) @
     [(''auth'', JObj (definedField ''refreshToken'' (cfg_auth c)))] @
     (case cfg_destTableName c of None \<Rightarrow> []
      | Some n \<Rightarrow> [(''dest'', JObj [(''tableName'', JStr n)])]))"

primrec errorTypeJson :: "ErrorType \<Rightarrow> json" where
  "errorTypeJson ET_EXTERNAL = JStr ''external''"
| "errorTypeJson ET_INTERNAL = JStr ''internal''"

primrec bodyFields :: "webhook_body \<Rightarrow> (string \<times> json) list" where
  "bodyFields (SyncConnectionCreatedWebhookPayload ty i c) =
    [(''dataProvider'', JStr (showProviderType ty)), (''dataSourceId'', JStr i),
     (''dataSourceConfig'', configJson c)]"
| "bodyFields (SyncflowScheduledWebhookPayload f i v init) =
    [(''syncflowId'', JStr f), (''syncVersion'', JNum v), (''isInitialSyncVersion'', JBool init),
     (''dataSourceId'', JStr i)]"
| "bodyFields (SyncflowSucceedWebhookPayload f i v init x) =
    [(''syncflowId'', JStr f), (''dataSourceId'', JStr i), (''syncVersion'', JNum v),
     (''isInitialSyncVersion'', JBool init),
     (''statistics'', JObj [(''addedRowsCount'', JNum (sx_addedRowsCount x)),
        (''deletedRowsCount'', JNum (sx_deletedRowsCount x)),
        (''isSchemaChanged'', JBool (sx_isSchemaChanged x))])]"
| "bodyFields (SyncflowCompletedWebhookPayload f i v init n) =
    [(''syncflowId'', JStr f), (''syncVersion'', JNum v), (''isInitialSyncVersion'', JBool init),
     (''dataSourceId'', JStr i), (''rowsNumber'', JNum n)]"
| "bodyFields (SyncflowFailedWebhookPayload f i v init ty code message) =
    [(''syncflowId'', JStr f), (''dataSourceId'', JStr i), (''syncVersion'', JNum v),
     (''isInitialSyncVersion'', JBool init),
     (''error'', JObj [(''type'', errorTypeJson ty), (''code'', JNum code),
        (''message'', JStr message)])]"
| "bodyFields (DataSourceDeletedWebhookPayload i connection) =
    (''dataSourceId'', JStr i) # definedField ''syncConnectionId'' connection"
| "bodyFields (DataSourceErrorWebhookPayload i code message) =
    [(''dataSourceId'', JStr i), (''code'', JNum code), (''message'', JStr message)]"

text \<open>\<open>toISO\<close> gives the text of a date.\<close>

definition payloadFields :: "(date \<Rightarrow> string) \<Rightarrow> WebhookPayload \<Rightarrow> (string \<times> json) list" where
  "payloadFields toISO p = bodyFields (wp_body p) @ definedField ''timestamp'' (map_option toISO (wp_timestamp p)) @
     (case wp_metadata p of None \<Rightarrow> [] | Some m \<Rightarrow> [(''metadata'', JObj m)])"

lemma map_of_definedField [simp]:
  "map_of (definedField n v @ fs) k =
    (if n = k \<and> v \<noteq> None then map_option JStr v else map_of fs k)"
  by (simp add: definedField_def split: option.split)

lemma map_of_definedField_end [simp]: "map_of (definedField n v) k = (if n = k then map_option JStr v else None)"
  using map_of_definedField[of n v "[]" k] by (cases v) (simp_all add: definedField_def)

section \<open>From event to request\<close>

text \<open>What is posted for a job that an event queued: the body of the event, with its signature.\<close>

lemma posted_payload:
  assumes "mongo_ok M" and "distinct (map wh_id (db_webhooks (w_db w)))" and "delivered_event e"
    and "describeEvent M e w = (Inr (Some (ty, i, body)), w)"
    and "webhookBroker_handle M Q e w = (r, w1)"
    and "w_calls w1 = w_calls w @ [QueueAddBulk WEBHOOK_EXECUTION jobs]" and "(data, opts) \<in> set jobs"
    and "WebhookProcessor_process M sign http data w2 = (r2, w3)"
    and "w_calls w3 = w_calls w2 @ [SignedPost url p s]"
  shows "wp_body p = body" and "sign p = Inr s"
proof -
  obtain hooks where "webhookBroker_handle M Q e w = (if hooks = [] then (Inr (), w)
       else (let calls = w_calls w @ [QueueAddBulk WEBHOOK_EXECUTION (map (webhookJob False body) hooks)]
             in (Q calls, w\<lparr>w_calls := calls\<rparr>)))"
    using webhooks_queued[OF assms(1-4)] by blast
  then have "jobs = map (webhookJob False body) hooks"
    using assms(5,6) by (auto simp: Let_def split: if_splits)
  then obtain j where "data = JobWebhook j \<lparr>wp_body = body, wp_timestamp = None, wp_metadata = None\<rparr>"
    using assms(7) by (auto simp: webhookJob_def)
  then have "wp_body p = body \<and> sign p = Inr s"
    using assms(8,9) mongo_driver.model_ops[OF mongo_driverI[OF assms(1)]]
    by (auto simp: WebhookProcessor_process_def executeWebhook_def bind_io_run
        WebhookRepository_getById_def Let_def callService_def lift_io_def
        split: option.splits sum.splits if_splits)
  then show "wp_body p = body" and "sign p = Inr s" by simp_all
qed

text \<open>An event has been queued, one of its jobs run, and its payload posted with a signature.\<close>

definition posted ::
  "mongo \<Rightarrow> (WebhookPayload \<Rightarrow> js_error + string) \<Rightarrow> event \<Rightarrow> world \<Rightarrow> WebhookPayload \<Rightarrow> string \<Rightarrow> bool"
  where
  "posted M sign e w p s \<longleftrightarrow> distinct (map wh_id (db_webhooks (w_db w))) \<and>
     (\<exists>Q http r r2 w1 jobs data opts w2 w3 url.
        webhookBroker_handle M Q e w = (r, w1) \<and>
        w_calls w1 = w_calls w @ [QueueAddBulk WEBHOOK_EXECUTION jobs] \<and> (data, opts) \<in> set jobs \<and>
        WebhookProcessor_process M sign http data w2 = (r2, w3) \<and>
        w_calls w3 = w_calls w2 @ [SignedPost url p s])"

lemma posted_body:
  assumes "mongo_ok M" and "posted M sign e w p s" and "delivered_event e"
    and "describeEvent M e w = (Inr (Some (ty, i, body)), w)"
  shows "wp_body p = body" and "sign p = Inr s"
proof -
  from assms(2) obtain Q http r r2 w1 jobs data opts w2 w3 url
    where run: "distinct (map wh_id (db_webhooks (w_db w)))" "webhookBroker_handle M Q e w = (r, w1)"
      "w_calls w1 = w_calls w @ [QueueAddBulk WEBHOOK_EXECUTION jobs]" "(data, opts) \<in> set jobs"
      "WebhookProcessor_process M sign http data w2 = (r2, w3)"
      "w_calls w3 = w_calls w2 @ [SignedPost url p s]"
    unfolding posted_def by (elim conjE exE) (rule that)
  from posted_payload[OF assms(1) run(1) assms(3,4) run(2-6)]
  show "wp_body p = body" and "sign p = Inr s" by simp_all
qed

lemma creation_described:
  assumes "mongo_ok M" and "find (\<lambda>d. ds_id d = sc_sourceId c) (db_sources (w_db w)) = Some ds"
    and "w_tx w = None"
  shows "describeEvent M (ConnectionCreated c) w = (Inr (Some (WT_SYNC_CONNECTION_CREATED, sc_sourceId c,
    SyncConnectionCreatedWebhookPayload (ds_provider_type ds) (sc_sourceId c) (ds_config ds))), w)"
  using assms mongo_driver.model_ops[OF mongo_driverI[OF assms(1)]]
  by (simp add: bind_io_run DataSourceRepository_getById_def)

section \<open>From request to tables\<close>

lemma created_read:
  assumes "wp_body p = SyncConnectionCreatedWebhookPayload GOOGLE_SHEETS i c"
    and "cfg_auth c = Some token" and "cfg_spreadsheetId c = Some spreadsheet"
    and "cfg_sheetId c = Some sheet" and "i \<noteq> []"
  shows "readCreated (payloadFields toISO p) = Some (GoogleSheetsCreated \<lparr>cg_dataSourceId = i,
      cg_refreshToken = token, cg_spreadsheetId = spreadsheet, cg_sheetId = sheet\<rparr>)"
    and "accepts dto_DataSourceCreated (JObj (payloadFields toISO p))"
  using assms
  by (simp_all add: readCreated_def payloadFields_def required_def configJson_def flatConfig_def
      readGoogleSource_def fs_dto_defs absent_def del: map_of_append)

lemma deleted_read:
  assumes "wp_body p = DataSourceDeletedWebhookPayload i connection" and "i \<noteq> []"
  shows "required asStr (map_of (payloadFields toISO p) ''dataSourceId'') = Some i"
    and "accepts dto_DataSourceDeleted (JObj (payloadFields toISO p))"
  using assms by (simp_all add: payloadFields_def required_def fs_dto_defs absent_def
      del: map_of_append)

lemma created_row:
  assumes "fs_env_ok E" and "createGoogleSheetsDataSource E r data w = (x, w1)"
    and "\<forall>d \<in> set (fw_google w). gd_id d \<noteq> cg_dataSourceId data"
  shows "fw_google w1 = fw_google w @ [\<lparr>gd_id = cg_dataSourceId data,
    gd_spreadsheetId = cg_spreadsheetId data, gd_sheetId = cg_sheetId data,
    gd_refreshToken = cg_refreshToken data, gd_metadataJob = newMetadataJob r,
    gd_metadataSyncedAt = None\<rparr>]"
proof -
  have new: "find (\<lambda>d. gd_id d = cg_dataSourceId data) (fw_google w) = None"
    "cg_dataSourceId data \<notin> gd_id ` set (fw_google w)"
    using assms(3) by (auto simp: find_None_iff)
  from assms(2) have "w1 = snd (createGoogleSheetsDataSource E r data w)" by simp
  with new show ?thesis
    using assms(1) by (simp add: createGoogleSheetsDataSource_def bind_io_run saveCommon_def Let_def
        fs_request_def fs_lift_def fs_env_ok_def repository_ok_def fs_throw_def split: sum.split)
qed

lemma signed_success:
  assumes "map_option (\<lambda>m. m w) (fs_endpoint A r (Some s) fs) = Some (Inr (), w')"
    and "class_validator (fa_validate A)" and "fs_dto r = Some C" and "accepts C (JObj fs)"
    and "\<not> guarded r"
  shows "fs_handle A r key (Some s) fs w = Some (FsSuccess, w')"
  using fs_handle_accepted[OF assms(2-4), of key "Some s" w] assms(1,5)
  by (auto simp: fs_reply_of_def)

text \<open>
  C17: a Google Sheets data source of Starion Sync appears in the form-sync application with its
  connection and disappears with its deletion. When the payload that the webhook application posts
  for a created connection arrives there, in any later state of either system in which the data source
  is not yet known, it is answered with success and the data source is recorded with the spreadsheet,
  sheet and token of its configuration, with a metadata job of its own; when the payload of its
  deletion arrives, the tables are as before and the job is removed. All that is assumed of the two
  keys is that the signatures of the one verify with the other.
\<close>

theorem form_sync_follows:
  assumes "mongo_ok M" and "class_validator (fa_validate A)" and "fs_env_ok (fa_env A)"
    and "\<forall>cs. fe_queue (fa_env A) cs = Inr ()"
    and "\<And>p s. sign p = Inr s \<Longrightarrow> fa_verify A (JObj (payloadFields toISO p)) s"
    and "posted M sign (ConnectionCreated c) w p1 s1"
    and "posted M sign (DataSourceDeleted (sc_sourceId c) connection) w' p2 s2"
    and "find (\<lambda>d. ds_id d = sc_sourceId c) (db_sources (w_db w)) = Some ds" and "w_tx w = None"
    and "ds_provider_type ds = GOOGLE_SHEETS" and "cfg_auth (ds_config ds) = Some token"
    and "cfg_spreadsheetId (ds_config ds) = Some spreadsheet"
    and "cfg_sheetId (ds_config ds) = Some sheet" and "sc_sourceId c \<noteq> []"
    and "\<forall>d \<in> set (fw_dataSources fw). fd_id d \<noteq> sc_sourceId c"
    and "\<forall>d \<in> set (fw_google fw). gd_id d \<noteq> sc_sourceId c"
    and "\<forall>d \<in> set (fw_excel fw). xd_id d \<noteq> sc_sourceId c"
  shows "\<exists>fw1 fw2. fs_handle A CreatedRoute k1 (Some s1) (payloadFields toISO p1) fw = Some (FsSuccess, fw1) \<and>
    fw_google fw1 = fw_google fw @ [\<lparr>gd_id = sc_sourceId c, gd_spreadsheetId = spreadsheet,
      gd_sheetId = sheet, gd_refreshToken = token,
      gd_metadataJob = newMetadataJob (fa_draws A), gd_metadataSyncedAt = None\<rparr>] \<and>
    fs_handle A DeletedRoute k2 (Some s2) (payloadFields toISO p2) fw1 = Some (FsSuccess, fw2) \<and>
    fw_dataSources fw2 = fw_dataSources fw \<and> fw_google fw2 = fw_google fw \<and>
    fw_excel fw2 = fw_excel fw \<and>
    fw_calls fw2 = fw_calls fw @
      [FsQueueAdd Q_GOOGLE_UPDATE_METADATA (UpdateMetadataJob (sc_sourceId c))
         (mj_jobId (newMetadataJob (fa_draws A))) (Some (mj_cron (newMetadataJob (fa_draws A)))),
       FsQueueRemove Q_GOOGLE_UPDATE_METADATA (mj_jobId (newMetadataJob (fa_draws A)))
         (mj_cron (newMetadataJob (fa_draws A)))]"
proof -
  let ?d = "\<lparr>cg_dataSourceId = sc_sourceId c, cg_refreshToken = token,
    cg_spreadsheetId = spreadsheet, cg_sheetId = sheet\<rparr>"
  from posted_body[OF assms(1,6) _ creation_described[OF assms(1,8,9)]]
  have p1: "wp_body p1 = SyncConnectionCreatedWebhookPayload GOOGLE_SHEETS (sc_sourceId c) (ds_config ds)"
    "sign p1 = Inr s1" using assms(10) by simp_all
  have p2: "wp_body p2 = DataSourceDeletedWebhookPayload (sc_sourceId c) connection" "sign p2 = Inr s2"
    using posted_body[OF assms(1,7)] by (simp_all add: return_io_def)
  from create_delete_source[OF assms(3,4), of "sc_sourceId c" ?d fw "fa_draws A" "fa_draws A"] assms(15-17)
  obtain fw1 fw2 where run: "createGoogleSheetsDataSource (fa_env A) (fa_draws A) ?d fw = (Inr (), fw1)"
    "deleteDataSource (fa_env A) (sc_sourceId c) fw1 = (Inr (), fw2)"
    "fw_dataSources fw2 = fw_dataSources fw" "fw_google fw2 = fw_google fw" "fw_excel fw2 = fw_excel fw"
    "fw_calls fw2 = fw_calls fw @
      [FsQueueAdd Q_GOOGLE_UPDATE_METADATA (UpdateMetadataJob (sc_sourceId c))
         (mj_jobId (newMetadataJob (fa_draws A))) (Some (mj_cron (newMetadataJob (fa_draws A)))),
       FsQueueRemove Q_GOOGLE_UPDATE_METADATA (mj_jobId (newMetadataJob (fa_draws A)))
         (mj_cron (newMetadataJob (fa_draws A)))]"
    by (simp only: CreateGoogleSheetsDataSourceDto.simps) blast
  note steps = withSignature_def dataSourceCreated_def dataSourceDeleted_def verifySignature_def
    bind_io_run handleDataSourceCreated_def
  have "fs_handle A CreatedRoute k1 (Some s1) (payloadFields toISO p1) fw = Some (FsSuccess, fw1)"
    by (rule signed_success[OF _ assms(2), where C = dto_DataSourceCreated])
       (simp_all add: created_read[OF p1(1) assms(11-14)] steps assms(5)[OF p1(2)] run(1) guarded_def)
  moreover have "fs_handle A DeletedRoute k2 (Some s2) (payloadFields toISO p2) fw1 = Some (FsSuccess, fw2)"
    by (rule signed_success[OF _ assms(2), where C = dto_DataSourceDeleted])
       (simp_all add: deleted_read[OF p2(1) assms(14)] steps assms(5)[OF p2(2)] run(2) guarded_def)
  moreover have "fw_google fw1 = fw_google fw @ [\<lparr>gd_id = sc_sourceId c, gd_spreadsheetId = spreadsheet,
      gd_sheetId = sheet, gd_refreshToken = token,
      gd_metadataJob = newMetadataJob (fa_draws A), gd_metadataSyncedAt = None\<rparr>]"
    using created_row[OF assms(3) run(1)] assms(16) by simp
  ultimately show ?thesis using run(3-6) by blast
qed

lemma find_by_key:
  assumes "distinct (map k ds)" and "d \<in> set ds" and "p d" and "\<And>e. p e \<Longrightarrow> k e = k d"
  shows "find p ds = Some d"
proof (cases "find p ds")
  case None
  then show ?thesis using assms(2,3) by (auto simp: find_None_iff)
next
  case (Some e)
  then have "e \<in> set ds" "k e = k d" using find_SomeD assms(4) by metis+
  then show ?thesis using Some assms(1,2) by (auto simp: distinct_map inj_on_def)
qed

text \<open>An active webhook that listens for an event gets its payload.\<close>

lemma posted_listener:
  assumes "mongo_ok M" and "distinct (map wh_id (db_webhooks (w_db w)))" and "delivered_event e"
    and "describeEvent M e w = (Inr (Some (ty, i, body)), w)"
    and "h \<in> set (db_webhooks (w_db w))" and "listens ty i h"
    and "sign \<lparr>wp_body = body, wp_timestamp = Some (w_now w), wp_metadata = wh_metadata h\<rparr> = Inr s"
  shows "posted M sign e w \<lparr>wp_body = body, wp_timestamp = Some (w_now w), wp_metadata = wh_metadata h\<rparr> s"
proof -
  let ?Q = "\<lambda>_. Inr () :: js_error + unit"
  obtain hooks where hooks: "set hooks = {h \<in> set (db_webhooks (w_db w)). listens ty i h}"
    "webhookBroker_handle M ?Q e w = (if hooks = [] then (Inr (), w)
       else (let calls = w_calls w @ [QueueAddBulk WEBHOOK_EXECUTION (map (webhookJob False body) hooks)]
             in (?Q calls, w\<lparr>w_calls := calls\<rparr>)))"
    using webhooks_queued[OF assms(1-4)] by blast
  obtain data opts where job: "webhookJob False body h = (data, opts)" by fastforce
  have h: "h \<in> set hooks" using assms(5,6) hooks(1) by simp
  then have broker: "webhookBroker_handle M ?Q e w = (Inr (), w\<lparr>w_calls := w_calls w @
      [QueueAddBulk WEBHOOK_EXECUTION (map (webhookJob False body) hooks)]\<rparr>)"
    using hooks(2) by (auto simp: Let_def)
  have "find (\<lambda>d. wh_id d = wh_id h \<and> \<not> wh_isDeleted d) (db_webhooks (w_db w)) = Some h"
    by (rule find_by_key[OF assms(2,5)]) (use assms(6) in \<open>auto simp: listens_def\<close>)
  then have "WebhookProcessor_process M sign ?Q data w = (Inr (), w\<lparr>w_calls := w_calls w @
      [SignedPost (wh_url h) \<lparr>wp_body = body, wp_timestamp = Some (w_now w), wp_metadata = wh_metadata h\<rparr> s]\<rparr>)"
    using job assms(6,7) mongo_driver.model_ops[OF mongo_driverI[OF assms(1)]]
    by (auto simp: webhookJob_def WebhookProcessor_process_def executeWebhook_def bind_io_run
        WebhookRepository_getById_def Let_def listens_def callService_def lift_io_def split: option.split)
  moreover have "(data, opts) \<in> set (map (webhookJob False body) hooks)" using h job by force
  ultimately show ?thesis
    unfolding posted_def using assms(2) broker by (intro conjI exI) (assumption | simp)+
qed

definition bridge_webhook :: "string \<Rightarrow> WebhookType \<Rightarrow> Webhook" where
  "bridge_webhook i ty = \<lparr>wh_id = i, wh_status = WH_ACTIVE, wh_scope = SCOPE_GLOBAL,
     wh_url = ''http://f'', wh_type = ty, wh_assure = False, wh_dataSourceId = None,
     wh_metadata = None, wh_isDeleted = False\<rparr>"

definition bridge_world :: world where
  "bridge_world = example_world\<lparr>w_db := example_db\<lparr>db_webhooks :=
     [bridge_webhook ''h1'' WT_SYNC_CONNECTION_CREATED, bridge_webhook ''h2'' WT_DATA_SOURCE_DELETED]\<rparr>\<rparr>"

definition bridge_app :: fs_app where
  "bridge_app = \<lparr>fa_env = example_env, fa_draws = example_draws, fa_apiKeys = [],
     fa_validate = validateDto, fa_verify = (\<lambda>_ s. s = ''sig'')\<rparr>"

theorem form_sync_follows_witness:
  "\<exists>p fw1. posted listMongo (\<lambda>_. Inr ''sig'') (ConnectionCreated example_connection) bridge_world p ''sig'' \<and>
     fs_handle bridge_app CreatedRoute None (Some ''sig'') (payloadFields (\<lambda>_. ''now'') p)
       (example_fs_world\<lparr>fw_dataSources := [], fw_google := []\<rparr>) = Some (FsSuccess, fw1) \<and>
     map gd_spreadsheetId (fw_google fw1) = [''spr'']"
proof -
  let ?sign = "\<lambda>_. Inr ''sig'' :: js_error + string"
  let ?fw = "example_fs_world\<lparr>fw_dataSources := [], fw_google := []\<rparr>"
  have hooks: "db_webhooks (w_db bridge_world) =
      [bridge_webhook ''h1'' WT_SYNC_CONNECTION_CREATED, bridge_webhook ''h2'' WT_DATA_SOURCE_DELETED]"
    "w_tx bridge_world = None" "db_sources (w_db bridge_world) = [example_source]"
    by (simp_all add: bridge_world_def example_defs)
  have ids: "distinct (map wh_id (db_webhooks (w_db bridge_world)))"
    by (simp add: hooks bridge_webhook_def)
  have c: "sc_sourceId example_connection = ''d1''" "ds_id example_source = ''d1''"
    "ds_provider_type example_source = GOOGLE_SHEETS" "ds_config example_source = example_config"
    by (simp_all add: example_defs)
  obtain p1 where p1: "posted listMongo ?sign (ConnectionCreated example_connection) bridge_world p1 ''sig''"
    using posted_listener[OF listMongo_ok ids _ creation_described[OF listMongo_ok _ hooks(2)], of
        example_connection example_source "bridge_webhook ''h1'' WT_SYNC_CONNECTION_CREATED" ?sign "''sig''"]
    by (fastforce simp: hooks c listens_def bridge_webhook_def)
  obtain p2 where p2: "posted listMongo ?sign (DataSourceDeleted (sc_sourceId example_connection) None)
      bridge_world p2 ''sig''"
    using posted_listener[OF listMongo_ok ids, of "DataSourceDeleted ''d1'' None" WT_DATA_SOURCE_DELETED "''d1''"
        "DataSourceDeletedWebhookPayload ''d1'' None" "bridge_webhook ''h2'' WT_DATA_SOURCE_DELETED" ?sign "''sig''"]
    by (fastforce simp: hooks c listens_def bridge_webhook_def return_io_def)
  have app: "class_validator (fa_validate bridge_app)" "fs_env_ok (fa_env bridge_app)"
    "\<forall>cs. fe_queue (fa_env bridge_app) cs = Inr ()"
    "\<And>p s. ?sign p = Inr s \<Longrightarrow> fa_verify bridge_app (JObj (payloadFields (\<lambda>_. ''now'') p)) s"
    using dto.class_validator_axioms example_env_ok example_env_answers(2)
    by (simp_all add: bridge_app_def)
  have fresh: "\<forall>d \<in> set (fw_dataSources ?fw). fd_id d \<noteq> sc_sourceId example_connection"
    "\<forall>d \<in> set (fw_google ?fw). gd_id d \<noteq> sc_sourceId example_connection"
    "\<forall>d \<in> set (fw_excel ?fw). xd_id d \<noteq> sc_sourceId example_connection"
    by (simp_all add: fs_example_defs c)
  show ?thesis
    using form_sync_follows [OF listMongo_ok app p1 p2 _ hooks(2) _ _ _ _ _ fresh, of example_source
        "''rt''" "''spr''" "''7''" None None] p1
    by (fastforce simp: hooks c example_config_def)
qed

end
