(* ===== verification/Microservice.thy ===== *)
theory Microservice
  imports Events
begin

text \<open>
  The context strategy that every application installs (\<open>libs/microservice\<close>): Nest keeps the
  durable providers of a module once for every type of data provider, which it reads from the headers
  of a request or of a broker message. Other requests get a subtree of their own.
\<close>

section \<open>Requests\<close>

text \<open>\<open>ContextIdFactory.create\<close> gives a new id at each call: the state is the next one.\<close>

type_synonym contextId = nat

record strategy =
  str_providers :: "(string \<times> contextId) list"
  str_next :: contextId

text \<open>The map is built when the module is loaded: one id for each value of \<open>ProviderType\<close>.\<close>

definition loadStrategy :: "contextId \<Rightarrow> strategy" where
  "loadStrategy n = (let ts = map showProviderType [GOOGLE_SHEETS, MICROSOFT_EXCEL, AIR_TABLE] in
     \<lparr>str_providers = zip ts [n ..< n + length ts], str_next = n + length ts\<rparr>)"

text \<open>A request has headers of its own (HTTP), or a context whose message may have some.\<close>

record context_request =
  rq_headers :: "(string \<times> string) list option"
  rq_messageHeaders :: "(string \<times> string) list option"

definition providerTypeOf :: "context_request \<Rightarrow> string option" where
  "providerTypeOf r = (case (case rq_headers r of Some h \<Rightarrow> Some h | None \<Rightarrow> rq_messageHeaders r) of
     None \<Rightarrow> None
   | Some h \<Rightarrow> if truthy_str (map_of h ''x-provider-type'') then map_of h ''x-provider-type''
       else map_of h ''provider-type'')"

text \<open>\<open>providerType && providers.has(providerType)\<close>, and what it maps to.\<close>

definition subTreeOf :: "strategy \<Rightarrow> string option \<Rightarrow> contextId option" where
  "subTreeOf s providerType =
    (if truthy_str providerType then map_of (str_providers s) (the providerType) else None)"

text \<open>The answer: \<open>resolve\<close>, by whether the tree is durable, and the payload.\<close>

definition attach :: "contextId \<Rightarrow> context_request \<Rightarrow> strategy \<Rightarrow> ((bool \<Rightarrow> contextId) \<times> string option) \<times> strategy" where
  "attach contextId request s = (let providerType = providerTypeOf request in
     case subTreeOf s providerType of
       Some subTree \<Rightarrow> ((\<lambda>durable. if durable then subTree else contextId, providerType), s)
     | None \<Rightarrow> ((\<lambda>durable. if durable then str_next s else contextId, providerType), s\<lparr>str_next := Suc (str_next s)\<rparr>))"

section \<open>Subtrees\<close>

text \<open>The ids of the map are in use, and differ.\<close>

definition strategy_ok :: "strategy \<Rightarrow> bool" where
  "strategy_ok s \<longleftrightarrow> distinct (map snd (str_providers s)) \<and> (\<forall>i \<in> snd ` set (str_providers s). i < str_next s)"

lemma loadStrategy_ok: "strategy_ok (loadStrategy n)"
  by (auto simp: strategy_ok_def loadStrategy_def Let_def set_zip)

lemma attach_ok: "strategy_ok s \<Longrightarrow> strategy_ok (snd (attach c r s))"
  by (auto simp: strategy_ok_def attach_def Let_def less_Suc_eq split: option.split)

lemma attach_keeps: "str_providers (snd (attach c r s)) = str_providers s"
  by (auto simp: attach_def Let_def split: option.split)

text \<open>Two requests, however far apart, share their durable tree exactly if they name the same known
  type. The trees that are not durable are those of the requests.\<close>

lemma subTree_known:
  "subTreeOf s p \<noteq> None \<longleftrightarrow> (\<exists>x. p = Some x \<and> x \<noteq> [] \<and> x \<in> fst ` set (str_providers s))"
proof (cases p)
  case (Some x)
  then show ?thesis using map_of_eq_None_iff[of "str_providers s" x] by (auto simp: subTreeOf_def)
qed (simp add: subTreeOf_def)

lemma subTree_inj:
  assumes "strategy_ok s" and "subTreeOf s p = Some i" and "subTreeOf s q = Some i"
  shows "p = q" and "i < str_next s"
proof -
  obtain x y where xy: "p = Some x" "q = Some y" "(x, i) \<in> set (str_providers s)" "(y, i) \<in> set (str_providers s)"
    using assms(2,3) by (cases p; cases q) (auto simp: subTreeOf_def dest: map_of_SomeD split: if_splits)
  then show "i < str_next s" using assms(1) by (force simp: strategy_ok_def)
  have "inj_on snd (set (str_providers s))" using assms(1) by (simp add: strategy_ok_def distinct_map)
  from inj_onD[OF this _ xy(3,4)] show "p = q" using xy(1,2) by simp
qed

theorem durable_trees_shared:
  assumes "strategy_ok s" and "str_providers s' = str_providers s"
    and "attach c r s = (a, s1)" and "attach c' r' s' = (a', s2)" and "str_next s1 \<le> str_next s'"
  shows "fst a True = fst a' True \<longleftrightarrow> providerTypeOf r = providerTypeOf r' \<and>
      (\<exists>p. providerTypeOf r = Some p \<and> p \<noteq> [] \<and> p \<in> fst ` set (str_providers s))"
    and "fst a False = c"
proof -
  let ?p = "providerTypeOf r" and ?q = "providerTypeOf r'"
  have same: "subTreeOf s' = subTreeOf s" using assms(2) by (auto simp: subTreeOf_def)
  show "fst a False = c" using assms(3) by (auto simp: attach_def Let_def split: option.splits)
  consider (both) i j where "subTreeOf s ?p = Some i" "subTreeOf s ?q = Some j" | (left) i where
      "subTreeOf s ?p = Some i" "subTreeOf s ?q = None" | (none) "subTreeOf s ?p = None" by fastforce
  then show "fst a True = fst a' True \<longleftrightarrow> ?p = ?q \<and> (\<exists>x. ?p = Some x \<and> x \<noteq> [] \<and> x \<in> fst ` set (str_providers s))"
  proof cases
    case both
    then have "fst a True = i" "fst a' True = j" using assms(3,4) same by (auto simp: attach_def Let_def)
    then show ?thesis using both subTree_inj(1)[OF assms(1)] subTree_known[of s ?p] by auto
  next
    case left
    then have "fst a True = i" "fst a' True = str_next s'" "s1 = s"
      using assms(3,4) same by (auto simp: attach_def Let_def)
    then show ?thesis using left subTree_inj(2)[OF assms(1) left(1,1)] assms(5) by auto
  next
    case none
    then have "fst a True = str_next s" "str_next s1 = Suc (str_next s)" using assms(3) by (auto simp: attach_def Let_def)
    moreover have "fst a' True = str_next s' \<or> (\<exists>j. subTreeOf s ?q = Some j \<and> fst a' True = j)"
      using assms(4) same by (auto simp: attach_def Let_def split: option.splits)
    ultimately have "fst a True \<noteq> fst a' True" using subTree_inj(2)[OF assms(1)] assms(5) by fastforce
    then show ?thesis using none subTree_known[of s ?p] by blast
  qed
qed

text \<open>The type in the headers of a request, and the same in those of a message.\<close>

theorem durable_trees_shared_witness:
  "let s = loadStrategy 0;
       r = \<lparr>rq_headers = Some [(''provider-type'', ''google-sheets'')], rq_messageHeaders = None\<rparr>;
       r' = \<lparr>rq_headers = None, rq_messageHeaders = Some [(''x-provider-type'', ''google-sheets'')]\<rparr>
   in fst (fst (attach 7 r s)) True = fst (fst (attach 8 r' s)) True"
  unfolding Let_def
  by (subst durable_trees_shared(1) [OF loadStrategy_ok refl prod.collapse[symmetric] prod.collapse[symmetric]])
    (simp_all add: attach_def subTreeOf_def providerTypeOf_def loadStrategy_def Let_def numeral_2_eq_2 upt_rec
      zip_Cons_Cons)

end
