(* ===== verification/CommonUtils.thy ===== *)
theory CommonUtils
  imports Store
begin

text \<open>
  The class \<open>Utils\<close> that the applications share as copies (\<open>apps/*/src/common/utils.ts\<close>), modelled
  from the configurator's copy: retrying, asynchronous filtering, pagination options, object ids and
  string helpers. The paginate of a model, the pipeline runner and the ObjectId constructor are
  parameters. Encryption, password hashing and the user of a token only call a library.
\<close>

section \<open>Retrying\<close>

text \<open>A promise may stay pending for ever.\<close>

datatype ('e, 'a) settled = Resolved 'a | Rejected 'e | Pending

definition wait :: "int \<Rightarrow> world \<Rightarrow> world" where
  "wait ms w = w\<lparr>w_now := w_now w + max 0 ms\<rparr>"

text \<open>\<open>retryFn(operation, retries, delay)\<close>. The retry is \<open>this.retryFn.bind(null, ...)\<close>: in the call
  through it \<open>this\<close> is \<open>null\<close>, and reading \<open>this.retryFn\<close> there throws inside the callback of
  \<open>catch\<close>, so that neither \<open>resolve\<close> nor \<open>reject\<close> is ever called. \<open>bound\<close> says that \<open>this\<close> is the
  class.\<close>

function retryFn :: "bool \<Rightarrow> 'a act \<Rightarrow> int \<Rightarrow> int \<Rightarrow> world \<Rightarrow> (js_error, 'a) settled \<times> world" where
  "retryFn bound operation retries delay w = (case operation w of
     (Inr x, w1) \<Rightarrow> (Resolved x, w1)
   | (Inl reason, w1) \<Rightarrow>
       if retries > 0 then
         (if bound then retryFn False operation (retries - 1) delay (wait delay w1)
          else (Pending, w1))
       else (Rejected reason, w1))"
  by pat_completeness auto

termination by (relation "measure (\<lambda>(_, _, retries, _, _). nat retries)") auto

declare retryFn.simps [simp del]

section \<open>Asynchronous filter\<close>

definition asyncFilter :: "('a \<Rightarrow> bool act) \<Rightarrow> 'a list \<Rightarrow> 'a list act" where
  "asyncFilter predicate arr =
    bind_io (map_io predicate arr) (\<lambda>results. return_io (map fst (filter snd (zip arr results))))"

section \<open>Object ids\<close>

definition isObjectId :: "(string \<Rightarrow> js_error + oid) \<Rightarrow> string \<Rightarrow> bool" where
  "isObjectId newObjectId' str = (case newObjectId' str of Inr _ \<Rightarrow> True | Inl _ \<Rightarrow> False)"

fun toObjectIds :: "(string \<Rightarrow> js_error + oid) \<Rightarrow> string list \<Rightarrow> js_error + oid list" where
  "toObjectIds newObjectId' [] = Inr []"
| "toObjectIds newObjectId' (s # ss) = (case newObjectId' s of
     Inl e \<Rightarrow> Inl e
   | Inr i \<Rightarrow> (case toObjectIds newObjectId' ss of Inl e \<Rightarrow> Inl e | Inr is \<Rightarrow> Inr (i # is)))"

section \<open>Pagination\<close>

record paging_query =
  pq_page :: "json option"
  pq_limit :: "json option"
  pq_sort :: "json option"
  pq_projection :: "(string \<times> json) list option"

record paging_options =
  po_page :: "json option"
  po_limit :: "json option"
  po_sort :: json
  po_projection :: "(string \<times> json) list option"

definition defaultSort :: json where
  "defaultSort = JObj [(''createdAt'', JStr ''desc'')]"

fun truthySort :: "json option \<Rightarrow> bool" where
  "truthySort None = False"
| "truthySort (Some JNull) = False"
| "truthySort (Some (JBool b)) = b"
| "truthySort (Some (JNum n)) = (n \<noteq> 0)"
| "truthySort (Some (JStr s)) = (s \<noteq> [])"
| "truthySort (Some _) = True"

definition pagingOptions :: "paging_query \<Rightarrow> paging_options" where
  "pagingOptions query = \<lparr>po_page = pq_page query, po_limit = pq_limit query,
     po_sort = (if truthySort (pq_sort query) then the (pq_sort query) else defaultSort),
     po_projection = None\<rparr>"

text \<open>Only \<open>'0'\<close> and \<open>'1'\<close> count in a projection.\<close>

fun projection :: "(string \<times> json) list \<Rightarrow> (string \<times> json) list" where
  "projection [] = []"
| "projection ((key, v) # rest) =
    (if v = JStr ''0'' then (key, JNum 0) # projection rest
     else if v = JStr ''1'' then (key, JNum 1) # projection rest
     else projection rest)"

definition paginate :: "('m \<Rightarrow> paging_options \<Rightarrow> 'r act) \<Rightarrow> 'm \<Rightarrow> paging_query \<Rightarrow> 'r act" where
  "paginate model_paginate criteria query = model_paginate criteria
     ((pagingOptions query)\<lparr>po_projection := map_option projection (pq_projection query)\<rparr>)"

definition aggregatePaginate :: "(json list \<Rightarrow> paging_options \<Rightarrow> 'r act) \<Rightarrow> json list \<Rightarrow> paging_query \<Rightarrow> 'r act"
  where
  "aggregatePaginate model_aggregatePaginate pipe query = model_aggregatePaginate pipe
     ((pagingOptions query)\<lparr>po_projection := pq_projection query\<rparr>)"

text \<open>\<open>countAggregation\<close>: the count stage answers with no document when there is nothing to count.\<close>

definition countStage :: json where
  "countStage = JObj [(''$count'', JStr ''count'')]"

definition countAggregation :: "(json list \<Rightarrow> json list act) \<Rightarrow> json list \<Rightarrow> json option act" where
  "countAggregation aggregate pipe =
    bind_io (aggregate (pipe @ [countStage])) (\<lambda>docs. return_io (case docs of
      [] \<Rightarrow> Some (JNum 0)
    | JObj xs # _ \<Rightarrow> map_of xs ''count''
    | _ # _ \<Rightarrow> None))"

section \<open>Strings\<close>

definition getShortAddress :: "string \<Rightarrow> string" where
  "getShortAddress address = (if length address \<le> 10 then address
     else take 6 address @ ''...'' @ drop (length address - 4) address)"

definition convertToBytes :: "string \<Rightarrow> string" where
  "convertToBytes str = ''0x'' @ str"

definition convertBytesToString :: "string \<Rightarrow> string" where
  "convertBytesToString str = drop 2 str"

definition isEmpty :: "string option \<Rightarrow> bool" where
  "isEmpty str \<longleftrightarrow> \<not> truthy_str str"

definition isHex :: "char \<Rightarrow> bool" where
  "isHex c \<longleftrightarrow> c \<in> set ''0123456789abcdefABCDEF''"

text \<open>\<open>/^0x([A-Fa-f0-9]{64})$/\<close>.\<close>

definition isValidateHash :: "string \<Rightarrow> bool" where
  "isValidateHash hash \<longleftrightarrow> take 2 hash = ''0x'' \<and> length hash = 66 \<and> (\<forall>c \<in> set (drop 2 hash). isHex c)"

text \<open>The class of \<open>escapeSpecialChars\<close>; 39 is the quote and 92 the backslash.\<close>

definition specialChars :: string where
  "specialChars = ''!@#$%^&*()+=-[]'' @ [CHR 92, CHR 39] @ '';,./{}|'' @ [CHR 34] @ '':<>?~_''"

definition escapeSpecialChars :: "string \<Rightarrow> string" where
  "escapeSpecialChars str = concat (map (\<lambda>c. if c \<in> set specialChars then [CHR 92, c] else [c]) str)"

section \<open>Facts\<close>

text \<open>The operation is called at most twice. A second failure settles the promise only when a single
  retry was asked for; with more, as by default, the promise stays pending.\<close>

lemma retry_once:
  assumes "0 < retries" and "operation w = (Inl e1, w1)"
    and "operation (wait delay w1) = (r2, w2)"
  shows "retryFn True operation retries delay w =
    (case r2 of
       Inr x \<Rightarrow> (Resolved x, w2)
     | Inl e2 \<Rightarrow> (if retries = 1 then Rejected e2 else Pending, w2))"
  using assms by (simp add: retryFn.simps split: sum.split)

lemma retry_pending:
  assumes "operation w = (Inl e1, w1)" and "operation (wait 500 w1) = (Inl e2, w2)"
  shows "retryFn True operation 3 500 w = (Pending, w2)"
  using retry_once[OF _ assms, of 3] by simp

text \<open>With a predicate that only looks, \<open>asyncFilter\<close> is \<open>filter\<close>.\<close>

lemma filter_zip: "map fst (filter snd (zip xs (map p xs))) = filter p xs"
  by (induction xs) simp_all

lemma asyncFilter_pure:
  assumes "\<And>x w. predicate x w = (Inr (p x), w)"
  shows "asyncFilter predicate xs = return_io (filter p xs)"
proof -
  have "map_io predicate xs = return_io (map p xs)"
    using assms by (induction xs) (auto simp: bind_io_run fun_eq_iff)
  then show ?thesis by (simp add: asyncFilter_def fun_eq_iff bind_io_run filter_zip)
qed

lemma toObjectIds_length: "toObjectIds f ss = Inr is \<Longrightarrow> length is = length ss"
  by (induction ss arbitrary: "is") (auto split: sum.splits)

lemma toObjectIds_invalid: "(\<exists>e. toObjectIds f ss = Inl e) \<longleftrightarrow> (\<exists>s \<in> set ss. \<not> isObjectId f s)"
  by (induction ss) (fastforce simp: isObjectId_def split: sum.splits)+

lemma bytes_roundtrip:
  "convertBytesToString (convertToBytes s) = s"
  "convertToBytes (convertBytesToString b) = b \<longleftrightarrow> take 2 b = ''0x''"
proof -
  show "convertBytesToString (convertToBytes s) = s"
    by (simp add: convertToBytes_def convertBytesToString_def)
  show "convertToBytes (convertBytesToString b) = b \<longleftrightarrow> take 2 b = ''0x''"
  proof
    assume "convertToBytes (convertBytesToString b) = b"
    then have "take 2 b = take 2 (''0x'' @ drop 2 b)"
      by (simp only: convertToBytes_def convertBytesToString_def)
    then show "take 2 b = ''0x''" by simp
  next
    assume "take 2 b = ''0x''"
    then have "''0x'' @ drop 2 b = b" using append_take_drop_id[of 2 b] by (simp only:)
    then show "convertToBytes (convertBytesToString b) = b"
      by (simp only: convertToBytes_def convertBytesToString_def)
  qed
qed

lemma short_address_length: "length (getShortAddress a) \<le> 13"
  by (simp add: getShortAddress_def)

fun unescape :: "string \<Rightarrow> string" where
  "unescape (c # d # cs) = (if c = CHR 92 then d # unescape cs else c # unescape (d # cs))"
| "unescape cs = cs"

lemma unescape_plain: "c \<noteq> CHR 92 \<Longrightarrow> unescape (c # cs) = c # unescape cs"
  by (cases cs) simp_all

lemma escape_roundtrip: "unescape (escapeSpecialChars s) = s"
  by (induction s) (auto simp: escapeSpecialChars_def specialChars_def unescape_plain)

end
