(* ===== verification/Spec2Isabelle.thy ===== *)
theory Spec2Isabelle
  imports Lifecycle SyncCycle FirstSync PipelineOutcomes Redelivery Interleaving LostUpdates
    Deployment DestinationApi FormSyncBridge RateLimiter Microservice CommonUtils
begin

text \<open>
  Starion Sync keeps tables of a user's spreadsheets (Google Sheets, Microsoft Excel) in step with a
  destination store. This development models the TypeScript programs of the repository, under
  \<open>src/\<close>, and proves what makes them correct.

  \<^bold>\<open>The program.\<close> The configurator creates data providers, data sources and sync connections and
  deletes them again. A sync connection embeds syncflows; each has a trigger. The cron and webhook
  trigger applications turn a schedule or a Google Drive notification into the event
  \<open>WORKFLOW_TRIGGERED\<close>. The controller decides whether the syncflow may run, marks it scheduled and
  emits an event of its own, on which the worker starts a Temporal workflow: download, compare,
  load, each step an HTTP call of a processor. The workflow reports success or failure, and the
  post-processor updates the statistics and cleans up, or stops the connection. The webhook
  application forwards events to the webhooks of the user. The applications share one MongoDB
  store and talk by events on a broker. The form-sync application is a second system, with a
  store of its own: it carries rows submitted through a form into a spreadsheet.

  \<^bold>\<open>Effects.\<close> \<open>Prelude\<close> models an asynchronous function as a function from a state to a result (a
  value or a thrown error) and a state; nothing is undone by a throw. \<open>Promise.all\<close> and the loops
  that await their body run in order. \<open>Store\<close> has the state: the collections, the view of an open
  transaction, the supply of object ids, the clock, the events emitted and the calls made. What the
  program only calls (MongoDB through mongoose, Temporal, Redis queues, the Google and Microsoft
  services, the processors, TypeORM) is a parameter. Answers of services are functions of the calls
  made so far, so that they may change from call to call. The laws that proofs use of MongoDB are the
  locale \<open>mongo_driver\<close> of \<open>Store\<close>, assuming \<open>mongo_ok\<close>, and hold of the list store \<open>listMongo\<close>.

  \<^bold>\<open>Theories, and what they model.\<close>
  \<^item> \<open>CoreEntities\<close>, \<open>Events\<close>, \<open>Errors\<close>: \<open>libs/core/src\<close>, the entities, enums, registries, event names
    and payloads, and the error classes with their translation on the way out of a worker activity.
  \<^item> \<open>ProviderRepository\<close>, \<open>SyncflowRepository\<close>, \<open>TriggerRepository\<close>, \<open>ConnectionRepository\<close>,
    \<open>SourceRepository\<close>: \<open>libs/modules/src/repository\<close>, one definition per method. \<open>Sessions\<close>, \<open>Cascade\<close>,
    \<open>Deletion\<close> and \<open>Creation\<close> state what the composed operations do to the committed store: the
    deletion cascade as a function on stores, which the code run in a transaction refines.
  \<^item> \<open>ThirdParty\<close>, \<open>Orchestrator\<close>: \<open>libs/modules/src/{third-party,orchestrator}\<close>.
  \<^item> \<open>Controller\<close>, \<open>ControllerWorkflows\<close>: \<open>apps/controller\<close>, as the broker and as Temporal call it.
    \<open>WorkerActivities\<close>, \<open>WorkerWorkflows\<close>, \<open>Worker\<close>, \<open>Workers\<close>: \<open>apps/worker\<close>, with what the Temporal
    worker registers and the converter of its payloads. \<open>PostProcessor\<close>: \<open>apps/post-processor\<close>.
  \<^item> \<open>Discoverer\<close>, \<open>ConnectionService\<close>, \<open>SourceService\<close>, \<open>ConfiguratorApi\<close>: \<open>apps/configurator\<close>, its
    services, its workflows, and its HTTP interface with guard, controllers and exception filter.
    \<open>Validation\<close>, \<open>RequestBodies\<close>: the data transfer objects with their types and decorators, and the
    requests as JSON bodies. \<open>DestinationData\<close>, \<open>DestinationApi\<close>: the SQL by which it reads schema and data
    of a source from the destination database (\<open>libs/modules/src/dest-database\<close>).
  \<^item> \<open>CronTriggers\<close>, \<open>WebhookTriggers\<close>: \<open>apps/triggers\<close>. \<open>WebhookDispatch\<close>: \<open>apps/webhook\<close>.
  \<^item> \<open>FormSyncUtils\<close>, \<open>FormSyncStore\<close>, \<open>FormSyncServices\<close>, \<open>FormSyncGoogle\<close>, \<open>FormSyncExcel\<close>,
    \<open>FormSyncService\<close>, \<open>FormSyncProperties\<close>: \<open>form-sync/main\<close>; \<open>FormSyncApi\<close>: its HTTP interface;
    \<open>FormSyncBridge\<close>: the webhook application and form-sync joined by the posted payloads.
  \<^item> \<open>Configuration\<close>: what the applications read from the environment, and the databases, the broker and
    the API keys that follow from it. \<open>Deployment\<close>: the Temporal client and workers of the applications, and
    which of them runs what another starts. \<open>Microservice\<close>: \<open>libs/microservice\<close>, which requests share the
    dependency tree of a provider type.
  \<^item> \<open>RateLimiter\<close>: \<open>harmonies/rate-limiter\<close>. \<open>CommonUtils\<close>: the class \<open>Utils\<close> of the applications'
    \<open>common/utils.ts\<close>, which most of the program does not use.
  \<^item> \<open>Frames\<close>, \<open>Lifecycle\<close>, \<open>SyncCycle\<close>: the applications together, as calls in any order.
    \<open>SyncPipeline\<close>: controller, worker and post-processor joined by a broker that delivers every emitted
    event; \<open>FirstSync\<close> puts the configurator in front, \<open>PipelineOutcomes\<close> lets the services fail, and in
    \<open>Redelivery\<close> the broker delivers every event twice. \<open>Examples\<close>: the documents on which the witnesses
    evaluate.
  \<^item> \<open>Processes\<close>: calls that can be interrupted at their awaits, threads with sessions, and their
    interleavings. \<open>Interleaving\<close>: any number of triggers that fire at once in the controller;
    \<open>LostUpdates\<close>: any number of success events at once in the post-processor.

  A record has the fields of the class or document type it models, with a prefix of its own; a
  definition has the name of its method, after the class where several classes share it. A field
  that may be absent is an option. Numbers are unbounded integers: the code computes with counts,
  versions, row numbers and milliseconds, all far below the range in which JavaScript is exact.

  \<^bold>\<open>Lemma groups.\<close>
  \<^item> Interfaces are locales: the driver (\<open>mongo_driver\<close>), the syncflow repository as its clients see
    it (\<open>ISyncflowRepository\<close>), the activities as the workflows see them (\<open>worker_activities\<close>), the form-sync service
    \<open>form_sync_service\<close>, and the meaning of the validation decorators (\<open>class_validator\<close>). Each is
    interpreted on the definitions that provide it.
  \<^item> \<open>runs\<close> and \<open>fails\<close> (\<open>Cascade\<close>, \<open>SourceService\<close>) describe functions run in a session; with
    \<open>session_only\<close> they determine a transaction: it commits all of its writes or none.
  \<^item> \<open>keeps\<close> and \<open>maintains\<close> (\<open>Prelude\<close>) are compositional: an operation keeps an observation or a
    predicate when its parts do. The collections \<open>keeps_intros\<close> and \<open>maintains_intros\<close> carry the
    invariant proofs.
  \<^item> The controller: a schedule event is emitted only for a live, idle syncflow with a live trigger,
    at most once. The worker: how a run can end and in what state it leaves the syncflow.
  \<^item> \<open>Lifecycle\<close>: over any sequence of complete calls of any application the store stays well formed,
    every live connection stays complete, and what is deleted stays deleted.
  \<^item> \<open>SyncPipeline\<close>: \<open>emits\<close> bounds by weights what a handler emits, which gives that the pipeline comes to
    rest; one lemma per delivery follows a trigger to the finished sync. \<open>PipelineOutcomes\<close>: the relation \<open>phase\<close>
    says where a run is, by the events still to be delivered; every delivery leads from phase to phase,
    whatever the services answer.
  \<^item> \<open>Validation\<close>: \<open>enforced\<close> decides for a class whether its decorators imply its types;
    \<open>RequestBodies\<close>: a body that is accepted is a typed request.
  \<^item> Form sync: header tables, column names, pending form syncs, who can call what, how a data source of
    the one system gets into the other and out again.

  \<^bold>\<open>Loops.\<close> Loops over data are structural recursions. The search for a free header name
  (\<open>postfixLoop\<close> in \<open>FormSyncUtils\<close>) may not end and is a \<open>partial_function\<close> on options: not returning
  is \<open>None\<close>, and it is proved for which tables it returns. The form-sync error \<open>Hangs\<close> carries that
  outcome to the callers. The column names (\<open>columnLoop\<close>) and the retries (\<open>retryFn\<close>) recurse on
  numbers that decrease. Only the broker (\<open>pump\<close> of \<open>SyncPipeline\<close>) takes fuel, one unit for each delivery;
  \<open>pipeline_terminates\<close> proves that the sum of the weights of the pending events (6 for a trigger) is
  always enough and that more changes nothing. \<open>repump\<close> of \<open>Redelivery\<close> takes fuel in the same way.

  \<^bold>\<open>Interleaving.\<close> The lifecycle steps are complete calls, and a property about two calls is
  one about their sequence, except in \<open>Interleaving\<close> and \<open>LostUpdates\<close>. There the handlers are processes, cut
  at their awaits and shown equal to the definitions of \<open>Controller\<close> and \<open>PostProcessor\<close> when nothing
  interrupts them; a relation says what each stage of a call still has to do (\<open>firing\<close>,
  \<open>succeeding\<close>), every turn of a thread leads from stage to stage, and schedules are built that reach
  each outcome. A transaction reads the store as it was at its start. Conflicts of two
  transactions that write the same document, and the retries of MongoDB, are not modelled; the handler
  of the controller writes outside its transaction and has none.

  \<^bold>\<open>Broker.\<close> The pipeline delivers events in the order of emission and each once, in \<open>Redelivery\<close> each
  twice. Kafka carries JSON, in
  which a date becomes a string: what happens to a payload is the parameter \<open>pl_K\<close>, of which the
  liveness properties assume that it keeps the syncflow and the version.

  \<^bold>\<open>Not modelled.\<close> The Nest modules, which wire; the controllers of the other applications, which only
  forward; their interceptors and exception filters, as they serve no requests but health checks;
  the loggers; the opening of connections to databases, broker and Temporal, whose options are in
  \<open>Configuration\<close> and \<open>Deployment\<close>. The processors (Go and shell) and the form-sync metadata service are called over HTTP and
  are parameters.
\<close>

end
